(* ===== verification/Prelude.thy ===== *)
theory Prelude
  imports Main "HOL-Library.Sublist"
begin

text \<open>
  The shared vocabulary of the development.

  \<^item> Types of the program: identifiers are UUIDs, read as natural numbers in their byte order
    (\<open>uuid.Nil\<close> is 0 and Postgres and \<open>String()\<close> compare them in that order); instants are
    \<open>int\<close> nanoseconds, durations are \<open>int\<close> with the 64-bit wrap-around written out where it
    can matter; a Go string is its list of bytes.
  \<^item> Results: a Go pair \<open>(value, error)\<close> is a sum, \<open>Inl\<close> the error.
  \<^item> The query terminals of the entity client (\<open>Only\<close>, \<open>All\<close>, \<open>Exist\<close>, \<open>Count\<close>):
    their first argument says whether the driver fails at that call.
  \<^item> Generic lemmas on lists the components share.
\<close>

type_synonym uuid = nat
type_synonym time = int
type_synonym duration = int

abbreviation (input) uuid_Nil :: uuid where
  "uuid_Nil \<equiv> 0"

text \<open>\<open>result_simps\<close> carries case analysis on results, \<open>table_simps\<close> the table updates.\<close>

named_theorems result_simps
named_theorems table_simps

section \<open>Go results\<close>

definition and_then :: "'e + 'a \<Rightarrow> ('a \<Rightarrow> 'e + 'b) \<Rightarrow> 'e + 'b" where
  "and_then r k = (case r of Inl e \<Rightarrow> Inl e | Inr x \<Rightarrow> k x)"

lemma and_then_simps [simp]:
  "and_then (Inl e) k = Inl e"
  "and_then (Inr x) k = k x"
  by (simp_all add: and_then_def)

lemma and_then_Inr [result_simps]:
  "and_then r k = Inr y \<longleftrightarrow> (\<exists>x. r = Inr x \<and> k x = Inr y)"
  by (cases r) auto

lemma and_then_Inl [result_simps]:
  "and_then r k = Inl e \<longleftrightarrow> r = Inl e \<or> (\<exists>x. r = Inr x \<and> k x = Inl e)"
  by (cases r) auto

text \<open>An early return: \<open>if cond { return err }\<close>.\<close>

definition fail_if :: "bool \<Rightarrow> 'e \<Rightarrow> 'e + unit" where
  "fail_if b e = (if b then Inl e else Inr ())"

lemma fail_if_Inr [result_simps]: "fail_if b e = Inr u \<longleftrightarrow> \<not> b"
  by (simp add: fail_if_def)

lemma fail_if_Inl [result_simps]: "fail_if b e = Inl e' \<longleftrightarrow> b \<and> e' = e"
  by (auto simp: fail_if_def)

lemma fail_if_simps [simp]: "fail_if False e = Inr ()" "fail_if True e = Inl e"
  by (simp_all add: fail_if_def)

section \<open>Query terminals of the entity client\<close>

datatype ent_error = NotFoundError | NotSingularError | ConstraintError | DriverError

definition ent_only :: "bool \<Rightarrow> 'a list \<Rightarrow> ent_error + 'a" where
  "ent_only broken rows =
     (if broken then Inl DriverError
      else case rows of [] \<Rightarrow> Inl NotFoundError | [x] \<Rightarrow> Inr x | _ \<Rightarrow> Inl NotSingularError)"

definition ent_all :: "bool \<Rightarrow> 'a list \<Rightarrow> ent_error + 'a list" where
  "ent_all broken rows = (if broken then Inl DriverError else Inr rows)"

definition ent_exist :: "bool \<Rightarrow> 'a list \<Rightarrow> ent_error + bool" where
  "ent_exist broken rows = (if broken then Inl DriverError else Inr (rows \<noteq> []))"

definition ent_count :: "bool \<Rightarrow> 'a list \<Rightarrow> ent_error + nat" where
  "ent_count broken rows = (if broken then Inl DriverError else Inr (length rows))"

lemma ent_only_Inr [result_simps]: "ent_only b rows = Inr x \<longleftrightarrow> \<not> b \<and> rows = [x]"
  by (auto simp: ent_only_def split: list.splits)

lemma ent_only_NotFound [result_simps]: "ent_only b rows = Inl NotFoundError \<longleftrightarrow> \<not> b \<and> rows = []"
  by (auto simp: ent_only_def split: list.splits)

lemma ent_all_Inr [result_simps]: "ent_all b rows = Inr xs \<longleftrightarrow> \<not> b \<and> xs = rows"
  by (auto simp: ent_all_def)

lemma ent_exist_Inr [result_simps]: "ent_exist b rows = Inr v \<longleftrightarrow> \<not> b \<and> v = (rows \<noteq> [])"
  by (auto simp: ent_exist_def)

lemma ent_count_Inr [result_simps]: "ent_count b rows = Inr n \<longleftrightarrow> \<not> b \<and> n = length rows"
  by (auto simp: ent_count_def)

text \<open>Replacing an error value of a query by the error the caller returns.\<close>

definition on_err :: "'e + 'a \<Rightarrow> ('e \<Rightarrow> 'f) \<Rightarrow> 'f + 'a" where
  "on_err r f = (case r of Inl e \<Rightarrow> Inl (f e) | Inr x \<Rightarrow> Inr x)"

lemma on_err_simps [simp]: "on_err (Inl e) f = Inl (f e)" "on_err (Inr x) f = Inr x"
  by (simp_all add: on_err_def)

lemma on_err_Inr [result_simps]: "on_err r f = Inr x \<longleftrightarrow> r = Inr x"
  by (cases r) auto

section \<open>Tables as lists of rows\<close>

text \<open>\<open>UPDATE \<dots> SET \<dots> WHERE \<dots>\<close>, and the number of rows it affects.\<close>

definition update_where :: "('a \<Rightarrow> bool) \<Rightarrow> ('a \<Rightarrow> 'a) \<Rightarrow> 'a list \<Rightarrow> 'a list" where
  "update_where P f rows = map (\<lambda>r. if P r then f r else r) rows"

definition affected :: "('a \<Rightarrow> bool) \<Rightarrow> 'a list \<Rightarrow> nat" where
  "affected P rows = length (filter P rows)"

lemma update_where_simps [table_simps]:
  "update_where P f [] = []"
  "update_where P f (r # rs) = (if P r then f r else r) # update_where P f rs"
  by (simp_all add: update_where_def)

lemma length_update_where [simp]: "length (update_where P f rows) = length rows"
  by (simp add: update_where_def)

lemma update_where_none: "(\<And>r. r \<in> set rows \<Longrightarrow> \<not> P r) \<Longrightarrow> update_where P f rows = rows"
  by (simp add: update_where_def map_idI)

lemma affected_0: "affected P rows = 0 \<longleftrightarrow> (\<forall>r\<in>set rows. \<not> P r)"
  by (auto simp: affected_def filter_empty_conv)

lemma update_where_key:
  assumes "\<And>r. k (f r) = k r"
  shows "map k (update_where P f rows) = map k rows"
  using assms by (auto simp: update_where_def)

lemma in_update_where:
  "r \<in> set (update_where P f rows) \<longleftrightarrow>
     (\<exists>r0\<in>set rows. r = (if P r0 then f r0 else r0))"
  by (auto simp: update_where_def)

lemma bex_update_where: "(\<exists>y\<in>set (update_where P f rows). Q y) \<longleftrightarrow> (\<exists>r\<in>set rows. Q (if P r then f r else r))"
  unfolding in_update_where Bex_def by blast

lemma update_where_hit:
  assumes "r \<in> set (update_where (\<lambda>r. k r = i) f rows)" and "k r = i" and "\<And>r. k (f r) = k r"
  obtains r0 where "r0 \<in> set rows" "k r0 = i" "r = f r0"
proof -
  from assms(1) obtain r0 where r0: "r0 \<in> set rows" "r = (if k r0 = i then f r0 else r0)"
    unfolding in_update_where by blast
  with assms(2) have "k r0 = i" by (cases "k r0 = i") simp_all
  with r0 that show thesis by simp
qed

lemma update_where_miss:
  assumes "\<And>r. k (f r) = k r" and "\<And>r. P r \<Longrightarrow> k r \<in> K" and "k r \<notin> K"
  shows "r \<in> set (update_where P f rows) \<longleftrightarrow> r \<in> set rows"
proof
  assume "r \<in> set (update_where P f rows)"
  then obtain r0 where r0: "r0 \<in> set rows" "r = (if P r0 then f r0 else r0)"
    unfolding in_update_where by blast
  show "r \<in> set rows"
  proof (cases "P r0")
    case True
    with r0(2) assms(1) [of r0] assms(2) [of r0] assms(3) show ?thesis by simp
  next
    case False
    with r0 show ?thesis by simp
  qed
next
  assume "r \<in> set rows"
  moreover have "\<not> P r" using assms(2,3) by blast
  ultimately show "r \<in> set (update_where P f rows)" unfolding in_update_where by (intro bexI [of _ r]) simp_all
qed

lemma filter_update_where:
  assumes "\<And>r. Q (f r) = Q r"
  shows "filter Q (update_where P f rows) = update_where P f (filter Q rows)"
  using assms by (induction rows) (auto simp: update_where_def)

lemma find_update_where:
  assumes "\<And>r. k (f r) = k r"
  shows "find (\<lambda>r. k r = j) (update_where P f rows) = map_option (\<lambda>r. if P r then f r else r) (find (\<lambda>r. k r = j) rows)"
  using assms by (induction rows) (simp_all add: update_where_def)

text \<open>A key that is unique over the table picks at most one row.\<close>

lemma filter_key_unique:
  assumes "distinct (map k rows)"
  shows "length (filter (\<lambda>r. k r = x \<and> P r) rows) \<le> 1"
  using assms
proof (induction rows)
  case (Cons r rs)
  show ?case
  proof (cases "k r = x")
    case True
    with Cons.prems have "\<forall>s\<in>set rs. k s \<noteq> x" by (metis distinct.simps(2) image_eqI list.set_map list.simps(9))
    then have "filter (\<lambda>r. k r = x \<and> P r) rs = []" by (auto simp: filter_empty_conv)
    then show ?thesis by simp
  next
    case False
    with Cons show ?thesis by simp
  qed
qed simp

lemma distinct_key_eq:
  "distinct (map k rows) \<Longrightarrow> r \<in> set rows \<Longrightarrow> s \<in> set rows \<Longrightarrow> k r = k s \<Longrightarrow> r = s"
  by (auto simp: distinct_map inj_on_def)

lemma filter_key_single:
  assumes "distinct (map k rows)" and "r \<in> set rows" and "P r"
  shows "filter (\<lambda>s. k s = k r \<and> P s) rows = [r]"
proof -
  let ?xs = "filter (\<lambda>s. k s = k r \<and> P s) rows"
  have "length ?xs \<le> 1" using filter_key_unique [OF assms(1)] by blast
  moreover have "r \<in> set ?xs" using assms(2,3) by simp
  ultimately show ?thesis by (cases ?xs) auto
qed

lemma find_SomeD: "find P xs = Some x \<Longrightarrow> x \<in> set xs \<and> P x"
  by (induction xs) (auto split: if_splits)

lemma find_Some_ex: "x \<in> set xs \<Longrightarrow> P x \<Longrightarrow> \<exists>y. find P xs = Some y"
  by (induction xs) auto

lemma find_append_None: "find P xs = None \<Longrightarrow> find P (xs @ ys) = find P ys"
  by (induction xs) (simp_all split: if_splits)

lemma find_filter: "find P xs = (case filter P xs of [] \<Rightarrow> None | x # _ \<Rightarrow> Some x)"
  by (induction xs) simp_all

lemma in_set_map_filter: "y \<in> set (map g (filter P xs)) \<longleftrightarrow> (\<exists>x\<in>set xs. P x \<and> y = g x)"
  by auto

lemma in_set_concat_map_filter:
  "y \<in> set (concat (map g (filter P xs))) \<longleftrightarrow> (\<exists>x\<in>set xs. P x \<and> y \<in> set (g x))"
  by auto

lemma length_filter_append_one:
  "length (filter P (xs @ [x])) = length (filter P xs) + (if P x then 1 else 0)"
  by simp

end
