(* ===== verification/Cursor.thy ===== *)
theory Cursor
  imports Prelude
begin

text \<open>
  The pagination cursors of \<^verbatim>\<open>src/internal/domain/helper/cursor.go\<close>: \<open>EncodeCursor\<close> joins a
  sort key and an identifier with a delimiter and encodes the bytes with the padded URL alphabet
  of base64, \<open>DecodeCursor\<close> undoes it. The codec and \<open>strings.Split\<close> are modelled as the
  standard library defines them: the decoder skips CR and LF and does not check the unused bits of
  the last digit; \<open>Split\<close> cuts at each non-overlapping occurrence of a non-empty separator.
\<close>

section \<open>base64.URLEncoding\<close>

definition b64_alphabet :: string where
  "b64_alphabet = ''ABCDEFGHIJKLMNOPQRSTUVWXYZabcdefghijklmnopqrstuvwxyz0123456789-_''"

definition b64_char :: "nat \<Rightarrow> char" where
  "b64_char n = b64_alphabet ! n"

fun index_from :: "nat \<Rightarrow> char \<Rightarrow> string \<Rightarrow> nat option" where
  "index_from i c [] = None"
| "index_from i c (x # xs) = (if x = c then Some i else index_from (Suc i) c xs)"

definition b64_val :: "char \<Rightarrow> nat option" where
  "b64_val c = index_from 0 c b64_alphabet"

abbreviation byte :: "char \<Rightarrow> nat" where
  "byte c \<equiv> of_char c"

fun b64_encode :: "string \<Rightarrow> string" where
  "b64_encode [] = []"
| "b64_encode [a] = [b64_char (byte a div 4), b64_char (byte a mod 4 * 16), CHR ''='', CHR ''='']"
| "b64_encode [a, b] =
     [b64_char (byte a div 4), b64_char (byte a mod 4 * 16 + byte b div 16),
      b64_char (byte b mod 16 * 4), CHR ''='']"
| "b64_encode (a # b # c # rest) =
     [b64_char (byte a div 4), b64_char (byte a mod 4 * 16 + byte b div 16),
      b64_char (byte b mod 16 * 4 + byte c div 64), b64_char (byte c mod 64)] @ b64_encode rest"

fun b64_quads :: "string \<Rightarrow> string option" where
  "b64_quads [] = Some []"
| "b64_quads (w # x # y # z # rest) =
     (case (b64_val w, b64_val x) of
        (Some p, Some q) \<Rightarrow>
          (if y = CHR ''='' then
             (if z = CHR ''='' \<and> rest = [] then Some [char_of (p * 4 + q div 16)] else None)
           else case b64_val y of
             None \<Rightarrow> None
           | Some r \<Rightarrow>
               (if z = CHR ''='' then
                  (if rest = [] then Some [char_of (p * 4 + q div 16), char_of (q mod 16 * 16 + r div 4)]
                   else None)
                else case b64_val z of
                  None \<Rightarrow> None
                | Some s \<Rightarrow>
                    map_option (\<lambda>bs. [char_of (p * 4 + q div 16), char_of (q mod 16 * 16 + r div 4),
                                      char_of (r mod 4 * 64 + s)] @ bs) (b64_quads rest)))
      | _ \<Rightarrow> None)"
| "b64_quads _ = None"

definition b64_decode :: "string \<Rightarrow> string option" where
  "b64_decode s = b64_quads (filter (\<lambda>c. byte c \<noteq> 13 \<and> byte c \<noteq> 10) s)"

lemma b64_table:
  "list_all (\<lambda>n. b64_val (b64_char n) = Some n \<and> b64_char n \<noteq> CHR ''='' \<and>
     byte (b64_char n) \<noteq> (13::nat) \<and> byte (b64_char n) \<noteq> (10::nat)) [0..<64]"
  by code_simp

lemma b64_char_facts:
  assumes "n < 64"
  shows "b64_val (b64_char n) = Some n" "b64_char n \<noteq> CHR ''=''"
    "byte (b64_char n) \<noteq> (13::nat)" "byte (b64_char n) \<noteq> (10::nat)"
  using b64_table assms by (simp_all add: list_all_iff)

lemma byte_bounds:
  "(of_char c :: nat) < 256" "byte a div 4 < 64" "byte a mod 4 * 16 + byte b div 16 < 64"
  "byte b mod 16 * 4 + byte c div 64 < 64"
proof -
  have *: "\<And>c :: char. (of_char c :: nat) < 256" by (metis of_char_mod_256 mod_less_divisor zero_less_numeral)
  from this show "(of_char c :: nat) < 256" .
  show "byte a div 4 < 64" using * [of a] by (intro less_mult_imp_div_less) simp
  have "byte b div 16 < 16" using * [of b] by (intro less_mult_imp_div_less) simp
  moreover have "byte a mod 4 \<le> 3" by presburger
  ultimately show "byte a mod 4 * 16 + byte b div 16 < 64" by linarith
  have "byte c div 64 < 4" using * [of c] by (intro less_mult_imp_div_less) simp
  moreover have "byte b mod 16 \<le> 15" by presburger
  ultimately show "byte b mod 16 * 4 + byte c div 64 < 64" by linarith
qed

lemma pack16: "byte b div 16 mod 16 = (byte b div 16 :: nat)" "(x * 16 + byte b div 16) div 16 = (x::nat)" "(x * 16 + byte b div 16) mod 16 = (byte b div 16 :: nat)"
proof -
  have "byte b div 16 < (16::nat)" using byte_bounds(1) [of b] by (intro less_mult_imp_div_less) simp
  then show "byte b div 16 mod 16 = (byte b div 16 :: nat)" "(x * 16 + byte b div 16) div 16 = (x::nat)"
    "(x * 16 + byte b div 16) mod 16 = (byte b div 16 :: nat)" by simp_all
qed

lemma pack4: "byte c div 64 mod 4 = (byte c div 64 :: nat)" "(x * 4 + byte c div 64) div 4 = (x::nat)" "(x * 4 + byte c div 64) mod 4 = (byte c div 64 :: nat)"
proof -
  have "byte c div 64 < (4::nat)" using byte_bounds(1) [of c] by (intro less_mult_imp_div_less) simp
  then show "byte c div 64 mod 4 = (byte c div 64 :: nat)" "(x * 4 + byte c div 64) div 4 = (x::nat)"
    "(x * 4 + byte c div 64) mod 4 = (byte c div 64 :: nat)" by simp_all
qed

lemma b64_encode_digits: "\<forall>c\<in>set (b64_encode s). byte c \<noteq> (13::nat) \<and> byte c \<noteq> (10::nat)"
  by (induction s rule: b64_encode.induct) (auto simp: b64_char_facts byte_bounds)

lemma b64_quads_encode: "b64_quads (b64_encode s) = Some s"
proof (induction s rule: b64_encode.induct)
  case (2 a)
  have "byte a mod 4 * 16 < (64::nat)" by simp
  then show ?case using byte_bounds(1) [of a] by (simp add: b64_char_facts byte_bounds)
next
  case (3 a b)
  have "byte b mod 16 * 4 < (64::nat)" by simp
  then show ?case by (simp add: b64_char_facts byte_bounds pack16)
next
  case (4 a b c rest)
  from 4 show ?case by (simp add: b64_char_facts byte_bounds pack16 pack4)
qed simp

lemma b64_decode_encode: "b64_decode (b64_encode s) = Some s"
proof -
  have "filter (\<lambda>c. byte c \<noteq> (13::nat) \<and> byte c \<noteq> (10::nat)) (b64_encode s) = b64_encode s"
    using b64_encode_digits [of s] by (simp add: filter_id_conv)
  then show ?thesis by (simp add: b64_decode_def b64_quads_encode)
qed

section \<open>strings.Split\<close>

fun Index :: "string \<Rightarrow> string \<Rightarrow> nat option" where
  "Index s sep =
     (if prefix sep s then Some 0
      else case s of [] \<Rightarrow> None | c # cs \<Rightarrow> map_option Suc (Index cs sep))"

declare Index.simps [simp del]

lemma Index_bound: "Index s sep = Some i \<Longrightarrow> i + length sep \<le> length s"
proof (induction s sep arbitrary: i rule: Index.induct)
  case (1 s sep)
  then show ?case
    by (subst (asm) (2) Index.simps) (auto split: if_splits list.splits dest: prefix_length_le)
qed

function Split :: "string \<Rightarrow> string \<Rightarrow> string list" where
  "Split s sep =
     (if sep = [] then map (\<lambda>c. [c]) s
      else case Index s sep of
        None \<Rightarrow> [s]
      | Some i \<Rightarrow> take i s # Split (drop (i + length sep) s) sep)"
  by pat_completeness auto
termination
proof (relation "measure (\<lambda>(s, sep). length s)")
  fix s sep :: string and i
  assume "sep \<noteq> []" and "Index s sep = Some i"
  then have "0 < length sep" and "i + length sep \<le> length s" by (auto dest: Index_bound)
  then have "length s - (i + length sep) < length s" by linarith
  then show "((drop (i + length sep) s, sep), s, sep) \<in> measure (\<lambda>(s, sep). length s)" by simp
qed simp

declare Split.simps [simp del]

text \<open>Where \<open>sep\<close> first occurs in \<open>a @ sep @ b\<close>.\<close>

lemma Index_None_iff: "Index s sep = None \<longleftrightarrow> \<not> sublist sep s"
proof (induction s)
  case Nil
  then show ?case by (subst Index.simps) (simp add: sublist_def)
next
  case (Cons c cs)
  then show ?case by (subst Index.simps) (auto simp: sublist_Cons_right)
qed

lemma Index_first:
  assumes "sep \<noteq> []" and "\<not> sublist sep (a @ butlast sep)"
  shows "Index (a @ sep @ b) sep = Some (length a)"
  using assms
proof (induction a)
  case Nil
  show ?case by (subst Index.simps) simp
next
  case (Cons c cs)
  have "\<not> prefix sep (c # cs @ sep @ b)"
  proof
    assume "prefix sep (c # cs @ sep @ b)"
    then have "prefix sep ((c # cs @ butlast sep) @ last sep # b)"
      using append_butlast_last_id [OF Cons.prems(1)]
      by (metis append.assoc append_Cons append_Nil)
    moreover have "length sep \<le> length (c # cs @ butlast sep)" by simp
    ultimately have "prefix sep (c # cs @ butlast sep)"
      by (metis prefix_length_prefix prefixI)
    with Cons.prems(2) show False by (auto dest: prefix_imp_sublist)
  qed
  moreover have "\<not> sublist sep (cs @ butlast sep)"
    using Cons.prems(2) by (auto simp: sublist_Cons_right)
  ultimately show ?case using Cons by (subst Index.simps) simp
qed

lemma Split_once:
  assumes "sep \<noteq> []" and "\<not> sublist sep (a @ butlast sep)" and "\<not> sublist sep b"
  shows "Split (a @ sep @ b) sep = [a, b]"
proof -
  have "Split b sep = [b]"
    using assms Index_None_iff [of b sep] by (subst Split.simps) simp
  then show ?thesis using Index_first [OF assms(1,2), of b] assms(1)
    by (subst Split.simps) simp
qed

section \<open>Cursors (cursor.go)\<close>

datatype cursor_error = InvalidCursorEncoding | InvalidCursorFormat

definition DecodeCursor :: "string \<Rightarrow> string \<Rightarrow> cursor_error + string \<times> string" where
  "DecodeCursor cursor delimiter =
     (case b64_decode cursor of
        None \<Rightarrow> Inl InvalidCursorEncoding
      | Some decodedString \<Rightarrow>
          (case Split decodedString delimiter of
             [p0, p1] \<Rightarrow> Inr (p0, p1)
           | _ \<Rightarrow> Inl InvalidCursorFormat))"

definition EncodeCursor :: "string \<Rightarrow> string \<Rightarrow> string \<Rightarrow> string" where
  "EncodeCursor strPart idPart delimiter = b64_encode (strPart @ delimiter @ idPart)"

lemma b64_encode_Nil: "b64_encode s = [] \<longleftrightarrow> s = []"
  by (cases s rule: b64_encode.cases) simp_all

end
