(* ===== verification/Helpers.thy ===== *)
theory Helpers
  imports Prelude
begin

text \<open>
  The pure helpers of \<^verbatim>\<open>src/internal/domain/helper\<close>: application errors (\<^verbatim>\<open>error.go\<close>),
  the duplicate check (\<^verbatim>\<open>uuid_list.go\<close>), exponential backoff and the retry loop
  (\<^verbatim>\<open>retry.go\<close>), the session-revocation test (\<^verbatim>\<open>session_revoke.go\<close>) and the
  normalisation of user names and e-mail addresses (\<^verbatim>\<open>username.go\<close>, \<^verbatim>\<open>email.go\<close>).
  What they use of the standard library (\<open>strings.TrimSpace\<close>, \<open>strings.ToLower\<close>,
  \<open>strconv.ParseInt\<close>, \<open>%d\<close>) is modelled on bytes. The case mapping of strings with
  non-ASCII bytes is the argument \<open>ulow\<close> of \<open>ToLower\<close>: Go takes its table-driven path
  exactly for those strings.
\<close>

section \<open>Application errors (error.go)\<close>

record app_error =
  Code :: int
  Message :: string

definition NewAppError :: "int \<Rightarrow> string \<Rightarrow> app_error" where
  "NewAppError code msg = \<lparr>Code = code, Message = msg\<rparr>"

definition NewBadRequestError :: "string \<Rightarrow> app_error" where
  "NewBadRequestError msg = NewAppError 400 (if msg = [] then ''Bad Request'' else msg)"

definition NewInternalServerError :: "string \<Rightarrow> app_error" where
  "NewInternalServerError msg = NewAppError 500 (if msg = [] then ''Internal Server Error'' else msg)"

definition NewServiceUnavailableError :: "string \<Rightarrow> app_error" where
  "NewServiceUnavailableError msg = NewAppError 503 (if msg = [] then ''Service Unavailable'' else msg)"

definition NewNotFoundError :: "string \<Rightarrow> app_error" where
  "NewNotFoundError msg = NewAppError 404 (if msg = [] then ''Not Found'' else msg)"

definition NewUnauthorizedError :: "string \<Rightarrow> app_error" where
  "NewUnauthorizedError msg = NewAppError 401 (if msg = [] then ''Unauthorized'' else msg)"

definition NewForbiddenError :: "string \<Rightarrow> app_error" where
  "NewForbiddenError msg = NewAppError 403 (if msg = [] then ''Forbidden'' else msg)"

definition NewMethodNotAllowedError :: "string \<Rightarrow> app_error" where
  "NewMethodNotAllowedError msg = NewAppError 405 (if msg = [] then ''Method Not Allowed'' else msg)"

definition NewTooManyRequestsError :: "string \<Rightarrow> app_error" where
  "NewTooManyRequestsError msg = NewAppError 429 (if msg = [] then ''Too Many Requests'' else msg)"

definition NewConflictError :: "string \<Rightarrow> app_error" where
  "NewConflictError msg = NewAppError 409 (if msg = [] then ''Conflict'' else msg)"

named_theorems app_error_defs

lemmas app_error_constructors [app_error_defs] =
  NewAppError_def NewBadRequestError_def NewInternalServerError_def NewServiceUnavailableError_def
  NewNotFoundError_def NewUnauthorizedError_def NewForbiddenError_def NewMethodNotAllowedError_def
  NewTooManyRequestsError_def NewConflictError_def

section \<open>Duplicate check (uuid\_list.go)\<close>

fun ensure_unique_from :: "uuid list \<Rightarrow> uuid list \<Rightarrow> uuid + unit" where
  "ensure_unique_from seen [] = Inr ()"
| "ensure_unique_from seen (i # ids) =
     (if i \<in> set seen then Inl i else ensure_unique_from (i # seen) ids)"

definition EnsureUniqueUUIDs :: "uuid list \<Rightarrow> uuid + unit" where
  "EnsureUniqueUUIDs ids = ensure_unique_from [] ids"

lemma ensure_unique_from_Inr:
  "ensure_unique_from seen ids = Inr u \<longleftrightarrow> distinct ids \<and> set ids \<inter> set seen = {}"
  by (induction seen ids rule: ensure_unique_from.induct) auto

lemma EnsureUniqueUUIDs_Inr [result_simps]: "EnsureUniqueUUIDs ids = Inr u \<longleftrightarrow> distinct ids"
  by (simp add: EnsureUniqueUUIDs_def ensure_unique_from_Inr)

lemma ensure_unique_from_Inl:
  "ensure_unique_from seen ids = Inl i \<Longrightarrow>
     \<exists>xs ys. ids = xs @ i # ys \<and> distinct xs \<and> set xs \<inter> set seen = {} \<and> (i \<in> set xs \<or> i \<in> set seen)"
proof (induction seen ids rule: ensure_unique_from.induct)
  case (2 seen j ids)
  show ?case
  proof (cases "j \<in> set seen")
    case True
    with "2.prems" have "j # ids = [] @ i # ids \<and> i \<in> set seen" by simp
    then show ?thesis by (metis distinct.simps(1) empty_set inf_bot_left)
  next
    case False
    with "2.prems" obtain xs ys where "ids = xs @ i # ys" "distinct xs"
      "set xs \<inter> set (j # seen) = {}" "i \<in> set xs \<or> i \<in> set (j # seen)"
      using "2.IH" by auto
    with False have "j # ids = (j # xs) @ i # ys \<and> distinct (j # xs) \<and>
        set (j # xs) \<inter> set seen = {} \<and> (i \<in> set (j # xs) \<or> i \<in> set seen)"
      by auto
    then show ?thesis by blast
  qed
qed simp

section \<open>The text form of a UUID\<close>

text \<open>The package that renders and parses UUIDs is an argument; \<open>uuid_text\<close> is what it documents.\<close>

record uuid_codec =
  UuidString :: "uuid \<Rightarrow> string"
  UuidParse :: "string \<Rightarrow> uuid option"

definition uuid_text :: "uuid_codec \<Rightarrow> bool" where
  "uuid_text codec \<longleftrightarrow> (\<forall>u. UuidParse codec (UuidString codec u) = Some u \<and> UuidString codec u \<noteq> [])"

lemma uuid_text_inj: "uuid_text codec \<Longrightarrow> UuidString codec u = UuidString codec v \<longleftrightarrow> u = v"
  unfolding uuid_text_def by (metis option.inject)

text \<open>A text form for the examples: as many letters as the number, and one.\<close>

definition unary_codec :: uuid_codec where
  "unary_codec = \<lparr>UuidString = (\<lambda>u. replicate (Suc u) CHR ''a''), UuidParse = (\<lambda>s. Some (length s - 1))\<rparr>"

lemma unary_codec_text: "uuid_text unary_codec"
  by (simp add: uuid_text_def unary_codec_def)

section \<open>Backoff and retries (retry.go)\<close>

text \<open>\<open>time.Duration\<close> is an \<open>int64\<close>: products wrap around.\<close>

definition wrap64 :: "int \<Rightarrow> int" where
  "wrap64 x = (x + 2 ^ 63) mod 2 ^ 64 - 2 ^ 63"

definition max_int64 :: int where
  "max_int64 = 2 ^ 63 - 1"

lemma wrap64_id: "- (2 ^ 63) \<le> x \<Longrightarrow> x \<le> max_int64 \<Longrightarrow> wrap64 x = x"
  by (simp add: wrap64_def max_int64_def)

lemma wrap64_double: "0 < d \<Longrightarrow> d \<le> max_int64 div 2 \<Longrightarrow> wrap64 (d * 2) = d * 2"
  by (simp add: wrap64_def max_int64_def)

fun backoff_loop :: "nat \<Rightarrow> duration \<Rightarrow> duration \<Rightarrow> duration" where
  "backoff_loop 0 delay maxDelay =
     (if maxDelay > 0 \<and> delay > maxDelay then maxDelay else delay)"
| "backoff_loop (Suc n) delay maxDelay =
     (if maxDelay > 0 \<and> delay \<ge> maxDelay then maxDelay
      else if delay > max_int64 div 2 then (if maxDelay > 0 then maxDelay else max_int64)
      else backoff_loop n (wrap64 (delay * 2)) maxDelay)"

definition BackoffDelay :: "int \<Rightarrow> duration \<Rightarrow> duration \<Rightarrow> duration" where
  "BackoffDelay attempt baseDelay maxDelay =
     (let attempt = (if attempt < 0 then 0 else attempt)
      in backoff_loop (nat attempt) baseDelay maxDelay)"

lemma le_double_power: "0 < (d::int) \<Longrightarrow> d \<le> d * 2 ^ n"
  by (simp add: mult_le_cancel_left1)

lemma backoff_loop_capped:
  "0 < d \<Longrightarrow> 0 < m \<Longrightarrow> m \<le> max_int64 \<Longrightarrow> backoff_loop n d m = min m (d * 2 ^ n)"
proof (induction n arbitrary: d)
  case (Suc n)
  have ge: "d * 2 \<le> d * 2 ^ Suc n" using le_double_power [of "d * 2" n] Suc.prems(1) by simp
  consider "d \<ge> m" | "d < m" "d > max_int64 div 2" | "d < m" "d \<le> max_int64 div 2" by linarith
  then show ?case
  proof cases
    case 1
    then have "m \<le> d * 2 ^ Suc n" using ge Suc.prems(1) by linarith
    with 1 Suc.prems show ?thesis by (simp add: min_def)
  next
    case 2
    then have "m \<le> d * 2 ^ Suc n" using ge Suc.prems(3) by linarith
    with 2 Suc.prems show ?thesis by (simp add: min_def)
  next
    case 3
    then have "wrap64 (d * 2) = d * 2" using Suc.prems(1) by (simp add: wrap64_double)
    with 3 Suc show ?thesis by (simp add: ac_simps)
  qed
qed (simp add: min_def)

lemma backoff_loop_uncapped:
  "0 < d \<Longrightarrow> d \<le> max_int64 \<Longrightarrow> m \<le> 0 \<Longrightarrow> backoff_loop n d m = min max_int64 (d * 2 ^ n)"
proof (induction n arbitrary: d)
  case (Suc n)
  have ge: "d * 2 \<le> d * 2 ^ Suc n" using le_double_power [of "d * 2" n] Suc.prems(1) by simp
  show ?case
  proof (cases "d > max_int64 div 2")
    case True
    then have "max_int64 \<le> d * 2 ^ Suc n" using ge by linarith
    with True Suc.prems show ?thesis by (simp add: min_def)
  next
    case False
    then have le: "d * 2 \<le> max_int64" by linarith
    from False have "wrap64 (d * 2) = d * 2" using Suc.prems(1) by (simp add: wrap64_double)
    with False le Suc show ?thesis by (simp add: ac_simps)
  qed
qed (simp add: min_def)

text \<open>
  The retry loop. The \<open>i\<close>-th call of the operation has an outcome (its result, whether to
  retry, its error); the context is polled before each call (\<open>ctxErr i\<close>) and while waiting
  for the timer (\<open>waitErr i\<close>). The third component of the value collects the delays waited.
\<close>

datatype 'e retry_error = CtxError 'e | OpError 'e | AttemptsExhausted int "'e option"

type_synonym ('t, 'e) attempt_outcome = "'t \<times> bool \<times> 'e option"

fun retry_loop :: "(nat \<Rightarrow> ('t, 'e) attempt_outcome) \<Rightarrow> (nat \<Rightarrow> 'e option) \<Rightarrow> (nat \<Rightarrow> 'e option) \<Rightarrow>
    duration \<Rightarrow> nat \<Rightarrow> nat \<Rightarrow> 't \<Rightarrow> duration list \<Rightarrow> ('t \<times> 'e retry_error option \<times> duration list)" where
  "retry_loop operation ctxErr waitErr baseDelay left i result waited =
     (case ctxErr i of
        Some e \<Rightarrow> (result, Some (CtxError e), waited)
      | None \<Rightarrow>
         (case operation i of
            (result', shouldRetry, err) \<Rightarrow>
              (case err of
                 None \<Rightarrow> (result', None, waited)
               | Some e \<Rightarrow>
                   if \<not> shouldRetry then (result', Some (OpError e), waited)
                   else (case left of
                           0 \<Rightarrow> (result', Some (AttemptsExhausted (int i + 1) (Some e)), waited)
                         | Suc left' \<Rightarrow>
                             (let delay = BackoffDelay (int i) baseDelay 0 in
                              case waitErr i of
                                Some ce \<Rightarrow> (result', Some (CtxError ce), waited)
                              | None \<Rightarrow> retry_loop operation ctxErr waitErr baseDelay left' (Suc i)
                                          result' (waited @ [delay]))))))"

declare retry_loop.simps [simp del]

definition RetryWithBackoffContext :: "(nat \<Rightarrow> ('t, 'e) attempt_outcome) \<Rightarrow> (nat \<Rightarrow> 'e option) \<Rightarrow>
    (nat \<Rightarrow> 'e option) \<Rightarrow> int \<Rightarrow> duration \<Rightarrow> 't \<Rightarrow> ('t \<times> 'e retry_error option \<times> duration list)" where
  "RetryWithBackoffContext operation ctxErr waitErr maxRetries baseDelay zero =
     (if maxRetries < 0 then (zero, Some (AttemptsExhausted (maxRetries + 1) None), [])
      else retry_loop operation ctxErr waitErr baseDelay (nat maxRetries) 0 zero [])"

lemma retry_loop_success:
  assumes "\<forall>j. i \<le> j \<and> j < n \<longrightarrow> ctxErr j = None \<and> waitErr j = None \<and> (\<exists>r e. operation j = (r, True, Some e))"
    and "ctxErr n = None" and "operation n = (v, s, None)" and "i \<le> n" and "n \<le> i + left"
  shows "retry_loop operation ctxErr waitErr b left i result waited =
           (v, None, waited @ map (\<lambda>j. BackoffDelay (int j) b 0) [i..<n])"
  using assms
proof (induction left arbitrary: i result waited)
  case 0
  then show ?case by (subst retry_loop.simps) simp
next
  case (Suc left)
  show ?case
  proof (cases "i = n")
    case True
    with Suc.prems show ?thesis by (subst retry_loop.simps) simp
  next
    case False
    with Suc.prems have lt: "i < n" by simp
    with Suc.prems(1) obtain r e where op: "operation i = (r, True, Some e)"
      and c: "ctxErr i = None" "waitErr i = None" by auto
    have "retry_loop operation ctxErr waitErr b left (Suc i) r (waited @ [BackoffDelay (int i) b 0]) =
            (v, None, (waited @ [BackoffDelay (int i) b 0]) @ map (\<lambda>j. BackoffDelay (int j) b 0) [Suc i..<n])"
      using Suc.prems lt by (intro Suc.IH) auto
    with op c lt show ?thesis by (subst retry_loop.simps) (simp add: upt_conv_Cons)
  qed
qed

lemma retry_loop_waits: "length (snd (snd (retry_loop op c w b left i r waited))) \<le> length waited + left"
proof (induction left arbitrary: i r waited)
  case 0
  then show ?case by (subst retry_loop.simps) (simp split: option.split prod.split)
next
  case (Suc left)
  have "length (snd (snd (retry_loop op c w b left (Suc i) r' (waited @ [d])))) \<le> length waited + Suc left"
    for r' d
    using Suc.IH [of "Suc i" r' "waited @ [d]"] by simp
  then show ?case by (subst retry_loop.simps) (simp add: Let_def split: option.split prod.split)
qed

end
