(* ===== verification/Text_Helpers.thy ===== *)
theory Text_Helpers
  imports Helpers
begin

text \<open>
  Text handling of \<^verbatim>\<open>src/internal/domain/helper\<close>: \<open>strings.TrimSpace\<close> on UTF-8 bytes, the
  normalisation of user names (\<^verbatim>\<open>username.go\<close>) and e-mail addresses (\<^verbatim>\<open>email.go\<close>),
  \<open>strconv.ParseInt\<close> and \<open>%d\<close>, and the session-revocation test of \<^verbatim>\<open>session_revoke.go\<close>.
\<close>

section \<open>strings.TrimSpace\<close>

text \<open>The UTF-8 encodings of the runes for which \<open>unicode.IsSpace\<close> holds.\<close>

definition space_runes :: "string list" where
  "space_runes = map (map char_of)
     ([[9], [10], [11], [12], [13], [32], [0xC2, 0x85], [0xC2, 0xA0], [0xE1, 0x9A, 0x80]] @
      map (\<lambda>n. [0xE2, 0x80, 0x80 + n]) [0..<11] @
      [[0xE2, 0x80, 0xA8], [0xE2, 0x80, 0xA9], [0xE2, 0x80, 0xAF], [0xE2, 0x81, 0x9F],
       [0xE3, 0x80, 0x80 :: nat]])"

function strip_words :: "string list \<Rightarrow> string \<Rightarrow> string" where
  "strip_words ws s =
     (case find (\<lambda>w. w \<noteq> [] \<and> prefix w s) ws of
        None \<Rightarrow> s
      | Some w \<Rightarrow> strip_words ws (drop (length w) s))"
  by pat_completeness auto
termination
proof (relation "measure (\<lambda>(ws, s). length s)")
  fix ws and s w :: string
  assume "find (\<lambda>w. w \<noteq> [] \<and> prefix w s) ws = Some w"
  then have "w \<noteq> []" and "prefix w s" by (auto simp: find_Some_iff)
  then have "length s - length w < length s" by (cases s) auto
  then show "((ws, drop (length w) s), ws, s) \<in> measure (\<lambda>(ws, s). length s)" by simp
qed simp

declare strip_words.simps [simp del]

definition TrimSpace :: "string \<Rightarrow> string" where
  "TrimSpace s = rev (strip_words (map rev space_runes) (rev (strip_words space_runes s)))"

definition clean_start :: "string list \<Rightarrow> string \<Rightarrow> bool" where
  "clean_start ws s \<longleftrightarrow> (\<forall>w\<in>set ws. w \<noteq> [] \<longrightarrow> \<not> prefix w s)"

lemma strip_words_clean: "clean_start ws (strip_words ws s)"
proof (induction ws s rule: strip_words.induct)
  case (1 ws s)
  then show ?case
    by (subst strip_words.simps)
      (auto simp: clean_start_def find_None_iff split: option.split)
qed

lemma strip_words_id: "clean_start ws s \<Longrightarrow> strip_words ws s = s"
  by (subst strip_words.simps) (auto simp: clean_start_def find_None_iff split: option.split
      dest!: find_Some_iff [THEN iffD1])

lemma strip_words_suffix: "suffix (strip_words ws s) s"
proof (induction ws s rule: strip_words.induct)
  case (1 ws s)
  then show ?case
    by (subst strip_words.simps) (auto split: option.split intro: suffix_order.trans suffix_drop)
qed

lemma clean_start_prefix: "clean_start ws s \<Longrightarrow> prefix t s \<Longrightarrow> clean_start ws t"
  by (auto simp: clean_start_def dest: prefix_order.trans)

lemma TrimSpace_clean:
  "clean_start space_runes (TrimSpace s)" "clean_start (map rev space_runes) (rev (TrimSpace s))"
proof -
  let ?l = "strip_words space_runes s"
  have "prefix (TrimSpace s) ?l"
    using strip_words_suffix [of "map rev space_runes" "rev ?l"]
    by (simp add: TrimSpace_def suffix_to_prefix)
  then show "clean_start space_runes (TrimSpace s)"
    using strip_words_clean clean_start_prefix by blast
  show "clean_start (map rev space_runes) (rev (TrimSpace s))"
    by (simp add: TrimSpace_def strip_words_clean)
qed

lemma TrimSpace_id:
  assumes "clean_start space_runes s" and "clean_start (map rev space_runes) (rev s)"
  shows "TrimSpace s = s"
  using assms by (simp add: TrimSpace_def strip_words_id)

lemma TrimSpace_idem [simp]: "TrimSpace (TrimSpace s) = TrimSpace s"
  by (intro TrimSpace_id TrimSpace_clean)

section \<open>strings.ToLower\<close>

definition is_ascii :: "string \<Rightarrow> bool" where
  "is_ascii s \<longleftrightarrow> (\<forall>c\<in>set s. of_char c < (128::nat))"

definition lower_byte :: "char \<Rightarrow> char" where
  "lower_byte c = (if 65 \<le> (of_char c :: nat) \<and> of_char c \<le> (90::nat) then char_of (of_char c + (32::nat)) else c)"

definition ToLower :: "(string \<Rightarrow> string) \<Rightarrow> string \<Rightarrow> string" where
  "ToLower ulow s = (if is_ascii s then map lower_byte s else ulow s)"

lemma lower_byte_idem [simp]: "lower_byte (lower_byte c) = lower_byte c"
  by (auto simp: lower_byte_def)

lemma lower_byte_ascii: "of_char c < (128::nat) \<Longrightarrow> of_char (lower_byte c) < (128::nat)"
  by (auto simp: lower_byte_def)

lemma ToLower_ascii: "is_ascii s \<Longrightarrow> is_ascii (ToLower ulow s)"
  by (auto simp: ToLower_def is_ascii_def lower_byte_ascii)

section \<open>User names (username.go)\<close>

definition username_char :: "char \<Rightarrow> bool" where
  "username_char c \<longleftrightarrow>
     c \<in> set ''abcdefghijklmnopqrstuvwxyz0123456789_''"

definition NormalizeUsername :: "(string \<Rightarrow> string) \<Rightarrow> string \<Rightarrow> string" where
  "NormalizeUsername ulow username = filter username_char (ToLower ulow (TrimSpace username))"

section \<open>E-mail addresses (email.go)\<close>

fun LastIndex :: "char \<Rightarrow> string \<Rightarrow> nat option" where
  "LastIndex c [] = None"
| "LastIndex c (x # xs) =
     (case LastIndex c xs of Some i \<Rightarrow> Some (Suc i) | None \<Rightarrow> if x = c then Some 0 else None)"

definition NormalizeEmail :: "(string \<Rightarrow> string) \<Rightarrow> string \<Rightarrow> string" where
  "NormalizeEmail ulow email =
     (let email = TrimSpace (ToLower ulow email) in
      case LastIndex (CHR ''@'') email of
        None \<Rightarrow> email
      | Some atIndex \<Rightarrow>
          if atIndex = 0 then email
          else
           (let localPart = take atIndex email;
                domainPart = drop (atIndex + 1) email;
                localPart = (if CHR ''+'' \<in> set localPart then takeWhile (\<lambda>c. c \<noteq> CHR ''+'') localPart
                             else localPart)
            in if domainPart = ''gmail.com'' \<or> domainPart = ''googlemail.com''
               then filter (\<lambda>c. c \<noteq> CHR ''.'') localPart @ ''@'' @ ''gmail.com''
               else localPart @ ''@'' @ domainPart))"

lemma LastIndex_Some:
  "LastIndex c (xs @ c # ys) = Some (length xs)" if "c \<notin> set ys"
proof -
  have none: "LastIndex c ys = None" using that by (induction ys) auto
  show ?thesis by (induction xs) (auto simp: none)
qed

lemma LastIndex_SomeD: "LastIndex c s = Some i \<Longrightarrow> s = take i s @ c # drop (Suc i) s \<and> c \<notin> set (drop (Suc i) s)"
proof (induction s arbitrary: i)
  case (Cons x xs)
  have none: "LastIndex c xs = None \<longleftrightarrow> c \<notin> set xs"
    by (induction xs) (auto split: option.splits)
  show ?case
    using Cons none by (auto split: option.splits if_splits)
qed simp

lemma LastIndex_None: "LastIndex c s = None \<longleftrightarrow> c \<notin> set s"
  by (induction s) (auto split: option.splits)

text \<open>The cut at \<open>+\<close> is \<open>takeWhile\<close> in both branches.\<close>

lemma cut_plus: "(if c \<in> set s then takeWhile (\<lambda>x. x \<noteq> c) s else s) = takeWhile (\<lambda>x. x \<noteq> c) s"
  by (metis (mono_tags, lifting) takeWhile_eq_all_conv)

definition no_space :: "string \<Rightarrow> bool" where
  "no_space s \<longleftrightarrow> is_ascii s \<and> (\<forall>c\<in>set s. (of_char c :: nat) \<notin> {9, 10, 11, 12, 13, 32})"

lemma space_runes_visible:
  "list_all (\<lambda>w. w = [] \<or> list_ex (\<lambda>c. 128 \<le> (of_char c :: nat) \<or> (of_char c :: nat) \<in> {9, 10, 11, 12, 13, 32}) w) space_runes"
  by code_simp

lemma no_space_clean:
  assumes "no_space s"
  shows "clean_start space_runes s" "clean_start (map rev space_runes) (rev s)"
proof -
  have bad: "\<exists>c\<in>set w. c \<notin> set s" if "w \<in> set space_runes" "w \<noteq> []" for w
    using that space_runes_visible assms
    unfolding no_space_def is_ascii_def list_all_iff list_ex_iff by (meson leD)
  show "clean_start space_runes s"
    using bad unfolding clean_start_def by (meson set_mono_prefix subsetD)
  show "clean_start (map rev space_runes) (rev s)"
  proof -
    have "\<not> prefix (rev w) (rev s)" if "w \<in> set space_runes" "w \<noteq> []" for w
      using bad [OF that] set_mono_prefix [of "rev w" "rev s"] by auto
    then show ?thesis by (auto simp: clean_start_def)
  qed
qed

lemma TrimSpace_no_space: "no_space s \<Longrightarrow> TrimSpace s = s"
  by (intro TrimSpace_id no_space_clean)

lemma no_space_subset: "no_space s \<Longrightarrow> set t \<subseteq> set s \<Longrightarrow> no_space t"
  by (auto simp: no_space_def is_ascii_def)

section \<open>Decimal integers: \<open>%d\<close> and strconv.ParseInt\<close>

fun digits_nat :: "nat \<Rightarrow> string" where
  "digits_nat n = (if n < 10 then [char_of (48 + n)] else digits_nat (n div 10) @ [char_of (48 + n mod 10)])"

declare digits_nat.simps [simp del]

definition FormatInt :: "int \<Rightarrow> string" where
  "FormatInt i = (if i < 0 then CHR ''-'' # digits_nat (nat (- i)) else digits_nat (nat i))"

definition digit_val :: "char \<Rightarrow> nat option" where
  "digit_val c = (if 48 \<le> (of_char c :: nat) \<and> of_char c \<le> (57::nat) then Some (of_char c - 48) else None)"

fun parse_digits :: "nat \<Rightarrow> string \<Rightarrow> nat option" where
  "parse_digits acc [] = Some acc"
| "parse_digits acc (c # cs) =
     (case digit_val c of None \<Rightarrow> None | Some d \<Rightarrow> parse_digits (acc * 10 + d) cs)"

definition parse_uint :: "string \<Rightarrow> nat option" where
  "parse_uint s = (if s = [] then None else parse_digits 0 s)"

definition ParseInt :: "string \<Rightarrow> int option" where
  "ParseInt s =
     (let (neg, ds) = (case s of
            [] \<Rightarrow> (False, [])
          | c # cs \<Rightarrow> if c = CHR ''+'' then (False, cs) else if c = CHR ''-'' then (True, cs) else (False, s))
      in case parse_uint ds of
           None \<Rightarrow> None
         | Some n \<Rightarrow> if \<not> neg \<and> int n \<ge> 2 ^ 63 then None
                     else if neg \<and> int n > 2 ^ 63 then None
                     else Some (if neg then - int n else int n))"

lemma digits_nat_digits: "\<forall>c\<in>set (digits_nat n). 48 \<le> (of_char c :: nat) \<and> of_char c \<le> (57::nat)"
proof (induction n rule: digits_nat.induct)
  case (1 n)
  then show ?case by (subst digits_nat.simps) auto
qed

lemma digits_nat_not_Nil [simp]: "digits_nat n \<noteq> []"
  by (subst digits_nat.simps) simp

lemma parse_digits_append:
  "parse_digits acc (xs @ ys) = (case parse_digits acc xs of None \<Rightarrow> None | Some v \<Rightarrow> parse_digits v ys)"
  by (induction acc xs rule: parse_digits.induct) (auto split: option.split)

lemma parse_digits_nat: "parse_digits 0 (digits_nat n) = Some n"
proof (induction n rule: digits_nat.induct)
  case (1 n)
  show ?case
  proof (cases "n < 10")
    case True
    then show ?thesis by (subst digits_nat.simps) (simp add: digit_val_def)
  next
    case False
    with 1 show ?thesis
      by (subst digits_nat.simps) (simp add: parse_digits_append digit_val_def)
  qed
qed

lemma ParseInt_FormatInt:
  assumes "0 \<le> i" and "i \<le> max_int64"
  shows "ParseInt (FormatInt i) = Some i"
proof -
  obtain c cs where cs: "digits_nat (nat i) = c # cs" by (cases "digits_nat (nat i)") auto
  then have "48 \<le> (of_char c :: nat)" using digits_nat_digits [of "nat i"] by simp
  then have "c \<noteq> CHR ''+''" "c \<noteq> CHR ''-''" by auto
  then show ?thesis
    using assms cs parse_digits_nat [of "nat i"]
    by (simp add: ParseInt_def FormatInt_def parse_uint_def max_int64_def)
qed

section \<open>Session revocation (session\_revoke.go)\<close>

datatype parse_error = ParseIntError

definition IsSessionRevoked :: "string \<Rightarrow> int \<Rightarrow> parse_error + bool" where
  "IsSessionRevoked marker tokenIssuedAt =
     (if marker = [] then Inr False
      else
       (let upto = takeWhile (\<lambda>c. c \<noteq> CHR '':'') marker;
            revokedAtValue = (if CHR '':'' \<in> set marker \<and> upto \<noteq> [] then upto else marker)
        in case ParseInt revokedAtValue of
             None \<Rightarrow> Inl ParseIntError
           | Some revokedAt \<Rightarrow>
               (let revokedAt = (if revokedAt < 1000000000000 then wrap64 (revokedAt * 1000) else revokedAt)
                in Inr (tokenIssuedAt \<le> revokedAt))))"

lemma IsSessionRevoked_marker:
  assumes "0 \<le> t" and "t \<le> max_int64"
  shows "IsSessionRevoked (FormatInt t @ '':'' @ u) issued =
           Inr (issued \<le> (if t < 1000000000000 then t * 1000 else t))"
proof -
  have nocolon: "\<forall>c\<in>set (FormatInt t). c \<noteq> CHR '':''"
    using digits_nat_digits [of "nat t"] assms(1) by (auto simp: FormatInt_def)
  then have tw: "takeWhile (\<lambda>c. c \<noteq> CHR '':'') (FormatInt t @ '':'' @ u) = FormatInt t"
    by (simp add: takeWhile_append2)
  have ne: "FormatInt t \<noteq> []" using assms(1) by (simp add: FormatInt_def)
  have "wrap64 (t * 1000) = t * 1000" if "t < 1000000000000"
    using that assms(1) by (intro wrap64_id) (simp_all add: max_int64_def)
  with tw ne show ?thesis
    using ParseInt_FormatInt [OF assms] by (simp add: IsSessionRevoked_def Let_def)
qed

end
