(* ===== verification/Helper_Laws.thy ===== *)
theory Helper_Laws
  imports Cursor Text_Helpers
begin

text \<open>What the callers rely on of the helpers of \<^verbatim>\<open>src/internal/domain/helper\<close>.\<close>

section \<open>Cursors\<close>

text \<open>A cursor decodes to the two parts it was made of, provided the delimiter occurs neither in the
  second part nor in the first part followed by a proper prefix of the delimiter.
\<close>

theorem cursor_roundtrip:
  assumes "d \<noteq> []" and "\<not> sublist d (a @ butlast d)" and "\<not> sublist d b"
  shows "DecodeCursor (EncodeCursor a b d) d = Inr (a, b)"
  using Split_once [OF assms] by (simp add: DecodeCursor_def EncodeCursor_def b64_decode_encode)

theorem cursor_roundtrip_witness:
  "DecodeCursor (EncodeCursor ''bob | alice'' ''0190'' ''|||'') ''|||'' = Inr (''bob | alice'', ''0190'')"
  by (rule cursor_roundtrip) code_simp+

lemma Index_take: "Index s sep = Some i \<Longrightarrow> sep \<noteq> [] \<Longrightarrow> \<not> sublist sep (take i s)"
proof (induction s arbitrary: i)
  case Nil
  then show ?case by simp
next
  case (Cons c cs)
  show ?case
  proof (cases "prefix sep (c # cs)")
    case True
    with Cons.prems show ?thesis by (subst (asm) Index.simps) simp
  next
    case False
    with Cons.prems obtain j where j: "Index cs sep = Some j" "i = Suc j" by (subst (asm) Index.simps) auto
    have "\<not> prefix sep (c # take j cs)"
      using False by (metis append_take_drop_id prefix_prefix take_Suc_Cons)
    with Cons.IH [OF j(1) Cons.prems(2)] show ?thesis by (simp add: j(2) sublist_Cons_right)
  qed
qed

lemma Split_head:
  assumes "Split s sep = p # ps" and "sep \<noteq> []" and "ps \<noteq> []"
  shows "\<not> sublist sep p"
  using assms Index_take [of s sep] by (subst (asm) Split.simps) (auto split: option.splits)

text \<open>Whenever the first part of a cursor contains the delimiter, as a display name may, decoding does
  not return the parts the cursor was made of: the next page is refused or starts at another row.
\<close>

theorem cursor_broken_by_delimiter:
  assumes "d \<noteq> []" and "sublist d a"
  shows "DecodeCursor (EncodeCursor a b d) d \<noteq> Inr (a, b)"
proof
  assume "DecodeCursor (EncodeCursor a b d) d = Inr (a, b)"
  then have "Split (a @ d @ b) d = [a, b]"
    by (auto simp: DecodeCursor_def EncodeCursor_def b64_decode_encode split: list.splits)
  with Split_head [OF this assms(1)] assms(2) show False by simp
qed

theorem cursor_broken_by_delimiter_witness:
  "DecodeCursor (EncodeCursor ''a|||b'' ''0190'' ''|||'') ''|||'' \<noteq> Inr (''a|||b'', ''0190'')"
  by (rule cursor_broken_by_delimiter) code_simp+

section \<open>Backoff\<close>

text \<open>The delay before the retry of attempt \<open>k\<close> is exactly \<open>base * 2 ^ k\<close> capped at the maximum,
  for every positive base and every positive maximum that a 64-bit duration can hold: the doubling
  never wraps around.
\<close>

theorem backoff_delay_exact:
  assumes "0 < base" and "0 < m" and "m \<le> max_int64"
  shows "BackoffDelay k base m = min m (base * 2 ^ nat k)"
  using backoff_loop_capped [OF assms] by (cases "k < 0") (simp_all add: BackoffDelay_def)

theorem backoff_delay_exact_witness: "BackoffDelay 100 1000000000 64000000000 = 64000000000"
  using backoff_delay_exact [of 1000000000 64000000000 100] by (simp add: max_int64_def)

section \<open>Session revocation\<close>

text \<open>Reading back the marker that revoking a user's sessions writes (\<open><millis>:<uuid>\<close>) revokes
  exactly the tokens issued no later than the revocation; markers in seconds are scaled first.
\<close>

theorem revocation_marker_roundtrip:
  assumes "0 \<le> t" and "t \<le> max_int64"
  shows "IsSessionRevoked (FormatInt t @ '':'' @ u) issued = Inr (issued \<le> (if t < 1000000000000 then t * 1000 else t))"
  by (rule IsSessionRevoked_marker [OF assms])

theorem revocation_marker_roundtrip_witness: "IsSessionRevoked (FormatInt 1700000000000 @ '':'' @ ''u'') 1700000000001 = Inr False"
  using revocation_marker_roundtrip [of 1700000000000 "''u''" 1700000000001] by (simp add: max_int64_def)

section \<open>Normal forms\<close>

lemma username_char_code: "list_all (\<lambda>c. lower_byte c = c \<and> (of_char c :: nat) < 128 \<and> (of_char c :: nat) \<notin> {9, 10, 11, 12, 13, 32})
    ''abcdefghijklmnopqrstuvwxyz0123456789_''"
  by code_simp

lemma username_char_lower:
  "username_char c \<Longrightarrow> lower_byte c = c \<and> (of_char c :: nat) < 128 \<and> (of_char c :: nat) \<notin> {9, 10, 11, 12, 13, 32}"
  using username_char_code unfolding username_char_def list_all_iff by blast

lemma username_chars_normal:
  assumes "\<forall>c\<in>set s. username_char c"
  shows "NormalizeUsername ulow s = s"
proof -
  have ns: "no_space s" using assms username_char_lower by (auto simp: no_space_def is_ascii_def)
  then have "ToLower ulow s = s"
    using assms username_char_lower by (simp add: ToLower_def no_space_def map_idI)
  with ns assms show ?thesis by (simp add: NormalizeUsername_def TrimSpace_no_space filter_id_conv)
qed

text \<open>A normalised user name consists of lower-case letters, digits and underscores, and normalising
  it again changes nothing.
\<close>

theorem normalize_username_normal:
  "list_all username_char (NormalizeUsername ulow s) \<and>
   NormalizeUsername ulow (NormalizeUsername ulow s) = NormalizeUsername ulow s"
proof -
  have "\<forall>c\<in>set (NormalizeUsername ulow s). username_char c" by (simp add: NormalizeUsername_def)
  with username_chars_normal show ?thesis by (simp add: list_all_iff)
qed

lemma ToLower_idem: "is_ascii s \<Longrightarrow> ToLower ulow (ToLower ulow s) = ToLower ulow s"
  using ToLower_ascii [of s ulow] by (simp add: ToLower_def)

lemma lower_byte_visible: "of_char c \<notin> {9, 10, 11, 12, 13, 32 :: nat} \<Longrightarrow> of_char (lower_byte c) \<notin> {9, 10, 11, 12, 13, 32 :: nat}"
  by (auto simp: lower_byte_def)

lemma ToLower_no_space: "no_space s \<Longrightarrow> no_space (ToLower ulow s)"
  unfolding no_space_def using ToLower_ascii [of s ulow] lower_byte_visible by (auto simp: ToLower_def)

definition email_parts :: "string \<Rightarrow> string \<Rightarrow> string" where
  "email_parts l dm = (if dm = ''gmail.com'' \<or> dm = ''googlemail.com''
     then filter (\<lambda>c. c \<noteq> CHR ''.'') (takeWhile (\<lambda>c. c \<noteq> CHR ''+'') l) @ ''@'' @ ''gmail.com''
     else takeWhile (\<lambda>c. c \<noteq> CHR ''+'') l @ ''@'' @ dm)"

lemma NormalizeEmail_eq:
  assumes "no_space e"
  shows "NormalizeEmail ulow e = (case LastIndex (CHR ''@'') (ToLower ulow e) of
     None \<Rightarrow> ToLower ulow e
   | Some i \<Rightarrow> if i = 0 then ToLower ulow e else email_parts (take i (ToLower ulow e)) (drop (i + 1) (ToLower ulow e)))"
  using TrimSpace_no_space [OF ToLower_no_space [OF assms], of ulow]
  by (simp add: NormalizeEmail_def Let_def email_parts_def cut_plus split: option.split)

lemma no_space_iff: "no_space s \<longleftrightarrow> (\<forall>c\<in>set s. (of_char c :: nat) < 128 \<and> (of_char c :: nat) \<notin> {9, 10, 11, 12, 13, 32})"
  unfolding no_space_def is_ascii_def by blast

lemma email_parts_gmail: "email_parts l ''gmail.com'' = filter (\<lambda>c. c \<noteq> CHR ''.'') (takeWhile (\<lambda>c. c \<noteq> CHR ''+'') l) @ ''@'' @ ''gmail.com''"
  by (simp add: email_parts_def)

lemma lower_part:
  assumes "no_space e" and "ToLower ulow e = l @ CHR ''@'' # dm"
  shows "ToLower ulow (email_parts l dm) = email_parts l dm" and "no_space (email_parts l dm)"
proof -
  have ns: "no_space (ToLower ulow e)" by (rule ToLower_no_space [OF assms(1)])
  have fixed: "\<forall>c\<in>set (ToLower ulow e). lower_byte c = c"
    using assms(1) by (auto simp: ToLower_def no_space_def)
  have "list_all (\<lambda>c. lower_byte c = c \<and> (of_char c :: nat) < 128 \<and> (of_char c :: nat) \<notin> {9, 10, 11, 12, 13, 32}) ''@gmail.com''"
    by code_simp
  then have gm: "\<forall>c\<in>set ''@gmail.com''. lower_byte c = c" "no_space ''@gmail.com''"
    unfolding list_all_iff no_space_iff by blast+
  have sub: "set (email_parts l dm) \<subseteq> set (ToLower ulow e) \<union> set ''@gmail.com''"
  proof -
    have "set (takeWhile (\<lambda>c. c \<noteq> CHR ''+'') l) \<subseteq> set l" by (auto dest: set_takeWhileD)
    then show ?thesis unfolding assms(2) email_parts_def
      by (cases "dm = ''gmail.com'' \<or> dm = ''googlemail.com''") (simp only: if_True, force, simp only: if_False, force)
  qed
  then show ns2: "no_space (email_parts l dm)" using ns gm(2) unfolding no_space_iff by blast
  have "lower_byte c = c" if "c \<in> set (email_parts l dm)" for c using that sub fixed gm(1) by blast
  then show "ToLower ulow (email_parts l dm) = email_parts l dm"
    using ns2 by (simp add: ToLower_def no_space_def map_idI)
qed

lemma email_parts_again:
  assumes "CHR ''@'' \<notin> set dm"
  shows "\<exists>l' dm'. email_parts l dm = l' @ CHR ''@'' # dm' \<and> CHR ''@'' \<notin> set dm' \<and> email_parts l' dm' = email_parts l dm"
proof (cases "dm = ''gmail.com'' \<or> dm = ''googlemail.com''")
  case True
  let ?l = "filter (\<lambda>c. c \<noteq> CHR ''.'') (takeWhile (\<lambda>c. c \<noteq> CHR ''+'') l)"
  have "takeWhile (\<lambda>c. c \<noteq> CHR ''+'') ?l = ?l"
    unfolding takeWhile_eq_all_conv by (auto dest: set_takeWhileD)
  then have "email_parts ?l ''gmail.com'' = ?l @ CHR ''@'' # ''gmail.com''" by (simp only: email_parts_gmail filter_filter) simp
  moreover have "email_parts l dm = ?l @ CHR ''@'' # ''gmail.com''" using True by (simp add: email_parts_def)
  moreover have "CHR ''@'' \<notin> set ''gmail.com''" by simp
  ultimately show ?thesis by metis
next
  case False
  let ?l = "takeWhile (\<lambda>c. c \<noteq> CHR ''+'') l"
  have "takeWhile (\<lambda>c. c \<noteq> CHR ''+'') ?l = ?l"
    unfolding takeWhile_eq_all_conv by (auto dest: set_takeWhileD)
  with False assms show ?thesis by (intro exI [of _ ?l] exI [of _ dm]) (simp add: email_parts_def)
qed

text \<open>Normalising an address of visible ASCII characters is idempotent, so that the address stored at
  registration is the one every later lookup uses.
\<close>

theorem normalize_email_idempotent:
  assumes "no_space e"
  shows "NormalizeEmail ulow (NormalizeEmail ulow e) = NormalizeEmail ulow e"
proof -
  let ?e = "ToLower ulow e"
  have ns: "no_space ?e" by (rule ToLower_no_space [OF assms])
  have low: "ToLower ulow ?e = ?e" using assms by (simp add: ToLower_idem no_space_def)
  show ?thesis
  proof (cases "LastIndex (CHR ''@'') ?e")
    case None
    then have "NormalizeEmail ulow e = ?e" by (simp add: NormalizeEmail_eq [OF assms])
    with None low show ?thesis by (simp add: NormalizeEmail_eq [OF ns])
  next
    case (Some i)
    show ?thesis
    proof (cases "i = 0")
      case True
      with Some have "NormalizeEmail ulow e = ?e" by (simp add: NormalizeEmail_eq [OF assms])
      with Some True low show ?thesis by (simp add: NormalizeEmail_eq [OF ns])
    next
      case False
      let ?l = "take i ?e" and ?d = "drop (Suc i) ?e"
      have split: "?e = ?l @ CHR ''@'' # ?d" "CHR ''@'' \<notin> set ?d" using LastIndex_SomeD [OF Some] by auto
      have once: "NormalizeEmail ulow e = email_parts ?l ?d"
        using Some False by (simp add: NormalizeEmail_eq [OF assms])
      obtain l' dm' where again: "email_parts ?l ?d = l' @ CHR ''@'' # dm'" "CHR ''@'' \<notin> set dm'"
        "email_parts l' dm' = email_parts ?l ?d"
        using email_parts_again [OF split(2), of ?l] by blast
      note lp = lower_part [OF assms split(1)]
      have "LastIndex (CHR ''@'') (email_parts ?l ?d) = Some (length l')"
        using again(1,2) LastIndex_Some [of "CHR ''@''" dm' l'] by simp
      moreover have "take (length l') (email_parts ?l ?d) = l'" "drop (length l' + 1) (email_parts ?l ?d) = dm'"
        using again(1) by simp_all
      ultimately have "NormalizeEmail ulow (email_parts ?l ?d) = email_parts ?l ?d"
        unfolding NormalizeEmail_eq [OF lp(2)] lp(1) using again(3) by simp
      with once show ?thesis by simp
    qed
  qed
qed

theorem normalize_email_idempotent_witness:
  "NormalizeEmail (\<lambda>s. s) (NormalizeEmail (\<lambda>s. s) ''A.b+x@GoogleMail.com'') = NormalizeEmail (\<lambda>s. s) ''A.b+x@GoogleMail.com''"
  by (rule normalize_email_idempotent) code_simp

end
