(* ===== verification/Lease.thy ===== *)
theory Lease
  imports Prelude
begin

text \<open>
  Tables whose rows are processed under a lease. Both queues of the program (the message outbox and
  the push deliveries) claim rows by writing a fresh lock token into them and settle a row with an
  \<open>UPDATE\<close> guarded by its identifier and that token, treating any affected count other than one
  as a lost lease. \<open>settle_where\<close> is that guarded update; the locale \<open>lease_table\<close> states what
  the workers rely on, and proves from it that a settled lease cannot be settled again and that a
  worker whose lease was taken over is fenced off.
\<close>

definition settle_where :: "('r \<Rightarrow> bool) \<Rightarrow> ('r \<Rightarrow> 'r) \<Rightarrow> 'r list \<Rightarrow> 'r list option" where
  "settle_where P f rows = (if affected P rows = 1 then Some (update_where P f rows) else None)"

lemma settle_where_Some:
  "settle_where P f rows = Some rows' \<longleftrightarrow> affected P rows = 1 \<and> rows' = update_where P f rows"
  by (auto simp: settle_where_def)

lemma settle_where_None: "settle_where P f rows = None \<longleftrightarrow> affected P rows \<noteq> 1"
  by (auto simp: settle_where_def)

text \<open>Under a unique key a guarded update applies exactly when the guarded row is there.\<close>

lemma affected_key_le: "distinct (map k rows) \<Longrightarrow> affected (\<lambda>r. k r = i \<and> P r) rows \<le> 1"
  using filter_key_unique [of k rows i P] by (simp add: affected_def)

lemma affected_key_one:
  assumes "distinct (map k rows)"
  shows "affected (\<lambda>r. k r = i \<and> P r) rows = 1 \<longleftrightarrow> (\<exists>r\<in>set rows. k r = i \<and> P r)"
proof -
  have "affected (\<lambda>r. k r = i \<and> P r) rows = 0 \<longleftrightarrow> \<not> (\<exists>r\<in>set rows. k r = i \<and> P r)"
    by (auto simp: affected_0)
  with affected_key_le [OF assms, of i P] show ?thesis by linarith
qed

locale lease_table =
  fixes key :: "'r \<Rightarrow> uuid"
    and token :: "'r \<Rightarrow> uuid option"
    and acquire :: "uuid \<Rightarrow> 'x \<Rightarrow> 'r list \<Rightarrow> uuid list \<times> 'r list"
    and settle :: "'a \<Rightarrow> uuid \<Rightarrow> uuid \<Rightarrow> 'r list \<Rightarrow> 'r list option"
  assumes settle_owner: "settle a i t rows = Some rows' \<Longrightarrow> \<exists>r\<in>set rows. key r = i \<and> token r = Some t"
    and settle_keys: "settle a i t rows = Some rows' \<Longrightarrow> map key rows' = map key rows"
    and settle_releases: "distinct (map key rows) \<Longrightarrow> settle a i t rows = Some rows' \<Longrightarrow>
        r \<in> set rows' \<Longrightarrow> key r = i \<Longrightarrow> token r = None"
    and settle_frame: "settle a i t rows = Some rows' \<Longrightarrow> key r \<noteq> i \<Longrightarrow> r \<in> set rows' \<longleftrightarrow> r \<in> set rows"
    and acquire_keys: "acquire t x rows = (ks, rows') \<Longrightarrow> map key rows' = map key rows"
    and acquire_takes: "distinct (map key rows) \<Longrightarrow> acquire t x rows = (ks, rows') \<Longrightarrow>
        r \<in> set rows' \<Longrightarrow> key r \<in> set ks \<Longrightarrow> token r = Some t"
    and acquire_frame: "distinct (map key rows) \<Longrightarrow> acquire t x rows = (ks, rows') \<Longrightarrow>
        key r \<notin> set ks \<Longrightarrow> r \<in> set rows' \<longleftrightarrow> r \<in> set rows"
begin

lemma settle_once:
  assumes "distinct (map key rows)" and "settle a i t rows = Some rows'"
  shows "settle b i t' rows' = None"
proof (cases "settle b i t' rows'")
  case (Some rows'')
  then obtain r where "r \<in> set rows'" "key r = i" "token r = Some t'"
    using settle_owner by blast
  with settle_releases [OF assms] show ?thesis by force
qed simp

lemma fenced:
  assumes "distinct (map key rows)" and "acquire t' x rows = (ks, rows')"
    and "i \<in> set ks" and "t \<noteq> t'"
  shows "settle a i t rows' = None"
proof (cases "settle a i t rows'")
  case (Some rows'')
  then obtain r where "r \<in> set rows'" "key r = i" "token r = Some t"
    using settle_owner by blast
  with acquire_takes [OF assms(1,2)] assms(3,4) show ?thesis by force
qed simp

text \<open>A claim of other rows does not disturb a lease.\<close>

lemma acquire_other:
  assumes "distinct (map key rows)" and "acquire t' x rows = (ks, rows')"
    and "r \<in> set rows" and "key r \<notin> set ks"
  shows "r \<in> set rows'"
  using acquire_frame [OF assms(1,2,4)] assms(3) by blast

end

end
