(* ===== verification/Schema.thy ===== *)
theory Schema
  imports Helpers
begin

text \<open>
  The entities of \<^verbatim>\<open>src/ent/schema\<close> and the database the services share.

  A row of a table is a record with the fields of its schema (\<open>updated_at\<close>, which the code
  reads of reports only, is left out elsewhere); a nillable field is an \<open>option\<close>; a table is the list of its rows
  in the order of insertion. JSON columns hold \<open>json\<close> values, in which a string the code
  renders from a UUID or from an instant is kept as that value. A service request runs in an environment: the
  clock reading of the request, the identifiers the request draws (\<open>newUUIDv7\<close>, the \<open>k\<close>-th
  draw being \<open>newid env k\<close>), the trace context it carries and the call sites at which the driver fails, each named by the text
  the code logs there.
\<close>

datatype stamp = RFC3339 time | RFC3339Nano time

datatype json = JNull | JStr string | JUuid uuid | JStamp stamp | JObj "(string \<times> json) list"
  | JBool bool | JInt int | JList "json list"

type_synonym json_object = "(string \<times> json) list"

section \<open>Users, blocks and media\<close>

datatype user_role = RoleUser | RoleSiteAdmin

record user =
  u_id :: uuid
  u_email :: "string option"
  u_username :: "string option"
  u_password_hash :: "string option"
  u_full_name :: "string option"
  u_bio :: "string option"
  u_avatar_id :: "uuid option"
  u_last_seen_at :: "time option"
  u_deleted_at :: "time option"
  u_role :: user_role
  u_is_banned :: bool
  u_message_notifications_enabled :: bool
  u_banned_until :: "time option"
  u_ban_reason :: "string option"
  u_created_at :: time

datatype identity_provider = ProviderGoogle

record user_identity =
  ui_id :: uuid
  ui_user_id :: uuid
  ui_provider :: identity_provider
  ui_provider_id :: string
  ui_provider_email :: "string option"

record user_block =
  ub_id :: uuid
  ub_blocker_id :: uuid
  ub_blocked_id :: uuid

datatype media_category = CategoryUserAvatar | CategoryGroupAvatar | CategoryMessageAttachment
datatype upload_status = UploadStatusPending | UploadStatusCompleted

record media =
  md_id :: uuid
  md_file_name :: string
  md_original_name :: string
  md_file_size :: int
  md_mime_type :: string
  md_category :: media_category
  md_upload_status :: upload_status
  md_upload_expires_at :: "time option"
  md_completed_at :: "time option"
  md_message_id :: "uuid option"
  md_uploaded_by_id :: "uuid option"
  md_created_at :: time

section \<open>Chats\<close>

datatype chat_type = TypePrivate | TypeGroup

record chat =
  c_id :: uuid
  c_type :: chat_type
  c_last_message_id :: "uuid option"
  c_last_message_at :: "time option"
  c_deleted_at :: "time option"
  c_created_at :: time

record private_chat =
  pc_id :: uuid
  pc_chat_id :: uuid
  pc_user1_id :: "uuid option"
  pc_user2_id :: "uuid option"
  pc_user1_last_read_at :: "time option"
  pc_user2_last_read_at :: "time option"
  pc_user1_hidden_at :: "time option"
  pc_user2_hidden_at :: "time option"
  pc_user1_unread_count :: int
  pc_user2_unread_count :: int

record group_chat =
  gc_id :: uuid
  gc_chat_id :: uuid
  gc_created_by :: "uuid option"
  gc_name :: string
  gc_description :: "string option"
  gc_avatar_id :: "uuid option"
  gc_is_public :: bool
  gc_invite_code :: string
  gc_invite_expires_at :: "time option"

datatype member_role = RoleOwner | RoleAdmin | RoleMember

record group_member =
  gm_id :: uuid
  gm_group_chat_id :: uuid
  gm_user_id :: uuid
  gm_role :: member_role
  gm_last_read_at :: "time option"
  gm_joined_at :: time
  gm_unread_count :: int

section \<open>Messages and their outbox\<close>

datatype message_type = TypeRegular | TypeSystemCreate | TypeSystemRename | TypeSystemDescription
  | TypeSystemAvatar | TypeSystemJoin | TypeSystemAdd | TypeSystemLeave | TypeSystemKick
  | TypeSystemPromote | TypeSystemDemote | TypeSystemVisibility

record message =
  m_id :: uuid
  m_chat_id :: uuid
  m_sender_id :: "uuid option"
  m_reply_to_id :: "uuid option"
  m_type :: message_type
  m_content :: "string option"
  m_action_data :: "json_object option"
  m_deleted_at :: "time option"
  m_edited_at :: "time option"
  m_created_at :: time

record message_outbox =
  ob_id :: uuid
  ob_event_type :: string
  ob_message_id :: uuid
  ob_chat_id :: uuid
  ob_sender_id :: "uuid option"
  ob_payload :: "json_object option"
  ob_attempt_count :: int
  ob_available_at :: time
  ob_locked_at :: "time option"
  ob_lock_token :: "uuid option"
  ob_projected_at :: "time option"
  ob_published_at :: "time option"
  ob_dead_lettered_at :: "time option"
  ob_last_error :: "string option"
  ob_created_at :: time

section \<open>Push notifications\<close>

datatype platform = Android | Ios | Web

record push_device =
  pd_id :: uuid
  pd_installation_id :: uuid
  pd_user_id :: uuid
  pd_token :: string
  pd_platform :: platform
  pd_session_hash :: string
  pd_secret_hash :: string
  pd_issued_at :: int
  pd_expires_at :: time
  pd_binding_id :: uuid
  pd_disabled_at :: "time option"

record push_delivery =
  dl_id :: uuid
  dl_event_id :: uuid
  dl_device_id :: uuid
  dl_binding_id :: uuid
  dl_user_id :: uuid
  dl_message_id :: uuid
  dl_chat_id :: uuid
  dl_available_at :: time
  dl_expires_at :: time
  dl_attempt_count :: int
  dl_locked_at :: "time option"
  dl_lock_token :: "uuid option"
  dl_sent_at :: "time option"
  dl_finished_at :: "time option"
  dl_outcome :: string
  dl_last_error :: "string option"
  dl_created_at :: time

record chat_notification_preference =
  np_id :: uuid
  np_user_id :: uuid
  np_chat_id :: uuid
  np_muted_forever :: bool
  np_muted_until :: "time option"

section \<open>Reports\<close>

datatype report_target = TargetTypeMessage | TargetTypeGroup | TargetTypeUser
datatype report_status = StatusPending | StatusReviewed | StatusResolved | StatusRejected

record report =
  rt_id :: uuid
  rt_target_type :: report_target
  rt_reason :: string
  rt_description :: "string option"
  rt_evidence_snapshot :: "json_object option"
  rt_status :: report_status
  rt_reporter_id :: "uuid option"
  rt_message_id :: "uuid option"
  rt_group_id :: "uuid option"
  rt_target_user_id :: "uuid option"
  rt_resolution_notes :: "string option"
  rt_resolved_at :: "time option"
  rt_resolved_by_id :: "uuid option"
  rt_created_at :: time
  rt_updated_at :: time

text \<open>The join table of the edge \<open>evidence_media\<close>: report and media.\<close>

type_synonym evidence_row = "uuid \<times> uuid"

section \<open>The database and the environment of a request\<close>

record db =
  users :: "user list"
  user_blocks :: "user_block list"
  medias :: "media list"
  chats :: "chat list"
  private_chats :: "private_chat list"
  group_chats :: "group_chat list"
  group_members :: "group_member list"
  messages :: "message list"
  outbox :: "message_outbox list"
  push_devices :: "push_device list"
  push_deliveries :: "push_delivery list"
  notification_preferences :: "chat_notification_preference list"
  user_identities :: "user_identity list"
  reports :: "report list"
  report_evidence :: "evidence_row list"

definition empty_db :: db where
  "empty_db = \<lparr>users = [], user_blocks = [], medias = [], chats = [], private_chats = [],
     group_chats = [], group_members = [], messages = [], outbox = [], push_devices = [],
     push_deliveries = [], notification_preferences = [], user_identities = [], reports = [], report_evidence = []\<rparr>"

record env =
  now :: time
  newid :: "nat \<Rightarrow> uuid"
  trace_parent :: string
  fault :: "string \<Rightarrow> bool"

section \<open>Conditions the services share\<close>

text \<open>\<open>u.IsBanned && (u.BannedUntil == nil || time.Now().UTC().Before(*u.BannedUntil))\<close>\<close>

definition currently_banned :: "time \<Rightarrow> user \<Rightarrow> bool" where
  "currently_banned t u \<longleftrightarrow>
     u_is_banned u \<and> (case u_banned_until u of None \<Rightarrow> True | Some b \<Rightarrow> t < b)"

definition user_active :: "time \<Rightarrow> user \<Rightarrow> bool" where
  "user_active t u \<longleftrightarrow>
     u_deleted_at u = None \<and>
     (\<not> u_is_banned u \<or> (case u_banned_until u of None \<Rightarrow> False | Some b \<Rightarrow> b \<le> t))"

lemma user_active_iff: "user_active t u \<longleftrightarrow> u_deleted_at u = None \<and> \<not> currently_banned t u"
  by (auto simp: user_active_def currently_banned_def split: option.splits)

definition user_of :: "db \<Rightarrow> uuid \<Rightarrow> user option" where
  "user_of d i = find (\<lambda>u. u_id u = i) (users d)"

text \<open>\<open>HasUserWith(user.DeletedAtIsNil())\<close>: the member's user exists and is not deleted.\<close>

definition member_user_live :: "db \<Rightarrow> group_member \<Rightarrow> bool" where
  "member_user_live d m \<longleftrightarrow> (\<exists>u\<in>set (users d). u_id u = gm_user_id m \<and> u_deleted_at u = None)"

text \<open>\<open>HasChatWith(chat.DeletedAtIsNil())\<close>\<close>

definition chat_live :: "db \<Rightarrow> uuid \<Rightarrow> bool" where
  "chat_live d i \<longleftrightarrow> (\<exists>c\<in>set (chats d). c_id c = i \<and> c_deleted_at c = None)"

definition blocked_between :: "db \<Rightarrow> uuid \<Rightarrow> uuid \<Rightarrow> bool" where
  "blocked_between d a b \<longleftrightarrow>
     (\<exists>r\<in>set (user_blocks d). ub_blocker_id r = a \<and> ub_blocked_id r = b \<or>
                                ub_blocker_id r = b \<and> ub_blocked_id r = a)"

lemma blocked_between_sym: "blocked_between d a b = blocked_between d b a"
  by (auto simp: blocked_between_def)

end
