(* ===== verification/Message_Mapper.thy ===== *)
theory Message_Mapper
  imports Schema
begin

text \<open>
  Messages with their loaded relations and the response the clients see:
  \<^verbatim>\<open>src/internal/infrastructure/database/mapper/message.go\<close> and the response types of
  \<^verbatim>\<open>src/internal/domain/model/message_dto.go\<close>. The storage service that signs and builds URLs is
  the argument \<open>urlgen\<close>; a rendered instant keeps its layout (\<open>stamp\<close>).
\<close>

record urlgen =
  GetPresignedURL :: "string \<Rightarrow> string"
  GetPublicURL :: "string \<Rightarrow> string"

record full_message =
  fm_message :: message
  fm_sender :: "(user \<times> media option) option"
  fm_attachments :: "media list"
  fm_reply_to :: "(message \<times> user option) option"

record media_dto =
  mdto_id :: uuid
  mdto_file_name :: string
  mdto_original_name :: string
  mdto_file_size :: int
  mdto_mime_type :: string
  mdto_url :: string

record reply_preview =
  rp_id :: uuid
  rp_sender_id :: "uuid option"
  rp_sender_name :: string
  rp_type :: message_type
  rp_content :: string
  rp_action_data :: "json_object option"
  rp_deleted_at :: "stamp option"
  rp_created_at :: stamp

record message_response =
  mr_id :: uuid
  mr_chat_id :: uuid
  mr_sender_id :: "uuid option"
  mr_sender_name :: string
  mr_sender_avatar :: string
  mr_sender_role :: string
  mr_type :: message_type
  mr_content :: string
  mr_action_data :: "json_object option"
  mr_attachments :: "media_dto list"
  mr_reply_to :: "reply_preview option"
  mr_created_at :: stamp
  mr_deleted_at :: "stamp option"
  mr_edited_at :: "stamp option"
  mr_member_count :: "nat option"

section \<open>Loading relations\<close>

text \<open>\<open>WithSender\<close> (with or without the avatar), \<open>WithAttachments\<close> and \<open>WithReplyTo\<close>.\<close>

definition media_of :: "db \<Rightarrow> uuid \<Rightarrow> media option" where
  "media_of d i = find (\<lambda>m. md_id m = i) (medias d)"

definition message_of :: "db \<Rightarrow> uuid \<Rightarrow> message option" where
  "message_of d i = find (\<lambda>m. m_id m = i) (messages d)"

definition attachments_of :: "db \<Rightarrow> uuid \<Rightarrow> media list" where
  "attachments_of d i = filter (\<lambda>m. md_message_id m = Some i) (medias d)"

definition load_sender :: "db \<Rightarrow> bool \<Rightarrow> message \<Rightarrow> (user \<times> media option) option" where
  "load_sender d with_avatar m =
     (case m_sender_id m of
        None \<Rightarrow> None
      | Some i \<Rightarrow> map_option (\<lambda>u. (u, if with_avatar then Option.bind (u_avatar_id u) (media_of d) else None))
                    (user_of d i))"

definition load_reply :: "db \<Rightarrow> message \<Rightarrow> (message \<times> user option) option" where
  "load_reply d m =
     (case m_reply_to_id m of
        None \<Rightarrow> None
      | Some i \<Rightarrow> map_option (\<lambda>r. (r, Option.bind (m_sender_id r) (user_of d))) (message_of d i))"

definition load_full :: "db \<Rightarrow> message \<Rightarrow> full_message" where
  "load_full d m = \<lparr>fm_message = m, fm_sender = load_sender d True m,
     fm_attachments = attachments_of d (m_id m), fm_reply_to = load_reply d m\<rparr>"

section \<open>ToMessageResponse\<close>

definition media_to_dto :: "urlgen \<Rightarrow> media \<Rightarrow> media_dto" where
  "media_to_dto ug att = \<lparr>mdto_id = md_id att, mdto_file_name = md_file_name att,
     mdto_original_name = md_original_name att, mdto_file_size = md_file_size att,
     mdto_mime_type = md_mime_type att, mdto_url = GetPresignedURL ug (md_file_name att)\<rparr>"

definition to_reply_preview :: "message \<times> user option \<Rightarrow> reply_preview" where
  "to_reply_preview rs = (case rs of (reply, sender) \<Rightarrow>
     \<lparr>rp_id = m_id reply,
      rp_sender_id = (case sender of
          Some s \<Rightarrow> if u_deleted_at s \<noteq> None then None else Some (u_id s)
        | None \<Rightarrow> m_sender_id reply),
      rp_sender_name = (case sender of
          Some s \<Rightarrow> if u_deleted_at s \<noteq> None then ''Deleted User''
                   else (case u_full_name s of Some n \<Rightarrow> n | None \<Rightarrow> [])
        | None \<Rightarrow> []),
      rp_type = m_type reply,
      rp_content = (if m_deleted_at reply \<noteq> None then []
                    else case m_content reply of Some c \<Rightarrow> c | None \<Rightarrow> []),
      rp_action_data = (if m_deleted_at reply \<noteq> None then None else m_action_data reply),
      rp_deleted_at = map_option RFC3339 (m_deleted_at reply),
      rp_created_at = RFC3339 (m_created_at reply)\<rparr>)"

definition ToMessageResponse :: "full_message \<Rightarrow> urlgen \<Rightarrow> string \<Rightarrow> message_response" where
  "ToMessageResponse f ug senderRole =
     (let msg = fm_message f; isDeleted = (m_deleted_at msg \<noteq> None) in
      \<lparr>mr_id = m_id msg,
       mr_chat_id = m_chat_id msg,
       mr_sender_id = (case fm_sender f of
           Some (s, _) \<Rightarrow> if u_deleted_at s \<noteq> None then None else m_sender_id msg
         | None \<Rightarrow> m_sender_id msg),
       mr_sender_name = (case fm_sender f of
           Some (s, _) \<Rightarrow> if u_deleted_at s \<noteq> None then ''Deleted User''
                          else (case u_full_name s of Some n \<Rightarrow> n | None \<Rightarrow> [])
         | None \<Rightarrow> []),
       mr_sender_avatar = (case fm_sender f of
           Some (s, av) \<Rightarrow> if u_deleted_at s \<noteq> None then []
                           else (case av of Some a \<Rightarrow> GetPublicURL ug (md_file_name a) | None \<Rightarrow> [])
         | None \<Rightarrow> []),
       mr_sender_role = senderRole,
       mr_type = m_type msg,
       mr_content = (if isDeleted then [] else case m_content msg of Some c \<Rightarrow> c | None \<Rightarrow> []),
       mr_action_data = (if isDeleted then None else m_action_data msg),
       mr_attachments = (if isDeleted then [] else map (media_to_dto ug) (fm_attachments f)),
       mr_reply_to = map_option to_reply_preview (fm_reply_to f),
       mr_created_at = RFC3339 (m_created_at msg),
       mr_deleted_at = map_option RFC3339 (m_deleted_at msg),
       mr_edited_at = (if isDeleted then None else map_option RFC3339 (m_edited_at msg)),
       mr_member_count = None\<rparr>)"

text \<open>A deleted message shows none of its content, and a deleted sender is not identified.\<close>

lemma ToMessageResponse_deleted:
  assumes "m_deleted_at (fm_message f) = Some t"
  shows "mr_content (ToMessageResponse f ug r) = []"
    and "mr_attachments (ToMessageResponse f ug r) = []"
    and "mr_action_data (ToMessageResponse f ug r) = None"
    and "mr_edited_at (ToMessageResponse f ug r) = None"
    and "mr_deleted_at (ToMessageResponse f ug r) = Some (RFC3339 t)"
  using assms by (simp_all add: ToMessageResponse_def Let_def)

lemma ToMessageResponse_deleted_sender:
  assumes "fm_sender f = Some (s, av)" and "u_deleted_at s \<noteq> None"
  shows "mr_sender_id (ToMessageResponse f ug r) = None"
    and "mr_sender_name (ToMessageResponse f ug r) = ''Deleted User''"
    and "mr_sender_avatar (ToMessageResponse f ug r) = []"
  using assms by (simp_all add: ToMessageResponse_def Let_def)

end
