(* ===== verification/Message_Outbox.thy ===== *)
theory Message_Outbox
  imports Message_Mapper
begin

text \<open>
  The write side of the transactional outbox, \<^verbatim>\<open>src/internal/messaging/outbox/message_outbox.go\<close>,
  and the event types of \<^verbatim>\<open>src/internal/messaging/events\<close>. A message and its outbox row are
  written in one transaction; the row carries a snapshot of the message as its payload.
\<close>

section \<open>Events\<close>

definition EventMessageNew :: string where "EventMessageNew = ''message.new''"
definition EventMessageUpdate :: string where "EventMessageUpdate = ''message.update''"
definition EventMessageDelete :: string where "EventMessageDelete = ''message.delete''"
definition EventChatNew :: string where "EventChatNew = ''chat.new''"
definition EventChatRead :: string where "EventChatRead = ''chat.read''"
definition EventChatHide :: string where "EventChatHide = ''chat.hide''"
definition EventChatDelete :: string where "EventChatDelete = ''chat.delete''"
definition EventChatUpdate :: string where "EventChatUpdate = ''chat.update''"
definition EventUserOnline :: string where "EventUserOnline = ''user.online''"
definition EventUserOffline :: string where "EventUserOffline = ''user.offline''"
definition EventUserUpdate :: string where "EventUserUpdate = ''user.update''"
definition EventUserBlock :: string where "EventUserBlock = ''user.block''"
definition EventUserUnblock :: string where "EventUserUnblock = ''user.unblock''"
definition EventUserDeleted :: string where "EventUserDeleted = ''user.deleted''"

lemma event_types_distinct [simp]:
  "EventMessageNew \<noteq> EventMessageUpdate" "EventMessageNew \<noteq> EventMessageDelete"
  "EventMessageUpdate \<noteq> EventMessageDelete" "EventMessageUpdate \<noteq> EventMessageNew"
  "EventMessageDelete \<noteq> EventMessageNew" "EventMessageDelete \<noteq> EventMessageUpdate"
  by (simp_all add: EventMessageNew_def EventMessageUpdate_def EventMessageDelete_def)

datatype event_payload = MessagePayload message_response | DeletedPayload uuid

record event_meta =
  em_timestamp :: int
  em_chat_id :: uuid
  em_sender_id :: uuid
  em_unread_count :: int

record event =
  ev_type :: string
  ev_payload :: event_payload
  ev_meta :: "event_meta option"

record message_event =
  me_trace_parent :: string
  me_id :: uuid
  me_outbox_id :: uuid
  me_type :: string
  me_message_id :: uuid
  me_chat_id :: uuid
  me_sender_id :: uuid
  me_target_user_id :: uuid
  me_payload :: event

section \<open>Persisting an outbox row\<close>

definition TraceParentKey :: string where "TraceParentKey = ''_traceparent''"

definition json_of_string :: "string option \<Rightarrow> json" where
  "json_of_string x = (case x of None \<Rightarrow> JNull | Some s \<Rightarrow> JStr s)"

definition json_of_object :: "json_object option \<Rightarrow> json" where
  "json_of_object x = (case x of None \<Rightarrow> JNull | Some ob \<Rightarrow> JObj ob)"

text \<open>\<open>encoding/json\<close> renders a \<open>*time.Time\<close> in the \<open>RFC3339Nano\<close> layout.\<close>

definition json_of_time :: "time option \<Rightarrow> json" where
  "json_of_time x = (case x of None \<Rightarrow> JNull | Some t \<Rightarrow> JStamp (RFC3339Nano t))"

definition outbox_payload :: "message \<Rightarrow> string \<Rightarrow> json_object" where
  "outbox_payload msg eventType =
     (if eventType = EventMessageDelete then [(''message_id'', JUuid (m_id msg))]
      else [(''content'', json_of_string (m_content msg)),
            (''action_data'', json_of_object (m_action_data msg)),
            (''edited_at'', json_of_time (m_edited_at msg)),
            (''deleted_at'', json_of_time (m_deleted_at msg))])"

text \<open>\<open>k\<close> is the draw of the row's identifier; \<open>available_at\<close> and \<open>created_at\<close> default to now.\<close>

definition new_outbox :: "env \<Rightarrow> nat \<Rightarrow> message \<Rightarrow> string \<Rightarrow> uuid \<Rightarrow> json_object option \<Rightarrow> message_outbox" where
  "new_outbox e k msg eventType senderID payload =
     \<lparr>ob_id = newid e k, ob_event_type = eventType, ob_message_id = m_id msg, ob_chat_id = m_chat_id msg,
      ob_sender_id = Some senderID, ob_payload = payload, ob_attempt_count = 0, ob_available_at = now e,
      ob_locked_at = None, ob_lock_token = None, ob_projected_at = None, ob_published_at = None,
      ob_dead_lettered_at = None, ob_last_error = None, ob_created_at = now e\<rparr>"

definition PersistMessageOutboxWithPayload ::
  "env \<Rightarrow> nat \<Rightarrow> db \<Rightarrow> message \<Rightarrow> string \<Rightarrow> uuid \<Rightarrow> json_object option \<Rightarrow> ent_error + db" where
  "PersistMessageOutboxWithPayload e k d msg eventType senderID payload =
     (let payload = (if trace_parent e = [] then payload
                     else Some ((case payload of None \<Rightarrow> [] | Some p \<Rightarrow> p) @ [(TraceParentKey, JStr (trace_parent e))]))
      in if fault e ''outbox'' then Inl DriverError
         else Inr (d\<lparr>outbox := outbox d @ [new_outbox e k msg eventType senderID payload]\<rparr>))"

definition PersistMessageOutbox ::
  "env \<Rightarrow> nat \<Rightarrow> db \<Rightarrow> message \<Rightarrow> string \<Rightarrow> uuid \<Rightarrow> ent_error + db" where
  "PersistMessageOutbox e k d msg eventType senderID =
     PersistMessageOutboxWithPayload e k d msg eventType senderID (Some (outbox_payload msg eventType))"

fun PersistMessageOutboxes ::
  "env \<Rightarrow> nat \<Rightarrow> db \<Rightarrow> message list \<Rightarrow> string \<Rightarrow> uuid \<Rightarrow> ent_error + db" where
  "PersistMessageOutboxes e k d [] eventType senderID = Inr d"
| "PersistMessageOutboxes e k d (msg # msgs) eventType senderID =
     and_then (PersistMessageOutbox e k d msg eventType senderID)
       (\<lambda>d. PersistMessageOutboxes e (Suc k) d msgs eventType senderID)"

text \<open>Reading a payload back: \<open>payload[key]\<close> and the type assertions of the consumer.\<close>

definition json_string :: "json \<Rightarrow> string option" where
  "json_string j = (case j of JStr s \<Rightarrow> Some s | _ \<Rightarrow> None)"

definition json_stamp :: "json \<Rightarrow> stamp option" where
  "json_stamp j = (case j of JStamp s \<Rightarrow> Some s | _ \<Rightarrow> None)"

definition json_object_of :: "json \<Rightarrow> json_object option" where
  "json_object_of j = (case j of JObj ob \<Rightarrow> Some ob | _ \<Rightarrow> None)"

lemma json_roundtrips [simp]:
  "json_string (json_of_string x) = x"
  "json_object_of (json_of_object y) = y"
  "json_stamp (json_of_time t) = map_option RFC3339Nano t"
  by (simp_all add: json_string_def json_of_string_def json_object_of_def json_of_object_def
      json_stamp_def json_of_time_def split: option.splits)

lemma json_of_time_null [simp]: "json_of_time t = JNull \<longleftrightarrow> t = None"
  by (simp add: json_of_time_def split: option.splits)

text \<open>The row a successful write appends.\<close>

definition outbox_row_payload :: "env \<Rightarrow> message \<Rightarrow> string \<Rightarrow> json_object" where
  "outbox_row_payload e msg eventType = outbox_payload msg eventType @
     (if trace_parent e = [] then [] else [(TraceParentKey, JStr (trace_parent e))])"

lemma PersistMessageOutbox_Inr [result_simps]:
  "PersistMessageOutbox e k d msg eventType senderID = Inr d' \<longleftrightarrow> \<not> fault e ''outbox'' \<and>
     d' = d\<lparr>outbox := outbox d @ [new_outbox e k msg eventType senderID (Some (outbox_row_payload e msg eventType))]\<rparr>"
  by (auto simp: PersistMessageOutbox_def PersistMessageOutboxWithPayload_def outbox_row_payload_def Let_def)

end
