(* ===== verification/Samples.thy ===== *)
theory Samples
  imports Message_Outbox
begin

text \<open>Small concrete rows, requests and environments on which the properties are evaluated.\<close>

definition no_fault :: "string \<Rightarrow> bool" where
  "no_fault c = False"

lemma no_fault [simp]: "\<not> no_fault c"
  by (simp add: no_fault_def)

definition no_skip :: "uuid \<Rightarrow> bool" where
  "no_skip i = False"

definition sample_env :: "time \<Rightarrow> uuid \<Rightarrow> env" where
  "sample_env t base = \<lparr>now = t, newid = (\<lambda>k. base + k), trace_parent = [], fault = no_fault\<rparr>"

lemma sample_env_simps [simp]:
  "now (sample_env t base) = t" "newid (sample_env t base) k = base + k" "trace_parent (sample_env t base) = []"
  "fault (sample_env t base) = no_fault"
  by (simp_all add: sample_env_def)

definition sample_user :: "uuid \<Rightarrow> string \<Rightarrow> user" where
  "sample_user i name = \<lparr>u_id = i, u_email = None, u_username = Some name, u_password_hash = None, u_full_name = Some name,
     u_bio = None, u_avatar_id = None, u_last_seen_at = None, u_deleted_at = None, u_role = RoleUser, u_is_banned = False,
     u_message_notifications_enabled = True, u_banned_until = None, u_ban_reason = None, u_created_at = 0\<rparr>"

definition sample_chat :: "uuid \<Rightarrow> chat_type \<Rightarrow> chat" where
  "sample_chat i ty = \<lparr>c_id = i, c_type = ty, c_last_message_id = None, c_last_message_at = None, c_deleted_at = None, c_created_at = 0\<rparr>"

definition sample_private :: "uuid \<Rightarrow> uuid \<Rightarrow> uuid \<Rightarrow> uuid \<Rightarrow> private_chat" where
  "sample_private i c a b = \<lparr>pc_id = i, pc_chat_id = c, pc_user1_id = Some a, pc_user2_id = Some b, pc_user1_last_read_at = None,
     pc_user2_last_read_at = None, pc_user1_hidden_at = None, pc_user2_hidden_at = None, pc_user1_unread_count = 3, pc_user2_unread_count = 4\<rparr>"

definition sample_group :: "uuid \<Rightarrow> uuid \<Rightarrow> group_chat" where
  "sample_group i c = \<lparr>gc_id = i, gc_chat_id = c, gc_created_by = Some 1, gc_name = ''Team'', gc_description = None,
     gc_avatar_id = None, gc_is_public = False, gc_invite_code = ''code'', gc_invite_expires_at = None\<rparr>"

definition sample_member :: "uuid \<Rightarrow> uuid \<Rightarrow> uuid \<Rightarrow> member_role \<Rightarrow> group_member" where
  "sample_member i g u role = \<lparr>gm_id = i, gm_group_chat_id = g, gm_user_id = u, gm_role = role, gm_last_read_at = None,
     gm_joined_at = 0, gm_unread_count = 0\<rparr>"

definition sample_message :: "uuid \<Rightarrow> uuid \<Rightarrow> uuid \<Rightarrow> time \<Rightarrow> message" where
  "sample_message i c s t = \<lparr>m_id = i, m_chat_id = c, m_sender_id = Some s, m_reply_to_id = None, m_type = TypeRegular,
     m_content = Some ''hi'', m_action_data = None, m_deleted_at = None, m_edited_at = None, m_created_at = t\<rparr>"

definition sample_outbox :: "uuid \<Rightarrow> uuid \<Rightarrow> uuid \<Rightarrow> uuid \<Rightarrow> time \<Rightarrow> message_outbox" where
  "sample_outbox i m c s t = \<lparr>ob_id = i, ob_event_type = EventMessageNew, ob_message_id = m, ob_chat_id = c, ob_sender_id = Some s,
     ob_payload = None, ob_attempt_count = 0, ob_available_at = t, ob_locked_at = None, ob_lock_token = None,
     ob_projected_at = None, ob_published_at = None, ob_dead_lettered_at = None, ob_last_error = None, ob_created_at = t\<rparr>"

definition sample_device :: "uuid \<Rightarrow> uuid \<Rightarrow> push_device" where
  "sample_device i u = \<lparr>pd_id = i, pd_installation_id = 1, pd_user_id = u, pd_token = ''tok'', pd_platform = Android, pd_session_hash = ''h'',
     pd_secret_hash = ''s'', pd_issued_at = 5, pd_expires_at = 5000, pd_binding_id = 3, pd_disabled_at = None\<rparr>"

definition sample_delivery :: "uuid \<Rightarrow> uuid \<Rightarrow> push_delivery" where
  "sample_delivery i dev = \<lparr>dl_id = i, dl_event_id = 30, dl_device_id = dev, dl_binding_id = 3, dl_user_id = 2, dl_message_id = 20,
     dl_chat_id = 10, dl_available_at = 100, dl_expires_at = 4000, dl_attempt_count = 0, dl_locked_at = None, dl_lock_token = None,
     dl_sent_at = None, dl_finished_at = None, dl_outcome = ''pending'', dl_last_error = None, dl_created_at = 100\<rparr>"

lemmas sample_defs = sample_user_def sample_chat_def sample_private_def sample_group_def sample_member_def
  sample_message_def sample_outbox_def

lemma sample_sels [simp]:
  "gc_id (sample_group i c) = i" "gc_chat_id (sample_group i c) = c" "gc_name (sample_group i c) = ''Team''"
  "gc_is_public (sample_group i c) = False" "gc_invite_code (sample_group i c) = ''code''" "gc_invite_expires_at (sample_group i c) = None"
  "gm_id (sample_member j g u r) = j" "gm_group_chat_id (sample_member j g u r) = g" "gm_user_id (sample_member j g u r) = u"
  "gm_role (sample_member j g u r) = r" "u_id (sample_user k n) = k" "u_deleted_at (sample_user k n) = None" "\<not> u_is_banned (sample_user k n)"
  by (simp_all add: sample_defs)

text \<open>Users 1 and 2 with their private chat 10, in which user 1 sent message 20; group chat 11 has both as members.\<close>

definition sample_db :: db where
  "sample_db = empty_db\<lparr>users := [sample_user 1 ''Ann'', sample_user 2 ''Bob''],
     chats := [sample_chat 10 TypePrivate, sample_chat 11 TypeGroup],
     private_chats := [sample_private 5 10 1 2], group_chats := [sample_group 6 11],
     group_members := [sample_member 7 6 1 RoleOwner, sample_member 8 6 2 RoleMember],
     messages := [sample_message 20 10 1 100, sample_message 21 11 1 101],
     outbox := [sample_outbox 30 20 10 1 100, sample_outbox 31 21 11 1 101, sample_outbox 32 20 10 1 102]\<rparr>"

end
