(* ===== verification/Realtime_Query.thy ===== *)
theory Realtime_Query
  imports Schema
begin

text \<open>
  The membership and block queries of
  \<^verbatim>\<open>src/internal/infrastructure/database/realtimequery/query.go\<close>, shared by the message worker, the
  push worker and the gateway. The argument \<open>flt\<close> names the queries at which the driver fails.
\<close>

definition Contacts :: "(string \<Rightarrow> bool) \<Rightarrow> db \<Rightarrow> uuid \<Rightarrow> ent_error + uuid list" where
  "Contacts flt d userID =
     and_then (ent_all (flt ''contacts'')
                (filter (\<lambda>p. pc_user1_id p = Some userID \<or> pc_user2_id p = Some userID) (private_chats d)))
       (\<lambda>privateChats. Inr (concat (map (\<lambda>p.
          if pc_user1_id p = Some userID \<and> pc_user2_id p \<noteq> None then [the (pc_user2_id p)]
          else if pc_user2_id p = Some userID \<and> pc_user1_id p \<noteq> None then [the (pc_user1_id p)]
          else []) privateChats)))"

definition ChatMembers :: "(string \<Rightarrow> bool) \<Rightarrow> db \<Rightarrow> uuid \<Rightarrow> ent_error + uuid list" where
  "ChatMembers flt d chatID =
     and_then (ent_only (flt ''chat'') (filter (\<lambda>c. c_id c = chatID \<and> c_deleted_at c = None) (chats d)))
       (\<lambda>entity. case c_type entity of
          TypePrivate \<Rightarrow>
            and_then (ent_only (flt ''private_chat'') (filter (\<lambda>p. pc_chat_id p = chatID) (private_chats d)))
              (\<lambda>p. Inr ((case pc_user1_id p of Some a \<Rightarrow> [a] | None \<Rightarrow> []) @
                        (case pc_user2_id p of Some b \<Rightarrow> [b] | None \<Rightarrow> [])))
        | TypeGroup \<Rightarrow>
            and_then (ent_only (flt ''group_chat'') (filter (\<lambda>g. gc_chat_id g = chatID) (group_chats d)))
              (\<lambda>g. and_then (ent_all (flt ''group_members'')
                               (filter (\<lambda>m. gm_group_chat_id m = gc_id g) (group_members d)))
                 (\<lambda>ms. Inr (map gm_user_id ms))))"

definition IsBlocked :: "(string \<Rightarrow> bool) \<Rightarrow> db \<Rightarrow> uuid \<Rightarrow> uuid \<Rightarrow> ent_error + bool" where
  "IsBlocked flt d firstID secondID =
     ent_exist (flt ''is_blocked'')
       (filter (\<lambda>b. (ub_blocker_id b = firstID \<or> ub_blocked_id b = firstID) \<and>
                    (ub_blocker_id b = secondID \<or> ub_blocked_id b = secondID)) (user_blocks d))"

definition BlockedContacts :: "(string \<Rightarrow> bool) \<Rightarrow> db \<Rightarrow> uuid \<Rightarrow> ent_error + uuid list" where
  "BlockedContacts flt d userID =
     and_then (ent_all (flt ''blocked_contacts'')
                (filter (\<lambda>b. ub_blocker_id b = userID \<or> ub_blocked_id b = userID) (user_blocks d)))
       (\<lambda>blocks. Inr (map (\<lambda>b. if ub_blocker_id b = userID then ub_blocked_id b else ub_blocker_id b) blocks))"

text \<open>The two block queries agree with the symmetric block relation.\<close>

lemma IsBlocked_iff:
  assumes "a \<noteq> b"
  shows "IsBlocked flt d a b = Inr v \<longleftrightarrow> \<not> flt ''is_blocked'' \<and> v = blocked_between d a b"
  using assms by (auto simp: IsBlocked_def blocked_between_def result_simps filter_empty_conv)

lemma BlockedContacts_iff:
  assumes "BlockedContacts flt d a = Inr bs" and "a \<noteq> b"
  shows "b \<in> set bs \<longleftrightarrow> blocked_between d a b"
proof -
  let ?P = "\<lambda>r. ub_blocker_id r = a \<or> ub_blocked_id r = a"
  let ?g = "\<lambda>r. if ub_blocker_id r = a then ub_blocked_id r else ub_blocker_id r"
  have "bs = map ?g (filter ?P (user_blocks d))"
    using assms(1) by (auto simp: BlockedContacts_def result_simps)
  then have "b \<in> set bs \<longleftrightarrow> (\<exists>r\<in>set (user_blocks d). ?P r \<and> b = ?g r)"
    by (simp only: in_set_map_filter)
  also have "\<dots> \<longleftrightarrow> blocked_between d a b"
    unfolding blocked_between_def using assms(2) by (intro bex_cong) auto
  finally show ?thesis .
qed

lemma Contacts_mem:
  assumes "Contacts flt d u = Inr cs"
  shows "v \<in> set cs \<longleftrightarrow>
    (\<exists>p\<in>set (private_chats d). pc_user1_id p = Some u \<and> pc_user2_id p = Some v \<or>
       pc_user2_id p = Some u \<and> pc_user1_id p = Some v)"
proof -
  let ?f = "\<lambda>p. if pc_user1_id p = Some u \<and> pc_user2_id p \<noteq> None then [the (pc_user2_id p)]
          else if pc_user2_id p = Some u \<and> pc_user1_id p \<noteq> None then [the (pc_user1_id p)] else []"
  let ?P = "\<lambda>p. pc_user1_id p = Some u \<or> pc_user2_id p = Some u"
  have "cs = concat (map ?f (filter ?P (private_chats d)))"
    using assms unfolding Contacts_def and_then_Inr ent_all_Inr by blast
  then have "v \<in> set cs \<longleftrightarrow> (\<exists>p\<in>set (private_chats d). ?P p \<and> v \<in> set (?f p))"
    by (simp only: in_set_concat_map_filter)
  also have "\<dots> \<longleftrightarrow> (\<exists>p\<in>set (private_chats d). pc_user1_id p = Some u \<and> pc_user2_id p = Some v \<or>
       pc_user2_id p = Some u \<and> pc_user1_id p = Some v)"
    by (intro bex_cong) auto
  finally show ?thesis .
qed

end
