(* ===== verification/Push_Store.thy ===== *)
theory Push_Store
  imports Lease Samples Realtime_Query
begin

text \<open>
  The store of the push worker, \<^verbatim>\<open>src/internal/push_worker/ent_store.go\<close> and
  \<^verbatim>\<open>src/internal/push_worker/preferences.go\<close>: who is notified (\<open>NotificationRecipients\<close>,
  \<open>Eligible\<close>), the enqueueing of one delivery per device inside the projection transaction
  (\<open>Enqueue\<close>), and the lease on deliveries (\<open>Claim\<close>, \<open>Finish\<close>).
  \<open>flt\<close> names the queries at which the driver fails.
\<close>

abbreviation (input) second :: duration where "second \<equiv> 1000000000"
abbreviation (input) minute :: duration where "minute \<equiv> 60 * second"
abbreviation (input) hour :: duration where "hour \<equiv> 60 * minute"

section \<open>Who is notified\<close>

definition muted :: "time \<Rightarrow> chat_notification_preference \<Rightarrow> bool" where
  "muted t p \<longleftrightarrow> np_muted_forever p \<or> (case np_muted_until p of None \<Rightarrow> False | Some b \<Rightarrow> b > t)"

definition NotificationRecipients ::
  "(string \<Rightarrow> bool) \<Rightarrow> time \<Rightarrow> db \<Rightarrow> uuid \<Rightarrow> uuid list \<Rightarrow> ent_error + uuid list" where
  "NotificationRecipients flt t d chatID ids =
     (if ids = [] then Inr []
      else
        and_then (ent_all (flt ''recipients.users'')
                   (filter (\<lambda>u. u_id u \<in> set ids \<and> u_message_notifications_enabled u) (users d)))
          (\<lambda>us. and_then (ent_all (flt ''recipients.muted'')
                   (filter (\<lambda>p. np_chat_id p = chatID \<and> np_user_id p \<in> set ids \<and> muted t p)
                      (notification_preferences d)))
            (\<lambda>ps. Inr (filter (\<lambda>i. \<not> (\<exists>p\<in>set ps. np_user_id p = i)) (map u_id us)))))"

definition hidden_ok :: "time \<Rightarrow> time option \<Rightarrow> bool" where
  "hidden_ok createdAt hiddenAt \<longleftrightarrow> (case hiddenAt of None \<Rightarrow> True | Some h \<Rightarrow> createdAt > h)"

definition joined_before :: "db \<Rightarrow> message \<Rightarrow> group_member \<Rightarrow> bool" where
  "joined_before d msg m \<longleftrightarrow> gm_joined_at m \<le> m_created_at msg \<and>
     (\<exists>g\<in>set (group_chats d). gc_id g = gm_group_chat_id m \<and> gc_chat_id g = m_chat_id msg)"

definition Eligible :: "(string \<Rightarrow> bool) \<Rightarrow> time \<Rightarrow> db \<Rightarrow> message \<Rightarrow> uuid \<Rightarrow> ent_error + bool" where
  "Eligible flt t d msg recipient =
     (case m_sender_id msg of
        None \<Rightarrow> Inr False
      | Some sender \<Rightarrow>
         if m_deleted_at msg \<noteq> None \<or> sender = recipient \<or> m_type msg \<noteq> TypeRegular then Inr False
         else
          and_then (ent_exist (flt ''eligible.user'')
                     (filter (\<lambda>u. u_id u = recipient \<and> user_active t u) (users d)))
           (\<lambda>active. if \<not> active then Inr False else
          and_then (ent_exist (flt ''eligible.chat'')
                     (filter (\<lambda>c. c_id c = m_chat_id msg \<and> c_deleted_at c = None) (chats d)))
           (\<lambda>ex. if \<not> ex then Inr False else
          and_then (IsBlocked flt d sender recipient)
           (\<lambda>blocked. if blocked then Inr False else
            (case ent_only (flt ''eligible.private'') (filter (\<lambda>p. pc_chat_id p = m_chat_id msg) (private_chats d)) of
               Inr pc \<Rightarrow>
                 Inr (if pc_user1_id pc = Some recipient then hidden_ok (m_created_at msg) (pc_user1_hidden_at pc)
                      else if pc_user2_id pc = Some recipient then hidden_ok (m_created_at msg) (pc_user2_hidden_at pc)
                      else False)
             | Inl NotFoundError \<Rightarrow>
                 ent_exist (flt ''eligible.member'')
                   (filter (\<lambda>m. gm_user_id m = recipient \<and> joined_before d msg m) (group_members d))
             | Inl e \<Rightarrow> Inl e)))))"

section \<open>Enqueue\<close>

text \<open>\<open>INSERT \<dots> ON CONFLICT (event_id, device_id) DO NOTHING\<close>, row after row.\<close>

fun insert_deliveries :: "push_delivery list \<Rightarrow> push_delivery list \<Rightarrow> push_delivery list" where
  "insert_deliveries table [] = table"
| "insert_deliveries table (r # rs) =
     insert_deliveries
       (if \<exists>s\<in>set table. dl_event_id s = dl_event_id r \<and> dl_device_id s = dl_device_id r then table
        else table @ [r]) rs"

definition new_delivery :: "time \<Rightarrow> uuid \<Rightarrow> message \<Rightarrow> uuid \<Rightarrow> push_device \<Rightarrow> push_delivery" where
  "new_delivery t i msg event device =
     \<lparr>dl_id = i, dl_event_id = event, dl_device_id = pd_id device, dl_binding_id = pd_binding_id device,
      dl_user_id = pd_user_id device, dl_message_id = m_id msg, dl_chat_id = m_chat_id msg,
      dl_available_at = t, dl_expires_at = m_created_at msg + hour, dl_attempt_count = 0,
      dl_locked_at = None, dl_lock_token = None, dl_sent_at = None, dl_finished_at = None,
      dl_outcome = ''pending'', dl_last_error = None, dl_created_at = t\<rparr>"

text \<open>The loop over the active users that keeps the recipients.\<close>

definition enqueue_recipient :: "message \<Rightarrow> uuid \<Rightarrow> uuid list \<Rightarrow> uuid list \<Rightarrow> private_chat option \<Rightarrow>
    uuid list \<Rightarrow> uuid \<Rightarrow> bool" where
  "enqueue_recipient msg sender allowedRecipients blocked pc joined recipient \<longleftrightarrow>
     recipient \<noteq> sender \<and> recipient \<in> set allowedRecipients \<and> recipient \<notin> set blocked \<and>
     (case pc of
        Some p \<Rightarrow>
          if pc_user1_id p = Some recipient then hidden_ok (m_created_at msg) (pc_user1_hidden_at p)
          else if pc_user2_id p = Some recipient then hidden_ok (m_created_at msg) (pc_user2_hidden_at p)
          else False
      | None \<Rightarrow> recipient \<in> set joined)"

definition active_among :: "time \<Rightarrow> db \<Rightarrow> uuid list \<Rightarrow> uuid list" where
  "active_among t d members = map u_id (filter (\<lambda>u. u_id u \<in> set members \<and> user_active t u) (users d))"

definition enqueue_recipients :: "(string \<Rightarrow> bool) \<Rightarrow> time \<Rightarrow> db \<Rightarrow> message \<Rightarrow> uuid \<Rightarrow> ent_error + uuid list" where
  "enqueue_recipients flt t d msg sender =
     and_then (ChatMembers flt d (m_chat_id msg)) (\<lambda>members.
     and_then (NotificationRecipients flt t d (m_chat_id msg) members) (\<lambda>allowed.
     and_then (ent_all (flt ''enqueue.active'') (active_among t d members)) (\<lambda>activeUsers.
     and_then (BlockedContacts flt d sender) (\<lambda>blocked.
       (case ent_only (flt ''enqueue.private'') (filter (\<lambda>p. pc_chat_id p = m_chat_id msg) (private_chats d)) of
          Inr pc \<Rightarrow> Inr (filter (enqueue_recipient msg sender allowed blocked (Some pc) []) activeUsers)
        | Inl NotFoundError \<Rightarrow>
            and_then (ent_all (flt ''enqueue.joined'')
                       (filter (\<lambda>m. gm_user_id m \<in> set members \<and> joined_before d msg m) (group_members d)))
              (\<lambda>rows. Inr (filter (enqueue_recipient msg sender allowed blocked None (map gm_user_id rows)) activeUsers))
        | Inl e \<Rightarrow> Inl e)))))"

text \<open>
  The bulk insert runs in chunks of one hundred; \<open>chunk_fault k\<close> says whether the insert of the
  \<open>k\<close>-th chunk fails. The enclosing transaction is rolled back on any error.
\<close>

function insert_chunks :: "(nat \<Rightarrow> bool) \<Rightarrow> nat \<Rightarrow> push_delivery list \<Rightarrow> push_delivery list \<Rightarrow>
    ent_error + push_delivery list" where
  "insert_chunks chunk_fault k table rows =
     (if rows = [] then Inr table
      else if chunk_fault k then Inl DriverError
      else insert_chunks chunk_fault (Suc k) (insert_deliveries table (take 100 rows)) (drop 100 rows))"
  by pat_completeness auto
termination
  by (relation "measure (\<lambda>(f, k, t, rows). length rows)") auto

declare insert_chunks.simps [simp del]

definition Enqueue :: "(string \<Rightarrow> bool) \<Rightarrow> (nat \<Rightarrow> bool) \<Rightarrow> (nat \<Rightarrow> uuid) \<Rightarrow> time \<Rightarrow> db \<Rightarrow> message \<Rightarrow> uuid \<Rightarrow>
    ent_error + db" where
  "Enqueue flt chunk_fault ids t d msg event =
     (case m_sender_id msg of
        None \<Rightarrow> Inr d
      | Some sender \<Rightarrow>
         if m_deleted_at msg \<noteq> None \<or> m_type msg \<noteq> TypeRegular then Inr d
         else
          and_then (enqueue_recipients flt t d msg sender) (\<lambda>recipients.
            if recipients = [] then Inr d
            else
             and_then (ent_all (flt ''enqueue.devices'')
                        (filter (\<lambda>v. pd_user_id v \<in> set recipients \<and> pd_disabled_at v = None \<and> pd_expires_at v > t)
                           (push_devices d))) (\<lambda>devices.
             and_then (insert_chunks chunk_fault 0 (push_deliveries d)
                        (map (\<lambda>(k, v). new_delivery t (ids k) msg event v) (enumerate 0 devices)))
              (\<lambda>table. Inr (d\<lparr>push_deliveries := table\<rparr>)))))"

section \<open>The lease: Claim and Finish\<close>

definition delivery_claimable :: "time \<Rightarrow> push_delivery \<Rightarrow> bool" where
  "delivery_claimable t r \<longleftrightarrow>
     dl_finished_at r = None \<and> dl_available_at r \<le> t \<and>
     (case dl_locked_at r of None \<Rightarrow> True | Some l \<Rightarrow> l < t - minute)"

definition lease_delivery :: "time \<Rightarrow> uuid \<Rightarrow> push_delivery \<Rightarrow> push_delivery" where
  "lease_delivery t tok r =
     r\<lparr>dl_locked_at := Some t, dl_lock_token := Some tok, dl_attempt_count := dl_attempt_count r + 1\<rparr>"

text \<open>
  \<open>Only\<close> resets the query's limit to two and fails with \<open>NotSingularError\<close> when two rows match
  (\<^verbatim>\<open>src/ent/pushdelivery_query.go\<close>), so the preceding \<open>Limit(1)\<close> has no effect. Rows that
  another transaction holds (\<open>skip\<close>) are skipped.
\<close>

definition Claim :: "(string \<Rightarrow> bool) \<Rightarrow> (uuid \<Rightarrow> bool) \<Rightarrow> time \<Rightarrow> uuid \<Rightarrow> db \<Rightarrow>
    ent_error + (push_delivery option \<times> db)" where
  "Claim flt skip t tok d =
     (if flt ''claim.begin'' then Inl DriverError
      else case ent_only (flt ''claim.select'')
             (sort_key dl_created_at
                (filter (\<lambda>r. delivery_claimable t r \<and> \<not> skip (dl_id r)) (push_deliveries d))) of
        Inl NotFoundError \<Rightarrow> Inr (None, d)
      | Inl e \<Rightarrow> Inl e
      | Inr row \<Rightarrow>
          if flt ''claim.update'' \<or> flt ''claim.commit'' then Inl DriverError
          else Inr (Some (lease_delivery t tok row),
                    d\<lparr>push_deliveries :=
                        update_where (\<lambda>r. dl_id r = dl_id row) (lease_delivery t tok) (push_deliveries d)\<rparr>))"

text \<open>\<open>%.256s\<close> keeps at most 256 runes: a byte of the form 10xxxxxx continues the rune before it.\<close>

fun take_runes :: "nat \<Rightarrow> string \<Rightarrow> string" where
  "take_runes n [] = []"
| "take_runes n (c # cs) =
     (if (of_char c :: nat) div 64 = 2 then c # take_runes n cs
      else case n of 0 \<Rightarrow> [] | Suc m \<Rightarrow> c # take_runes m cs)"

datatype finish_error = ErrLeaseLost | FinishFault

definition finish_row :: "time \<Rightarrow> string \<Rightarrow> string option \<Rightarrow> duration \<Rightarrow> push_delivery \<Rightarrow> push_delivery" where
  "finish_row t outcome cause retry r =
     (let r = r\<lparr>dl_locked_at := None, dl_lock_token := None\<rparr>;
          r = (if retry > 0 then r\<lparr>dl_available_at := t + retry\<rparr>
               else (let r = r\<lparr>dl_finished_at := Some t, dl_outcome := outcome\<rparr>
                     in if outcome = ''sent'' then r\<lparr>dl_sent_at := Some t\<rparr> else r))
      in case cause of None \<Rightarrow> r | Some e \<Rightarrow> r\<lparr>dl_last_error := Some (take_runes 256 e)\<rparr>)"

definition finish_guard :: "uuid \<Rightarrow> uuid \<Rightarrow> push_delivery \<Rightarrow> bool" where
  "finish_guard i tok r \<longleftrightarrow> dl_id r = i \<and> dl_lock_token r = Some tok \<and> dl_finished_at r = None"

definition Finish :: "bool \<Rightarrow> time \<Rightarrow> uuid \<Rightarrow> uuid \<Rightarrow> string \<Rightarrow> string option \<Rightarrow> duration \<Rightarrow> db \<Rightarrow>
    finish_error + db" where
  "Finish broken t i tok outcome cause retry d =
     (if broken then Inl FinishFault
      else case settle_where (finish_guard i tok) (finish_row t outcome cause retry) (push_deliveries d) of
             None \<Rightarrow> Inl ErrLeaseLost
           | Some table \<Rightarrow> Inr (d\<lparr>push_deliveries := table\<rparr>))"

section \<open>Recipients at enqueue time and at send time\<close>

lemma NotificationRecipients_mem:
  assumes "NotificationRecipients flt t d c ids = Inr rs"
  shows "r \<in> set rs \<longleftrightarrow> r \<in> set ids \<and>
    (\<exists>u\<in>set (users d). u_id u = r \<and> u_message_notifications_enabled u) \<and>
    \<not> (\<exists>p\<in>set (notification_preferences d). np_chat_id p = c \<and> np_user_id p = r \<and> muted t p)"
proof (cases "ids = []")
  case True
  with assms show ?thesis by (simp add: NotificationRecipients_def)
next
  case False
  let ?us = "map u_id (filter (\<lambda>u. u_id u \<in> set ids \<and> u_message_notifications_enabled u) (users d))"
  let ?ps = "filter (\<lambda>p. np_chat_id p = c \<and> np_user_id p \<in> set ids \<and> muted t p) (notification_preferences d)"
  have "rs = filter (\<lambda>i. \<not> (\<exists>p\<in>set ?ps. np_user_id p = i)) ?us"
    using assms False unfolding NotificationRecipients_def by (auto simp only: result_simps if_False sum.inject)
  then have "r \<in> set rs \<longleftrightarrow> r \<in> set ?us \<and> \<not> (\<exists>p\<in>set ?ps. np_user_id p = r)" by simp
  then show ?thesis by (auto simp: in_set_map_filter)
qed

lemma active_among_mem:
  "r \<in> set (active_among t d ms) \<longleftrightarrow>
     r \<in> set ms \<and> filter (\<lambda>u. u_id u = r \<and> user_active t u) (users d) \<noteq> []"
  by (auto simp: active_among_def filter_empty_conv)

text \<open>What a successful selection of recipients is.\<close>

lemma enqueue_recipients_InrE:
  assumes "enqueue_recipients flt t d msg s = Inr rs"
  obtains members allowed blocked pc joined where
    "ChatMembers flt d (m_chat_id msg) = Inr members"
    "NotificationRecipients flt t d (m_chat_id msg) members = Inr allowed"
    "BlockedContacts flt d s = Inr blocked"
    "rs = filter (enqueue_recipient msg s allowed blocked pc joined) (active_among t d members)"
    "filter (\<lambda>p. pc_chat_id p = m_chat_id msg) (private_chats d) = (case pc of None \<Rightarrow> [] | Some p \<Rightarrow> [p])"
    "joined = (case pc of Some p \<Rightarrow> [] | None \<Rightarrow> map gm_user_id
       (filter (\<lambda>m. gm_user_id m \<in> set members \<and> joined_before d msg m) (group_members d)))"
proof -
  let ?q = "ent_only (flt ''enqueue.private'') (filter (\<lambda>p. pc_chat_id p = m_chat_id msg) (private_chats d))"
  from assms obtain members allowed blocked where
    base: "ChatMembers flt d (m_chat_id msg) = Inr members"
      "NotificationRecipients flt t d (m_chat_id msg) members = Inr allowed"
      "BlockedContacts flt d s = Inr blocked"
    and fin: "(case ?q of
          Inr pc \<Rightarrow> Inr (filter (enqueue_recipient msg s allowed blocked (Some pc) []) (active_among t d members))
        | Inl NotFoundError \<Rightarrow> and_then (ent_all (flt ''enqueue.joined'')
              (filter (\<lambda>m. gm_user_id m \<in> set members \<and> joined_before d msg m) (group_members d)))
              (\<lambda>rows. Inr (filter (enqueue_recipient msg s allowed blocked None (map gm_user_id rows)) (active_among t d members)))
        | Inl e \<Rightarrow> Inl e) = Inr rs"
    unfolding enqueue_recipients_def and_then_Inr ent_all_Inr by blast
  show ?thesis
  proof (cases ?q)
    case (Inr p)
    with fin show ?thesis
      by (intro that [OF base, where pc = "Some p" and joined = "[]"]) (auto simp: ent_only_Inr)
  next
    case (Inl e)
    with fin have e: "e = NotFoundError" by (auto split: ent_error.splits)
    with Inl have none: "filter (\<lambda>p. pc_chat_id p = m_chat_id msg) (private_chats d) = []"
      by (simp add: ent_only_NotFound)
    from fin [unfolded Inl e] have "rs = filter (enqueue_recipient msg s allowed blocked None (map gm_user_id
            (filter (\<lambda>m. gm_user_id m \<in> set members \<and> joined_before d msg m) (group_members d)))) (active_among t d members)"
      by (simp add: and_then_Inr ent_all_Inr)
    then show ?thesis
      by (intro that [OF base, where pc = None and joined = "map gm_user_id
            (filter (\<lambda>m. gm_user_id m \<in> set members \<and> joined_before d msg m) (group_members d))"])
        (simp_all add: none)
  qed
qed

text \<open>What a successful eligibility check means.\<close>

lemma Eligible_Inr:
  assumes "Eligible flt t d msg r = Inr ok" and "m_sender_id msg = Some s" and "r \<noteq> s"
    and "m_deleted_at msg = None" and "m_type msg = TypeRegular" and "chat_live d (m_chat_id msg)"
    and pcs: "filter (\<lambda>p. pc_chat_id p = m_chat_id msg) (private_chats d) = (case pc of None \<Rightarrow> [] | Some p \<Rightarrow> [p])"
  shows "ok \<longleftrightarrow> filter (\<lambda>u. u_id u = r \<and> user_active t u) (users d) \<noteq> [] \<and> \<not> blocked_between d s r \<and>
     (case pc of
        Some p \<Rightarrow>
          if pc_user1_id p = Some r then hidden_ok (m_created_at msg) (pc_user1_hidden_at p)
          else if pc_user2_id p = Some r then hidden_ok (m_created_at msg) (pc_user2_hidden_at p)
          else False
      | None \<Rightarrow> \<exists>m\<in>set (group_members d). gm_user_id m = r \<and> joined_before d msg m)"
proof -
  have chat: "filter (\<lambda>c. c_id c = m_chat_id msg \<and> c_deleted_at c = None) (chats d) \<noteq> []"
    using assms(6) by (auto simp: chat_live_def filter_empty_conv)
  have neq: "s \<noteq> r" using assms(3) by simp
  show ?thesis
  proof (cases pc)
    case None
    with assms chat neq show ?thesis
      by (auto simp: Eligible_def result_simps IsBlocked_iff [OF neq] ent_only_def filter_empty_conv split: if_splits)
  next
    case (Some p)
    with assms chat neq show ?thesis
      by (auto simp: Eligible_def result_simps IsBlocked_iff [OF neq] ent_only_def split: if_splits)
  qed
qed

text \<open>Given the same database and clock reading, the recipients \<open>Enqueue\<close> selects in bulk are
  exactly the chat members that pass the checks the worker repeats one by one before it sends.
\<close>

theorem enqueue_recipients_exact:
  assumes enq: "enqueue_recipients flt t d msg s = Inr rs"
    and mem: "ChatMembers flt d (m_chat_id msg) = Inr members"
    and eli: "Eligible flt t d msg r = Inr ok"
    and rec: "NotificationRecipients flt t d (m_chat_id msg) [r] = Inr one"
    and msg: "m_sender_id msg = Some s" "m_deleted_at msg = None" "m_type msg = TypeRegular"
  shows "r \<in> set rs \<longleftrightarrow> r \<in> set members \<and> ok \<and> r \<in> set one"
proof -
  have live: "chat_live d (m_chat_id msg)"
    using mem by (auto simp: ChatMembers_def result_simps chat_live_def dest: filter_eq_ConsD)
  from enq obtain allowed blocked pc joined where
    al: "NotificationRecipients flt t d (m_chat_id msg) members = Inr allowed" and
    bl: "BlockedContacts flt d s = Inr blocked" and
    rs: "rs = filter (enqueue_recipient msg s allowed blocked pc joined) (active_among t d members)" and
    pc: "filter (\<lambda>p. pc_chat_id p = m_chat_id msg) (private_chats d) = (case pc of None \<Rightarrow> [] | Some p \<Rightarrow> [p])" and
    jn: "joined = (case pc of Some p \<Rightarrow> [] | None \<Rightarrow> map gm_user_id
       (filter (\<lambda>m. gm_user_id m \<in> set members \<and> joined_before d msg m) (group_members d)))"
    using mem by (elim enqueue_recipients_InrE) auto
  show ?thesis
  proof (cases "r = s")
    case True
    with eli msg rs show ?thesis by (auto simp: Eligible_def enqueue_recipient_def)
  next
    case False
    have allowed: "r \<in> set allowed \<longleftrightarrow> r \<in> set members \<and> r \<in> set one"
      using NotificationRecipients_mem [OF al] NotificationRecipients_mem [OF rec] by auto
    have blocked: "r \<in> set blocked \<longleftrightarrow> blocked_between d s r"
      using BlockedContacts_iff [OF bl not_sym [OF False]] .
    show ?thesis
      unfolding rs Eligible_Inr [OF eli msg(1) False msg(2,3) live pc] jn
      using False by (cases pc) (auto simp: active_among_mem enqueue_recipient_def allowed blocked)
  qed
qed

lemma sample_enqueue_recipients:
  "enqueue_recipients no_fault 200 sample_db (sample_message 20 10 1 100) 1 = Inr [2]"
  "ChatMembers no_fault sample_db (m_chat_id (sample_message 20 10 1 100)) = Inr [1, 2]"
  "Eligible no_fault 200 sample_db (sample_message 20 10 1 100) 2 = Inr True"
  "NotificationRecipients no_fault 200 sample_db (m_chat_id (sample_message 20 10 1 100)) [2] = Inr [2]"
  by code_simp+

theorem enqueue_recipients_exact_witness: "(2::uuid) \<in> set [2] \<longleftrightarrow> 2 \<in> set [1, 2 :: uuid] \<and> True \<and> 2 \<in> set [2 :: uuid]"
  by (rule enqueue_recipients_exact [OF sample_enqueue_recipients]) (simp_all add: sample_message_def)

section \<open>Enqueueing is idempotent\<close>

definition delivery_pairs :: "push_delivery list \<Rightarrow> (uuid \<times> uuid) list" where
  "delivery_pairs = map (\<lambda>r. (dl_event_id r, dl_device_id r))"

lemma delivery_pairs_simps [simp]:
  "delivery_pairs [] = []"
  "delivery_pairs (r # rs) = (dl_event_id r, dl_device_id r) # delivery_pairs rs"
  "delivery_pairs (xs @ ys) = delivery_pairs xs @ delivery_pairs ys"
  by (simp_all add: delivery_pairs_def)

lemma conflict_iff:
  "(\<exists>s\<in>set table. dl_event_id s = e \<and> dl_device_id s = v) \<longleftrightarrow> (e, v) \<in> set (delivery_pairs table)"
  by (force simp: delivery_pairs_def)

lemma insert_deliveries_distinct:
  "distinct (delivery_pairs table) \<Longrightarrow> distinct (delivery_pairs (insert_deliveries table rows))"
  by (induction table rows rule: insert_deliveries.induct) (simp_all add: conflict_iff)

lemma insert_deliveries_set:
  "set (delivery_pairs (insert_deliveries table rows)) = set (delivery_pairs table) \<union> set (delivery_pairs rows)"
  by (induction table rows rule: insert_deliveries.induct) (auto simp: conflict_iff)

lemma insert_deliveries_same:
  "set (delivery_pairs rows) \<subseteq> set (delivery_pairs table) \<Longrightarrow> insert_deliveries table rows = table"
  by (induction table rows rule: insert_deliveries.induct) (simp_all add: conflict_iff)

lemma delivery_pairs_take_drop:
  "set (delivery_pairs (take n rows)) \<union> set (delivery_pairs (drop n rows)) = set (delivery_pairs rows)"
  by (metis append_take_drop_id delivery_pairs_simps(3) set_append)

lemma insert_chunks_pairs:
  "insert_chunks f k table rows = Inr table' \<Longrightarrow>
     set (delivery_pairs table') = set (delivery_pairs table) \<union> set (delivery_pairs rows) \<and>
     (distinct (delivery_pairs table) \<longrightarrow> distinct (delivery_pairs table'))"
proof (induction f k table rows rule: insert_chunks.induct)
  case (1 f k table rows)
  show ?case
  proof (cases "rows = []")
    case True
    with "1.prems" show ?thesis by (simp add: insert_chunks.simps [of f k table "[]"])
  next
    case False
    with "1.prems" have nf: "\<not> f k"
      and rec: "insert_chunks f (Suc k) (insert_deliveries table (take 100 rows)) (drop 100 rows) = Inr table'"
      by (auto simp: insert_chunks.simps [of f k table rows] split: if_splits)
    from "1.IH" [OF False nf rec] show ?thesis
      using delivery_pairs_take_drop [of 100 rows]
      by (auto simp: insert_deliveries_set insert_deliveries_distinct)
  qed
qed

lemma insert_chunks_same:
  "set (delivery_pairs rows) \<subseteq> set (delivery_pairs table) \<Longrightarrow> insert_chunks f k table0 rows = Inr table0' \<Longrightarrow>
     insert_chunks f k table rows = Inr table"
proof (induction f k table0 rows arbitrary: table0' rule: insert_chunks.induct)
  case (1 f k table0 rows)
  show ?case
  proof (cases "rows = []")
    case True
    then show ?thesis by (simp add: insert_chunks.simps [of f k table "[]"])
  next
    case False
    with "1.prems"(2) have nf: "\<not> f k"
      and rec: "insert_chunks f (Suc k) (insert_deliveries table0 (take 100 rows)) (drop 100 rows) = Inr table0'"
      by (auto simp: insert_chunks.simps [of f k table0 rows] split: if_splits)
    have sub: "set (delivery_pairs (drop 100 rows)) \<subseteq> set (delivery_pairs table)"
      "set (delivery_pairs (take 100 rows)) \<subseteq> set (delivery_pairs table)"
      using "1.prems"(1) delivery_pairs_take_drop [of 100 rows] by auto
    from "1.IH" [OF False nf sub(1) rec] insert_deliveries_same [OF sub(2)] False nf
    show ?thesis by (simp add: insert_chunks.simps [of f k table rows])
  qed
qed

text \<open>The selection of recipients does not look at the deliveries.\<close>

lemma ChatMembers_frame: "ChatMembers flt (d\<lparr>push_deliveries := x\<rparr>) c = ChatMembers flt d c"
  unfolding ChatMembers_def by (intro arg_cong2 [where f = and_then] ext) (simp_all split: chat_type.split)

lemma enqueue_recipients_frame:
  "enqueue_recipients flt t (d\<lparr>push_deliveries := x\<rparr>) msg s = enqueue_recipients flt t d msg s"
proof -
  have eqs: "NotificationRecipients flt t (d\<lparr>push_deliveries := x\<rparr>) = NotificationRecipients flt t d"
    "BlockedContacts flt (d\<lparr>push_deliveries := x\<rparr>) = BlockedContacts flt d"
    "active_among t (d\<lparr>push_deliveries := x\<rparr>) = active_among t d"
    "joined_before (d\<lparr>push_deliveries := x\<rparr>) = joined_before d"
    "private_chats (d\<lparr>push_deliveries := x\<rparr>) = private_chats d"
    "group_members (d\<lparr>push_deliveries := x\<rparr>) = group_members d"
    by (auto simp: fun_eq_iff NotificationRecipients_def BlockedContacts_def active_among_def joined_before_def)
  show ?thesis unfolding enqueue_recipients_def ChatMembers_frame eqs ..
qed

definition enqueue_rows :: "(nat \<Rightarrow> uuid) \<Rightarrow> time \<Rightarrow> db \<Rightarrow> message \<Rightarrow> uuid \<Rightarrow> uuid list \<Rightarrow> push_delivery list" where
  "enqueue_rows ids t d msg event recipients =
     map (\<lambda>(k, v). new_delivery t (ids k) msg event v) (enumerate 0
       (filter (\<lambda>v. pd_user_id v \<in> set recipients \<and> pd_disabled_at v = None \<and> pd_expires_at v > t) (push_devices d)))"

lemma Enqueue_eq:
  assumes "m_sender_id msg = Some s" "m_deleted_at msg = None" "m_type msg = TypeRegular"
  shows "Enqueue flt cf ids t d msg e = and_then (enqueue_recipients flt t d msg s) (\<lambda>rs.
     if rs = [] then Inr d else if flt ''enqueue.devices'' then Inl DriverError else
     and_then (insert_chunks cf 0 (push_deliveries d) (enqueue_rows ids t d msg e rs))
       (\<lambda>table. Inr (d\<lparr>push_deliveries := table\<rparr>)))"
  using assms by (simp add: Enqueue_def enqueue_rows_def ent_all_def if_distrib [where f = "\<lambda>r. and_then r k" for k]
      cong: if_cong)

lemma Enqueue_trivial:
  assumes "\<not> (\<exists>s. m_sender_id msg = Some s \<and> m_deleted_at msg = None \<and> m_type msg = TypeRegular)"
  shows "Enqueue flt cf ids t d msg e = Inr d"
  using assms by (auto simp: Enqueue_def split: option.split)

text \<open>Enqueueing the deliveries of an event again (a retried projection) changes nothing: there is one
  delivery per event and device.
\<close>

theorem enqueue_idempotent:
  assumes "Enqueue flt cf ids t d msg e = Inr d1"
  shows "Enqueue flt cf ids t d1 msg e = Inr d1"
proof (cases "\<exists>s. m_sender_id msg = Some s \<and> m_deleted_at msg = None \<and> m_type msg = TypeRegular")
  case False
  with assms show ?thesis by (simp add: Enqueue_trivial)
next
  case True
  then obtain s where s: "m_sender_id msg = Some s" "m_deleted_at msg = None" "m_type msg = TypeRegular" by blast
  from assms obtain rs where rs: "enqueue_recipients flt t d msg s = Inr rs"
    by (auto simp: Enqueue_eq [OF s] and_then_Inr)
  show ?thesis
  proof (cases "rs = []")
    case True
    with assms rs show ?thesis by (simp add: Enqueue_eq [OF s])
  next
    case False
    with assms rs obtain table where nf: "\<not> flt ''enqueue.devices''"
      and tab: "insert_chunks cf 0 (push_deliveries d) (enqueue_rows ids t d msg e rs) = Inr table"
      and d1: "d1 = d\<lparr>push_deliveries := table\<rparr>"
      by (auto simp: Enqueue_eq [OF s] and_then_Inr split: if_splits)
    have "insert_chunks cf 0 table (enqueue_rows ids t d msg e rs) = Inr table"
      using insert_chunks_pairs [OF tab] by (intro insert_chunks_same [OF _ tab]) blast
    moreover have "enqueue_rows ids t d1 msg e rs = enqueue_rows ids t d msg e rs"
      by (simp add: enqueue_rows_def d1)
    ultimately show ?thesis
      using rs False nf by (simp add: Enqueue_eq [OF s] d1 enqueue_recipients_frame)
  qed
qed

lemma sample_enqueue: "\<exists>d1. Enqueue no_fault (\<lambda>_. False) (\<lambda>k. 700 + k) 200 (sample_db\<lparr>push_devices := [sample_device 50 2]\<rparr>)
    (sample_message 20 10 1 100) 30 = Inr d1 \<and> length (push_deliveries d1) = 1"
proof -
  let ?r = "Enqueue no_fault (\<lambda>_. False) (\<lambda>k. 700 + k) 200 (sample_db\<lparr>push_devices := [sample_device 50 2]\<rparr>) (sample_message 20 10 1 100) 30"
  have "\<not> isl ?r \<and> length (push_deliveries (projr ?r)) = 1" by code_simp
  then show ?thesis by (cases ?r) auto
qed

theorem enqueue_idempotent_witness:
  "\<exists>d1. Enqueue no_fault (\<lambda>_. False) (\<lambda>k. 700 + k) 200 d1 (sample_message 20 10 1 100) 30 = Inr d1 \<and> length (push_deliveries d1) = 1"
  using sample_enqueue enqueue_idempotent by blast

section \<open>Deliveries as a leased table\<close>

definition claimable_rows :: "time \<Rightarrow> (uuid \<Rightarrow> bool) \<Rightarrow> push_delivery list \<Rightarrow> push_delivery list" where
  "claimable_rows t skip rows = filter (\<lambda>r. delivery_claimable t r \<and> \<not> skip (dl_id r)) rows"

definition acquire_delivery :: "uuid \<Rightarrow> time \<times> (uuid \<Rightarrow> bool) \<Rightarrow> push_delivery list \<Rightarrow> uuid list \<times> push_delivery list" where
  "acquire_delivery tok x rows = (case x of (t, skip) \<Rightarrow>
     (case claimable_rows t skip rows of
        [row] \<Rightarrow> ([dl_id row], update_where (\<lambda>r. dl_id r = dl_id row) (lease_delivery t tok) rows)
      | _ \<Rightarrow> ([], rows)))"

definition settle_delivery :: "time \<times> string \<times> string option \<times> duration \<Rightarrow> uuid \<Rightarrow> uuid \<Rightarrow>
    push_delivery list \<Rightarrow> push_delivery list option" where
  "settle_delivery a i tok rows = (case a of (t, outcome, cause, retry) \<Rightarrow>
     settle_where (finish_guard i tok) (finish_row t outcome cause retry) rows)"

lemma lease_delivery_fields [simp]:
  "dl_id (lease_delivery t tok r) = dl_id r" "dl_lock_token (lease_delivery t tok r) = Some tok"
  "dl_locked_at (lease_delivery t tok r) = Some t" "dl_finished_at (lease_delivery t tok r) = dl_finished_at r"
  "dl_attempt_count (lease_delivery t tok r) = dl_attempt_count r + 1"
  by (simp_all add: lease_delivery_def)

lemma finish_row_fields [simp]:
  "dl_id (finish_row t oc c re r) = dl_id r" "dl_lock_token (finish_row t oc c re r) = None"
  "dl_locked_at (finish_row t oc c re r) = None" "dl_attempt_count (finish_row t oc c re r) = dl_attempt_count r"
  "re \<le> 0 \<Longrightarrow> dl_finished_at (finish_row t oc c re r) = Some t"
  "re \<le> 0 \<Longrightarrow> dl_outcome (finish_row t oc c re r) = oc"
  "re > 0 \<Longrightarrow> dl_finished_at (finish_row t oc c re r) = dl_finished_at r"
  "re > 0 \<Longrightarrow> dl_available_at (finish_row t oc c re r) = t + re"
  by (auto simp: finish_row_def Let_def split: option.split)

lemma settle_delivery_Some:
  assumes "settle_delivery (t, oc, c, re) i tok rows = Some rows'"
  shows "rows' = update_where (finish_guard i tok) (finish_row t oc c re) rows"
    and "\<exists>r\<in>set rows. finish_guard i tok r"
proof -
  show "rows' = update_where (finish_guard i tok) (finish_row t oc c re) rows"
    using assms by (simp add: settle_delivery_def settle_where_Some)
  have "affected (finish_guard i tok) rows \<noteq> 0"
    using assms by (simp add: settle_delivery_def settle_where_Some)
  then show "\<exists>r\<in>set rows. finish_guard i tok r" by (simp add: affected_0)
qed

lemma acquire_delivery_cases:
  assumes "acquire_delivery tok (t, skip) rows = (ks, rows')"
  obtains "ks = []" "rows' = rows"
  | row where "claimable_rows t skip rows = [row]" "ks = [dl_id row]"
      "rows' = update_where (\<lambda>r. dl_id r = dl_id row) (lease_delivery t tok) rows"
  using assms by (auto simp: acquire_delivery_def split: list.splits)

interpretation deliveries: lease_table dl_id dl_lock_token acquire_delivery settle_delivery
proof
  fix a :: "time \<times> string \<times> string option \<times> duration" and i t rows rows' r
  obtain u oc c re where a: "a = (u, oc, c, re)" by (cases a) auto
  assume st: "settle_delivery a i t rows = Some rows'"
  note upd = settle_delivery_Some [OF st [unfolded a]]
  show "\<exists>r\<in>set rows. dl_id r = i \<and> dl_lock_token r = Some t"
    using upd(2) by (auto simp: finish_guard_def)
  show "map dl_id rows' = map dl_id rows"
    unfolding upd(1) by (rule update_where_key) simp
  show "dl_id r \<noteq> i \<Longrightarrow> (r \<in> set rows') = (r \<in> set rows)"
    unfolding upd(1) in_update_where by (auto simp: finish_guard_def)
  assume dist: "distinct (map dl_id rows)" and r: "r \<in> set rows'" "dl_id r = i"
  from upd(2) obtain s where s: "s \<in> set rows" "finish_guard i t s" by blast
  from r obtain r0 where r0: "r0 \<in> set rows" "r = (if finish_guard i t r0 then finish_row u oc c re r0 else r0)"
    unfolding upd(1) in_update_where by blast
  then have "dl_id r0 = dl_id s" using r(2) s(2) by (auto simp: finish_guard_def split: if_splits)
  with dist r0(1) s(1) have "r0 = s" by (rule distinct_key_eq)
  with r0 s show "dl_lock_token r = None" by simp
next
  fix t and x :: "time \<times> (uuid \<Rightarrow> bool)" and rows ks rows' and r :: push_delivery
  obtain u skip where x: "x = (u, skip)" by (cases x) auto
  assume ac: "acquire_delivery t x rows = (ks, rows')"
  show "map dl_id rows' = map dl_id rows"
    using ac unfolding x by (cases rule: acquire_delivery_cases) (auto intro: update_where_key)
  show "r \<in> set rows' \<Longrightarrow> dl_id r \<in> set ks \<Longrightarrow> dl_lock_token r = Some t"
    using ac unfolding x
    by (cases rule: acquire_delivery_cases) (auto elim!: update_where_hit [where k = dl_id])
  show "dl_id r \<notin> set ks \<Longrightarrow> (r \<in> set rows') = (r \<in> set rows)"
    using ac unfolding x
    by (cases rule: acquire_delivery_cases) (simp_all add: update_where_miss [where k = dl_id and K = "set ks"])
qed

text \<open>\<open>Claim\<close> and \<open>Finish\<close> are the operations of this table.\<close>

lemma ent_only_length: "ent_only b xs = (if b then Inl DriverError else if length xs = 1 then Inr (hd xs)
    else if xs = [] then Inl NotFoundError else Inl NotSingularError)"
  by (auto simp: ent_only_def split: list.splits)

lemma hd_sort_single: "length xs = 1 \<Longrightarrow> sort_key f xs = xs"
  by (cases xs) auto

lemma ent_only_sort [simp]: "ent_only b (sort_key f xs) = ent_only b xs"
  by (simp add: ent_only_length hd_sort_single) (metis length_0_conv length_sort)

lemma Claim_cases:
  assumes "\<And>c. \<not> flt c"
  shows "Claim flt skip t tok d = (case claimable_rows t skip (push_deliveries d) of
     [] \<Rightarrow> Inr (None, d)
   | [row] \<Rightarrow> Inr (Some (lease_delivery t tok row),
       d\<lparr>push_deliveries := update_where (\<lambda>r. dl_id r = dl_id row) (lease_delivery t tok) (push_deliveries d)\<rparr>)
   | _ \<Rightarrow> Inl NotSingularError)"
  using assms unfolding Claim_def claimable_rows_def [symmetric] ent_only_sort
  by (simp add: ent_only_def split: list.split)

lemma Claim_Inr:
  assumes "Claim flt skip t tok d = Inr (got, d')"
  shows "acquire_delivery tok (t, skip) (push_deliveries d) = (case got of None \<Rightarrow> [] | Some row \<Rightarrow> [dl_id row], push_deliveries d')"
  using assms unfolding Claim_def claimable_rows_def [symmetric] acquire_delivery_def ent_only_sort
  by (auto simp: ent_only_def split: list.splits if_splits)

end
