(* ===== verification/Push_Preview.thy ===== *)
theory Push_Preview
  imports Schema
begin

text \<open>
  The text of a notification, \<^verbatim>\<open>src/internal/push_worker/preview.go\<close>: Go's decoding of a string
  into runes and back (\<open>[]rune(s)\<close>, \<open>string(runes)\<close>), \<open>previewText\<close> and
  \<open>notificationPreview\<close>. Runes are natural numbers, strings lists of bytes.
\<close>

section \<open>UTF-8\<close>

definition cont :: "nat \<Rightarrow> nat \<Rightarrow> nat \<Rightarrow> bool" where
  "cont lo hi b \<longleftrightarrow> lo \<le> b \<and> b \<le> hi"

text \<open>The rune at the head of a byte list and its width; an invalid byte reads as U+FFFD of width one.\<close>

fun decode_rune :: "nat list \<Rightarrow> nat \<times> nat" where
  "decode_rune bs =
     (case bs of
        [] \<Rightarrow> (0xFFFD, 0)
      | b0 # rest \<Rightarrow>
         if b0 < 0x80 then (b0, 1)
         else if 0xC2 \<le> b0 \<and> b0 \<le> 0xDF then
           (case rest of
              b1 # _ \<Rightarrow> if cont 0x80 0xBF b1 then ((b0 - 0xC0) * 64 + (b1 - 0x80), 2) else (0xFFFD, 1)
            | _ \<Rightarrow> (0xFFFD, 1))
         else if 0xE0 \<le> b0 \<and> b0 \<le> 0xEF then
           (case rest of
              b1 # b2 # _ \<Rightarrow>
                if cont (if b0 = 0xE0 then 0xA0 else 0x80) (if b0 = 0xED then 0x9F else 0xBF) b1 \<and> cont 0x80 0xBF b2
                then ((b0 - 0xE0) * 4096 + (b1 - 0x80) * 64 + (b2 - 0x80), 3) else (0xFFFD, 1)
            | _ \<Rightarrow> (0xFFFD, 1))
         else if 0xF0 \<le> b0 \<and> b0 \<le> 0xF4 then
           (case rest of
              b1 # b2 # b3 # _ \<Rightarrow>
                if cont (if b0 = 0xF0 then 0x90 else 0x80) (if b0 = 0xF4 then 0x8F else 0xBF) b1 \<and> cont 0x80 0xBF b2 \<and> cont 0x80 0xBF b3
                then ((b0 - 0xF0) * 262144 + (b1 - 0x80) * 4096 + (b2 - 0x80) * 64 + (b3 - 0x80), 4) else (0xFFFD, 1)
            | _ \<Rightarrow> (0xFFFD, 1))
         else (0xFFFD, 1))"

declare decode_rune.simps [simp del]

function decode_runes :: "nat list \<Rightarrow> nat list" where
  "decode_runes bs = (if bs = [] then [] else fst (decode_rune bs) # decode_runes (drop (max 1 (snd (decode_rune bs))) bs))"
  by pat_completeness auto
termination
  by (relation "measure length") (auto simp: neq_Nil_conv)

declare decode_runes.simps [simp del]

definition runes_of :: "string \<Rightarrow> nat list" where
  "runes_of s = decode_runes (map of_char s)"

definition rune_valid :: "nat \<Rightarrow> bool" where
  "rune_valid r \<longleftrightarrow> r < 0xD800 \<or> 0xDFFF < r \<and> r \<le> 0x10FFFF"

definition encode_rune :: "nat \<Rightarrow> nat list" where
  "encode_rune r =
     (if \<not> rune_valid r then [0xEF, 0xBF, 0xBD]
      else if r < 0x80 then [r]
      else if r < 0x800 then [0xC0 + r div 64, 0x80 + r mod 64]
      else if r < 0x10000 then [0xE0 + r div 4096, 0x80 + r div 64 mod 64, 0x80 + r mod 64]
      else [0xF0 + r div 262144, 0x80 + r div 4096 mod 64, 0x80 + r div 64 mod 64, 0x80 + r mod 64])"

definition string_of_runes :: "nat list \<Rightarrow> string" where
  "string_of_runes rs = map char_of (concat (map encode_rune rs))"

section \<open>previewText\<close>

definition IsControl :: "nat \<Rightarrow> bool" where
  "IsControl r \<longleftrightarrow> r < 32 \<or> 127 \<le> r \<and> r < 160"

definition IsSpace :: "nat \<Rightarrow> bool" where
  "IsSpace r \<longleftrightarrow> r \<in> set ([9, 10, 11, 12, 13, 32, 0x85, 0xA0, 0x1680] @ [0x2000..<0x200B] @ [0x2028, 0x2029, 0x202F, 0x205F, 0x3000])"

text \<open>\<open>strings.Fields\<close> on a text whose only white space is the blank, and \<open>strings.Join(_, " ")\<close>.\<close>

fun fields :: "nat list \<Rightarrow> nat list \<Rightarrow> nat list list" where
  "fields acc [] = (if acc = [] then [] else [acc])"
| "fields acc (r # rs) = (if r = 32 then (if acc = [] then [] else [acc]) @ fields [] rs else fields (acc @ [r]) rs)"

fun join_blank :: "nat list list \<Rightarrow> nat list" where
  "join_blank [] = []"
| "join_blank [w] = w"
| "join_blank (w # ws) = w @ [32] @ join_blank ws"

definition preview_runes :: "nat list \<Rightarrow> nat \<Rightarrow> nat list" where
  "preview_runes rs limit =
     (let runes = join_blank (fields [] (map (\<lambda>r. if IsControl r \<or> IsSpace r then 32 else r) rs))
      in if length runes > limit then take (limit - 1) runes @ [0x2026] else runes)"

definition previewText :: "string \<Rightarrow> nat \<Rightarrow> string" where
  "previewText value limit = string_of_runes (preview_runes (runes_of value) limit)"

definition notificationPreview :: "(string \<Rightarrow> bool) \<Rightarrow> db \<Rightarrow> message \<Rightarrow> ent_error + string \<times> string" where
  "notificationPreview flt d msg =
     and_then
       (case m_sender_id msg of
          None \<Rightarrow> Inr ''AtoiTalk''
        | Some i \<Rightarrow>
            and_then (ent_only (flt ''preview.sender'') (filter (\<lambda>u. u_id u = i) (users d))) (\<lambda>sender.
              Inr (case u_full_name sender of
                     None \<Rightarrow> ''AtoiTalk''
                   | Some n \<Rightarrow> let clean = previewText n 80 in if clean \<noteq> [] then clean else ''AtoiTalk''))) (\<lambda>name.
      let body = (case m_content msg of None \<Rightarrow> [] | Some c \<Rightarrow> previewText c 160);
          body = (if body = [] then ''Mengirim lampiran'' else body)
      in (case ent_only (flt ''preview.group'') (filter (\<lambda>g. gc_chat_id g = m_chat_id msg) (group_chats d)) of
            Inr g \<Rightarrow> Inr (previewText (gc_name g) 80, previewText (name @ '': '' @ body) 160)
          | Inl NotFoundError \<Rightarrow> Inr (name, body)
          | Inl e \<Rightarrow> Inl e))"

section \<open>Laws\<close>

lemma decode_rune3:
  assumes "a < 16" "b < 64" "c < 64" "a = 0 \<Longrightarrow> 32 \<le> b" "a = 13 \<Longrightarrow> b < 32"
  shows "decode_rune ([0xE0 + a, 0x80 + b, 0x80 + c] @ bs) = (a * 4096 + b * 64 + c, 3)"
  using assms by (auto simp: decode_rune.simps cont_def)

lemma decode_rune4:
  assumes "a \<le> 4" "b < 64" "c < 64" "m < 64" "a = 0 \<Longrightarrow> 16 \<le> b" "a = 4 \<Longrightarrow> b < 16"
  shows "decode_rune ([0xF0 + a, 0x80 + b, 0x80 + c, 0x80 + m] @ bs) = (a * 262144 + b * 4096 + c * 64 + m, 4)"
  using assms by (auto simp: decode_rune.simps cont_def)

lemma decode_encode_rune:
  assumes "rune_valid r"
  shows "decode_rune (encode_rune r @ bs) = (r, length (encode_rune r))"
proof -
  consider "r < 0x80" | "0x80 \<le> r" "r < 0x800" | "0x800 \<le> r" "r < 0x10000" | "0x10000 \<le> r" by linarith
  then show ?thesis
  proof cases
    case 1
    with assms show ?thesis by (simp add: encode_rune_def decode_rune.simps)
  next
    case 2
    then have "2 \<le> r div 64" "r div 64 < 32" by auto
    with 2 assms show ?thesis by (simp add: encode_rune_def decode_rune.simps cont_def)
  next
    case 3
    let ?a = "r div 4096" and ?b = "r div 64 mod 64"
    have q: "r div 4096 = r div 64 div 64" by (simp add: div_mult2_eq [symmetric])
    have r: "?a * 4096 + ?b * 64 + r mod 64 = r"
      using div_mult_mod_eq [of r 64] div_mult_mod_eq [of "r div 64" 64] unfolding q by linarith
    have b: "?b < 64" "r mod 64 < 64" by simp_all
    have a: "?a < 16" using 3 by auto
    have lo: "?a = 0 \<Longrightarrow> 32 \<le> ?b" using 3 r b by linarith
    have hi: "?a = 13 \<Longrightarrow> ?b < 32" using assms r b unfolding rune_valid_def by linarith
    have "encode_rune r = [0xE0 + ?a, 0x80 + ?b, 0x80 + r mod 64]" using 3 assms by (simp add: encode_rune_def)
    then show ?thesis using decode_rune3 [OF a b lo hi] r by simp
  next
    case 4
    let ?a = "r div 262144" and ?b = "r div 4096 mod 64" and ?c = "r div 64 mod 64"
    have q: "r div 4096 = r div 64 div 64" "r div 262144 = r div 64 div 64 div 64" by (simp_all add: div_mult2_eq [symmetric])
    have r: "?a * 262144 + ?b * 4096 + ?c * 64 + r mod 64 = r"
      using div_mult_mod_eq [of r 64] div_mult_mod_eq [of "r div 64" 64] div_mult_mod_eq [of "r div 64 div 64" 64]
      unfolding q by linarith
    have b: "?b < 64" "?c < 64" "r mod 64 < 64" by simp_all
    have a: "?a \<le> 4" using 4 assms by (auto simp: rune_valid_def)
    have lo: "?a = 0 \<Longrightarrow> 16 \<le> ?b" using 4 r b by linarith
    have hi: "?a = 4 \<Longrightarrow> ?b < 16" using assms r b unfolding rune_valid_def by linarith
    have "encode_rune r = [0xF0 + ?a, 0x80 + ?b, 0x80 + ?c, 0x80 + r mod 64]" using 4 assms by (simp add: encode_rune_def)
    then show ?thesis using decode_rune4 [OF a b lo hi] r by simp
  qed
qed

lemma encode_rune_bytes: "b \<in> set (encode_rune r) \<Longrightarrow> b < 256"
  by (auto simp: encode_rune_def rune_valid_def split: if_splits)

lemma encode_rune_not_Nil [simp]: "encode_rune r \<noteq> []"
  by (simp add: encode_rune_def)

lemma decode_runes_encode: "\<forall>r\<in>set rs. rune_valid r \<Longrightarrow> decode_runes (concat (map encode_rune rs)) = rs"
proof (induction rs)
  case Nil
  then show ?case by (simp add: decode_runes.simps)
next
  case (Cons r rs)
  have "max 1 (length (encode_rune r)) = length (encode_rune r)" by (cases "encode_rune r") simp_all
  with Cons decode_encode_rune [of r "concat (map encode_rune rs)"] show ?case
    by (subst decode_runes.simps) simp
qed

lemma runes_of_string: "\<forall>r\<in>set rs. rune_valid r \<Longrightarrow> runes_of (string_of_runes rs) = rs"
proof -
  assume valid: "\<forall>r\<in>set rs. rune_valid r"
  have "map (of_char \<circ> char_of) (concat (map encode_rune rs)) = (concat (map encode_rune rs) :: nat list)"
    by (rule map_idI) (auto dest!: encode_rune_bytes)
  then show ?thesis using decode_runes_encode [OF valid] by (simp add: runes_of_def string_of_runes_def)
qed

lemma fields_words: "w \<in> set (fields acc rs) \<Longrightarrow> set w \<subseteq> set acc \<union> set rs"
  by (induction acc rs rule: fields.induct) (auto split: if_splits)

lemma join_blank_set: "set (join_blank ws) \<subseteq> insert 32 (\<Union> (set ` set ws))"
  by (induction ws rule: join_blank.induct) auto

lemma preview_runes_set:
  "r \<in> set (preview_runes rs limit) \<Longrightarrow> r = 0x2026 \<or> r = 32 \<or> r \<in> set rs \<and> \<not> IsControl r \<and> \<not> IsSpace r"
proof -
  assume r: "r \<in> set (preview_runes rs limit)"
  let ?m = "map (\<lambda>r. if IsControl r \<or> IsSpace r then 32 else r) rs"
  have "set (join_blank (fields [] ?m)) \<subseteq> insert 32 (set ?m)"
    using join_blank_set [of "fields [] ?m"] fields_words [of _ "[]" ?m] by fastforce
  moreover from r have "r \<in> set (join_blank (fields [] ?m)) \<or> r = 0x2026"
    by (auto simp: preview_runes_def Let_def dest: in_set_takeD split: if_splits)
  ultimately show ?thesis by auto
qed

text \<open>A preview of a positive limit has at most that many characters, all of them visible: control
  characters and white space other than the blank never reach the notification.
\<close>

theorem preview_bounded_and_clean:
  assumes "limit > 0"
  shows "length (preview_runes rs limit) \<le> limit \<and>
    (\<forall>r\<in>set (preview_runes rs limit). r = 32 \<or> \<not> IsControl r \<and> \<not> IsSpace r)"
proof -
  have "length (preview_runes rs limit) \<le> limit" using assms by (simp add: preview_runes_def Let_def)
  moreover have "\<not> IsControl 0x2026" "\<not> IsSpace 0x2026" by (simp_all add: IsControl_def IsSpace_def)
  ultimately show ?thesis using preview_runes_set by blast
qed

theorem preview_bounded_and_clean_witness:
  "length (preview_runes [9, 104, 105, 0x2028, 106, 107] 4) \<le> 4 \<and> preview_runes [9, 104, 105, 0x2028, 106, 107] 4 = [104, 105, 32, 0x2026]"
  using preview_bounded_and_clean [of 4 "[9, 104, 105, 0x2028, 106, 107]"]
  by (simp add: preview_runes_def IsControl_def IsSpace_def)

text \<open>Decoding the text a rune list was encoded to gives the runes back.\<close>

theorem utf8_roundtrip:
  assumes "\<forall>r\<in>set rs. rune_valid r"
  shows "runes_of (string_of_runes rs) = rs"
  by (rule runes_of_string [OF assms])

theorem utf8_roundtrip_witness: "runes_of (string_of_runes [104, 0xE9, 0x20AC, 0x1F600]) = [104, 0xE9, 0x20AC, 0x1F600]"
  by (rule utf8_roundtrip) (simp add: rune_valid_def)

end
