(* ===== verification/Push_Worker.thy ===== *)
theory Push_Worker
  imports Push_Store Push_Preview Text_Helpers
begin

text \<open>
  The push worker, \<^verbatim>\<open>src/internal/push_worker/worker.go\<close>: one delivery is claimed, checked again
  against the current state of the device, the session, the message and the recipient, sent, and
  settled. Redis and the push provider are arguments: \<open>redis\<close> answers \<open>EXISTS\<close> and \<open>GET\<close>,
  \<open>send\<close> returns the provider's error. The checks after the claim are \<open>check_delivery\<close>, which
  returns either the early outcome of the code or the device, the message and the text to send.
\<close>

section \<open>Sessions\<close>

datatype redis_key = PushLogout string | RevokedUser uuid

record redis_view =
  rv_exists :: "redis_key \<Rightarrow> string + nat"
  rv_get :: "redis_key \<Rightarrow> string + string option"

record send_error =
  se_Status :: int
  se_Invalid :: bool
  se_Retry :: bool
  se_After :: duration

datatype push_cause = DatabaseCause ent_error | RedisCause string | SessionStoreUnavailable
  | BadMarker | ProviderCause send_error | OtherCause string

definition sessionValid :: "redis_view option \<Rightarrow> push_device \<Rightarrow> push_cause + bool" where
  "sessionValid redis device =
     (case redis of
        None \<Rightarrow> Inl SessionStoreUnavailable
      | Some rv \<Rightarrow>
         (case rv_exists rv (PushLogout (pd_session_hash device)) of
            Inl e \<Rightarrow> Inl (RedisCause e)
          | Inr logout \<Rightarrow>
              if logout > 0 then Inr False
              else (case rv_get rv (RevokedUser (pd_user_id device)) of
                      Inl e \<Rightarrow> Inl (RedisCause e)
                    | Inr None \<Rightarrow> Inr True
                    | Inr (Some marker) \<Rightarrow>
                        (case IsSessionRevoked marker (pd_issued_at device) of
                           Inl _ \<Rightarrow> Inl BadMarker
                         | Inr revoked \<Rightarrow> Inr (\<not> revoked)))))"

section \<open>Settling\<close>

datatype push_error = ClaimError ent_error | FinishError finish_error

definition finish_push :: "(push_cause \<Rightarrow> string) \<Rightarrow> bool \<Rightarrow> time \<Rightarrow> db \<Rightarrow> push_delivery \<Rightarrow> string \<Rightarrow> push_cause option \<Rightarrow>
    duration \<Rightarrow> push_error option \<times> db" where
  "finish_push causeText broken t d row outcome cause delay =
     (case dl_lock_token row of
        None \<Rightarrow> (Some (FinishError FinishFault), d)
      | Some tok \<Rightarrow>
          (case Finish broken t (dl_id row) tok outcome (map_option causeText cause) delay d of
             Inl e \<Rightarrow> (Some (FinishError e), d)
           | Inr d \<Rightarrow> (None, d)))"

definition retry_delay :: "push_delivery \<Rightarrow> push_cause \<Rightarrow> duration" where
  "retry_delay row cause =
     (let delay = BackoffDelay (dl_attempt_count row - 1) second (5 * minute)
      in case cause of
           ProviderCause failure \<Rightarrow> if se_After failure > delay then se_After failure else delay
         | _ \<Rightarrow> delay)"

definition retry_push :: "(push_cause \<Rightarrow> string) \<Rightarrow> bool \<Rightarrow> time \<Rightarrow> db \<Rightarrow> push_delivery \<Rightarrow> push_cause \<Rightarrow> push_error option \<times> db" where
  "retry_push causeText broken t d row cause =
     (if dl_attempt_count row \<ge> 10 \<or> \<not> dl_expires_at row > t
      then finish_push causeText broken t d row ''dead_letter'' (Some cause) 0
      else finish_push causeText broken t d row ''pending'' (Some cause) (retry_delay row cause))"

section \<open>One delivery\<close>

datatype early = Skipped string | RetryLater push_cause

record notification =
  nt_token :: string
  nt_event_id :: uuid
  nt_chat_id :: uuid
  nt_message_id :: uuid
  nt_title :: string
  nt_body :: string

definition ent_get :: "bool \<Rightarrow> ('a \<Rightarrow> uuid) \<Rightarrow> uuid \<Rightarrow> 'a list \<Rightarrow> ent_error + 'a" where
  "ent_get broken key i rows = ent_only broken (filter (\<lambda>r. key r = i) rows)"

text \<open>A lookup whose absence skips the delivery and whose failure retries it.\<close>

definition get_or :: "string \<Rightarrow> ent_error + 'a \<Rightarrow> early + 'a" where
  "get_or reason r = on_err r (\<lambda>e. if e = NotFoundError then Skipped reason else RetryLater (DatabaseCause e))"

definition check_delivery :: "(string \<Rightarrow> bool) \<Rightarrow> redis_view option \<Rightarrow> time \<Rightarrow> db \<Rightarrow> push_delivery \<Rightarrow>
    early + (push_device \<times> message \<times> string \<times> string)" where
  "check_delivery flt redis t d row =
     and_then (case ent_get (flt ''origin'') ob_id (dl_event_id row) (outbox d) of
                 Inr _ \<Rightarrow> Inr () | Inl NotFoundError \<Rightarrow> Inr () | Inl e \<Rightarrow> Inl (RetryLater (DatabaseCause e))) (\<lambda>_.
     and_then (get_or ''device_missing'' (ent_get (flt ''device'') pd_id (dl_device_id row) (push_devices d))) (\<lambda>device.
     and_then (fail_if (pd_disabled_at device \<noteq> None \<or> pd_binding_id device \<noteq> dl_binding_id row \<or>
                        pd_user_id device \<noteq> dl_user_id row \<or> \<not> pd_expires_at device > t \<or> \<not> dl_expires_at row > t)
                (Skipped ''binding_inactive_or_expired'')) (\<lambda>_.
     and_then (on_err (sessionValid redis device) RetryLater) (\<lambda>valid.
     and_then (fail_if (\<not> valid) (Skipped ''session_revoked'')) (\<lambda>_.
     and_then (get_or ''message_missing'' (ent_get (flt ''message'') m_id (dl_message_id row) (messages d))) (\<lambda>msg.
     and_then (on_err (NotificationRecipients flt t d (dl_chat_id row) [dl_user_id row]) (\<lambda>e. RetryLater (DatabaseCause e))) (\<lambda>preferences.
     and_then (fail_if (dl_user_id row \<notin> set preferences) (Skipped ''notifications_muted'')) (\<lambda>_.
     and_then (on_err (Eligible flt t d msg (dl_user_id row)) (\<lambda>e. RetryLater (DatabaseCause e))) (\<lambda>eligible.
     and_then (fail_if (\<not> eligible) (Skipped ''recipient_ineligible'')) (\<lambda>_.
     and_then (on_err (notificationPreview flt d msg) (\<lambda>e. RetryLater (DatabaseCause e))) (\<lambda>(title, body).
       Inr (device, msg, title, body))))))))))))"

definition disable_device :: "time \<Rightarrow> push_device \<Rightarrow> push_device list \<Rightarrow> push_device list" where
  "disable_device t device = update_where
     (\<lambda>v. pd_id v = pd_id device \<and> pd_binding_id v = pd_binding_id device \<and> pd_token v = pd_token device)
     (\<lambda>v. v\<lparr>pd_disabled_at := Some t\<rparr>)"

definition notification_of :: "push_delivery \<Rightarrow> push_device \<Rightarrow> string \<Rightarrow> string \<Rightarrow> notification" where
  "notification_of row device title body = \<lparr>nt_token = pd_token device, nt_event_id = dl_event_id row,
     nt_chat_id = dl_chat_id row, nt_message_id = dl_message_id row, nt_title = title, nt_body = body\<rparr>"

text \<open>What follows \<open>Sender.Send\<close>.\<close>

definition after_send :: "(push_cause \<Rightarrow> string) \<Rightarrow> (string \<Rightarrow> bool) \<Rightarrow> time \<Rightarrow> db \<Rightarrow> push_delivery \<Rightarrow> push_device \<Rightarrow>
    push_cause option \<Rightarrow> push_error option \<times> db" where
  "after_send causeText flt t d row device result =
     (case result of
        None \<Rightarrow> finish_push causeText (flt ''finish'') t d row ''sent'' None 0
      | Some (ProviderCause failure) \<Rightarrow>
          if se_Invalid failure then
            (if flt ''disable'' then retry_push causeText (flt ''finish'') t d row (DatabaseCause DriverError)
             else finish_push causeText (flt ''finish'') t (d\<lparr>push_devices := disable_device t device (push_devices d)\<rparr>) row
                    ''invalid_token'' (Some (ProviderCause failure)) 0)
          else if \<not> se_Retry failure then
            finish_push causeText (flt ''finish'') t d row ''dead_letter'' (Some (ProviderCause failure)) 0
          else retry_push causeText (flt ''finish'') t d row (ProviderCause failure)
      | Some err \<Rightarrow> retry_push causeText (flt ''finish'') t d row err)"

text \<open>The value: whether a delivery was worked on, the error, the database and the notification handed to the provider.\<close>

definition ProcessOne :: "(push_cause \<Rightarrow> string) \<Rightarrow> (string \<Rightarrow> bool) \<Rightarrow> redis_view option \<Rightarrow> (notification \<Rightarrow> push_cause option) \<Rightarrow>
    (uuid \<Rightarrow> bool) \<Rightarrow> time \<Rightarrow> uuid \<Rightarrow> db \<Rightarrow> bool \<times> push_error option \<times> db \<times> notification option" where
  "ProcessOne causeText flt redis send skip t tok d =
     (case Claim flt skip t tok d of
        Inl e \<Rightarrow> (False, Some (ClaimError e), d, None)
      | Inr (None, d) \<Rightarrow> (False, None, d, None)
      | Inr (Some row, d) \<Rightarrow>
         (case check_delivery flt redis t d row of
            Inl (Skipped reason) \<Rightarrow>
              (case finish_push causeText (flt ''finish'') t d row ''skipped'' None 0 of (err, d) \<Rightarrow> (True, err, d, None))
          | Inl (RetryLater cause) \<Rightarrow>
              (case retry_push causeText (flt ''finish'') t d row cause of (err, d) \<Rightarrow> (True, err, d, None))
          | Inr (device, msg, title, body) \<Rightarrow>
              (let n = notification_of row device title body in
               case after_send causeText flt t d row device (send n) of (err, d) \<Rightarrow> (True, err, d, Some n))))"

section \<open>Laws\<close>

lemma get_or_Inr [result_simps]: "get_or reason r = Inr x \<longleftrightarrow> r = Inr x"
  by (simp add: get_or_def on_err_Inr)

lemma ent_get_Inr [result_simps]: "ent_get b key i rows = Inr x \<longleftrightarrow> \<not> b \<and> filter (\<lambda>r. key r = i) rows = [x]"
  by (simp add: ent_get_def ent_only_Inr)

lemma check_delivery_Inr:
  assumes "check_delivery flt redis t d row = Inr (device, msg, title, body)"
  shows "filter (\<lambda>v. pd_id v = dl_device_id row) (push_devices d) = [device]"
    and "pd_disabled_at device = None" and "pd_binding_id device = dl_binding_id row"
    and "pd_user_id device = dl_user_id row" and "pd_expires_at device > t" and "dl_expires_at row > t"
    and "sessionValid redis device = Inr True"
    and "filter (\<lambda>m. m_id m = dl_message_id row) (messages d) = [msg]"
    and "\<exists>ps. NotificationRecipients flt t d (dl_chat_id row) [dl_user_id row] = Inr ps \<and> dl_user_id row \<in> set ps"
    and "Eligible flt t d msg (dl_user_id row) = Inr True"
    and "notificationPreview flt d msg = Inr (title, body)"
  using assms unfolding check_delivery_def
  by (auto simp only: result_simps not_not de_Morgan_disj split: prod.splits)

definition delivery_settled :: "time \<Rightarrow> uuid \<Rightarrow> push_delivery list \<Rightarrow> bool" where
  "delivery_settled t i rows \<longleftrightarrow> (\<exists>r\<in>set rows. dl_id r = i \<and> dl_lock_token r = None \<and> dl_locked_at r = None \<and>
     (dl_finished_at r = Some t \<or> dl_finished_at r = None \<and> dl_available_at r > t \<and> dl_attempt_count r < 10))"

lemma finish_push_row:
  assumes "finish_push causeText broken t d row oc cause delay = (None, d')"
    and "distinct (map dl_id (push_deliveries d))" and "row \<in> set (push_deliveries d)"
  shows "finish_row t oc (map_option causeText cause) delay row \<in> set (push_deliveries d') \<and> dl_finished_at row = None"
proof -
  obtain tok where tok: "dl_lock_token row = Some tok"
    and fin: "Finish broken t (dl_id row) tok oc (map_option causeText cause) delay d = Inr d'"
    using assms(1) by (auto simp: finish_push_def split: option.splits sum.splits)
  from fin have rows: "push_deliveries d' = update_where (finish_guard (dl_id row) tok)
      (finish_row t oc (map_option causeText cause) delay) (push_deliveries d)"
    and one: "affected (finish_guard (dl_id row) tok) (push_deliveries d) = 1"
    by (auto simp: Finish_def settle_where_Some split: if_splits option.splits)
  from one obtain x where x: "x \<in> set (push_deliveries d)" "finish_guard (dl_id row) tok x"
    using affected_0 [of "finish_guard (dl_id row) tok" "push_deliveries d"] by auto
  have "x = row" using distinct_key_eq [OF assms(2) x(1) assms(3)] x(2) by (simp add: finish_guard_def)
  with x have guard: "finish_guard (dl_id row) tok row" by simp
  then have "finish_row t oc (map_option causeText cause) delay row \<in> set (push_deliveries d')"
    using assms(3) unfolding rows in_update_where by (intro bexI [of _ row]) simp_all
  with guard show ?thesis by (simp add: finish_guard_def)
qed

lemma finish_push_settled:
  assumes "finish_push causeText broken t d row oc cause 0 = (None, d')"
    and "distinct (map dl_id (push_deliveries d))" and "row \<in> set (push_deliveries d)"
  shows "delivery_settled t (dl_id row) (push_deliveries d')"
  using finish_push_row [OF assms] unfolding delivery_settled_def
  by (intro bexI [of _ "finish_row t oc (map_option causeText cause) 0 row"]) simp_all

lemma retry_delay_pos: "retry_delay row cause > 0"
proof -
  have "BackoffDelay k second (5 * minute) > 0" for k
    using backoff_loop_capped [of second "5 * minute" "nat (if k < 0 then 0 else k)"]
    by (simp add: BackoffDelay_def max_int64_def)
  then show ?thesis by (auto simp: retry_delay_def Let_def intro: less_trans split: push_cause.splits)
qed

lemma retry_push_settled:
  assumes "retry_push causeText broken t d row cause = (None, d')"
    and "distinct (map dl_id (push_deliveries d))" and "row \<in> set (push_deliveries d)"
  shows "delivery_settled t (dl_id row) (push_deliveries d')"
proof (cases "dl_attempt_count row \<ge> 10 \<or> \<not> dl_expires_at row > t")
  case True
  with assms(1) have "finish_push causeText broken t d row ''dead_letter'' (Some cause) 0 = (None, d')"
    by (simp add: retry_push_def)
  then show ?thesis by (rule finish_push_settled [OF _ assms(2,3)])
next
  case False
  with assms(1) have fin: "finish_push causeText broken t d row ''pending'' (Some cause) (retry_delay row cause) = (None, d')"
    by (simp add: retry_push_def)
  let ?r = "finish_row t ''pending'' (map_option causeText (Some cause)) (retry_delay row cause) row"
  have "dl_attempt_count ?r < 10" using False by (simp only: finish_row_fields) simp
  then show ?thesis
    using finish_push_row [OF fin assms(2,3)] retry_delay_pos [of row cause] unfolding delivery_settled_def
    by (intro bexI [of _ ?r]) (simp_all only: finish_row_fields, simp_all)
qed

lemma after_send_settled:
  assumes "after_send causeText flt t d row device result = (None, d')"
    and "distinct (map dl_id (push_deliveries d))" and "row \<in> set (push_deliveries d)"
  shows "delivery_settled t (dl_id row) (push_deliveries d')"
proof -
  let ?d = "d\<lparr>push_devices := disable_device t device (push_devices d)\<rparr>"
  have "distinct (map dl_id (push_deliveries ?d))" "row \<in> set (push_deliveries ?d)" using assms(2,3) by simp_all
  note rules = finish_push_settled [OF _ assms(2,3)] retry_push_settled [OF _ assms(2,3)]
    finish_push_settled [OF _ this]
  show ?thesis using assms(1) unfolding after_send_def
    by (auto split: option.splits push_cause.splits if_splits intro: rules)
qed

lemma Claim_row:
  assumes "Claim flt skip t tok d = Inr (Some row, d1)" and "distinct (map dl_id (push_deliveries d))"
  shows "row \<in> set (push_deliveries d1)" and "distinct (map dl_id (push_deliveries d1))"
    and "d1 = d\<lparr>push_deliveries := push_deliveries d1\<rparr>"
    and "\<exists>row0\<in>set (push_deliveries d). delivery_claimable t row0 \<and> row = lease_delivery t tok row0"
proof -
  from assms(1) obtain row0 where row0: "claimable_rows t skip (push_deliveries d) = [row0]"
    and row: "row = lease_delivery t tok row0"
    and d1: "d1 = d\<lparr>push_deliveries := update_where (\<lambda>r. dl_id r = dl_id row0) (lease_delivery t tok) (push_deliveries d)\<rparr>"
    unfolding Claim_def claimable_rows_def [symmetric] ent_only_sort
    by (auto simp: ent_only_def split: list.splits if_splits)
  from row0 have mem: "row0 \<in> set (push_deliveries d)" "delivery_claimable t row0"
    by (auto simp: claimable_rows_def Cons_eq_filter_iff eq_commute [of _ "[row0]"])
  show "row \<in> set (push_deliveries d1)" using mem row unfolding d1 by (auto simp: in_update_where)
  show "distinct (map dl_id (push_deliveries d1))" using assms(2) by (simp add: d1 update_where_key)
  show "d1 = d\<lparr>push_deliveries := push_deliveries d1\<rparr>" by (simp add: d1)
  show "\<exists>row0\<in>set (push_deliveries d). delivery_claimable t row0 \<and> row = lease_delivery t tok row0" using mem row by blast
qed

text \<open>A delivery the worker took and settled without error is afterwards unlocked and either finished
  now or rescheduled for a later instant; it is rescheduled only below ten attempts, so that no
  delivery is attempted more than ten times.
\<close>

theorem push_delivery_settles:
  assumes "ProcessOne causeText flt redis send skip t tok d = (True, None, d', n)"
    and "distinct (map dl_id (push_deliveries d))"
  shows "\<exists>row0\<in>set (push_deliveries d). delivery_claimable t row0 \<and> delivery_settled t (dl_id row0) (push_deliveries d')"
proof -
  from assms(1) obtain row d1 where cl: "Claim flt skip t tok d = Inr (Some row, d1)"
    by (auto simp: ProcessOne_def split: sum.splits option.splits)
  note row = Claim_row [OF cl assms(2)]
  obtain row0 where row0: "row0 \<in> set (push_deliveries d)" "delivery_claimable t row0" "dl_id row = dl_id row0"
    using row(4) by auto
  note settled = finish_push_settled [OF _ row(2,1)] retry_push_settled [OF _ row(2,1)] after_send_settled [OF _ row(2,1)]
  have "delivery_settled t (dl_id row) (push_deliveries d')"
    using assms(1) cl by (auto simp: ProcessOne_def Let_def split: sum.splits early.splits prod.splits intro: settled)
  with row0 show ?thesis by auto
qed

text \<open>The delivery to device 50 of message 20, whose session is intact.\<close>

definition sample_redis :: redis_view where
  "sample_redis = \<lparr>rv_exists = (\<lambda>_. Inr 0), rv_get = (\<lambda>_. Inr None)\<rparr>"

definition sample_push_db :: db where
  "sample_push_db = sample_db\<lparr>users := [(sample_user 1 ''Ann'')\<lparr>u_full_name := None\<rparr>, sample_user 2 ''Bob''],
     messages := [(sample_message 20 10 1 100)\<lparr>m_content := None\<rparr>],
     push_devices := [sample_device 50 2], push_deliveries := [sample_delivery 60 50]\<rparr>"

definition sample_push :: "bool \<times> push_error option \<times> db \<times> notification option" where
  "sample_push = ProcessOne (\<lambda>_. ''down'') no_fault (Some sample_redis) (\<lambda>_. None) no_skip 200 99 sample_push_db"

definition sample_claimed_db :: db where
  "sample_claimed_db = sample_push_db\<lparr>push_deliveries := [lease_delivery 200 99 (sample_delivery 60 50)]\<rparr>"

lemma sample_push_claim:
  "Claim no_fault no_skip 200 99 sample_push_db = Inr (Some (lease_delivery 200 99 (sample_delivery 60 50)), sample_claimed_db)"
  by code_simp

lemma sample_push_checks:
  "NotificationRecipients no_fault 200 sample_claimed_db 10 [2] = Inr [2]"
  "Eligible no_fault 200 sample_claimed_db ((sample_message 20 10 1 100)\<lparr>m_content := None\<rparr>) 2 = Inr True"
  "sessionValid (Some sample_redis) (sample_device 50 2) = Inr True"
  by code_simp+

lemma sample_push_preview:
  "notificationPreview no_fault sample_claimed_db ((sample_message 20 10 1 100)\<lparr>m_content := None\<rparr>) = Inr (''AtoiTalk'', ''Mengirim lampiran'')"
  by (simp add: notificationPreview_def sample_claimed_db_def sample_push_db_def sample_db_def sample_defs ent_only_def)

lemma sample_push_check:
  "check_delivery no_fault (Some sample_redis) 200 sample_claimed_db (lease_delivery 200 99 (sample_delivery 60 50)) =
     Inr (sample_device 50 2, (sample_message 20 10 1 100)\<lparr>m_content := None\<rparr>, ''AtoiTalk'', ''Mengirim lampiran'')"
proof -
  have gets: "outbox sample_claimed_db = outbox sample_db" "push_devices sample_claimed_db = [sample_device 50 2]"
    "messages sample_claimed_db = [(sample_message 20 10 1 100)\<lparr>m_content := None\<rparr>]"
    by (simp_all add: sample_claimed_db_def sample_push_db_def)
  have origin: "ent_get False ob_id 30 (outbox sample_db) = Inr (sample_outbox 30 20 10 1 100)" by code_simp
  show ?thesis
    by (simp add: check_delivery_def lease_delivery_def sample_delivery_def gets origin sample_push_checks sample_push_preview
        get_or_def ent_get_def [of _ pd_id] ent_get_def [of _ m_id] ent_only_def)
      (simp add: sample_device_def sample_message_def sample_push_checks [unfolded sample_device_def sample_message_def, simplified]
        sample_push_preview [unfolded sample_message_def, simplified])
qed

lemma sample_push_run: "\<exists>d' n. sample_push = (True, None, d', Some n) \<and> nt_token n = ''tok''"
  unfolding sample_push_def ProcessOne_def sample_push_claim sum.case prod.case option.case sample_push_check
  by (simp add: Let_def after_send_def finish_push_def Finish_def settle_where_def affected_def finish_guard_def sample_claimed_db_def lease_delivery_def sample_delivery_def
      notification_of_def sample_device_def)

lemma sample_push_ids: "distinct (map dl_id (push_deliveries sample_push_db))"
  by code_simp

theorem push_delivery_settles_witness:
  "\<exists>d'. fst (snd (snd sample_push)) = d' \<and> delivery_settled 200 60 (push_deliveries d')"
proof -
  obtain d' n where run: "sample_push = (True, None, d', Some n)" using sample_push_run by blast
  have "delivery_settled 200 60 (push_deliveries d')"
    using push_delivery_settles [OF run [unfolded sample_push_def] sample_push_ids]
    by (simp add: sample_push_db_def sample_delivery_def)
  then show ?thesis unfolding run by simp
qed

text \<open>
  C39. A notification is handed to the provider only for a delivery whose device still exists, is
  enabled, belongs to the recipient under the binding the delivery was made for and has not expired,
  whose session is not revoked, whose message is the claimed one, and whose recipient still wants and
  may see it.
\<close>

theorem push_sends_only_when_allowed:
  assumes "ProcessOne causeText flt redis send skip t tok d = (w, err, d', Some n)"
    and "distinct (map dl_id (push_deliveries d))"
  shows "\<exists>row device msg d1. Claim flt skip t tok d = Inr (Some row, d1) \<and> device \<in> set (push_devices d) \<and> msg \<in> set (messages d) \<and>
    nt_token n = pd_token device \<and> nt_message_id n = m_id msg \<and> pd_id device = dl_device_id row \<and>
    pd_disabled_at device = None \<and> pd_binding_id device = dl_binding_id row \<and> pd_user_id device = dl_user_id row \<and>
    pd_expires_at device > t \<and> dl_expires_at row > t \<and> sessionValid redis device = Inr True \<and>
    (\<exists>ps. NotificationRecipients flt t d1 (dl_chat_id row) [dl_user_id row] = Inr ps \<and> dl_user_id row \<in> set ps) \<and>
    Eligible flt t d1 msg (dl_user_id row) = Inr True"
proof -
  from assms(1) obtain row d1 device msg title body where cl: "Claim flt skip t tok d = Inr (Some row, d1)"
    and chk: "check_delivery flt redis t d1 row = Inr (device, msg, title, body)"
    and n: "n = notification_of row device title body"
    by (auto simp: ProcessOne_def Let_def split: sum.splits option.splits early.splits prod.splits)
  note c = check_delivery_Inr [OF chk]
  have frame: "push_devices d1 = push_devices d" "messages d1 = messages d"
    using Claim_row(3) [OF cl assms(2)] by (metis db.select_convs db.surjective db.update_convs)+
  have "device \<in> set (push_devices d) \<and> pd_id device = dl_device_id row"
    using c(1) frame(1) by (auto simp: Cons_eq_filter_iff eq_commute [of _ "[device]"])
  moreover have "msg \<in> set (messages d) \<and> m_id msg = dl_message_id row"
    using c(8) frame(2) by (auto simp: Cons_eq_filter_iff eq_commute [of _ "[msg]"])
  ultimately show ?thesis using cl c n by (intro exI [of _ row] exI [of _ device] exI [of _ msg] exI [of _ d1]) (simp add: notification_of_def)
qed

theorem push_sends_only_when_allowed_witness:
  "\<exists>d' n device. sample_push = (True, None, d', Some n) \<and> device \<in> set (push_devices sample_push_db) \<and>
     nt_token n = pd_token device \<and> sessionValid (Some sample_redis) device = Inr True"
proof -
  obtain d' n where run: "sample_push = (True, None, d', Some n)" using sample_push_run by blast
  with push_sends_only_when_allowed [OF run [unfolded sample_push_def] sample_push_ids] show ?thesis by blast
qed

text \<open>
  C40. Two claimable deliveries stop the worker: the claim reports that its query was not singular,
  nothing is claimed and nothing is sent, at this call and at every later one while both rows stay
  claimable.
\<close>

theorem push_claim_stuck_on_two:
  assumes "\<And>c. \<not> flt c" and "r1 \<in> set (push_deliveries d)" and "r2 \<in> set (push_deliveries d)" and "dl_id r1 \<noteq> dl_id r2"
    and "delivery_claimable t r1" and "delivery_claimable t r2" and "\<not> skip (dl_id r1)" and "\<not> skip (dl_id r2)"
  shows "ProcessOne causeText flt redis send skip t tok d = (False, Some (ClaimError NotSingularError), d, None)"
proof -
  have mem: "r1 \<in> set (claimable_rows t skip (push_deliveries d))" "r2 \<in> set (claimable_rows t skip (push_deliveries d))"
    using assms by (simp_all add: claimable_rows_def)
  have "r1 \<noteq> r2" using assms(4) by auto
  with mem obtain a b rest where "claimable_rows t skip (push_deliveries d) = a # b # rest"
    by (cases "claimable_rows t skip (push_deliveries d)" rule: remdups_adj.cases) auto
  then have "Claim flt skip t tok d = Inl NotSingularError" using Claim_cases [of flt] assms(1) by simp
  then show ?thesis by (simp add: ProcessOne_def)
qed

theorem push_claim_stuck_on_two_witness:
  "ProcessOne (\<lambda>_. ''down'') no_fault (Some sample_redis) (\<lambda>_. None) no_skip 200 99
     (sample_push_db\<lparr>push_deliveries := [sample_delivery 60 50, sample_delivery 61 51]\<rparr>) =
   (False, Some (ClaimError NotSingularError), sample_push_db\<lparr>push_deliveries := [sample_delivery 60 50, sample_delivery 61 51]\<rparr>, None)"
  by (rule push_claim_stuck_on_two [of _ "sample_delivery 60 50" _ "sample_delivery 61 51"])
    (simp_all add: sample_delivery_def delivery_claimable_def no_skip_def)

end
