(* ===== verification/Outbox_Store.thy ===== *)
theory Outbox_Store
  imports Message_Outbox Push_Store Text_Helpers
begin

text \<open>
  The read side of the outbox, \<^verbatim>\<open>src/internal/message_worker/ent_store.go\<close>: claiming a batch
  under a lease, settling a row, projecting a message onto its chat and unread counters, and building
  the events of a record. Errors keep the call site and the cause the code wraps.
\<close>

section \<open>Records and errors\<close>

record outbox_record =
  r_id :: uuid
  r_lock_token :: uuid
  r_event_type :: string
  r_message_id :: uuid
  r_chat_id :: uuid
  r_sender_id :: uuid
  r_target_user_id :: uuid
  r_payload :: "json_object option"
  r_attempt_count :: int

datatype outbox_error = QueryError string ent_error | OutboxLeaseLost string | PartialLease nat nat
  | UnsupportedEventType string | IDsRequired | SenderUnavailable uuid | NotPrivateMember uuid uuid
  | PublishError string

definition outboxRecord :: "message_outbox \<Rightarrow> outbox_record" where
  "outboxRecord row = \<lparr>r_id = ob_id row,
     r_lock_token = (case ob_lock_token row of None \<Rightarrow> uuid_Nil | Some k \<Rightarrow> k),
     r_event_type = ob_event_type row, r_message_id = ob_message_id row, r_chat_id = ob_chat_id row,
     r_sender_id = (case ob_sender_id row of None \<Rightarrow> uuid_Nil | Some s \<Rightarrow> s),
     r_target_user_id = uuid_Nil, r_payload = ob_payload row, r_attempt_count = ob_attempt_count row\<rparr>"

section \<open>Claim\<close>

definition outbox_pending :: "message_outbox \<Rightarrow> bool" where
  "outbox_pending r \<longleftrightarrow> ob_published_at r = None \<and> ob_dead_lettered_at r = None"

definition outbox_earlier :: "message_outbox \<Rightarrow> message_outbox \<Rightarrow> bool" where
  "outbox_earlier a b \<longleftrightarrow> ob_created_at a < ob_created_at b \<or> ob_created_at a = ob_created_at b \<and> ob_id a < ob_id b"

definition outbox_claimable :: "time \<Rightarrow> duration \<Rightarrow> message_outbox list \<Rightarrow> message_outbox \<Rightarrow> bool" where
  "outbox_claimable t lease rows r \<longleftrightarrow>
     outbox_pending r \<and> ob_available_at r \<le> t \<and>
     (case ob_locked_at r of None \<Rightarrow> True | Some l \<Rightarrow> l \<le> t - lease) \<and>
     \<not> (\<exists>x\<in>set rows. ob_chat_id x = ob_chat_id r \<and> outbox_pending x \<and> outbox_earlier x r)"

text \<open>Rows another transaction holds (\<open>skip\<close>) are passed over: \<open>FOR UPDATE SKIP LOCKED\<close>.\<close>

definition claim_batch :: "(uuid \<Rightarrow> bool) \<Rightarrow> int \<Rightarrow> time \<Rightarrow> duration \<Rightarrow> message_outbox list \<Rightarrow> message_outbox list" where
  "claim_batch skip limit t lease rows =
     take (nat limit) (sort_key ob_created_at (filter (\<lambda>r. outbox_claimable t lease rows r \<and> \<not> skip (ob_id r)) rows))"

definition lease_outbox :: "time \<Rightarrow> uuid \<Rightarrow> message_outbox \<Rightarrow> message_outbox" where
  "lease_outbox t tok r = r\<lparr>ob_locked_at := Some t, ob_lock_token := Some tok,
     ob_attempt_count := ob_attempt_count r + 1, ob_last_error := None\<rparr>"

definition default_lease :: "duration \<Rightarrow> duration" where
  "default_lease l = (if l \<le> 0 then 5 * minute else l)"

definition Claim_outbox :: "(string \<Rightarrow> bool) \<Rightarrow> (uuid \<Rightarrow> bool) \<Rightarrow> time \<Rightarrow> uuid \<Rightarrow> int \<Rightarrow> duration \<Rightarrow> db \<Rightarrow>
    outbox_error + (outbox_record list \<times> db)" where
  "Claim_outbox flt skip t tok limit leaseDuration d =
     (if limit \<le> 0 then Inr ([], d)
      else
       and_then (fail_if (flt ''claim.begin'') (QueryError ''begin outbox claim transaction'' DriverError)) (\<lambda>_.
       and_then (on_err (ent_all (flt ''claim.select'') (claim_batch skip limit t (default_lease leaseDuration) (outbox d)))
                  (QueryError ''select outbox rows for claim'')) (\<lambda>rows.
         if rows = [] then
           (if flt ''claim.commit'' then Inl (QueryError ''commit outbox claim transaction'' DriverError)
            else Inr ([], d))
         else
          (let P = (\<lambda>r. ob_id r \<in> set (map ob_id rows) \<and> ob_published_at r = None);
               updated = affected P (outbox d)
           in if flt ''claim.update'' then Inl (QueryError ''lease outbox batch'' DriverError)
              else if updated \<noteq> length rows then Inl (PartialLease updated (length rows))
              else if flt ''claim.commit'' then Inl (QueryError ''commit outbox claim transaction'' DriverError)
              else Inr (map (\<lambda>row. (outboxRecord row)\<lparr>r_lock_token := tok, r_attempt_count := ob_attempt_count row + 1\<rparr>) rows,
                        d\<lparr>outbox := update_where P (lease_outbox t tok) (outbox d)\<rparr>)))))"

record backlog =
  bl_Pending :: nat
  bl_Locked :: nat
  bl_Unprojected :: nat
  bl_Unpublished :: nat

definition Backlog :: "(string \<Rightarrow> bool) \<Rightarrow> db \<Rightarrow> outbox_error + backlog" where
  "Backlog flt d =
     and_then (on_err (ent_count (flt ''backlog.pending'') (filter outbox_pending (outbox d)))
       (QueryError ''count pending outbox rows'')) (\<lambda>p.
     and_then (on_err (ent_count (flt ''backlog.locked'')
         (filter (\<lambda>r. outbox_pending r \<and> ob_locked_at r \<noteq> None) (outbox d)))
       (QueryError ''count locked outbox rows'')) (\<lambda>l.
     and_then (on_err (ent_count (flt ''backlog.unprojected'')
         (filter (\<lambda>r. outbox_pending r \<and> ob_projected_at r = None) (outbox d)))
       (QueryError ''count unprojected outbox rows'')) (\<lambda>u.
     Inr \<lparr>bl_Pending = p, bl_Locked = l, bl_Unprojected = u, bl_Unpublished = p\<rparr>)))"

section \<open>Settling a row\<close>

definition maxStoredOutboxErrorLength :: nat where "maxStoredOutboxErrorLength = 2048"

text \<open>The argument is the text of the error, \<open>None\<close> for a nil error.\<close>

definition truncateOutboxError :: "string option \<Rightarrow> string" where
  "truncateOutboxError err =
     (case err of
        None \<Rightarrow> ''outbox processing failed''
      | Some text \<Rightarrow>
          let message = TrimSpace text in
          if message = [] then ''outbox processing failed''
          else if length message > maxStoredOutboxErrorLength then take maxStoredOutboxErrorLength message
          else message)"

definition owned :: "uuid \<Rightarrow> uuid \<Rightarrow> message_outbox \<Rightarrow> bool" where
  "owned i tok r \<longleftrightarrow> ob_id r = i \<and> ob_lock_token r = Some tok \<and> ob_published_at r = None"

definition release :: "message_outbox \<Rightarrow> message_outbox" where
  "release r = r\<lparr>ob_locked_at := None, ob_lock_token := None\<rparr>"

datatype settlement = SetPublished time | SetFailed string time | SetDeadLetter string time

primrec settle_guard :: "settlement \<Rightarrow> uuid \<Rightarrow> uuid \<Rightarrow> message_outbox \<Rightarrow> bool" where
  "settle_guard (SetPublished t) i tok r = owned i tok r"
| "settle_guard (SetFailed err t) i tok r = owned i tok r"
| "settle_guard (SetDeadLetter err t) i tok r = (owned i tok r \<and> ob_dead_lettered_at r = None)"

primrec settle_row :: "settlement \<Rightarrow> message_outbox \<Rightarrow> message_outbox" where
  "settle_row (SetPublished t) r = (release r)\<lparr>ob_published_at := Some t, ob_last_error := None\<rparr>"
| "settle_row (SetFailed err t) r = (release r)\<lparr>ob_available_at := t, ob_last_error := Some err\<rparr>"
| "settle_row (SetDeadLetter err t) r = (release r)\<lparr>ob_dead_lettered_at := Some t, ob_last_error := Some err\<rparr>"

definition settle_outbox :: "settlement \<Rightarrow> uuid \<Rightarrow> uuid \<Rightarrow> message_outbox list \<Rightarrow> message_outbox list option" where
  "settle_outbox s i tok rows = settle_where (settle_guard s i tok) (settle_row s) rows"

definition mark :: "string \<Rightarrow> settlement \<Rightarrow> bool \<Rightarrow> db \<Rightarrow> uuid \<Rightarrow> uuid \<Rightarrow> outbox_error + db" where
  "mark what s broken d i tok =
     (if broken then Inl (QueryError what DriverError)
      else case settle_outbox s i tok (outbox d) of
             None \<Rightarrow> Inl (OutboxLeaseLost what)
           | Some rows \<Rightarrow> Inr (d\<lparr>outbox := rows\<rparr>))"

definition MarkPublished :: "bool \<Rightarrow> db \<Rightarrow> uuid \<Rightarrow> uuid \<Rightarrow> time \<Rightarrow> outbox_error + db" where
  "MarkPublished broken d i tok publishedAt = mark ''mark published'' (SetPublished publishedAt) broken d i tok"

definition MarkFailed :: "bool \<Rightarrow> db \<Rightarrow> uuid \<Rightarrow> uuid \<Rightarrow> string option \<Rightarrow> time \<Rightarrow> outbox_error + db" where
  "MarkFailed broken d i tok processingErr availableAt =
     mark ''mark failed'' (SetFailed (truncateOutboxError processingErr) availableAt) broken d i tok"

definition MarkDeadLetter :: "bool \<Rightarrow> db \<Rightarrow> uuid \<Rightarrow> uuid \<Rightarrow> string option \<Rightarrow> time \<Rightarrow> outbox_error + db" where
  "MarkDeadLetter broken d i tok processingErr deadLetteredAt =
     mark ''mark dead letter'' (SetDeadLetter (truncateOutboxError processingErr) deadLetteredAt) broken d i tok"

section \<open>Projection\<close>

text \<open>SQL's \<open>readAt >= t\<close>, where \<open>NULL\<close> selects the \<open>ELSE\<close> branch of a \<open>CASE\<close>.\<close>

definition sql_ge :: "time option \<Rightarrow> time \<Rightarrow> bool" where
  "sql_ge x t = (case x of None \<Rightarrow> False | Some v \<Rightarrow> v \<ge> t)"

definition unreadCountAfterProjection :: "int \<Rightarrow> time option \<Rightarrow> time \<Rightarrow> time option \<Rightarrow> int" where
  "unreadCountAfterProjection count readAt t hiddenAt = (if sql_ge readAt t \<or> sql_ge hiddenAt t then count else count + 1)"

definition senderUnreadAfterProjection :: "int \<Rightarrow> time option \<Rightarrow> time \<Rightarrow> int" where
  "senderUnreadAfterProjection count readAt t = (if sql_ge readAt t then count else 0)"

definition readAtAfterProjection :: "time option \<Rightarrow> time \<Rightarrow> time option" where
  "readAtAfterProjection readAt t = (if sql_ge readAt t then readAt else Some t)"

definition project_user1 :: "time \<Rightarrow> private_chat \<Rightarrow> private_chat" where
  "project_user1 t p = p\<lparr>
     pc_user1_unread_count := senderUnreadAfterProjection (pc_user1_unread_count p) (pc_user1_last_read_at p) t,
     pc_user1_last_read_at := readAtAfterProjection (pc_user1_last_read_at p) t,
     pc_user2_unread_count := unreadCountAfterProjection (pc_user2_unread_count p) (pc_user2_last_read_at p) t (pc_user2_hidden_at p)\<rparr>"

definition project_user2 :: "time \<Rightarrow> private_chat \<Rightarrow> private_chat" where
  "project_user2 t p = p\<lparr>
     pc_user2_unread_count := senderUnreadAfterProjection (pc_user2_unread_count p) (pc_user2_last_read_at p) t,
     pc_user2_last_read_at := readAtAfterProjection (pc_user2_last_read_at p) t,
     pc_user1_unread_count := unreadCountAfterProjection (pc_user1_unread_count p) (pc_user1_last_read_at p) t (pc_user1_hidden_at p)\<rparr>"

definition project_member :: "uuid \<Rightarrow> time \<Rightarrow> group_member \<Rightarrow> group_member" where
  "project_member sender t m = m\<lparr>
     gm_unread_count := (if gm_user_id m = sender
        then senderUnreadAfterProjection (gm_unread_count m) (gm_last_read_at m) t
        else unreadCountAfterProjection (gm_unread_count m) (gm_last_read_at m) t None),
     gm_last_read_at := (if gm_user_id m = sender then readAtAfterProjection (gm_last_read_at m) t else gm_last_read_at m)\<rparr>"

definition projectUnread :: "(string \<Rightarrow> bool) \<Rightarrow> db \<Rightarrow> outbox_record \<Rightarrow> time \<Rightarrow> outbox_error + db" where
  "projectUnread flt d record t =
     (case ent_only (flt ''unread.private'') (filter (\<lambda>p. pc_chat_id p = r_chat_id record) (private_chats d)) of
        Inr p \<Rightarrow>
          (let upd = (\<lambda>f. if flt ''unread.private.update''
                 then Inl (QueryError ''project private chat unread state'' DriverError)
                 else Inr (d\<lparr>private_chats := update_where (\<lambda>q. pc_id q = pc_id p) f (private_chats d)\<rparr>))
           in if pc_user1_id p = Some (r_sender_id record) then upd (project_user1 t)
              else if pc_user2_id p = Some (r_sender_id record) then upd (project_user2 t)
              else Inl (NotPrivateMember (r_sender_id record) (r_chat_id record)))
      | Inl NotFoundError \<Rightarrow>
          and_then (on_err (ent_only (flt ''unread.group'') (filter (\<lambda>g. gc_chat_id g = r_chat_id record) (group_chats d)))
                     (QueryError ''load group chat'')) (\<lambda>g.
            if flt ''unread.group.update'' then Inl (QueryError ''project group unread state'' DriverError)
            else Inr (d\<lparr>group_members := update_where (\<lambda>m. gm_group_chat_id m = gc_id g \<and> gm_joined_at m \<le> t)
                          (project_member (r_sender_id record) t) (group_members d)\<rparr>))
      | Inl e \<Rightarrow> Inl (QueryError ''load private chat'' e))"

definition project_chat :: "uuid \<Rightarrow> message \<Rightarrow> chat list \<Rightarrow> chat list" where
  "project_chat chatID msg = update_where
     (\<lambda>c. c_id c = chatID \<and> (case c_last_message_at c of None \<Rightarrow> True | Some l \<Rightarrow> l < m_created_at msg))
     (\<lambda>c. c\<lparr>c_last_message_id := Some (m_id msg), c_last_message_at := Some (m_created_at msg)\<rparr>)"

definition project_new :: "bool \<Rightarrow> env \<Rightarrow> (nat \<Rightarrow> bool) \<Rightarrow> db \<Rightarrow> outbox_record \<Rightarrow> outbox_error + db" where
  "project_new pushEnabled e chunk_fault d record =
     and_then (on_err (ent_only (fault e ''project.message'') (filter (\<lambda>m. m_id m = r_message_id record) (messages d)))
                (QueryError ''load message for projection'')) (\<lambda>msg.
     and_then (fail_if (fault e ''project.chat'') (QueryError ''project chat metadata'' DriverError)) (\<lambda>_.
     and_then (projectUnread (fault e) (d\<lparr>chats := project_chat (r_chat_id record) msg (chats d)\<rparr>) record (m_created_at msg)) (\<lambda>d.
       if pushEnabled
       then on_err (Enqueue (fault e) chunk_fault (newid e) (now e) d msg (r_id record)) (QueryError ''enqueue push'')
       else Inr d)))"

text \<open>
  The transaction reads the outbox row without locking it and writes it by its identifier alone when everything else is done: what
  others commit in between is there when it writes. \<open>ProjectFrom\<close> reads the row in \<open>d0\<close> and does the rest in \<open>d\<close>; \<open>Project\<close> is the call that nobody overtakes.
\<close>

definition project_effect :: "bool \<Rightarrow> env \<Rightarrow> (nat \<Rightarrow> bool) \<Rightarrow> db \<Rightarrow> outbox_record \<Rightarrow> message_outbox \<Rightarrow> outbox_error + db" where
  "project_effect pushEnabled e chunk_fault d record row =
     and_then (if r_event_type record = EventMessageNew then project_new pushEnabled e chunk_fault d record else Inr d) (\<lambda>d.
     and_then (fail_if (fault e ''project.mark'') (QueryError ''mark outbox row projected'' DriverError)) (\<lambda>_.
     and_then (fail_if (ob_id row \<notin> set (map ob_id (outbox d))) (QueryError ''mark outbox row projected'' NotFoundError)) (\<lambda>_.
     and_then (fail_if (fault e ''project.commit'') (QueryError ''commit outbox projection transaction'' DriverError)) (\<lambda>_.
       Inr (d\<lparr>outbox := update_where (\<lambda>r. ob_id r = ob_id row) (\<lambda>r. r\<lparr>ob_projected_at := Some (now e)\<rparr>) (outbox d)\<rparr>)))))"

definition ProjectFrom :: "bool \<Rightarrow> env \<Rightarrow> (nat \<Rightarrow> bool) \<Rightarrow> db \<Rightarrow> db \<Rightarrow> outbox_record \<Rightarrow> outbox_error + db" where
  "ProjectFrom pushEnabled e chunk_fault d0 d record =
     and_then (fail_if (fault e ''project.begin'') (QueryError ''begin outbox projection transaction'' DriverError)) (\<lambda>_.
     and_then (on_err (ent_only (fault e ''project.outbox'') (filter (owned (r_id record) (r_lock_token record)) (outbox d0)))
                (QueryError ''load outbox row for projection'')) (\<lambda>row.
       if ob_projected_at row \<noteq> None then Inr d else project_effect pushEnabled e chunk_fault d record row))"

definition Project :: "bool \<Rightarrow> env \<Rightarrow> (nat \<Rightarrow> bool) \<Rightarrow> db \<Rightarrow> outbox_record \<Rightarrow> outbox_error + db" where
  "Project pushEnabled e chunk_fault d record = ProjectFrom pushEnabled e chunk_fault d d record"

section \<open>Events of a record\<close>

definition applyMessageEntitySnapshot :: "message \<Rightarrow> json_object option \<Rightarrow> message" where
  "applyMessageEntitySnapshot msg payload =
     (case payload of
        None \<Rightarrow> msg
      | Some p \<Rightarrow>
         (let msg = (case map_of p ''content'' of None \<Rightarrow> msg | Some c \<Rightarrow> msg\<lparr>m_content := json_string c\<rparr>);
              msg = (case map_of p ''action_data'' of None \<Rightarrow> msg | Some a \<Rightarrow> msg\<lparr>m_action_data := json_object_of a\<rparr>)
          in (case map_of p ''deleted_at'' of Some JNull \<Rightarrow> msg\<lparr>m_deleted_at := None\<rparr> | _ \<Rightarrow> msg)))"

definition applyMessageSnapshot :: "message_response \<Rightarrow> json_object option \<Rightarrow> message_response" where
  "applyMessageSnapshot resp payload =
     (case payload of
        None \<Rightarrow> resp
      | Some p \<Rightarrow>
         (let resp = (case map_of p ''content'' of None \<Rightarrow> resp
                        | Some c \<Rightarrow> resp\<lparr>mr_content := (case json_string c of Some x \<Rightarrow> x | None \<Rightarrow> [])\<rparr>);
              resp = (case map_of p ''action_data'' of None \<Rightarrow> resp | Some a \<Rightarrow> resp\<lparr>mr_action_data := json_object_of a\<rparr>);
              resp = (case map_of p ''edited_at'' of None \<Rightarrow> resp | Some v \<Rightarrow> resp\<lparr>mr_edited_at := json_stamp v\<rparr>)
          in (case map_of p ''deleted_at'' of None \<Rightarrow> resp | Some v \<Rightarrow> resp\<lparr>mr_deleted_at := json_stamp v\<rparr>)))"

definition batchRecipientsUnreadCount :: "(string \<Rightarrow> bool) \<Rightarrow> db \<Rightarrow> uuid \<Rightarrow> uuid list \<Rightarrow> outbox_error + (uuid \<rightharpoonup> int)" where
  "batchRecipientsUnreadCount flt d chatID targets =
     (if targets = [] then Inr Map.empty
      else case ent_only (flt ''counts.private'') (filter (\<lambda>p. pc_chat_id p = chatID) (private_chats d)) of
        Inr p \<Rightarrow> Inr (\<lambda>target. if target \<notin> set targets then None
                        else if pc_user1_id p = Some target then Some (pc_user1_unread_count p)
                        else if pc_user2_id p = Some target then Some (pc_user2_unread_count p)
                        else None)
      | Inl NotFoundError \<Rightarrow>
          and_then (on_err (ent_only (flt ''counts.group'') (filter (\<lambda>g. gc_chat_id g = chatID) (group_chats d)))
                     (QueryError ''load group chat for unread state'')) (\<lambda>g.
          and_then (on_err (ent_all (flt ''counts.members'')
                       (filter (\<lambda>m. gm_group_chat_id m = gc_id g \<and> gm_user_id m \<in> set targets) (group_members d)))
                     (QueryError ''batch load recipient unread state'')) (\<lambda>ms.
            Inr (foldl (\<lambda>acc m. acc(gm_user_id m \<mapsto> gm_unread_count m)) Map.empty ms)))
      | Inl e \<Rightarrow> Inl (QueryError ''load private unread state'' e))"

text \<open>\<open>hiddenAt != nil && !hiddenAt.Before(createdAt)\<close>\<close>

definition hides :: "uuid option \<Rightarrow> time option \<Rightarrow> time \<Rightarrow> uuid \<Rightarrow> bool" where
  "hides userID hiddenAt createdAt candidate \<longleftrightarrow>
     userID = Some candidate \<and> (case hiddenAt of None \<Rightarrow> False | Some h \<Rightarrow> \<not> h < createdAt)"

definition visible_candidates :: "(string \<Rightarrow> bool) \<Rightarrow> db \<Rightarrow> uuid \<Rightarrow> time \<Rightarrow> uuid list \<Rightarrow> outbox_error + uuid list" where
  "visible_candidates flt d chatID createdAt candidates =
     (if candidates = [] then Inr []
      else case ent_only (flt ''targets.private'') (filter (\<lambda>p. pc_chat_id p = chatID) (private_chats d)) of
        Inr p \<Rightarrow> Inr (filter (\<lambda>c. \<not> hides (pc_user1_id p) (pc_user1_hidden_at p) createdAt c \<and>
                                 \<not> hides (pc_user2_id p) (pc_user2_hidden_at p) createdAt c) candidates)
      | Inl NotFoundError \<Rightarrow>
          and_then (on_err (ent_only (flt ''targets.group'') (map gc_id (filter (\<lambda>g. gc_chat_id g = chatID) (group_chats d))))
                     (QueryError ''load group chat for event targets'')) (\<lambda>groupID.
          and_then (on_err (ent_all (flt ''targets.members'')
                       (filter (\<lambda>m. gm_group_chat_id m = groupID \<and> gm_user_id m \<in> set candidates \<and> gm_joined_at m \<le> createdAt)
                          (group_members d)))
                     (QueryError ''load group members for event'')) (\<lambda>ms.
            Inr (map gm_user_id ms)))
      | Inl e \<Rightarrow> Inl (QueryError ''load private chat for event targets'' e))"

definition eventTargets :: "(string \<Rightarrow> bool) \<Rightarrow> db \<Rightarrow> outbox_record \<Rightarrow> time \<Rightarrow> outbox_error + uuid list" where
  "eventTargets flt d record createdAt =
     and_then (on_err (ChatMembers flt d (r_chat_id record)) (QueryError ''load chat members'')) (\<lambda>members.
     and_then (visible_candidates flt d (r_chat_id record) createdAt members) (\<lambda>candidates.
     and_then (if candidates \<noteq> [] \<and> r_sender_id record \<noteq> uuid_Nil
               then on_err (BlockedContacts flt d (r_sender_id record)) (QueryError ''batch check message recipient block state'')
               else Inr []) (\<lambda>blocked.
       Inr (filter (\<lambda>c. c \<noteq> r_sender_id record \<and> c \<noteq> uuid_Nil \<and> c \<notin> set blocked) candidates))))"

definition event_payload_of :: "(string \<Rightarrow> bool) \<Rightarrow> urlgen \<Rightarrow> db \<Rightarrow> outbox_record \<Rightarrow> outbox_error + (time \<times> event_payload)" where
  "event_payload_of flt ug d record =
     (if r_event_type record = EventMessageDelete then
        and_then (on_err (ent_only (flt ''build.deleted'') (filter (\<lambda>m. m_id m = r_message_id record) (messages d)))
                   (QueryError ''load deleted message'')) (\<lambda>msg.
          Inr (m_created_at msg, DeletedPayload (r_message_id record)))
      else
        and_then (on_err (ent_only (flt ''build.message'') (filter (\<lambda>m. m_id m = r_message_id record) (messages d)))
                   (QueryError ''load message'')) (\<lambda>msg.
          let full = load_full d msg in
          if fm_sender full = None \<and> r_sender_id record \<noteq> uuid_Nil
          then Inl (SenderUnavailable (r_message_id record))
          else Inr (m_created_at msg,
                    MessagePayload (applyMessageSnapshot
                      (ToMessageResponse (full\<lparr>fm_message := applyMessageEntitySnapshot msg (r_payload record)\<rparr>) ug [])
                      (r_payload record)))))"

text \<open>\<open>sha1 a b\<close> is \<open>uuid.NewSHA1(uuid.Nil, a + ":" + b)\<close>, the identifier of the event of record \<open>a\<close> for user \<open>b\<close>.\<close>

definition BuildEvents :: "(uuid \<Rightarrow> uuid \<Rightarrow> uuid) \<Rightarrow> env \<Rightarrow> urlgen \<Rightarrow> db \<Rightarrow> outbox_record \<Rightarrow> outbox_error + message_event list" where
  "BuildEvents sha1 e ug d record =
     and_then (fail_if (r_event_type record \<notin> {EventMessageNew, EventMessageUpdate, EventMessageDelete})
                (UnsupportedEventType (r_event_type record))) (\<lambda>_.
     and_then (fail_if (r_message_id record = uuid_Nil \<or> r_chat_id record = uuid_Nil) IDsRequired) (\<lambda>_.
     and_then (event_payload_of (fault e) ug d record) (\<lambda>(createdAt, payload).
     and_then (eventTargets (fault e) d record createdAt) (\<lambda>targets.
     and_then (batchRecipientsUnreadCount (fault e) d (r_chat_id record) targets) (\<lambda>unreadMap.
       Inr (map (\<lambda>target.
         \<lparr>me_trace_parent = trace_parent e, me_id = sha1 (r_id record) target, me_outbox_id = r_id record,
          me_type = r_event_type record, me_message_id = r_message_id record, me_chat_id = r_chat_id record,
          me_sender_id = r_sender_id record, me_target_user_id = target,
          me_payload = \<lparr>ev_type = r_event_type record, ev_payload = payload,
             ev_meta = Some \<lparr>em_timestamp = now e div 1000000, em_chat_id = r_chat_id record,
                em_sender_id = r_sender_id record,
                em_unread_count = (case unreadMap target of None \<Rightarrow> 0 | Some n \<Rightarrow> n)\<rparr>\<rparr>\<rparr>) targets))))))"

section \<open>The outbox as a leased table\<close>

lemma lease_outbox_fields [simp]:
  "ob_id (lease_outbox t tok r) = ob_id r" "ob_lock_token (lease_outbox t tok r) = Some tok"
  "ob_locked_at (lease_outbox t tok r) = Some t" "ob_chat_id (lease_outbox t tok r) = ob_chat_id r"
  "ob_created_at (lease_outbox t tok r) = ob_created_at r" "ob_projected_at (lease_outbox t tok r) = ob_projected_at r"
  "ob_published_at (lease_outbox t tok r) = ob_published_at r"
  "ob_dead_lettered_at (lease_outbox t tok r) = ob_dead_lettered_at r"
  by (simp_all add: lease_outbox_def)

lemma settle_row_fields [simp]:
  "ob_id (settle_row s r) = ob_id r" "ob_lock_token (settle_row s r) = None"
  "ob_locked_at (settle_row s r) = None" "ob_attempt_count (settle_row s r) = ob_attempt_count r"
  "ob_projected_at (settle_row s r) = ob_projected_at r"
  by (cases s; simp add: release_def)+

lemma settle_guardD: "settle_guard s i tok r \<Longrightarrow> ob_id r = i \<and> ob_lock_token r = Some tok"
  by (cases s) (auto simp: owned_def)

definition batch_guard :: "message_outbox list \<Rightarrow> message_outbox \<Rightarrow> bool" where
  "batch_guard rows r \<longleftrightarrow> ob_id r \<in> set (map ob_id rows) \<and> ob_published_at r = None"

definition acquire_outbox :: "uuid \<Rightarrow> time \<times> duration \<times> int \<times> (uuid \<Rightarrow> bool) \<Rightarrow> message_outbox list \<Rightarrow>
    uuid list \<times> message_outbox list" where
  "acquire_outbox tok x rows = (case x of (t, lease, limit, skip) \<Rightarrow>
     let batch = claim_batch skip limit t lease rows in
     (map ob_id batch, update_where (batch_guard batch) (lease_outbox t tok) rows))"

lemma claim_batch_sub:
  "r \<in> set (claim_batch skip limit t lease rows) \<Longrightarrow> r \<in> set rows \<and> outbox_claimable t lease rows r \<and> \<not> skip (ob_id r)"
  by (auto simp: claim_batch_def dest: in_set_takeD)

lemma distinct_claim_batch:
  assumes "distinct (map ob_id rows)"
  shows "distinct (map ob_id (claim_batch skip limit t lease rows))"
proof -
  have "distinct (map ob_id (sort_key ob_created_at (filter P rows)))" for P
    using assms by (simp add: distinct_map inj_on_def)
  then show ?thesis by (simp add: claim_batch_def take_map [symmetric])
qed

lemma batch_guard_iff:
  assumes "distinct (map ob_id rows)" and "r \<in> set rows"
  shows "batch_guard (claim_batch skip limit t lease rows) r \<longleftrightarrow> r \<in> set (claim_batch skip limit t lease rows)"
proof
  assume "batch_guard (claim_batch skip limit t lease rows) r"
  then obtain s where s: "s \<in> set (claim_batch skip limit t lease rows)" "ob_id s = ob_id r"
    by (auto simp: batch_guard_def)
  with assms have "s = r" by (metis claim_batch_sub distinct_key_eq)
  with s show "r \<in> set (claim_batch skip limit t lease rows)" by simp
next
  assume "r \<in> set (claim_batch skip limit t lease rows)"
  then show "batch_guard (claim_batch skip limit t lease rows) r"
    by (auto simp: batch_guard_def outbox_claimable_def outbox_pending_def dest!: claim_batch_sub)
qed

interpretation outbox_rows: lease_table ob_id ob_lock_token acquire_outbox settle_outbox
proof
  fix s i tok rows rows' and r :: message_outbox
  assume "settle_outbox s i tok rows = Some rows'"
  then have one: "affected (settle_guard s i tok) rows = 1"
    and rows': "rows' = update_where (settle_guard s i tok) (settle_row s) rows"
    by (simp_all add: settle_outbox_def settle_where_Some)
  from one obtain x where x: "x \<in> set rows" "settle_guard s i tok x"
    using affected_0 [of "settle_guard s i tok" rows] by auto
  then show "\<exists>r\<in>set rows. ob_id r = i \<and> ob_lock_token r = Some tok" using settle_guardD by blast
  show "map ob_id rows' = map ob_id rows" unfolding rows' by (rule update_where_key) simp
  show "ob_id r \<noteq> i \<Longrightarrow> (r \<in> set rows') = (r \<in> set rows)"
    unfolding rows' by (rule update_where_miss [where k = ob_id and K = "{i}"]) (auto dest: settle_guardD)
  assume dist: "distinct (map ob_id rows)" and r: "r \<in> set rows'" "ob_id r = i"
  from r(1) obtain r0 where r0: "r0 \<in> set rows" "r = (if settle_guard s i tok r0 then settle_row s r0 else r0)"
    unfolding rows' in_update_where by blast
  then have "ob_id r0 = ob_id x" using r(2) x(2) by (auto dest!: settle_guardD split: if_splits)
  with dist r0(1) x(1) have "r0 = x" by (rule distinct_key_eq)
  with r0 x show "ob_lock_token r = None" by simp
next
  fix tok and x :: "time \<times> duration \<times> int \<times> (uuid \<Rightarrow> bool)" and rows ks rows' and r :: message_outbox
  obtain t lease limit skip where x: "x = (t, lease, limit, skip)" by (cases x) auto
  let ?b = "claim_batch skip limit t lease rows"
  assume "acquire_outbox tok x rows = (ks, rows')"
  then have ks: "ks = map ob_id ?b" and rows': "rows' = update_where (batch_guard ?b) (lease_outbox t tok) rows"
    by (simp_all add: acquire_outbox_def x Let_def)
  show "map ob_id rows' = map ob_id rows" unfolding rows' by (rule update_where_key) simp
  assume dist: "distinct (map ob_id rows)"
  show "ob_id r \<notin> set ks \<Longrightarrow> (r \<in> set rows') = (r \<in> set rows)"
    unfolding rows' by (rule update_where_miss [where k = ob_id and K = "set ks"]) (auto simp: batch_guard_def ks)
  assume r: "r \<in> set rows'" "ob_id r \<in> set ks"
  from r(1) obtain r0 where r0: "r0 \<in> set rows" "r = (if batch_guard ?b r0 then lease_outbox t tok r0 else r0)"
    unfolding rows' in_update_where by blast
  from r(2) obtain y where y: "y \<in> set ?b" "ob_id y = ob_id r" by (auto simp: ks)
  moreover have "ob_id r = ob_id r0" using r0(2) by simp
  ultimately have "y = r0" using distinct_key_eq [OF dist] claim_batch_sub r0(1) by metis
  with y(1) r0(1) have "batch_guard ?b r0" by (simp add: batch_guard_iff [OF dist])
  with r0(2) show "ob_lock_token r = Some tok" by simp
qed

end
