(* ===== verification/Outbox_Laws.thy ===== *)
theory Outbox_Laws
  imports Outbox_Store Samples
begin

text \<open>
  What the outbox store guarantees: the order and exclusiveness of claims, the fencing of workers
  whose lease was taken over, the stability of finished rows along every run of the store's
  operations, the progress of claims, and the effect of a projection.
\<close>

section \<open>Sample runs\<close>

definition sample_leased :: db where
  "sample_leased = sample_db\<lparr>outbox := [lease_outbox 200 99 (sample_outbox 30 20 10 1 100),
     lease_outbox 200 99 (sample_outbox 31 21 11 1 101), sample_outbox 32 20 10 1 102]\<rparr>"

definition sample_records :: "outbox_record list" where
  "sample_records = map (\<lambda>r. (outboxRecord r)\<lparr>r_lock_token := 99, r_attempt_count := 1\<rparr>)
     [sample_outbox 30 20 10 1 100, sample_outbox 31 21 11 1 101]"

lemma sample_claim: "Claim_outbox no_fault no_skip 200 99 5 0 sample_db = Inr (sample_records, sample_leased)"
  by code_simp

lemma sample_ids: "distinct (map ob_id (outbox sample_db))"
  by code_simp

section \<open>Claims\<close>

lemma claim_batch_guard_affected:
  assumes "distinct (map ob_id rows)"
  shows "affected (batch_guard (claim_batch skip limit t lease rows)) rows = length (claim_batch skip limit t lease rows)"
proof -
  let ?b = "claim_batch skip limit t lease rows"
  have "set (filter (batch_guard ?b) rows) = set ?b"
    using batch_guard_iff [OF assms] claim_batch_sub by auto
  moreover have "distinct ?b" using distinct_claim_batch [OF assms] by (simp add: distinct_map)
  moreover have "distinct (filter (batch_guard ?b) rows)" using assms by (simp add: distinct_map)
  ultimately show ?thesis unfolding affected_def by (metis distinct_card)
qed

definition claimed_record :: "uuid \<Rightarrow> message_outbox \<Rightarrow> outbox_record" where
  "claimed_record tok row = (outboxRecord row)\<lparr>r_lock_token := tok, r_attempt_count := ob_attempt_count row + 1\<rparr>"

lemma claimed_record_fields [simp]:
  "r_id (claimed_record tok row) = ob_id row" "r_lock_token (claimed_record tok row) = tok"
  "r_chat_id (claimed_record tok row) = ob_chat_id row"
  "r_attempt_count (claimed_record tok row) = ob_attempt_count row + 1"
  by (simp_all add: claimed_record_def outboxRecord_def)

lemma claim_batch_none: "limit \<le> 0 \<Longrightarrow> claim_batch skip limit t lease rows = []"
  by (simp add: claim_batch_def)

lemma Claim_outbox_Inr:
  assumes "Claim_outbox flt skip t tok limit L d = Inr (recs, d')"
  shows "recs = map (claimed_record tok) (claim_batch skip limit t (default_lease L) (outbox d))"
    and "d' = d\<lparr>outbox := update_where (batch_guard (claim_batch skip limit t (default_lease L) (outbox d)))
                (lease_outbox t tok) (outbox d)\<rparr>"
proof -
  let ?b = "claim_batch skip limit t (default_lease L) (outbox d)"
  have nil: "update_where (\<lambda>r. False) f rows = rows" for f and rows :: "message_outbox list"
    by (rule update_where_none) simp
  show "recs = map (claimed_record tok) ?b"
    using assms by (auto simp: Claim_outbox_def claim_batch_none result_simps claimed_record_def Let_def split: if_splits)
  show "d' = d\<lparr>outbox := update_where (batch_guard ?b) (lease_outbox t tok) (outbox d)\<rparr>"
    using assms by (auto simp: Claim_outbox_def claim_batch_none result_simps nil Let_def
        batch_guard_def [abs_def] split: if_splits)
qed

lemma Claim_outbox_total:
  assumes "\<And>c. \<not> flt c" and "distinct (map ob_id (outbox d))"
  shows "\<exists>recs d'. Claim_outbox flt skip t tok limit L d = Inr (recs, d')"
  using assms(1) claim_batch_guard_affected [OF assms(2), of skip limit t "default_lease L"]
  by (auto simp: Claim_outbox_def Let_def ent_all_def batch_guard_def [abs_def])

lemma outbox_earlier_total:
  "ob_id a \<noteq> ob_id b \<Longrightarrow> outbox_earlier a b \<or> outbox_earlier b a"
  by (auto simp: outbox_earlier_def)

lemma claim_batch_chats:
  assumes "distinct (map ob_id rows)"
  shows "distinct (map ob_chat_id (claim_batch skip limit t lease rows))"
proof -
  let ?b = "claim_batch skip limit t lease rows"
  have "inj_on ob_chat_id (set ?b)"
  proof (rule inj_onI, rule ccontr)
    fix x y
    assume x: "x \<in> set ?b" and y: "y \<in> set ?b" and eq: "ob_chat_id x = ob_chat_id y" and ne: "x \<noteq> y"
    with assms have "ob_id x \<noteq> ob_id y" by (metis claim_batch_sub distinct_key_eq)
    then consider "outbox_earlier x y" | "outbox_earlier y x" using outbox_earlier_total by blast
    then show False
      using claim_batch_sub [OF x] claim_batch_sub [OF y] eq by cases (auto simp: outbox_claimable_def)
  qed
  moreover have "distinct ?b" using distinct_claim_batch [OF assms] by (simp add: distinct_map)
  ultimately show ?thesis by (simp add: distinct_map)
qed

text \<open>
  C1. A successful claim returns at most \<open>limit\<close> records, of pairwise distinct chats, and each of
  them is a pending, available row before which no other pending row of its chat was created: events
  of one chat are handed out one at a time and in order.
\<close>

theorem claim_in_chat_order:
  assumes "distinct (map ob_id (outbox d))"
    and "Claim_outbox flt skip t tok limit L d = Inr (recs, d')"
  shows "distinct (map r_chat_id recs) \<and> int (length recs) \<le> max 0 limit \<and>
    (\<forall>rec\<in>set recs. \<exists>row\<in>set (outbox d). r_id rec = ob_id row \<and> r_chat_id rec = ob_chat_id row \<and>
       outbox_pending row \<and> ob_available_at row \<le> t \<and>
       \<not> (\<exists>x\<in>set (outbox d). ob_chat_id x = ob_chat_id row \<and> outbox_pending x \<and> outbox_earlier x row))"
proof -
  let ?b = "claim_batch skip limit t (default_lease L) (outbox d)"
  have recs: "recs = map (claimed_record tok) ?b" by (rule Claim_outbox_Inr(1) [OF assms(2)])
  have "map r_chat_id recs = map ob_chat_id ?b" by (simp add: recs)
  then have 1: "distinct (map r_chat_id recs)" using claim_batch_chats [OF assms(1)] by simp
  have "length ?b \<le> nat limit" by (simp add: claim_batch_def)
  then have 2: "int (length recs) \<le> max 0 limit" by (simp add: recs)
  have 3: "\<exists>row\<in>set (outbox d). r_id rec = ob_id row \<and> r_chat_id rec = ob_chat_id row \<and>
       outbox_pending row \<and> ob_available_at row \<le> t \<and>
       \<not> (\<exists>x\<in>set (outbox d). ob_chat_id x = ob_chat_id row \<and> outbox_pending x \<and> outbox_earlier x row)"
    if "rec \<in> set recs" for rec
  proof -
    from that obtain row where "row \<in> set ?b" "rec = claimed_record tok row" by (auto simp: recs)
    with claim_batch_sub [of row] show ?thesis by (intro bexI [of _ row]) (auto simp: outbox_claimable_def)
  qed
  from 1 2 3 show ?thesis by blast
qed

theorem claim_in_chat_order_witness: "distinct (map r_chat_id sample_records) \<and> length sample_records = 2"
  using claim_in_chat_order [OF sample_ids sample_claim] by (simp add: sample_records_def)

lemma leased_rows:
  assumes "distinct (map ob_id rows)" and "row \<in> set (claim_batch skip limit t lease rows)"
  shows "lease_outbox t tok row \<in> set (update_where (batch_guard (claim_batch skip limit t lease rows)) (lease_outbox t tok) rows)"
  using assms claim_batch_sub [OF assms(2)] batch_guard_iff [OF assms(1), of row]
  unfolding in_update_where by (intro bexI [of _ row]) auto

lemma locked_row_blocks_chat:
  assumes "distinct (map ob_id rows)" and "x \<in> set rows" and "outbox_pending x"
    and "ob_locked_at x = Some l" and "t - lease < l"
    and "\<not> (\<exists>z\<in>set rows. ob_chat_id z = ob_chat_id x \<and> outbox_pending z \<and> outbox_earlier z x)"
    and "y \<in> set (claim_batch skip limit t lease rows)"
  shows "ob_chat_id y \<noteq> ob_chat_id x"
proof
  assume eq: "ob_chat_id y = ob_chat_id x"
  have y: "y \<in> set rows" "outbox_claimable t lease rows y" using claim_batch_sub [OF assms(7)] by auto
  show False
  proof (cases "ob_id y = ob_id x")
    case True
    then have "y = x" using distinct_key_eq [OF assms(1)] y(1) assms(2) by blast
    with y(2) assms(4,5) show False by (simp add: outbox_claimable_def)
  next
    case False
    then consider "outbox_earlier y x" | "outbox_earlier x y" using outbox_earlier_total by blast
    then show False
    proof cases
      case 1
      with y eq assms(6) show False by (auto simp: outbox_claimable_def)
    next
      case 2
      with y assms(2,3) eq show False by (auto simp: outbox_claimable_def)
    qed
  qed
qed

text \<open>
  C2. While the lease of a batch has not expired, a further claim by any worker returns no record of
  a chat the batch covers: per chat there is a single worker in flight.
\<close>

theorem claim_exclusive:
  assumes "distinct (map ob_id (outbox d))"
    and "Claim_outbox flt skip t tok limit L d = Inr (recs, d1)"
    and "Claim_outbox flt' skip' t' tok' limit' L' d1 = Inr (recs', d2)"
    and "t' < t + default_lease L'"
  shows "set (map r_chat_id recs) \<inter> set (map r_chat_id recs') = {}"
proof -
  let ?b = "claim_batch skip limit t (default_lease L) (outbox d)"
  let ?b' = "claim_batch skip' limit' t' (default_lease L') (outbox d1)"
  note 1 = Claim_outbox_Inr [OF assms(2)] and 2 = Claim_outbox_Inr(1) [OF assms(3)]
  have d1: "outbox d1 = update_where (batch_guard ?b) (lease_outbox t tok) (outbox d)" using 1(2) by simp
  have dist: "distinct (map ob_id (outbox d1))"
    using assms(1) unfolding d1 by (subst update_where_key) simp_all
  have "ob_chat_id y \<noteq> ob_chat_id x" if x: "x \<in> set ?b" and y: "y \<in> set ?b'" for x y
  proof -
    let ?x = "lease_outbox t tok x"
    have cl: "outbox_claimable t (default_lease L) (outbox d) x" using claim_batch_sub [OF x] by simp
    have "\<not> (ob_chat_id z = ob_chat_id ?x \<and> outbox_pending z \<and> outbox_earlier z ?x)" if "z \<in> set (outbox d1)" for z
    proof -
      from that obtain z0 where "z0 \<in> set (outbox d)" "z = z0 \<or> z = lease_outbox t tok z0"
        unfolding d1 in_update_where by (auto split: if_splits)
      with cl show ?thesis by (auto simp: outbox_claimable_def outbox_pending_def outbox_earlier_def)
    qed
    moreover have "?x \<in> set (outbox d1)" unfolding d1 by (rule leased_rows [OF assms(1) x])
    moreover have "outbox_pending ?x" using cl by (simp add: outbox_claimable_def outbox_pending_def)
    ultimately have "ob_chat_id y \<noteq> ob_chat_id ?x"
      using assms(4) y by (intro locked_row_blocks_chat [OF dist, of _ t]) auto
    then show ?thesis by simp
  qed
  then show ?thesis unfolding 1(1) 2 by auto metis
qed

lemma sample_second_claim: "Claim_outbox no_fault no_skip 300 98 5 0 sample_leased = Inr ([], sample_leased)"
  by code_simp

theorem claim_exclusive_witness: "set (map r_chat_id sample_records) \<inter> set (map r_chat_id ([] :: outbox_record list)) = {}"
  by (rule claim_exclusive [OF sample_ids sample_claim sample_second_claim]) (simp add: default_lease_def)

definition outbox_first :: "message_outbox list \<Rightarrow> message_outbox \<Rightarrow> bool" where
  "outbox_first rows r \<longleftrightarrow> r \<in> set rows \<and> outbox_pending r \<and> (\<forall>x\<in>set rows. outbox_pending x \<longrightarrow> \<not> outbox_earlier x r)"

lemma outbox_first_exists:
  assumes "r \<in> set rows" and "outbox_pending r"
  shows "\<exists>m. outbox_first rows m"
proof -
  let ?S = "{x \<in> set rows. outbox_pending x}"
  let ?T = "{x \<in> ?S. ob_created_at x = Min (ob_created_at ` ?S)}"
  have S: "finite ?S" "?S \<noteq> {}" using assms by auto
  then obtain a where "a \<in> ?S" "ob_created_at a = Min (ob_created_at ` ?S)"
    using Min_in [of "ob_created_at ` ?S"] by fastforce
  then have T: "finite ?T" "?T \<noteq> {}" by auto
  then obtain m where m: "m \<in> ?T" "ob_id m = Min (ob_id ` ?T)"
    using Min_in [of "ob_id ` ?T"] by fastforce
  have "\<not> outbox_earlier x m" if x: "x \<in> ?S" for x
  proof
    assume e: "outbox_earlier x m"
    have "ob_created_at m \<le> ob_created_at x" using m(1) x S(1) by simp
    with e have "ob_created_at x = ob_created_at m" "ob_id x < ob_id m" by (auto simp: outbox_earlier_def)
    with x m(1) have "x \<in> ?T" by simp
    then have "ob_id m \<le> ob_id x" using m(2) T(1) by simp
    with \<open>ob_id x < ob_id m\<close> show False by simp
  qed
  with m(1) show ?thesis by (auto simp: outbox_first_def)
qed

text \<open>Claims make progress: if some row is pending, and every pending row is available and neither
  leased nor held by another transaction, a claim of a positive limit returns at least one record.
\<close>

theorem claim_progress:
  assumes "\<And>c. \<not> flt c" and "distinct (map ob_id (outbox d))" and "limit > 0"
    and "\<exists>r\<in>set (outbox d). outbox_pending r"
    and "\<forall>r\<in>set (outbox d). outbox_pending r \<longrightarrow> ob_available_at r \<le> t \<and> ob_locked_at r = None \<and> \<not> skip (ob_id r)"
  shows "\<exists>recs d'. Claim_outbox flt skip t tok limit L d = Inr (recs, d') \<and> recs \<noteq> []"
proof -
  obtain recs d' where c: "Claim_outbox flt skip t tok limit L d = Inr (recs, d')"
    using Claim_outbox_total [of flt d] assms(1,2) by blast
  obtain m where m: "outbox_first (outbox d) m" using assms(4) outbox_first_exists by blast
  let ?f = "filter (\<lambda>r. outbox_claimable t (default_lease L) (outbox d) r \<and> \<not> skip (ob_id r)) (outbox d)"
  have "m \<in> set ?f" using m assms(5) by (auto simp: outbox_first_def outbox_claimable_def)
  then have "sort_key ob_created_at ?f \<noteq> []" by (metis empty_iff list.set(1) set_sort)
  then have "claim_batch skip limit t (default_lease L) (outbox d) \<noteq> []"
    using assms(3) by (simp add: claim_batch_def)
  with Claim_outbox_Inr(1) [OF c] c show ?thesis by simp
qed

theorem claim_progress_witness: "\<exists>recs d'. Claim_outbox no_fault no_skip 200 99 5 0 sample_db = Inr (recs, d') \<and> recs \<noteq> []"
  by (rule claim_progress [OF _ sample_ids])
    (auto simp: sample_db_def sample_outbox_def outbox_pending_def no_skip_def)

section \<open>Ownership\<close>

lemma mark_Inr:
  "mark what s broken d i tok = Inr d' \<longleftrightarrow> \<not> broken \<and> (\<exists>rows. settle_outbox s i tok (outbox d) = Some rows \<and> d' = d\<lparr>outbox := rows\<rparr>)"
  by (auto simp: mark_def split: option.splits)

lemma mark_lost: "settle_outbox s i tok (outbox d) = None \<Longrightarrow> mark what s False d i tok = Inl (OutboxLeaseLost what)"
  by (simp add: mark_def)





text \<open>A record is settled once: after a successful \<open>Mark\<close> operation every further one fails, under any token.\<close>

theorem settled_once:
  assumes "distinct (map ob_id (outbox d))" and "mark what s broken d i tok = Inr d'"
  shows "mark what' s' False d' i tok' = Inl (OutboxLeaseLost what')"
proof -
  from assms(2) obtain rows where st: "settle_outbox s i tok (outbox d) = Some rows" and d': "d' = d\<lparr>outbox := rows\<rparr>"
    by (auto simp: mark_Inr)
  have "settle_outbox s' i tok' (outbox d') = None"
    using outbox_rows.settle_once [OF assms(1) st] d' by simp
  then show ?thesis by (rule mark_lost)
qed

lemma sample_mark: "mark ''mark published'' (SetPublished 250) False sample_leased 30 99 =
  Inr (sample_leased\<lparr>outbox := update_where (owned 30 99) (settle_row (SetPublished 250)) (outbox sample_leased)\<rparr>)"
  by code_simp

theorem settled_once_witness:
  "mark ''mark failed'' (SetFailed ''late'' 260) False
     (sample_leased\<lparr>outbox := update_where (owned 30 99) (settle_row (SetPublished 250)) (outbox sample_leased)\<rparr>) 30 99 =
   Inl (OutboxLeaseLost ''mark failed'')"
  by (rule settled_once [OF _ sample_mark]) code_simp

section \<open>Projection\<close>

lemma projectUnread_frame:
  assumes "projectUnread flt d rec t = Inr d'"
  shows "outbox d' = outbox d" and "messages d' = messages d" and "chats d' = chats d"
    and "push_deliveries d' = push_deliveries d"
  using assms by (auto simp: projectUnread_def result_simps Let_def split: sum.splits ent_error.splits if_splits)

lemma Enqueue_frame:
  assumes "Enqueue flt cf ids t d msg ev = Inr d'"
  shows "\<exists>table. d' = d\<lparr>push_deliveries := table\<rparr>"
proof (cases "\<exists>s. m_sender_id msg = Some s \<and> m_deleted_at msg = None \<and> m_type msg = TypeRegular")
  case True
  then obtain s where "m_sender_id msg = Some s" "m_deleted_at msg = None" "m_type msg = TypeRegular" by blast
  from assms [unfolded Enqueue_eq [OF this]] have "d' = d \<or> (\<exists>table. d' = d\<lparr>push_deliveries := table\<rparr>)"
    by (auto simp: and_then_Inr split: if_splits)
  then show ?thesis by (auto intro: exI [of _ "push_deliveries d"])
next
  case False
  with assms have "d' = d" by (simp add: Enqueue_trivial)
  then show ?thesis by (auto intro: exI [of _ "push_deliveries d"])
qed

lemma project_new_InrE:
  assumes "project_new push e cf d rec = Inr d'"
  obtains msg d1 where "filter (\<lambda>m. m_id m = r_message_id rec) (messages d) = [msg]"
    and "projectUnread (fault e) (d\<lparr>chats := project_chat (r_chat_id rec) msg (chats d)\<rparr>) rec (m_created_at msg) = Inr d1"
    and "\<exists>table. d' = d1\<lparr>push_deliveries := table\<rparr>"
proof -
  from assms obtain msg d1 where msg: "filter (\<lambda>m. m_id m = r_message_id rec) (messages d) = [msg]"
    and un: "projectUnread (fault e) (d\<lparr>chats := project_chat (r_chat_id rec) msg (chats d)\<rparr>) rec (m_created_at msg) = Inr d1"
    and d': "(if push then on_err (Enqueue (fault e) cf (newid e) (now e) d1 msg (r_id rec)) (QueryError ''enqueue push'')
              else Inr d1) = Inr d'"
    unfolding project_new_def by (auto simp only: result_simps)
  have "\<exists>table. d' = d1\<lparr>push_deliveries := table\<rparr>"
  proof (cases push)
    case True
    with d' have "Enqueue (fault e) cf (newid e) (now e) d1 msg (r_id rec) = Inr d'" by (simp add: on_err_Inr)
    then show ?thesis by (rule Enqueue_frame)
  next
    case False
    with d' show ?thesis by (auto intro: exI [of _ "push_deliveries d1"])
  qed
  with msg un that show thesis by blast
qed

lemma project_new_outbox:
  assumes "project_new push e cf d rec = Inr d'"
  shows "outbox d' = outbox d"
proof -
  obtain msg d1 where "projectUnread (fault e) (d\<lparr>chats := project_chat (r_chat_id rec) msg (chats d)\<rparr>) rec (m_created_at msg) = Inr d1"
    and "\<exists>table. d' = d1\<lparr>push_deliveries := table\<rparr>"
    using assms by (rule project_new_InrE)
  then show ?thesis by (auto dest: projectUnread_frame(1))
qed

definition projected_row :: "time \<Rightarrow> message_outbox \<Rightarrow> message_outbox" where
  "projected_row t r = r\<lparr>ob_projected_at := Some t\<rparr>"

lemma projected_row_fields [simp]:
  "ob_id (projected_row t r) = ob_id r" "ob_lock_token (projected_row t r) = ob_lock_token r"
  "ob_locked_at (projected_row t r) = ob_locked_at r"
  "ob_published_at (projected_row t r) = ob_published_at r"
  "ob_dead_lettered_at (projected_row t r) = ob_dead_lettered_at r"
  "ob_projected_at (projected_row t r) = Some t" "owned i tok (projected_row t r) = owned i tok r"
  by (simp_all add: projected_row_def owned_def)

lemma owned_single: "filter (owned i tok) rows = [row] \<Longrightarrow> row \<in> set rows \<and> owned i tok row"
  by (auto simp: Cons_eq_filter_iff eq_commute [of _ "[row]"])

lemma ProjectFrom_InrE:
  assumes "ProjectFrom push e cf d0 d rec = Inr d'"
  obtains (projected) row where "filter (owned (r_id rec) (r_lock_token rec)) (outbox d0) = [row]" "ob_projected_at row \<noteq> None" "d' = d"
  | (effect) row d1 where "filter (owned (r_id rec) (r_lock_token rec)) (outbox d0) = [row]" "ob_projected_at row = None"
      "(if r_event_type rec = EventMessageNew then project_new push e cf d rec else Inr d) = Inr d1"
      "outbox d1 = outbox d"
      "d' = d1\<lparr>outbox := update_where (\<lambda>r. ob_id r = r_id rec) (projected_row (now e)) (outbox d)\<rparr>"
proof -
  from assms obtain row where row: "filter (owned (r_id rec) (r_lock_token rec)) (outbox d0) = [row]"
    and rest: "(if ob_projected_at row \<noteq> None then Inr d else project_effect push e cf d rec row) = Inr d'"
    unfolding ProjectFrom_def by (auto simp only: result_simps)
  have id: "ob_id row = r_id rec" using owned_single [OF row] by (simp add: owned_def)
  show thesis
  proof (cases "ob_projected_at row = None")
    case False
    with rest have "d' = d" by simp
    with row False projected show thesis by blast
  next
    case True
    with rest have "project_effect push e cf d rec row = Inr d'" by simp
    then obtain d1 where d1: "(if r_event_type rec = EventMessageNew then project_new push e cf d rec else Inr d) = Inr d1"
      and d': "d' = d1\<lparr>outbox := update_where (\<lambda>r. ob_id r = ob_id row) (\<lambda>r. r\<lparr>ob_projected_at := Some (now e)\<rparr>) (outbox d1)\<rparr>"
      unfolding project_effect_def by (auto simp only: result_simps sum.inject simp_thms)
    have "outbox d1 = outbox d" using d1 project_new_outbox by (auto split: if_splits)
    then show thesis using effect [OF row True d1] d' id by (simp add: projected_row_def [abs_def])
  qed
qed

lemma Project_InrE:
  assumes "Project push e cf d rec = Inr d'"
  obtains (projected) row where "filter (owned (r_id rec) (r_lock_token rec)) (outbox d) = [row]" "ob_projected_at row \<noteq> None" "d' = d"
  | (effect) row d1 where "filter (owned (r_id rec) (r_lock_token rec)) (outbox d) = [row]" "ob_projected_at row = None"
      "(if r_event_type rec = EventMessageNew then project_new push e cf d rec else Inr d) = Inr d1"
      "outbox d1 = outbox d"
      "d' = d1\<lparr>outbox := update_where (\<lambda>r. ob_id r = r_id rec) (projected_row (now e)) (outbox d)\<rparr>"
  using assms unfolding Project_def by (rule ProjectFrom_InrE)

text \<open>A record is projected once: after a successful \<open>Project\<close>, a further \<open>Project\<close> under the same
  lease (a retry, with other clock readings, identifiers and faults) returns without changing the
  database, so unread counters, chat metadata and push deliveries are touched a single time.
\<close>

theorem project_once:
  assumes "Project push e cf d rec = Inr d'"
    and "\<not> fault e' ''project.begin''" and "\<not> fault e' ''project.outbox''"
    and "r_id rec' = r_id rec" and "r_lock_token rec' = r_lock_token rec"
  shows "Project push' e' cf' d' rec' = Inr d'"
proof -
  have "\<exists>row. filter (owned (r_id rec) (r_lock_token rec)) (outbox d') = [row] \<and> ob_projected_at row \<noteq> None"
    using assms(1)
  proof (cases rule: Project_InrE)
    case (projected row)
    then show ?thesis by simp
  next
    case (effect row d1)
    have "ob_id row = r_id rec" using owned_single [OF effect(1)] by (simp add: owned_def)
    moreover have "filter (owned (r_id rec) (r_lock_token rec)) (outbox d') =
        update_where (\<lambda>r. ob_id r = r_id rec) (projected_row (now e)) [row]"
      using effect(1,5) by (simp add: filter_update_where)
    ultimately show ?thesis by (simp add: update_where_simps)
  qed
  then show ?thesis using assms(2-5) by (auto simp: Project_def ProjectFrom_def ent_only_def)
qed

lemma sample_project: "\<exists>d'. Project False (sample_env 210 500) (\<lambda>_. False) sample_leased (hd sample_records) = Inr d'"
proof -
  have "isl (Project False (sample_env 210 500) (\<lambda>_. False) sample_leased (hd sample_records)) = False" by code_simp
  then show ?thesis by (cases "Project False (sample_env 210 500) (\<lambda>_. False) sample_leased (hd sample_records)") simp_all
qed

theorem project_once_witness:
  "\<exists>d'. Project False (sample_env 210 500) (\<lambda>_. False) sample_leased (hd sample_records) = Inr d' \<and>
     Project True (sample_env 220 600) (\<lambda>_. False) d' (hd sample_records) = Inr d'"
  using sample_project project_once [of False "sample_env 210 500" _ sample_leased "hd sample_records" _
      "sample_env 220 600" "hd sample_records" True] by auto

section \<open>Runs of the store\<close>

definition outbox_finished :: "message_outbox \<Rightarrow> bool" where
  "outbox_finished r \<longleftrightarrow> \<not> outbox_pending r"

text \<open>Identifiers are unique, a row has a token exactly while it is locked, and only pending rows are locked.\<close>

definition outbox_wf :: "db \<Rightarrow> bool" where
  "outbox_wf d \<longleftrightarrow> distinct (map ob_id (outbox d)) \<and>
     (\<forall>r\<in>set (outbox d). (ob_lock_token r = None \<longleftrightarrow> ob_locked_at r = None) \<and>
        (ob_lock_token r \<noteq> None \<longrightarrow> outbox_pending r))"

inductive outbox_step :: "db \<Rightarrow> db \<Rightarrow> bool" where
  persist: "newid e k \<notin> set (map ob_id (outbox d)) \<Longrightarrow> PersistMessageOutbox e k d msg ty sender = Inr d' \<Longrightarrow> outbox_step d d'"
| claim: "Claim_outbox flt skip t tok limit L d = Inr (recs, d') \<Longrightarrow> outbox_step d d'"
| project: "ProjectFrom push e cf d0 d rec = Inr d' \<Longrightarrow> outbox_step d d'"
| settle: "mark what s broken d i tok = Inr d' \<Longrightarrow> outbox_step d d'"

text \<open>What may become of a row: while it is pending, an update that keeps its identity; and at any time an instant of projection,
  which a worker that was overtaken while it projected still writes.\<close>

definition row_evolves :: "message_outbox \<Rightarrow> message_outbox \<Rightarrow> bool" where
  "row_evolves r r' \<longleftrightarrow> ob_id r' = ob_id r \<and> ob_attempt_count r \<le> ob_attempt_count r' \<and> (ob_projected_at r \<noteq> None \<longrightarrow> ob_projected_at r' \<noteq> None) \<and>
     (outbox_pending r \<or> r'\<lparr>ob_projected_at := ob_projected_at r\<rparr> = r)"

lemma row_evolves_refl: "row_evolves r r"
  by (simp add: row_evolves_def)

lemma projected_at_pending [simp]: "outbox_pending (r\<lparr>ob_projected_at := x\<rparr>) = outbox_pending r"
  by (simp add: outbox_pending_def)

lemma row_evolves_trans:
  assumes "row_evolves a b" and "row_evolves b c"
  shows "row_evolves a c"
proof (cases "outbox_pending a")
  case False
  then have b: "b\<lparr>ob_projected_at := ob_projected_at a\<rparr> = a" using assms(1) by (simp add: row_evolves_def)
  then have "\<not> outbox_pending b" using False by (metis projected_at_pending)
  then have "c\<lparr>ob_projected_at := ob_projected_at b\<rparr> = b" using assms(2) by (simp add: row_evolves_def)
  moreover have "c\<lparr>ob_projected_at := ob_projected_at a\<rparr> = (c\<lparr>ob_projected_at := ob_projected_at b\<rparr>)\<lparr>ob_projected_at := ob_projected_at a\<rparr>" by simp
  ultimately have "c\<lparr>ob_projected_at := ob_projected_at a\<rparr> = b\<lparr>ob_projected_at := ob_projected_at a\<rparr>" by (simp only:)
  with b assms show ?thesis by (simp add: row_evolves_def)
qed (use assms in \<open>simp add: row_evolves_def\<close>)

lemma update_where_evolves:
  assumes "\<And>r. r \<in> set rows \<Longrightarrow> P r \<Longrightarrow> row_evolves r (f r)" and "r \<in> set rows"
  shows "\<exists>r'\<in>set (update_where P f rows). row_evolves r r'"
proof (cases "P r")
  case True
  then have "f r \<in> set (update_where P f rows)" using assms(2) unfolding in_update_where by (intro bexI [of _ r]) simp_all
  with True assms show ?thesis by blast
next
  case False
  then have "r \<in> set (update_where P f rows)" using assms(2) unfolding in_update_where by (intro bexI [of _ r]) simp_all
  then show ?thesis by (auto simp: row_evolves_def)
qed

definition row_ok :: "message_outbox \<Rightarrow> bool" where
  "row_ok r \<longleftrightarrow> (ob_lock_token r = None \<longleftrightarrow> ob_locked_at r = None) \<and> (ob_lock_token r \<noteq> None \<longrightarrow> outbox_pending r)"

lemma outbox_wf_alt: "outbox_wf d \<longleftrightarrow> distinct (map ob_id (outbox d)) \<and> (\<forall>r\<in>set (outbox d). row_ok r)"
  by (simp add: outbox_wf_def row_ok_def)

lemma update_where_all:
  assumes "\<forall>r\<in>set rows. Q r" and "\<And>r. r \<in> set rows \<Longrightarrow> P r \<Longrightarrow> Q r \<Longrightarrow> Q (f r)"
  shows "\<forall>r\<in>set (update_where P f rows). Q r"
  using assms unfolding update_where_def by auto

lemma row_rules:
  "outbox_pending r \<Longrightarrow> row_ok (lease_outbox t tok r)"
  "row_ok (settle_row s r)"
  "row_ok r \<Longrightarrow> row_ok (projected_row t r)"
  "outbox_pending r \<Longrightarrow> row_evolves r (lease_outbox t tok r)"
  "outbox_pending r \<Longrightarrow> row_evolves r (settle_row s r)"
  "row_evolves r (projected_row t r)"
  by (auto simp: row_ok_def row_evolves_def outbox_pending_def) (simp_all add: lease_outbox_def projected_row_def)

lemma token_pending: "row_ok r \<Longrightarrow> ob_lock_token r = Some tok \<Longrightarrow> outbox_pending r"
  by (simp add: row_ok_def)

lemma outbox_step_update:
  assumes "outbox_step d d'" and wf: "outbox_wf d"
  obtains (append) row where "outbox d' = outbox d @ [row]" "ob_id row \<notin> set (map ob_id (outbox d))" "row_ok row"
  | (update) P f where "outbox d' = update_where P f (outbox d)" "\<And>r. ob_id (f r) = ob_id r"
      "\<And>r. r \<in> set (outbox d) \<Longrightarrow> P r \<Longrightarrow> row_ok r \<Longrightarrow> row_ok (f r)"
      "\<And>r. r \<in> set (outbox d) \<Longrightarrow> P r \<Longrightarrow> row_evolves r (f r)"
  using assms(1)
proof (cases rule: outbox_step.cases)
  case (persist e k msg ty sender)
  then show thesis by (intro append) (auto simp: PersistMessageOutbox_Inr new_outbox_def row_ok_def)
next
  case (claim flt skip t tok limit L recs)
  let ?b = "claim_batch skip limit t (default_lease L) (outbox d)"
  have "outbox_pending r" if "r \<in> set (outbox d)" "batch_guard ?b r" for r
    using that wf batch_guard_iff [of "outbox d" r] claim_batch_sub [of r]
    by (auto simp: outbox_wf_def outbox_claimable_def)
  then show thesis
    using Claim_outbox_Inr(2) [OF claim] by (intro update [of "batch_guard ?b" "lease_outbox t tok"]) (auto intro: row_rules)
next
  case (settle what s broken i tok)
  then obtain rows where "settle_outbox s i tok (outbox d) = Some rows" "d' = d\<lparr>outbox := rows\<rparr>"
    by (auto simp: mark_Inr)
  then have "outbox d' = update_where (settle_guard s i tok) (settle_row s) (outbox d)"
    by (simp add: settle_outbox_def settle_where_Some)
  moreover have "outbox_pending r" if "r \<in> set (outbox d)" "settle_guard s i tok r" for r
    using that wf settle_guardD [OF that(2)] by (auto simp: outbox_wf_alt intro: token_pending)
  ultimately show thesis by (intro update [of "settle_guard s i tok" "settle_row s"]) (auto intro: row_rules)
next
  case (project push e cf d0 rec)
  from project show thesis
  proof (cases rule: ProjectFrom_InrE)
    case (projected row)
    then show thesis by (intro update [of "\<lambda>_. False" id]) (auto simp: update_where_none)
  next
    case (effect row d1)
    then show thesis by (intro update [of "\<lambda>r. ob_id r = r_id rec" "projected_row (now e)"]) (auto intro: row_rules)
  qed
qed

lemma outbox_step_wf: "outbox_step d d' \<Longrightarrow> outbox_wf d \<Longrightarrow> outbox_wf d'"
proof (erule (1) outbox_step_update)
  fix row
  assume "outbox_wf d" "outbox d' = outbox d @ [row]" "ob_id row \<notin> set (map ob_id (outbox d))" "row_ok row"
  then show "outbox_wf d'" by (auto simp: outbox_wf_alt)
next
  fix P f
  assume "outbox_wf d" and d': "outbox d' = update_where P f (outbox d)" and "\<And>r. ob_id (f r) = ob_id r"
    and "\<And>r. r \<in> set (outbox d) \<Longrightarrow> P r \<Longrightarrow> row_ok r \<Longrightarrow> row_ok (f r)"
  then show "outbox_wf d'"
    unfolding outbox_wf_alt d' by (intro conjI update_where_all) (simp_all add: update_where_key)
qed

lemma outbox_step_evolves:
  "outbox_step d d' \<Longrightarrow> outbox_wf d \<Longrightarrow> r \<in> set (outbox d) \<Longrightarrow> \<exists>r'\<in>set (outbox d'). row_evolves r r'"
  by (erule (1) outbox_step_update) (auto intro: update_where_evolves bexI [of _ r] simp: row_evolves_refl)

lemma outbox_run:
  assumes "outbox_step\<^sup>*\<^sup>* d d'" and "outbox_wf d"
  shows "outbox_wf d' \<and> (\<forall>r\<in>set (outbox d). \<exists>r'\<in>set (outbox d'). row_evolves r r')"
  using assms
proof (induction rule: rtranclp_induct)
  case base
  then show ?case by (auto simp: row_evolves_def)
next
  case (step d1 d2)
  then show ?case by (metis outbox_step_evolves outbox_step_wf row_evolves_trans)
qed

text \<open>
  C37. Along every run of the store's operations by any number of workers, in which a worker may be overtaken between reading the row it
  projects and writing it, the table stays well formed, no row is lost, attempt counts never decrease, a projected row stays projected, and of a
  published or dead-lettered row nothing changes any more but the instant of its projection.
\<close>

theorem outbox_run_stable:
  assumes "outbox_step\<^sup>*\<^sup>* d d'" and "outbox_wf d"
  shows "outbox_wf d' \<and> (\<forall>r\<in>set (outbox d). \<exists>r'\<in>set (outbox d'). ob_id r' = ob_id r \<and> ob_attempt_count r \<le> ob_attempt_count r' \<and>
    (ob_projected_at r \<noteq> None \<longrightarrow> ob_projected_at r' \<noteq> None) \<and>
    (ob_published_at r \<noteq> None \<or> ob_dead_lettered_at r \<noteq> None \<longrightarrow> r'\<lparr>ob_projected_at := ob_projected_at r\<rparr> = r))"
proof -
  have "outbox_pending r \<Longrightarrow> ob_published_at r = None \<and> ob_dead_lettered_at r = None" for r by (simp add: outbox_pending_def)
  then show ?thesis using outbox_run [OF assms] unfolding row_evolves_def by blast
qed

theorem outbox_run_stable_witness: "outbox_wf sample_leased"
  using outbox_run_stable [of sample_db sample_leased] outbox_step.claim [OF sample_claim]
  by (auto simp: outbox_wf_def outbox_pending_def sample_db_def sample_outbox_def)

end
