(* ===== verification/Projection_Laws.thy ===== *)
theory Projection_Laws
  imports Outbox_Laws
begin

text \<open>
  The effect of projecting a message and the events built for it. The unread state of a user in a
  chat is abstracted to the triple (unread count, last read, hidden since); \<open>deliver\<close> is the
  specification of what a new message does to it, for private and group chats alike.
\<close>

section \<open>Specification of unread state\<close>

type_synonym unread_state = "int \<times> time option \<times> time option"

definition deliver :: "bool \<Rightarrow> time \<Rightarrow> unread_state \<Rightarrow> unread_state" where
  "deliver is_sender t s = (case s of (unread, readAt, hiddenAt) \<Rightarrow>
     if sql_ge readAt t then s
     else if is_sender then (0, Some t, hiddenAt)
     else if sql_ge hiddenAt t then s
     else (unread + 1, readAt, hiddenAt))"

definition private_view :: "private_chat \<Rightarrow> uuid \<Rightarrow> unread_state option" where
  "private_view p u =
     (if pc_user1_id p = Some u then Some (pc_user1_unread_count p, pc_user1_last_read_at p, pc_user1_hidden_at p)
      else if pc_user2_id p = Some u then Some (pc_user2_unread_count p, pc_user2_last_read_at p, pc_user2_hidden_at p)
      else None)"

definition member_view :: "group_member \<Rightarrow> unread_state" where
  "member_view m = (gm_unread_count m, gm_last_read_at m, None)"

lemma project_user1_view:
  assumes "pc_user1_id p = Some s" and "pc_user2_id p \<noteq> Some s"
  shows "private_view (project_user1 t p) u = map_option (deliver (u = s) t) (private_view p u)"
  using assms by (auto simp: private_view_def project_user1_def deliver_def senderUnreadAfterProjection_def
      readAtAfterProjection_def unreadCountAfterProjection_def)

lemma project_user2_view:
  assumes "pc_user2_id p = Some s" and "pc_user1_id p \<noteq> Some s"
  shows "private_view (project_user2 t p) u = map_option (deliver (u = s) t) (private_view p u)"
  using assms by (auto simp: private_view_def project_user2_def deliver_def senderUnreadAfterProjection_def
      readAtAfterProjection_def unreadCountAfterProjection_def)

lemma project_member_view: "member_view (project_member s t m) = deliver (gm_user_id m = s) t (member_view m)"
  by (auto simp: member_view_def project_member_def deliver_def senderUnreadAfterProjection_def
      readAtAfterProjection_def unreadCountAfterProjection_def sql_ge_def)

lemma project_user_fields [simp]:
  "pc_id (project_user1 t p) = pc_id p" "pc_id (project_user2 t p) = pc_id p"
  "gm_id (project_member s t m) = gm_id m"
  by (simp_all add: project_user1_def project_user2_def project_member_def)

lemma projectUnread_private:
  assumes "filter (\<lambda>p. pc_chat_id p = r_chat_id rec) (private_chats d) = [p]"
    and "projectUnread flt d rec t = Inr d'"
  shows "\<exists>f. d' = d\<lparr>private_chats := update_where (\<lambda>q. pc_id q = pc_id p) f (private_chats d)\<rparr> \<and>
    (pc_user1_id p = Some (r_sender_id rec) \<and> f = project_user1 t \<or>
     pc_user1_id p \<noteq> Some (r_sender_id rec) \<and> pc_user2_id p = Some (r_sender_id rec) \<and> f = project_user2 t)"
  using assms by (auto simp: projectUnread_def ent_only_def Let_def split: if_splits)

lemma projectUnread_group:
  assumes "filter (\<lambda>p. pc_chat_id p = r_chat_id rec) (private_chats d) = []"
    and "projectUnread flt d rec t = Inr d'"
  shows "\<exists>g. filter (\<lambda>g. gc_chat_id g = r_chat_id rec) (group_chats d) = [g] \<and>
    d' = d\<lparr>group_members := update_where (\<lambda>m. gm_group_chat_id m = gc_id g \<and> gm_joined_at m \<le> t)
            (project_member (r_sender_id rec) t) (group_members d)\<rparr>"
  using assms by (auto simp: projectUnread_def ent_only_def [of _ "[]"] result_simps split: if_splits)

text \<open>In a private chat a projected message resets the sender's unread count and advances the
  sender's read mark, and adds one to the other side's count unless that side has read past the
  message or has hidden the chat since; a side that already read past the message keeps its state. No
  other private chat is touched.
\<close>

theorem project_private_unread:
  assumes "filter (\<lambda>p. pc_chat_id p = r_chat_id rec) (private_chats d) = [p]"
    and "distinct (map pc_id (private_chats d))" and "pc_user1_id p \<noteq> pc_user2_id p"
    and "projectUnread flt d rec t = Inr d'"
  shows "(\<exists>p'\<in>set (private_chats d'). pc_id p' = pc_id p \<and>
            (\<forall>u. private_view p' u = map_option (deliver (u = r_sender_id rec) t) (private_view p u))) \<and>
    (\<forall>q. pc_id q \<noteq> pc_id p \<longrightarrow> q \<in> set (private_chats d') \<longleftrightarrow> q \<in> set (private_chats d))"
proof -
  obtain f where d': "d' = d\<lparr>private_chats := update_where (\<lambda>q. pc_id q = pc_id p) f (private_chats d)\<rparr>"
    and f: "pc_user1_id p = Some (r_sender_id rec) \<and> f = project_user1 t \<or>
     pc_user1_id p \<noteq> Some (r_sender_id rec) \<and> pc_user2_id p = Some (r_sender_id rec) \<and> f = project_user2 t"
    using projectUnread_private [OF assms(1,4)] by blast
  have id: "pc_id (f q) = pc_id q" for q using f by auto
  have "p \<in> set (private_chats d)" using assms(1) by (auto simp: Cons_eq_filter_iff eq_commute [of _ "[p]"])
  then have "f p \<in> set (private_chats d')" by (force simp: d' in_update_where)
  moreover have "private_view (f p) u = map_option (deliver (u = r_sender_id rec) t) (private_view p u)" for u
    using f assms(3) by (auto simp: project_user1_view project_user2_view)
  moreover have "q \<in> set (private_chats d') \<longleftrightarrow> q \<in> set (private_chats d)" if "pc_id q \<noteq> pc_id p" for q
    using that id by (simp add: d' update_where_miss [where k = pc_id and K = "{pc_id p}"])
  ultimately show ?thesis using id by blast
qed

lemma sample_projectUnread: "projectUnread no_fault sample_db (hd sample_records) 100 =
  Inr (sample_db\<lparr>private_chats := [project_user1 100 (sample_private 5 10 1 2)]\<rparr>)"
  by code_simp

theorem project_private_unread_witness:
  "\<exists>p'\<in>set [project_user1 100 (sample_private 5 10 1 2)]. private_view p' 2 = Some (5, None, None) \<and>
     private_view p' 1 = Some (0, Some 100, None)"
  using project_private_unread [OF _ _ _ sample_projectUnread, of "sample_private 5 10 1 2"]
  by (simp add: sample_db_def sample_defs sample_records_def outboxRecord_def private_view_def deliver_def sql_ge_def)

text \<open>In a group chat a projected message changes exactly the members of that group who had joined
  when it was sent, each as the specification says for the sender and for the others.
\<close>

theorem project_group_unread:
  assumes "filter (\<lambda>p. pc_chat_id p = r_chat_id rec) (private_chats d) = []"
    and "filter (\<lambda>g. gc_chat_id g = r_chat_id rec) (group_chats d) = [g]"
    and "projectUnread flt d rec t = Inr d'"
  shows "map gm_id (group_members d') = map gm_id (group_members d) \<and>
    map member_view (group_members d') = map (\<lambda>m. if gm_group_chat_id m = gc_id g \<and> gm_joined_at m \<le> t
       then deliver (gm_user_id m = r_sender_id rec) t (member_view m) else member_view m) (group_members d)"
proof -
  have d': "group_members d' = update_where (\<lambda>m. gm_group_chat_id m = gc_id g \<and> gm_joined_at m \<le> t)
            (project_member (r_sender_id rec) t) (group_members d)"
    using projectUnread_group [OF assms(1,3)] assms(2) by auto
  show ?thesis
    unfolding d' by (simp add: update_where_key) (simp add: update_where_def project_member_view)
qed

lemma sample_project_group: "projectUnread no_fault sample_db (sample_records ! 1) 101 =
  Inr (sample_db\<lparr>group_members := map (project_member 1 101) (group_members sample_db)\<rparr>)"
  by code_simp

theorem project_group_unread_witness:
  "map member_view (map (project_member 1 101) (group_members sample_db)) = [(0, Some 101, None), (1, None, None)]"
  using project_group_unread [OF _ _ sample_project_group, of "sample_group 6 11"]
  by (simp add: sample_db_def sample_defs sample_records_def outboxRecord_def member_view_def deliver_def sql_ge_def)

section \<open>Last message of a chat\<close>

definition last_at :: "uuid \<Rightarrow> chat list \<Rightarrow> time option" where
  "last_at i cs = (case filter (\<lambda>c. c_id c = i) cs of [] \<Rightarrow> None | c # _ \<Rightarrow> c_last_message_at c)"

definition later :: "time option \<Rightarrow> time \<Rightarrow> time option" where
  "later l t = Some (case l of None \<Rightarrow> t | Some x \<Rightarrow> max x t)"

lemma project_chat_last:
  assumes "c \<in> set cs" and "c_id c = i"
  shows "last_at i (project_chat i msg cs) = later (last_at i cs) (m_created_at msg)"
  using assms
  by (induction cs) (auto simp: last_at_def project_chat_def update_where_def later_def max_def split: option.splits)

lemma project_chat_ids [simp]: "map c_id (project_chat i msg cs) = map c_id cs"
  by (simp add: project_chat_def update_where_key)

lemma project_chats_last:
  assumes "i \<in> set (map c_id cs)"
  shows "last_at i (fold (project_chat i) msgs cs) = foldl later (last_at i cs) (map m_created_at msgs)"
  using assms
proof (induction msgs arbitrary: cs)
  case (Cons msg msgs)
  have "last_at i (project_chat i msg cs) = later (last_at i cs) (m_created_at msg)"
    using Cons.prems by (auto intro: project_chat_last)
  moreover have "i \<in> set (map c_id (project_chat i msg cs))" using Cons.prems by (simp only: project_chat_ids)
  ultimately show ?case using Cons.IH [of "project_chat i msg cs"] by (simp del: set_map)
qed simp

lemma foldl_later: "foldl later (Some x) ts = Some (Max (insert x (set ts)))"
proof (induction ts arbitrary: x)
  case (Cons t ts)
  have "foldl later (Some x) (t # ts) = Some (Max (insert (max x t) (set ts)))" by (simp add: later_def Cons)
  also have "Max (insert (max x t) (set ts)) = Max (insert x (set (t # ts)))"
    by (cases "ts = []") (simp_all add: max.assoc)
  finally show ?case .
qed simp

text \<open>In whatever order the messages of a chat are projected, the chat ends with the creation time of
  the latest of them as the time of its last message.
\<close>

theorem last_message_is_latest:
  assumes "i \<in> set (map c_id cs)" and "msgs \<noteq> []" and "last_at i cs = None"
  shows "last_at i (fold (project_chat i) msgs cs) = Some (Max (m_created_at ` set msgs))"
proof -
  obtain m ms where msgs: "msgs = m # ms" using assms(2) by (cases msgs) auto
  have "foldl later None (map m_created_at msgs) = Some (Max (insert (m_created_at m) (set (map m_created_at ms))))"
    using foldl_later [of "m_created_at m" "map m_created_at ms"] by (simp add: msgs later_def)
  then show ?thesis using project_chats_last [OF assms(1), of msgs] assms(3) by (simp add: msgs)
qed

theorem last_message_is_latest_witness:
  "last_at 10 (fold (project_chat 10) [sample_message 40 10 1 300, sample_message 41 10 2 200] (chats sample_db)) = Some 300"
  using last_message_is_latest [of 10 "chats sample_db" "[sample_message 40 10 1 300, sample_message 41 10 2 200]"]
  by (simp add: sample_db_def sample_defs last_at_def)

section \<open>Events\<close>

definition may_see :: "db \<Rightarrow> uuid \<Rightarrow> time \<Rightarrow> uuid \<Rightarrow> bool" where
  "may_see d chatID t u \<longleftrightarrow>
     (case filter (\<lambda>p. pc_chat_id p = chatID) (private_chats d) of
        [] \<Rightarrow> \<exists>m\<in>set (group_members d). gm_user_id m = u \<and> gm_joined_at m \<le> t \<and>
               (\<exists>g\<in>set (group_chats d). gc_id g = gm_group_chat_id m \<and> gc_chat_id g = chatID)
      | p # _ \<Rightarrow> \<not> (pc_user1_id p = Some u \<and> sql_ge (pc_user1_hidden_at p) t) \<and>
                 \<not> (pc_user2_id p = Some u \<and> sql_ge (pc_user2_hidden_at p) t))"

lemma hides_iff: "hides uid h t c \<longleftrightarrow> uid = Some c \<and> sql_ge h t"
  by (auto simp: hides_def sql_ge_def split: option.splits)

lemma visible_candidates_mem:
  assumes "visible_candidates flt d c t cs = Inr vs"
  shows "u \<in> set vs \<longleftrightarrow> u \<in> set cs \<and> may_see d c t u"
proof (cases "cs = []")
  case True
  with assms show ?thesis by (simp add: visible_candidates_def)
next
  case False
  show ?thesis
  proof (cases "filter (\<lambda>p. pc_chat_id p = c) (private_chats d)")
    case Nil
    from assms False obtain g where g: "map gc_id (filter (\<lambda>g. gc_chat_id g = c) (group_chats d)) = [g]"
      and vs: "vs = map gm_user_id (filter (\<lambda>m. gm_group_chat_id m = g \<and> gm_user_id m \<in> set cs \<and> gm_joined_at m \<le> t) (group_members d))"
      by (auto simp: visible_candidates_def Nil ent_only_def [of _ "[]"] result_simps split: if_splits)
    have "gm_group_chat_id m = g \<longleftrightarrow> gm_group_chat_id m \<in> set (map gc_id (filter (\<lambda>g. gc_chat_id g = c) (group_chats d)))" for m
      by (simp only: g list.set) simp
    then have "gm_group_chat_id m = g \<longleftrightarrow> (\<exists>x\<in>set (group_chats d). gc_id x = gm_group_chat_id m \<and> gc_chat_id x = c)" for m
      unfolding in_set_map_filter by metis
    then show ?thesis unfolding vs in_set_map_filter may_see_def Nil list.case by metis
  next
    case (Cons p ps)
    with assms False have "ps = []" by (auto simp: visible_candidates_def ent_only_def split: if_splits list.splits)
    with assms False Cons have "vs = filter (\<lambda>x. \<not> hides (pc_user1_id p) (pc_user1_hidden_at p) t x \<and>
                                 \<not> hides (pc_user2_id p) (pc_user2_hidden_at p) t x) cs"
      by (auto simp: visible_candidates_def ent_only_def split: if_splits)
    then show ?thesis by (auto simp: may_see_def Cons hides_iff)
  qed
qed

text \<open>
  C38. The events of a record go to exactly the members of the chat other than the sender who may see
  the message (they had joined the group when it was sent, or have not hidden the private chat since)
  and have no block in either direction with the sender.
\<close>

theorem event_targets_exact:
  assumes "eventTargets flt d rec t = Inr targets" and "ChatMembers flt d (r_chat_id rec) = Inr members"
    and "r_sender_id rec \<noteq> uuid_Nil"
  shows "u \<in> set targets \<longleftrightarrow> u \<in> set members \<and> u \<noteq> r_sender_id rec \<and> u \<noteq> uuid_Nil \<and>
    may_see d (r_chat_id rec) t u \<and> \<not> blocked_between d (r_sender_id rec) u"
proof -
  from assms(1,2) obtain cs blocked where cs: "visible_candidates flt d (r_chat_id rec) t members = Inr cs"
    and bl: "(if cs \<noteq> [] \<and> r_sender_id rec \<noteq> uuid_Nil then on_err (BlockedContacts flt d (r_sender_id rec))
                (QueryError ''batch check message recipient block state'') else Inr []) = Inr blocked"
    and targets: "targets = filter (\<lambda>c. c \<noteq> r_sender_id rec \<and> c \<noteq> uuid_Nil \<and> c \<notin> set blocked) cs"
    unfolding eventTargets_def by (auto simp only: result_simps on_err_simps and_then_simps sum.inject)
  show ?thesis
  proof (cases "cs = []")
    case True
    then show ?thesis using visible_candidates_mem [OF cs, of u] by (auto simp: targets)
  next
    case False
    with bl assms(3) have "BlockedContacts flt d (r_sender_id rec) = Inr blocked" by (simp add: on_err_Inr)
    then have "u \<noteq> r_sender_id rec \<Longrightarrow> u \<in> set blocked \<longleftrightarrow> blocked_between d (r_sender_id rec) u"
      using BlockedContacts_iff by metis
    then show ?thesis using visible_candidates_mem [OF cs, of u] by (auto simp: targets)
  qed
qed

lemma sample_targets: "eventTargets no_fault sample_db (sample_records ! 1) 101 = Inr [2]"
  "ChatMembers no_fault sample_db (r_chat_id (sample_records ! 1)) = Inr [1, 2]"
  by code_simp+

theorem event_targets_exact_witness: "may_see sample_db 11 101 2 \<and> \<not> blocked_between sample_db 1 2"
  using event_targets_exact [OF sample_targets, of 2] by (simp add: sample_records_def outboxRecord_def sample_outbox_def)

lemma json_stamp_null: "json_stamp JNull = None"
  by (simp add: json_stamp_def)

text \<open>The event of a new or updated message shows the message as it was when the outbox row was
  written: whatever happened to the stored message since (edits, deletion), content, action data and
  the edit and deletion marks come from the snapshot.
\<close>

theorem event_carries_snapshot:
  assumes "ty = EventMessageNew \<or> ty = EventMessageUpdate" and "m_deleted_at msg = None"
    and "filter (\<lambda>m. m_id m = r_message_id rec) (messages d) = [cur]"
    and "r_event_type rec = ty" and "r_payload rec = Some (outbox_row_payload e msg ty)"
    and "event_payload_of flt ug d rec = Inr (createdAt, payload)"
  shows "\<exists>resp. payload = MessagePayload resp \<and> createdAt = m_created_at cur \<and>
    mr_content resp = (case m_content msg of None \<Rightarrow> [] | Some c \<Rightarrow> c) \<and>
    mr_action_data resp = m_action_data msg \<and> mr_deleted_at resp = None \<and>
    mr_edited_at resp = map_option RFC3339Nano (m_edited_at msg) \<and>
    mr_attachments resp = map (media_to_dto ug) (attachments_of d (m_id cur))"
proof -
  have ty: "ty \<noteq> EventMessageDelete" using assms(1) by auto
  have keys: "map_of (outbox_row_payload e msg ty) ''content'' = Some (json_of_string (m_content msg))"
    "map_of (outbox_row_payload e msg ty) ''action_data'' = Some (json_of_object (m_action_data msg))"
    "map_of (outbox_row_payload e msg ty) ''edited_at'' = Some (json_of_time (m_edited_at msg))"
    "map_of (outbox_row_payload e msg ty) ''deleted_at'' = Some JNull"
    using ty assms(2) by (simp_all add: outbox_row_payload_def outbox_payload_def json_of_time_def)
  let ?resp = "applyMessageSnapshot (ToMessageResponse ((load_full d cur)
          \<lparr>fm_message := applyMessageEntitySnapshot cur (r_payload rec)\<rparr>) ug []) (r_payload rec)"
  have "payload = MessagePayload ?resp \<and> createdAt = m_created_at cur"
    using assms(3-6) ty by (auto simp: event_payload_of_def ent_only_def Let_def split: if_splits)
  moreover have "mr_content ?resp = (case m_content msg of None \<Rightarrow> [] | Some c \<Rightarrow> c)"
    "mr_action_data ?resp = m_action_data msg" "mr_deleted_at ?resp = None"
    "mr_edited_at ?resp = map_option RFC3339Nano (m_edited_at msg)"
    "mr_attachments ?resp = map (media_to_dto ug) (attachments_of d (m_id cur))"
    by (simp_all add: assms(5) applyMessageSnapshot_def applyMessageEntitySnapshot_def keys Let_def
        ToMessageResponse_def load_full_def json_stamp_null)
  ultimately show ?thesis by blast
qed

text \<open>Message 20 was edited after its outbox row was written.\<close>

definition sample_snapshot_record :: outbox_record where
  "sample_snapshot_record = (hd sample_records)\<lparr>r_payload :=
     Some (outbox_row_payload (sample_env 100 500) ((sample_message 20 10 1 100)\<lparr>m_content := Some ''first''\<rparr>) EventMessageNew)\<rparr>"

definition sample_urls :: urlgen where
  "sample_urls = \<lparr>GetPresignedURL = (\<lambda>f. f), GetPublicURL = (\<lambda>f. f)\<rparr>"

lemma sample_event_payload:
  "\<exists>p. event_payload_of no_fault sample_urls sample_db sample_snapshot_record = Inr (100, p)"
proof -
  have "fst (projr (event_payload_of no_fault sample_urls sample_db sample_snapshot_record)) = 100 \<and>
        \<not> isl (event_payload_of no_fault sample_urls sample_db sample_snapshot_record)" by code_simp
  then show ?thesis by (cases "event_payload_of no_fault sample_urls sample_db sample_snapshot_record") force+
qed

theorem event_carries_snapshot_witness:
  "\<exists>resp. event_payload_of no_fault sample_urls sample_db sample_snapshot_record = Inr (100, MessagePayload resp) \<and>
     mr_content resp = ''first'' \<and> mr_edited_at resp = None"
proof -
  obtain p where p: "event_payload_of no_fault sample_urls sample_db sample_snapshot_record = Inr (100, p)"
    using sample_event_payload by blast
  have "filter (\<lambda>m. m_id m = r_message_id sample_snapshot_record) (messages sample_db) = [sample_message 20 10 1 100]"
    by code_simp
  from event_carries_snapshot [OF _ _ this _ _ p, of EventMessageNew
      "(sample_message 20 10 1 100)\<lparr>m_content := Some ''first''\<rparr>" "sample_env 100 500"] p show ?thesis
    by (auto simp: sample_snapshot_record_def sample_records_def outboxRecord_def sample_outbox_def sample_message_def)
qed

section \<open>An overtaken projection\<close>

text \<open>
  \<open>Project\<close> reads its row without locking it and writes by identifier only. A worker that has read its row, and loses its lease
  before it goes on, counts the message a second time after the new owner has projected it: Bob has four unread messages, one more is
  sent, and he ends with six. The new owner holds the lease (token 98) when the first worker (token 99) writes.
\<close>

definition overtaken_run :: "(outbox_error + unit) \<times> unread_state option list" where
  "overtaken_run = (case Claim_outbox no_fault no_skip 1000000000000 98 5 0 sample_leased of
     Inl er \<Rightarrow> (Inr (), [])
   | Inr (recs, d1) \<Rightarrow> (case Project False (sample_env 1000000000010 500) (\<lambda>_. False) d1 (hd recs) of
       Inl er \<Rightarrow> (Inl er, [])
     | Inr d2 \<Rightarrow> (case ProjectFrom False (sample_env 1000000000020 600) (\<lambda>_. False) sample_leased d2 (hd sample_records) of
         Inl er \<Rightarrow> (Inl er, [])
       | Inr d3 \<Rightarrow> (Inr (), map (\<lambda>d. private_view (hd (private_chats d)) 2) [sample_leased, d2, d3]))))"

lemma overtaken_projection_counts_twice:
  "overtaken_run = (Inr (), [Some (4, None, None), Some (5, None, None), Some (6, None, None)])"
  by code_simp

end
