(* ===== verification/Message_Worker.thy ===== *)
theory Message_Worker
  imports Projection_Laws
begin

text \<open>
  The message worker, \<^verbatim>\<open>src/internal/message_worker/worker.go\<close>. The store it calls is the
  interface \<open>OutboxStore\<close>, here the record \<open>outbox_ops\<close> of operations on a state; the stream
  publisher is one of them. An operation returns the new state or an error, and an error leaves the
  state as it was (its transaction is rolled back). The locale \<open>outbox_store\<close> states what the worker
  relies on; it is interpreted on the database store and an append-only stream.
\<close>

section \<open>Configuration\<close>

record worker_config =
  BatchSize :: int
  Concurrency :: int
  LeaseDuration :: duration
  PollInterval :: duration
  BacklogInterval :: duration
  MaxAttempts :: int
  RetryBaseDelay :: duration
  RetryMaxDelay :: duration

definition default_int :: "int \<Rightarrow> int \<Rightarrow> int" where
  "default_int v dflt = (if v \<le> 0 then dflt else v)"

definition NewWorkerWithMetrics :: "worker_config \<Rightarrow> worker_config" where
  "NewWorkerWithMetrics cfg = \<lparr>BatchSize = default_int (BatchSize cfg) 100, Concurrency = default_int (Concurrency cfg) 5,
     LeaseDuration = default_int (LeaseDuration cfg) (5 * minute), PollInterval = default_int (PollInterval cfg) second,
     BacklogInterval = default_int (BacklogInterval cfg) (5 * second), MaxAttempts = default_int (MaxAttempts cfg) 10,
     RetryBaseDelay = default_int (RetryBaseDelay cfg) second, RetryMaxDelay = default_int (RetryMaxDelay cfg) (64 * second)\<rparr>"

section \<open>The store interface\<close>

record 's outbox_ops =
  op_Claim :: "'s \<Rightarrow> int \<Rightarrow> duration \<Rightarrow> outbox_error + outbox_record list \<times> 's"
  op_Project :: "'s \<Rightarrow> outbox_record \<Rightarrow> outbox_error + 's"
  op_BuildEvents :: "'s \<Rightarrow> outbox_record \<Rightarrow> outbox_error + message_event list"
  op_MarkPublished :: "'s \<Rightarrow> uuid \<Rightarrow> uuid \<Rightarrow> time \<Rightarrow> outbox_error + 's"
  op_MarkFailed :: "'s \<Rightarrow> uuid \<Rightarrow> uuid \<Rightarrow> outbox_error \<Rightarrow> time \<Rightarrow> outbox_error + 's"
  op_MarkDeadLetter :: "'s \<Rightarrow> uuid \<Rightarrow> uuid \<Rightarrow> outbox_error \<Rightarrow> time \<Rightarrow> outbox_error + 's"
  op_Publish :: "'s \<Rightarrow> message_event \<Rightarrow> outbox_error + 's"

section \<open>Processing a record\<close>

fun publish_all :: "'s outbox_ops \<Rightarrow> 's \<Rightarrow> message_event list \<Rightarrow> outbox_error option \<times> 's" where
  "publish_all ops s [] = (None, s)"
| "publish_all ops s (ev # evs) =
     (case op_Publish ops s ev of Inl err \<Rightarrow> (Some err, s) | Inr s' \<Rightarrow> publish_all ops s' evs)"

definition attempt_record :: "'s outbox_ops \<Rightarrow> 's \<Rightarrow> outbox_record \<Rightarrow> outbox_error option \<times> 's" where
  "attempt_record ops s record =
     (case op_Project ops s record of
        Inl err \<Rightarrow> (Some err, s)
      | Inr s \<Rightarrow>
          (case op_BuildEvents ops s record of
             Inl err \<Rightarrow> (Some err, s)
           | Inr eventsToPublish \<Rightarrow> publish_all ops s eventsToPublish))"

datatype process_error = ProcessFailed outbox_error "outbox_error option" | MarkPublishedFailed outbox_error

text \<open>\<open>ProcessFailed err (Some m)\<close>: the record failed with \<open>err\<close> and marking it failed with \<open>m\<close>.\<close>

definition processRecord :: "'s outbox_ops \<Rightarrow> worker_config \<Rightarrow> time \<Rightarrow> 's \<Rightarrow> outbox_record \<Rightarrow> process_error option \<times> 's" where
  "processRecord ops cfg t s record =
     (case attempt_record ops s record of
        (Some err, s) \<Rightarrow>
          if r_attempt_count record \<ge> MaxAttempts cfg then
            (case op_MarkDeadLetter ops s (r_id record) (r_lock_token record) err t of
               Inl markErr \<Rightarrow> (Some (ProcessFailed err (Some markErr)), s)
             | Inr s \<Rightarrow> (Some (ProcessFailed err None), s))
          else
            (let retryDelay = BackoffDelay (r_attempt_count record - 1) (RetryBaseDelay cfg) (RetryMaxDelay cfg) in
             case op_MarkFailed ops s (r_id record) (r_lock_token record) err (t + retryDelay) of
               Inl markErr \<Rightarrow> (Some (ProcessFailed err (Some markErr)), s)
             | Inr s \<Rightarrow> (Some (ProcessFailed err None), s))
      | (None, s) \<Rightarrow>
          (case op_MarkPublished ops s (r_id record) (r_lock_token record) t of
             Inl err \<Rightarrow> (Some (MarkPublishedFailed err), s)
           | Inr s \<Rightarrow> (None, s)))"

section \<open>Processing a batch\<close>

definition group_key :: "outbox_record \<Rightarrow> uuid" where
  "group_key record = (if r_chat_id record = uuid_Nil then r_id record else r_chat_id record)"

text \<open>The map \<open>groups\<close> and the order in which its keys were first met.\<close>

fun group_records :: "outbox_record list \<Rightarrow> (uuid \<times> outbox_record list) list \<Rightarrow> (uuid \<times> outbox_record list) list" where
  "group_records [] groups = groups"
| "group_records (record # records) groups =
     group_records records
       (if group_key record \<in> fst ` set groups
        then map (\<lambda>(k, rs). if k = group_key record then (k, rs @ [record]) else (k, rs)) groups
        else groups @ [(group_key record, [record])])"

text \<open>A group runs its records in order and stops at the first error.\<close>

fun run_group :: "'s outbox_ops \<Rightarrow> worker_config \<Rightarrow> time \<Rightarrow> 's \<Rightarrow> outbox_record list \<Rightarrow> nat \<times> process_error option \<times> 's" where
  "run_group ops cfg t s [] = (0, None, s)"
| "run_group ops cfg t s (record # records) =
     (case processRecord ops cfg t s record of
        (Some err, s) \<Rightarrow> (0, Some err, s)
      | (None, s) \<Rightarrow> (case run_group ops cfg t s records of (n, err, s) \<Rightarrow> (Suc n, err, s)))"

fun run_groups :: "'s outbox_ops \<Rightarrow> worker_config \<Rightarrow> time \<Rightarrow> 's \<Rightarrow> outbox_record list list \<Rightarrow> nat \<times> process_error option \<times> 's" where
  "run_groups ops cfg t s [] = (0, None, s)"
| "run_groups ops cfg t s (g # gs) =
     (case run_group ops cfg t s g of (n, err, s) \<Rightarrow>
        (case run_groups ops cfg t s gs of (m, err', s) \<Rightarrow>
           (n + m, (case err of None \<Rightarrow> err' | Some e \<Rightarrow> Some e), s)))"

datatype batch_error = ClaimFailed outbox_error | RecordFailed process_error

text \<open>
  The groups run concurrently, at most \<open>Concurrency\<close> at a time, and their steps are transactions on
  rows of different chats; the model runs the groups one after the other in an order the scheduler
  chooses (\<open>order\<close>). The value is the number of processed records and the first error.
\<close>

definition ProcessBatch :: "'s outbox_ops \<Rightarrow> worker_config \<Rightarrow> (outbox_record list list \<Rightarrow> outbox_record list list) \<Rightarrow>
    time \<Rightarrow> 's \<Rightarrow> nat \<times> batch_error option \<times> 's" where
  "ProcessBatch ops cfg order t s =
     (case op_Claim ops s (BatchSize cfg) (LeaseDuration cfg) of
        Inl err \<Rightarrow> (0, Some (ClaimFailed err), s)
      | Inr (records, s) \<Rightarrow>
          if records = [] then (0, None, s)
          else (case run_groups ops cfg t s (order (map snd (group_records records []))) of
                  (n, err, s) \<Rightarrow> (n, map_option RecordFailed err, s)))"

section \<open>What the worker relies on\<close>

definition with_projection :: "time option \<Rightarrow> message_outbox \<Rightarrow> message_outbox" where
  "with_projection p r = r\<lparr>ob_projected_at := p\<rparr>"

lemma with_projection_same: "with_projection (ob_projected_at r) r = r"
  by (simp add: with_projection_def)

locale outbox_store =
  fixes ops :: "'s outbox_ops"
    and row_of :: "'s \<Rightarrow> uuid \<Rightarrow> message_outbox option"
    and inv :: "'s \<Rightarrow> bool"
    and text_of :: "outbox_error \<Rightarrow> string"
  assumes project_inv: "inv s \<Longrightarrow> op_Project ops s rec = Inr s' \<Longrightarrow> inv s'"
    and project_row: "inv s \<Longrightarrow> op_Project ops s rec = Inr s' \<Longrightarrow> row_of s i = Some r \<Longrightarrow>
        \<exists>p. row_of s' i = Some (with_projection p r) \<and> (i = r_id rec \<longrightarrow> p \<noteq> None) \<and> (i \<noteq> r_id rec \<longrightarrow> p = ob_projected_at r)"
    and publish_inv: "inv s \<Longrightarrow> op_Publish ops s ev = Inr s' \<Longrightarrow> inv s'"
    and publish_row: "op_Publish ops s ev = Inr s' \<Longrightarrow> row_of s' = row_of s"
    and published: "inv s \<Longrightarrow> op_MarkPublished ops s i tok t = Inr s' \<Longrightarrow> row_of s i = Some r \<Longrightarrow>
        inv s' \<and> row_of s' = (row_of s)(i \<mapsto> settle_row (SetPublished t) r)"
    and failed: "inv s \<Longrightarrow> op_MarkFailed ops s i tok err t = Inr s' \<Longrightarrow> row_of s i = Some r \<Longrightarrow>
        inv s' \<and> row_of s' = (row_of s)(i \<mapsto> settle_row (SetFailed (truncateOutboxError (Some (text_of err))) t) r)"
    and dead: "inv s \<Longrightarrow> op_MarkDeadLetter ops s i tok err t = Inr s' \<Longrightarrow> row_of s i = Some r \<Longrightarrow>
        inv s' \<and> row_of s' = (row_of s)(i \<mapsto> settle_row (SetDeadLetter (truncateOutboxError (Some (text_of err))) t) r)"
begin

lemma publish_all_row: "inv s \<Longrightarrow> publish_all ops s evs = (err, s') \<Longrightarrow> inv s' \<and> row_of s' = row_of s"
proof (induction evs arbitrary: s)
  case (Cons ev evs)
  show ?case
  proof (cases "op_Publish ops s ev")
    case (Inl e)
    with Cons.prems show ?thesis by simp
  next
    case (Inr s1)
    with Cons.prems(2) have "publish_all ops s1 evs = (err, s')" by simp
    with publish_inv [OF Cons.prems(1) Inr] have "inv s' \<and> row_of s' = row_of s1" by (rule Cons.IH)
    with publish_row [OF Inr] show ?thesis by simp
  qed
qed simp

lemma attempt_row:
  assumes "inv s" and "attempt_record ops s rec = (err, s')" and "row_of s (r_id rec) = Some r"
  shows "inv s' \<and> (\<exists>p. row_of s' (r_id rec) = Some (with_projection p r) \<and> (err = None \<longrightarrow> p \<noteq> None))"
proof (cases "op_Project ops s rec")
  case (Inl e)
  with assms(2) have "err = Some e" "s' = s" by (simp_all add: attempt_record_def)
  with assms(1,3) with_projection_same [of r] show ?thesis by (intro conjI exI [of _ "ob_projected_at r"]) simp_all
next
  case (Inr s1)
  note inv1 = project_inv [OF assms(1) Inr]
  obtain p where p: "row_of s1 (r_id rec) = Some (with_projection p r)" "p \<noteq> None"
    using project_row [OF assms(1) Inr assms(3)] by blast
  have "inv s' \<and> row_of s' = row_of s1"
  proof (cases "op_BuildEvents ops s1 rec")
    case (Inl e)
    with Inr assms(2) inv1 show ?thesis by (simp add: attempt_record_def)
  next
    case (Inr evs)
    with \<open>op_Project ops s rec = Inr s1\<close> assms(2) have "publish_all ops s1 evs = (err, s')" by (simp add: attempt_record_def)
    with inv1 show ?thesis by (rule publish_all_row)
  qed
  with p show ?thesis by auto
qed

lemma process_outcome:
  assumes "inv s" and "row_of s (r_id rec) = Some r" and "processRecord ops cfg t s rec = (res, s')"
  shows "(res = None \<longrightarrow> (\<exists>p. row_of s' (r_id rec) = Some (settle_row (SetPublished t) (with_projection (Some p) r)))) \<and>
    (\<forall>err. res = Some (ProcessFailed err None) \<longrightarrow> (\<exists>p. row_of s' (r_id rec) = Some (settle_row
       (if r_attempt_count rec \<ge> MaxAttempts cfg then SetDeadLetter (truncateOutboxError (Some (text_of err))) t
        else SetFailed (truncateOutboxError (Some (text_of err)))
               (t + BackoffDelay (r_attempt_count rec - 1) (RetryBaseDelay cfg) (RetryMaxDelay cfg)))
       (with_projection p r))))"
proof -
  obtain e0 s1 where at: "attempt_record ops s rec = (e0, s1)" by fastforce
  obtain p where inv1: "inv s1" and row: "row_of s1 (r_id rec) = Some (with_projection p r)"
    and p: "e0 = None \<Longrightarrow> p \<noteq> None"
    using attempt_row [OF assms(1) at assms(2)] by blast
  show ?thesis
  proof (cases e0)
    case None
    then obtain q where q: "p = Some q" using p by auto
    show ?thesis
    proof (cases "op_MarkPublished ops s1 (r_id rec) (r_lock_token rec) t")
      case (Inl e)
      with None at assms(3) show ?thesis by (auto simp: processRecord_def)
    next
      case (Inr s2)
      with None at assms(3) have "res = None" "s' = s2" by (auto simp: processRecord_def)
      with published [OF inv1 Inr row] q show ?thesis by auto
    qed
  next
    case (Some err)
    show ?thesis
    proof (cases "r_attempt_count rec \<ge> MaxAttempts cfg")
      case True
      show ?thesis
      proof (cases "op_MarkDeadLetter ops s1 (r_id rec) (r_lock_token rec) err t")
        case (Inl m)
        with True Some at assms(3) show ?thesis by (auto simp: processRecord_def)
      next
        case (Inr s2)
        with True Some at assms(3) have "res = Some (ProcessFailed err None)" "s' = s2" by (auto simp: processRecord_def)
        with dead [OF inv1 Inr row] True show ?thesis by auto
      qed
    next
      case False
      let ?t = "t + BackoffDelay (r_attempt_count rec - 1) (RetryBaseDelay cfg) (RetryMaxDelay cfg)"
      show ?thesis
      proof (cases "op_MarkFailed ops s1 (r_id rec) (r_lock_token rec) err ?t")
        case (Inl m)
        with False Some at assms(3) show ?thesis by (auto simp: processRecord_def Let_def)
      next
        case (Inr s2)
        with False Some at assms(3) have "res = Some (ProcessFailed err None)" "s' = s2"
          by (auto simp: processRecord_def Let_def)
        with failed [OF inv1 Inr row] False show ?thesis by auto
      qed
    qed
  qed
qed

end

section \<open>The database store provides the interface\<close>

type_synonym world = "db \<times> message_event list"

text \<open>
  \<open>push e cf\<close> are the arguments of \<open>Project\<close>, \<open>sha1 ug\<close> those of \<open>BuildEvents\<close>, \<open>skip tok\<close>
  those of \<open>Claim\<close>; \<open>mf\<close> says whether a marking fails, \<open>pub\<close> is the stream publisher and \<open>errText\<close>
  the text of an error.
\<close>

definition ent_ops :: "bool \<Rightarrow> env \<Rightarrow> (nat \<Rightarrow> bool) \<Rightarrow> (uuid \<Rightarrow> uuid \<Rightarrow> uuid) \<Rightarrow> urlgen \<Rightarrow> (uuid \<Rightarrow> bool) \<Rightarrow> uuid \<Rightarrow>
    bool \<Rightarrow> (message_event list \<Rightarrow> message_event \<Rightarrow> outbox_error + message_event list) \<Rightarrow> (outbox_error \<Rightarrow> string) \<Rightarrow>
    world outbox_ops" where
  "ent_ops push e cf sha1 ug skip tok mf pub errText =
     (let keep = (\<lambda>st r. and_then r (\<lambda>d. Inr (d, st))) in
     \<lparr>op_Claim = (\<lambda>(d, st) limit lease.
        and_then (Claim_outbox (fault e) skip (now e) tok limit lease d) (\<lambda>(recs, d). Inr (recs, (d, st)))),
      op_Project = (\<lambda>(d, st) record. keep st (Project push e cf d record)),
      op_BuildEvents = (\<lambda>(d, st) record. BuildEvents sha1 e ug d record),
      op_MarkPublished = (\<lambda>(d, st) i k t. keep st (MarkPublished mf d i k t)),
      op_MarkFailed = (\<lambda>(d, st) i k err t. keep st (MarkFailed mf d i k (Some (errText err)) t)),
      op_MarkDeadLetter = (\<lambda>(d, st) i k err t. keep st (MarkDeadLetter mf d i k (Some (errText err)) t)),
      op_Publish = (\<lambda>(d, st) ev. and_then (pub st ev) (\<lambda>st. Inr (d, st)))\<rparr>)"

lemma ent_ops_simps:
  "op_Project (ent_ops push e cf sha1 ug skip tok mf pub errText) (d, st) rec = and_then (Project push e cf d rec) (\<lambda>d. Inr (d, st))"
  "op_MarkPublished (ent_ops push e cf sha1 ug skip tok mf pub errText) (d, st) i k t = and_then (MarkPublished mf d i k t) (\<lambda>d. Inr (d, st))"
  "op_MarkFailed (ent_ops push e cf sha1 ug skip tok mf pub errText) (d, st) i k err t =
     and_then (MarkFailed mf d i k (Some (errText err)) t) (\<lambda>d. Inr (d, st))"
  by (simp_all add: ent_ops_def Let_def)

definition ent_row :: "world \<Rightarrow> uuid \<Rightarrow> message_outbox option" where
  "ent_row s i = find (\<lambda>r. ob_id r = i) (outbox (fst s))"

definition ent_inv :: "world \<Rightarrow> bool" where
  "ent_inv s \<longleftrightarrow> distinct (map ob_id (outbox (fst s)))"

lemma mark_row:
  assumes "distinct (map ob_id (outbox d))" and "mark what s broken d i tok = Inr d'"
    and "find (\<lambda>r. ob_id r = i) (outbox d) = Some r"
  shows "distinct (map ob_id (outbox d'))"
    and "find (\<lambda>r. ob_id r = j) (outbox d') = (if j = i then Some (settle_row s r) else find (\<lambda>r. ob_id r = j) (outbox d))"
proof -
  have d': "outbox d' = update_where (settle_guard s i tok) (settle_row s) (outbox d)"
    and one: "affected (settle_guard s i tok) (outbox d) = 1"
    using assms(2) by (auto simp: mark_Inr settle_outbox_def settle_where_Some)
  show "distinct (map ob_id (outbox d'))" using assms(1) by (simp add: d' update_where_key)
  from one obtain x where x: "x \<in> set (outbox d)" "settle_guard s i tok x"
    using affected_0 [of "settle_guard s i tok" "outbox d"] by auto
  have "x = r"
    using distinct_key_eq [OF assms(1) x(1)] find_SomeD [OF assms(3)] settle_guardD [OF x(2)] by simp
  show "find (\<lambda>r. ob_id r = j) (outbox d') = (if j = i then Some (settle_row s r) else find (\<lambda>r. ob_id r = j) (outbox d))"
  proof (cases "j = i")
    case True
    then show ?thesis using assms(3) x(2) \<open>x = r\<close> by (simp add: d' find_update_where)
  next
    case False
    then have "\<not> settle_guard s i tok y" if "find (\<lambda>r. ob_id r = j) (outbox d) = Some y" for y
      using find_SomeD [OF that] settle_guardD [of s i tok y] by auto
    with False show ?thesis by (cases "find (\<lambda>r. ob_id r = j) (outbox d)") (simp_all add: d' find_update_where)
  qed
qed

lemma Project_row:
  assumes "distinct (map ob_id (outbox d))" and "Project push e cf d rec = Inr d'"
  shows "distinct (map ob_id (outbox d'))"
    and "find (\<lambda>r. ob_id r = i) (outbox d) = Some r \<Longrightarrow> \<exists>p. find (\<lambda>r. ob_id r = i) (outbox d') = Some (with_projection p r) \<and>
       (i = r_id rec \<longrightarrow> p \<noteq> None) \<and> (i \<noteq> r_id rec \<longrightarrow> p = ob_projected_at r)"
proof -
  show "distinct (map ob_id (outbox d'))"
    using assms(2) by (cases rule: Project_InrE) (simp_all add: assms(1) update_where_key)
  assume r: "find (\<lambda>r. ob_id r = i) (outbox d) = Some r"
  from assms(2) show "\<exists>p. find (\<lambda>r. ob_id r = i) (outbox d') = Some (with_projection p r) \<and>
       (i = r_id rec \<longrightarrow> p \<noteq> None) \<and> (i \<noteq> r_id rec \<longrightarrow> p = ob_projected_at r)"
  proof (cases rule: Project_InrE)
    case (projected row)
    have "r = row" if "i = r_id rec"
      using that find_SomeD [OF r] owned_single [OF projected(1)] distinct_key_eq [OF assms(1), of r row]
      by (auto simp: owned_def)
    with projected(2,3) r show ?thesis
      by (intro exI [of _ "ob_projected_at r"]) (auto simp: with_projection_same)
  next
    case (effect row d1)
    have "find (\<lambda>r. ob_id r = i) (outbox d') = Some (if i = r_id rec then projected_row (now e) r else r)"
      using r find_SomeD [OF r] by (simp add: effect(5) find_update_where)
    then show ?thesis
      by (cases "i = r_id rec") (auto simp: projected_row_def with_projection_def [symmetric] with_projection_same
          intro: exI [of _ "ob_projected_at r"])
  qed
qed

interpretation ent: outbox_store "ent_ops push e cf sha1 ug skip tok mf pub errText" ent_row ent_inv errText
  for push e cf sha1 ug skip tok mf pub errText
proof
  fix s s' :: world and rec i r ev k t err
  let ?ops = "ent_ops push e cf sha1 ug skip tok mf pub errText"
  obtain d st where s: "s = (d, st)" by (cases s) auto
  {
    assume "ent_inv s" and "op_Project ?ops s rec = Inr s'"
    then have d: "distinct (map ob_id (outbox d))" "Project push e cf d rec = Inr (fst s')"
      by (auto simp: ent_inv_def ent_ops_def s Let_def result_simps)
    show "ent_inv s'" using Project_row(1) [OF d] by (simp add: ent_inv_def)
    assume "ent_row s i = Some r"
    then show "\<exists>p. ent_row s' i = Some (with_projection p r) \<and> (i = r_id rec \<longrightarrow> p \<noteq> None) \<and> (i \<noteq> r_id rec \<longrightarrow> p = ob_projected_at r)"
      using Project_row(2) [OF d] by (simp add: ent_row_def s)
  next
    assume "ent_inv s" "op_Publish ?ops s ev = Inr s'"
    then show "ent_inv s'" by (auto simp: ent_inv_def ent_ops_def s Let_def result_simps)
  next
    assume "op_Publish ?ops s ev = Inr s'"
    then show "ent_row s' = ent_row s" by (auto simp: ent_row_def fun_eq_iff ent_ops_def s Let_def result_simps)
  next
    assume "ent_inv s" "ent_row s i = Some r"
    then have d: "distinct (map ob_id (outbox d))" "find (\<lambda>r. ob_id r = i) (outbox d) = Some r"
      by (simp_all add: ent_inv_def ent_row_def s)
    have upd: "ent_inv s' \<and> ent_row s' = (ent_row s)(i \<mapsto> settle_row x r)" if "mark what x mf d i k = Inr (fst s')" for what x
      using mark_row [OF d(1) that d(2)] by (simp add: ent_inv_def ent_row_def fun_eq_iff s)
    show "op_MarkPublished ?ops s i k t = Inr s' \<Longrightarrow> ent_inv s' \<and> ent_row s' = (ent_row s)(i \<mapsto> settle_row (SetPublished t) r)"
      by (rule upd) (auto simp: ent_ops_def s Let_def result_simps MarkPublished_def)
    show "op_MarkFailed ?ops s i k err t = Inr s' \<Longrightarrow>
      ent_inv s' \<and> ent_row s' = (ent_row s)(i \<mapsto> settle_row (SetFailed (truncateOutboxError (Some (errText err))) t) r)"
      by (rule upd) (auto simp: ent_ops_def s Let_def result_simps MarkFailed_def)
    show "op_MarkDeadLetter ?ops s i k err t = Inr s' \<Longrightarrow>
      ent_inv s' \<and> ent_row s' = (ent_row s)(i \<mapsto> settle_row (SetDeadLetter (truncateOutboxError (Some (errText err))) t) r)"
      by (rule upd) (auto simp: ent_ops_def s Let_def result_simps MarkDeadLetter_def)
  }
qed

section \<open>Properties of the worker\<close>

text \<open>
  C4. Whatever happens while a leased record is processed, it ends settled, unless the marking itself
  fails: published and projected when the worker reports success; otherwise dead-lettered when its
  attempts are used up, and rescheduled after the backoff delay when they are not, with the truncated
  text of the error; in each case the lease is released.
\<close>

theorem process_record_settles:
  assumes "distinct (map ob_id (outbox d))" and "find (\<lambda>r. ob_id r = r_id rec) (outbox d) = Some r"
    and "processRecord (ent_ops push e cf sha1 ug skip tok mf pub errText) cfg t (d, st) rec = (res, (d', st'))"
  shows "(res = None \<longrightarrow> (\<exists>p. find (\<lambda>r. ob_id r = r_id rec) (outbox d') =
           Some (settle_row (SetPublished t) (r\<lparr>ob_projected_at := Some p\<rparr>)))) \<and>
    (\<forall>err. res = Some (ProcessFailed err None) \<longrightarrow> (\<exists>p. find (\<lambda>r. ob_id r = r_id rec) (outbox d') = Some (settle_row
       (if r_attempt_count rec \<ge> MaxAttempts cfg then SetDeadLetter (truncateOutboxError (Some (errText err))) t
        else SetFailed (truncateOutboxError (Some (errText err)))
               (t + BackoffDelay (r_attempt_count rec - 1) (RetryBaseDelay cfg) (RetryMaxDelay cfg)))
       (r\<lparr>ob_projected_at := p\<rparr>))))"
  using ent.process_outcome [of "(d, st)" rec r push e cf sha1 ug skip tok mf pub errText cfg t res "(d', st')"] assms
  by (simp add: ent_inv_def ent_row_def with_projection_def)

definition sample_config :: worker_config where
  "sample_config = NewWorkerWithMetrics \<lparr>BatchSize = 0, Concurrency = 0, LeaseDuration = 0, PollInterval = 0, BacklogInterval = 0,
     MaxAttempts = 0, RetryBaseDelay = 0, RetryMaxDelay = 0\<rparr>"

text \<open>With the database refusing transactions, the first attempt of record 30 is rescheduled one second later.\<close>

definition sample_ops :: "world outbox_ops" where
  "sample_ops = ent_ops False ((sample_env 210 500)\<lparr>fault := (\<lambda>c. c = ''project.begin'')\<rparr>) (\<lambda>_. False) (\<lambda>a b. a * 1000 + b)
     sample_urls no_skip 97 False (\<lambda>st ev. Inr (st @ [ev])) (\<lambda>_. ''boom'')"

lemma sample_process: "\<exists>d' err. processRecord sample_ops sample_config 220 (sample_leased, []) (hd sample_records) =
    (Some (ProcessFailed err None), (d', []))"
  by (simp add: processRecord_def attempt_record_def sample_ops_def ent_ops_simps Project_def ProjectFrom_def project_effect_def MarkFailed_def mark_def
      settle_outbox_def settle_where_def affected_def owned_def sample_config_def NewWorkerWithMetrics_def default_int_def
      sample_leased_def sample_records_def outboxRecord_def sample_outbox_def lease_outbox_def Let_def)

theorem process_record_settles_witness:
  "\<exists>d' st' r. snd (processRecord sample_ops sample_config 220 (sample_leased, []) (hd sample_records)) = (d', st') \<and>
     find (\<lambda>r. ob_id r = 30) (outbox d') = Some r \<and> ob_available_at r = 1000000220 \<and> ob_lock_token r = None"
proof -
  obtain d' err where run: "processRecord sample_ops sample_config 220 (sample_leased, []) (hd sample_records) =
      (Some (ProcessFailed err None), (d', []))"
    using sample_process by blast
  have found: "find (\<lambda>r. ob_id r = r_id (hd sample_records)) (outbox sample_leased) = Some (lease_outbox 200 99 (sample_outbox 30 20 10 1 100))"
    by code_simp
  have dist: "distinct (map ob_id (outbox sample_leased))" by code_simp
  have "BackoffDelay 0 second (64 * second) = second" by (simp add: BackoffDelay_def)
  then show ?thesis
    using process_record_settles [OF dist found run [unfolded sample_ops_def]] run
    by (auto simp: sample_config_def NewWorkerWithMetrics_def default_int_def sample_records_def outboxRecord_def
        sample_outbox_def release_def)
qed

lemma group_records_fresh:
  assumes "distinct (map group_key recs)" and "set (map group_key recs) \<inter> fst ` set groups = {}"
  shows "group_records recs groups = groups @ map (\<lambda>r. (group_key r, [r])) recs"
  using assms by (induction recs arbitrary: groups) auto

lemma group_records_lookup:
  assumes "distinct (map fst groups)"
  shows "distinct (map fst (group_records recs groups)) \<and> map_of (group_records recs groups) k =
    (if k \<in> fst ` set groups \<or> k \<in> group_key ` set recs
     then Some ((case map_of groups k of None \<Rightarrow> [] | Some rs \<Rightarrow> rs) @ filter (\<lambda>r. group_key r = k) recs) else None)"
  using assms
proof (induction recs arbitrary: groups)
  case Nil
  then show ?case by (cases "map_of groups k") (auto simp: map_of_eq_None_iff, force)
next
  case (Cons rec recs)
  let ?c = "group_key rec"
  let ?add = "\<lambda>(k, rs). if k = ?c then (k, rs @ [rec]) else (k, rs)"
  show ?case
  proof (cases "?c \<in> fst ` set groups")
    case True
    have keys: "map fst (map ?add groups) = map fst groups" by (induction groups) auto
    have look: "map_of (map ?add groups) k = (if k = ?c then map_option (\<lambda>rs. rs @ [rec]) (map_of groups k) else map_of groups k)"
      by (induction groups) auto
    have keyset: "fst ` set (map ?add groups) = fst ` set groups" using keys by (metis list.set_map)
    have "map_of groups ?c \<noteq> None" using True by (simp add: map_of_eq_None_iff)
    then obtain rs where rs: "map_of groups ?c = Some rs" by blast
    have eq: "group_records (rec # recs) groups = group_records recs (map ?add groups)" using True by simp
    have IH: "distinct (map fst (group_records recs (map ?add groups))) \<and> map_of (group_records recs (map ?add groups)) k =
      (if k \<in> fst ` set groups \<or> k \<in> group_key ` set recs
       then Some ((case map_of (map ?add groups) k of None \<Rightarrow> [] | Some rs \<Rightarrow> rs) @ filter (\<lambda>r. group_key r = k) recs) else None)"
      using Cons.IH [of "map ?add groups"] Cons.prems unfolding keys keyset by blast
    show ?thesis
    proof (cases "k = ?c")
      case True
      with IH rs \<open>?c \<in> fst ` set groups\<close> show ?thesis unfolding eq look by simp
    next
      case False
      with IH show ?thesis unfolding eq look by simp
    qed
  next
    case False
    then have "map_of groups ?c = None" by (simp add: map_of_eq_None_iff)
    then show ?thesis
      using False Cons.IH [of "groups @ [(?c, [rec])]"] Cons.prems
      by (auto simp: map_add_def split: option.splits)
  qed
qed

text \<open>Grouping partitions a batch by chat and keeps the order of the batch inside each group.
\<close>

theorem groups_partition_batch:
  "distinct (map fst (group_records recs [])) \<and>
   map_of (group_records recs []) k =
     (if k \<in> group_key ` set recs then Some (filter (\<lambda>r. group_key r = k) recs) else None)"
  using group_records_lookup [of "[]" recs k] by simp

text \<open>A claimed batch forms one group per record, so that the failure of one record never keeps the
  worker from processing another record of the batch.
\<close>

theorem claimed_batch_runs_every_record:
  assumes "distinct (map ob_id (outbox d))" and "\<forall>r\<in>set (outbox d). ob_chat_id r \<noteq> uuid_Nil"
    and "Claim_outbox flt skip t tok limit L d = Inr (recs, d')"
  shows "map snd (group_records recs []) = map (\<lambda>rec. [rec]) recs"
proof -
  let ?b = "claim_batch skip limit t (default_lease L) (outbox d)"
  have recs: "recs = map (claimed_record tok) ?b" by (rule Claim_outbox_Inr(1) [OF assms(3)])
  have "group_key (claimed_record tok row) = ob_chat_id row" if "row \<in> set ?b" for row
    using assms(2) claim_batch_sub [OF that] by (auto simp: group_key_def)
  then have "map group_key recs = map ob_chat_id ?b" by (simp add: recs)
  with claim_batch_chats [OF assms(1)] have "distinct (map group_key recs)" by simp
  then show ?thesis by (simp add: group_records_fresh comp_def)
qed

theorem claimed_batch_runs_every_record_witness:
  "map snd (group_records sample_records []) = map (\<lambda>rec. [rec]) sample_records"
  by (rule claimed_batch_runs_every_record [OF sample_ids _ sample_claim]) (simp add: sample_db_def sample_outbox_def)

end
