(* ===== verification/Group_Common.thy ===== *)
theory Group_Common
  imports Message_Outbox Text_Helpers "HOL-Library.AList"
begin

text \<open>
  What the group services of \<^verbatim>\<open>src/internal/api/application/group\<close> share: the lookups of a live
  group and of a membership, the membership lock and the capacity check (\<^verbatim>\<open>member_capacity.go\<close>),
  the creation of members under their unique index, the block of every handler that writes system
  messages with their outbox rows and moves the chat's last message, and the responses. A handler
  runs in one transaction: it returns an error, and the database is as before, or the response, the
  events broadcast and the new database. The request validator is the argument \<open>valid\<close>; the service
  record holds the URL generator, whether a hub is attached and the random strings the request draws.
  Cache invalidation after the commit, whose errors the code ignores, is left out.
\<close>

definition MaxGroupMembers :: nat where "MaxGroupMembers = 100"

definition internal_error :: app_error where
  "internal_error = NewInternalServerError []"

record service =
  svc_urls :: urlgen
  svc_hub :: bool
  svc_random :: "nat \<Rightarrow> string option"

type_synonym broadcasts = "(uuid \<times> string) list"

section \<open>Lookups\<close>

definition find_group :: "env \<Rightarrow> db \<Rightarrow> (group_chat \<Rightarrow> bool) \<Rightarrow> string \<Rightarrow> app_error + group_chat" where
  "find_group e d P notFound =
     on_err (ent_only (fault e ''query group chat'') (filter (\<lambda>g. P g \<and> chat_live d (gc_chat_id g)) (group_chats d)))
       (\<lambda>er. if er = NotFoundError then NewNotFoundError notFound else internal_error)"

definition find_member :: "env \<Rightarrow> string \<Rightarrow> db \<Rightarrow> uuid \<Rightarrow> uuid \<Rightarrow> ent_error + group_member" where
  "find_member e site d gid uid =
     ent_only (fault e site) (filter (\<lambda>m. gm_group_chat_id m = gid \<and> gm_user_id m = uid) (group_members d))"

section \<open>Membership lock and capacity (member\_capacity.go)\<close>

text \<open>The no-op update holds the row lock of the group until the commit; it changes no value.\<close>

definition lockGroupMembership :: "env \<Rightarrow> group_chat \<Rightarrow> app_error + unit" where
  "lockGroupMembership e gc = fail_if (fault e ''lock group'') internal_error"

definition live_members :: "db \<Rightarrow> uuid \<Rightarrow> group_member list" where
  "live_members d gid = filter (\<lambda>m. gm_group_chat_id m = gid \<and> member_user_live d m) (group_members d)"

definition checkMemberCapacity :: "env \<Rightarrow> db \<Rightarrow> group_chat \<Rightarrow> nat \<Rightarrow> app_error + unit" where
  "checkMemberCapacity e d gc adding =
     and_then (on_err (ent_count (fault e ''count members'') (live_members d (gc_id gc))) (\<lambda>_. internal_error)) (\<lambda>count.
       fail_if (count + adding > MaxGroupMembers) (NewConflictError ''Group is full''))"

section \<open>Creating members\<close>

definition new_member :: "env \<Rightarrow> nat \<Rightarrow> uuid \<Rightarrow> uuid \<Rightarrow> member_role \<Rightarrow> group_member" where
  "new_member e k gid uid role = \<lparr>gm_id = newid e k, gm_group_chat_id = gid, gm_user_id = uid, gm_role = role,
     gm_last_read_at = None, gm_joined_at = now e, gm_unread_count = 0\<rparr>"

definition member_key :: "group_member \<Rightarrow> uuid \<times> uuid" where
  "member_key m = (gm_group_chat_id m, gm_user_id m)"

text \<open>The index \<open>pk_group_member\<close> makes the pair of group and user unique.\<close>

definition create_members :: "env \<Rightarrow> db \<Rightarrow> group_member list \<Rightarrow> app_error + db" where
  "create_members e d rows =
     (if fault e ''create members'' \<or> \<not> distinct (map member_key (group_members d @ rows)) then Inl internal_error
      else Inr (d\<lparr>group_members := group_members d @ rows\<rparr>))"

section \<open>System messages\<close>

definition new_message :: "env \<Rightarrow> nat \<Rightarrow> uuid \<Rightarrow> uuid \<Rightarrow> message_type \<Rightarrow> json_object option \<Rightarrow> message" where
  "new_message e k chatID senderID ty action = \<lparr>m_id = newid e k, m_chat_id = chatID, m_sender_id = Some senderID,
     m_reply_to_id = None, m_type = ty, m_content = None, m_action_data = action, m_deleted_at = None, m_edited_at = None,
     m_created_at = now e\<rparr>"

definition set_last_message :: "uuid \<Rightarrow> message \<Rightarrow> db \<Rightarrow> db" where
  "set_last_message chatID msg d = d\<lparr>chats := update_where (\<lambda>c. c_id c = chatID)
     (\<lambda>c. c\<lparr>c_last_message_id := Some (m_id msg), c_last_message_at := Some (m_created_at msg)\<rparr>) (chats d)\<rparr>"

text \<open>
  The messages of a bulk insert take the draws from \<open>k\<close> on, their outbox rows those after them. The
  code writes a single message with \<open>PersistMessageOutbox\<close> and several with
  \<open>PersistMessageOutboxes\<close>, which is the former in sequence.
\<close>

definition post_system :: "env \<Rightarrow> nat \<Rightarrow> db \<Rightarrow> uuid \<Rightarrow> uuid \<Rightarrow> (message_type \<times> json_object option) list \<Rightarrow> app_error + (message list \<times> db)" where
  "post_system e k d chatID senderID specs =
     (let msgs = map (\<lambda>(j, ty, action). new_message e (k + j) chatID senderID ty action) (enumerate 0 specs) in
      and_then (fail_if (fault e ''create system message'') internal_error) (\<lambda>_.
      and_then (on_err (PersistMessageOutboxes e (k + length specs) (d\<lparr>messages := messages d @ msgs\<rparr>) msgs EventMessageNew senderID)
                 (\<lambda>_. internal_error)) (\<lambda>d.
      and_then (fail_if (fault e ''update last message'') internal_error) (\<lambda>_.
        Inr (msgs, set_last_message chatID (last msgs) d)))))"

definition commit :: "env \<Rightarrow> app_error + unit" where
  "commit e = fail_if (fault e ''commit'') internal_error"

definition begin_tx :: "env \<Rightarrow> app_error + unit" where
  "begin_tx e = fail_if (fault e ''begin'') internal_error"

section \<open>Responses\<close>

definition role_text :: "member_role \<Rightarrow> string" where
  "role_text r = (case r of RoleOwner \<Rightarrow> ''owner'' | RoleAdmin \<Rightarrow> ''admin'' | RoleMember \<Rightarrow> ''member'')"

definition role_of :: "string \<Rightarrow> member_role option" where
  "role_of s = (if s = ''owner'' then Some RoleOwner else if s = ''admin'' then Some RoleAdmin
     else if s = ''member'' then Some RoleMember else None)"

lemma role_of_text [simp]: "role_of (role_text r) = Some r"
  by (cases r) (simp_all add: role_of_def role_text_def)

definition system_response :: "service \<Rightarrow> env \<Rightarrow> db \<Rightarrow> message \<Rightarrow> string \<Rightarrow> message_response option" where
  "system_response svc e d msg role =
     (case ent_only (fault e ''full message'') (filter (\<lambda>m. m_id m = m_id msg) (messages d)) of
        Inl _ \<Rightarrow> None
      | Inr m \<Rightarrow> Some (ToMessageResponse \<lparr>fm_message = m, fm_sender = load_sender d False m, fm_attachments = [], fm_reply_to = None\<rparr>
                        (svc_urls svc) role))"

definition put_target_name :: "user option \<Rightarrow> message_response \<Rightarrow> message_response" where
  "put_target_name target resp =
     (case Option.bind target u_full_name of
        None \<Rightarrow> resp
      | Some n \<Rightarrow> resp\<lparr>mr_action_data := Some (AList.update ''target_name'' (JStr n)
                     (case mr_action_data resp of None \<Rightarrow> [] | Some a \<Rightarrow> a))\<rparr>)"

text \<open>The member count of a response; a failing count query leaves it zero.\<close>

definition count_or_zero :: "env \<Rightarrow> db \<Rightarrow> uuid \<Rightarrow> nat" where
  "count_or_zero e d gid = (case ent_count (fault e ''count members after'') (live_members d gid) of Inl _ \<Rightarrow> 0 | Inr n \<Rightarrow> n)"

record chat_list_response =
  cl_muted_forever :: bool
  cl_muted_until :: "time option"
  cl_id :: uuid
  cl_type :: string
  cl_name :: string
  cl_avatar :: string
  cl_last_message :: "message_response option"
  cl_unread_count :: int
  cl_last_read_at :: "stamp option"
  cl_hidden_at :: "stamp option"
  cl_is_blocked_by_me :: bool
  cl_other_user_id :: "uuid option"
  cl_other_user_is_deleted :: bool
  cl_other_user_is_banned :: bool
  cl_is_blocked_by_other :: bool
  cl_is_online :: bool
  cl_other_last_read_at :: "stamp option"
  cl_description :: "string option"
  cl_is_public :: "bool option"
  cl_invite_code :: "string option"
  cl_invite_expires_at :: "stamp option"
  cl_my_role :: "string option"
  cl_member_count :: nat

text \<open>A composite literal leaves the fields it does not name at their zero values.\<close>

definition zero_chat_response :: chat_list_response where
  "zero_chat_response = \<lparr>cl_muted_forever = False, cl_muted_until = None, cl_id = uuid_Nil, cl_type = [], cl_name = [], cl_avatar = [],
     cl_last_message = None, cl_unread_count = 0, cl_last_read_at = None, cl_hidden_at = None, cl_is_blocked_by_me = False,
     cl_other_user_id = None, cl_other_user_is_deleted = False, cl_other_user_is_banned = False, cl_is_blocked_by_other = False,
     cl_is_online = False, cl_other_last_read_at = None, cl_description = None, cl_is_public = None, cl_invite_code = None,
     cl_invite_expires_at = None, cl_my_role = None, cl_member_count = 0\<rparr>"

definition chat_type_text :: "chat_type \<Rightarrow> string" where
  "chat_type_text ty = (case ty of TypePrivate \<Rightarrow> ''private'' | TypeGroup \<Rightarrow> ''group'')"

definition avatar_url :: "service \<Rightarrow> db \<Rightarrow> group_chat \<Rightarrow> string" where
  "avatar_url svc d gc = (case Option.bind (gc_avatar_id gc) (media_of d) of
     None \<Rightarrow> [] | Some m \<Rightarrow> GetPublicURL (svc_urls svc) (md_file_name m))"

definition elevated :: "member_role option \<Rightarrow> bool" where
  "elevated role \<longleftrightarrow> role = Some RoleOwner \<or> role = Some RoleAdmin"

definition buildGroupChatListResponse :: "service \<Rightarrow> db \<Rightarrow> group_chat \<Rightarrow> member_role option \<Rightarrow> message_response option \<Rightarrow> nat \<Rightarrow> chat_list_response" where
  "buildGroupChatListResponse svc d gc role lastMessage memberCount =
     zero_chat_response\<lparr>cl_id := gc_chat_id gc, cl_type := chat_type_text TypeGroup, cl_name := gc_name gc, cl_description := gc_description gc, cl_is_public := Some (gc_is_public gc),
      cl_invite_code := (if gc_is_public gc \<or> elevated role then Some (gc_invite_code gc) else None),
      cl_invite_expires_at := (if \<not> gc_is_public gc \<and> \<not> elevated role then None else map_option RFC3339 (gc_invite_expires_at gc)),
      cl_avatar := avatar_url svc d gc, cl_last_message := lastMessage, cl_unread_count := 0,
      cl_my_role := map_option role_text role, cl_member_count := memberCount\<rparr>"

definition getGroupLastMessageResponse :: "service \<Rightarrow> env \<Rightarrow> db \<Rightarrow> uuid \<Rightarrow> message_response option" where
  "getGroupLastMessageResponse svc e d chatID =
     (case sort_key (\<lambda>m. - m_created_at m) (filter (\<lambda>m. m_chat_id m = chatID) (messages d)) of
        [] \<Rightarrow> None
      | m # _ \<Rightarrow> if fault e ''group last message'' then None
                else Some (ToMessageResponse ((load_full d m)\<lparr>fm_sender := load_sender d False m\<rparr>) (svc_urls svc) []))"

end
