(* ===== verification/Group_Members.thy ===== *)
theory Group_Members
  imports Group_Common
begin

text \<open>
  Changes of membership: \<^verbatim>\<open>group_member_management_service.go\<close> (\<open>AddMember\<close>, \<open>LeaveGroup\<close>,
  \<open>KickMember\<close>), \<^verbatim>\<open>group_role_service.go\<close> (\<open>UpdateMemberRole\<close>, \<open>TransferOwnership\<close>), and the two
  ways of joining (\<^verbatim>\<open>group_invite_service.go\<close>, \<^verbatim>\<open>group_public_service.go\<close>).
\<close>

section \<open>AddMember\<close>

definition blocked_with_any :: "db \<Rightarrow> uuid \<Rightarrow> uuid list \<Rightarrow> user_block list" where
  "blocked_with_any d who ids = filter (\<lambda>b. ub_blocker_id b = who \<and> ub_blocked_id b \<in> set ids \<or>
     ub_blocker_id b \<in> set ids \<and> ub_blocked_id b = who) (user_blocks d)"

text \<open>The checks up to the point where the members are created; the value lists the users to add.\<close>

definition add_member_checks :: "env \<Rightarrow> db \<Rightarrow> uuid \<Rightarrow> group_chat \<Rightarrow> uuid list \<Rightarrow> app_error + (group_member \<times> user list)" where
  "add_member_checks e d requestorID gc userIDs =
     and_then (lockGroupMembership e gc) (\<lambda>_.
     and_then (on_err (find_member e ''query requestor membership'' d (gc_id gc) requestorID)
                (\<lambda>er. if er = NotFoundError then NewForbiddenError ''You are not a member of this group'' else internal_error)) (\<lambda>requestorMember.
     and_then (fail_if (gm_role requestorMember \<noteq> RoleOwner \<and> gm_role requestorMember \<noteq> RoleAdmin)
                (NewForbiddenError ''Only admins or owners can add members'')) (\<lambda>_.
     and_then (on_err (ent_all (fault e ''query target users'') (filter (\<lambda>u. u_id u \<in> set userIDs \<and> u_deleted_at u = None) (users d)))
                (\<lambda>_. internal_error)) (\<lambda>targetUsers.
     and_then (fail_if (length targetUsers \<noteq> length userIDs) (NewNotFoundError ''One or more users not found or deleted'')) (\<lambda>_.
     and_then (fail_if (\<exists>u\<in>set targetUsers. currently_banned (now e) u)
                (NewForbiddenError ''Cannot add suspended/banned user to group'')) (\<lambda>_.
     and_then (on_err (ent_all (fault e ''check existing memberships'')
                  (filter (\<lambda>m. gm_group_chat_id m = gc_id gc \<and> gm_user_id m \<in> set (map u_id targetUsers)) (group_members d)))
                (\<lambda>_. internal_error)) (\<lambda>existingMembers.
     and_then (on_err (ent_exist (fault e ''check block status'') (blocked_with_any d requestorID (map u_id targetUsers))) (\<lambda>_. internal_error)) (\<lambda>blocked.
     and_then (fail_if blocked (NewForbiddenError ''Cannot add a blocked user'')) (\<lambda>_.
     let newMembers = filter (\<lambda>u. u_id u \<notin> set (map gm_user_id existingMembers)) targetUsers in
     and_then (fail_if (newMembers = []) (NewConflictError ''All users are already members'')) (\<lambda>_.
     and_then (checkMemberCapacity e d gc (length newMembers)) (\<lambda>_.
       Inr (requestorMember, newMembers))))))))))))"

text \<open>The responses: the messages read back in the order of their identifiers, the i-th naming the i-th new member.\<close>

definition add_member_responses :: "service \<Rightarrow> env \<Rightarrow> db \<Rightarrow> group_member \<Rightarrow> group_chat \<Rightarrow> user list \<Rightarrow> message list \<Rightarrow> message_response list" where
  "add_member_responses svc e d requestorMember gc newMembers msgs =
     (let memberCount = count_or_zero e d (gc_id gc) in
      if fault e ''full messages'' then [] else
        map (\<lambda>(u, m). put_target_name (Some u)
               ((ToMessageResponse \<lparr>fm_message = m, fm_sender = load_sender d False m, fm_attachments = [], fm_reply_to = None\<rparr>
                  (svc_urls svc) (role_text (gm_role requestorMember)))\<lparr>mr_member_count := Some memberCount\<rparr>))
          (zip newMembers (sort_key m_id (filter (\<lambda>m. m_id m \<in> set (map m_id msgs)) (messages d)))))"

definition AddMember :: "service \<Rightarrow> env \<Rightarrow> bool \<Rightarrow> db \<Rightarrow> uuid \<Rightarrow> uuid \<Rightarrow> uuid list \<Rightarrow>
    app_error + (message_response list \<times> broadcasts \<times> db)" where
  "AddMember svc e valid d requestorID groupID userIDs =
     and_then (fail_if (\<not> valid \<or> length userIDs > MaxGroupMembers) (NewBadRequestError [])) (\<lambda>_.
     and_then (on_err (EnsureUniqueUUIDs userIDs) (\<lambda>_. NewBadRequestError [])) (\<lambda>_.
     and_then (begin_tx e) (\<lambda>_.
     and_then (find_group e d (\<lambda>g. gc_chat_id g = groupID) ''Group chat not found'') (\<lambda>gc.
     and_then (add_member_checks e d requestorID gc userIDs) (\<lambda>(requestorMember, newMembers).
     let n = length newMembers in
     and_then (create_members e d (map (\<lambda>(j, u). new_member e j (gc_id gc) (u_id u) RoleMember) (enumerate 0 newMembers))) (\<lambda>d.
     and_then (post_system e n d (gc_chat_id gc) requestorID
                (map (\<lambda>u. (TypeSystemAdd, Some [(''target_id'', JUuid (u_id u)), (''actor_id'', JUuid requestorID)])) newMembers)) (\<lambda>(msgs, d).
     and_then (commit e) (\<lambda>_.
       let responses = add_member_responses svc e d requestorMember gc newMembers msgs
       in Inr (responses,
               if svc_hub svc \<and> responses \<noteq> [] then map (\<lambda>u. (u_id u, EventChatNew)) newMembers else [],
               d)))))))))"

section \<open>LeaveGroup and KickMember\<close>

definition delete_member :: "group_member \<Rightarrow> db \<Rightarrow> db" where
  "delete_member m d = d\<lparr>group_members := filter (\<lambda>x. gm_id x \<noteq> gm_id m) (group_members d)\<rparr>"

definition LeaveGroup :: "service \<Rightarrow> env \<Rightarrow> db \<Rightarrow> uuid \<Rightarrow> uuid \<Rightarrow> app_error + (message_response option \<times> broadcasts \<times> db)" where
  "LeaveGroup svc e d userID groupID =
     and_then (begin_tx e) (\<lambda>_.
     and_then (find_group e d (\<lambda>g. gc_chat_id g = groupID) ''Group chat not found'') (\<lambda>gc.
     and_then (lockGroupMembership e gc) (\<lambda>_.
     and_then (on_err (find_member e ''query membership'' d (gc_id gc) userID)
                (\<lambda>er. if er = NotFoundError then NewBadRequestError ''You are not a member of this group'' else internal_error)) (\<lambda>member.
     and_then (fail_if (gm_role member = RoleOwner)
                (NewBadRequestError ''Owner cannot leave the group. Please transfer ownership first.'')) (\<lambda>_.
     and_then (fail_if (fault e ''delete member'') internal_error) (\<lambda>_.
     and_then (post_system e 0 (delete_member member d) (gc_chat_id gc) userID [(TypeSystemLeave, None)]) (\<lambda>(msgs, d).
     and_then (commit e) (\<lambda>_.
       Inr (map_option (\<lambda>r. r\<lparr>mr_member_count := Some (count_or_zero e d (gc_id gc))\<rparr>)
              (system_response svc e d (last msgs) (role_text RoleMember)), [], d)))))))))"

definition KickMember :: "service \<Rightarrow> env \<Rightarrow> db \<Rightarrow> uuid \<Rightarrow> uuid \<Rightarrow> uuid \<Rightarrow> app_error + (message_response option \<times> broadcasts \<times> db)" where
  "KickMember svc e d requestorID groupID targetUserID =
     and_then (begin_tx e) (\<lambda>_.
     and_then (find_group e d (\<lambda>g. gc_chat_id g = groupID) ''Group chat not found'') (\<lambda>gc.
     and_then (lockGroupMembership e gc) (\<lambda>_.
     and_then (on_err (find_member e ''query requestor membership'' d (gc_id gc) requestorID)
                (\<lambda>_. NewForbiddenError ''You are not a member of this group'')) (\<lambda>requestorMember.
     and_then (fail_if (gm_role requestorMember = RoleMember) (NewForbiddenError ''Only admins or owners can kick members'')) (\<lambda>_.
     and_then (on_err (find_member e ''query target membership'' d (gc_id gc) targetUserID)
                (\<lambda>_. NewNotFoundError ''Target user is not a member of this group'')) (\<lambda>targetMember.
     and_then (fail_if (gm_user_id targetMember = requestorID) (NewBadRequestError ''Cannot kick yourself'')) (\<lambda>_.
     and_then (fail_if (gm_role requestorMember = RoleAdmin \<and> (gm_role targetMember = RoleAdmin \<or> gm_role targetMember = RoleOwner))
                (NewForbiddenError ''Admins cannot kick other admins or the owner'')) (\<lambda>_.
     and_then (fail_if (fault e ''delete member'') internal_error) (\<lambda>_.
     and_then (post_system e 0 (delete_member targetMember d) (gc_chat_id gc) requestorID
                [(TypeSystemKick, Some [(''target_id'', JUuid (gm_user_id targetMember)), (''actor_id'', JUuid requestorID)])]) (\<lambda>(msgs, d).
     and_then (commit e) (\<lambda>_.
       let resp = map_option (\<lambda>r. put_target_name (user_of d (gm_user_id targetMember))
                    (r\<lparr>mr_member_count := Some (count_or_zero e d (gc_id gc))\<rparr>))
                    (system_response svc e d (last msgs) (role_text (gm_role requestorMember)))
       in Inr (resp, if svc_hub svc \<and> resp \<noteq> None then [(targetUserID, EventChatDelete)] else [], d))))))))))))"

section \<open>Roles\<close>

definition set_role :: "group_member \<Rightarrow> member_role \<Rightarrow> db \<Rightarrow> db" where
  "set_role m role d = d\<lparr>group_members := update_where (\<lambda>x. gm_id x = gm_id m) (\<lambda>x. x\<lparr>gm_role := role\<rparr>) (group_members d)\<rparr>"

text \<open>The role of the request is a string; a value outside the enum of the column makes the update fail.\<close>

definition UpdateMemberRole :: "service \<Rightarrow> env \<Rightarrow> bool \<Rightarrow> db \<Rightarrow> uuid \<Rightarrow> uuid \<Rightarrow> uuid \<Rightarrow> string \<Rightarrow>
    app_error + (message_response option \<times> broadcasts \<times> db)" where
  "UpdateMemberRole svc e valid d requestorID groupID targetUserID role =
     and_then (fail_if (\<not> valid) (NewBadRequestError [])) (\<lambda>_.
     and_then (begin_tx e) (\<lambda>_.
     and_then (find_group e d (\<lambda>g. gc_chat_id g = groupID) ''Group chat not found'') (\<lambda>gc.
     and_then (lockGroupMembership e gc) (\<lambda>_.
     and_then (on_err (find_member e ''query requestor membership'' d (gc_id gc) requestorID)
                (\<lambda>_. NewForbiddenError ''You are not a member of this group'')) (\<lambda>requestorMember.
     and_then (fail_if (gm_role requestorMember \<noteq> RoleOwner) (NewForbiddenError ''Only owner can change member roles'')) (\<lambda>_.
     and_then (on_err (find_member e ''query target membership'' d (gc_id gc) targetUserID)
                (\<lambda>_. NewNotFoundError ''Target user is not a member of this group'')) (\<lambda>targetMember.
     and_then (fail_if (gm_user_id targetMember = requestorID) (NewBadRequestError ''Cannot change your own role'')) (\<lambda>_.
     let target = user_of d (gm_user_id targetMember) in
     and_then (fail_if (case target of None \<Rightarrow> False | Some u \<Rightarrow> u_deleted_at u \<noteq> None)
                (NewBadRequestError ''Cannot change role of a deleted user'')) (\<lambda>_.
     and_then (fail_if (case target of None \<Rightarrow> False | Some u \<Rightarrow> currently_banned (now e) u)
                (NewForbiddenError ''Cannot promote a suspended/banned user'')) (\<lambda>_.
     and_then (fail_if (role_text (gm_role targetMember) = role) (NewBadRequestError ''Target user already has that role'')) (\<lambda>_.
     and_then (case role_of role of None \<Rightarrow> Inl internal_error
               | Some r \<Rightarrow> if fault e ''update role'' then Inl internal_error else Inr r) (\<lambda>newRole.
     and_then (post_system e 0 (set_role targetMember newRole d) (gc_chat_id gc) requestorID
                [(if newRole = RoleMember then TypeSystemDemote else TypeSystemPromote,
                  Some [(''target_id'', JUuid (gm_user_id targetMember)), (''actor_id'', JUuid requestorID), (''new_role'', JStr role)])]) (\<lambda>(msgs, d).
     and_then (commit e) (\<lambda>_.
       Inr (map_option (put_target_name target) (system_response svc e d (last msgs) (role_text RoleOwner)), [], d)))))))))))))))"

definition TransferOwnership :: "service \<Rightarrow> env \<Rightarrow> bool \<Rightarrow> db \<Rightarrow> uuid \<Rightarrow> uuid \<Rightarrow> uuid \<Rightarrow>
    app_error + (message_response option \<times> broadcasts \<times> db)" where
  "TransferOwnership svc e valid d requestorID groupID newOwnerID =
     and_then (fail_if (\<not> valid) (NewBadRequestError [])) (\<lambda>_.
     and_then (fail_if (requestorID = newOwnerID) (NewBadRequestError ''Cannot transfer ownership to yourself'')) (\<lambda>_.
     and_then (begin_tx e) (\<lambda>_.
     and_then (find_group e d (\<lambda>g. gc_chat_id g = groupID) ''Group chat not found'') (\<lambda>gc.
     and_then (lockGroupMembership e gc) (\<lambda>_.
     and_then (on_err (find_member e ''query requestor membership'' d (gc_id gc) requestorID)
                (\<lambda>_. NewForbiddenError ''You are not a member of this group'')) (\<lambda>requestorMember.
     and_then (fail_if (gm_role requestorMember \<noteq> RoleOwner) (NewForbiddenError ''Only owner can transfer ownership'')) (\<lambda>_.
     and_then (on_err (find_member e ''query target membership'' d (gc_id gc) newOwnerID)
                (\<lambda>_. NewNotFoundError ''Target user is not a member of this group'')) (\<lambda>targetMember.
     and_then (fail_if (gm_role targetMember = RoleOwner) (NewBadRequestError ''Target user is already the owner'')) (\<lambda>_.
     let target = user_of d (gm_user_id targetMember) in
     and_then (fail_if (case target of None \<Rightarrow> False | Some u \<Rightarrow> u_deleted_at u \<noteq> None)
                (NewBadRequestError ''Cannot transfer ownership to a deleted user'')) (\<lambda>_.
     and_then (fail_if (case target of None \<Rightarrow> False | Some u \<Rightarrow> currently_banned (now e) u)
                (NewForbiddenError ''Cannot transfer ownership to a suspended/banned user'')) (\<lambda>_.
     and_then (fail_if (fault e ''demote old owner'' \<or> fault e ''promote new owner'') internal_error) (\<lambda>_.
     and_then (post_system e 0 (set_role targetMember RoleOwner (set_role requestorMember RoleAdmin d)) (gc_chat_id gc) requestorID
                [(TypeSystemPromote, Some [(''target_id'', JUuid (gm_user_id targetMember)), (''actor_id'', JUuid requestorID),
                   (''new_role'', JStr ''owner''), (''action'', JStr ''ownership_transferred'')])]) (\<lambda>(msgs, d).
     and_then (commit e) (\<lambda>_.
       Inr (map_option (put_target_name target) (system_response svc e d (last msgs) (role_text RoleOwner)), [], d)))))))))))))))"

section \<open>Joining\<close>

text \<open>The part the two ways of joining share, after the group was found and admits the user.\<close>

definition join_group :: "service \<Rightarrow> env \<Rightarrow> db \<Rightarrow> uuid \<Rightarrow> group_chat \<Rightarrow> app_error + (message_response option \<times> nat \<times> db)" where
  "join_group svc e d userID gc =
     and_then (lockGroupMembership e gc) (\<lambda>_.
     and_then (on_err (ent_exist (fault e ''check membership'')
                  (filter (\<lambda>m. gm_group_chat_id m = gc_id gc \<and> gm_user_id m = userID) (group_members d))) (\<lambda>_. internal_error)) (\<lambda>isMember.
     and_then (fail_if isMember (NewConflictError ''You are already a member of this group'')) (\<lambda>_.
     and_then (checkMemberCapacity e d gc 1) (\<lambda>_.
     and_then (create_members e d [new_member e 0 (gc_id gc) userID RoleMember]) (\<lambda>d.
     and_then (post_system e 1 d (gc_chat_id gc) userID [(TypeSystemJoin, None)]) (\<lambda>(msgs, d).
     and_then (commit e) (\<lambda>_.
       let memberCount = count_or_zero e d (gc_id gc) in
       Inr (map_option (\<lambda>r. r\<lparr>mr_member_count := Some memberCount\<rparr>) (system_response svc e d (last msgs) (role_text RoleMember)),
            memberCount, d))))))))"

definition joined_response :: "service \<Rightarrow> db \<Rightarrow> group_chat \<Rightarrow> bool \<Rightarrow> message_response option \<Rightarrow> nat \<Rightarrow> chat_list_response" where
  "joined_response svc d gc showCode msgResponse memberCount =
     zero_chat_response\<lparr>cl_id := gc_chat_id gc, cl_type := chat_type_text TypeGroup, cl_name := gc_name gc, cl_is_public := Some (gc_is_public gc),
      cl_invite_code := (if showCode then Some (gc_invite_code gc) else None),
      cl_avatar := avatar_url svc d gc, cl_last_message := msgResponse, cl_unread_count := 0,
      cl_my_role := Some (role_text RoleMember), cl_member_count := memberCount\<rparr>"

definition JoinGroupByInvite :: "service \<Rightarrow> env \<Rightarrow> db \<Rightarrow> uuid \<Rightarrow> string \<Rightarrow> app_error + (chat_list_response \<times> broadcasts \<times> db)" where
  "JoinGroupByInvite svc e d userID inviteCode =
     and_then (begin_tx e) (\<lambda>_.
     and_then (find_group e d (\<lambda>g. gc_invite_code g = inviteCode) ''Invalid invite code'') (\<lambda>gc.
     and_then (fail_if (case gc_invite_expires_at gc of None \<Rightarrow> False | Some x \<Rightarrow> now e > x) (NewBadRequestError ''Invite code has expired'')) (\<lambda>_.
     and_then (join_group svc e d userID gc) (\<lambda>(resp, memberCount, d).
       Inr (joined_response svc d gc (gc_is_public gc) resp memberCount,
            if svc_hub svc then [(userID, EventChatNew)] else [], d)))))"

definition JoinPublicGroup :: "service \<Rightarrow> env \<Rightarrow> db \<Rightarrow> uuid \<Rightarrow> uuid \<Rightarrow> app_error + (chat_list_response \<times> broadcasts \<times> db)" where
  "JoinPublicGroup svc e d userID groupID =
     and_then (begin_tx e) (\<lambda>_.
     and_then (find_group e d (\<lambda>g. gc_chat_id g = groupID) ''Group chat not found'') (\<lambda>gc.
     and_then (fail_if (\<not> gc_is_public gc) (NewForbiddenError ''This group is private. You must be added by an admin.'')) (\<lambda>_.
     and_then (join_group svc e d userID gc) (\<lambda>(resp, memberCount, d).
       Inr (joined_response svc d gc True resp memberCount,
            if svc_hub svc \<and> resp \<noteq> None then [(userID, EventChatNew)] else [], d)))))"

end
