(* ===== verification/Group_Chats.thy ===== *)
theory Group_Chats
  imports Group_Members
begin

text \<open>
  Groups themselves: \<^verbatim>\<open>group_chat_service.go\<close> (\<open>CreateGroupChat\<close>, \<open>UpdateGroupChat\<close>,
  \<open>DeleteGroup\<close>) and the invite codes of \<^verbatim>\<open>group_invite_service.go\<close> (\<open>ResetInviteCode\<close>,
  \<open>GetGroupByInviteCode\<close>).
\<close>

abbreviation (input) week :: duration where "week \<equiv> 7 * 24 * 3600000000000"

section \<open>Writing a group row\<close>

text \<open>
  The entity client validates a name on its bytes (\<open>MaxLen(100)\<close>, \<open>NotEmpty\<close>) whenever it is
  set, and the invite code is unique.
\<close>

definition group_name_ok :: "string \<Rightarrow> bool" where
  "group_name_ok name \<longleftrightarrow> name \<noteq> [] \<and> length name \<le> 100"

definition invite_code_free :: "db \<Rightarrow> group_chat \<Rightarrow> bool" where
  "invite_code_free d gc \<longleftrightarrow> \<not> (\<exists>g\<in>set (group_chats d). gc_id g \<noteq> gc_id gc \<and> gc_invite_code g = gc_invite_code gc)"

definition save_group :: "env \<Rightarrow> string \<Rightarrow> bool \<Rightarrow> db \<Rightarrow> group_chat \<Rightarrow> app_error + db" where
  "save_group e site renamed d gc =
     (if fault e site \<or> (renamed \<and> \<not> group_name_ok (gc_name gc)) \<or> \<not> invite_code_free d gc then Inl internal_error
      else Inr (d\<lparr>group_chats := update_where (\<lambda>g. gc_id g = gc_id gc) (\<lambda>_. gc) (group_chats d)\<rparr>))"

definition create_group_row :: "env \<Rightarrow> db \<Rightarrow> group_chat \<Rightarrow> app_error + db" where
  "create_group_row e d gc =
     (if fault e ''create group chat'' \<or> \<not> group_name_ok (gc_name gc) \<or> \<not> invite_code_free d gc then Inl internal_error
      else Inr (d\<lparr>group_chats := group_chats d @ [gc]\<rparr>))"

text \<open>A completed group avatar of the uploader that nothing else uses.\<close>

definition usable_group_avatar :: "db \<Rightarrow> uuid \<Rightarrow> uuid \<Rightarrow> media list" where
  "usable_group_avatar d uploader mid = filter (\<lambda>m. md_id m = mid \<and> md_category m = CategoryGroupAvatar \<and>
     md_upload_status m = UploadStatusCompleted \<and> md_uploaded_by_id m = Some uploader \<and>
     (\<exists>u\<in>set (users d). u_id u = uploader) \<and>
     \<not> (\<exists>u\<in>set (users d). u_avatar_id u = Some (md_id m)) \<and> \<not> (\<exists>g\<in>set (group_chats d). gc_avatar_id g = Some (md_id m)) \<and>
     md_message_id m = None) (medias d)"

definition find_group_avatar :: "env \<Rightarrow> db \<Rightarrow> uuid \<Rightarrow> uuid \<Rightarrow> app_error + media" where
  "find_group_avatar e d uploader mid = on_err (ent_only (fault e ''query avatar'') (usable_group_avatar d uploader mid))
     (\<lambda>er. if er = NotFoundError then NewBadRequestError ''Invalid avatar media'' else internal_error)"

section \<open>CreateGroupChat\<close>

record create_group_request =
  cg_name :: string
  cg_description :: string
  cg_member_ids :: "uuid list"
  cg_avatar_media_id :: "uuid option"
  cg_is_public :: bool

definition create_group_checks :: "env \<Rightarrow> (create_group_request \<Rightarrow> bool) \<Rightarrow> db \<Rightarrow> uuid \<Rightarrow> create_group_request \<Rightarrow> app_error + user list" where
  "create_group_checks e valid d creatorID req =
     and_then (fail_if (\<not> valid req) (NewBadRequestError [])) (\<lambda>_.
     and_then (fail_if (length (cg_member_ids req) \<ge> MaxGroupMembers) (NewBadRequestError [])) (\<lambda>_.
     and_then (on_err (EnsureUniqueUUIDs (cg_member_ids req)) (\<lambda>_. NewBadRequestError [])) (\<lambda>_.
     and_then (on_err (ent_all (fault e ''query users'') (filter (\<lambda>u. u_id u \<in> set (cg_member_ids req) \<and> u_deleted_at u = None) (users d)))
                (\<lambda>_. internal_error)) (\<lambda>us.
     and_then (fail_if (length us \<noteq> length (cg_member_ids req)) (NewBadRequestError ''One or more members not found or deleted.'')) (\<lambda>_.
     and_then (case find (\<lambda>u. u_id u = creatorID \<or> currently_banned (now e) u) us of
                 None \<Rightarrow> Inr ()
               | Some u \<Rightarrow> Inl (if u_id u = creatorID then NewBadRequestError ''Cannot add yourself to the member list.''
                               else NewForbiddenError ''Cannot add suspended/banned user to group'')) (\<lambda>_.
     and_then (on_err (ent_exist (fault e ''check block status'') (blocked_with_any d creatorID (map u_id us))) (\<lambda>_. internal_error)) (\<lambda>blocked.
     and_then (fail_if blocked (NewForbiddenError ''Cannot create a group with a blocked user.'')) (\<lambda>_.
       Inr us))))))))"

definition CreateGroupChat :: "service \<Rightarrow> env \<Rightarrow> (create_group_request \<Rightarrow> bool) \<Rightarrow> db \<Rightarrow> uuid \<Rightarrow> create_group_request \<Rightarrow>
    app_error + (chat_list_response \<times> broadcasts \<times> db)" where
  "CreateGroupChat svc e valid d creatorID req =
     (let req = req\<lparr>cg_name := TrimSpace (cg_name req), cg_description := TrimSpace (cg_description req)\<rparr> in
     and_then (create_group_checks e valid d creatorID req) (\<lambda>us.
     and_then (begin_tx e) (\<lambda>_.
     and_then (case cg_avatar_media_id req of None \<Rightarrow> Inr None
               | Some mid \<Rightarrow> and_then (find_group_avatar e d creatorID mid) (\<lambda>m. Inr (Some m))) (\<lambda>avatarMedia.
     and_then (fail_if (fault e ''create chat'') internal_error) (\<lambda>_.
     and_then (case svc_random svc 0 of None \<Rightarrow> Inl internal_error | Some c \<Rightarrow> Inr c) (\<lambda>inviteCode.
     let newChat = \<lparr>c_id = newid e 0, c_type = TypeGroup, c_last_message_id = None, c_last_message_at = None,
           c_deleted_at = None, c_created_at = now e\<rparr>;
         newGroupChat = \<lparr>gc_id = newid e 1, gc_chat_id = newid e 0, gc_created_by = Some creatorID, gc_name = cg_name req,
           gc_description = Some (cg_description req), gc_avatar_id = map_option md_id avatarMedia, gc_is_public = cg_is_public req,
           gc_invite_code = inviteCode, gc_invite_expires_at = (if cg_is_public req then None else Some (now e + week))\<rparr>;
         n = length us in
     and_then (create_group_row e (d\<lparr>chats := chats d @ [newChat]\<rparr>) newGroupChat) (\<lambda>d.
     and_then (create_members e d (new_member e 2 (newid e 1) creatorID RoleOwner #
                 map (\<lambda>(j, u). new_member e (3 + j) (newid e 1) (u_id u) RoleMember) (enumerate 0 us))) (\<lambda>d.
     and_then (post_system e (3 + n) d (newid e 0) creatorID [(TypeSystemCreate, Some [(''initial_name'', JStr (cg_name req))])]) (\<lambda>(msgs, d).
     and_then (commit e) (\<lambda>_.
       Inr (zero_chat_response\<lparr>cl_id := newid e 0, cl_type := chat_type_text TypeGroup, cl_name := gc_name newGroupChat, cl_description := gc_description newGroupChat,
             cl_is_public := Some (gc_is_public newGroupChat), cl_invite_code := Some inviteCode,
             cl_invite_expires_at := map_option RFC3339 (gc_invite_expires_at newGroupChat),
             cl_avatar := (case avatarMedia of None \<Rightarrow> [] | Some m \<Rightarrow> GetPublicURL (svc_urls svc) (md_file_name m)),
             cl_last_message := system_response svc e d (last msgs) (role_text RoleOwner), cl_unread_count := 0,
             cl_my_role := Some (role_text RoleOwner), cl_member_count := n + 1\<rparr>,
            if svc_hub svc then map (\<lambda>i. (i, EventChatNew)) (map u_id us @ [creatorID]) else [], d)))))))))))"

section \<open>UpdateGroupChat\<close>

record update_group_request =
  ug_name :: "string option"
  ug_description :: "string option"
  ug_avatar_media_id :: "uuid option"
  ug_is_public :: "bool option"
  ug_delete_avatar :: bool

type_synonym group_edit = "group_chat \<times> (message_type \<times> json_object option) list"

definition edit_name :: "update_group_request \<Rightarrow> group_edit \<Rightarrow> group_edit" where
  "edit_name req ge = (case ge of (gc, specs) \<Rightarrow>
     (case ug_name req of
        None \<Rightarrow> ge
      | Some n \<Rightarrow> if n = gc_name gc then ge
                 else (gc\<lparr>gc_name := n\<rparr>, specs @ [(TypeSystemRename, Some [(''old_name'', JStr (gc_name gc)), (''new_name'', JStr n)])])))"

definition edit_description :: "update_group_request \<Rightarrow> group_edit \<Rightarrow> group_edit" where
  "edit_description req ge = (case ge of (gc, specs) \<Rightarrow>
     (case ug_description req of
        None \<Rightarrow> ge
      | Some x \<Rightarrow>
         let oldDesc = (case gc_description gc of None \<Rightarrow> [] | Some o' \<Rightarrow> o') in
         if x = oldDesc then ge
         else (gc\<lparr>gc_description := Some x\<rparr>,
               specs @ [(TypeSystemDescription, Some [(''old_description'', JStr oldDesc), (''new_description'', JStr x)])])))"

definition edit_visibility :: "service \<Rightarrow> env \<Rightarrow> update_group_request \<Rightarrow> group_edit \<Rightarrow> app_error + group_edit" where
  "edit_visibility svc e req ge = (case ge of (gc, specs) \<Rightarrow>
     (case ug_is_public req of
        None \<Rightarrow> Inr ge
      | Some p \<Rightarrow>
         if p = gc_is_public gc then Inr ge
         else if p then
           Inr (gc\<lparr>gc_is_public := True, gc_invite_expires_at := None\<rparr>,
                specs @ [(TypeSystemVisibility, Some [(''new_visibility'', JStr ''public'')])])
         else (case svc_random svc 0 of
                 None \<Rightarrow> Inl internal_error
               | Some code \<Rightarrow>
                   Inr (gc\<lparr>gc_is_public := False, gc_invite_code := code, gc_invite_expires_at := Some (now e + week)\<rparr>,
                        specs @ [(TypeSystemVisibility, Some [(''new_visibility'', JStr ''private'')])]))))"

definition edit_avatar :: "env \<Rightarrow> db \<Rightarrow> uuid \<Rightarrow> update_group_request \<Rightarrow> group_edit \<Rightarrow> app_error + group_edit" where
  "edit_avatar e d requestorID req ge = (case ge of (gc, specs) \<Rightarrow>
     if ug_delete_avatar req \<and> Option.bind (gc_avatar_id gc) (media_of d) \<noteq> None then
       Inr (gc\<lparr>gc_avatar_id := None\<rparr>, specs @ [(TypeSystemAvatar, Some [(''action'', JStr ''removed'')])])
     else (case ug_avatar_media_id req of
             None \<Rightarrow> Inr ge
           | Some mid \<Rightarrow>
               and_then (find_group_avatar e d requestorID mid) (\<lambda>m.
                 Inr (gc\<lparr>gc_avatar_id := Some (md_id m)\<rparr>, specs @ [(TypeSystemAvatar, Some [(''action'', JStr ''updated'')])]))))"

text \<open>
  Saving the edits with their system messages. An error of the outer sum rolls the transaction back.
  After the commit the group is read again for the response, and a failure there is reported although
  the change is stored: the inner sum.
\<close>

definition apply_group_edit :: "service \<Rightarrow> env \<Rightarrow> db \<Rightarrow> uuid \<Rightarrow> member_role \<Rightarrow> group_chat \<Rightarrow> group_edit \<Rightarrow>
    app_error + ((app_error + chat_list_response) \<times> broadcasts \<times> db)" where
  "apply_group_edit svc e d requestorID requestorRole gc ge = (case ge of (gc', specs) \<Rightarrow>
     if specs = [] then
       Inr (Inr (buildGroupChatListResponse svc d gc (Some requestorRole) None (count_or_zero e d (gc_id gc))), [], d)
     else
     and_then (save_group e ''update group chat'' (gc_name gc' \<noteq> gc_name gc) d gc') (\<lambda>d.
     and_then (post_system e 0 d (gc_chat_id gc) requestorID specs) (\<lambda>(msgs, d).
     and_then (commit e) (\<lambda>_.
       Inr (if fault e ''fetch updated group'' then Inl internal_error
            else Inr (buildGroupChatListResponse svc d gc' (Some requestorRole)
                        (getGroupLastMessageResponse svc e d (gc_chat_id gc)) (count_or_zero e d (gc_id gc))),
            if svc_hub svc \<and> \<not> fault e ''broadcast'' then
              map (\<lambda>m. (gm_user_id m, EventChatUpdate)) (filter (\<lambda>m. gm_group_chat_id m = gc_id gc) (group_members d)) else [],
            d)))))"

definition UpdateGroupChat :: "service \<Rightarrow> env \<Rightarrow> (update_group_request \<Rightarrow> bool) \<Rightarrow> db \<Rightarrow> uuid \<Rightarrow> uuid \<Rightarrow> update_group_request \<Rightarrow> bool \<Rightarrow>
    app_error + ((app_error + chat_list_response) \<times> broadcasts \<times> db)" where
  "UpdateGroupChat svc e valid d requestorID groupID req isAdmin =
     (let req = req\<lparr>ug_name := map_option TrimSpace (ug_name req), ug_description := map_option TrimSpace (ug_description req)\<rparr> in
     and_then (fail_if (\<not> valid req) (NewBadRequestError [])) (\<lambda>_.
     and_then (begin_tx e) (\<lambda>_.
     and_then (find_group e d (\<lambda>g. gc_chat_id g = groupID) ''Group chat not found'') (\<lambda>gc.
     and_then (if isAdmin then Inr RoleOwner
               else and_then (on_err (find_member e ''query requestor membership'' d (gc_id gc) requestorID)
                       (\<lambda>er. if er = NotFoundError then NewForbiddenError ''You are not a member of this group'' else internal_error)) (\<lambda>m.
                     if gm_role m \<noteq> RoleOwner \<and> gm_role m \<noteq> RoleAdmin
                     then Inl (NewForbiddenError ''Only admins or owners can update group info'') else Inr (gm_role m))) (\<lambda>requestorRole.
     and_then (edit_visibility svc e req (edit_description req (edit_name req (gc, [])))) (\<lambda>ge.
     and_then (edit_avatar e d requestorID req ge) (\<lambda>ge.
       apply_group_edit svc e d requestorID requestorRole gc ge)))))))"

section \<open>DeleteGroup\<close>

definition DeleteGroup :: "service \<Rightarrow> env \<Rightarrow> db \<Rightarrow> uuid \<Rightarrow> uuid \<Rightarrow> bool \<Rightarrow> app_error + (broadcasts \<times> db)" where
  "DeleteGroup svc e d userID groupID isAdmin =
     and_then (begin_tx e) (\<lambda>_.
     and_then (find_group e d (\<lambda>g. gc_chat_id g = groupID) ''Group chat not found'') (\<lambda>gc.
     and_then (if isAdmin then Inr ()
               else and_then (on_err (find_member e ''query requestor membership'' d (gc_id gc) userID)
                       (\<lambda>er. if er = NotFoundError then NewForbiddenError ''You are not a member of this group'' else internal_error)) (\<lambda>m.
                     fail_if (gm_role m \<noteq> RoleOwner) (NewForbiddenError ''Only owner can delete the group''))) (\<lambda>_.
     and_then (fail_if (fault e ''soft delete chat'') internal_error) (\<lambda>_.
     and_then (commit e) (\<lambda>_.
       let d = d\<lparr>chats := update_where (\<lambda>c. c_id c = groupID) (\<lambda>c. c\<lparr>c_deleted_at := Some (now e)\<rparr>) (chats d)\<rparr> in
       Inr (if svc_hub svc \<and> \<not> fault e ''fetch members'' then
              map (\<lambda>m. (gm_user_id m, EventChatDelete)) (filter (\<lambda>m. gm_group_chat_id m = gc_id gc) (group_members d)) else [],
            d))))))"

section \<open>Invite codes\<close>

definition ResetInviteCode :: "service \<Rightarrow> env \<Rightarrow> db \<Rightarrow> uuid \<Rightarrow> uuid \<Rightarrow>
    app_error + ((string \<times> stamp option) \<times> broadcasts \<times> db)" where
  "ResetInviteCode svc e d userID groupID =
     and_then (find_group e d (\<lambda>g. gc_chat_id g = groupID) ''Group not found'') (\<lambda>gc.
     and_then (on_err (find_member e ''query membership'' d (gc_id gc) userID)
                (\<lambda>_. NewForbiddenError ''You are not a member of this group'')) (\<lambda>member.
     and_then (fail_if (gm_role member \<noteq> RoleOwner \<and> gm_role member \<noteq> RoleAdmin) (NewForbiddenError ''Only admins can reset invite code'')) (\<lambda>_.
     and_then (case svc_random svc 0 of None \<Rightarrow> Inl internal_error | Some c \<Rightarrow> Inr c) (\<lambda>newCode.
     let expiresAt = (if gc_is_public gc then None else Some (now e + week)) in
     and_then (save_group e ''reset invite code'' False d (gc\<lparr>gc_invite_code := newCode, gc_invite_expires_at := expiresAt\<rparr>)) (\<lambda>d.
       Inr ((newCode, map_option RFC3339 expiresAt),
            if svc_hub svc \<and> \<not> fault e ''broadcast'' then
              map (\<lambda>m. (gm_user_id m, EventChatUpdate)) (filter (\<lambda>m. gm_group_chat_id m = gc_id gc \<and>
                (gc_is_public gc \<or> elevated (Some (gm_role m)))) (group_members d)) else [],
            d))))))"

record group_preview =
  gp_id :: uuid
  gp_name :: string
  gp_description :: string
  gp_avatar :: string
  gp_member_count :: nat
  gp_is_public :: bool

definition GetGroupByInviteCode :: "service \<Rightarrow> env \<Rightarrow> db \<Rightarrow> string \<Rightarrow> app_error + group_preview" where
  "GetGroupByInviteCode svc e d inviteCode =
     and_then (find_group e d (\<lambda>g. gc_invite_code g = inviteCode) ''Invalid invite code'') (\<lambda>gc.
     and_then (fail_if (case gc_invite_expires_at gc of None \<Rightarrow> False | Some x \<Rightarrow> now e > x) (NewBadRequestError ''Invite code has expired'')) (\<lambda>_.
       Inr \<lparr>gp_id = gc_chat_id gc, gp_name = gc_name gc, gp_description = (case gc_description gc of None \<Rightarrow> [] | Some x \<Rightarrow> x),
            gp_avatar = avatar_url svc d gc, gp_member_count = count_or_zero e d (gc_id gc), gp_is_public = gc_is_public gc\<rparr>))"

end
