(* ===== verification/Group_Laws.thy ===== *)
theory Group_Laws
  imports Group_Chats Samples
begin

text \<open>
  What the group services keep: in every group exactly one owner, one membership per user and at most
  one hundred live members, along every run of the handlers; and that a change of membership is always
  written together with its system message and the outbox row that announces it.
\<close>

section \<open>What a handler does\<close>

lemma case_prod_Inr: "(case p of (a, b) \<Rightarrow> f a b) = Inr y \<longleftrightarrow> (\<exists>a b. p = (a, b) \<and> f a b = Inr y)"
  by (cases p) simp

lemma opt_role_Inr:
  "(case o' of None \<Rightarrow> Inl internal_error | Some r \<Rightarrow> if b then Inl internal_error else Inr r) = Inr x \<longleftrightarrow> o' = Some x \<and> \<not> b"
  by (cases o') auto

lemmas handler_simps = result_simps case_prod_Inr Let_def sum.inject prod.inject

definition fresh_row :: "message_outbox \<Rightarrow> bool" where
  "fresh_row r \<longleftrightarrow> ob_published_at r = None \<and> ob_dead_lettered_at r = None \<and> ob_lock_token r = None"

lemma PersistMessageOutboxes_Inr:
  assumes "PersistMessageOutboxes e k d msgs ty s = Inr d'"
  shows "\<exists>rows. d' = d\<lparr>outbox := outbox d @ rows\<rparr> \<and> map ob_message_id rows = map m_id msgs \<and>
    map ob_chat_id rows = map m_chat_id msgs \<and> (\<forall>r\<in>set rows. ob_event_type r = ty \<and> ob_sender_id r = Some s \<and> fresh_row r)"
  using assms
proof (induction msgs arbitrary: k d)
  case Nil
  then show ?case by (intro exI [of _ "[]"]) simp
next
  case (Cons m msgs)
  from Cons.prems obtain d1 where d1: "PersistMessageOutbox e k d m ty s = Inr d1"
    and rest: "PersistMessageOutboxes e (Suc k) d1 msgs ty s = Inr d'"
    by (auto simp: and_then_Inr)
  let ?row = "new_outbox e k m ty s (Some (outbox_row_payload e m ty))"
  from d1 have eq: "d1 = d\<lparr>outbox := outbox d @ [?row]\<rparr>" by (simp add: PersistMessageOutbox_Inr)
  from Cons.IH [OF rest] obtain rows where rows: "d' = d1\<lparr>outbox := outbox d1 @ rows\<rparr>" "map ob_message_id rows = map m_id msgs"
    "map ob_chat_id rows = map m_chat_id msgs" "\<forall>r\<in>set rows. ob_event_type r = ty \<and> ob_sender_id r = Some s \<and> fresh_row r"
    by blast
  then show ?case
    by (intro exI [of _ "?row # rows"]) (simp add: eq new_outbox_def fresh_row_def)
qed

definition posted :: "db \<Rightarrow> db \<Rightarrow> uuid \<Rightarrow> uuid \<Rightarrow> message_type list \<Rightarrow> bool" where
  "posted d d' chatID senderID types \<longleftrightarrow> (\<exists>msgs rows.
     messages d' = messages d @ msgs \<and> outbox d' = outbox d @ rows \<and> map m_type msgs = types \<and>
     map ob_message_id rows = map m_id msgs \<and>
     (\<forall>m\<in>set msgs. m_chat_id m = chatID \<and> m_sender_id m = Some senderID) \<and>
     (\<forall>r\<in>set rows. ob_chat_id r = chatID \<and> ob_event_type r = EventMessageNew \<and> ob_sender_id r = Some senderID \<and>
        fresh_row r))"

text \<open>The tables the group handlers may change, apart from chats, messages and outbox.\<close>

definition same_members :: "db \<Rightarrow> db \<Rightarrow> bool" where
  "same_members d d' \<longleftrightarrow> group_members d' = group_members d \<and> group_chats d' = group_chats d \<and> users d' = users d \<and> chat_live d' = chat_live d"

lemma chat_live_update:
  assumes "\<And>c. c_id (f c) = c_id c" and "\<And>c. c_deleted_at (f c) = c_deleted_at c"
  shows "chat_live (d\<lparr>chats := update_where P f cs\<rparr>) = chat_live (d\<lparr>chats := cs\<rparr>)"
proof -
  have "c_id (if P c then f c else c) = c_id c" "c_deleted_at (if P c then f c else c) = c_deleted_at c" for c using assms by simp_all
  then show ?thesis by (intro ext) (simp add: chat_live_def bex_update_where)
qed

lemma chat_live_chats: "chats d' = chats d \<Longrightarrow> chat_live d' = chat_live d"
  by (rule ext) (simp add: chat_live_def)

lemma chat_live_set_last_message: "chats d1 = chats d \<Longrightarrow> chat_live (set_last_message c m d1) = chat_live d"
  unfolding set_last_message_def by (subst chat_live_update) (auto intro: chat_live_chats)

lemma post_system_Inr:
  assumes "post_system e k d c s specs = Inr (msgs, d')"
  shows "same_members d d'" and "posted d d' c s (map fst specs)"
proof -
  let ?msgs = "map (\<lambda>(j, ty, action). new_message e (k + j) c s ty action) (enumerate 0 specs)"
  obtain d1 where d1: "PersistMessageOutboxes e (k + length specs) (d\<lparr>messages := messages d @ ?msgs\<rparr>) ?msgs EventMessageNew s = Inr d1"
    and d': "d' = set_last_message c (last ?msgs) d1"
    using assms by (auto simp: post_system_def Let_def result_simps)
  obtain rows where rows: "d1 = d\<lparr>messages := messages d @ ?msgs, outbox := outbox d @ rows\<rparr>"
    "map ob_message_id rows = map m_id ?msgs" "map ob_chat_id rows = map m_chat_id ?msgs"
    "\<forall>r\<in>set rows. ob_event_type r = EventMessageNew \<and> ob_sender_id r = Some s \<and> fresh_row r"
    using PersistMessageOutboxes_Inr [OF d1] by auto
  show "same_members d d'" by (simp add: same_members_def d' chat_live_set_last_message rows(1)) (simp add: set_last_message_def)
  have types: "map m_type ?msgs = map fst specs"
    by (induction specs rule: rev_induct) (auto simp: new_message_def enumerate_append_eq split: prod.split)
  have chat: "\<forall>m\<in>set ?msgs. m_chat_id m = c \<and> m_sender_id m = Some s" by (auto simp: new_message_def)
  have "ob_chat_id r = c" if "r \<in> set rows" for r
  proof -
    have "ob_chat_id r \<in> set (map m_chat_id ?msgs)" using that unfolding rows(3) [symmetric] by simp
    with chat show ?thesis by auto
  qed
  with rows types chat show "posted d d' c s (map fst specs)"
    unfolding posted_def by (intro exI [of _ ?msgs] exI [of _ rows]) (simp add: d' set_last_message_def)
qed

lemma find_group_Inr:
  assumes "find_group e d P nf = Inr g"
  shows "g \<in> set (group_chats d)" and "P g" and "chat_live d (gc_chat_id g)"
proof -
  have "filter (\<lambda>g. P g \<and> chat_live d (gc_chat_id g)) (group_chats d) = [g]"
    using assms by (simp add: find_group_def result_simps)
  then have "g \<in> set (filter (\<lambda>g. P g \<and> chat_live d (gc_chat_id g)) (group_chats d))" by simp
  then show "g \<in> set (group_chats d)" "P g" "chat_live d (gc_chat_id g)" by simp_all
qed

lemma find_member_Inr:
  assumes "find_member e site d gid uid = Inr m"
  shows "m \<in> set (group_members d)" and "gm_group_chat_id m = gid" and "gm_user_id m = uid"
proof -
  have "filter (\<lambda>m. gm_group_chat_id m = gid \<and> gm_user_id m = uid) (group_members d) = [m]"
    using assms by (simp add: find_member_def result_simps)
  then have "m \<in> set (filter (\<lambda>m. gm_group_chat_id m = gid \<and> gm_user_id m = uid) (group_members d))" by simp
  then show "m \<in> set (group_members d)" "gm_group_chat_id m = gid" "gm_user_id m = uid" by simp_all
qed

lemma posted_cong: "messages d1 = messages d \<Longrightarrow> outbox d1 = outbox d \<Longrightarrow> posted d1 d' c s ts \<Longrightarrow> posted d d' c s ts"
  by (simp add: posted_def)

lemma edit_frames [simp]:
  "messages (delete_member m d) = messages d" "outbox (delete_member m d) = outbox d"
  "messages (set_role m r d) = messages d" "outbox (set_role m r d) = outbox d"
  "users (delete_member m d) = users d" "group_chats (delete_member m d) = group_chats d"
  "users (set_role m r d) = users d" "group_chats (set_role m r d) = group_chats d"
  "chats (delete_member m d) = chats d" "chats (set_role m r d) = chats d"
  by (simp_all add: delete_member_def set_role_def)

lemma LeaveGroup_Inr:
  assumes "LeaveGroup svc e d uid gid = Inr (resp, bc, d')"
  obtains gc m where "gc \<in> set (group_chats d)" "gc_chat_id gc = gid" "m \<in> set (group_members d)"
    "gm_group_chat_id m = gc_id gc" "gm_user_id m = uid" "gm_role m \<noteq> RoleOwner"
    "same_members (delete_member m d) d'" "posted d d' gid uid [TypeSystemLeave]"
proof -
  from assms obtain gc m msgs where g: "find_group e d (\<lambda>g. gc_chat_id g = gid) ''Group chat not found'' = Inr gc"
    and m: "find_member e ''query membership'' d (gc_id gc) uid = Inr m" and role: "gm_role m \<noteq> RoleOwner"
    and post: "post_system e 0 (delete_member m d) (gc_chat_id gc) uid [(TypeSystemLeave, None)] = Inr (msgs, d')"
    unfolding LeaveGroup_def by (auto simp only: handler_simps)
  note fg = find_group_Inr [OF g] and fm = find_member_Inr [OF m] and ps = post_system_Inr [OF post]
  have "posted (delete_member m d) d' gid uid [TypeSystemLeave]" using ps(2) fg(2) by simp
  then have "posted d d' gid uid [TypeSystemLeave]" by (rule posted_cong [rotated 2]) simp_all
  from fg(1,2) fm role ps(1) this show thesis by (rule that)
qed

lemma KickMember_Inr:
  assumes "KickMember svc e d rid gid tid = Inr (resp, bc, d')"
  obtains gc rm tm where "gc \<in> set (group_chats d)" "gc_chat_id gc = gid"
    "rm \<in> set (group_members d)" "gm_group_chat_id rm = gc_id gc" "gm_user_id rm = rid" "gm_role rm \<noteq> RoleMember"
    "tm \<in> set (group_members d)" "gm_group_chat_id tm = gc_id gc" "gm_user_id tm = tid" "tid \<noteq> rid"
    "gm_role rm = RoleAdmin \<Longrightarrow> gm_role tm = RoleMember"
    "same_members (delete_member tm d) d'" "posted d d' gid rid [TypeSystemKick]"
proof -
  from assms obtain gc rm tm msgs where g: "find_group e d (\<lambda>g. gc_chat_id g = gid) ''Group chat not found'' = Inr gc"
    and rm: "find_member e ''query requestor membership'' d (gc_id gc) rid = Inr rm" and r1: "gm_role rm \<noteq> RoleMember"
    and tm: "find_member e ''query target membership'' d (gc_id gc) tid = Inr tm" and ne: "gm_user_id tm \<noteq> rid"
    and adm: "\<not> (gm_role rm = RoleAdmin \<and> (gm_role tm = RoleAdmin \<or> gm_role tm = RoleOwner))"
    and post: "post_system e 0 (delete_member tm d) (gc_chat_id gc) rid
       [(TypeSystemKick, Some [(''target_id'', JUuid (gm_user_id tm)), (''actor_id'', JUuid rid)])] = Inr (msgs, d')"
    unfolding KickMember_def by (auto simp only: handler_simps)
  note fg = find_group_Inr [OF g] and fr = find_member_Inr [OF rm] and ft = find_member_Inr [OF tm] and ps = post_system_Inr [OF post]
  have "posted (delete_member tm d) d' gid rid [TypeSystemKick]" using ps(2) fg(2) by simp
  then have "posted d d' gid rid [TypeSystemKick]" by (rule posted_cong [rotated 2]) simp_all
  note post' = this
  have ad: "gm_role tm = RoleMember" if "gm_role rm = RoleAdmin" using adm that by (cases "gm_role tm") auto
  have tr: "tid \<noteq> rid" using ne ft(3) by simp
  from fg(1,2) fr r1 ft tr ad ps(1) post' show thesis by (rule that)
qed

lemma UpdateMemberRole_Inr:
  assumes "UpdateMemberRole svc e valid d rid gid tid role = Inr (resp, bc, d')"
  obtains gc rm tm r where "valid" "gc \<in> set (group_chats d)" "gc_chat_id gc = gid"
    "rm \<in> set (group_members d)" "gm_group_chat_id rm = gc_id gc" "gm_user_id rm = rid" "gm_role rm = RoleOwner"
    "tm \<in> set (group_members d)" "gm_group_chat_id tm = gc_id gc" "gm_user_id tm = tid" "tid \<noteq> rid"
    "role_of role = Some r" "same_members (set_role tm r d) d'"
    "posted d d' gid rid [if r = RoleMember then TypeSystemDemote else TypeSystemPromote]"
proof -
  have v: "valid" using assms unfolding UpdateMemberRole_def by (simp add: and_then_Inr fail_if_Inr)
  have "\<exists>gc rm tm r msgs. find_group e d (\<lambda>g. gc_chat_id g = gid) ''Group chat not found'' = Inr gc \<and>
      find_member e ''query requestor membership'' d (gc_id gc) rid = Inr rm \<and> gm_role rm = RoleOwner \<and>
      find_member e ''query target membership'' d (gc_id gc) tid = Inr tm \<and> gm_user_id tm \<noteq> rid \<and> role_of role = Some r \<and>
      post_system e 0 (set_role tm r d) (gc_chat_id gc) rid [(if r = RoleMember then TypeSystemDemote else TypeSystemPromote,
        Some [(''target_id'', JUuid (gm_user_id tm)), (''actor_id'', JUuid rid), (''new_role'', JStr role)])] = Inr (msgs, d')"
    using assms unfolding UpdateMemberRole_def by (simp only: handler_simps opt_role_Inr not_not) blast
  then obtain gc rm tm r msgs where g: "find_group e d (\<lambda>g. gc_chat_id g = gid) ''Group chat not found'' = Inr gc"
    and rm: "find_member e ''query requestor membership'' d (gc_id gc) rid = Inr rm" and r1: "gm_role rm = RoleOwner"
    and tm: "find_member e ''query target membership'' d (gc_id gc) tid = Inr tm" and ne: "gm_user_id tm \<noteq> rid"
    and r: "role_of role = Some r"
    and post: "post_system e 0 (set_role tm r d) (gc_chat_id gc) rid [(if r = RoleMember then TypeSystemDemote else TypeSystemPromote,
        Some [(''target_id'', JUuid (gm_user_id tm)), (''actor_id'', JUuid rid), (''new_role'', JStr role)])] = Inr (msgs, d')"
    by blast
  note fg = find_group_Inr [OF g] and fr = find_member_Inr [OF rm] and ft = find_member_Inr [OF tm] and ps = post_system_Inr [OF post]
  have "posted (set_role tm r d) d' gid rid [if r = RoleMember then TypeSystemDemote else TypeSystemPromote]" using ps(2) fg(2) by simp
  then have "posted d d' gid rid [if r = RoleMember then TypeSystemDemote else TypeSystemPromote]" by (rule posted_cong [rotated 2]) simp_all
  note post' = this
  have tr: "tid \<noteq> rid" using ne ft(3) by simp
  from v fg(1,2) fr r1 ft tr r ps(1) post' show thesis by (rule that)
qed

lemma TransferOwnership_Inr:
  assumes "TransferOwnership svc e valid d rid gid nid = Inr (resp, bc, d')"
  obtains gc rm tm where "gc \<in> set (group_chats d)" "gc_chat_id gc = gid"
    "rm \<in> set (group_members d)" "gm_group_chat_id rm = gc_id gc" "gm_user_id rm = rid" "gm_role rm = RoleOwner"
    "tm \<in> set (group_members d)" "gm_group_chat_id tm = gc_id gc" "gm_user_id tm = nid" "nid \<noteq> rid"
    "same_members (set_role tm RoleOwner (set_role rm RoleAdmin d)) d'" "posted d d' gid rid [TypeSystemPromote]"
proof -
  from assms obtain gc rm tm msgs where ne: "rid \<noteq> nid" and g: "find_group e d (\<lambda>g. gc_chat_id g = gid) ''Group chat not found'' = Inr gc"
    and rm: "find_member e ''query requestor membership'' d (gc_id gc) rid = Inr rm" and r1: "gm_role rm = RoleOwner"
    and tm: "find_member e ''query target membership'' d (gc_id gc) nid = Inr tm"
    and post: "post_system e 0 (set_role tm RoleOwner (set_role rm RoleAdmin d)) (gc_chat_id gc) rid
       [(TypeSystemPromote, Some [(''target_id'', JUuid (gm_user_id tm)), (''actor_id'', JUuid rid),
                   (''new_role'', JStr ''owner''), (''action'', JStr ''ownership_transferred'')])] = Inr (msgs, d')"
    unfolding TransferOwnership_def by (auto simp only: handler_simps)
  note fg = find_group_Inr [OF g] and fr = find_member_Inr [OF rm] and ft = find_member_Inr [OF tm] and ps = post_system_Inr [OF post]
  have "posted (set_role tm RoleOwner (set_role rm RoleAdmin d)) d' gid rid [TypeSystemPromote]" using ps(2) fg(2) by simp
  then have "posted d d' gid rid [TypeSystemPromote]" by (rule posted_cong [rotated 2]) simp_all
  from fg(1,2) fr r1 ft not_sym [OF ne] ps(1) this show thesis by (rule that)
qed

lemma checkMemberCapacity_Inr:
  "checkMemberCapacity e d gc n = Inr u \<Longrightarrow> length (live_members d (gc_id gc)) + n \<le> MaxGroupMembers"
  by (simp add: checkMemberCapacity_def result_simps)

lemma create_members_Inr:
  "create_members e d rows = Inr d' \<longleftrightarrow> \<not> fault e ''create members'' \<and> distinct (map member_key (group_members d @ rows)) \<and>
     d' = d\<lparr>group_members := group_members d @ rows\<rparr>"
  by (auto simp: create_members_def)

lemma join_group_Inr:
  assumes "join_group svc e d uid gc = Inr (resp, n, d')"
  obtains "distinct (map member_key (group_members d @ [new_member e 0 (gc_id gc) uid RoleMember]))"
    "length (live_members d (gc_id gc)) + 1 \<le> MaxGroupMembers"
    "same_members (d\<lparr>group_members := group_members d @ [new_member e 0 (gc_id gc) uid RoleMember]\<rparr>) d'"
    "posted d d' (gc_chat_id gc) uid [TypeSystemJoin]"
proof -
  let ?d = "d\<lparr>group_members := group_members d @ [new_member e 0 (gc_id gc) uid RoleMember]\<rparr>"
  have "\<exists>u msgs. checkMemberCapacity e d gc 1 = Inr u \<and> create_members e d [new_member e 0 (gc_id gc) uid RoleMember] = Inr ?d \<and>
      post_system e 1 ?d (gc_chat_id gc) uid [(TypeSystemJoin, None)] = Inr (msgs, d')"
    using assms unfolding join_group_def by (simp only: handler_simps create_members_Inr) blast
  then obtain u msgs where cap: "checkMemberCapacity e d gc 1 = Inr u"
    and cr: "create_members e d [new_member e 0 (gc_id gc) uid RoleMember] = Inr ?d"
    and post: "post_system e 1 ?d (gc_chat_id gc) uid [(TypeSystemJoin, None)] = Inr (msgs, d')" by blast
  note ps = post_system_Inr [OF post]
  have "posted ?d d' (gc_chat_id gc) uid [TypeSystemJoin]" using ps(2) by simp
  then have p: "posted d d' (gc_chat_id gc) uid [TypeSystemJoin]" by (rule posted_cong [rotated 2]) simp_all
  from cr have "distinct (map member_key (group_members d @ [new_member e 0 (gc_id gc) uid RoleMember]))"
    by (simp only: create_members_Inr)
  from this checkMemberCapacity_Inr [OF cap] ps(1) p show thesis by (rule that)
qed

lemma add_member_checks_Inr:
  assumes "add_member_checks e d rid gc ids = Inr (rm, us)"
  shows "gm_role rm = RoleOwner \<or> gm_role rm = RoleAdmin" and "rm \<in> set (group_members d)"
    and "gm_group_chat_id rm = gc_id gc" and "gm_user_id rm = rid"
    and "length (live_members d (gc_id gc)) + length us \<le> MaxGroupMembers" and "us \<noteq> []"
    and "\<forall>u\<in>set us. u \<in> set (users d) \<and> u_id u \<in> set ids \<and> user_active (now e) u \<and> \<not> blocked_between d rid (u_id u)"
proof -
  define ts where "ts = filter (\<lambda>u. u_id u \<in> set ids \<and> u_deleted_at u = None) (users d)"
  define ex where "ex = filter (\<lambda>m. gm_group_chat_id m = gc_id gc \<and> gm_user_id m \<in> set (map u_id ts)) (group_members d)"
  have "find_member e ''query requestor membership'' d (gc_id gc) rid = Inr rm \<and>
      \<not> (gm_role rm \<noteq> RoleOwner \<and> gm_role rm \<noteq> RoleAdmin) \<and> \<not> (\<exists>u\<in>set ts. currently_banned (now e) u) \<and>
      blocked_with_any d rid (map u_id ts) = [] \<and> us = filter (\<lambda>u. u_id u \<notin> set (map gm_user_id ex)) ts \<and> us \<noteq> [] \<and>
      (\<exists>u. checkMemberCapacity e d gc (length us) = Inr u)"
    using assms unfolding add_member_checks_def ts_def ex_def by (simp only: handler_simps) blast
  then have rm: "find_member e ''query requestor membership'' d (gc_id gc) rid = Inr rm"
    and role: "gm_role rm = RoleOwner \<or> gm_role rm = RoleAdmin" and ban: "\<forall>u\<in>set ts. \<not> currently_banned (now e) u"
    and bl: "blocked_with_any d rid (map u_id ts) = []" and us: "us = filter (\<lambda>u. u_id u \<notin> set (map gm_user_id ex)) ts"
    and ne: "us \<noteq> []" and cap: "\<exists>u. checkMemberCapacity e d gc (length us) = Inr u" by blast+
  show "gm_role rm = RoleOwner \<or> gm_role rm = RoleAdmin" by (rule role)
  show "rm \<in> set (group_members d)" "gm_group_chat_id rm = gc_id gc" "gm_user_id rm = rid" by (rule find_member_Inr [OF rm])+
  show "length (live_members d (gc_id gc)) + length us \<le> MaxGroupMembers" using cap checkMemberCapacity_Inr by blast
  show "us \<noteq> []" by (rule ne)
  show "\<forall>u\<in>set us. u \<in> set (users d) \<and> u_id u \<in> set ids \<and> user_active (now e) u \<and> \<not> blocked_between d rid (u_id u)"
  proof
    fix u assume "u \<in> set us"
    then have u: "u \<in> set ts" by (simp add: us)
    then have "\<not> blocked_between d rid (u_id u)"
      using bl by (auto simp: blocked_with_any_def blocked_between_def filter_empty_conv)
    with u ban show "u \<in> set (users d) \<and> u_id u \<in> set ids \<and> user_active (now e) u \<and> \<not> blocked_between d rid (u_id u)"
      by (simp add: ts_def user_active_iff)
  qed
qed

lemma AddMember_Inr:
  assumes "AddMember svc e valid d rid gid ids = Inr (resp, bc, d')"
  obtains gc rm us rows where "gc \<in> set (group_chats d)" "gc_chat_id gc = gid" "add_member_checks e d rid gc ids = Inr (rm, us)"
    "rows = map (\<lambda>(j, u). new_member e j (gc_id gc) (u_id u) RoleMember) (enumerate 0 us)"
    "distinct (map member_key (group_members d @ rows))"
    "same_members (d\<lparr>group_members := group_members d @ rows\<rparr>) d'" "posted d d' gid rid (map (\<lambda>_. TypeSystemAdd) us)"
proof -
  have "\<exists>gc rm us d1 msgs. find_group e d (\<lambda>g. gc_chat_id g = gid) ''Group chat not found'' = Inr gc \<and>
      add_member_checks e d rid gc ids = Inr (rm, us) \<and>
      create_members e d (map (\<lambda>(j, u). new_member e j (gc_id gc) (u_id u) RoleMember) (enumerate 0 us)) = Inr d1 \<and>
      post_system e (length us) d1 (gc_chat_id gc) rid
        (map (\<lambda>u. (TypeSystemAdd, Some [(''target_id'', JUuid (u_id u)), (''actor_id'', JUuid rid)])) us) = Inr (msgs, d')"
    using assms unfolding AddMember_def by (simp only: handler_simps) blast
  then obtain gc rm us d1 msgs where g: "find_group e d (\<lambda>g. gc_chat_id g = gid) ''Group chat not found'' = Inr gc"
    and ck: "add_member_checks e d rid gc ids = Inr (rm, us)"
    and cr: "create_members e d (map (\<lambda>(j, u). new_member e j (gc_id gc) (u_id u) RoleMember) (enumerate 0 us)) = Inr d1"
    and post: "post_system e (length us) d1 (gc_chat_id gc) rid
        (map (\<lambda>u. (TypeSystemAdd, Some [(''target_id'', JUuid (u_id u)), (''actor_id'', JUuid rid)])) us) = Inr (msgs, d')" by blast
  note fg = find_group_Inr [OF g] and ps = post_system_Inr [OF post] and cm = cr [unfolded create_members_Inr]
  have "posted d1 d' gid rid (map (\<lambda>_. TypeSystemAdd) us)" using ps(2) fg(2) by (simp add: comp_def)
  then have "posted d d' gid rid (map (\<lambda>_. TypeSystemAdd) us)" using cm by (elim posted_cong [rotated 2]) auto
  with that [OF fg(1,2) ck refl] cm ps(1) show thesis by simp
qed

lemma case_find_Inr: "(case x of None \<Rightarrow> Inr () | Some y \<Rightarrow> Inl (f y)) = Inr u \<longleftrightarrow> x = None"
  by (cases x) auto

lemma create_group_checks_Inr:
  assumes "create_group_checks e valid d cid req = Inr us"
  shows "length us < MaxGroupMembers" and "distinct (cg_member_ids req)"
    and "\<forall>u\<in>set us. u \<in> set (users d) \<and> user_active (now e) u \<and> u_id u \<noteq> cid \<and> \<not> blocked_between d cid (u_id u)"
proof -
  have "\<not> length (cg_member_ids req) \<ge> MaxGroupMembers \<and> distinct (cg_member_ids req) \<and>
      us = filter (\<lambda>u. u_id u \<in> set (cg_member_ids req) \<and> u_deleted_at u = None) (users d) \<and> length us = length (cg_member_ids req) \<and>
      find (\<lambda>u. u_id u = cid \<or> currently_banned (now e) u) us = None \<and> blocked_with_any d cid (map u_id us) = []"
    using assms unfolding create_group_checks_def by (simp only: handler_simps case_find_Inr EnsureUniqueUUIDs_Inr) blast
  then have len: "length us < MaxGroupMembers" and dist: "distinct (cg_member_ids req)"
    and us: "us = filter (\<lambda>u. u_id u \<in> set (cg_member_ids req) \<and> u_deleted_at u = None) (users d)"
    and none: "find (\<lambda>u. u_id u = cid \<or> currently_banned (now e) u) us = None" and bl: "blocked_with_any d cid (map u_id us) = []"
    by auto
  show "length us < MaxGroupMembers" "distinct (cg_member_ids req)" by (rule len, rule dist)
  show "\<forall>u\<in>set us. u \<in> set (users d) \<and> user_active (now e) u \<and> u_id u \<noteq> cid \<and> \<not> blocked_between d cid (u_id u)"
  proof
    fix u assume u: "u \<in> set us"
    with bl have "\<not> blocked_between d cid (u_id u)"
      by (auto simp: blocked_with_any_def blocked_between_def filter_empty_conv)
    moreover have "u_id u \<noteq> cid \<and> \<not> currently_banned (now e) u" using none u by (auto simp: find_None_iff)
    moreover have "u \<in> set (users d)" "u_deleted_at u = None" using u by (simp_all add: us)
    ultimately show "u \<in> set (users d) \<and> user_active (now e) u \<and> u_id u \<noteq> cid \<and> \<not> blocked_between d cid (u_id u)"
      by (simp add: user_active_iff)
  qed
qed

lemma create_group_row_Inr:
  "create_group_row e d gc = Inr d' \<longleftrightarrow> \<not> fault e ''create group chat'' \<and> group_name_ok (gc_name gc) \<and> invite_code_free d gc \<and>
     d' = d\<lparr>group_chats := group_chats d @ [gc]\<rparr>"
  by (auto simp: create_group_row_def)

lemma CreateGroupChat_Inr:
  assumes "CreateGroupChat svc e valid d cid req = Inr (resp, bc, d')"
  obtains us gc rows where "gc_id gc = newid e 1" "gc_chat_id gc = newid e 0" "group_name_ok (gc_name gc)" "invite_code_free d gc"
    "length us < MaxGroupMembers" "\<forall>u\<in>set us. u \<in> set (users d) \<and> user_active (now e) u \<and> u_id u \<noteq> cid \<and> \<not> blocked_between d cid (u_id u)"
    "rows = new_member e 2 (newid e 1) cid RoleOwner # map (\<lambda>(j, u). new_member e (3 + j) (newid e 1) (u_id u) RoleMember) (enumerate 0 us)"
    "distinct (map member_key (group_members d @ rows))"
    "group_members d' = group_members d @ rows" "group_chats d' = group_chats d @ [gc]" "users d' = users d"
    "\<And>c. chat_live d' c \<Longrightarrow> c = newid e 0 \<or> chat_live d c"
    "posted d d' (newid e 0) cid [TypeSystemCreate]"
proof -
  let ?req = "req\<lparr>cg_name := TrimSpace (cg_name req), cg_description := TrimSpace (cg_description req)\<rparr>"
  have "\<exists>us c0 gc d1 d2 msgs spec. create_group_checks e valid d cid ?req = Inr us \<and> c_id c0 = newid e 0 \<and>
      gc_id gc = newid e 1 \<and> gc_chat_id gc = newid e 0 \<and>
      create_group_row e (d\<lparr>chats := chats d @ [c0]\<rparr>) gc = Inr d1 \<and>
      create_members e d1 (new_member e 2 (newid e 1) cid RoleOwner #
                 map (\<lambda>(j, u). new_member e (3 + j) (newid e 1) (u_id u) RoleMember) (enumerate 0 us)) = Inr d2 \<and>
      post_system e (3 + length us) d2 (newid e 0) cid [(TypeSystemCreate, spec)] = Inr (msgs, d')"
    using assms unfolding CreateGroupChat_def by (simp only: handler_simps) (use group_chat.select_convs chat.select_convs in metis)
  then obtain us c0 gc d1 d2 msgs spec where ck: "create_group_checks e valid d cid ?req = Inr us" and c0: "c_id c0 = newid e 0"
    and gc: "gc_id gc = newid e 1" "gc_chat_id gc = newid e 0" and row: "create_group_row e (d\<lparr>chats := chats d @ [c0]\<rparr>) gc = Inr d1"
    and mem: "create_members e d1 (new_member e 2 (newid e 1) cid RoleOwner #
                 map (\<lambda>(j, u). new_member e (3 + j) (newid e 1) (u_id u) RoleMember) (enumerate 0 us)) = Inr d2"
    and post: "post_system e (3 + length us) d2 (newid e 0) cid [(TypeSystemCreate, spec)] = Inr (msgs, d')" by blast
  note cks = create_group_checks_Inr [OF ck] and rw = row [unfolded create_group_row_Inr] and mm = mem [unfolded create_members_Inr]
    and ps = post_system_Inr [OF post]
  have d1: "group_members d1 = group_members d" "group_chats d1 = group_chats d @ [gc]" "users d1 = users d"
    "messages d1 = messages d" "outbox d1 = outbox d" using rw by simp_all
  have "posted d2 d' (newid e 0) cid [TypeSystemCreate]" using ps(2) by simp
  then have post': "posted d d' (newid e 0) cid [TypeSystemCreate]" using mm d1 by (elim posted_cong [rotated 2]) auto
  have name: "group_name_ok (gc_name gc)" "invite_code_free d gc" using rw by (simp_all add: invite_code_free_def)
  have dist: "distinct (map member_key (group_members d @ (new_member e 2 (newid e 1) cid RoleOwner #
      map (\<lambda>(j, u). new_member e (3 + j) (newid e 1) (u_id u) RoleMember) (enumerate 0 us))))"
    using mm d1(1) by simp
  have "group_members d' = group_members d @ (new_member e 2 (newid e 1) cid RoleOwner #
      map (\<lambda>(j, u). new_member e (3 + j) (newid e 1) (u_id u) RoleMember) (enumerate 0 us))"
    "group_chats d' = group_chats d @ [gc]" "users d' = users d"
    using ps(1) mm d1 by (simp_all add: same_members_def)
  note tables = this
  have "chats d2 = chats d @ [c0]" using mm rw by simp
  then have live: "c = newid e 0 \<or> chat_live d c" if "chat_live d' c" for c
    using that ps(1) c0 by (auto simp: same_members_def chat_live_def fun_eq_iff)
  from gc name cks(1,3) refl dist tables live post' show thesis by (rule that)
qed

definition members_kept :: "db \<Rightarrow> db \<Rightarrow> bool" where
  "members_kept d d' \<longleftrightarrow> group_members d' = group_members d \<and> map gc_id (group_chats d') = map gc_id (group_chats d) \<and> users d' = users d \<and>
     (\<forall>c. chat_live d' c \<longrightarrow> chat_live d c)"

lemma save_group_Inr:
  assumes "save_group e site renamed d gc = Inr d'"
  shows "members_kept d d'" and "messages d' = messages d" and "outbox d' = outbox d"
  using assms by (auto simp: save_group_def members_kept_def update_where_def chat_live_def split: if_splits)

lemma members_kept_trans: "members_kept d d1 \<Longrightarrow> same_members d1 d2 \<Longrightarrow> members_kept d d2"
  by (simp add: members_kept_def same_members_def)

lemma apply_group_edit_Inr:
  assumes "apply_group_edit svc e d rid role gc ge = Inr (resp, bc, d')"
  shows "members_kept d d'"
proof -
  obtain gc' specs where ge: "ge = (gc', specs)" by (cases ge)
  show ?thesis
  proof (cases "specs = []")
    case True
    with assms have "d' = d" by (simp add: apply_group_edit_def ge)
    then show ?thesis by (simp add: members_kept_def)
  next
    case False
    with assms obtain d1 msgs b where "save_group e ''update group chat'' b d gc' = Inr d1"
      "post_system e 0 d1 (gc_chat_id gc) rid specs = Inr (msgs, d')"
      unfolding apply_group_edit_def ge by (simp only: handler_simps prod.case if_False) blast
    then show ?thesis using save_group_Inr(1) post_system_Inr(1) members_kept_trans by blast
  qed
qed

lemma UpdateGroupChat_Inr:
  assumes "UpdateGroupChat svc e valid d rid gid req adm = Inr (resp, bc, d')"
  shows "members_kept d d'"
proof -
  obtain role gc ge where "apply_group_edit svc e d rid role gc ge = Inr (resp, bc, d')"
    using assms unfolding UpdateGroupChat_def by (simp only: and_then_Inr Let_def) blast
  then show ?thesis by (rule apply_group_edit_Inr)
qed

lemma ResetInviteCode_Inr:
  assumes "ResetInviteCode svc e d uid gid = Inr (resp, bc, d')"
  shows "members_kept d d'"
proof -
  obtain b gc where "save_group e ''reset invite code'' b d gc = Inr d'"
    using assms unfolding ResetInviteCode_def by (simp only: handler_simps) blast
  then show ?thesis by (rule save_group_Inr(1))
qed

lemma DeleteGroup_Inr:
  assumes "DeleteGroup svc e d uid gid adm = Inr (bc, d')"
  shows "members_kept d d'"
proof -
  have "d' = d\<lparr>chats := update_where (\<lambda>c. c_id c = gid) (\<lambda>c. c\<lparr>c_deleted_at := Some (now e)\<rparr>) (chats d)\<rparr>"
    using assms unfolding DeleteGroup_def by (simp only: handler_simps) blast
  then show ?thesis by (auto simp: members_kept_def chat_live_def update_where_def)
qed

section \<open>The invariant\<close>

definition owners :: "uuid \<Rightarrow> group_member list \<Rightarrow> group_member list" where
  "owners gid ms = filter (\<lambda>m. gm_group_chat_id m = gid \<and> gm_role m = RoleOwner) ms"

definition group_inv :: "db \<Rightarrow> bool" where
  "group_inv d \<longleftrightarrow>
     distinct (map gm_id (group_members d)) \<and> distinct (map member_key (group_members d)) \<and> distinct (map gc_id (group_chats d)) \<and>
     (\<forall>m\<in>set (group_members d). gm_group_chat_id m \<in> set (map gc_id (group_chats d))) \<and>
     (\<forall>g\<in>set (map gc_id (group_chats d)). length (owners g (group_members d)) = 1 \<and> length (live_members d g) \<le> MaxGroupMembers)"

lemma member_user_live_cong: "users d' = users d \<Longrightarrow> member_user_live d' m = member_user_live d m"
  by (simp add: member_user_live_def)

lemma live_members_cong:
  "group_members d' = group_members d \<Longrightarrow> users d' = users d \<Longrightarrow> live_members d' g = live_members d g"
  by (simp add: live_members_def member_user_live_def)

lemma group_inv_kept: "members_kept d d' \<Longrightarrow> group_inv d \<Longrightarrow> group_inv d'"
  by (simp add: group_inv_def members_kept_def live_members_cong [of d' d] del: set_map)

lemma same_kept: "same_members d d' \<Longrightarrow> members_kept d d'"
  by (simp add: same_members_def members_kept_def)

lemma owner_unique:
  assumes "length (owners g ms) = 1" and "a \<in> set (owners g ms)" and "b \<in> set (owners g ms)"
  shows "a = b"
  using assms by (cases "owners g ms") auto

lemma group_inv_append:
  assumes inv: "group_inv d" and d': "group_members d' = group_members d @ rows" "group_chats d' = group_chats d" "users d' = users d"
    and ids: "distinct (map gm_id (group_members d @ rows))" and keys: "distinct (map member_key (group_members d @ rows))"
    and g: "g \<in> set (map gc_id (group_chats d))" and rows: "\<forall>m\<in>set rows. gm_group_chat_id m = g \<and> gm_role m = RoleMember"
    and cap: "length (live_members d g) + length rows \<le> MaxGroupMembers"
  shows "group_inv d'"
proof -
  have own: "owners x (group_members d') = owners x (group_members d)" for x
    using rows by (auto simp: d'(1) owners_def filter_empty_conv)
  have live: "length (live_members d' x) \<le> length (live_members d x) + (if x = g then length rows else 0)" for x
  proof -
    have "live_members d' x = live_members d x @ filter (\<lambda>m. gm_group_chat_id m = x \<and> member_user_live d m) rows"
      using d' by (simp add: live_members_def member_user_live_cong [of d' d])
    moreover have "x \<noteq> g \<Longrightarrow> filter (\<lambda>m. gm_group_chat_id m = x \<and> member_user_live d m) rows = []"
      using rows by (auto simp: filter_empty_conv)
    ultimately show ?thesis by simp
  qed
  have le: "length (live_members d' x) \<le> MaxGroupMembers" if "x \<in> set (map gc_id (group_chats d))" for x
    using live [of x] cap inv that unfolding group_inv_def by (cases "x = g") force+
  have refs: "\<forall>m\<in>set (group_members d'). gm_group_chat_id m \<in> set (map gc_id (group_chats d))"
    using inv rows g unfolding d'(1) group_inv_def by auto
  show ?thesis
    using inv ids keys own le refs unfolding group_inv_def d' by simp
qed

lemma group_inv_delete:
  assumes inv: "group_inv d" and d': "same_members (delete_member m d) d'" and m: "m \<in> set (group_members d)" "gm_role m \<noteq> RoleOwner"
  shows "group_inv d'"
proof -
  have ms: "group_members d' = filter (\<lambda>x. gm_id x \<noteq> gm_id m) (group_members d)" "group_chats d' = group_chats d" "users d' = users d"
    using d' by (simp_all add: same_members_def delete_member_def)
  have dist: "distinct (map gm_id (group_members d))" using inv by (simp add: group_inv_def)
  have "gm_id x \<noteq> gm_id m" if "x \<in> set (group_members d)" "gm_role x = RoleOwner" for x
    using distinct_key_eq [OF dist that(1) m(1)] that(2) m(2) by metis
  then have own: "owners g (group_members d') = owners g (group_members d)" for g
    unfolding ms owners_def by (auto intro!: filter_cong)
  have live: "live_members d' g = filter (\<lambda>x. gm_id x \<noteq> gm_id m) (live_members d g)" for g
    unfolding live_members_def ms(1) member_user_live_cong [OF ms(3)] by (auto intro: filter_cong)
  have "length (live_members d' g) \<le> length (live_members d g)" for g unfolding live by (rule length_filter_le)
  then have le: "length (live_members d' g) \<le> MaxGroupMembers" if "g \<in> set (map gc_id (group_chats d))" for g
    using inv that unfolding group_inv_def by (meson le_trans)
  have "distinct (map gm_id (group_members d'))" "distinct (map member_key (group_members d'))"
    using inv by (simp_all add: ms(1) group_inv_def distinct_map_filter)
  moreover have "\<forall>m\<in>set (group_members d'). gm_group_chat_id m \<in> set (map gc_id (group_chats d))"
    using inv unfolding ms(1) group_inv_def by auto
  ultimately show ?thesis using inv own le unfolding group_inv_def ms(2) by simp
qed

text \<open>A change of roles keeps everything but the owners.\<close>

lemma group_inv_roles:
  assumes inv: "group_inv d" and ms: "group_members d' = map (\<lambda>m. m\<lparr>gm_role := f m\<rparr>) (group_members d)"
    "group_chats d' = group_chats d" "users d' = users d"
    and own: "\<And>g. g \<in> set (map gc_id (group_chats d)) \<Longrightarrow>
       length (filter (\<lambda>m. gm_group_chat_id m = g \<and> f m = RoleOwner) (group_members d)) = 1"
  shows "group_inv d'"
proof -
  have keys: "map gm_id (group_members d') = map gm_id (group_members d)" "map member_key (group_members d') = map member_key (group_members d)"
    by (simp_all add: ms(1) member_key_def)
  have "owners g (group_members d') = map (\<lambda>m. m\<lparr>gm_role := f m\<rparr>) (filter (\<lambda>m. gm_group_chat_id m = g \<and> f m = RoleOwner) (group_members d))" for g
    by (simp add: ms(1) owners_def filter_map comp_def)
  then have "length (owners g (group_members d')) = 1" if "g \<in> set (map gc_id (group_chats d))" for g
    using own [OF that] by simp
  moreover have "length (live_members d' g) = length (live_members d g)" for g
    unfolding live_members_def ms(1) member_user_live_cong [OF ms(3)] by (simp add: filter_map comp_def member_user_live_def)
  moreover have "\<forall>m\<in>set (group_members d'). gm_group_chat_id m \<in> set (map gc_id (group_chats d))"
    using inv unfolding ms(1) group_inv_def by auto
  ultimately show ?thesis using inv unfolding group_inv_def keys ms(2) by simp
qed

lemma set_role_map: "group_members (set_role m r d) = map (\<lambda>x. x\<lparr>gm_role := if gm_id x = gm_id m then r else gm_role x\<rparr>) (group_members d)"
  by (simp add: set_role_def update_where_def)

lemma group_inv_set_role:
  assumes inv: "group_inv d" and d': "same_members (set_role m r d) d'" and m: "m \<in> set (group_members d)" "gm_role m \<noteq> RoleOwner"
    and r: "r \<noteq> RoleOwner"
  shows "group_inv d'"
proof (rule group_inv_roles [OF inv, where f = "\<lambda>x. if gm_id x = gm_id m then r else gm_role x"])
  show "group_members d' = map (\<lambda>x. x\<lparr>gm_role := if gm_id x = gm_id m then r else gm_role x\<rparr>) (group_members d)"
    "group_chats d' = group_chats d" "users d' = users d"
    using d' by (simp_all add: same_members_def set_role_map)
  fix g assume g: "g \<in> set (map gc_id (group_chats d))"
  have dist: "distinct (map gm_id (group_members d))" using inv by (simp add: group_inv_def)
  have "(if gm_id x = gm_id m then r else gm_role x) = RoleOwner \<longleftrightarrow> gm_role x = RoleOwner" if "x \<in> set (group_members d)" for x
    using distinct_key_eq [OF dist that m(1)] m(2) r by (cases "gm_id x = gm_id m") auto
  then have "filter (\<lambda>x. gm_group_chat_id x = g \<and> (if gm_id x = gm_id m then r else gm_role x) = RoleOwner) (group_members d) =
      owners g (group_members d)" unfolding owners_def by (intro filter_cong) auto
  with inv g show "length (filter (\<lambda>x. gm_group_chat_id x = g \<and> (if gm_id x = gm_id m then r else gm_role x) = RoleOwner) (group_members d)) = 1"
    unfolding group_inv_def by (metis (no_types, lifting))
qed

lemma group_inv_one_owner: "group_inv d \<Longrightarrow> g \<in> set (map gc_id (group_chats d)) \<Longrightarrow> length (owners g (group_members d)) = 1"
  by (auto simp: group_inv_def)

lemma set_role_twice: "group_members (set_role tm s (set_role rm r d)) =
    map (\<lambda>x. x\<lparr>gm_role := if gm_id x = gm_id tm then s else if gm_id x = gm_id rm then r else gm_role x\<rparr>) (group_members d)"
  by (auto simp: set_role_map)

lemma set_role_other [simp]: "group_chats (set_role m r d) = group_chats d" "users (set_role m r d) = users d"
  by (simp_all add: set_role_def)

lemma transfer_owner_count:
  assumes one: "length (owners g ms) = 1" and dist: "distinct (map gm_id ms)"
    and rm: "rm \<in> set ms" "gm_role rm = RoleOwner" and tm: "tm \<in> set ms"
    and eq: "gm_group_chat_id tm = gm_group_chat_id rm"
  shows "length (filter (\<lambda>x. gm_group_chat_id x = g \<and>
      (if gm_id x = gm_id tm then RoleOwner else if gm_id x = gm_id rm then RoleAdmin else gm_role x) = RoleOwner) ms) = 1"
proof (cases "g = gm_group_chat_id rm")
  case True
  have "gm_group_chat_id x = g \<and> (if gm_id x = gm_id tm then RoleOwner else if gm_id x = gm_id rm then RoleAdmin else gm_role x) = RoleOwner \<longleftrightarrow>
      gm_id x = gm_id tm \<and> True" if x: "x \<in> set ms" for x
  proof (cases "gm_id x = gm_id tm")
    case True': True
    then have "x = tm" using distinct_key_eq [OF dist x tm] by blast
    then show ?thesis using eq True by simp
  next
    case False
    have "x = rm" if "gm_group_chat_id x = g" "gm_role x = RoleOwner"
      by (rule owner_unique [OF one]) (use that x rm True in \<open>simp_all add: owners_def\<close>)
    then show ?thesis using False by auto
  qed
  then have "filter (\<lambda>x. gm_group_chat_id x = g \<and>
      (if gm_id x = gm_id tm then RoleOwner else if gm_id x = gm_id rm then RoleAdmin else gm_role x) = RoleOwner) ms = [tm]"
    using filter_key_single [OF dist tm, of "\<lambda>_. True"] by (simp cong: filter_cong)
  then show ?thesis by simp
next
  case False
  have key: "(if gm_id x = gm_id tm then RoleOwner else if gm_id x = gm_id rm then RoleAdmin else gm_role x) = RoleOwner \<longleftrightarrow> gm_role x = RoleOwner"
    if x: "x \<in> set ms" "gm_group_chat_id x = g" for x
  proof -
    have "gm_id x \<noteq> gm_id tm" "gm_id x \<noteq> gm_id rm"
      using distinct_key_eq [OF dist x(1) tm] distinct_key_eq [OF dist x(1) rm(1)] x(2) eq False by metis+
    then show ?thesis by simp
  qed
  have "filter (\<lambda>x. gm_group_chat_id x = g \<and>
      (if gm_id x = gm_id tm then RoleOwner else if gm_id x = gm_id rm then RoleAdmin else gm_role x) = RoleOwner) ms = owners g ms"
    unfolding owners_def by (intro filter_cong refl conj_cong key)
  with one show ?thesis by simp
qed

lemma group_inv_transfer:
  assumes inv: "group_inv d" and d': "same_members (set_role tm RoleOwner (set_role rm RoleAdmin d)) d'"
    and rm: "rm \<in> set (group_members d)" "gm_role rm = RoleOwner" and tm: "tm \<in> set (group_members d)"
    and eq: "gm_group_chat_id tm = gm_group_chat_id rm"
  shows "group_inv d'"
proof (rule group_inv_roles [OF inv])
  show "group_members d' = map (\<lambda>x. x\<lparr>gm_role := if gm_id x = gm_id tm then RoleOwner else if gm_id x = gm_id rm then RoleAdmin else gm_role x\<rparr>) (group_members d)"
    "group_chats d' = group_chats d" "users d' = users d"
    using d' unfolding same_members_def set_role_twice set_role_other by blast+
  fix g assume g: "g \<in> set (map gc_id (group_chats d))"
  have dist: "distinct (map gm_id (group_members d))" using inv by (simp add: group_inv_def)
  show "length (filter (\<lambda>x. gm_group_chat_id x = g \<and> 
      (if gm_id x = gm_id tm then RoleOwner else if gm_id x = gm_id rm then RoleAdmin else gm_role x) = RoleOwner) (group_members d)) = 1"
    by (rule transfer_owner_count [OF group_inv_one_owner [OF inv g] dist rm tm eq])
qed

lemma group_inv_create:
  assumes inv: "group_inv d" and d': "group_members d' = group_members d @ o' # rows" "group_chats d' = group_chats d @ [gc]" "users d' = users d"
    and ids: "distinct (map gm_id (group_members d @ o' # rows))" and keys: "distinct (map member_key (group_members d @ o' # rows))"
    and fresh: "gc_id gc \<notin> set (map gc_id (group_chats d))"
    and o': "gm_group_chat_id o' = gc_id gc" "gm_role o' = RoleOwner"
    and rows: "\<forall>m\<in>set rows. gm_group_chat_id m = gc_id gc \<and> gm_role m = RoleMember" and cap: "length rows < MaxGroupMembers"
  shows "group_inv d'"
proof -
  have none: "\<forall>m\<in>set (group_members d). gm_group_chat_id m \<noteq> gc_id gc" using inv fresh unfolding group_inv_def by metis
  have own: "owners g (group_members d') = (if g = gc_id gc then [o'] else owners g (group_members d))" for g
    using none rows o' by (auto simp: d'(1) owners_def filter_empty_conv)
  have live: "live_members d' g = (if g = gc_id gc then filter (\<lambda>m. gm_group_chat_id m = g \<and> member_user_live d m) (o' # rows) else live_members d g)" for g
    using none rows o' d'(1) unfolding live_members_def member_user_live_cong [OF d'(3)] by (auto simp: filter_empty_conv)
  have "length (live_members d' (gc_id gc)) \<le> length (o' # rows)" unfolding live by (simp only: if_True length_filter_le simp_thms)
  then have new: "length (live_members d' (gc_id gc)) \<le> MaxGroupMembers" using cap by simp
  have old: "length (owners g (group_members d')) = 1 \<and> length (live_members d' g) \<le> MaxGroupMembers" if "g \<in> set (map gc_id (group_chats d))" for g
  proof -
    have "g \<noteq> gc_id gc" using that fresh by metis
    then have "owners g (group_members d') = owners g (group_members d)" "live_members d' g = live_members d g" by (simp_all add: own live)
    then show ?thesis using inv that by (auto simp: group_inv_def)
  qed
  have "length (owners (gc_id gc) (group_members d')) = 1" by (simp add: own)
  moreover have "\<forall>m\<in>set (group_members d'). gm_group_chat_id m \<in> set (map gc_id (group_chats d'))"
    using inv rows o' unfolding d'(1,2) group_inv_def by auto
  ultimately show ?thesis using inv ids keys fresh old new unfolding group_inv_def d'(1) [symmetric] by (auto simp: d'(2))
qed

section \<open>Runs of the group handlers\<close>

text \<open>The identifiers a request draws are new and pairwise different.\<close>

definition fresh_ids :: "env \<Rightarrow> db \<Rightarrow> bool" where
  "fresh_ids e d \<longleftrightarrow> inj (newid e) \<and>
     (\<forall>k. newid e k \<notin> set (map gm_id (group_members d)) \<and> newid e k \<notin> set (map gc_id (group_chats d)))"

inductive group_step :: "db \<Rightarrow> db \<Rightarrow> bool" where
  create: "fresh_ids e d \<Longrightarrow> CreateGroupChat svc e valid d cid req = Inr (resp, bc, d') \<Longrightarrow> group_step d d'"
| update: "UpdateGroupChat svc e valid' d rid gid req' adm = Inr (resp', bc, d') \<Longrightarrow> group_step d d'"
| delete: "DeleteGroup svc e d rid gid adm = Inr (bc, d') \<Longrightarrow> group_step d d'"
| reset: "ResetInviteCode svc e d rid gid = Inr (code, bc, d') \<Longrightarrow> group_step d d'"
| add: "fresh_ids e d \<Longrightarrow> AddMember svc e v d rid gid ids = Inr (resps, bc, d') \<Longrightarrow> group_step d d'"
| leave: "LeaveGroup svc e d rid gid = Inr (mresp, bc, d') \<Longrightarrow> group_step d d'"
| kick: "KickMember svc e d rid gid tid = Inr (mresp, bc, d') \<Longrightarrow> group_step d d'"
| role: "UpdateMemberRole svc e v d rid gid tid r = Inr (mresp, bc, d') \<Longrightarrow> v \<longrightarrow> r \<in> {''admin'', ''member''} \<Longrightarrow> group_step d d'"
| transfer: "TransferOwnership svc e v d rid gid tid = Inr (mresp, bc, d') \<Longrightarrow> group_step d d'"
| join_invite: "fresh_ids e d \<Longrightarrow> JoinGroupByInvite svc e d rid code' = Inr (resp, bc, d') \<Longrightarrow> group_step d d'"
| join_public: "fresh_ids e d \<Longrightarrow> JoinPublicGroup svc e d rid gid = Inr (resp, bc, d') \<Longrightarrow> group_step d d'"

lemma fresh_append:
  assumes "fresh_ids e d" and "distinct (map gm_id (group_members d))" and "inj f"
  shows "distinct (map gm_id (group_members d @ map (\<lambda>(j, u). new_member e (f j) g (u_id u) r) (enumerate n us)))"
proof -
  let ?rows = "map (\<lambda>(j, u). new_member e (f j) g (u_id u) r) (enumerate n us)"
  have ids: "map gm_id ?rows = map (\<lambda>j. newid e (f j)) [n..<n + length us]"
    by (induction us arbitrary: n) (simp_all add: new_member_def upt_conv_Cons del: upt_Suc)
  have "inj (\<lambda>j. newid e (f j))" using assms(1,3) unfolding fresh_ids_def inj_def by blast
  then have "inj_on (\<lambda>j. newid e (f j)) (set [n..<n + length us])" by (rule inj_on_subset) simp
  then have "distinct (map gm_id ?rows)" unfolding ids by (simp only: distinct_map distinct_upt simp_thms)
  moreover have "set (map gm_id ?rows) \<inter> set (map gm_id (group_members d)) = {}"
    unfolding ids using assms(1) unfolding fresh_ids_def by auto
  ultimately show ?thesis using assms(2) unfolding map_append distinct_append by blast
qed

lemma group_step_add:
  assumes "AddMember svc e v d rid gid ids = Inr (resp, bc, d')" and "fresh_ids e d" and "group_inv d"
  shows "group_inv d'"
  using assms(1)
proof (rule AddMember_Inr)
  fix gc rm us rows
  assume g: "gc \<in> set (group_chats d)" and ck: "add_member_checks e d rid gc ids = Inr (rm, us)"
    and rows: "rows = map (\<lambda>(j, u). new_member e j (gc_id gc) (u_id u) RoleMember) (enumerate 0 us)"
    and keys: "distinct (map member_key (group_members d @ rows))" and same: "same_members (d\<lparr>group_members := group_members d @ rows\<rparr>) d'"
  have "distinct (map gm_id (group_members d @ rows))"
    using fresh_append [OF assms(2), of "\<lambda>j. j"] assms(3) by (simp add: rows group_inv_def)
  moreover have "length (live_members d (gc_id gc)) + length rows \<le> MaxGroupMembers"
    using add_member_checks_Inr(5) [OF ck] by (simp add: rows)
  ultimately show "group_inv d'"
    using same keys g by (intro group_inv_append [OF assms(3), of d' rows "gc_id gc"]) (auto simp: same_members_def rows new_member_def)
qed

lemma group_step_join:
  assumes "join_group svc e d uid gc = Inr (resp, n, d')" and "gc \<in> set (group_chats d)" and "fresh_ids e d" and "group_inv d"
  shows "group_inv d'"
  using assms(1)
proof (rule join_group_Inr)
  let ?m = "new_member e 0 (gc_id gc) uid RoleMember"
  assume keys: "distinct (map member_key (group_members d @ [?m]))" and cap: "length (live_members d (gc_id gc)) + 1 \<le> MaxGroupMembers"
    and same: "same_members (d\<lparr>group_members := group_members d @ [?m]\<rparr>) d'"
  have "distinct (map gm_id (group_members d @ [?m]))"
    using assms(3,4) by (auto simp: fresh_ids_def group_inv_def new_member_def)
  then show "group_inv d'"
    using same keys cap assms(2) by (intro group_inv_append [OF assms(4), of d' "[?m]" "gc_id gc"]) (auto simp: same_members_def new_member_def)
qed

lemma JoinGroupByInvite_Inr:
  assumes "JoinGroupByInvite svc e d uid code = Inr (resp, bc, d')"
  obtains gc mr n where "gc \<in> set (group_chats d)" "gc_invite_code gc = code" "chat_live d (gc_chat_id gc)"
    "\<not> (case gc_invite_expires_at gc of None \<Rightarrow> False | Some x \<Rightarrow> now e > x)" "join_group svc e d uid gc = Inr (mr, n, d')"
proof -
  have "\<exists>gc mr n. find_group e d (\<lambda>g. gc_invite_code g = code) ''Invalid invite code'' = Inr gc \<and>
     \<not> (case gc_invite_expires_at gc of None \<Rightarrow> False | Some x \<Rightarrow> now e > x) \<and> join_group svc e d uid gc = Inr (mr, n, d')"
    using assms unfolding JoinGroupByInvite_def by (simp only: handler_simps) blast
  then obtain gc mr n where f: "find_group e d (\<lambda>g. gc_invite_code g = code) ''Invalid invite code'' = Inr gc"
    and r: "\<not> (case gc_invite_expires_at gc of None \<Rightarrow> False | Some x \<Rightarrow> now e > x)" "join_group svc e d uid gc = Inr (mr, n, d')" by blast
  show thesis by (rule that [OF find_group_Inr [OF f] r])
qed

lemma JoinPublicGroup_Inr:
  assumes "JoinPublicGroup svc e d uid gid = Inr (resp, bc, d')"
  obtains gc mr n where "gc \<in> set (group_chats d)" "gc_chat_id gc = gid" "chat_live d gid" "gc_is_public gc"
    "join_group svc e d uid gc = Inr (mr, n, d')"
proof -
  have "\<exists>gc mr n. find_group e d (\<lambda>g. gc_chat_id g = gid) ''Group chat not found'' = Inr gc \<and>
     gc_is_public gc \<and> join_group svc e d uid gc = Inr (mr, n, d')"
    using assms unfolding JoinPublicGroup_def by (simp only: handler_simps not_not) blast
  then obtain gc mr n where f: "find_group e d (\<lambda>g. gc_chat_id g = gid) ''Group chat not found'' = Inr gc"
    and r: "gc_is_public gc" "join_group svc e d uid gc = Inr (mr, n, d')" by blast
  have c: "chat_live d gid" using find_group_Inr(2,3) [OF f] by simp
  show thesis by (rule that [OF find_group_Inr(1,2) [OF f] c r])
qed

lemma group_step_create:
  assumes "CreateGroupChat svc e valid d cid req = Inr (resp, bc, d')" and fr: "fresh_ids e d" and inv: "group_inv d"
  shows "group_inv d'"
  using assms(1)
proof (rule CreateGroupChat_Inr)
  fix us gc rows
  let ?o = "new_member e 2 (newid e 1) cid RoleOwner"
  let ?rest = "map (\<lambda>(j, u). new_member e (3 + j) (newid e 1) (u_id u) RoleMember) (enumerate 0 us)"
  assume gc: "gc_id gc = newid e 1" and len: "length us < MaxGroupMembers" and rows: "rows = ?o # ?rest"
    and keys: "distinct (map member_key (group_members d @ rows))" and d': "group_members d' = group_members d @ rows"
    "group_chats d' = group_chats d @ [gc]" "users d' = users d"
  have inj: "newid e a = newid e b \<Longrightarrow> a = b" for a b using fr by (simp add: fresh_ids_def inj_def)
  have "distinct (map gm_id (group_members d @ ?rest))"
    using fresh_append [OF fr, of "\<lambda>j. 3 + j"] inv by (simp add: group_inv_def inj_def)
  moreover have "gm_id ?o \<notin> gm_id ` set ?rest" using inj by (fastforce simp: new_member_def)
  moreover have "gm_id ?o \<notin> set (map gm_id (group_members d))" using fr by (simp add: fresh_ids_def new_member_def)
  ultimately have ids: "distinct (map gm_id (group_members d @ ?o # ?rest))" by auto
  have fresh: "gc_id gc \<notin> set (map gc_id (group_chats d))" using fr gc by (simp add: fresh_ids_def)
  have rs: "\<forall>m\<in>set ?rest. gm_group_chat_id m = gc_id gc \<and> gm_role m = RoleMember" by (auto simp: new_member_def gc)
  show "group_inv d'"
    using group_inv_create [OF inv d'(1) [unfolded rows] d'(2,3) ids keys [unfolded rows] fresh _ _ rs] len
    by (simp add: new_member_def gc)
qed

lemma owner_only:
  assumes "group_inv d" and "gc \<in> set (group_chats d)" and "rm \<in> set (group_members d)" "gm_group_chat_id rm = gc_id gc" "gm_role rm = RoleOwner"
    and "tm \<in> set (group_members d)" "gm_group_chat_id tm = gc_id gc" and "tm \<noteq> rm"
  shows "gm_role tm \<noteq> RoleOwner"
proof
  assume "gm_role tm = RoleOwner"
  moreover have "length (owners (gc_id gc) (group_members d)) = 1" using assms(1,2) unfolding group_inv_def by auto
  ultimately have "tm = rm" using assms by (intro owner_unique [of "gc_id gc" "group_members d"]) (auto simp: owners_def)
  with assms(8) show False by simp
qed

lemma group_step_kick:
  assumes "KickMember svc e d rid gid tid = Inr (resp, bc, d')" and "group_inv d"
  shows "group_inv d'"
  using assms(1)
proof (rule KickMember_Inr)
  fix gc rm tm
  assume a: "gc \<in> set (group_chats d)" "rm \<in> set (group_members d)" "gm_group_chat_id rm = gc_id gc" "gm_user_id rm = rid"
    "gm_role rm \<noteq> RoleMember" "tm \<in> set (group_members d)" "gm_group_chat_id tm = gc_id gc" "gm_user_id tm = tid" "tid \<noteq> rid"
    and adm: "gm_role rm = RoleAdmin \<Longrightarrow> gm_role tm = RoleMember" and same: "same_members (delete_member tm d) d'"
  have "gm_role tm \<noteq> RoleOwner"
  proof (cases "gm_role rm = RoleOwner")
    case True
    then show ?thesis using a by (intro owner_only [OF assms(2), of gc rm tm]) auto
  next
    case False
    then show ?thesis using a(5) adm by (cases "gm_role rm") auto
  qed
  with same a(6) show "group_inv d'" by (rule group_inv_delete [OF assms(2)])
qed

lemma group_step_role:
  assumes "UpdateMemberRole svc e v d rid gid tid role = Inr (resp, bc, d')" and "v \<longrightarrow> role \<in> {''admin'', ''member''}" and "group_inv d"
  shows "group_inv d'"
  using assms(1)
proof (rule UpdateMemberRole_Inr)
  fix gc rm tm r
  assume a: "v" "gc \<in> set (group_chats d)" "rm \<in> set (group_members d)" "gm_group_chat_id rm = gc_id gc" "gm_user_id rm = rid" "gm_role rm = RoleOwner"
    "tm \<in> set (group_members d)" "gm_group_chat_id tm = gc_id gc" "gm_user_id tm = tid" "tid \<noteq> rid" "role_of role = Some r"
    "same_members (set_role tm r d) d'"
  have "gm_role tm \<noteq> RoleOwner" using a by (intro owner_only [OF assms(3), of gc rm tm]) auto
  moreover have "r \<noteq> RoleOwner" using a(1,11) assms(2) by (auto simp: role_of_def split: if_splits)
  ultimately show "group_inv d'" using a(7,12) by (intro group_inv_set_role [OF assms(3)])
qed

lemma group_step_transfer:
  assumes "TransferOwnership svc e v d rid gid nid = Inr (resp, bc, d')" and "group_inv d"
  shows "group_inv d'"
  using assms(1)
proof (rule TransferOwnership_Inr)
  fix gc rm tm
  assume a: "rm \<in> set (group_members d)" "gm_group_chat_id rm = gc_id gc" "gm_user_id rm = rid" "gm_role rm = RoleOwner"
    "tm \<in> set (group_members d)" "gm_group_chat_id tm = gc_id gc" "gm_user_id tm = nid" "nid \<noteq> rid"
    "same_members (set_role tm RoleOwner (set_role rm RoleAdmin d)) d'"
  then show "group_inv d'" by (intro group_inv_transfer [OF assms(2), of tm rm]) auto
qed

lemma group_step_inv: "group_step d d' \<Longrightarrow> group_inv d \<Longrightarrow> group_inv d'"
proof (induction rule: group_step.induct)
  case (leave svc e d rid gid mresp bc d')
  from leave(1) show ?case by (rule LeaveGroup_Inr) (blast intro: group_inv_delete [OF leave(2)])
next
  case (join_invite e d svc rid code' resp bc d')
  from join_invite(2) show ?case by (rule JoinGroupByInvite_Inr) (blast intro: group_step_join [OF _ _ join_invite(1,3)])
next
  case (join_public e d svc rid gid resp bc d')
  from join_public(2) show ?case by (rule JoinPublicGroup_Inr) (blast intro: group_step_join [OF _ _ join_public(1,3)])
qed (blast intro: group_step_create group_step_add group_step_kick group_step_role group_step_transfer
      group_inv_kept UpdateGroupChat_Inr DeleteGroup_Inr ResetInviteCode_Inr)+

end
