(* ===== verification/Group_Properties.thy ===== *)
theory Group_Properties
  imports Group_Laws
begin

text \<open>
  What the group services promise: the invariant of the memberships along every run, who may change
  them and what a change leaves behind, how a group is joined, and that a replaced invite code is dead.
\<close>

section \<open>A concrete group\<close>

definition sample_service :: service where
  "sample_service = \<lparr>svc_urls = \<lparr>GetPresignedURL = (\<lambda>f. f), GetPublicURL = (\<lambda>f. f)\<rparr>, svc_hub = True, svc_random = (\<lambda>k. Some ''fresh'')\<rparr>"

lemma sample_service_simps [simp]: "svc_hub sample_service" "svc_random sample_service k = Some ''fresh''"
  by (simp_all add: sample_service_def)

lemma group_inv_keys:
  assumes "group_inv d" and "m \<in> set (group_members d)" and "tm \<in> set (group_members d)"
  shows "gm_id m = gm_id tm \<longleftrightarrow> member_key m = member_key tm"
proof -
  have "distinct (map gm_id (group_members d))" "distinct (map member_key (group_members d))" using assms(1) by (simp_all add: group_inv_def)
  then show ?thesis using distinct_key_eq assms(2,3) by metis
qed

lemma sample_group_inv: "group_inv sample_db"
  by code_simp

lemma sample_group: "find_group (sample_env t b) sample_db (\<lambda>g. gc_chat_id g = 11) msg = Inr (sample_group 6 11)"
  by (simp add: find_group_def sample_db_def sample_defs empty_db_def chat_live_def ent_only_def)

lemma sample_member: "find_member (sample_env t b) site sample_db 6 1 = Inr (sample_member 7 6 1 RoleOwner)"
  "find_member (sample_env t b) site sample_db 6 2 = Inr (sample_member 8 6 2 RoleMember)"
  by (simp_all add: find_member_def sample_db_def sample_defs empty_db_def ent_only_def)

lemma post_system_ok:
  assumes "fault e = no_fault"
  shows "\<exists>msgs d'. post_system e k d c s specs = Inr (msgs, d')"
proof -
  have "\<exists>d'. PersistMessageOutboxes e k d msgs ty s = Inr d'" for k d msgs ty
  proof (induction msgs arbitrary: k d)
    case (Cons m msgs)
    then show ?case by (simp add: and_then_Inr PersistMessageOutbox_Inr assms(1))
  qed simp
  then show ?thesis by (simp add: post_system_def Let_def and_then_Inr on_err_Inr assms(1))
qed

lemma sample_kick: "\<exists>resp bc d'. KickMember sample_service (sample_env t b) sample_db 1 11 2 = Inr (resp, bc, d')"
proof -
  obtain msgs d' where "post_system (sample_env t b) 0 (delete_member (sample_member 8 6 2 RoleMember) sample_db) 11 1
     [(TypeSystemKick, Some [(''target_id'', JUuid 2), (''actor_id'', JUuid 1)])] = Inr (msgs, d')"
    using post_system_ok [of "sample_env t b"] by fastforce
  then show ?thesis
    by (simp add: KickMember_def begin_tx_def sample_group sample_member lockGroupMembership_def commit_def Let_def sample_member_def sample_group_def
        del: One_nat_def)
qed

text \<open>
  C5. Along every run of the group handlers, by whatever users and with whatever failures, each group
  has exactly one owner, a user is a member of a group at most once, and no group exceeds one hundred
  live members.
\<close>

theorem group_invariant_reachable:
  assumes "group_step\<^sup>*\<^sup>* d d'" and "group_inv d"
  shows "group_inv d'"
  using assms by (induction rule: rtranclp_induct) (auto intro: group_step_inv)

theorem group_invariant_reachable_witness:
  "\<exists>d'. group_step sample_db d' \<and> group_inv d' \<and> group_inv sample_db"
proof -
  obtain resp bc d' where "KickMember sample_service (sample_env 500 100) sample_db 1 11 2 = Inr (resp, bc, d')"
    using sample_kick by blast
  then have "group_step sample_db d'" by (rule group_step.kick)
  with group_invariant_reachable [OF r_into_rtranclp sample_group_inv, of d'] sample_group_inv show ?thesis by blast
qed

section \<open>Changing a membership\<close>

text \<open>A member is removed from a group by somebody else only at the request of the owner or an admin, an
  admin removes plain members only, and the owner is never removed. The request removes that membership
  and no other, and posts exactly one kick message together with the outbox row that announces it.
\<close>

theorem kick_member_effect:
  assumes "KickMember svc e d rid gid tid = Inr (resp, bc, d')" and "group_inv d"
  shows "\<exists>gc rm tm. gc \<in> set (group_chats d) \<and> gc_chat_id gc = gid \<and> {rm, tm} \<subseteq> set (group_members d) \<and>
     member_key rm = (gc_id gc, rid) \<and> member_key tm = (gc_id gc, tid) \<and> tid \<noteq> rid \<and>
     (gm_role rm = RoleOwner \<and> gm_role tm \<noteq> RoleOwner \<or> gm_role rm = RoleAdmin \<and> gm_role tm = RoleMember) \<and>
     group_members d' = filter (\<lambda>m. member_key m \<noteq> (gc_id gc, tid)) (group_members d) \<and>
     posted d d' gid rid [TypeSystemKick]"
  using assms(1)
proof (rule KickMember_Inr)
  fix gc rm tm
  assume a: "gc \<in> set (group_chats d)" "gc_chat_id gc = gid" "rm \<in> set (group_members d)" "gm_group_chat_id rm = gc_id gc"
    "gm_user_id rm = rid" "gm_role rm \<noteq> RoleMember" "tm \<in> set (group_members d)" "gm_group_chat_id tm = gc_id gc" "gm_user_id tm = tid" "tid \<noteq> rid"
    and adm: "gm_role rm = RoleAdmin \<Longrightarrow> gm_role tm = RoleMember" and same: "same_members (delete_member tm d) d'" and post: "posted d d' gid rid [TypeSystemKick]"
  have role: "gm_role rm = RoleOwner \<and> gm_role tm \<noteq> RoleOwner \<or> gm_role rm = RoleAdmin \<and> gm_role tm = RoleMember"
  proof (cases "gm_role rm")
    case RoleOwner
    moreover have "tm \<noteq> rm" using a(5,9,10) by auto
    ultimately show ?thesis using owner_only [OF assms(2) a(1,3,4) _ a(7,8)] by blast
  qed (use a(6) adm in auto)
  have "gm_id m = gm_id tm \<longleftrightarrow> member_key m = (gc_id gc, tid)" if "m \<in> set (group_members d)" for m
    using group_inv_keys [OF assms(2) that a(7)] a(8,9) by (simp add: member_key_def)
  then have "group_members d' = filter (\<lambda>m. member_key m \<noteq> (gc_id gc, tid)) (group_members d)"
    using same by (auto simp: same_members_def delete_member_def intro: filter_cong)
  with a role post show ?thesis by (intro exI [of _ gc] exI [of _ rm] exI [of _ tm]) (simp add: member_key_def)
qed

theorem kick_member_effect_witness:
  "\<exists>d'. group_members d' = [sample_member 7 6 1 RoleOwner] \<and> posted sample_db d' 11 1 [TypeSystemKick]"
proof -
  obtain resp bc d' where k: "KickMember sample_service (sample_env 500 100) sample_db 1 11 2 = Inr (resp, bc, d')"
    using sample_kick by blast
  obtain gc where "gc \<in> set (group_chats sample_db)" "gc_chat_id gc = 11"
    "group_members d' = filter (\<lambda>m. member_key m \<noteq> (gc_id gc, 2)) (group_members sample_db)" "posted sample_db d' 11 1 [TypeSystemKick]"
    using kick_member_effect [OF k sample_group_inv] by blast
  then show ?thesis by (intro exI [of _ d']) (auto simp: sample_db_def empty_db_def sample_defs member_key_def)
qed

text \<open>A transfer of ownership is made by the owner alone: afterwards the chosen member is the owner and
  the previous owner an admin of that group, every other membership is as before, and one message
  announces it.
\<close>

theorem transfer_ownership_effect:
  assumes "TransferOwnership svc e v d rid gid nid = Inr (resp, bc, d')" and "group_inv d"
  shows "\<exists>gc rm tm. gc \<in> set (group_chats d) \<and> gc_chat_id gc = gid \<and> {rm, tm} \<subseteq> set (group_members d) \<and>
     member_key rm = (gc_id gc, rid) \<and> gm_role rm = RoleOwner \<and> member_key tm = (gc_id gc, nid) \<and> nid \<noteq> rid \<and>
     group_members d' = map (\<lambda>m. if m = tm then m\<lparr>gm_role := RoleOwner\<rparr> else if m = rm then m\<lparr>gm_role := RoleAdmin\<rparr> else m) (group_members d) \<and>
     posted d d' gid rid [TypeSystemPromote]"
  using assms(1)
proof (rule TransferOwnership_Inr)
  fix gc rm tm
  assume a: "gc \<in> set (group_chats d)" "gc_chat_id gc = gid" "rm \<in> set (group_members d)" "gm_group_chat_id rm = gc_id gc"
    "gm_user_id rm = rid" "gm_role rm = RoleOwner" "tm \<in> set (group_members d)" "gm_group_chat_id tm = gc_id gc" "gm_user_id tm = nid" "nid \<noteq> rid"
    and same: "same_members (set_role tm RoleOwner (set_role rm RoleAdmin d)) d'" and post: "posted d d' gid rid [TypeSystemPromote]"
  have "distinct (map gm_id (group_members d))" using assms(2) by (simp add: group_inv_def)
  then have "gm_id m = gm_id tm \<longleftrightarrow> m = tm" "gm_id m = gm_id rm \<longleftrightarrow> m = rm" if "m \<in> set (group_members d)" for m
    using distinct_key_eq [of gm_id "group_members d" m] that a(3,7) by blast+
  then have "group_members d' = map (\<lambda>m. if m = tm then m\<lparr>gm_role := RoleOwner\<rparr> else if m = rm then m\<lparr>gm_role := RoleAdmin\<rparr> else m) (group_members d)"
    using same by (auto simp: same_members_def set_role_twice)
  with a post show ?thesis by (intro exI [of _ gc] exI [of _ rm] exI [of _ tm]) (simp add: member_key_def)
qed

lemma sample_transfer: "\<exists>resp bc d'. TransferOwnership sample_service (sample_env t b) True sample_db 1 11 2 = Inr (resp, bc, d')"
proof -
  let ?a = "sample_member 7 6 1 RoleOwner" and ?b = "sample_member 8 6 2 RoleMember"
  obtain msgs d' where "post_system (sample_env t b) 0 (set_role ?b RoleOwner (set_role ?a RoleAdmin sample_db)) 11 1
     [(TypeSystemPromote, Some [(''target_id'', JUuid 2), (''actor_id'', JUuid 1),
                   (''new_role'', JStr ''owner''), (''action'', JStr ''ownership_transferred'')])] = Inr (msgs, d')"
    using post_system_ok [of "sample_env t b"] by fastforce
  moreover have "user_of sample_db 2 = Some (sample_user 2 ''Bob'')" by (simp add: user_of_def sample_db_def sample_defs empty_db_def)
  ultimately show ?thesis
    by (simp add: TransferOwnership_def begin_tx_def sample_group sample_member lockGroupMembership_def commit_def Let_def sample_member_def
        sample_group_def currently_banned_def sample_user_def del: One_nat_def)
qed

theorem transfer_ownership_effect_witness:
  "\<exists>d'. group_members d' = [sample_member 7 6 1 RoleAdmin, sample_member 8 6 2 RoleOwner] \<and> posted sample_db d' 11 1 [TypeSystemPromote]"
proof -
  obtain resp bc d' where k: "TransferOwnership sample_service (sample_env 500 100) True sample_db 1 11 2 = Inr (resp, bc, d')"
    using sample_transfer by blast
  obtain gc rm tm where "gc \<in> set (group_chats sample_db)" "gc_chat_id gc = 11" "{rm, tm} \<subseteq> set (group_members sample_db)"
    "member_key rm = (gc_id gc, 1)" "member_key tm = (gc_id gc, 2)"
    "group_members d' = map (\<lambda>m. if m = tm then m\<lparr>gm_role := RoleOwner\<rparr> else if m = rm then m\<lparr>gm_role := RoleAdmin\<rparr> else m) (group_members sample_db)"
    "posted sample_db d' 11 1 [TypeSystemPromote]"
    using transfer_ownership_effect [OF k sample_group_inv] by blast
  then show ?thesis by (intro exI [of _ d']) (auto simp: sample_db_def empty_db_def sample_defs member_key_def)
qed

section \<open>Joining\<close>

text \<open>Users are added to a group only by its owner or an admin, and only existing, undeleted and not
  currently banned users that have no block in either direction with who adds them; every added user
  becomes a plain member, the size stays within the limit, and each addition has its own message.
\<close>

theorem add_member_effect:
  assumes "AddMember svc e v d rid gid ids = Inr (resp, bc, d')"
  shows "\<exists>gc rm us. gc \<in> set (group_chats d) \<and> gc_chat_id gc = gid \<and> rm \<in> set (group_members d) \<and>
     member_key rm = (gc_id gc, rid) \<and> gm_role rm \<in> {RoleOwner, RoleAdmin} \<and> us \<noteq> [] \<and>
     (\<forall>u\<in>set us. u \<in> set (users d) \<and> u_id u \<in> set ids \<and> user_active (now e) u \<and> \<not> blocked_between d rid (u_id u)) \<and>
     (\<exists>rows. group_members d' = group_members d @ rows \<and> map member_key rows = map (\<lambda>u. (gc_id gc, u_id u)) us \<and>
        (\<forall>m\<in>set rows. gm_role m = RoleMember) \<and> distinct (map member_key (group_members d'))) \<and>
     length (live_members d (gc_id gc)) + length us \<le> MaxGroupMembers \<and>
     posted d d' gid rid (map (\<lambda>_. TypeSystemAdd) us)"
  using assms
proof (rule AddMember_Inr)
  fix gc rm us rows
  assume g: "gc \<in> set (group_chats d)" "gc_chat_id gc = gid" and ck: "add_member_checks e d rid gc ids = Inr (rm, us)"
    and rows: "rows = map (\<lambda>(j, u). new_member e j (gc_id gc) (u_id u) RoleMember) (enumerate 0 us)"
    and keys: "distinct (map member_key (group_members d @ rows))" and same: "same_members (d\<lparr>group_members := group_members d @ rows\<rparr>) d'"
    and post: "posted d d' gid rid (map (\<lambda>_. TypeSystemAdd) us)"
  note c = add_member_checks_Inr [OF ck]
  have "map member_key (map (\<lambda>(j, u). new_member e j (gc_id gc) (u_id u) RoleMember) (enumerate n us)) = map (\<lambda>u. (gc_id gc, u_id u)) us" for n
    by (induction us arbitrary: n) (simp_all add: new_member_def member_key_def)
  then have "map member_key rows = map (\<lambda>u. (gc_id gc, u_id u)) us" by (simp only: rows)
  moreover have "\<forall>m\<in>set rows. gm_role m = RoleMember" by (auto simp: rows new_member_def)
  moreover have "group_members d' = group_members d @ rows" using same by (simp add: same_members_def)
  ultimately show ?thesis using g c keys post by (intro exI [of _ gc] exI [of _ rm] exI [of _ us]) (auto simp: member_key_def)
qed

definition sample_db3 :: db where
  "sample_db3 = sample_db\<lparr>users := users sample_db @ [sample_user 3 ''Cem'']\<rparr>"

lemmas sample_db3_simps = sample_db3_def sample_db_def sample_defs empty_db_def

lemma sample3:
  "find_group (sample_env t b) sample_db3 (\<lambda>g. gc_chat_id g = 11) msg = Inr (sample_group 6 11)"
  "find_group (sample_env t b) sample_db3 (\<lambda>g. gc_invite_code g = ''code'') msg = Inr (sample_group 6 11)"
  "find_member (sample_env t b) site sample_db3 6 1 = Inr (sample_member 7 6 1 RoleOwner)"
  "filter (\<lambda>m. gm_group_chat_id m = 6 \<and> gm_user_id m = 3) (group_members sample_db3) = []"
  "checkMemberCapacity (sample_env t b) sample_db3 (sample_group 6 11) 1 = Inr ()"
  "checkMemberCapacity (sample_env t b) sample_db3 (sample_group 6 11) (Suc 0) = Inr ()"
  "create_members (sample_env t b) sample_db3 [new_member (sample_env t b) 0 6 3 RoleMember] =
     Inr (sample_db3\<lparr>group_members := group_members sample_db3 @ [new_member (sample_env t b) 0 6 3 RoleMember]\<rparr>)"
  by (simp_all add: find_group_def find_member_def sample_db3_simps chat_live_def ent_only_def checkMemberCapacity_def ent_count_def
      live_members_def member_user_live_def MaxGroupMembers_def create_members_def member_key_def new_member_def)

lemma sample_add_checks: "add_member_checks (sample_env t b) sample_db3 1 (sample_group 6 11) [3] =
    Inr (sample_member 7 6 1 RoleOwner, [sample_user 3 ''Cem''])"
proof -
  have "filter (\<lambda>u. u_id u \<in> set [3] \<and> u_deleted_at u = None) (users sample_db3) = [sample_user 3 ''Cem'']"
    "blocked_with_any sample_db3 1 [3] = []" "group_members sample_db3 = [sample_member 7 6 1 RoleOwner, sample_member 8 6 2 RoleMember]"
    by (simp_all add: sample_db3_simps blocked_with_any_def)
  then show ?thesis
    by (simp add: sample3 add_member_checks_def lockGroupMembership_def ent_all_def ent_exist_def Let_def
        currently_banned_def del: One_nat_def)
qed

lemma sample_add: "\<exists>resp bc d'. AddMember sample_service (sample_env t b) True sample_db3 1 11 [3] = Inr (resp, bc, d')"
proof -
  obtain msgs d' where "post_system (sample_env t b) (Suc 0) (sample_db3\<lparr>group_members := group_members sample_db3 @ [new_member (sample_env t b) 0 6 3 RoleMember]\<rparr>)
     11 1 [(TypeSystemAdd, Some [(''target_id'', JUuid 3), (''actor_id'', JUuid 1)])] = Inr (msgs, d')"
    using post_system_ok [of "sample_env t b"] by fastforce
  then show ?thesis
    by (simp add: sample3 sample_add_checks AddMember_def MaxGroupMembers_def EnsureUniqueUUIDs_def begin_tx_def commit_def Let_def del: One_nat_def)
qed

theorem add_member_effect_witness:
  "\<exists>d'. posted sample_db3 d' 11 1 [TypeSystemAdd] \<and> (\<exists>rows. group_members d' = group_members sample_db3 @ rows \<and> rows \<noteq> [])"
proof -
  obtain resp bc d' where k: "AddMember sample_service (sample_env 500 100) True sample_db3 1 11 [3] = Inr (resp, bc, d')"
    using sample_add by blast
  from add_member_effect [OF k] show ?thesis
  proof (elim exE conjE)
    fix gc us rows
    assume us: "us \<noteq> []" "\<forall>u\<in>set us. u \<in> set (users sample_db3) \<and> u_id u \<in> set [3] \<and> user_active (now (sample_env 500 100)) u \<and>
        \<not> blocked_between sample_db3 1 (u_id u)"
      and rows: "group_members d' = group_members sample_db3 @ rows" "map member_key rows = map (\<lambda>u. (gc_id gc, u_id u)) us"
        "distinct (map member_key (group_members d'))"
      and post: "posted sample_db3 d' 11 1 (map (\<lambda>_. TypeSystemAdd) us)"
    have dist: "distinct (map (\<lambda>u. (gc_id gc, u_id u)) us)" using rows(3) unfolding rows(1) map_append distinct_append rows(2) by blast
    have ids: "u_id u = 3" if "u \<in> set us" for u using bspec [OF us(2) that] by simp
    have "map (\<lambda>_. TypeSystemAdd) us = [TypeSystemAdd]"
    proof (cases us)
      case (Cons u vs)
      have "v \<notin> set vs" for v using dist ids [of u] ids [of v] unfolding Cons by (auto simp: image_iff)
      then have "vs = []" by (cases vs) auto
      with Cons show ?thesis by simp
    qed (use us(1) in simp)
    moreover have "rows \<noteq> []" using us(1) rows(2) by auto
    ultimately show ?thesis using post rows(1) by (intro exI [of _ d'] conjI exI [of _ rows]) simp_all
  qed
qed

text \<open>Nobody joins a group with an invite unless the code is the current code of a group that is not
  deleted, has not expired, the user was not a member and the group has room; the joiner becomes a plain
  member and the join is announced by one message.
\<close>

theorem join_by_invite_admission:
  assumes "JoinGroupByInvite svc e d uid code = Inr (resp, bc, d')"
  shows "\<exists>gc\<in>set (group_chats d). gc_invite_code gc = code \<and> chat_live d (gc_chat_id gc) \<and>
     (\<forall>x. gc_invite_expires_at gc = Some x \<longrightarrow> now e \<le> x) \<and>
     (gc_id gc, uid) \<notin> set (map member_key (group_members d)) \<and> length (live_members d (gc_id gc)) < MaxGroupMembers \<and>
     group_members d' = group_members d @ [new_member e 0 (gc_id gc) uid RoleMember] \<and> posted d d' (gc_chat_id gc) uid [TypeSystemJoin]"
  using assms
proof (rule JoinGroupByInvite_Inr)
  fix gc mr n
  assume g: "gc \<in> set (group_chats d)" "gc_invite_code gc = code" "chat_live d (gc_chat_id gc)"
    and x: "\<not> (case gc_invite_expires_at gc of None \<Rightarrow> False | Some x \<Rightarrow> now e > x)" and "join_group svc e d uid gc = Inr (mr, n, d')"
  from this(5) show ?thesis
  proof (rule join_group_Inr)
    let ?m = "new_member e 0 (gc_id gc) uid RoleMember"
    assume a: "distinct (map member_key (group_members d @ [?m]))" "length (live_members d (gc_id gc)) + 1 \<le> MaxGroupMembers"
      "same_members (d\<lparr>group_members := group_members d @ [?m]\<rparr>) d'" "posted d d' (gc_chat_id gc) uid [TypeSystemJoin]"
    have "(gc_id gc, uid) \<notin> set (map member_key (group_members d))"
      using a(1) by (auto simp: member_key_def new_member_def)
    with a g x show ?thesis by (intro bexI [of _ gc]) (auto simp: same_members_def split: option.splits)
  qed
qed

lemma sample_join: "\<exists>resp bc d'. JoinGroupByInvite sample_service (sample_env t b) sample_db3 3 ''code'' = Inr (resp, bc, d')"
proof -
  let ?d = "sample_db3\<lparr>group_members := group_members sample_db3 @ [new_member (sample_env t b) 0 6 3 RoleMember]\<rparr>"
  obtain msgs d' where "post_system (sample_env t b) 1 ?d 11 3 [(TypeSystemJoin, None)] = Inr (msgs, d')"
    using post_system_ok [of "sample_env t b"] by fastforce
  then show ?thesis
    by (simp add: sample3 JoinGroupByInvite_def join_group_def begin_tx_def commit_def Let_def ent_exist_def lockGroupMembership_def del: One_nat_def)
qed

theorem join_by_invite_admission_witness:
  "\<exists>d'. posted sample_db3 d' 11 3 [TypeSystemJoin] \<and> (6, 3) \<in> set (map member_key (group_members d'))"
proof -
  obtain resp bc d' where k: "JoinGroupByInvite sample_service (sample_env 500 100) sample_db3 3 ''code'' = Inr (resp, bc, d')"
    using sample_join by blast
  have g: "set (group_chats sample_db3) = {sample_group 6 11}" by (simp add: sample_db3_simps)
  show ?thesis
    using join_by_invite_admission [OF k] unfolding g
    by (intro exI [of _ d']) (simp add: sample_group_def new_member_def member_key_def)
qed

section \<open>Invite codes\<close>

lemma find_group_none:
  "(\<forall>g\<in>set (group_chats d). \<not> P g) \<Longrightarrow> \<exists>er. find_group e d P msg = Inl er"
  by (auto simp: find_group_def ent_only_def filter_empty_conv split: list.splits)

text \<open>Resetting the invite code of a group is done by its owner or an admin, stores the new code, which
  for a private group expires after a week, and kills the old one: with whatever environment, no user can
  join or preview a group with it any more, provided codes were unique and the new code differs.
\<close>

theorem reset_invite_revokes:
  assumes "ResetInviteCode svc e d rid gid = Inr ((code', expires), bc, d')"
    and "gc \<in> set (group_chats d)" and "gc_chat_id gc = gid" and "distinct (map gc_invite_code (group_chats d))"
    and "distinct (map gc_chat_id (group_chats d))" and "gc_invite_code gc \<noteq> code'"
  shows "gc\<lparr>gc_invite_code := code', gc_invite_expires_at := if gc_is_public gc then None else Some (now e + week)\<rparr> \<in> set (group_chats d') \<and>
     (\<exists>m\<in>set (group_members d). member_key m = (gc_id gc, rid) \<and> gm_role m \<in> {RoleOwner, RoleAdmin}) \<and>
     (\<exists>er. JoinGroupByInvite svc2 e2 d' uid (gc_invite_code gc) = Inl er) \<and> (\<exists>er. GetGroupByInviteCode svc2 e2 d' (gc_invite_code gc) = Inl er)"
proof -
  have "\<exists>g m. find_group e d (\<lambda>g. gc_chat_id g = gid) ''Group not found'' = Inr g \<and> find_member e ''query membership'' d (gc_id g) rid = Inr m \<and>
      gm_role m \<in> {RoleOwner, RoleAdmin} \<and> save_group e ''reset invite code'' False d
        (g\<lparr>gc_invite_code := code', gc_invite_expires_at := if gc_is_public g then None else Some (now e + week)\<rparr>) = Inr d'"
    using assms(1) unfolding ResetInviteCode_def by (simp only: handler_simps) blast
  then obtain g m where g: "find_group e d (\<lambda>g. gc_chat_id g = gid) ''Group not found'' = Inr g"
    and m: "find_member e ''query membership'' d (gc_id g) rid = Inr m" "gm_role m \<in> {RoleOwner, RoleAdmin}"
    and save: "save_group e ''reset invite code'' False d
        (g\<lparr>gc_invite_code := code', gc_invite_expires_at := if gc_is_public g then None else Some (now e + week)\<rparr>) = Inr d'" by blast
  have eq: "g = gc" using distinct_key_eq [OF assms(5) find_group_Inr(1) [OF g] assms(2)] find_group_Inr(2) [OF g] assms(3) by simp
  let ?new = "gc\<lparr>gc_invite_code := code', gc_invite_expires_at := if gc_is_public gc then None else Some (now e + week)\<rparr>"
  have d': "group_chats d' = update_where (\<lambda>x. gc_id x = gc_id gc) (\<lambda>_. ?new) (group_chats d)"
    using save by (auto simp: save_group_def eq split: if_splits)
  have dead: "gc_invite_code x \<noteq> gc_invite_code gc" if "x \<in> set (group_chats d')" for x
  proof -
    from that obtain x0 where x0: "x0 \<in> set (group_chats d)" "x = (if gc_id x0 = gc_id gc then ?new else x0)"
      unfolding d' in_update_where by blast
    show ?thesis
    proof (cases "gc_id x0 = gc_id gc")
      case False
      then show ?thesis using x0 distinct_key_eq [OF assms(4) x0(1) assms(2)] by auto
    qed (use x0(2) assms(6) in simp)
  qed
  have "\<exists>er. find_group e2 d' (\<lambda>g. gc_invite_code g = gc_invite_code gc) ''Invalid invite code'' = Inl er"
    using dead by (intro find_group_none) blast
  then have "\<exists>er. GetGroupByInviteCode svc2 e2 d' (gc_invite_code gc) = Inl er"
    and "\<exists>er. JoinGroupByInvite svc2 e2 d' uid (gc_invite_code gc) = Inl er"
    by (auto simp: GetGroupByInviteCode_def JoinGroupByInvite_def begin_tx_def fail_if_def)
  moreover have "?new \<in> set (group_chats d')" unfolding d' in_update_where using assms(2) by (intro bexI [of _ gc]) simp_all
  moreover have "\<exists>m\<in>set (group_members d). member_key m = (gc_id gc, rid) \<and> gm_role m \<in> {RoleOwner, RoleAdmin}"
    using find_member_Inr [OF m(1)] m(2) by (intro bexI [of _ m]) (simp_all add: member_key_def eq)
  ultimately show ?thesis by blast
qed

theorem reset_invite_revokes_witness:
  "\<exists>d'. \<exists>er. JoinGroupByInvite sample_service (sample_env 600 200) d' 3 ''code'' = Inl er"
proof -
  have "\<exists>x bc d'. ResetInviteCode sample_service (sample_env 500 100) sample_db 1 11 = Inr ((''fresh'', x), bc, d')"
    using sample_group [of 500 100] sample_member [of 500 100]
    by (simp add: ResetInviteCode_def Let_def save_group_def invite_code_free_def sample_db_def empty_db_def)
  then obtain x bc d' where r: "ResetInviteCode sample_service (sample_env 500 100) sample_db 1 11 = Inr ((''fresh'', x), bc, d')" by blast
  have "\<exists>er. JoinGroupByInvite sample_service (sample_env 600 200) d' 3 (gc_invite_code (sample_group 6 11)) = Inl er"
    using reset_invite_revokes [OF r, of "sample_group 6 11"] by (simp add: sample_db_def empty_db_def)
  then show ?thesis by auto
qed

section \<open>Names beyond one hundred bytes\<close>

text \<open>The request validator counts the characters of a group name and the entity client its bytes: a
  request the validator and all the checks accept, whose trimmed name has more than one hundred bytes,
  always ends in an internal server error instead of a validation error.
\<close>

theorem multibyte_group_name_fails:
  assumes "create_group_checks e valid d cid (req\<lparr>cg_name := TrimSpace (cg_name req), cg_description := TrimSpace (cg_description req)\<rparr>) = Inr us"
    and "length (TrimSpace (cg_name req)) > 100" and "cg_avatar_media_id req = None"
  shows "CreateGroupChat svc e valid d cid req = Inl internal_error"
  using assms
  by (simp add: CreateGroupChat_def Let_def begin_tx_def create_group_row_def group_name_ok_def fail_if_def split: option.splits)

text \<open>Fifty-one times the two bytes of a letter with an accent: fifty-one characters, one hundred and two bytes.\<close>

definition accented_name :: string where
  "accented_name = concat (replicate 51 [CHR 0xC3, CHR 0xA9])"

theorem multibyte_group_name_fails_witness:
  "CreateGroupChat sample_service (sample_env 500 100) (\<lambda>_. True) sample_db 1
     \<lparr>cg_name = accented_name, cg_description = [], cg_member_ids = [2], cg_avatar_media_id = None, cg_is_public = True\<rparr> = Inl internal_error"
proof (rule multibyte_group_name_fails)
  show "length (TrimSpace (cg_name \<lparr>cg_name = accented_name, cg_description = [], cg_member_ids = [2], cg_avatar_media_id = None, cg_is_public = True\<rparr>)) > 100"
    by code_simp
  show "create_group_checks (sample_env 500 100) (\<lambda>_. True) sample_db 1
     (\<lparr>cg_name = accented_name, cg_description = [], cg_member_ids = [2], cg_avatar_media_id = None, cg_is_public = True\<rparr>
       \<lparr>cg_name := TrimSpace (cg_name \<lparr>cg_name = accented_name, cg_description = [], cg_member_ids = [2], cg_avatar_media_id = None, cg_is_public = True\<rparr>),
        cg_description := TrimSpace (cg_description \<lparr>cg_name = accented_name, cg_description = [], cg_member_ids = [2], cg_avatar_media_id = None, cg_is_public = True\<rparr>)\<rparr>)
     = Inr [sample_user 2 ''Bob'']"
    by (simp add: create_group_checks_def MaxGroupMembers_def EnsureUniqueUUIDs_def ent_all_def ent_exist_def blocked_with_any_def
        sample_db_def empty_db_def currently_banned_def)
qed simp

end
