(* ===== verification/Message_Service.thy ===== *)
theory Message_Service
  imports Group_Common Cursor
begin

text \<open>
  Sending, editing and deleting messages: \<^verbatim>\<open>src/internal/api/application/message/message_service.go\<close>
  (\<open>SendMessage\<close>, \<open>EditMessage\<close>, \<open>DeleteMessage\<close>). Each handler runs in one transaction. The
  dereference of a nil pointer is the error \<open>Panicked\<close>.
\<close>

definition MaxMessageAttachments :: nat where "MaxMessageAttachments = 20"

section \<open>Lookups\<close>

definition chat_of :: "db \<Rightarrow> uuid \<Rightarrow> chat option" where
  "chat_of d i = find (\<lambda>c. c_id c = i) (chats d)"

definition private_of :: "db \<Rightarrow> uuid \<Rightarrow> private_chat option" where
  "private_of d i = find (\<lambda>p. pc_chat_id p = i) (private_chats d)"

definition group_of :: "db \<Rightarrow> uuid \<Rightarrow> group_chat option" where
  "group_of d i = find (\<lambda>g. gc_chat_id g = i) (group_chats d)"

definition find_live_chat :: "env \<Rightarrow> string \<Rightarrow> db \<Rightarrow> uuid \<Rightarrow> app_error + chat" where
  "find_live_chat e site d i =
     on_err (ent_only (fault e site) (filter (\<lambda>c. c_id c = i \<and> c_deleted_at c = None) (chats d)))
       (\<lambda>er. if er = NotFoundError then NewNotFoundError ''Chat not found or deleted'' else internal_error)"

definition find_message :: "env \<Rightarrow> db \<Rightarrow> uuid \<Rightarrow> app_error + message" where
  "find_message e d i = on_err (ent_only (fault e ''query message'') (filter (\<lambda>m. m_id m = i) (messages d)))
     (\<lambda>er. if er = NotFoundError then NewNotFoundError [] else internal_error)"

section \<open>SendMessage\<close>

record send_request =
  sr_chat_id :: uuid
  sr_content :: string
  sr_attachment_ids :: "uuid list"
  sr_reply_to_id :: "uuid option"

text \<open>The other side of a private chat as the sender sees it; \<open>None\<close> when the sender is on neither side.\<close>

definition other_side :: "private_chat \<Rightarrow> uuid \<Rightarrow> uuid option option" where
  "other_side pc userID =
     (if pc_user1_id pc = Some userID then Some (pc_user2_id pc)
      else if pc_user2_id pc = Some userID then Some (pc_user1_id pc)
      else None)"

definition send_private_checks :: "env \<Rightarrow> db \<Rightarrow> uuid \<Rightarrow> private_chat \<Rightarrow> app_error + unit" where
  "send_private_checks e d userID pc =
     (case other_side pc userID of
        None \<Rightarrow> Inl (NewForbiddenError [])
      | Some other \<Rightarrow>
         let otherUserID = (case other of None \<Rightarrow> uuid_Nil | Some i \<Rightarrow> i);
             otherUser = Option.bind other (user_of d) in
         and_then (fail_if (otherUserID = uuid_Nil) (NewForbiddenError ''User does not exist'')) (\<lambda>_.
         and_then (fail_if (case otherUser of None \<Rightarrow> False | Some u \<Rightarrow> u_deleted_at u \<noteq> None) (NewForbiddenError ''User is deleted'')) (\<lambda>_.
         and_then (fail_if (case otherUser of None \<Rightarrow> False | Some u \<Rightarrow> currently_banned (now e) u)
                    (NewForbiddenError ''User is currently suspended/banned'')) (\<lambda>_.
         and_then (on_err (ent_exist (fault e ''check block status'')
                      (filter (\<lambda>b. ub_blocker_id b = userID \<and> ub_blocked_id b = otherUserID \<or>
                                    ub_blocker_id b = otherUserID \<and> ub_blocked_id b = userID) (user_blocks d))) (\<lambda>_. internal_error)) (\<lambda>isBlocked.
           fail_if isBlocked (NewForbiddenError []))))))"

text \<open>The role of the sender, empty in a private chat.\<close>

definition send_access :: "env \<Rightarrow> db \<Rightarrow> uuid \<Rightarrow> chat \<Rightarrow> app_error + string" where
  "send_access e d userID c =
     (case (c_type c, private_of d (c_id c), group_of d (c_id c)) of
        (TypePrivate, Some pc, _) \<Rightarrow> and_then (send_private_checks e d userID pc) (\<lambda>_. Inr [])
      | (TypeGroup, _, Some gc) \<Rightarrow>
          (case filter (\<lambda>m. gm_group_chat_id m = gc_id gc \<and> gm_user_id m = userID) (group_members d) of
             [] \<Rightarrow> Inl (NewForbiddenError [])
           | m # _ \<Rightarrow> Inr (role_text (gm_role m)))
      | _ \<Rightarrow> Inl internal_error)"

definition check_reply :: "env \<Rightarrow> db \<Rightarrow> uuid \<Rightarrow> uuid option \<Rightarrow> app_error + unit" where
  "check_reply e d chatID reply =
     (case reply of
        None \<Rightarrow> Inr ()
      | Some r \<Rightarrow>
         and_then (on_err (ent_exist (fault e ''check reply'')
                     (filter (\<lambda>m. m_id m = r \<and> m_chat_id m = chatID \<and> m_deleted_at m = None \<and> m_type m = TypeRegular) (messages d)))
                    (\<lambda>_. internal_error)) (\<lambda>ex.
           fail_if (\<not> ex) (NewBadRequestError ''Cannot reply to this message'')))"

text \<open>Completed, unused attachments the user uploaded.\<close>

definition attachable :: "db \<Rightarrow> uuid \<Rightarrow> uuid list \<Rightarrow> media \<Rightarrow> bool" where
  "attachable d userID ids m \<longleftrightarrow> md_id m \<in> set ids \<and> md_message_id m = None \<and> md_category m = CategoryMessageAttachment \<and>
     md_upload_status m = UploadStatusCompleted \<and> md_uploaded_by_id m = Some userID \<and> (\<exists>u\<in>set (users d). u_id u = userID)"

definition check_attachments :: "env \<Rightarrow> db \<Rightarrow> uuid \<Rightarrow> uuid list \<Rightarrow> app_error + unit" where
  "check_attachments e d userID ids =
     (if ids = [] then Inr ()
      else and_then (on_err (ent_count (fault e ''count valid media'') (filter (attachable d userID ids) (medias d))) (\<lambda>_. internal_error)) (\<lambda>count.
             fail_if (count \<noteq> length ids) (NewBadRequestError [])))"

text \<open>
  The foreign keys of an added edge: the entity client sets \<open>message_id\<close> where it is null and reports a
  constraint error when fewer rows than identifiers were affected.
\<close>

definition link_attachments :: "uuid \<Rightarrow> uuid list \<Rightarrow> db \<Rightarrow> app_error + db" where
  "link_attachments mid ids d =
     (let P = (\<lambda>m. md_id m \<in> set ids \<and> md_message_id m = None) in
      if affected P (medias d) < length ids then Inl internal_error
      else Inr (d\<lparr>medias := update_where P (\<lambda>m. m\<lparr>md_message_id := Some mid\<rparr>) (medias d)\<rparr>))"

definition unlink_attachments :: "uuid \<Rightarrow> uuid list \<Rightarrow> db \<Rightarrow> db" where
  "unlink_attachments mid ids d =
     d\<lparr>medias := update_where (\<lambda>m. md_id m \<in> set ids \<and> md_message_id m = Some mid) (\<lambda>m. m\<lparr>md_message_id := None\<rparr>) (medias d)\<rparr>"

definition sent_message :: "env \<Rightarrow> uuid \<Rightarrow> send_request \<Rightarrow> message" where
  "sent_message e userID req = \<lparr>m_id = newid e 0, m_chat_id = sr_chat_id req, m_sender_id = Some userID,
     m_reply_to_id = sr_reply_to_id req, m_type = TypeRegular, m_content = Some (sr_content req), m_action_data = None,
     m_deleted_at = None, m_edited_at = None, m_created_at = now e\<rparr>"

definition send_response :: "service \<Rightarrow> env \<Rightarrow> db \<Rightarrow> uuid \<Rightarrow> send_request \<Rightarrow> message \<Rightarrow> string \<Rightarrow> app_error + message_response" where
  "send_response svc e d userID req msg role =
     (if sr_attachment_ids req = [] \<and> sr_reply_to_id req = None then
        and_then (on_err (ent_only (fault e ''fetch sender'') (filter (\<lambda>u. u_id u = userID) (users d))) (\<lambda>_. internal_error)) (\<lambda>u.
          Inr (ToMessageResponse \<lparr>fm_message = msg, fm_sender = Some (u, Option.bind (u_avatar_id u) (media_of d)),
                 fm_attachments = [], fm_reply_to = None\<rparr> (svc_urls svc) role))
      else
        and_then (on_err (ent_only (fault e ''fetch full message'') (filter (\<lambda>m. m_id m = m_id msg) (messages d))) (\<lambda>_. internal_error)) (\<lambda>m.
          Inr (ToMessageResponse \<lparr>fm_message = m, fm_sender = load_sender d True m,
                 fm_attachments = (if sr_attachment_ids req = [] then [] else attachments_of d (m_id m)),
                 fm_reply_to = (if sr_reply_to_id req = None then None else load_reply d m)\<rparr> (svc_urls svc) role)))"

definition SendMessage :: "service \<Rightarrow> env \<Rightarrow> (send_request \<Rightarrow> bool) \<Rightarrow> db \<Rightarrow> uuid \<Rightarrow> send_request \<Rightarrow> app_error + (message_response \<times> db)" where
  "SendMessage svc e valid d userID req =
     and_then (fail_if (\<not> valid req) (NewBadRequestError [])) (\<lambda>_.
     and_then (fail_if (length (sr_attachment_ids req) > MaxMessageAttachments) (NewBadRequestError [])) (\<lambda>_.
     and_then (on_err (EnsureUniqueUUIDs (sr_attachment_ids req)) (\<lambda>_. NewBadRequestError [])) (\<lambda>_.
     let req = req\<lparr>sr_content := TrimSpace (sr_content req)\<rparr> in
     and_then (fail_if (sr_content req = [] \<and> sr_attachment_ids req = []) (NewBadRequestError ''Message must contain text or attachments'')) (\<lambda>_.
     and_then (begin_tx e) (\<lambda>_.
     and_then (find_live_chat e ''query chat info'' d (sr_chat_id req)) (\<lambda>_.
     and_then (find_live_chat e ''query chat details'' d (sr_chat_id req)) (\<lambda>chatInfo.
     and_then (send_access e d userID chatInfo) (\<lambda>senderRole.
     and_then (check_reply e d (sr_chat_id req) (sr_reply_to_id req)) (\<lambda>_.
     and_then (check_attachments e d userID (sr_attachment_ids req)) (\<lambda>_.
     let msg = sent_message e userID req in
     and_then (fail_if (fault e ''save message'') internal_error) (\<lambda>_.
     and_then (link_attachments (m_id msg) (sr_attachment_ids req) (d\<lparr>messages := messages d @ [msg]\<rparr>)) (\<lambda>d.
     and_then (on_err (PersistMessageOutbox e 1 d msg EventMessageNew userID) (\<lambda>_. internal_error)) (\<lambda>d.
     and_then (send_response svc e d userID req msg senderRole) (\<lambda>resp.
     and_then (commit e) (\<lambda>_.
       Inr (resp, d))))))))))))))))"

section \<open>EditMessage\<close>

record edit_request =
  er_content :: string
  er_attachment_ids :: "uuid list"
  er_has_attachment_ids :: bool

datatype edit_error = Rejected app_error | Panicked

abbreviation (input) edit_window :: duration where "edit_window \<equiv> 15 * 60 * 1000000000"

text \<open>The checks on the loaded message, and the role of the sender in a group.\<close>

definition edit_checks :: "env \<Rightarrow> db \<Rightarrow> uuid \<Rightarrow> message \<Rightarrow> edit_error + string" where
  "edit_checks e d userID msg =
     (let c = chat_of d (m_chat_id msg) in
      and_then (fail_if (case c of None \<Rightarrow> False | Some c \<Rightarrow> c_deleted_at c \<noteq> None) (Rejected (NewBadRequestError ''Chat is deleted''))) (\<lambda>_.
      and_then (fail_if (m_sender_id msg \<noteq> Some userID) (Rejected (NewForbiddenError []))) (\<lambda>_.
      and_then (fail_if (m_type msg \<noteq> TypeRegular) (Rejected (NewBadRequestError ''Cannot edit this type of message''))) (\<lambda>_.
      and_then (fail_if (m_deleted_at msg \<noteq> None) (Rejected (NewBadRequestError ''Cannot edit a deleted message''))) (\<lambda>_.
      and_then (fail_if (now e - m_created_at msg > edit_window) (Rejected (NewBadRequestError ''Message is too old to edit''))) (\<lambda>_.
        case c of
          None \<Rightarrow> Inl Panicked
        | Some c \<Rightarrow>
            if c_type c \<noteq> TypeGroup then Inr []
            else (case group_of d (c_id c) of
                    None \<Rightarrow> Inl (Rejected internal_error)
                  | Some gc \<Rightarrow>
                      and_then (on_err (find_member e ''verify membership for edit'' d (gc_id gc) userID)
                        (\<lambda>er. Rejected (if er = NotFoundError then NewForbiddenError ''Not a member of this group'' else internal_error))) (\<lambda>m.
                      Inr (role_text (gm_role m))))))))))"

definition edit_links :: "edit_request \<Rightarrow> uuid list \<Rightarrow> uuid list \<times> uuid list" where
  "edit_links req current =
     (if er_has_attachment_ids req
      then (filter (\<lambda>i. i \<notin> set (er_attachment_ids req)) current, filter (\<lambda>i. i \<notin> set current) (remdups (er_attachment_ids req)))
      else ([], []))"

text \<open>An attachment linked by an edit must not serve as an avatar either.\<close>

definition edit_attachable :: "db \<Rightarrow> uuid \<Rightarrow> uuid list \<Rightarrow> media \<Rightarrow> bool" where
  "edit_attachable d userID ids m \<longleftrightarrow> attachable d userID ids m \<and>
     \<not> (\<exists>u\<in>set (users d). u_avatar_id u = Some (md_id m)) \<and> \<not> (\<exists>g\<in>set (group_chats d). gc_avatar_id g = Some (md_id m))"

definition full_response :: "service \<Rightarrow> env \<Rightarrow> string \<Rightarrow> db \<Rightarrow> uuid \<Rightarrow> string \<Rightarrow> edit_error + message_response" where
  "full_response svc e site d mid role =
     and_then (on_err (ent_only (fault e site) (filter (\<lambda>m. m_id m = mid) (messages d))) (\<lambda>_. Rejected internal_error)) (\<lambda>m.
       Inr (ToMessageResponse (load_full d m) (svc_urls svc) role))"

definition edited :: "env \<Rightarrow> string \<Rightarrow> message \<Rightarrow> message" where
  "edited e content m = m\<lparr>m_content := Some content, m_edited_at := Some (now e)\<rparr>"

definition apply_edit :: "service \<Rightarrow> env \<Rightarrow> db \<Rightarrow> uuid \<Rightarrow> message \<Rightarrow> string \<Rightarrow> uuid list \<Rightarrow> uuid list \<Rightarrow> string \<Rightarrow>
    edit_error + (message_response \<times> db)" where
  "apply_edit svc e d userID msg content toUnlink toLink role =
     and_then (if toLink = [] then Inr ()
               else and_then (on_err (ent_count (fault e ''validate new attachments'') (filter (edit_attachable d userID toLink) (medias d)))
                                (\<lambda>_. Rejected internal_error)) (\<lambda>count.
                      fail_if (count \<noteq> length toLink) (Rejected (NewBadRequestError ''Invalid attachments'')))) (\<lambda>_.
     and_then (fail_if (fault e ''update message'') (Rejected internal_error)) (\<lambda>_.
     and_then (on_err (link_attachments (m_id msg) toLink (unlink_attachments (m_id msg) toUnlink
                 (d\<lparr>messages := update_where (\<lambda>m. m_id m = m_id msg) (edited e content) (messages d)\<rparr>))) Rejected) (\<lambda>d.
     and_then (on_err (PersistMessageOutbox e 0 d (edited e content msg) EventMessageUpdate userID) (\<lambda>_. Rejected internal_error)) (\<lambda>d.
     and_then (full_response svc e ''fetch full message'' d (m_id msg) role) (\<lambda>resp.
     and_then (on_err (commit e) Rejected) (\<lambda>_.
       Inr (resp, d)))))))"

definition EditMessage :: "service \<Rightarrow> env \<Rightarrow> (edit_request \<Rightarrow> bool) \<Rightarrow> db \<Rightarrow> uuid \<Rightarrow> uuid \<Rightarrow> edit_request \<Rightarrow>
    edit_error + (message_response \<times> db)" where
  "EditMessage svc e valid d userID messageID req =
     and_then (fail_if (\<not> valid req) (Rejected (NewBadRequestError []))) (\<lambda>_.
     and_then (fail_if (length (er_attachment_ids req) > MaxMessageAttachments) (Rejected (NewBadRequestError []))) (\<lambda>_.
     and_then (if er_has_attachment_ids req then on_err (EnsureUniqueUUIDs (er_attachment_ids req)) (\<lambda>_. Rejected (NewBadRequestError [])) else Inr ()) (\<lambda>_.
     let content = TrimSpace (er_content req) in
     and_then (on_err (begin_tx e) Rejected) (\<lambda>_.
     and_then (on_err (find_message e d messageID) Rejected) (\<lambda>msg.
     and_then (edit_checks e d userID msg) (\<lambda>senderRole.
     let current = remdups (map md_id (attachments_of d (m_id msg)));
         (toUnlink, toLink) = edit_links req current in
     and_then (fail_if (content = [] \<and> int (length current) - int (length toUnlink) + int (length toLink) = 0)
                (Rejected (NewBadRequestError ''Message must contain text or attachments''))) (\<lambda>_.
       case m_content msg of
         None \<Rightarrow> Inl Panicked
       | Some old \<Rightarrow>
           if content = old \<and> toUnlink = [] \<and> toLink = []
           then and_then (full_response svc e ''fetch unchanged message'' d (m_id msg) senderRole) (\<lambda>resp. Inr (resp, d))
           else apply_edit svc e d userID msg content toUnlink toLink senderRole)))))))"

section \<open>DeleteMessage\<close>

definition can_delete :: "env \<Rightarrow> db \<Rightarrow> uuid \<Rightarrow> message \<Rightarrow> app_error + bool" where
  "can_delete e d userID msg =
     (let own = (m_sender_id msg = Some userID) in
      case chat_of d (m_chat_id msg) of
        Some c \<Rightarrow>
          if c_type c = TypeGroup then
            and_then (on_err (ent_only (fault e ''verify membership for deletion'')
                (filter (\<lambda>m. gm_user_id m = userID \<and> (\<exists>g\<in>set (group_chats d). gc_id g = gm_group_chat_id m \<and> gc_chat_id g = m_chat_id msg)) (group_members d)))
                (\<lambda>er. if er = NotFoundError then NewForbiddenError ''Not a member of this group'' else internal_error)) (\<lambda>member.
              Inr (own \<or> gm_role member = RoleAdmin \<or> gm_role member = RoleOwner))
          else Inr own
      | None \<Rightarrow> Inr own)"

definition erase_message :: "env \<Rightarrow> message \<Rightarrow> db \<Rightarrow> db" where
  "erase_message e msg d =
     d\<lparr>messages := update_where (\<lambda>m. m_id m = m_id msg) (\<lambda>m. m\<lparr>m_deleted_at := Some (now e), m_content := None\<rparr>) (messages d),
       medias := update_where (\<lambda>m. md_message_id m = Some (m_id msg)) (\<lambda>m. m\<lparr>md_message_id := None\<rparr>) (medias d)\<rparr>"

definition DeleteMessage :: "env \<Rightarrow> db \<Rightarrow> uuid \<Rightarrow> uuid \<Rightarrow> app_error + db" where
  "DeleteMessage e d userID messageID =
     and_then (begin_tx e) (\<lambda>_.
     and_then (find_message e d messageID) (\<lambda>msg.
     and_then (fail_if (case chat_of d (m_chat_id msg) of None \<Rightarrow> False | Some c \<Rightarrow> c_deleted_at c \<noteq> None) (NewBadRequestError ''Chat is deleted'')) (\<lambda>_.
     and_then (can_delete e d userID msg) (\<lambda>canDelete.
     and_then (fail_if (\<not> canDelete) (NewForbiddenError [])) (\<lambda>_.
     and_then (fail_if (m_type msg \<noteq> TypeRegular) (NewBadRequestError ''Cannot delete this type of message'')) (\<lambda>_.
     and_then (fail_if (m_deleted_at msg \<noteq> None) (NewBadRequestError ''Message already deleted'')) (\<lambda>_.
     and_then (fail_if (fault e ''delete message'') internal_error) (\<lambda>_.
     and_then (on_err (PersistMessageOutbox e 0 (erase_message e msg d) msg EventMessageDelete userID) (\<lambda>_. internal_error)) (\<lambda>d.
     and_then (commit e) (\<lambda>_.
       Inr d))))))))))"

end
