(* ===== verification/Message_Laws.thy ===== *)
theory Message_Laws
  imports Message_Service Group_Laws
begin

text \<open>
  What sending, editing and deleting a message does, who may do it, and that editing never dereferences
  a missing content.
\<close>

section \<open>Sending\<close>

definition may_send :: "db \<Rightarrow> time \<Rightarrow> uuid \<Rightarrow> chat \<Rightarrow> bool" where
  "may_send d t uid c \<longleftrightarrow>
     (case c_type c of
        TypePrivate \<Rightarrow> \<exists>pc\<in>set (private_chats d). pc_chat_id pc = c_id c \<and> (\<exists>other. other_side pc uid = Some (Some other) \<and>
          other \<noteq> uuid_Nil \<and> \<not> blocked_between d uid other \<and> (\<forall>u. user_of d other = Some u \<longrightarrow> user_active t u))
      | TypeGroup \<Rightarrow> \<exists>gc\<in>set (group_chats d). gc_chat_id gc = c_id c \<and>
          (\<exists>m\<in>set (group_members d). member_key m = (gc_id gc, uid)))"

lemma send_private_checks_Inr:
  assumes "send_private_checks e d uid pc = Inr u"
  shows "\<exists>other. other_side pc uid = Some (Some other) \<and> other \<noteq> uuid_Nil \<and> \<not> blocked_between d uid other \<and>
     (\<forall>u. user_of d other = Some u \<longrightarrow> user_active (now e) u)"
proof -
  obtain other where o: "other_side pc uid = Some other" using assms by (auto simp: send_private_checks_def split: option.splits)
  show ?thesis
  proof (cases other)
    case None
    then show ?thesis using assms o by (simp add: send_private_checks_def Let_def)
  next
    case (Some i)
    have "i \<noteq> uuid_Nil" "\<not> blocked_between d uid i" "\<forall>u. user_of d i = Some u \<longrightarrow> user_active (now e) u"
      using assms o Some
      by (auto simp: send_private_checks_def Let_def result_simps blocked_between_def filter_empty_conv user_active_iff split: option.splits)
    with o Some show ?thesis by blast
  qed
qed

lemma send_access_Inr: "send_access e d uid c = Inr role \<Longrightarrow> may_send d (now e) uid c"
proof (cases "c_type c")
  case TypePrivate
  assume a: "send_access e d uid c = Inr role"
  then obtain pc where pc: "private_of d (c_id c) = Some pc" "send_private_checks e d uid pc = Inr ()"
    using TypePrivate by (auto simp: send_access_def and_then_Inr split: option.splits)
  have "pc \<in> set (private_chats d)" "pc_chat_id pc = c_id c" using find_SomeD [OF pc(1) [unfolded private_of_def]] by auto
  with send_private_checks_Inr [OF pc(2)] TypePrivate show ?thesis unfolding may_send_def by auto
next
  case TypeGroup
  assume a: "send_access e d uid c = Inr role"
  then obtain gc where gc: "group_of d (c_id c) = Some gc"
    using TypeGroup by (auto simp: send_access_def split: option.splits)
  moreover obtain m ms where "filter (\<lambda>m. gm_group_chat_id m = gc_id gc \<and> gm_user_id m = uid) (group_members d) = m # ms"
    using a TypeGroup gc by (auto simp: send_access_def split: list.splits)
  then have "m \<in> set (filter (\<lambda>m. gm_group_chat_id m = gc_id gc \<and> gm_user_id m = uid) (group_members d))" by simp
  ultimately show ?thesis using find_SomeD [of _ "group_chats d" gc] TypeGroup
    unfolding may_send_def group_of_def by (force simp: member_key_def)
qed

lemma find_live_chat_Inr: "find_live_chat e site d i = Inr c \<Longrightarrow> c \<in> set (chats d) \<and> c_id c = i \<and> c_deleted_at c = None"
proof -
  assume "find_live_chat e site d i = Inr c"
  then have "filter (\<lambda>c. c_id c = i \<and> c_deleted_at c = None) (chats d) = [c]" by (simp add: find_live_chat_def result_simps)
  then have "c \<in> set (filter (\<lambda>c. c_id c = i \<and> c_deleted_at c = None) (chats d))" by simp
  then show ?thesis by simp
qed

lemma link_attachments_Inr: "link_attachments mid ids d = Inr d' \<Longrightarrow>
   d' = d\<lparr>medias := update_where (\<lambda>m. md_id m \<in> set ids \<and> md_message_id m = None) (\<lambda>m. m\<lparr>md_message_id := Some mid\<rparr>) (medias d)\<rparr>"
  by (simp add: link_attachments_def Let_def split: if_splits)

text \<open>Under unique identifiers the count of a check says that every named attachment passes it.\<close>

lemma counted_all:
  assumes "length (filter Q ms) = length ids" and "distinct ids" and "distinct (map md_id ms)" and "\<And>m. Q m \<Longrightarrow> md_id m \<in> set ids"
  shows "\<forall>i\<in>set ids. \<exists>m\<in>set ms. md_id m = i \<and> Q m"
proof -
  have "distinct (map md_id (filter Q ms))" using assms(3) by (simp add: distinct_map_filter)
  then have "card (set (map md_id (filter Q ms))) = length ids" using distinct_card [of "map md_id (filter Q ms)"] assms(1) by simp
  moreover have "card (set ids) = length ids" using assms(2) by (rule distinct_card)
  moreover have "set (map md_id (filter Q ms)) \<subseteq> set ids" using assms(4) by auto
  ultimately have "set (map md_id (filter Q ms)) = set ids" by (intro card_subset_eq) auto
  then have "\<exists>m\<in>set (filter Q ms). i = md_id m" if "i \<in> set ids" for i using that by (auto simp: set_eq_iff image_iff)
  then show ?thesis by fastforce
qed

lemma check_attachments_all:
  assumes "check_attachments e d uid ids = Inr u" and "distinct ids" and "distinct (map md_id (medias d))"
  shows "\<forall>i\<in>set ids. \<exists>m\<in>set (medias d). md_id m = i \<and> attachable d uid ids m"
proof (cases "ids = []")
  case False
  then have "length (filter (attachable d uid ids) (medias d)) = length ids"
    using assms(1) by (auto simp: check_attachments_def result_simps)
  then show ?thesis by (rule counted_all [OF _ assms(2,3)]) (simp add: attachable_def)
qed simp

lemma SendMessage_Inr:
  assumes "SendMessage svc e valid d uid req = Inr (resp, d')"
  obtains c row where "c \<in> set (chats d)" "c_id c = sr_chat_id req" "c_deleted_at c = None" "may_send d (now e) uid c"
    "distinct (sr_attachment_ids req)" "length (sr_attachment_ids req) \<le> MaxMessageAttachments"
    "check_attachments e d uid (sr_attachment_ids req) = Inr ()" "check_reply e d (sr_chat_id req) (sr_reply_to_id req) = Inr ()"
    "TrimSpace (sr_content req) \<noteq> [] \<or> sr_attachment_ids req \<noteq> []"
    "row = new_outbox e 1 (sent_message e uid (req\<lparr>sr_content := TrimSpace (sr_content req)\<rparr>)) EventMessageNew uid
       (Some (outbox_row_payload e (sent_message e uid (req\<lparr>sr_content := TrimSpace (sr_content req)\<rparr>)) EventMessageNew))"
    "d' = d\<lparr>messages := messages d @ [sent_message e uid (req\<lparr>sr_content := TrimSpace (sr_content req)\<rparr>)], outbox := outbox d @ [row],
       medias := update_where (\<lambda>m. md_id m \<in> set (sr_attachment_ids req) \<and> md_message_id m = None)
         (\<lambda>m. m\<lparr>md_message_id := Some (newid e 0)\<rparr>) (medias d)\<rparr>"
proof -
  let ?req = "req\<lparr>sr_content := TrimSpace (sr_content req)\<rparr>"
  let ?msg = "sent_message e uid ?req"
  have "\<exists>c role d1 u v. \<not> length (sr_attachment_ids req) > MaxMessageAttachments \<and> distinct (sr_attachment_ids req) \<and>
     \<not> (sr_content ?req = [] \<and> sr_attachment_ids ?req = []) \<and> find_live_chat e ''query chat details'' d (sr_chat_id ?req) = Inr c \<and>
     send_access e d uid c = Inr role \<and> check_reply e d (sr_chat_id ?req) (sr_reply_to_id ?req) = Inr u \<and>
     check_attachments e d uid (sr_attachment_ids ?req) = Inr v \<and>
     link_attachments (m_id ?msg) (sr_attachment_ids ?req) (d\<lparr>messages := messages d @ [?msg]\<rparr>) = Inr d1 \<and>
     d' = d1\<lparr>outbox := outbox d1 @ [new_outbox e 1 ?msg EventMessageNew uid (Some (outbox_row_payload e ?msg EventMessageNew))]\<rparr>"
    using assms unfolding SendMessage_def by (simp only: handler_simps EnsureUniqueUUIDs_Inr) blast
  then obtain c role d1 u v where len: "\<not> length (sr_attachment_ids req) > MaxMessageAttachments" and dist: "distinct (sr_attachment_ids req)"
    and ne: "\<not> (sr_content ?req = [] \<and> sr_attachment_ids ?req = [])" and c: "find_live_chat e ''query chat details'' d (sr_chat_id ?req) = Inr c"
    and acc: "send_access e d uid c = Inr role" and rep: "check_reply e d (sr_chat_id ?req) (sr_reply_to_id ?req) = Inr u"
    and att: "check_attachments e d uid (sr_attachment_ids ?req) = Inr v"
    and link: "link_attachments (m_id ?msg) (sr_attachment_ids ?req) (d\<lparr>messages := messages d @ [?msg]\<rparr>) = Inr d1"
    and d': "d' = d1\<lparr>outbox := outbox d1 @ [new_outbox e 1 ?msg EventMessageNew uid (Some (outbox_row_payload e ?msg EventMessageNew))]\<rparr>" by blast
  have id: "m_id ?msg = newid e 0" by (simp add: sent_message_def)
  show thesis
  proof (rule that [OF _ _ _ send_access_Inr [OF acc] dist])
    show "d' = d\<lparr>messages := messages d @ [?msg],
        outbox := outbox d @ [new_outbox e 1 ?msg EventMessageNew uid (Some (outbox_row_payload e ?msg EventMessageNew))],
        medias := update_where (\<lambda>m. md_id m \<in> set (sr_attachment_ids req) \<and> md_message_id m = None)
         (\<lambda>m. m\<lparr>md_message_id := Some (newid e 0)\<rparr>) (medias d)\<rparr>"
      using link_attachments_Inr [OF link] d' by (simp add: id)
  qed (use find_live_chat_Inr [OF c] len ne rep att in \<open>simp_all add: not_less\<close>)
qed

section \<open>Editing\<close>

lemma find_message_Inr: "find_message e d i = Inr m \<Longrightarrow> m \<in> set (messages d) \<and> m_id m = i"
proof -
  assume "find_message e d i = Inr m"
  then have "filter (\<lambda>m. m_id m = i) (messages d) = [m]" by (simp add: find_message_def result_simps)
  then have "m \<in> set (filter (\<lambda>m. m_id m = i) (messages d))" by simp
  then show ?thesis by simp
qed

lemma edit_checks_Inr:
  assumes "edit_checks e d uid msg = Inr role"
  shows "m_sender_id msg = Some uid" and "m_type msg = TypeRegular" and "m_deleted_at msg = None"
    and "now e - m_created_at msg \<le> edit_window"
    and "\<exists>c. chat_of d (m_chat_id msg) = Some c \<and> c_deleted_at c = None \<and>
      (c_type c = TypeGroup \<longrightarrow> (\<exists>gc\<in>set (group_chats d). gc_chat_id gc = c_id c \<and> (\<exists>m\<in>set (group_members d). member_key m = (gc_id gc, uid))))"
proof -
  note a = assms [unfolded edit_checks_def Let_def]
  show "m_sender_id msg = Some uid" "m_type msg = TypeRegular" "m_deleted_at msg = None" "now e - m_created_at msg \<le> edit_window"
    using a by (auto simp: result_simps)
  obtain c where c: "chat_of d (m_chat_id msg) = Some c" using a by (auto simp: result_simps split: option.splits)
  have live: "c_deleted_at c = None" using a c by (auto simp: result_simps)
  have "\<exists>gc\<in>set (group_chats d). gc_chat_id gc = c_id c \<and> (\<exists>m\<in>set (group_members d). member_key m = (gc_id gc, uid))" if t: "c_type c = TypeGroup"
  proof -
    obtain gc where gc: "group_of d (c_id c) = Some gc" using a c t by (auto simp: result_simps split: option.splits)
    then obtain m where m: "find_member e ''verify membership for edit'' d (gc_id gc) uid = Inr m"
      using a c t by (auto simp: result_simps)
    show ?thesis using find_SomeD [OF gc [unfolded group_of_def]] find_member_Inr [OF m] by (auto simp: member_key_def)
  qed
  with c live show "\<exists>c. chat_of d (m_chat_id msg) = Some c \<and> c_deleted_at c = None \<and>
      (c_type c = TypeGroup \<longrightarrow> (\<exists>gc\<in>set (group_chats d). gc_chat_id gc = c_id c \<and> (\<exists>m\<in>set (group_members d). member_key m = (gc_id gc, uid))))" by blast
qed

text \<open>The attachments of a message, those it has after an edit, and what this makes of a row.\<close>

definition attached :: "db \<Rightarrow> uuid \<Rightarrow> uuid set" where
  "attached d mid = {i. \<exists>m\<in>set (medias d). md_id m = i \<and> md_message_id m = Some mid}"

definition wanted :: "db \<Rightarrow> uuid \<Rightarrow> edit_request \<Rightarrow> uuid set" where
  "wanted d mid req = (if er_has_attachment_ids req then set (er_attachment_ids req) else attached d mid)"

definition relinked :: "uuid set \<Rightarrow> uuid \<Rightarrow> media \<Rightarrow> media" where
  "relinked W mid m = m\<lparr>md_message_id := (if md_id m \<in> W then Some mid else if md_message_id m = Some mid then None else md_message_id m)\<rparr>"

lemma current_attached: "set (remdups (map md_id (attachments_of d mid))) = attached d mid"
  by (auto simp: attachments_of_def attached_def)

lemma edit_links_wanted:
  assumes "edit_links req (remdups (map md_id (attachments_of d mid))) = (un, lk)"
  shows "set un = attached d mid - wanted d mid req" and "set lk = wanted d mid req - attached d mid" and "distinct lk" and "distinct un"
  using assms current_attached [of d mid] by (auto simp: edit_links_def wanted_def attachments_of_def split: if_splits)

lemma relinked_medias:
  assumes "set un = attached d mid - W" and "set lk = W - attached d mid" and "distinct (map md_id (medias d))"
    and "\<forall>i\<in>set lk. \<exists>m\<in>set (medias d). md_id m = i \<and> md_message_id m = None"
  shows "update_where (\<lambda>m. md_id m \<in> set lk \<and> md_message_id m = None) (\<lambda>m. m\<lparr>md_message_id := Some mid\<rparr>)
     (update_where (\<lambda>m. md_id m \<in> set un \<and> md_message_id m = Some mid) (\<lambda>m. m\<lparr>md_message_id := None\<rparr>) (medias d)) = map (relinked W mid) (medias d)"
proof -
  have here: "md_id m \<in> attached d mid \<longleftrightarrow> md_message_id m = Some mid" if "m \<in> set (medias d)" for m
    using that assms(3) by (auto simp: attached_def dest: distinct_key_eq)
  have free: "md_message_id m = None" if "m \<in> set (medias d)" "md_id m \<in> set lk" for m
    using that assms(3,4) by (metis distinct_key_eq)
  show ?thesis
    unfolding update_where_def map_map
  proof (rule map_cong [OF refl])
    fix m
    assume m: "m \<in> set (medias d)"
    show "((\<lambda>m. if md_id m \<in> set lk \<and> md_message_id m = None then m\<lparr>md_message_id := Some mid\<rparr> else m) \<circ>
        (\<lambda>m. if md_id m \<in> set un \<and> md_message_id m = Some mid then m\<lparr>md_message_id := None\<rparr> else m)) m = relinked W mid m"
      using here [OF m] free [OF m] assms(1,2) by (cases "md_message_id m = Some mid") (auto simp: relinked_def)
  qed
qed

lemma apply_edit_medias:
  assumes "apply_edit svc e d uid msg content un lk role = Inr (resp, d')"
  shows "d' = d\<lparr>messages := update_where (\<lambda>m. m_id m = m_id msg) (edited e content) (messages d),
     medias := update_where (\<lambda>m. md_id m \<in> set lk \<and> md_message_id m = None) (\<lambda>m. m\<lparr>md_message_id := Some (m_id msg)\<rparr>)
       (update_where (\<lambda>m. md_id m \<in> set un \<and> md_message_id m = Some (m_id msg)) (\<lambda>m. m\<lparr>md_message_id := None\<rparr>) (medias d)),
     outbox := outbox d @ [new_outbox e 0 (edited e content msg) EventMessageUpdate uid (Some (outbox_row_payload e (edited e content msg) EventMessageUpdate))]\<rparr>"
    and "lk \<noteq> [] \<Longrightarrow> length (filter (edit_attachable d uid lk) (medias d)) = length lk"
proof -
  have "\<exists>d1. link_attachments (m_id msg) lk (unlink_attachments (m_id msg) un
        (d\<lparr>messages := update_where (\<lambda>m. m_id m = m_id msg) (edited e content) (messages d)\<rparr>)) = Inr d1 \<and>
      d' = d1\<lparr>outbox := outbox d1 @ [new_outbox e 0 (edited e content msg) EventMessageUpdate uid (Some (outbox_row_payload e (edited e content msg) EventMessageUpdate))]\<rparr>"
    using assms unfolding apply_edit_def by (simp only: handler_simps) blast
  then show "d' = d\<lparr>messages := update_where (\<lambda>m. m_id m = m_id msg) (edited e content) (messages d),
     medias := update_where (\<lambda>m. md_id m \<in> set lk \<and> md_message_id m = None) (\<lambda>m. m\<lparr>md_message_id := Some (m_id msg)\<rparr>)
       (update_where (\<lambda>m. md_id m \<in> set un \<and> md_message_id m = Some (m_id msg)) (\<lambda>m. m\<lparr>md_message_id := None\<rparr>) (medias d)),
     outbox := outbox d @ [new_outbox e 0 (edited e content msg) EventMessageUpdate uid (Some (outbox_row_payload e (edited e content msg) EventMessageUpdate))]\<rparr>"
    by (auto dest!: link_attachments_Inr simp: unlink_attachments_def)
  show "lk \<noteq> [] \<Longrightarrow> length (filter (edit_attachable d uid lk) (medias d)) = length lk"
    using assms unfolding apply_edit_def by (auto simp: result_simps)
qed

lemma apply_edit_linked:
  assumes "apply_edit svc e d uid msg content un lk role = Inr (resp, d')" and "distinct lk" and "distinct (map md_id (medias d))"
  shows "\<forall>i\<in>set lk. \<exists>m\<in>set (medias d). md_id m = i \<and> md_message_id m = None \<and> md_category m = CategoryMessageAttachment \<and>
     md_upload_status m = UploadStatusCompleted \<and> md_uploaded_by_id m = Some uid \<and>
     (\<forall>u\<in>set (users d). u_avatar_id u \<noteq> Some i) \<and> (\<forall>g\<in>set (group_chats d). gc_avatar_id g \<noteq> Some i)"
proof (cases "lk = []")
  case False
  have "\<forall>i\<in>set lk. \<exists>m\<in>set (medias d). md_id m = i \<and> edit_attachable d uid lk m"
    by (rule counted_all [OF apply_edit_medias(2) [OF assms(1) False] assms(2,3)]) (simp add: edit_attachable_def attachable_def)
  then show ?thesis by (fastforce simp: edit_attachable_def attachable_def)
qed simp

lemma apply_edit_Inr:
  assumes "apply_edit svc e d uid msg content un lk role = Inr (resp, d')"
  shows "\<exists>ms. d' = d\<lparr>messages := update_where (\<lambda>m. m_id m = m_id msg) (edited e content) (messages d), medias := ms,
     outbox := outbox d @ [new_outbox e 0 (edited e content msg) EventMessageUpdate uid (Some (outbox_row_payload e (edited e content msg) EventMessageUpdate))]\<rparr>"
  using apply_edit_medias(1) [OF assms] by blast

lemma EditMessage_cases:
  assumes "EditMessage svc e valid d uid mid req = Inr (resp, d')"
  obtains msg role un lk where "find_message e d mid = Inr msg" and "edit_checks e d uid msg = Inr role"
    and "edit_links req (remdups (map md_id (attachments_of d mid))) = (un, lk)"
    and "if m_content msg = Some (TrimSpace (er_content req)) \<and> un = [] \<and> lk = [] then d' = d
         else apply_edit svc e d uid msg (TrimSpace (er_content req)) un lk role = Inr (resp, d')"
    and "TrimSpace (er_content req) = [] \<Longrightarrow> int (length (remdups (map md_id (attachments_of d mid)))) - int (length un) + int (length lk) \<noteq> 0"
proof -
  obtain msg role where msg: "find_message e d mid = Inr msg" and ck: "edit_checks e d uid msg = Inr role"
    and rest: "(case edit_links req (remdups (map md_id (attachments_of d (m_id msg)))) of (un, lk) \<Rightarrow>
        and_then (fail_if (TrimSpace (er_content req) = [] \<and> int (length (remdups (map md_id (attachments_of d (m_id msg))))) - int (length un) + int (length lk) = 0)
          (Rejected (NewBadRequestError ''Message must contain text or attachments''))) (\<lambda>_.
        case m_content msg of None \<Rightarrow> Inl Panicked
        | Some old \<Rightarrow> if TrimSpace (er_content req) = old \<and> un = [] \<and> lk = []
             then and_then (full_response svc e ''fetch unchanged message'' d (m_id msg) role) (\<lambda>resp. Inr (resp, d))
             else apply_edit svc e d uid msg (TrimSpace (er_content req)) un lk role)) = Inr (resp, d')"
    using assms unfolding EditMessage_def Let_def by (auto simp only: and_then_Inr on_err_Inr)
  obtain un lk where ul: "edit_links req (remdups (map md_id (attachments_of d (m_id msg)))) = (un, lk)" by fastforce
  have id: "m_id msg = mid" using find_message_Inr [OF msg] by blast
  show thesis
    by (rule that [OF msg ck ul [unfolded id]])
      (use rest [unfolded ul prod.case] in \<open>auto simp: id and_then_Inr fail_if_Inr split: option.splits if_splits\<close>)
qed

lemma EditMessage_Inr:
  assumes "EditMessage svc e valid d uid mid req = Inr (resp, d')"
  shows "\<exists>msg role. find_message e d mid = Inr msg \<and> edit_checks e d uid msg = Inr role \<and>
     (d' = d \<or> (\<exists>un lk. distinct lk \<and> apply_edit svc e d uid msg (TrimSpace (er_content req)) un lk role = Inr (resp, d')))"
  using assms by (rule EditMessage_cases) (metis edit_links_wanted(3))

section \<open>Deleting\<close>

lemma DeleteMessage_Inr:
  assumes "DeleteMessage e d uid mid = Inr d'"
  shows "\<exists>msg. find_message e d mid = Inr msg \<and> can_delete e d uid msg = Inr True \<and> m_type msg = TypeRegular \<and> m_deleted_at msg = None \<and>
     d' = (erase_message e msg d)\<lparr>outbox := outbox d @ [new_outbox e 0 msg EventMessageDelete uid (Some (outbox_row_payload e msg EventMessageDelete))]\<rparr>"
proof -
  have out: "outbox (erase_message e msg d) = outbox d" for msg by (simp add: erase_message_def)
  show ?thesis using assms unfolding DeleteMessage_def by (simp only: handler_simps out not_not) auto
qed

lemma can_delete_True:
  assumes "can_delete e d uid msg = Inr True"
  shows "m_sender_id msg = Some uid \<or> (\<exists>g\<in>set (group_chats d). gc_chat_id g = m_chat_id msg \<and>
     (\<exists>m\<in>set (group_members d). member_key m = (gc_id g, uid) \<and> gm_role m \<in> {RoleAdmin, RoleOwner}))"
proof (rule disjCI)
  assume no: "\<not> (\<exists>g\<in>set (group_chats d). gc_chat_id g = m_chat_id msg \<and>
     (\<exists>m\<in>set (group_members d). member_key m = (gc_id g, uid) \<and> gm_role m \<in> {RoleAdmin, RoleOwner}))"
  show "m_sender_id msg = Some uid"
  proof (rule ccontr)
    assume not_own: "m_sender_id msg \<noteq> Some uid"
    then obtain m where f: "filter (\<lambda>m. gm_user_id m = uid \<and> (\<exists>g\<in>set (group_chats d). gc_id g = gm_group_chat_id m \<and> gc_chat_id g = m_chat_id msg)) (group_members d) = [m]"
      and role: "gm_role m = RoleAdmin \<or> gm_role m = RoleOwner"
      using assms by (auto simp: can_delete_def Let_def result_simps split: option.splits if_splits)
    have "m \<in> set (filter (\<lambda>m. gm_user_id m = uid \<and> (\<exists>g\<in>set (group_chats d). gc_id g = gm_group_chat_id m \<and> gc_chat_id g = m_chat_id msg)) (group_members d))"
      using f by simp
    with role no show False by (auto simp: member_key_def)
  qed
qed

end
