(* ===== verification/Message_Properties.thy ===== *)
theory Message_Properties
  imports Message_Laws
begin

text \<open>The theorems on sending, editing and deleting messages.\<close>

section \<open>Sending\<close>

text \<open>
  C6. A message is accepted only from a participant: a side of the private chat whose other side exists,
  is neither deleted nor banned and has no block in either direction with the sender, or a member of the
  group. It is then stored with its trimmed text together with exactly one fresh outbox row that names it,
  every attachment is a completed upload of the sender that no message used, and nothing else changes.
\<close>

theorem send_message_effect:
  assumes "SendMessage svc e valid d uid req = Inr (resp, d')" and "distinct (map md_id (medias d))"
  shows "(\<exists>c\<in>set (chats d). c_id c = sr_chat_id req \<and> c_deleted_at c = None \<and> may_send d (now e) uid c) \<and>
     (\<exists>row. d' = d\<lparr>messages := messages d @ [sent_message e uid (req\<lparr>sr_content := TrimSpace (sr_content req)\<rparr>)], outbox := outbox d @ [row],
        medias := update_where (\<lambda>m. md_id m \<in> set (sr_attachment_ids req) \<and> md_message_id m = None)
         (\<lambda>m. m\<lparr>md_message_id := Some (newid e 0)\<rparr>) (medias d)\<rparr> \<and>
        ob_message_id row = newid e 0 \<and> ob_event_type row = EventMessageNew \<and> ob_sender_id row = Some uid \<and> fresh_row row) \<and>
     (\<forall>i\<in>set (sr_attachment_ids req). \<exists>m\<in>set (medias d). md_id m = i \<and> attachable d uid (sr_attachment_ids req) m) \<and>
     (TrimSpace (sr_content req) \<noteq> [] \<or> sr_attachment_ids req \<noteq> [])"
  using assms(1)
proof (rule SendMessage_Inr)
  let ?msg = "sent_message e uid (req\<lparr>sr_content := TrimSpace (sr_content req)\<rparr>)"
  fix c row
  assume a: "c \<in> set (chats d)" "c_id c = sr_chat_id req" "c_deleted_at c = None" "may_send d (now e) uid c" "distinct (sr_attachment_ids req)"
    "check_attachments e d uid (sr_attachment_ids req) = Inr ()" "TrimSpace (sr_content req) \<noteq> [] \<or> sr_attachment_ids req \<noteq> []"
    and row: "row = new_outbox e 1 ?msg EventMessageNew uid (Some (outbox_row_payload e ?msg EventMessageNew))"
    and d': "d' = d\<lparr>messages := messages d @ [?msg], outbox := outbox d @ [row],
       medias := update_where (\<lambda>m. md_id m \<in> set (sr_attachment_ids req) \<and> md_message_id m = None)
         (\<lambda>m. m\<lparr>md_message_id := Some (newid e 0)\<rparr>) (medias d)\<rparr>"
  have "ob_message_id row = newid e 0 \<and> ob_event_type row = EventMessageNew \<and> ob_sender_id row = Some uid \<and> fresh_row row"
    by (simp add: row new_outbox_def sent_message_def fresh_row_def)
  then show ?thesis using a d' check_attachments_all [OF a(6) a(5) assms(2)] by blast
qed

definition sample_send :: send_request where
  "sample_send = \<lparr>sr_chat_id = 10, sr_content = '' hello '', sr_attachment_ids = [], sr_reply_to_id = None\<rparr>"

definition plain_service :: service where
  "plain_service = \<lparr>svc_urls = \<lparr>GetPresignedURL = (\<lambda>f. f), GetPublicURL = (\<lambda>f. f)\<rparr>, svc_hub = False, svc_random = (\<lambda>k. None)\<rparr>"

lemma sample_private_chat:
  "find_live_chat (sample_env t b) site sample_db 10 = Inr (sample_chat 10 TypePrivate)"
  "private_of sample_db 10 = Some (sample_private 5 10 1 2)"
  "send_private_checks (sample_env t b) sample_db 1 (sample_private 5 10 1 2) = Inr ()"
  by (simp_all add: find_live_chat_def private_of_def sample_db_def sample_defs empty_db_def ent_only_def send_private_checks_def
      other_side_def user_of_def currently_banned_def ent_exist_def)

lemma sample_send_ok: "\<exists>resp d'. SendMessage plain_service (sample_env t b) (\<lambda>_. True) sample_db 1 sample_send = Inr (resp, d')"
proof -
  have "TrimSpace '' hello '' = ''hello''" by code_simp
  moreover have "filter (\<lambda>u. u_id u = 1) (users sample_db) = [sample_user 1 ''Ann'']" by (simp add: sample_db_def empty_db_def)
  ultimately show ?thesis
    by (simp add: sample_private_chat SendMessage_def sample_send_def EnsureUniqueUUIDs_def Let_def begin_tx_def commit_def send_access_def
        sample_chat_def check_reply_def check_attachments_def link_attachments_def affected_def and_then_Inr on_err_Inr PersistMessageOutbox_Inr
        send_response_def ent_only_def update_where_none del: One_nat_def)
qed

theorem send_message_effect_witness:
  "\<exists>(d' :: db) row. outbox d' = outbox sample_db @ [row] \<and> ob_message_id row = 900 \<and> may_send sample_db 500 1 (sample_chat 10 TypePrivate)"
proof -
  obtain resp d' where s: "SendMessage plain_service (sample_env 500 900) (\<lambda>_. True) sample_db 1 sample_send = Inr (resp, d')"
    using sample_send_ok by blast
  have m: "distinct (map md_id (medias sample_db))" by (simp add: sample_db_def empty_db_def)
  have c: "c = sample_chat 10 TypePrivate" if "c \<in> set (chats sample_db)" "c_id c = 10" for c
    using that by (auto simp: sample_db_def empty_db_def sample_chat_def)
  note eff = send_message_effect [OF s m]
  from eff have "may_send sample_db 500 1 (sample_chat 10 TypePrivate)" using c by (auto simp: sample_send_def)
  moreover from eff obtain row where "outbox d' = outbox sample_db @ [row]" "ob_message_id row = 900" by auto
  ultimately show ?thesis by blast
qed

section \<open>Editing\<close>

text \<open>
  C7. Only its sender edits a message, and only a regular message that is not deleted, at most fifteen
  minutes old, in a chat that is not deleted, being still a member when the chat is a group. A request that asks for
  the text and the attachments the message has changes nothing. Any other successful one sets the trimmed text and the time of the edit of
  that message alone, leaves the message with exactly the attachments asked for, each new one a completed upload of the sender
  that neither a message nor an avatar used, writes one outbox row that carries the new text, and changes nothing else.
\<close>

theorem edit_message_effect:
  assumes "EditMessage svc e valid d uid mid req = Inr (resp, d')" and "distinct (map md_id (medias d))"
  shows "\<exists>msg\<in>set (messages d). m_id msg = mid \<and> m_sender_id msg = Some uid \<and> m_type msg = TypeRegular \<and> m_deleted_at msg = None \<and>
     now e - m_created_at msg \<le> 15 * 60 * 1000000000 \<and>
     (\<exists>c. chat_of d (m_chat_id msg) = Some c \<and> c_deleted_at c = None \<and> (c_type c = TypeGroup \<longrightarrow>
        (\<exists>gc\<in>set (group_chats d). gc_chat_id gc = c_id c \<and> (\<exists>m\<in>set (group_members d). member_key m = (gc_id gc, uid))))) \<and>
     (if m_content msg = Some (TrimSpace (er_content req)) \<and> wanted d mid req = attached d mid then d' = d
      else (\<exists>row. d' = d\<lparr>messages := update_where (\<lambda>m. m_id m = mid) (\<lambda>m. m\<lparr>m_content := Some (TrimSpace (er_content req)), m_edited_at := Some (now e)\<rparr>) (messages d),
          medias := map (relinked (wanted d mid req) mid) (medias d), outbox := outbox d @ [row]\<rparr> \<and>
          ob_message_id row = mid \<and> ob_event_type row = EventMessageUpdate \<and> fresh_row row \<and>
          map_of (the (ob_payload row)) ''content'' = Some (JStr (TrimSpace (er_content req)))) \<and>
        (\<forall>i\<in>wanted d mid req - attached d mid. \<exists>m\<in>set (medias d). md_id m = i \<and> md_message_id m = None \<and> md_category m = CategoryMessageAttachment \<and>
          md_upload_status m = UploadStatusCompleted \<and> md_uploaded_by_id m = Some uid \<and>
          (\<forall>u\<in>set (users d). u_avatar_id u \<noteq> Some i) \<and> (\<forall>g\<in>set (group_chats d). gc_avatar_id g \<noteq> Some i)))"
  using assms(1)
proof (rule EditMessage_cases)
  fix msg role un lk
  let ?content = "TrimSpace (er_content req)"
  assume msg: "find_message e d mid = Inr msg" and ck: "edit_checks e d uid msg = Inr role"
    and links: "edit_links req (remdups (map md_id (attachments_of d mid))) = (un, lk)"
    and rest: "if m_content msg = Some ?content \<and> un = [] \<and> lk = [] then d' = d else apply_edit svc e d uid msg ?content un lk role = Inr (resp, d')"
  note fm = find_message_Inr [OF msg] and l = edit_links_wanted [OF links]
  have same: "un = [] \<and> lk = [] \<longleftrightarrow> wanted d mid req = attached d mid" using l(1,2) by auto
  let ?m = "edited e ?content msg"
  let ?row = "new_outbox e 0 ?m EventMessageUpdate uid (Some (outbox_row_payload e ?m EventMessageUpdate))"
  have row: "ob_message_id ?row = mid" "ob_event_type ?row = EventMessageUpdate" "fresh_row ?row"
    using fm by (simp_all add: new_outbox_def fresh_row_def edited_def)
  have pay: "map_of (the (ob_payload ?row)) ''content'' = Some (JStr ?content)"
    by (simp add: new_outbox_def outbox_row_payload_def outbox_payload_def edited_def json_of_string_def TraceParentKey_def
        EventMessageUpdate_def EventMessageDelete_def)
  show ?thesis
  proof (cases "m_content msg = Some ?content \<and> wanted d mid req = attached d mid")
    case True
    with rest same fm edit_checks_Inr [OF ck] show ?thesis by (intro bexI [of _ msg]) auto
  next
    case False
    with rest same have run: "apply_edit svc e d uid msg ?content un lk role = Inr (resp, d')" by (auto split: if_splits)
    note new = apply_edit_linked [OF run l(3) assms(2)]
    then have free: "\<forall>i\<in>set lk. \<exists>m\<in>set (medias d). md_id m = i \<and> md_message_id m = None" by blast
    have "d' = d\<lparr>messages := update_where (\<lambda>m. m_id m = mid) (edited e ?content) (messages d),
        medias := map (relinked (wanted d mid req) mid) (medias d), outbox := outbox d @ [?row]\<rparr>"
      using apply_edit_medias(1) [OF run] relinked_medias [OF l(1,2) assms(2) free] fm by simp
    moreover note new [unfolded l(2)]
    ultimately show ?thesis
      using fm edit_checks_Inr [OF ck] row pay False by (intro bexI [of _ msg]) (auto simp: edited_def [abs_def])
  qed
qed

definition sample_edit :: edit_request where
  "sample_edit = \<lparr>er_content = ''bye'', er_attachment_ids = [], er_has_attachment_ids = False\<rparr>"

lemma sample_message_20:
  "find_message (sample_env t b) sample_db 20 = Inr (sample_message 20 10 1 100)"
  "chat_of sample_db 10 = Some (sample_chat 10 TypePrivate)" "medias sample_db = []"
  by (simp_all add: find_message_def chat_of_def sample_db_def sample_defs empty_db_def ent_only_def)

lemma sample_edit_ok: "\<exists>resp d'. EditMessage plain_service (sample_env 500 b) (\<lambda>_. True) sample_db 1 20 sample_edit = Inr (resp, d')"
proof -
  have "TrimSpace ''bye'' = ''bye''" by code_simp
  moreover have "edit_checks (sample_env 500 b) sample_db 1 (sample_message 20 10 1 100) = Inr []"
    by (simp add: edit_checks_def Let_def sample_message_20 sample_message_def sample_chat_def)
  moreover have "messages sample_db = [sample_message 20 10 1 100, sample_message 21 11 1 101]" by (simp add: sample_db_def empty_db_def)
  ultimately show ?thesis
    by (simp add: sample_message_20 EditMessage_def sample_edit_def begin_tx_def commit_def Let_def edit_links_def attachments_of_def sample_message_def
        apply_edit_def link_attachments_def unlink_attachments_def affected_def and_then_Inr on_err_Inr PersistMessageOutbox_Inr full_response_def
        ent_only_def filter_update_where edited_def update_where_def del: One_nat_def)
qed

theorem edit_message_effect_witness:
  "\<exists>resp d' row. EditMessage plain_service (sample_env 500 900) (\<lambda>_. True) sample_db 1 20 sample_edit = Inr (resp, d') \<and>
     map m_content (messages d') = [Some ''bye'', m_content (sample_message 21 11 1 101)] \<and> outbox d' = outbox sample_db @ [row] \<and>
     map_of (the (ob_payload row)) ''content'' = Some (JStr ''bye'')"
proof -
  obtain resp d' where s: "EditMessage plain_service (sample_env 500 900) (\<lambda>_. True) sample_db 1 20 sample_edit = Inr (resp, d')"
    using sample_edit_ok by blast
  have c: "TrimSpace (er_content sample_edit) = ''bye''" by code_simp
  have m: "messages sample_db = [sample_message 20 10 1 100, sample_message 21 11 1 101]" "medias sample_db = []" by (simp_all add: sample_db_def empty_db_def)
  have "m_content msg \<noteq> Some ''bye''" if "msg \<in> set (messages sample_db)" for msg using that by (auto simp: m sample_message_def)
  with edit_message_effect [OF s, unfolded c] m(2) obtain row where
      "d' = sample_db\<lparr>messages := update_where (\<lambda>m. m_id m = 20) (\<lambda>m. m\<lparr>m_content := Some ''bye'', m_edited_at := Some (now (sample_env 500 900))\<rparr>) (messages sample_db),
        medias := map (relinked (wanted sample_db 20 sample_edit) 20) (medias sample_db), outbox := outbox sample_db @ [row]\<rparr>"
      "map_of (the (ob_payload row)) ''content'' = Some (JStr ''bye'')"
    by auto
  then show ?thesis using s m by (intro exI [of _ resp] exI [of _ d'] exI [of _ row]) (simp add: update_where_def sample_message_def)
qed

section \<open>Deleting\<close>

text \<open>
  C8. A message is deleted only by its sender or by an admin or the owner of its group, only when it is a
  regular message that was not deleted before; its text is erased, its attachments are released, one outbox
  row announces the deletion without carrying the text, and no other message changes.
\<close>

theorem delete_message_effect:
  assumes "DeleteMessage e d uid mid = Inr d'"
  shows "\<exists>msg\<in>set (messages d). m_id msg = mid \<and> m_type msg = TypeRegular \<and> m_deleted_at msg = None \<and>
     (m_sender_id msg = Some uid \<or> (\<exists>g\<in>set (group_chats d). gc_chat_id g = m_chat_id msg \<and>
        (\<exists>m\<in>set (group_members d). member_key m = (gc_id g, uid) \<and> gm_role m \<in> {RoleAdmin, RoleOwner}))) \<and>
     messages d' = update_where (\<lambda>m. m_id m = mid) (\<lambda>m. m\<lparr>m_deleted_at := Some (now e), m_content := None\<rparr>) (messages d) \<and>
     list_all (\<lambda>m. md_message_id m \<noteq> Some mid) (medias d') \<and>
     (\<exists>row. outbox d' = outbox d @ [row] \<and> ob_message_id row = mid \<and> ob_event_type row = EventMessageDelete \<and> fresh_row row \<and>
        map_of (the (ob_payload row)) ''content'' = None)"
proof -
  obtain msg where msg: "find_message e d mid = Inr msg" "can_delete e d uid msg = Inr True" "m_type msg = TypeRegular" "m_deleted_at msg = None"
    and d': "d' = (erase_message e msg d)\<lparr>outbox := outbox d @ [new_outbox e 0 msg EventMessageDelete uid (Some (outbox_row_payload e msg EventMessageDelete))]\<rparr>"
    using DeleteMessage_Inr [OF assms] by blast
  note fm = find_message_Inr [OF msg(1)]
  have free: "md_message_id m \<noteq> Some mid" if "m \<in> set (medias d')" for m
  proof -
    from that obtain r where "m = (if md_message_id r = Some (m_id msg) then r\<lparr>md_message_id := None\<rparr> else r)"
      by (auto simp: d' erase_message_def in_update_where)
    with fm show ?thesis by (cases "md_message_id r = Some (m_id msg)") simp_all
  qed
  then have "list_all (\<lambda>m. md_message_id m \<noteq> Some mid) (medias d')" by (simp add: list_all_iff)
  moreover have "map_of (the (ob_payload (new_outbox e 0 msg EventMessageDelete uid (Some (outbox_row_payload e msg EventMessageDelete))))) ''content'' = None"
    by (simp add: new_outbox_def outbox_row_payload_def outbox_payload_def TraceParentKey_def)
  ultimately show ?thesis using msg(3,4) can_delete_True [OF msg(2)] fm
    by (intro bexI [of _ msg]) (auto simp: d' erase_message_def new_outbox_def fresh_row_def)
qed

lemma sample_delete_ok: "\<exists>d'. DeleteMessage (sample_env t b) sample_db 1 20 = Inr d'"
  by (simp add: sample_message_20 DeleteMessage_def begin_tx_def commit_def can_delete_def Let_def sample_message_def sample_chat_def
      and_then_Inr on_err_Inr PersistMessageOutbox_Inr del: One_nat_def)

theorem delete_message_effect_witness:
  "\<exists>(d' :: db) row. outbox d' = outbox sample_db @ [row] \<and> ob_event_type row = EventMessageDelete"
proof -
  obtain d' where s: "DeleteMessage (sample_env 500 900) sample_db 1 20 = Inr d'" using sample_delete_ok by blast
  show ?thesis using delete_message_effect [OF s] by blast
qed

section \<open>Editing never dereferences a missing pointer\<close>

definition message_inv :: "db \<Rightarrow> bool" where
  "message_inv d \<longleftrightarrow> (\<forall>m\<in>set (messages d). (m_type m = TypeRegular \<and> m_deleted_at m = None \<longrightarrow> m_content m \<noteq> None) \<and>
     (\<exists>c\<in>set (chats d). c_id c = m_chat_id m))"

inductive message_step :: "db \<Rightarrow> db \<Rightarrow> bool" where
  send: "SendMessage svc e valid d uid req = Inr (resp, d') \<Longrightarrow> message_step d d'"
| edit: "EditMessage svc e valid' d uid mid req' = Inr (resp, d') \<Longrightarrow> message_step d d'"
| delete: "DeleteMessage e d uid mid = Inr d' \<Longrightarrow> message_step d d'"

lemma message_inv_update:
  assumes "message_inv d" and "messages d' = update_where P f (messages d)" and "chats d' = chats d"
    and "\<And>m. m_chat_id (f m) = m_chat_id m" and "\<And>m. m_type (f m) = TypeRegular \<and> m_deleted_at (f m) = None \<Longrightarrow> m_content (f m) \<noteq> None"
  shows "message_inv d'"
  unfolding message_inv_def
proof
  fix m assume "m \<in> set (messages d')"
  then obtain m0 where m0: "m0 \<in> set (messages d)" "m = (if P m0 then f m0 else m0)" unfolding assms(2) in_update_where by blast
  have "m_type m = TypeRegular \<and> m_deleted_at m = None \<longrightarrow> m_content m \<noteq> None"
    using m0 assms(1,5) by (cases "P m0") (simp_all add: message_inv_def)
  moreover have "\<exists>c\<in>set (chats d'). c_id c = m_chat_id m"
    using m0 assms(1,3,4) by (cases "P m0") (simp_all add: message_inv_def)
  ultimately show "(m_type m = TypeRegular \<and> m_deleted_at m = None \<longrightarrow> m_content m \<noteq> None) \<and> (\<exists>c\<in>set (chats d'). c_id c = m_chat_id m)" by blast
qed

lemma message_step_inv: "message_step d d' \<Longrightarrow> message_inv d \<Longrightarrow> message_inv d'"
proof (induction rule: message_step.induct)
  case (send svc e valid d uid req resp d')
  from send(1) show ?case
    by (rule SendMessage_Inr) (use send(2) in \<open>auto simp: message_inv_def sent_message_def\<close>)
next
  case (edit svc e valid' d uid mid req' resp d')
  obtain msg role where rest: "d' = d \<or> (\<exists>un lk. apply_edit svc e d uid msg (TrimSpace (er_content req')) un lk role = Inr (resp, d'))"
    using EditMessage_Inr [OF edit(1)] by blast
  show ?case
  proof (cases "d' = d")
    case False
    then obtain un lk where "apply_edit svc e d uid msg (TrimSpace (er_content req')) un lk role = Inr (resp, d')" using rest by blast
    then show ?thesis using apply_edit_Inr edit(2) by (auto simp: edited_def intro!: message_inv_update [OF edit(2)] dest!: apply_edit_Inr)
  qed (use edit(2) in simp)
next
  case (delete e d uid mid d')
  obtain msg where "d' = (erase_message e msg d)\<lparr>outbox := outbox d @ [new_outbox e 0 msg EventMessageDelete uid (Some (outbox_row_payload e msg EventMessageDelete))]\<rparr>"
    using DeleteMessage_Inr [OF delete(1)] by blast
  then show ?case
    by (intro message_inv_update [OF delete(2), of d' "\<lambda>m. m_id m = m_id msg" "\<lambda>m. m\<lparr>m_deleted_at := Some (now e), m_content := None\<rparr>"])
      (auto simp: erase_message_def)
qed

definition calm :: "edit_error + 'a \<Rightarrow> bool" where
  "calm r \<longleftrightarrow> r \<noteq> Inl Panicked"

lemma calm_intros:
  "calm (Inr x)" "calm (Inl (Rejected a))" "calm (fail_if b (Rejected a))" "calm (on_err s (\<lambda>z. Rejected (h z)))" "calm (on_err s' Rejected)"
  "calm r \<Longrightarrow> (\<And>x. r = Inr x \<Longrightarrow> calm (k x)) \<Longrightarrow> calm (and_then r k)"
  "(b \<Longrightarrow> calm r1) \<Longrightarrow> (\<not> b \<Longrightarrow> calm r2) \<Longrightarrow> calm (if b then r1 else r2)"
  by (simp_all add: calm_def fail_if_def on_err_def and_then_def split: sum.splits) blast

lemma calm_checks:
  assumes "message_inv d" and "msg \<in> set (messages d)"
  shows "calm (edit_checks e d uid msg)"
proof -
  obtain c0 where "c0 \<in> set (chats d)" "c_id c0 = m_chat_id msg" using assms unfolding message_inv_def by blast
  then obtain c where c: "chat_of d (m_chat_id msg) = Some c"
    using find_Some_ex [of c0 "chats d" "\<lambda>c. c_id c = m_chat_id msg"] unfolding chat_of_def by blast
  show ?thesis unfolding edit_checks_def Let_def c option.case by (cases "group_of d (c_id c)") (simp_all only: option.case, (intro calm_intros)+)
qed

lemma calm_apply: "calm (apply_edit svc e d uid msg content un lk role)"
  unfolding apply_edit_def full_response_def by (intro calm_intros)

text \<open>Along every run of sending, editing and deleting from a database in which every regular message that
  is not deleted has a text and every message its chat, an edit may be refused but never panics.
\<close>

theorem edit_never_panics:
  assumes "message_step\<^sup>*\<^sup>* d0 d" and "message_inv d0"
  shows "EditMessage svc e valid d uid mid req \<noteq> Inl Panicked"
proof -
  have inv: "message_inv d" using assms by (induction rule: rtranclp_induct) (auto intro: message_step_inv)
  have "calm (EditMessage svc e valid d uid mid req)"
    unfolding EditMessage_def Let_def
  proof (intro calm_intros, goal_cases)
    case (1 x xa xb xc msg)
    then have "msg \<in> set (messages d)" using find_message_Inr by (simp add: on_err_Inr)
    with inv show ?case by (rule calm_checks)
  next
    case (2 x xa xb xc msg role)
    obtain un lk where ul: "edit_links req (remdups (map md_id (attachments_of d (m_id msg)))) = (un, lk)" by fastforce
    have "msg \<in> set (messages d)" using 2 find_message_Inr by (simp add: on_err_Inr)
    moreover have "m_type msg = TypeRegular" "m_deleted_at msg = None" using edit_checks_Inr 2 by blast+
    ultimately obtain old where "m_content msg = Some old" using inv unfolding message_inv_def by blast
    then show ?case unfolding ul by (auto intro!: calm_intros calm_apply simp: full_response_def)
  qed
  then show ?thesis by (simp add: calm_def)
qed

theorem edit_never_panics_witness:
  "EditMessage plain_service (sample_env 500 900) (\<lambda>_. True) sample_db 2 21 sample_edit \<noteq> Inl Panicked"
proof (rule edit_never_panics)
  show "message_step\<^sup>*\<^sup>* sample_db sample_db" by simp
  show "message_inv sample_db" by (simp add: message_inv_def sample_db_def empty_db_def sample_defs)
qed

end
