(* ===== verification/Message_Pages.thy ===== *)
theory Message_Pages
  imports Message_Service
begin

text \<open>
  Reading messages page by page: \<^verbatim>\<open>src/internal/infrastructure/database/repository/message_repository.go\<close>
  (\<open>GetMessages\<close>, here \<open>RepoGetMessages\<close>, and \<open>GetMessagesAroundPage\<close>) and the handler \<open>GetMessages\<close> of
  \<^verbatim>\<open>src/internal/api/application/message/message_service.go\<close>. The text form of a UUID is the argument
  \<open>uuid_codec\<close>. A limit is a natural number: the validator rejects negative ones, and zero means twenty.
\<close>

section \<open>The repository\<close>

definition visible_messages :: "db \<Rightarrow> uuid \<Rightarrow> time option \<Rightarrow> message list" where
  "visible_messages d chatID hiddenAt =
     filter (\<lambda>m. m_chat_id m = chatID \<and> (case hiddenAt of None \<Rightarrow> True | Some h \<Rightarrow> h < m_created_at m)) (messages d)"

definition RepoGetMessages :: "env \<Rightarrow> db \<Rightarrow> uuid \<Rightarrow> time option \<Rightarrow> uuid \<Rightarrow> nat \<Rightarrow> string \<Rightarrow> ent_error + message list" where
  "RepoGetMessages e d chatID hiddenAt cursor limit direction =
     ent_all (fault e ''get messages'') (take (limit + 1)
       (if direction = ''newer''
        then sort_key m_id (filter (\<lambda>m. cursor \<noteq> uuid_Nil \<longrightarrow> cursor < m_id m) (visible_messages d chatID hiddenAt))
        else rev (sort_key m_id (filter (\<lambda>m. cursor \<noteq> uuid_Nil \<longrightarrow> m_id m < cursor) (visible_messages d chatID hiddenAt)))))"

datatype repo_error = RepoEnt ent_error | ErrMessageNotFound

record around_page =
  ap_messages :: "message list"
  ap_has_older :: bool
  ap_has_newer :: bool

definition around_missing :: "env \<Rightarrow> db \<Rightarrow> uuid \<Rightarrow> time option \<Rightarrow> uuid \<Rightarrow> repo_error" where
  "around_missing e d chatID hiddenAt aroundID =
     (if hiddenAt = None then RepoEnt NotFoundError
      else case ent_exist (fault e ''around exists'') (filter (\<lambda>m. m_id m = aroundID \<and> m_chat_id m = chatID) (messages d)) of
             Inl er \<Rightarrow> RepoEnt er
           | Inr ex \<Rightarrow> if ex then ErrMessageNotFound else RepoEnt NotFoundError)"

definition GetMessagesAroundPage :: "env \<Rightarrow> db \<Rightarrow> uuid \<Rightarrow> time option \<Rightarrow> uuid \<Rightarrow> nat \<Rightarrow> repo_error + around_page" where
  "GetMessagesAroundPage e d chatID hiddenAt aroundID limit =
     (let halfLimit = limit div 2; rows = visible_messages d chatID hiddenAt in
      and_then (on_err (ent_all (fault e ''around previous'')
                  (take (halfLimit + 2) (rev (sort_key m_id (filter (\<lambda>m. m_id m \<le> aroundID) rows))))) RepoEnt) (\<lambda>prevWindow.
      and_then (on_err (ent_all (fault e ''around next'')
                  (take (halfLimit + 1) (sort_key m_id (filter (\<lambda>m. aroundID < m_id m) rows)))) RepoEnt) (\<lambda>nextMsgs.
        case prevWindow of
          [] \<Rightarrow> Inl (around_missing e d chatID hiddenAt aroundID)
        | target # prevMsgs \<Rightarrow>
            if m_id target \<noteq> aroundID then Inl (around_missing e d chatID hiddenAt aroundID)
            else
              and_then (fail_if (fault e ''hydrate'') (RepoEnt DriverError)) (\<lambda>_.
                Inr \<lparr>ap_messages = sort_key m_id (rev (take halfLimit prevMsgs) @ [target] @ take halfLimit nextMsgs),
                     ap_has_older = length prevMsgs > halfLimit, ap_has_newer = length nextMsgs > halfLimit\<rparr>))))"

section \<open>GetMessages\<close>

record get_request =
  gr_chat_id :: uuid
  gr_cursor :: string
  gr_around :: "uuid option"
  gr_limit :: nat
  gr_direction :: string

text \<open>Whether the user takes part in the chat, from when on the messages are visible, and the group.\<close>

definition read_access :: "env \<Rightarrow> db \<Rightarrow> uuid \<Rightarrow> chat \<Rightarrow> app_error + (time option \<times> group_chat option)" where
  "read_access e d userID c =
     (case c_type c of
        TypePrivate \<Rightarrow>
          (case private_of d (c_id c) of
             None \<Rightarrow> Inl (NewForbiddenError [])
           | Some pc \<Rightarrow>
               if pc_user1_id pc = Some userID then Inr (pc_user1_hidden_at pc, None)
               else if pc_user2_id pc = Some userID then Inr (pc_user2_hidden_at pc, None)
               else Inl (NewForbiddenError []))
      | TypeGroup \<Rightarrow>
          and_then (on_err (ent_only (fault e ''query group details'') (filter (\<lambda>g. gc_chat_id g = c_id c) (group_chats d))) (\<lambda>_. internal_error)) (\<lambda>gc.
          and_then (fail_if (\<not> (\<exists>m\<in>set (group_members d). gm_group_chat_id m = gc_id gc \<and> gm_user_id m = userID)) (NewForbiddenError [])) (\<lambda>_.
            Inr (None, Some gc))))"

definition decode_cursor_id :: "uuid_codec \<Rightarrow> string \<Rightarrow> app_error + uuid" where
  "decode_cursor_id codec cursor =
     (if cursor = [] then Inr uuid_Nil
      else case Option.bind (b64_decode cursor) (UuidParse codec) of
             None \<Rightarrow> Inl (NewBadRequestError ''Invalid cursor format'')
           | Some i \<Rightarrow> Inr i)"

definition fetch_messages :: "env \<Rightarrow> uuid_codec \<Rightarrow> db \<Rightarrow> time option \<Rightarrow> get_request \<Rightarrow> app_error + (message list \<times> (bool \<times> bool) option)" where
  "fetch_messages e codec d hiddenAt req =
     (case gr_around req of
        Some aroundID \<Rightarrow>
          and_then (on_err (GetMessagesAroundPage e d (gr_chat_id req) hiddenAt aroundID (gr_limit req))
                     (\<lambda>er. if er = RepoEnt NotFoundError \<or> er = ErrMessageNotFound then NewNotFoundError ''Message not found'' else internal_error)) (\<lambda>p.
            Inr (ap_messages p, Some (ap_has_older p, ap_has_newer p)))
      | None \<Rightarrow>
          and_then (decode_cursor_id codec (gr_cursor req)) (\<lambda>cursorID.
          and_then (on_err (RepoGetMessages e d (gr_chat_id req) hiddenAt cursorID (gr_limit req) (gr_direction req)) (\<lambda>_. internal_error)) (\<lambda>msgs.
            Inr (msgs, None))))"

definition older_exists :: "env \<Rightarrow> db \<Rightarrow> get_request \<Rightarrow> time option \<Rightarrow> uuid \<Rightarrow> app_error + bool" where
  "older_exists e d req hiddenAt i =
     on_err (ent_exist (fault e ''next page'') (filter (\<lambda>m. m_id m < i) (visible_messages d (gr_chat_id req) hiddenAt))) (\<lambda>_. internal_error)"

definition newer_exists :: "env \<Rightarrow> db \<Rightarrow> get_request \<Rightarrow> time option \<Rightarrow> uuid \<Rightarrow> app_error + bool" where
  "newer_exists e d req hiddenAt i =
     on_err (ent_exist (fault e ''previous page'') (filter (\<lambda>m. i < m_id m) (visible_messages d (gr_chat_id req) hiddenAt))) (\<lambda>_. internal_error)"

text \<open>Whether there are older messages (next) and newer ones (previous).\<close>

definition page_flags :: "env \<Rightarrow> db \<Rightarrow> get_request \<Rightarrow> time option \<Rightarrow> (bool \<times> bool) option \<Rightarrow> bool \<Rightarrow> uuid \<Rightarrow> uuid \<Rightarrow> app_error + (bool \<times> bool)" where
  "page_flags e d req hiddenAt around hasExtra firstID lastID =
     (case around of
        Some flags \<Rightarrow> Inr flags
      | None \<Rightarrow>
          if \<not> hasExtra then
            and_then (older_exists e d req hiddenAt firstID) (\<lambda>hasNext.
            and_then (newer_exists e d req hiddenAt lastID) (\<lambda>hasPrev. Inr (hasNext, hasPrev)))
          else if gr_direction req = ''newer'' then Inr (False, True)
          else and_then (newer_exists e d req hiddenAt lastID) (\<lambda>hasPrev. Inr (True, hasPrev)))"

definition paginate :: "env \<Rightarrow> uuid_codec \<Rightarrow> db \<Rightarrow> time option \<Rightarrow> get_request \<Rightarrow> message list \<Rightarrow> (bool \<times> bool) option \<Rightarrow>
    app_error + (message list \<times> string \<times> bool \<times> string \<times> bool)" where
  "paginate e codec d hiddenAt req msgs around =
     (if msgs = [] then Inr ([], [], False, [], False)
      else
       let hasExtra = (gr_around req = None \<and> length msgs > gr_limit req);
           msgs = (if hasExtra then take (gr_limit req) msgs else msgs);
           msgs = (if gr_around req = None \<and> gr_direction req \<noteq> ''newer'' then rev msgs else msgs);
           firstID = m_id (hd msgs);
           lastID = m_id (last msgs) in
       and_then (page_flags e d req hiddenAt around hasExtra firstID lastID) (\<lambda>(hasNext, hasPrev).
         Inr (msgs, b64_encode (UuidString codec firstID), hasNext, b64_encode (UuidString codec lastID), hasPrev)))"

section \<open>Names in system messages\<close>

text \<open>A JSON value the code reads as a string and parses as a UUID.\<close>

definition json_uuid :: "uuid_codec \<Rightarrow> json option \<Rightarrow> uuid option" where
  "json_uuid codec j = (case j of Some (JUuid u) \<Rightarrow> Some u | Some (JStr s) \<Rightarrow> UuidParse codec s | _ \<Rightarrow> None)"

definition action_users :: "uuid_codec \<Rightarrow> message \<Rightarrow> uuid list" where
  "action_users codec m =
     (case m_action_data m of
        None \<Rightarrow> []
      | Some a \<Rightarrow> (case json_uuid codec (map_of a ''target_id'') of None \<Rightarrow> [] | Some u \<Rightarrow> [u]) @
                 (case json_uuid codec (map_of a ''actor_id'') of None \<Rightarrow> [] | Some u \<Rightarrow> [u]))"

definition resolve_users :: "env \<Rightarrow> uuid_codec \<Rightarrow> db \<Rightarrow> message list \<Rightarrow> user list" where
  "resolve_users e codec d msgs =
     (let ids = concat (map (action_users codec) msgs) in
      if fault e ''resolve users'' then [] else filter (\<lambda>u. u_id u \<in> set ids) (users d))"

definition put_user_name :: "uuid_codec \<Rightarrow> user list \<Rightarrow> string \<Rightarrow> string \<Rightarrow> json_object \<Rightarrow> json_object" where
  "put_user_name codec us idKey nameKey a =
     (case Option.bind (json_uuid codec (map_of a idKey)) (\<lambda>i. find (\<lambda>u. u_id u = i) us) of
        None \<Rightarrow> a
      | Some u \<Rightarrow>
          if u_deleted_at u \<noteq> None then AList.update nameKey (JStr ''Deleted User'') (AList.delete idKey a)
          else (case u_full_name u of None \<Rightarrow> a | Some n \<Rightarrow> AList.update nameKey (JStr n) a))"

definition put_action_names :: "uuid_codec \<Rightarrow> user list \<Rightarrow> message_response \<Rightarrow> message_response" where
  "put_action_names codec us resp =
     resp\<lparr>mr_action_data := map_option (\<lambda>a. put_user_name codec us ''actor_id'' ''actor_name''
        (put_user_name codec us ''target_id'' ''target_name'' a)) (mr_action_data resp)\<rparr>"

definition sender_roles :: "env \<Rightarrow> db \<Rightarrow> group_chat option \<Rightarrow> message list \<Rightarrow> uuid \<Rightarrow> string" where
  "sender_roles e d groupChat msgs i =
     (case groupChat of
        None \<Rightarrow> []
      | Some gc \<Rightarrow>
          if fault e ''sender roles'' then []
          else case find (\<lambda>m. gm_user_id m = i) (filter (\<lambda>m. gm_group_chat_id m = gc_id gc \<and>
                       Some (gm_user_id m) \<in> set (map m_sender_id msgs) \<and> member_user_live d m) (group_members d)) of
                 None \<Rightarrow> [] | Some m \<Rightarrow> role_text (gm_role m))"

definition message_row :: "service \<Rightarrow> uuid_codec \<Rightarrow> db \<Rightarrow> user list \<Rightarrow> (uuid \<Rightarrow> string) \<Rightarrow> message \<Rightarrow> message_response" where
  "message_row svc codec d us roles m =
     put_action_names codec us (ToMessageResponse (load_full d m) (svc_urls svc) (case m_sender_id m of None \<Rightarrow> [] | Some s \<Rightarrow> roles s))"

definition GetMessages :: "service \<Rightarrow> env \<Rightarrow> uuid_codec \<Rightarrow> (get_request \<Rightarrow> bool) \<Rightarrow> db \<Rightarrow> uuid \<Rightarrow> get_request \<Rightarrow>
    app_error + (message_response list \<times> string \<times> bool \<times> string \<times> bool)" where
  "GetMessages svc e codec valid d userID req =
     and_then (fail_if (\<not> valid req) (NewBadRequestError [])) (\<lambda>_.
     let req = (if gr_limit req = 0 then req\<lparr>gr_limit := 20\<rparr> else req) in
     and_then (find_live_chat e ''query chat details'' d (gr_chat_id req)) (\<lambda>chatInfo.
     and_then (read_access e d userID chatInfo) (\<lambda>(hiddenAt, groupChat).
     and_then (fetch_messages e codec d hiddenAt req) (\<lambda>(msgs, around).
     let us = resolve_users e codec d msgs;
         roles = sender_roles e d groupChat msgs in
     and_then (paginate e codec d hiddenAt req msgs around) (\<lambda>(page, nextCursor, hasNext, prevCursor, hasPrev).
       Inr (map (message_row svc codec d us roles) page, nextCursor, hasNext, prevCursor, hasPrev))))))"

end
