(* ===== verification/Paging.thy ===== *)
theory Paging
  imports Prelude
begin

text \<open>
  Reading a list page by page. A reader answers a cursor with a page, the cursor of the next page and whether
  there is one; a client follows the cursors. The locale \<open>paged_reader\<close> is the contract between the two: at a
  good cursor the page is a first part of what is left, and the next cursor is good and leaves the remainder.
\<close>

fun walk :: "nat \<Rightarrow> (string \<Rightarrow> 'e + ('r list \<times> string \<times> bool)) \<Rightarrow> string \<Rightarrow> 'r list option" where
  "walk 0 fetch cursor = None"
| "walk (Suc n) fetch cursor =
     (case fetch cursor of
        Inl _ \<Rightarrow> None
      | Inr (page, nextCursor, hasNext) \<Rightarrow>
          if hasNext then map_option (\<lambda>more. page @ more) (walk n fetch nextCursor) else Some page)"

locale paged_reader =
  fixes fetch :: "'cfg \<Rightarrow> string \<Rightarrow> 'e + ('r list \<times> string \<times> bool)"
    and left :: "'cfg \<Rightarrow> string \<Rightarrow> 'r list"
    and good :: "'cfg \<Rightarrow> string \<Rightarrow> bool"
  assumes fetch_good: "good cfg c \<Longrightarrow> \<exists>page nextCursor hasNext. fetch cfg c = Inr (page, nextCursor, hasNext) \<and>
      (if hasNext then page \<noteq> [] \<and> good cfg nextCursor \<and> left cfg c = page @ left cfg nextCursor else left cfg c = page)"
begin

text \<open>The client receives everything that is left, in order, in at most as many steps as there are rows, and one.\<close>

lemma walk_all:
  "good cfg c \<Longrightarrow> length (left cfg c) < fuel \<Longrightarrow> walk fuel (fetch cfg) c = Some (left cfg c)"
proof (induction fuel arbitrary: c)
  case (Suc n)
  obtain page nc hn where run: "fetch cfg c = Inr (page, nc, hn)"
    and p: "if hn then page \<noteq> [] \<and> good cfg nc \<and> left cfg c = page @ left cfg nc else left cfg c = page"
    using fetch_good [OF Suc.prems(1)] by blast
  show ?case
  proof (cases hn)
    case True
    with p have "page \<noteq> []" "good cfg nc" "left cfg c = page @ left cfg nc" by simp_all
    moreover from this Suc.prems(2) have "length (left cfg nc) < n" by (cases page) simp_all
    ultimately show ?thesis using run True Suc.IH by simp
  next
    case False
    with run p show ?thesis by simp
  qed
qed simp

end

section \<open>Keyset pages\<close>

text \<open>In a strictly ordered list, the rows after the \<open>k\<close>-th are those the order puts behind it.\<close>

lemma filter_behind:
  assumes "sorted_wrt R xs" and "k < length xs" and "\<And>x y. R x y \<Longrightarrow> \<not> R y x"
  shows "filter (R (xs ! k)) xs = drop (Suc k) xs"
proof -
  have split: "xs = take k xs @ xs ! k # drop (Suc k) xs" using assms(2) by (rule id_take_nth_drop)
  have "sorted_wrt R (take k xs @ xs ! k # drop (Suc k) xs)" using assms(1) split by simp
  then have "\<forall>x\<in>set (take k xs). R x (xs ! k)" "\<forall>y\<in>set (drop (Suc k) xs). R (xs ! k) y"
    by (simp_all add: sorted_wrt_append)
  then have "filter (R (xs ! k)) (take k xs) = []" "filter (R (xs ! k)) (drop (Suc k) xs) = drop (Suc k) xs" "\<not> R (xs ! k) (xs ! k)"
    using assms(3) by (auto simp: filter_empty_conv filter_id_conv)
  then have "filter (R (xs ! k)) (take k xs @ xs ! k # drop (Suc k) xs) = drop (Suc k) xs" by simp
  with split show ?thesis by simp
qed

lemma last_take: "0 < n \<Longrightarrow> n \<le> length xs \<Longrightarrow> last (take n xs) = xs ! (n - 1)"
proof -
  assume "0 < n" "n \<le> length xs"
  then have "take n xs \<noteq> []" by auto
  then show ?thesis using \<open>0 < n\<close> \<open>n \<le> length xs\<close> by (simp add: last_conv_nth min_def)
qed

lemma strict_sort_key:
  fixes key :: "'a \<Rightarrow> 'k::linorder"
  assumes "distinct (map key xs)"
  shows "sorted_wrt (\<lambda>a b. key a < key b) (sort_key key xs)"
proof -
  have "distinct (map key (sort_key key xs))" using assms by (metis distinct_map distinct_sort inj_on_def set_sort)
  then have "sorted_wrt (<) (map key (sort_key key xs))" by (simp add: strict_sorted_iff)
  then show ?thesis by (simp add: sorted_wrt_map)
qed

lemma strict_rev_sort_key:
  fixes key :: "'a \<Rightarrow> 'k::linorder"
  assumes "distinct (map key xs)"
  shows "sorted_wrt (\<lambda>a b. key b < key a) (rev (sort_key key xs))"
  using strict_sort_key [OF assms] by (simp add: sorted_wrt_rev)

text \<open>The rows a descending order leaves below a cursor, and what a page of them leaves.\<close>

definition keyset_below :: "('a \<Rightarrow> 'k::linorder) \<Rightarrow> 'k option \<Rightarrow> 'a list \<Rightarrow> 'a list" where
  "keyset_below key cur rows = rev (sort_key key (filter (\<lambda>r. case cur of None \<Rightarrow> True | Some k \<Rightarrow> key r < k) rows))"

lemma keyset_below_mem:
  "r \<in> set (keyset_below key cur rows) \<longleftrightarrow> r \<in> set rows \<and> (case cur of None \<Rightarrow> True | Some k \<Rightarrow> key r < k)"
  by (simp add: keyset_below_def)

lemma keyset_below_next:
  assumes "distinct (map key rows)" and "0 < n" and "n \<le> length (keyset_below key cur rows)"
  shows "keyset_below key (Some (key (keyset_below key cur rows ! (n - 1)))) rows = drop n (keyset_below key cur rows)"
proof -
  let ?B = "keyset_below key cur rows" and ?P = "\<lambda>r. case cur of None \<Rightarrow> True | Some k \<Rightarrow> key r < k"
  define x where "x = ?B ! (n - 1)"
  have k: "n - 1 < length ?B" using assms(2,3) by simp
  then have "x \<in> set ?B" by (simp add: x_def)
  then have "?P x" using keyset_below_mem by fast
  then have "filter (\<lambda>r. key r < key x) rows = filter (\<lambda>r. key r < key x) (filter ?P rows)"
    by (auto intro!: filter_cong split: option.splits)
  then have "keyset_below key (Some (key x)) rows = filter (\<lambda>r. key r < key x) ?B"
    by (simp only: keyset_below_def option.case filter_sort [symmetric] rev_filter [symmetric])
  also have "\<dots> = drop (Suc (n - 1)) ?B"
    unfolding x_def
  proof (rule filter_behind [OF _ k])
    show "sorted_wrt (\<lambda>a b. key b < key a) ?B" unfolding keyset_below_def
      by (rule strict_rev_sort_key) (simp add: assms(1) distinct_map_filter)
  qed simp
  finally show ?thesis using assms(2) by (simp add: x_def)
qed

end
