(* ===== verification/Page_Laws.thy ===== *)
theory Page_Laws
  imports Message_Pages Group_Laws Paging
begin

text \<open>
  Reading a chat page by page: what a page contains, and that following the cursors from the newest page
  visits every visible message once.
\<close>

section \<open>The page before a cursor\<close>

definition below :: "db \<Rightarrow> uuid \<Rightarrow> time option \<Rightarrow> uuid \<Rightarrow> message list" where
  "below d chatID hiddenAt cur = keyset_below m_id (if cur = uuid_Nil then None else Some cur) (visible_messages d chatID hiddenAt)"

lemma below_mem: "m \<in> set (below d c h cur) \<longleftrightarrow> m \<in> set (visible_messages d c h) \<and> (cur = uuid_Nil \<or> m_id m < cur)"
  by (simp add: below_def keyset_below_mem)

lemma below_next:
  assumes "distinct (map m_id (messages d))" and "0 < n" and "n \<le> length (below d c h cur)" and "\<forall>m\<in>set (messages d). m_id m \<noteq> uuid_Nil"
  shows "below d c h (m_id (below d c h cur ! (n - 1))) = drop n (below d c h cur)"
proof -
  have "below d c h cur ! (n - 1) \<in> set (visible_messages d c h)" using assms(2,3) nth_mem [of "n - 1" "below d c h cur"] by (simp add: below_mem)
  then have "m_id (below d c h cur ! (n - 1)) \<noteq> 0" using assms(4) by (simp add: visible_messages_def)
  moreover have "distinct (map m_id (visible_messages d c h))" using assms(1) by (simp add: visible_messages_def distinct_map_filter)
  ultimately show ?thesis
    using keyset_below_next [of m_id "visible_messages d c h" n "if cur = uuid_Nil then None else Some cur"] assms(2,3) by (simp add: below_def)
qed

lemma repo_older:
  assumes "fault e = no_fault" and "dir \<noteq> ''newer''"
  shows "RepoGetMessages e d c h cur limit dir = Inr (take (limit + 1) (below d c h cur))"
  using assms by (auto simp: RepoGetMessages_def ent_all_def below_def keyset_below_def)

lemma older_page:
  assumes nf: "fault e = no_fault" and dir: "gr_direction req \<noteq> ''newer''" "gr_around req = None" and lim: "gr_limit req > 0"
    and ids: "distinct (map m_id (messages d))" "\<forall>m\<in>set (messages d). m_id m \<noteq> uuid_Nil" and ne: "below d (gr_chat_id req) h cur \<noteq> []"
  shows "\<exists>pc hp. paginate e codec d h req (take (gr_limit req + 1) (below d (gr_chat_id req) h cur)) None =
     Inr (rev (take (gr_limit req) (below d (gr_chat_id req) h cur)),
          b64_encode (UuidString codec (m_id (last (take (gr_limit req) (below d (gr_chat_id req) h cur))))),
          length (below d (gr_chat_id req) h cur) > gr_limit req, pc, hp)"
proof -
  let ?B = "below d (gr_chat_id req) h cur" and ?L = "gr_limit req"
  show ?thesis
  proof (cases "length ?B > ?L")
    case True
    then have "min ?L (length ?B) = ?L" "take ?L (take (?L + 1) ?B) = take ?L ?B" by simp_all
    then show ?thesis using True dir nf ne lim
      by (simp add: paginate_def Let_def page_flags_def newer_exists_def ent_exist_def hd_rev)
  next
    case False
    then have all: "take (?L + 1) ?B = ?B" "take ?L ?B = ?B" by simp_all
    have "below d (gr_chat_id req) h (m_id (last ?B)) = []"
      using below_next [OF ids(1), of "length ?B"] ids(2) ne by (simp add: last_conv_nth)
    moreover have "m_id (last ?B) \<noteq> 0" using ids(2) ne last_in_set [OF ne] by (auto simp: below_mem visible_messages_def)
    ultimately have "filter (\<lambda>m. m_id m < m_id (last ?B)) (visible_messages d (gr_chat_id req) h) = []"
      by (metis (no_types, lifting) below_mem empty_iff filter_False list.set(1))
    then show ?thesis using False dir nf ne all
      by (simp add: paginate_def Let_def page_flags_def newer_exists_def older_exists_def ent_exist_def hd_rev)
  qed
qed

section \<open>Following the cursors\<close>

lemma message_row_id [simp]: "mr_id (message_row svc codec d us roles m) = m_id m"
  by (simp add: message_row_def put_action_names_def ToMessageResponse_def load_full_def Let_def)

lemma decode_cursor_text: "uuid_text codec \<Longrightarrow> decode_cursor_id codec (b64_encode (UuidString codec u)) = Inr u"
  by (simp add: decode_cursor_id_def uuid_text_def b64_encode_Nil b64_decode_encode)

lemma GetMessages_older:
  assumes nf: "fault e = no_fault" and dir: "gr_direction req \<noteq> ''newer''" "gr_around req = None" and lim: "gr_limit req > 0" and v: "\<forall>cs. valid (req\<lparr>gr_cursor := cs\<rparr>)"
    and ids: "distinct (map m_id (messages d))" "\<forall>m\<in>set (messages d). m_id m \<noteq> uuid_Nil"
    and acc: "find_live_chat e ''query chat details'' d (gr_chat_id req) = Inr c" "read_access e d uid c = Inr (h, g)"
    and cur: "decode_cursor_id codec cursor = Inr cur"
  shows "\<exists>rows pc hp nc. GetMessages svc e codec valid d uid (req\<lparr>gr_cursor := cursor\<rparr>) =
       Inr (rows, nc, length (below d (gr_chat_id req) h cur) > gr_limit req, pc, hp) \<and>
     map mr_id rows = rev (map m_id (take (gr_limit req) (below d (gr_chat_id req) h cur))) \<and>
     (rows \<noteq> [] \<longrightarrow> nc = b64_encode (UuidString codec (m_id (last (take (gr_limit req) (below d (gr_chat_id req) h cur))))))"
proof (cases "below d (gr_chat_id req) h cur = []")
  case True
  then show ?thesis using assms
    by (simp add: GetMessages_def Let_def fetch_messages_def repo_older paginate_def) blast
next
  case False
  let ?r = "req\<lparr>gr_cursor := cursor\<rparr>"
  obtain pc hp where "paginate e codec d h ?r (take (gr_limit ?r + 1) (below d (gr_chat_id ?r) h cur)) None =
     Inr (rev (take (gr_limit ?r) (below d (gr_chat_id ?r) h cur)),
          b64_encode (UuidString codec (m_id (last (take (gr_limit ?r) (below d (gr_chat_id ?r) h cur))))),
          length (below d (gr_chat_id ?r) h cur) > gr_limit ?r, pc, hp)"
    using older_page [of e ?r d h cur codec] assms False by auto
  then show ?thesis using assms by (simp add: GetMessages_def Let_def fetch_messages_def repo_older rev_map)
qed

text \<open>
  A client that asks for older messages. A page lists its messages from the oldest on; the reader hands them out
  from the newest on, as the pages come.
\<close>

type_synonym message_reader = "service \<times> env \<times> uuid_codec \<times> (get_request \<Rightarrow> bool) \<times> db \<times> uuid \<times> get_request"

definition older_ids :: "message_reader \<Rightarrow> string \<Rightarrow> app_error + (uuid list \<times> string \<times> bool)" where
  "older_ids = (\<lambda>(svc, e, codec, valid, d, uid, req) cursor.
     and_then (GetMessages svc e codec valid d uid (req\<lparr>gr_cursor := cursor\<rparr>)) (\<lambda>(rows, nextCursor, hasNext, _).
       Inr (rev (map mr_id rows), nextCursor, hasNext)))"

definition older_left :: "message_reader \<Rightarrow> string \<Rightarrow> uuid list" where
  "older_left = (\<lambda>(svc, e, codec, valid, d, uid, req) cursor.
     case and_then (find_live_chat e ''query chat details'' d (gr_chat_id req)) (\<lambda>c. and_then (read_access e d uid c) (\<lambda>(h, g).
            and_then (decode_cursor_id codec cursor) (\<lambda>cur. Inr (map m_id (below d (gr_chat_id req) h cur))))) of
       Inl _ \<Rightarrow> [] | Inr ids \<Rightarrow> ids)"

definition older_good :: "message_reader \<Rightarrow> string \<Rightarrow> bool" where
  "older_good = (\<lambda>(svc, e, codec, valid, d, uid, req) cursor.
     fault e = no_fault \<and> gr_direction req \<noteq> ''newer'' \<and> gr_around req = None \<and> gr_limit req > 0 \<and> (\<forall>cs. valid (req\<lparr>gr_cursor := cs\<rparr>)) \<and>
     distinct (map m_id (messages d)) \<and> (\<forall>m\<in>set (messages d). m_id m \<noteq> uuid_Nil) \<and> uuid_text codec \<and>
     (\<exists>c h g. find_live_chat e ''query chat details'' d (gr_chat_id req) = Inr c \<and> read_access e d uid c = Inr (h, g)) \<and>
     (\<exists>cur. decode_cursor_id codec cursor = Inr cur))"

interpretation older: paged_reader older_ids older_left older_good
proof
  fix cfg :: message_reader and cursor :: string
  assume good: "older_good cfg cursor"
  obtain svc e codec valid d uid req where cfg: "cfg = (svc, e, codec, valid, d, uid, req)" by (metis prod.exhaust)
  note g = good [unfolded cfg older_good_def prod.case]
  from g obtain c h gc cur where acc: "find_live_chat e ''query chat details'' d (gr_chat_id req) = Inr c" "read_access e d uid c = Inr (h, gc)"
    and cur: "decode_cursor_id codec cursor = Inr cur" by blast
  let ?B = "below d (gr_chat_id req) h" and ?L = "gr_limit req"
  obtain rows pc hp nc where run: "GetMessages svc e codec valid d uid (req\<lparr>gr_cursor := cursor\<rparr>) = Inr (rows, nc, length (?B cur) > ?L, pc, hp)"
    and rows: "map mr_id rows = rev (map m_id (take ?L (?B cur)))"
    and nc: "rows \<noteq> [] \<longrightarrow> nc = b64_encode (UuidString codec (m_id (last (take ?L (?B cur)))))"
    using GetMessages_older [OF _ _ _ _ _ _ _ acc cur, of valid svc] g by force
  have left: "older_left cfg cs = map m_id (?B x)" if "decode_cursor_id codec cs = Inr x" for cs x
    using that acc by (simp add: cfg older_left_def)
  have next_page: "older_good cfg nc \<and> older_left cfg nc = map m_id (drop ?L (?B cur)) \<and> rows \<noteq> []" if more: "length (?B cur) > ?L"
  proof -
    have "take ?L (?B cur) \<noteq> []" using more g by auto
    then have "rows \<noteq> []" using rows by (metis list.map_disc_iff rev_is_Nil_conv)
    moreover have "last (take ?L (?B cur)) = ?B cur ! (?L - 1)" using more g by (intro last_take) simp_all
    ultimately have "decode_cursor_id codec nc = Inr (m_id (?B cur ! (?L - 1)))" using nc g by (simp add: decode_cursor_text)
    moreover have "?B (m_id (?B cur ! (?L - 1))) = drop ?L (?B cur)" using more g by (intro below_next) simp_all
    ultimately show ?thesis using left g acc \<open>rows \<noteq> []\<close> by (simp add: cfg older_good_def)
  qed
  show "\<exists>page nextCursor hasNext. older_ids cfg cursor = Inr (page, nextCursor, hasNext) \<and>
      (if hasNext then page \<noteq> [] \<and> older_good cfg nextCursor \<and> older_left cfg cursor = page @ older_left cfg nextCursor else older_left cfg cursor = page)"
  proof (intro exI conjI)
    show "older_ids cfg cursor = Inr (rev (map mr_id rows), nc, length (?B cur) > ?L)" using run by (simp add: cfg older_ids_def)
    show "if length (?B cur) > ?L then rev (map mr_id rows) \<noteq> [] \<and> older_good cfg nc \<and> older_left cfg cursor = rev (map mr_id rows) @ older_left cfg nc
        else older_left cfg cursor = rev (map mr_id rows)"
    proof (cases "length (?B cur) > ?L")
      case True
      have "map m_id (take ?L (?B cur)) @ map m_id (drop ?L (?B cur)) = map m_id (?B cur)" by (simp flip: map_append)
      with next_page [OF True] left [OF cur] rows True g show ?thesis by (auto simp: rev_map)
    qed (simp add: left [OF cur] rows)
  qed
qed

text \<open>
  C9. A client that reads a chat from its newest page backwards, following the cursors while a next page is
  announced, receives every message it may see exactly once, from the newest identifier to the oldest, and stops:
  one step more than there are messages is enough. The text form of identifiers is assumed to parse back.
\<close>

theorem paging_visits_all_messages:
  assumes "fault e = no_fault" and "gr_direction req \<noteq> ''newer''" and "gr_around req = None" and "gr_limit req > 0"
    and "\<forall>cs. valid (req\<lparr>gr_cursor := cs\<rparr>)" and "distinct (map m_id (messages d))" and "\<forall>m\<in>set (messages d). m_id m \<noteq> uuid_Nil"
    and "find_live_chat e ''query chat details'' d (gr_chat_id req) = Inr c" and "read_access e d uid c = Inr (h, g)"
    and "uuid_text codec" and "length (messages d) < fuel"
  shows "walk fuel (older_ids (svc, e, codec, valid, d, uid, req)) [] =
     Some (rev (map m_id (sort_key m_id (visible_messages d (gr_chat_id req) h))))"
proof -
  let ?cfg = "(svc, e, codec, valid, d, uid, req)"
  have start: "decode_cursor_id codec [] = Inr uuid_Nil" by (simp add: decode_cursor_id_def)
  have left: "older_left ?cfg [] = rev (map m_id (sort_key m_id (visible_messages d (gr_chat_id req) h)))"
    using assms(8,9) start by (simp add: older_left_def below_def keyset_below_def rev_map)
  moreover have "length (older_left ?cfg []) < fuel"
    using assms(11) le_less_trans [OF length_filter_le] by (simp add: left visible_messages_def)
  moreover have "older_good ?cfg []" using assms(1-10) start by (auto simp: older_good_def)
  ultimately show ?thesis using older.walk_all [of ?cfg "[]" fuel] by simp
qed

definition sample_get :: get_request where
  "sample_get = \<lparr>gr_chat_id = 10, gr_cursor = [], gr_around = None, gr_limit = 1, gr_direction = ''older''\<rparr>"

definition sample_pages_db :: db where
  "sample_pages_db = sample_db\<lparr>messages := [sample_message 22 10 2 90, sample_message 20 10 1 100, sample_message 21 11 1 101]\<rparr>"

definition quiet_service :: service where
  "quiet_service = \<lparr>svc_urls = \<lparr>GetPresignedURL = (\<lambda>f. f), GetPublicURL = (\<lambda>f. f)\<rparr>, svc_hub = False, svc_random = (\<lambda>k. None)\<rparr>"

lemma sample_pages_access:
  "find_live_chat (sample_env 500 900) ''query chat details'' sample_pages_db (gr_chat_id sample_get) = Inr (sample_chat 10 TypePrivate)"
  "read_access (sample_env 500 900) sample_pages_db 1 (sample_chat 10 TypePrivate) = Inr (None, None)"
  by (simp_all add: find_live_chat_def read_access_def private_of_def sample_pages_db_def sample_get_def sample_db_def sample_defs empty_db_def ent_only_def)

theorem paging_visits_all_messages_witness:
  "walk 4 (older_ids (quiet_service, sample_env 500 900, unary_codec, (\<lambda>_. True), sample_pages_db, 1, sample_get)) [] = Some [22, 20]"
proof -
  have "rev (map m_id (sort_key m_id (visible_messages sample_pages_db (gr_chat_id sample_get) None))) = [22, 20]"
    by (simp add: visible_messages_def sample_pages_db_def sample_get_def sample_message_def)
  moreover have "walk 4 (older_ids (quiet_service, sample_env 500 900, unary_codec, (\<lambda>_. True), sample_pages_db, 1, sample_get)) [] =
     Some (rev (map m_id (sort_key m_id (visible_messages sample_pages_db (gr_chat_id sample_get) None))))"
    by (rule paging_visits_all_messages [OF _ _ _ _ _ _ _ sample_pages_access unary_codec_text])
      (simp_all add: sample_get_def sample_pages_db_def sample_message_def)
  ultimately show ?thesis by simp
qed

section \<open>The flag of a page of newer messages\<close>

text \<open>In the direction of newer messages, a page that has a further page reports that there are no older
  messages, although the message the cursor names, which the page follows, is one of them.
\<close>

theorem newer_page_hides_older:
  assumes "fault e = no_fault" and "gr_direction req = ''newer''" and "gr_around req = None" and "gr_limit req > 0" and "valid req"
    and "find_live_chat e ''query chat details'' d (gr_chat_id req) = Inr c" and "read_access e d uid c = Inr (h, g)"
    and "decode_cursor_id codec (gr_cursor req) = Inr cur" and "m \<in> set (visible_messages d (gr_chat_id req) h)" and "m_id m = cur" and "cur \<noteq> uuid_Nil"
    and "length (filter (\<lambda>m. cur < m_id m) (visible_messages d (gr_chat_id req) h)) > gr_limit req"
  shows "\<exists>rows nc pc. GetMessages svc e codec valid d uid req = Inr (rows, nc, False, pc, True) \<and>
     length rows = gr_limit req \<and> (\<forall>r\<in>set rows. m_id m < mr_id r)"
proof -
  define N where "N = sort_key m_id (filter (\<lambda>m. cur < m_id m) (visible_messages d (gr_chat_id req) h))"
  have len: "length N > gr_limit req" using assms(12) by (simp add: N_def)
  then have ne: "N \<noteq> []" by auto
  have repo: "RepoGetMessages e d (gr_chat_id req) h cur (gr_limit req) (gr_direction req) = Inr (take (gr_limit req + 1) N)"
    using assms(1,2,11) by (simp add: RepoGetMessages_def ent_all_def N_def)
  have take: "take (gr_limit req) (take (gr_limit req + 1) N) = take (gr_limit req) N" by simp
  have "\<exists>nc pc. paginate e codec d h req (take (gr_limit req + 1) N) None = Inr (take (gr_limit req) N, nc, False, pc, True)"
    using len ne assms(2-4) by (auto simp: paginate_def Let_def page_flags_def)
  moreover have "fetch_messages e codec d h req = Inr (take (gr_limit req + 1) N, None)"
    using repo assms(3,8) by (simp add: fetch_messages_def)
  ultimately obtain rows nc pc where run: "GetMessages svc e codec valid d uid req = Inr (rows, nc, False, pc, True)"
    and ids: "map mr_id rows = map m_id (take (gr_limit req) N)"
    using assms(4-7) by (auto simp: GetMessages_def Let_def)
  have "length rows = gr_limit req" using arg_cong [OF ids, of length] len by simp
  moreover have "m_id m < mr_id r" if "r \<in> set rows" for r
  proof -
    have "mr_id r \<in> set (map m_id (take (gr_limit req) N))" using that unfolding ids [symmetric] by simp
    then show ?thesis using assms(10) by (auto simp: N_def dest: in_set_takeD)
  qed
  ultimately show ?thesis using run by blast
qed

definition sample_newer :: get_request where
  "sample_newer = \<lparr>gr_chat_id = 10, gr_cursor = b64_encode (replicate 20 CHR ''a''), gr_around = None, gr_limit = 1, gr_direction = ''newer''\<rparr>"

definition sample_newer_db :: db where
  "sample_newer_db = sample_db\<lparr>messages := [sample_message 19 10 1 90, sample_message 20 10 1 100, sample_message 21 10 1 101]\<rparr>"

theorem newer_page_hides_older_witness:
  "\<exists>rows nc pc. GetMessages quiet_service (sample_env 500 900) unary_codec (\<lambda>_. True) sample_newer_db 1 sample_newer = Inr (rows, nc, False, pc, True)"
proof -
  have acc: "find_live_chat (sample_env 500 900) ''query chat details'' sample_newer_db (gr_chat_id sample_newer) = Inr (sample_chat 10 TypePrivate)"
    "read_access (sample_env 500 900) sample_newer_db 1 (sample_chat 10 TypePrivate) = Inr (None, None)"
    by (simp_all add: find_live_chat_def read_access_def private_of_def sample_newer_db_def sample_newer_def sample_db_def sample_defs empty_db_def ent_only_def)
  have cur: "decode_cursor_id unary_codec (gr_cursor sample_newer) = Inr 19"
    by (simp add: decode_cursor_id_def sample_newer_def b64_encode_Nil b64_decode_encode unary_codec_def)
  have m: "sample_message 19 10 1 90 \<in> set (visible_messages sample_newer_db (gr_chat_id sample_newer) None)"
    by (simp add: visible_messages_def sample_newer_db_def sample_newer_def sample_message_def)
  have len: "length (filter (\<lambda>m. 19 < m_id m) (visible_messages sample_newer_db (gr_chat_id sample_newer) None)) > gr_limit sample_newer"
    by (simp add: visible_messages_def sample_newer_db_def sample_newer_def sample_message_def)
  show ?thesis
    using newer_page_hides_older [OF _ _ _ _ _ acc cur m _ _ len, of "\<lambda>_. True" quiet_service]
    by (simp add: sample_newer_def sample_message_def) blast
qed

end
