(* ===== verification/Chat_Mapper.thy ===== *)
theory Chat_Mapper
  imports Message_Service
begin

text \<open>
  Chats with their loaded relations and the entry of the chat list a user sees:
  \<^verbatim>\<open>src/internal/infrastructure/database/mapper/chat.go\<close>. A user is loaded with the avatar. The presence
  store and the block lookups are read by the callers; the mapper takes their results as functions.
\<close>

record block_status =
  BlockedByMe :: bool
  BlockedByOther :: bool

definition no_block :: block_status where
  "no_block = \<lparr>BlockedByMe = False, BlockedByOther = False\<rparr>"

type_synonym loaded_user = "user \<times> media option"

record full_chat =
  fc_chat :: chat
  fc_private :: "(private_chat \<times> loaded_user option \<times> loaded_user option) option"
  fc_group :: "(group_chat \<times> media option \<times> group_member list) option"
  fc_last_message :: "full_message option"

definition avatar_link :: "urlgen \<Rightarrow> media option \<Rightarrow> string" where
  "avatar_link ug av = (case av of None \<Rightarrow> [] | Some m \<Rightarrow> GetPublicURL ug (md_file_name m))"

section \<open>MapChatToResponse\<close>

text \<open>The side of the user: the other user, both read marks, the unread counter and from when on messages are hidden.\<close>

definition my_side :: "uuid \<Rightarrow> private_chat \<times> loaded_user option \<times> loaded_user option \<Rightarrow>
    loaded_user option \<times> time option \<times> time option \<times> int \<times> time option" where
  "my_side userID = (\<lambda>(pc, user1, user2).
     if pc_user1_id pc = Some userID
     then (user2, pc_user1_last_read_at pc, pc_user2_last_read_at pc, pc_user1_unread_count pc, pc_user1_hidden_at pc)
     else if pc_user2_id pc = Some userID
     then (user1, pc_user2_last_read_at pc, pc_user1_last_read_at pc, pc_user2_unread_count pc, pc_user2_hidden_at pc)
     else (None, None, None, 0, None))"

text \<open>What is shown of the other user.\<close>

definition put_other_user :: "time \<Rightarrow> urlgen \<Rightarrow> (uuid \<Rightarrow> block_status) \<Rightarrow> (uuid \<Rightarrow> bool) \<Rightarrow> loaded_user option \<Rightarrow> chat_list_response \<Rightarrow> chat_list_response" where
  "put_other_user t ug blocked online other resp =
     (case other of
        None \<Rightarrow> resp\<lparr>cl_other_user_is_deleted := True, cl_is_online := False, cl_name := ''Deleted User''\<rparr>
      | Some (u, av) \<Rightarrow>
          if u_deleted_at u \<noteq> None
          then resp\<lparr>cl_other_user_id := Some (u_id u), cl_other_user_is_deleted := True, cl_is_online := False, cl_name := ''Deleted User''\<rparr>
          else let banned = currently_banned t u; status = blocked (u_id u) in
               resp\<lparr>cl_other_user_id := Some (u_id u), cl_name := (case u_full_name u of None \<Rightarrow> [] | Some n \<Rightarrow> n),
                    cl_other_user_is_banned := banned, cl_is_blocked_by_me := BlockedByMe status,
                    cl_is_online := (if BlockedByMe status \<or> BlockedByOther status then False else if \<not> banned then online (u_id u) else False),
                    cl_avatar := avatar_link ug av\<rparr>)"

definition put_private :: "time \<Rightarrow> urlgen \<Rightarrow> uuid \<Rightarrow> (uuid \<Rightarrow> block_status) \<Rightarrow> (uuid \<Rightarrow> bool) \<Rightarrow>
    private_chat \<times> loaded_user option \<times> loaded_user option \<Rightarrow> chat_list_response \<Rightarrow> chat_list_response" where
  "put_private t ug userID blocked online pc resp =
     (case my_side userID pc of (other, myLastRead, otherLastRead, unread, hiddenAt) \<Rightarrow>
       (put_other_user t ug blocked online other resp)\<lparr>cl_unread_count := unread, cl_last_read_at := map_option RFC3339 myLastRead,
          cl_other_last_read_at := map_option RFC3339 otherLastRead, cl_hidden_at := map_option RFC3339 hiddenAt\<rparr>)"

definition put_group :: "urlgen \<Rightarrow> group_chat \<times> media option \<times> group_member list \<Rightarrow> chat_list_response \<Rightarrow> chat_list_response" where
  "put_group ug = (\<lambda>(gc, av, members) resp.
     let resp = resp\<lparr>cl_name := gc_name gc, cl_description := gc_description gc, cl_is_public := Some (gc_is_public gc),
                     cl_avatar := avatar_link ug av, cl_invite_code := (if gc_is_public gc then Some (gc_invite_code gc) else None)\<rparr> in
     case members of
       [] \<Rightarrow> resp
     | m # _ \<Rightarrow>
         let resp = resp\<lparr>cl_unread_count := gm_unread_count m, cl_my_role := Some (role_text (gm_role m)),
                         cl_last_read_at := map_option RFC3339 (gm_last_read_at m)\<rparr> in
         if gm_role m = RoleOwner \<or> gm_role m = RoleAdmin
         then resp\<lparr>cl_invite_code := Some (gc_invite_code gc), cl_invite_expires_at := map_option RFC3339 (gc_invite_expires_at gc)\<rparr>
         else resp)"

definition MapChatToResponse :: "time \<Rightarrow> uuid \<Rightarrow> full_chat \<Rightarrow> (uuid \<Rightarrow> block_status) \<Rightarrow> (uuid \<Rightarrow> bool) \<Rightarrow> urlgen \<Rightarrow> chat_list_response" where
  "MapChatToResponse t userID c blocked online ug =
     (let resp = zero_chat_response\<lparr>cl_id := c_id (fc_chat c), cl_type := chat_type_text (c_type (fc_chat c)),
                    cl_last_message := map_option (\<lambda>m. ToMessageResponse m ug []) (fc_last_message c)\<rparr> in
      case (c_type (fc_chat c), fc_private c, fc_group c) of
        (TypePrivate, Some pc, _) \<Rightarrow> put_private t ug userID blocked online pc resp
      | (TypeGroup, _, Some g) \<Rightarrow> put_group ug g resp
      | _ \<Rightarrow> resp)"

lemmas map_chat_defs = MapChatToResponse_def put_private_def put_group_def put_other_user_def my_side_def zero_chat_response_def
  avatar_link_def

section \<open>Loading\<close>

definition load_user :: "db \<Rightarrow> uuid option \<Rightarrow> loaded_user option" where
  "load_user d i = map_option (\<lambda>u. (u, Option.bind (u_avatar_id u) (media_of d))) (Option.bind i (user_of d))"

definition load_group :: "db \<Rightarrow> uuid \<Rightarrow> group_chat \<Rightarrow> group_chat \<times> media option \<times> group_member list" where
  "load_group d userID gc = (gc, Option.bind (gc_avatar_id gc) (media_of d),
     filter (\<lambda>m. gm_group_chat_id m = gc_id gc \<and> gm_user_id m = userID) (group_members d))"

section \<open>Properties of the mapper\<close>

text \<open>A user is shown online only when neither side has blocked the other and the user is neither deleted nor banned.\<close>

lemma put_other_user_online:
  assumes "cl_is_online (put_other_user t ug blocked online other resp)"
  shows "\<exists>u av. other = Some (u, av) \<and> u_deleted_at u = None \<and> \<not> currently_banned t u \<and> online (u_id u) \<and>
           \<not> BlockedByMe (blocked (u_id u)) \<and> \<not> BlockedByOther (blocked (u_id u))"
  using assms by (auto simp: put_other_user_def Let_def split: option.splits if_splits)

lemma MapChatToResponse_online:
  assumes "cl_is_online (MapChatToResponse t userID c blocked online ug)"
  shows "\<exists>pc u1 u2 u av. c_type (fc_chat c) = TypePrivate \<and> fc_private c = Some (pc, u1, u2) \<and>
           (pc_user1_id pc = Some userID \<and> u2 = Some (u, av) \<or> pc_user1_id pc \<noteq> Some userID \<and> pc_user2_id pc = Some userID \<and> u1 = Some (u, av)) \<and>
           u_deleted_at u = None \<and> \<not> currently_banned t u \<and> online (u_id u) \<and>
           \<not> BlockedByMe (blocked (u_id u)) \<and> \<not> BlockedByOther (blocked (u_id u))"
proof -
  let ?resp = "zero_chat_response\<lparr>cl_id := c_id (fc_chat c), cl_type := chat_type_text (c_type (fc_chat c)),
                    cl_last_message := map_option (\<lambda>m. ToMessageResponse m ug []) (fc_last_message c)\<rparr>"
  have group_off: "cl_is_online (put_group ug g ?resp) = False" for g
    by (cases g) (simp add: put_group_def Let_def zero_chat_response_def split: list.splits)
  obtain pc u1 u2 where pc: "c_type (fc_chat c) = TypePrivate" "fc_private c = Some (pc, u1, u2)" and on: "cl_is_online (put_private t ug userID blocked online (pc, u1, u2) ?resp)"
    using assms group_off by (auto simp: MapChatToResponse_def Let_def zero_chat_response_def split: option.splits chat_type.splits)
  obtain other where side: "fst (my_side userID (pc, u1, u2)) = other" by blast
  from on side have "cl_is_online (put_other_user t ug blocked online other ?resp)"
    by (auto simp: put_private_def split: prod.splits)
  from put_other_user_online [OF this] side pc show ?thesis
    by (auto simp: my_side_def split: if_splits)
qed

text \<open>The invitation of a private group is shown to its owner and admins only.\<close>

lemma MapChatToResponse_invite:
  assumes "cl_invite_code (MapChatToResponse t userID c blocked online ug) = Some code"
  shows "\<exists>gc av ms. fc_group c = Some (gc, av, ms) \<and> code = gc_invite_code gc \<and>
           (gc_is_public gc \<or> (\<exists>m ms'. ms = m # ms' \<and> gm_role m \<noteq> RoleMember))"
  using assms
  by (auto simp: map_chat_defs Let_def split: option.splits chat_type.splits list.splits prod.splits if_splits)

end
