(* ===== verification/Chat_Repository.thy ===== *)
theory Chat_Repository
  imports Chat_Mapper Message_Pages "HOL-Library.Product_Lexorder"
begin

text \<open>
  The reads of the chat list: \<^verbatim>\<open>src/internal/infrastructure/database/repository/chat_repository.go\<close> and the
  cached member counts of \<^verbatim>\<open>group_member_repository.go\<close>. The case-insensitive containment of Postgres
  (\<open>ContainsFold\<close>) is the argument \<open>contains_fold\<close>, its first argument the column. Instants of the cursor are
  in microseconds, the precision of the stored instants.
\<close>

section \<open>One chat\<close>

definition chat_readable :: "db \<Rightarrow> uuid \<Rightarrow> chat \<Rightarrow> bool" where
  "chat_readable d userID c \<longleftrightarrow>
     (\<exists>p\<in>set (private_chats d). pc_chat_id p = c_id c \<and> (pc_user1_id p = Some userID \<or> pc_user2_id p = Some userID)) \<or>
     (\<exists>g\<in>set (group_chats d). gc_chat_id g = c_id c \<and>
        ((\<exists>m\<in>set (group_members d). gm_group_chat_id m = gc_id g \<and> gm_user_id m = userID) \<or> gc_is_public g))"

text \<open>The sender of the last message is selected without \<open>deleted_at\<close>, which is then read as nil.\<close>

definition load_preview :: "db \<Rightarrow> message \<Rightarrow> full_message" where
  "load_preview d m = \<lparr>fm_message = m,
     fm_sender = map_option (\<lambda>(u, av). (u\<lparr>u_deleted_at := None\<rparr>, av)) (load_sender d True m),
     fm_attachments = take 1 (attachments_of d (m_id m)), fm_reply_to = None\<rparr>"

definition load_private :: "db \<Rightarrow> private_chat \<Rightarrow> private_chat \<times> loaded_user option \<times> loaded_user option" where
  "load_private d p = (p, load_user d (pc_user1_id p), load_user d (pc_user2_id p))"

definition RepoGetChatByID :: "env \<Rightarrow> db \<Rightarrow> uuid \<Rightarrow> uuid \<Rightarrow> ent_error + full_chat" where
  "RepoGetChatByID e d userID chatID =
     and_then (ent_only (fault e ''get chat by ID'')
                (filter (\<lambda>c. c_id c = chatID \<and> c_deleted_at c = None \<and> chat_readable d userID c) (chats d))) (\<lambda>c.
       Inr \<lparr>fc_chat = c, fc_private = map_option (load_private d) (private_of d (c_id c)),
            fc_group = map_option (load_group d userID) (group_of d (c_id c)),
            fc_last_message = map_option (load_preview d) (Option.bind (c_last_message_id c) (message_of d))\<rparr>)"

section \<open>The chat list\<close>

definition not_hidden :: "time option \<Rightarrow> time option \<Rightarrow> bool" where
  "not_hidden hiddenAt lastAt \<longleftrightarrow> (case hiddenAt of None \<Rightarrow> True | Some h \<Rightarrow> (case lastAt of None \<Rightarrow> False | Some l \<Rightarrow> h < l))"

definition chat_listed :: "db \<Rightarrow> uuid \<Rightarrow> chat \<Rightarrow> bool" where
  "chat_listed d userID c \<longleftrightarrow> c_deleted_at c = None \<and> c_last_message_at c \<noteq> None \<and>
     ((\<exists>p\<in>set (private_chats d). pc_chat_id p = c_id c \<and>
         (pc_user1_id p = Some userID \<and> not_hidden (pc_user1_hidden_at p) (c_last_message_at c) \<or>
          pc_user2_id p = Some userID \<and> not_hidden (pc_user2_hidden_at p) (c_last_message_at c))) \<or>
      (\<exists>m\<in>set (group_members d). gm_user_id m = userID \<and>
         (\<exists>g\<in>set (group_chats d). gc_id g = gm_group_chat_id m \<and> gc_chat_id g = c_id c)))"

definition other_matches :: "(string option \<Rightarrow> string \<Rightarrow> bool) \<Rightarrow> db \<Rightarrow> string \<Rightarrow> uuid option \<Rightarrow> bool" where
  "other_matches contains_fold d q i \<longleftrightarrow>
     (\<exists>u\<in>set (users d). i = Some (u_id u) \<and> (contains_fold (u_full_name u) q \<or> contains_fold (u_username u) q))"

definition chat_matches :: "(string option \<Rightarrow> string \<Rightarrow> bool) \<Rightarrow> db \<Rightarrow> uuid \<Rightarrow> string \<Rightarrow> chat \<Rightarrow> bool" where
  "chat_matches contains_fold d userID q c \<longleftrightarrow> q = [] \<or>
     (\<exists>p\<in>set (private_chats d). pc_chat_id p = c_id c \<and>
        (pc_user1_id p = Some userID \<and> other_matches contains_fold d q (pc_user2_id p) \<or>
         pc_user2_id p = Some userID \<and> other_matches contains_fold d q (pc_user1_id p))) \<or>
     (\<exists>g\<in>set (group_chats d). gc_chat_id g = c_id c \<and> contains_fold (Some (gc_name g)) q)"

text \<open>A cursor that cannot be read is ignored, and the list starts anew.\<close>

definition chat_cursor :: "uuid_codec \<Rightarrow> string \<Rightarrow> (time \<times> uuid) option" where
  "chat_cursor codec cursor =
     (if cursor = [] then None
      else case map_option (\<lambda>s. Split s '','') (b64_decode cursor) of
             Some [micro, i] \<Rightarrow> (case (ParseInt micro, UuidParse codec i) of (Some t, Some i) \<Rightarrow> Some (t * 1000, i) | _ \<Rightarrow> None)
           | _ \<Rightarrow> None)"

definition chat_key :: "chat \<Rightarrow> time \<times> uuid" where
  "chat_key c = (case c_last_message_at c of None \<Rightarrow> 0 | Some t \<Rightarrow> t, c_id c)"

definition before_cursor :: "(time \<times> uuid) option \<Rightarrow> chat \<Rightarrow> bool" where
  "before_cursor cur c \<longleftrightarrow> (case cur of
     None \<Rightarrow> True
   | Some (t, i) \<Rightarrow> (case c_last_message_at c of None \<Rightarrow> False | Some l \<Rightarrow> l < t \<or> l = t \<and> c_id c < i))"

text \<open>
  The eager load of the attachments is one query for all last messages of the page, with its limit of one
  row for the whole page.
\<close>

definition page_attachments :: "db \<Rightarrow> message list \<Rightarrow> media list" where
  "page_attachments d msgs = take 1 (filter (\<lambda>m. \<exists>x\<in>set msgs. md_message_id m = Some (m_id x)) (medias d))"

definition last_of :: "db \<Rightarrow> chat \<Rightarrow> message option" where
  "last_of d c = Option.bind (c_last_message_id c) (message_of d)"

text \<open>Private chats are read when the page has one; the user's own side is not loaded.\<close>

definition load_listed :: "db \<Rightarrow> uuid \<Rightarrow> bool \<Rightarrow> media list \<Rightarrow> chat \<Rightarrow> full_chat" where
  "load_listed d userID hasPrivateChat atts c =
     \<lparr>fc_chat = c,
      fc_private = (if \<not> hasPrivateChat then None else map_option (\<lambda>p. (p, if pc_user1_id p = Some userID then None else load_user d (pc_user1_id p),
                                      if pc_user2_id p = Some userID then None else load_user d (pc_user2_id p))) (private_of d (c_id c))),
      fc_group = map_option (load_group d userID) (group_of d (c_id c)),
      fc_last_message = map_option (\<lambda>m. \<lparr>fm_message = m, fm_sender = load_sender d True m,
          fm_attachments = filter (\<lambda>a. md_message_id a = Some (m_id m)) atts, fm_reply_to = None\<rparr>) (last_of d c)\<rparr>"

text \<open>The users and avatars of a page, each read in one query when there are any.\<close>

definition listed_users :: "uuid \<Rightarrow> full_chat list \<Rightarrow> uuid list" where
  "listed_users userID page = concat (map (\<lambda>c.
     (case fc_last_message c of None \<Rightarrow> [] | Some f \<Rightarrow> (case m_sender_id (fm_message f) of None \<Rightarrow> [] | Some s \<Rightarrow> [s])) @
     (case fc_private c of None \<Rightarrow> [] | Some (p, _) \<Rightarrow> filter (\<lambda>i. i \<noteq> userID) (List.map_filter id [pc_user1_id p, pc_user2_id p]))) page)"

definition listed_avatars :: "db \<Rightarrow> uuid \<Rightarrow> full_chat list \<Rightarrow> uuid list" where
  "listed_avatars d userID page =
     concat (map (\<lambda>c. case fc_group c of None \<Rightarrow> [] | Some (gc, _) \<Rightarrow> (case gc_avatar_id gc of None \<Rightarrow> [] | Some a \<Rightarrow> [a])) page) @
     List.map_filter u_avatar_id (filter (\<lambda>u. u_id u \<in> set (listed_users userID page)) (users d))"

definition chat_next_cursor :: "uuid_codec \<Rightarrow> chat \<Rightarrow> string" where
  "chat_next_cursor codec c = b64_encode (FormatInt ((case c_last_message_at c of None \<Rightarrow> 0 | Some t \<Rightarrow> t) div 1000) @ '','' @ UuidString codec (c_id c))"

definition RepoGetChats :: "env \<Rightarrow> uuid_codec \<Rightarrow> (string option \<Rightarrow> string \<Rightarrow> bool) \<Rightarrow> db \<Rightarrow> uuid \<Rightarrow> string \<Rightarrow> string \<Rightarrow> nat \<Rightarrow>
    ent_error + (full_chat list \<times> string \<times> bool)" where
  "RepoGetChats e codec contains_fold d userID q cursor limit =
     and_then (ent_all (fault e ''get chats'') (take (limit + 1) (rev (sort_key chat_key
         (filter (\<lambda>c. chat_listed d userID c \<and> chat_matches contains_fold d userID q c \<and> before_cursor (chat_cursor codec cursor) c) (chats d)))))) (\<lambda>rows.
     and_then (fail_if (fault e ''get chats private'' \<and> (\<exists>c\<in>set rows. c_type c = TypePrivate)) DriverError) (\<lambda>_.
     let loaded = map (load_listed d userID (\<exists>c\<in>set rows. c_type c = TypePrivate) (page_attachments d (List.map_filter (last_of d) rows))) rows in
     and_then (fail_if (fault e ''get chats users'' \<and> listed_users userID loaded \<noteq> []) DriverError) (\<lambda>_.
     and_then (fail_if (fault e ''get chats avatars'' \<and> listed_avatars d userID loaded \<noteq> []) DriverError) (\<lambda>_.
     if length loaded > limit
     then let page = take limit loaded in Inr (page, chat_next_cursor codec (fc_chat (last page)), True)
     else Inr (loaded, [], False)))))"

section \<open>Cached member counts\<close>

type_synonym count_cache = "uuid \<Rightarrow> (nat \<times> time) option"

abbreviation (input) groupMemberCountCacheTTL :: duration where "groupMemberCountCacheTTL \<equiv> 10 * 1000000000"

definition cache_hit :: "time \<Rightarrow> count_cache \<Rightarrow> uuid \<Rightarrow> nat option" where
  "cache_hit t cache i = (case cache i of None \<Rightarrow> None | Some (n, expires) \<Rightarrow> if t < expires then Some n else None)"

text \<open>Outdated entries are dropped before the query; its rows and, for groups without rows, zero are stored.\<close>

definition CountActiveMembersByGroupIDs :: "env \<Rightarrow> count_cache \<Rightarrow> db \<Rightarrow> uuid list \<Rightarrow> (ent_error + (uuid \<Rightarrow> nat option)) \<times> count_cache" where
  "CountActiveMembersByGroupIDs e cache d ids =
     (let missing = filter (\<lambda>i. cache_hit (now e) cache i = None) ids;
          dropped = (\<lambda>i. if i \<in> set missing then None else cache i);
          count = (\<lambda>i. length (live_members d i)) in
      if missing = [] then (Inr (\<lambda>i. if i \<in> set ids then cache_hit (now e) cache i else None), dropped)
      else if fault e ''count members'' then (Inl DriverError, dropped)
      else (Inr (\<lambda>i. if i \<in> set missing then Some (count i) else if i \<in> set ids then cache_hit (now e) cache i else None),
            (\<lambda>i. if i \<in> set missing then Some (count i, now e + groupMemberCountCacheTTL) else cache i)))"

definition InvalidateGroupMemberCount :: "count_cache \<Rightarrow> uuid \<Rightarrow> count_cache" where
  "InvalidateGroupMemberCount cache i = cache(i := None)"

end
