(* ===== verification/Realtime_Publisher.thy ===== *)
theory Realtime_Publisher
  imports Realtime_Query Samples
begin

text \<open>
  The live events of \<^verbatim>\<open>src/internal/infrastructure/redis/pubsub_publisher.go\<close>, the publisher behind
  \<open>wsHub\<close>. A publication is a channel, the user it is addressed to and the event; what is published on a
  channel of \<^verbatim>\<open>src/internal/messaging/pubsub/pubsub.go\<close> is fanned out by the gateway. A publisher without a
  database or without a Redis client publishes nothing. A failing publish is logged and dropped; the
  publications listed are those attempted.
\<close>

lemmas live_event_types = EventChatNew_def EventChatRead_def EventChatHide_def EventChatDelete_def EventChatUpdate_def
  EventUserOnline_def EventUserOffline_def EventUserUpdate_def EventUserBlock_def EventUserUnblock_def EventUserDeleted_def
  EventMessageNew_def EventMessageUpdate_def EventMessageDelete_def

record 'p live_event =
  le_type :: string
  le_payload :: 'p

definition BroadcastChannel :: string where "BroadcastChannel = ''events:broadcast''"
definition ControlChannel :: string where "ControlChannel = ''events:control''"

type_synonym 'p publication = "string \<times> uuid \<times> 'p live_event"

record publisher =
  pb_db :: bool
  pb_redis :: bool

definition isDurableMessageEvent :: "string \<Rightarrow> bool" where
  "isDurableMessageEvent ty \<longleftrightarrow> ty = EventMessageNew \<or> ty = EventMessageUpdate \<or> ty = EventMessageDelete"

definition BroadcastToUser :: "publisher \<Rightarrow> uuid \<Rightarrow> 'p live_event \<Rightarrow> 'p publication list" where
  "BroadcastToUser p userID ev =
     (if \<not> pb_redis p \<or> userID = uuid_Nil \<or> isDurableMessageEvent (le_type ev) then []
      else [(BroadcastChannel, userID, ev)])"

definition chat_event :: "string \<Rightarrow> bool" where
  "chat_event ty \<longleftrightarrow> ty = EventChatRead \<or> ty = EventChatUpdate \<or> ty = EventChatNew \<or> ty = EventChatHide \<or> ty = EventChatDelete"

definition BroadcastToChat :: "publisher \<Rightarrow> (string \<Rightarrow> bool) \<Rightarrow> db \<Rightarrow> uuid \<Rightarrow> 'p live_event \<Rightarrow> 'p publication list" where
  "BroadcastToChat p flt d chatID ev =
     (if \<not> pb_db p \<or> \<not> pb_redis p \<or> chatID = uuid_Nil \<or> isDurableMessageEvent (le_type ev) then []
      else case ChatMembers flt d chatID of
             Inl _ \<Rightarrow> []
           | Inr members \<Rightarrow> concat (map (\<lambda>userID. if chat_event (le_type ev) then BroadcastToUser p userID ev else []) members))"

text \<open>Presence is not shown to blocked contacts; when they cannot be read, none is left out.\<close>

definition hidden_contacts :: "(string \<Rightarrow> bool) \<Rightarrow> db \<Rightarrow> uuid \<Rightarrow> string \<Rightarrow> uuid list" where
  "hidden_contacts flt d userID ty =
     (if ty = EventUserOnline \<or> ty = EventUserOffline
      then (case BlockedContacts flt d userID of Inl _ \<Rightarrow> [] | Inr bs \<Rightarrow> bs) else [])"

definition BroadcastToContacts :: "publisher \<Rightarrow> (string \<Rightarrow> bool) \<Rightarrow> db \<Rightarrow> uuid \<Rightarrow> 'p live_event \<Rightarrow> 'p publication list" where
  "BroadcastToContacts p flt d userID ev =
     (if \<not> pb_db p \<or> \<not> pb_redis p \<or> userID = uuid_Nil \<or> isDurableMessageEvent (le_type ev) then []
      else case Contacts flt d userID of
             Inl _ \<Rightarrow> []
           | Inr contacts \<Rightarrow>
               concat (map (\<lambda>t. if t \<in> set (hidden_contacts flt d userID (le_type ev)) then [] else BroadcastToUser p t ev) contacts))"

definition DisconnectUser :: "publisher \<Rightarrow> uuid \<Rightarrow> (string \<times> uuid \<times> string) list" where
  "DisconnectUser p userID = (if \<not> pb_redis p \<or> userID = uuid_Nil then [] else [(ControlChannel, userID, EventUserDeleted)])"

section \<open>Who is reached\<close>

lemma BroadcastToUser_mem:
  "x \<in> set (BroadcastToUser p u ev) \<longleftrightarrow>
     pb_redis p \<and> u \<noteq> uuid_Nil \<and> \<not> isDurableMessageEvent (le_type ev) \<and> x = (BroadcastChannel, u, ev)"
  by (auto simp: BroadcastToUser_def)

lemma chat_event_live: "chat_event ty \<Longrightarrow> \<not> isDurableMessageEvent ty"
  by (auto simp: chat_event_def isDurableMessageEvent_def live_event_types)

lemma BroadcastToChat_mem:
  assumes "ChatMembers flt d chatID = Inr members" and "chat_event (le_type ev)" and "pb_db p" and "pb_redis p" and "chatID \<noteq> uuid_Nil"
  shows "(ch, u, ev') \<in> set (BroadcastToChat p flt d chatID ev) \<longleftrightarrow>
           ch = BroadcastChannel \<and> ev' = ev \<and> u \<in> set members \<and> u \<noteq> uuid_Nil"
  using assms chat_event_live [OF assms(2)] by (auto simp: BroadcastToChat_def BroadcastToUser_mem)

lemma BroadcastToContacts_presence:
  assumes "Contacts flt d u = Inr cs" and "BlockedContacts flt d u = Inr bs" and "le_type ev = EventUserOnline \<or> le_type ev = EventUserOffline"
    and "pb_db p" and "pb_redis p" and "u \<noteq> uuid_Nil"
  shows "(ch, v, ev') \<in> set (BroadcastToContacts p flt d u ev) \<longleftrightarrow>
           ch = BroadcastChannel \<and> ev' = ev \<and> v \<in> set cs \<and> v \<noteq> uuid_Nil \<and> v \<notin> set bs"
proof -
  have "\<not> isDurableMessageEvent (le_type ev)" using assms(3) by (auto simp: isDurableMessageEvent_def live_event_types)
  then show ?thesis using assms by (auto simp: BroadcastToContacts_def hidden_contacts_def BroadcastToUser_mem)
qed

text \<open>An online or offline event of a user is published exactly to the users with whom a private chat exists
  and neither side has blocked the other, once the two lookups succeed.
\<close>

theorem presence_reaches_unblocked_contacts:
  assumes "Contacts flt d u = Inr cs" and "BlockedContacts flt d u = Inr bs"
    and "le_type ev = EventUserOnline \<or> le_type ev = EventUserOffline"
    and "pb_db p" and "pb_redis p" and "u \<noteq> uuid_Nil" and "v \<noteq> u" and "v \<noteq> uuid_Nil"
  shows "(BroadcastChannel, v, ev) \<in> set (BroadcastToContacts p flt d u ev) \<longleftrightarrow>
     (\<exists>pc\<in>set (private_chats d). pc_user1_id pc = Some u \<and> pc_user2_id pc = Some v \<or>
        pc_user2_id pc = Some u \<and> pc_user1_id pc = Some v) \<and> \<not> blocked_between d u v"
  using BroadcastToContacts_presence [OF assms(1-6)] Contacts_mem [OF assms(1)] BlockedContacts_iff [OF assms(2)] assms(7,8)
  by (metis (no_types, lifting))

theorem presence_reaches_unblocked_contacts_witness:
  "(BroadcastChannel, 2, \<lparr>le_type = EventUserOnline, le_payload = ()\<rparr>) \<in> set (BroadcastToContacts \<lparr>pb_db = True, pb_redis = True\<rparr> no_fault sample_db 1
     \<lparr>le_type = EventUserOnline, le_payload = ()\<rparr>) \<longleftrightarrow>
   (\<exists>pc\<in>set (private_chats sample_db). pc_user1_id pc = Some 1 \<and> pc_user2_id pc = Some 2 \<or> pc_user2_id pc = Some 1 \<and> pc_user1_id pc = Some 2) \<and>
   \<not> blocked_between sample_db 1 2"
proof -
  have "Contacts no_fault sample_db 1 = Inr [2]" "BlockedContacts no_fault sample_db 1 = Inr []" by (code_simp+)
  from presence_reaches_unblocked_contacts [OF this, of "\<lparr>le_type = EventUserOnline, le_payload = ()\<rparr>" "\<lparr>pb_db = True, pb_redis = True\<rparr>" 2]
  show ?thesis by simp
qed

end
