(* ===== verification/Chat_Service.thy ===== *)
theory Chat_Service
  imports Chat_Repository Realtime_Publisher
begin

text \<open>
  The handlers of \<^verbatim>\<open>src/internal/api/application/chat/chat_service.go\<close>. The presence store answers
  \<open>online u\<close>, \<open>None\<close> when it fails. Live events are published after the commit, from the database it left.
\<close>

record chat_service =
  cs_base :: service
  cs_publisher :: publisher
  cs_codec :: uuid_codec
  cs_online :: "uuid \<Rightarrow> bool option"

datatype chat_payload = ReadPayload uuid uuid | HidePayload uuid | ChatPayload chat_list_response

text \<open>\<open>if s.wsHub != nil\<close>\<close>

definition when_hub :: "chat_service \<Rightarrow> 'a list \<Rightarrow> 'a list" where
  "when_hub svc xs = (if svc_hub (cs_base svc) then xs else [])"

section \<open>Lookups the readers share\<close>

text \<open>The other user of a private chat, from the side of the reader.\<close>

definition other_user_of :: "uuid \<Rightarrow> private_chat \<Rightarrow> uuid option" where
  "other_user_of userID pc = (if pc_user1_id pc = Some userID then pc_user2_id pc else pc_user1_id pc)"

definition chat_other :: "uuid \<Rightarrow> full_chat \<Rightarrow> uuid option" where
  "chat_other userID c =
     (case (c_type (fc_chat c), fc_private c) of (TypePrivate, Some (pc, _)) \<Rightarrow> other_user_of userID pc | _ \<Rightarrow> None)"

definition block_map :: "bool \<Rightarrow> db \<Rightarrow> uuid \<Rightarrow> uuid list \<Rightarrow> uuid \<Rightarrow> block_status" where
  "block_map broken d userID others i =
     (if broken \<or> i \<notin> set others then no_block
      else \<lparr>BlockedByMe = (\<exists>b\<in>set (user_blocks d). ub_blocker_id b = userID \<and> ub_blocked_id b = i),
            BlockedByOther = (\<exists>b\<in>set (user_blocks d). ub_blocker_id b \<noteq> userID \<and> ub_blocker_id b = i \<and> ub_blocked_id b = userID)\<rparr>)"

definition online_map :: "chat_service \<Rightarrow> uuid list \<Rightarrow> uuid \<Rightarrow> bool" where
  "online_map svc others i = (i \<in> set others \<and> cs_online svc i = Some True)"

definition applyNotificationPreferences :: "env \<Rightarrow> db \<Rightarrow> uuid \<Rightarrow> chat_list_response list \<Rightarrow> app_error + chat_list_response list" where
  "applyNotificationPreferences e d userID cs =
     (if cs = [] then Inr []
      else and_then (on_err (ent_all (fault e ''notification preferences'')
                       (filter (\<lambda>r. np_user_id r = userID \<and> np_chat_id r \<in> set (map cl_id cs)) (notification_preferences d))) (\<lambda>_. internal_error)) (\<lambda>rows.
             Inr (map (\<lambda>c. case filter (\<lambda>r. np_chat_id r = cl_id c) rows of
                             [] \<Rightarrow> c
                           | rs \<Rightarrow> c\<lparr>cl_muted_forever := np_muted_forever (last rs), cl_muted_until := np_muted_until (last rs)\<rparr>) cs)))"

definition name_last_message :: "uuid_codec \<Rightarrow> user list \<Rightarrow> chat_list_response \<Rightarrow> chat_list_response" where
  "name_last_message codec us resp = resp\<lparr>cl_last_message := map_option (put_action_names codec us) (cl_last_message resp)\<rparr>"

section \<open>GetChatByID\<close>

definition hide_from_visitors :: "full_chat \<Rightarrow> full_chat" where
  "hide_from_visitors c =
     (case (c_type (fc_chat c), fc_group c) of
        (TypeGroup, Some (gc, _, [])) \<Rightarrow> if gc_is_public gc then c\<lparr>fc_last_message := None\<rparr> else c
      | _ \<Rightarrow> c)"

definition put_member_count :: "env \<Rightarrow> db \<Rightarrow> full_chat \<Rightarrow> chat_list_response \<Rightarrow> chat_list_response" where
  "put_member_count e d c resp =
     (case (c_type (fc_chat c), fc_group c) of
        (TypeGroup, Some (gc, _)) \<Rightarrow> if fault e ''count members'' then resp else resp\<lparr>cl_member_count := length (live_members d (gc_id gc))\<rparr>
      | _ \<Rightarrow> resp)"

definition chat_view :: "chat_service \<Rightarrow> env \<Rightarrow> db \<Rightarrow> uuid \<Rightarrow> full_chat \<Rightarrow> chat_list_response" where
  "chat_view svc e d userID c =
     (let other = (case chat_other userID c of None \<Rightarrow> uuid_Nil | Some i \<Rightarrow> i);
          blocked = block_map (fault e ''block status'') d userID [other];
          online = online_map svc (if other = uuid_Nil then [] else [other]);
          resp = put_member_count e d c (MapChatToResponse (now e) userID c blocked online (svc_urls (cs_base svc)));
          us = resolve_users e (cs_codec svc) d (case fc_last_message c of None \<Rightarrow> [] | Some f \<Rightarrow> [fm_message f])
      in name_last_message (cs_codec svc) us resp)"

definition GetChatByID :: "chat_service \<Rightarrow> env \<Rightarrow> db \<Rightarrow> uuid \<Rightarrow> uuid \<Rightarrow> app_error + chat_list_response" where
  "GetChatByID svc e d userID chatID =
     and_then (on_err (RepoGetChatByID e d userID chatID)
                (\<lambda>er. if er = NotFoundError then NewNotFoundError [] else internal_error)) (\<lambda>c.
     and_then (applyNotificationPreferences e d userID [chat_view svc e d userID (hide_from_visitors c)]) (\<lambda>rs.
       Inr (hd rs)))"

section \<open>GetChats\<close>

record chats_request =
  cq_query :: string
  cq_cursor :: string
  cq_limit :: nat

definition listed_response :: "chat_service \<Rightarrow> env \<Rightarrow> uuid \<Rightarrow> (uuid \<Rightarrow> block_status) \<Rightarrow> (uuid \<Rightarrow> bool) \<Rightarrow> (uuid \<Rightarrow> nat option) \<Rightarrow> user list \<Rightarrow>
    full_chat \<Rightarrow> chat_list_response" where
  "listed_response svc e userID blocked online counts us c =
     (let resp = MapChatToResponse (now e) userID c blocked online (svc_urls (cs_base svc));
          resp = (case (c_type (fc_chat c), fc_group c) of
                    (TypeGroup, Some (gc, _)) \<Rightarrow> resp\<lparr>cl_member_count := (case counts (gc_id gc) of None \<Rightarrow> 0 | Some n \<Rightarrow> n)\<rparr>
                  | _ \<Rightarrow> resp)
      in name_last_message (cs_codec svc) us resp)"

definition group_ids :: "full_chat list \<Rightarrow> uuid list" where
  "group_ids cs = concat (map (\<lambda>c. case (c_type (fc_chat c), fc_group c) of (TypeGroup, Some (gc, _)) \<Rightarrow> [gc_id gc] | _ \<Rightarrow> []) cs)"

text \<open>The member counts of a page, none when they cannot be read, and the cache after it.\<close>

definition page_counts :: "env \<Rightarrow> count_cache \<Rightarrow> db \<Rightarrow> full_chat list \<Rightarrow> (uuid \<Rightarrow> nat option) \<times> count_cache" where
  "page_counts e cache d page =
     (if group_ids page = [] then (\<lambda>_. None, cache)
      else case CountActiveMembersByGroupIDs e cache d (group_ids page) of
             (Inl _, cache) \<Rightarrow> (\<lambda>_. None, cache)
           | (Inr counts, cache) \<Rightarrow> (counts, cache))"

definition GetChats :: "chat_service \<Rightarrow> env \<Rightarrow> (string option \<Rightarrow> string \<Rightarrow> bool) \<Rightarrow> (chats_request \<Rightarrow> bool) \<Rightarrow> count_cache \<Rightarrow> db \<Rightarrow> uuid \<Rightarrow> chats_request \<Rightarrow>
    (app_error + (chat_list_response list \<times> string \<times> bool)) \<times> count_cache" where
  "GetChats svc e contains_fold valid cache d userID req =
     (let limit = (if cq_limit req = 0 then 20 else cq_limit req) in
      case and_then (fail_if (\<not> valid req) (NewBadRequestError [])) (\<lambda>_.
             on_err (RepoGetChats e (cs_codec svc) contains_fold d userID (TrimSpace (cq_query req)) (cq_cursor req) limit) (\<lambda>_. internal_error)) of
        Inl er \<Rightarrow> (Inl er, cache)
      | Inr (page, nextCursor, hasNext) \<Rightarrow>
          let others = List.map_filter (chat_other userID) page;
              blocked = block_map (fault e ''block status'') d userID others;
              online = online_map svc others;
              us = resolve_users e (cs_codec svc) d (List.map_filter (\<lambda>c. map_option fm_message (fc_last_message c)) page);
              (counts, cache) = page_counts e cache d page in
          (and_then (applyNotificationPreferences e d userID (map (listed_response svc e userID blocked online counts us) page)) (\<lambda>rs.
             Inr (rs, nextCursor, hasNext)), cache))"

section \<open>MarkAsRead\<close>

definition read_private :: "time \<Rightarrow> uuid \<Rightarrow> private_chat \<Rightarrow> private_chat" where
  "read_private t userID pc =
     (if pc_user1_id pc = Some userID then pc\<lparr>pc_user1_unread_count := 0, pc_user1_last_read_at := Some t\<rparr>
      else pc\<lparr>pc_user2_unread_count := 0, pc_user2_last_read_at := Some t\<rparr>)"

definition mark_private_read :: "env \<Rightarrow> db \<Rightarrow> uuid \<Rightarrow> private_chat \<Rightarrow> app_error + (bool \<times> db)" where
  "mark_private_read e d userID pc =
     (case other_side pc userID of
        None \<Rightarrow> Inl (NewForbiddenError [])
      | Some other \<Rightarrow>
         let otherUserID = (case other of None \<Rightarrow> uuid_Nil | Some i \<Rightarrow> i) in
         and_then (on_err (ent_exist (fault e ''check block status'')
                      (filter (\<lambda>b. ub_blocker_id b = userID \<and> ub_blocked_id b = otherUserID \<or>
                                    ub_blocker_id b = otherUserID \<and> ub_blocked_id b = userID) (user_blocks d)))
                    (\<lambda>_. NewServiceUnavailableError ''Unable to verify block status'')) (\<lambda>isBlocked.
         and_then (fail_if (fault e ''mark private read'') internal_error) (\<lambda>_.
           Inr (isBlocked, d\<lparr>private_chats := update_where (\<lambda>p. pc_id p = pc_id pc) (read_private (now e) userID) (private_chats d)\<rparr>))))"

definition mark_group_read :: "env \<Rightarrow> db \<Rightarrow> uuid \<Rightarrow> group_chat \<Rightarrow> app_error + (bool \<times> db)" where
  "mark_group_read e d userID gc =
     and_then (on_err (find_member e ''query group member'' d (gc_id gc) userID)
                (\<lambda>er. if er = NotFoundError then NewForbiddenError ''Not a member of this group'' else internal_error)) (\<lambda>member.
     and_then (fail_if (fault e ''mark group read'') internal_error) (\<lambda>_.
       Inr (False, d\<lparr>group_members := update_where (\<lambda>m. gm_id m = gm_id member)
                        (\<lambda>m. m\<lparr>gm_unread_count := 0, gm_last_read_at := Some (now e)\<rparr>) (group_members d)\<rparr>)))"

definition MarkAsRead :: "chat_service \<Rightarrow> env \<Rightarrow> db \<Rightarrow> uuid \<Rightarrow> uuid \<Rightarrow> app_error + (chat_payload publication list \<times> db)" where
  "MarkAsRead svc e d userID chatID =
     and_then (begin_tx e) (\<lambda>_.
     and_then (on_err (ent_only (fault e ''query chat for update'') (filter (\<lambda>c. c_id c = chatID \<and> c_deleted_at c = None) (chats d)))
                (\<lambda>er. if er = NotFoundError then NewNotFoundError [] else internal_error)) (\<lambda>c.
     and_then (case (c_type c, private_of d (c_id c), group_of d (c_id c)) of
                 (TypePrivate, Some pc, _) \<Rightarrow> mark_private_read e d userID pc
               | (TypeGroup, _, Some gc) \<Rightarrow> mark_group_read e d userID gc
               | _ \<Rightarrow> Inr (False, d)) (\<lambda>(isBlocked, d).
     and_then (commit e) (\<lambda>_.
       Inr (when_hub svc (if isBlocked then [] else BroadcastToChat (cs_publisher svc) (fault e) d chatID
              \<lparr>le_type = EventChatRead, le_payload = ReadPayload chatID userID\<rparr>), d)))))"

section \<open>HideChat\<close>

definition hide_private :: "time \<Rightarrow> uuid \<Rightarrow> private_chat \<Rightarrow> private_chat" where
  "hide_private t userID pc =
     (if pc_user1_id pc = Some userID then pc\<lparr>pc_user1_hidden_at := Some t, pc_user1_unread_count := 0\<rparr>
      else pc\<lparr>pc_user2_hidden_at := Some t, pc_user2_unread_count := 0\<rparr>)"

definition HideChat :: "chat_service \<Rightarrow> env \<Rightarrow> db \<Rightarrow> uuid \<Rightarrow> uuid \<Rightarrow> app_error + (chat_payload publication list \<times> db)" where
  "HideChat svc e d userID chatID =
     and_then (on_err (ent_only (fault e ''query chat'') (filter (\<lambda>c. c_id c = chatID \<and> c_deleted_at c = None) (chats d)))
                (\<lambda>er. if er = NotFoundError then NewNotFoundError [] else internal_error)) (\<lambda>c.
     and_then (fail_if (c_type c \<noteq> TypePrivate) (NewBadRequestError [])) (\<lambda>_.
     case private_of d (c_id c) of
       None \<Rightarrow> Inl internal_error
     | Some pc \<Rightarrow>
         and_then (fail_if (other_side pc userID = None) (NewForbiddenError [])) (\<lambda>_.
         and_then (fail_if (fault e ''hide chat'') internal_error) (\<lambda>_.
           Inr (when_hub svc (BroadcastToUser (cs_publisher svc) userID \<lparr>le_type = EventChatHide, le_payload = HidePayload chatID\<rparr>),
                d\<lparr>private_chats := update_where (\<lambda>p. pc_id p = pc_id pc) (hide_private (now e) userID) (private_chats d)\<rparr>)))))"

end
