(* ===== verification/Private_Chat.thy ===== *)
theory Private_Chat
  imports Chat_Service
begin

text \<open>
  Opening a private chat: \<^verbatim>\<open>src/internal/api/application/chat/private_chat_service.go\<close>, with the hook and the
  unique index of \<^verbatim>\<open>src/ent/schema/private_chat.go\<close>. The request is checked outside of a transaction, and two
  requests can run at the same time: the handler takes the database \<open>d0\<close> its checks read and the database \<open>d\<close>
  its transaction writes to. The context of the request is not cancelled.
\<close>

record chat_response =
  cr_id :: uuid
  cr_type :: string
  cr_created_at :: stamp

definition pair_matches :: "uuid \<Rightarrow> uuid \<Rightarrow> private_chat \<Rightarrow> bool" where
  "pair_matches a b p \<longleftrightarrow> pc_user1_id p = Some a \<and> pc_user2_id p = Some b \<or> pc_user1_id p = Some b \<and> pc_user2_id p = Some a"

definition findExistingPrivateChat :: "bool \<Rightarrow> db \<Rightarrow> uuid \<Rightarrow> uuid \<Rightarrow> ent_error + (private_chat \<times> chat option)" where
  "findExistingPrivateChat broken d userID targetUserID =
     and_then (ent_only broken (filter (pair_matches userID targetUserID) (private_chats d))) (\<lambda>pc. Inr (pc, chat_of d (pc_chat_id pc)))"

definition chat_to_response :: "chat \<Rightarrow> chat_response" where
  "chat_to_response c = \<lparr>cr_id = c_id c, cr_type = chat_type_text (c_type c), cr_created_at = RFC3339 (c_created_at c)\<rparr>"

definition privateChatToResponse :: "private_chat \<times> chat option \<Rightarrow> chat_response option" where
  "privateChatToResponse pc = map_option chat_to_response (snd pc)"

section \<open>The insert\<close>

text \<open>The hook puts the smaller identifier first, so that the index on the ordered pair covers both orders.\<close>

definition private_hook :: "private_chat \<Rightarrow> private_chat" where
  "private_hook pc =
     (case (pc_user1_id pc, pc_user2_id pc) of
        (Some a, Some b) \<Rightarrow> if a > b then pc\<lparr>pc_user1_id := Some b, pc_user2_id := Some a\<rparr> else pc
      | _ \<Rightarrow> pc)"

definition pair_free :: "private_chat list \<Rightarrow> private_chat \<Rightarrow> bool" where
  "pair_free rows pc \<longleftrightarrow>
     \<not> (\<exists>p\<in>set rows. pc_user1_id p = pc_user1_id pc \<and> pc_user2_id p = pc_user2_id pc \<and> pc_user1_id pc \<noteq> None \<and> pc_user2_id pc \<noteq> None)"

definition insert_private :: "bool \<Rightarrow> db \<Rightarrow> private_chat \<Rightarrow> ent_error + db" where
  "insert_private broken d pc =
     (let pc = private_hook pc in
      if broken then Inl DriverError
      else if \<not> pair_free (private_chats d) pc then Inl ConstraintError
      else Inr (d\<lparr>private_chats := private_chats d @ [pc]\<rparr>))"

definition new_private :: "env \<Rightarrow> uuid \<Rightarrow> uuid \<Rightarrow> uuid \<Rightarrow> private_chat" where
  "new_private e chatID userID targetUserID = \<lparr>pc_id = newid e 1, pc_chat_id = chatID, pc_user1_id = Some userID, pc_user2_id = Some targetUserID,
     pc_user1_last_read_at = None, pc_user2_last_read_at = None, pc_user1_hidden_at = None, pc_user2_hidden_at = None,
     pc_user1_unread_count = 0, pc_user2_unread_count = 0\<rparr>"

section \<open>CreatePrivateChat\<close>

definition create_private_checks :: "env \<Rightarrow> db \<Rightarrow> uuid \<Rightarrow> uuid \<Rightarrow> app_error + (user \<times> user)" where
  "create_private_checks e d userID targetUserID =
     and_then (fail_if (userID = targetUserID) (NewBadRequestError ''Cannot chat with yourself'')) (\<lambda>_.
     and_then (on_err (ent_all (fault e ''query users'')
                 (filter (\<lambda>u. (u_id u = userID \<or> u_id u = targetUserID) \<and> u_deleted_at u = None) (users d))) (\<lambda>_. internal_error)) (\<lambda>us.
     and_then (fail_if (length us \<noteq> 2) (NewNotFoundError ''One or both users not found'')) (\<lambda>_.
     case (find (\<lambda>u. u_id u = userID) (rev us), find (\<lambda>u. u_id u = targetUserID) (rev us)) of
       (Some creator, Some targetUser) \<Rightarrow>
         and_then (fail_if (currently_banned (now e) targetUser) (NewForbiddenError ''User is currently suspended/banned'')) (\<lambda>_.
         and_then (on_err (ent_exist (fault e ''check block status'')
                      (filter (\<lambda>b. ub_blocker_id b = userID \<and> ub_blocked_id b = targetUserID \<or>
                                    ub_blocker_id b = targetUserID \<and> ub_blocked_id b = userID) (user_blocks d))) (\<lambda>_. internal_error)) (\<lambda>isBlocked.
         and_then (fail_if isBlocked (NewForbiddenError ''Cannot create chat with blocked user'')) (\<lambda>_.
           Inr (creator, targetUser))))
     | _ \<Rightarrow> Inl (NewNotFoundError ''User not found''))))"

text \<open>The entry of the chat list one side receives, showing the other side.\<close>

definition opened_entry :: "chat_service \<Rightarrow> db \<Rightarrow> chat \<Rightarrow> user \<Rightarrow> chat_list_response" where
  "opened_entry svc d c other = zero_chat_response\<lparr>cl_id := c_id c, cl_type := chat_type_text (c_type c),
     cl_name := (case u_full_name other of None \<Rightarrow> [] | Some n \<Rightarrow> n),
     cl_avatar := avatar_link (svc_urls (cs_base svc)) (Option.bind (u_avatar_id other) (media_of d)),
     cl_is_online := (cs_online svc (u_id other) = Some True), cl_other_user_id := Some (u_id other)\<rparr>"

text \<open>After a violated constraint the other request's chat is looked up, up to three times.\<close>

definition retry_find :: "env \<Rightarrow> db \<Rightarrow> uuid \<Rightarrow> uuid \<Rightarrow> (private_chat \<times> chat option) option" where
  "retry_find e d userID targetUserID =
     (case RetryWithBackoffContext
             (\<lambda>i. case findExistingPrivateChat (fault e (''retry find '' @ FormatInt (int i))) d userID targetUserID of
                    Inl er \<Rightarrow> (None, True, Some er)
                  | Inr x \<Rightarrow> (Some x, False, None))
             (\<lambda>_. None) (\<lambda>_. None) 2 (20 * 1000000) None of
        (found, None, _) \<Rightarrow> found
      | _ \<Rightarrow> None)"

definition create_private_rows :: "chat_service \<Rightarrow> env \<Rightarrow> db \<Rightarrow> db \<Rightarrow> user \<Rightarrow> user \<Rightarrow> uuid \<Rightarrow> uuid \<Rightarrow>
    app_error + (chat_response option \<times> chat_payload publication list \<times> db)" where
  "create_private_rows svc e d0 d creator targetUser userID targetUserID =
     (let newChat = \<lparr>c_id = newid e 0, c_type = TypePrivate, c_last_message_id = None, c_last_message_at = None,
           c_deleted_at = None, c_created_at = now e\<rparr> in
      and_then (begin_tx e) (\<lambda>_.
      and_then (fail_if (fault e ''create chat'') internal_error) (\<lambda>_.
      case insert_private (fault e ''create private chat'') (d\<lparr>chats := chats d @ [newChat]\<rparr>) (new_private e (c_id newChat) userID targetUserID) of
        Inl ConstraintError \<Rightarrow>
          (case retry_find e d userID targetUserID of
             Some existing \<Rightarrow> Inr (privateChatToResponse existing, [], d)
           | None \<Rightarrow> Inl (NewConflictError ''Private chat already exists''))
      | Inl _ \<Rightarrow> Inl internal_error
      | Inr d' \<Rightarrow>
          and_then (commit e) (\<lambda>_.
            Inr (Some (chat_to_response newChat),
                 when_hub svc
                   (BroadcastToUser (cs_publisher svc) (u_id targetUser) \<lparr>le_type = EventChatNew, le_payload = ChatPayload (opened_entry svc d0 newChat creator)\<rparr> @
                    BroadcastToUser (cs_publisher svc) (u_id creator) \<lparr>le_type = EventChatNew, le_payload = ChatPayload (opened_entry svc d0 newChat targetUser)\<rparr>),
                 d')))))"

definition CreatePrivateChat :: "chat_service \<Rightarrow> env \<Rightarrow> (uuid \<Rightarrow> bool) \<Rightarrow> db \<Rightarrow> db \<Rightarrow> uuid \<Rightarrow> uuid \<Rightarrow>
    app_error + (chat_response option \<times> chat_payload publication list \<times> db)" where
  "CreatePrivateChat svc e valid d0 d userID targetUserID =
     and_then (fail_if (\<not> valid targetUserID) (NewBadRequestError [])) (\<lambda>_.
     and_then (create_private_checks e d0 userID targetUserID) (\<lambda>(creator, targetUser).
     case findExistingPrivateChat (fault e ''check existing private chat'') d0 userID targetUserID of
       Inr existing \<Rightarrow> Inr (privateChatToResponse existing, [], d)
     | Inl NotFoundError \<Rightarrow> create_private_rows svc e d0 d creator targetUser userID targetUserID
     | Inl _ \<Rightarrow> Inl internal_error))"

end
