(* ===== verification/Chat_Laws.thy ===== *)
theory Chat_Laws
  imports Chat_Service Page_Laws Projection_Laws
begin

text \<open>
  Reading and hiding a chat, against the abstract unread state of \<open>Projection_Laws\<close>, and together with the
  projection of messages and with reading pages.
\<close>

section \<open>What the handlers did\<close>

lemma mark_private_read_Inr:
  assumes "mark_private_read e d u pc = Inr (b, d')"
  obtains other where "other_side pc u = Some other"
    and "d' = d\<lparr>private_chats := update_where (\<lambda>p. pc_id p = pc_id pc) (read_private (now e) u) (private_chats d)\<rparr>"
    and "b = blocked_between d u (case other of None \<Rightarrow> uuid_Nil | Some i \<Rightarrow> i)"
proof -
  obtain other where o: "other_side pc u = Some other" using assms by (auto simp: mark_private_read_def split: option.splits)
  then show thesis using assms that [OF o]
    by (auto simp: mark_private_read_def Let_def result_simps blocked_between_def filter_empty_conv)
qed

lemma mark_group_read_Inr:
  assumes "mark_group_read e d u gc = Inr (b, d')"
  obtains m where "m \<in> set (group_members d)" and "member_key m = (gc_id gc, u)" and "\<not> b"
    and "d' = d\<lparr>group_members := update_where (\<lambda>x. gm_id x = gm_id m) (\<lambda>x. x\<lparr>gm_unread_count := 0, gm_last_read_at := Some (now e)\<rparr>) (group_members d)\<rparr>"
proof -
  obtain m where m: "find_member e ''query group member'' d (gc_id gc) u = Inr m"
    and r: "\<not> b" "d' = d\<lparr>group_members := update_where (\<lambda>x. gm_id x = gm_id m) (\<lambda>x. x\<lparr>gm_unread_count := 0, gm_last_read_at := Some (now e)\<rparr>) (group_members d)\<rparr>"
    using assms by (auto simp: mark_group_read_def result_simps)
  from find_member_Inr [OF m] r show thesis by (intro that) (auto simp: member_key_def)
qed

definition live_chat :: "db \<Rightarrow> uuid \<Rightarrow> chat \<Rightarrow> bool" where
  "live_chat d i c \<longleftrightarrow> filter (\<lambda>c. c_id c = i \<and> c_deleted_at c = None) (chats d) = [c]"

lemma live_chatD: "live_chat d i c \<Longrightarrow> c \<in> set (chats d) \<and> c_id c = i \<and> c_deleted_at c = None"
proof -
  assume "live_chat d i c"
  then have "c \<in> set (filter (\<lambda>c. c_id c = i \<and> c_deleted_at c = None) (chats d))" by (simp add: live_chat_def)
  then show ?thesis by simp
qed

lemma live_chat_unique: "live_chat d i c' \<Longrightarrow> c \<in> set (chats d) \<Longrightarrow> c_id c = i \<Longrightarrow> c_deleted_at c = None \<Longrightarrow> c' = c"
proof -
  assume "live_chat d i c'" "c \<in> set (chats d)" "c_id c = i" "c_deleted_at c = None"
  then have "c \<in> set [c']" unfolding live_chat_def by (metis (mono_tags, lifting) filter_set mem_Collect_eq set_filter)
  then show ?thesis by simp
qed

definition read_event :: "uuid \<Rightarrow> uuid \<Rightarrow> chat_payload live_event" where
  "read_event chatID u = \<lparr>le_type = EventChatRead, le_payload = ReadPayload chatID u\<rparr>"

lemma MarkAsRead_Inr:
  assumes "MarkAsRead svc e d u i = Inr (ps, d')"
  obtains c b where "live_chat d i c"
    and "ps = when_hub svc (if b then [] else BroadcastToChat (cs_publisher svc) (fault e) d' i (read_event i u))"
    and "(case (c_type c, private_of d i, group_of d i) of
            (TypePrivate, Some pc, _) \<Rightarrow> mark_private_read e d u pc
          | (TypeGroup, _, Some gc) \<Rightarrow> mark_group_read e d u gc
          | _ \<Rightarrow> Inr (False, d)) = Inr (b, d')"
proof -
  have "\<exists>c b. live_chat d i c \<and> ps = when_hub svc (if b then [] else BroadcastToChat (cs_publisher svc) (fault e) d' i (read_event i u)) \<and>
      (case (c_type c, private_of d (c_id c), group_of d (c_id c)) of
            (TypePrivate, Some pc, _) \<Rightarrow> mark_private_read e d u pc
          | (TypeGroup, _, Some gc) \<Rightarrow> mark_group_read e d u gc
          | _ \<Rightarrow> Inr (False, d)) = Inr (b, d')"
    using assms unfolding MarkAsRead_def live_chat_def read_event_def by (simp only: handler_simps) blast
  then show thesis
  proof (elim exE conjE)
    fix c b
    assume c: "live_chat d i c"
    assume "ps = when_hub svc (if b then [] else BroadcastToChat (cs_publisher svc) (fault e) d' i (read_event i u))"
      and "(case (c_type c, private_of d (c_id c), group_of d (c_id c)) of
            (TypePrivate, Some pc, _) \<Rightarrow> mark_private_read e d u pc
          | (TypeGroup, _, Some gc) \<Rightarrow> mark_group_read e d u gc
          | _ \<Rightarrow> Inr (False, d)) = Inr (b, d')"
    then show thesis using that [OF c, of b] c [THEN live_chatD] by simp
  qed
qed

lemma HideChat_Inr:
  assumes "HideChat svc e d u i = Inr (ps, d')"
  obtains c pc other where "live_chat d i c" and "c_type c = TypePrivate" and "private_of d i = Some pc" and "other_side pc u = Some other"
    and "d' = d\<lparr>private_chats := update_where (\<lambda>p. pc_id p = pc_id pc) (hide_private (now e) u) (private_chats d)\<rparr>"
proof -
  obtain c where c: "live_chat d i c" "c_type c = TypePrivate"
    and rest: "(case private_of d (c_id c) of None \<Rightarrow> Inl internal_error | Some pc \<Rightarrow>
         and_then (fail_if (other_side pc u = None) (NewForbiddenError [])) (\<lambda>_.
         and_then (fail_if (fault e ''hide chat'') internal_error) (\<lambda>_.
           Inr (when_hub svc (BroadcastToUser (cs_publisher svc) u \<lparr>le_type = EventChatHide, le_payload = HidePayload i\<rparr>),
                d\<lparr>private_chats := update_where (\<lambda>p. pc_id p = pc_id pc) (hide_private (now e) u) (private_chats d)\<rparr>)))) = Inr (ps, d')"
    using assms unfolding HideChat_def live_chat_def by (simp only: handler_simps) blast
  from c(1) have "c_id c = i" by (simp add: live_chatD)
  with rest show thesis by (auto simp: result_simps split: option.splits intro: that [OF c])
qed

section \<open>Refinement of the unread state\<close>

text \<open>Reading a chat clears the counter and moves the mark; hiding it clears the counter and moves the horizon.\<close>

definition seen :: "time \<Rightarrow> unread_state \<Rightarrow> unread_state" where
  "seen t s = (case s of (n, r, h) \<Rightarrow> (0, Some t, h))"

definition horizon :: "time \<Rightarrow> unread_state \<Rightarrow> unread_state" where
  "horizon t s = (case s of (n, r, h) \<Rightarrow> (0, r, Some t))"

lemma read_private_view:
  "pc_user1_id p \<noteq> pc_user2_id p \<Longrightarrow> other_side p u = Some x \<Longrightarrow>
     private_view (read_private t u p) v = (if v = u then map_option (seen t) (private_view p v) else private_view p v)"
  by (auto simp: private_view_def read_private_def other_side_def seen_def split: if_splits)

lemma hide_private_view:
  "pc_user1_id p \<noteq> pc_user2_id p \<Longrightarrow> other_side p u = Some x \<Longrightarrow>
     private_view (hide_private t u p) v = (if v = u then map_option (horizon t) (private_view p v) else private_view p v)"
  by (auto simp: private_view_def hide_private_def other_side_def horizon_def split: if_splits)

lemma side_fields [simp]:
  "pc_id (read_private t u p) = pc_id p" "pc_chat_id (read_private t u p) = pc_chat_id p"
  "pc_user1_id (read_private t u p) = pc_user1_id p" "pc_user2_id (read_private t u p) = pc_user2_id p"
  "pc_id (hide_private t u p) = pc_id p" "pc_chat_id (hide_private t u p) = pc_chat_id p"
  "pc_user1_id (hide_private t u p) = pc_user1_id p" "pc_user2_id (hide_private t u p) = pc_user2_id p"
  by (simp_all add: read_private_def hide_private_def)

lemma private_of_update:
  assumes "private_of d i = Some pc" and "\<And>p. pc_chat_id (f p) = pc_chat_id p"
  shows "private_of (d\<lparr>private_chats := update_where (\<lambda>p. pc_id p = pc_id pc) f (private_chats d)\<rparr>) i = Some (f pc)"
  using assms by (simp add: private_of_def find_update_where)

lemma other_rows_kept:
  assumes "\<And>p. pc_id (f p) = pc_id p" and "pc_id q \<noteq> i"
  shows "q \<in> set (update_where (\<lambda>p. pc_id p = i) f rows) \<longleftrightarrow> q \<in> set rows"
  using update_where_miss [of pc_id f "\<lambda>p. pc_id p = i" "{i}" q rows] assms by simp

lemma other_side_view: "other_side pc u = Some x \<Longrightarrow> private_view pc u \<noteq> None"
  by (auto simp: other_side_def private_view_def split: if_splits)

lemma mark_as_read_row:
  assumes "MarkAsRead svc e d u i = Inr (ps, d')" and "private_of d i = Some pc"
    and "c \<in> set (chats d)" and "c_id c = i" and "c_deleted_at c = None" and "c_type c = TypePrivate"
  shows "d' = d\<lparr>private_chats := update_where (\<lambda>p. pc_id p = pc_id pc) (read_private (now e) u) (private_chats d)\<rparr>"
    and "\<exists>other. other_side pc u = Some other \<and>
           (blocked_between d u (case other of None \<Rightarrow> uuid_Nil | Some v \<Rightarrow> v) \<longrightarrow> ps = [])"
proof -
  obtain c' b where c': "live_chat d i c'"
    and ps: "ps = when_hub svc (if b then [] else BroadcastToChat (cs_publisher svc) (fault e) d' i (read_event i u))"
    and run: "(case (c_type c', private_of d i, group_of d i) of
            (TypePrivate, Some pc, _) \<Rightarrow> mark_private_read e d u pc
          | (TypeGroup, _, Some gc) \<Rightarrow> mark_group_read e d u gc
          | _ \<Rightarrow> Inr (False, d)) = Inr (b, d')"
    by (rule MarkAsRead_Inr [OF assms(1)])
  have "c' = c" using live_chat_unique [OF c'] assms(3-5) by blast
  with run assms(2,6) have "mark_private_read e d u pc = Inr (b, d')" by simp
  then obtain other where o: "other_side pc u = Some other"
    and d': "d' = d\<lparr>private_chats := update_where (\<lambda>p. pc_id p = pc_id pc) (read_private (now e) u) (private_chats d)\<rparr>"
    and b: "b = blocked_between d u (case other of None \<Rightarrow> uuid_Nil | Some i \<Rightarrow> i)"
    by (rule mark_private_read_Inr)
  from d' show "d' = d\<lparr>private_chats := update_where (\<lambda>p. pc_id p = pc_id pc) (read_private (now e) u) (private_chats d)\<rparr>" .
  show "\<exists>other. other_side pc u = Some other \<and> (blocked_between d u (case other of None \<Rightarrow> uuid_Nil | Some v \<Rightarrow> v) \<longrightarrow> ps = [])"
    using o b by (auto simp: ps when_hub_def)
qed

lemma mark_as_read_view:
  assumes "MarkAsRead svc e d u i = Inr (ps, d')" and "private_of d i = Some pc" and "pc_user1_id pc \<noteq> pc_user2_id pc"
    and "c \<in> set (chats d)" and "c_id c = i" and "c_deleted_at c = None" and "c_type c = TypePrivate"
  shows "private_of d' i = Some (read_private (now e) u pc)" and "private_view pc u \<noteq> None"
    and "private_view (read_private (now e) u pc) v = (if v = u then map_option (seen (now e)) (private_view pc v) else private_view pc v)"
proof -
  note row = mark_as_read_row [OF assms(1,2,4-7)]
  obtain other where o: "other_side pc u = Some other" using row(2) by blast
  show "private_of d' i = Some (read_private (now e) u pc)" unfolding row(1) using assms(2) by (rule private_of_update) simp
  show "private_view pc u \<noteq> None" using o by (rule other_side_view)
  show "private_view (read_private (now e) u pc) v = (if v = u then map_option (seen (now e)) (private_view pc v) else private_view pc v)"
    using read_private_view [OF assms(3) o] by simp
qed

text \<open>Marking a private chat as read acts on the unread state of the caller as the specification says: the
  counter is zero and the read mark is now. The other side's counter and marks and every other private chat
  are as before. The read event is not published when one side has blocked the other.
\<close>

theorem mark_as_read_refines:
  assumes "MarkAsRead svc e d u i = Inr (ps, d')" and "private_of d i = Some pc" and "pc_user1_id pc \<noteq> pc_user2_id pc"
    and "c \<in> set (chats d)" and "c_id c = i" and "c_deleted_at c = None" and "c_type c = TypePrivate"
  shows "\<exists>p'. private_of d' i = Some p' \<and> private_view pc u \<noteq> None \<and>
      (\<forall>v. private_view p' v = (if v = u then map_option (seen (now e)) (private_view pc v) else private_view pc v)) \<and>
      (\<forall>q. pc_id q \<noteq> pc_id pc \<longrightarrow> q \<in> set (private_chats d') = (q \<in> set (private_chats d))) \<and>
      (\<forall>v. other_side pc u = Some (Some v) \<and> blocked_between d u v \<longrightarrow> ps = [])"
proof (intro exI conjI allI impI)
  show "ps = []" if "other_side pc u = Some (Some v) \<and> blocked_between d u v" for v
    using mark_as_read_row(2) [OF assms(1,2,4-7)] that by auto
  show "(q \<in> set (private_chats d')) = (q \<in> set (private_chats d))" if "pc_id q \<noteq> pc_id pc" for q
    using that by (simp add: mark_as_read_row(1) [OF assms(1,2,4-7)] other_rows_kept)
  show "private_of d' i = Some (read_private (now e) u pc)" by (rule mark_as_read_view(1) [OF assms])
  show "private_view pc u \<noteq> None" by (rule mark_as_read_view(2) [OF assms])
  show "private_view (read_private (now e) u pc) v = (if v = u then map_option (seen (now e)) (private_view pc v) else private_view pc v)" for v
    by (rule mark_as_read_view(3) [OF assms])
qed

definition sample_chats :: chat_service where
  "sample_chats = \<lparr>cs_base = quiet_service, cs_publisher = \<lparr>pb_db = True, pb_redis = True\<rparr>, cs_codec = unary_codec, cs_online = (\<lambda>_. Some True)\<rparr>"

lemma sample_mark_read: "MarkAsRead sample_chats (sample_env 500 900) sample_db 2 10 =
  Inr ([], sample_db\<lparr>private_chats := [read_private 500 2 (sample_private 5 10 1 2)]\<rparr>)"
  by code_simp

lemma sample_private_row: "private_of sample_db 10 = Some (sample_private 5 10 1 2)" "sample_chat 10 TypePrivate \<in> set (chats sample_db)"
  "c_id (sample_chat 10 TypePrivate) = 10" "c_deleted_at (sample_chat 10 TypePrivate) = None" "c_type (sample_chat 10 TypePrivate) = TypePrivate"
  by (simp_all add: sample_db_def empty_db_def private_of_def sample_defs)

theorem mark_as_read_refines_witness:
  "\<exists>p'. private_of (sample_db\<lparr>private_chats := [read_private 500 2 (sample_private 5 10 1 2)]\<rparr>) 10 = Some p' \<and>
     private_view p' 2 = Some (0, Some 500, None) \<and> private_view p' 1 = Some (3, None, None)"
proof -
  have "pc_user1_id (sample_private 5 10 1 2) \<noteq> pc_user2_id (sample_private 5 10 1 2)" by (simp add: sample_private_def)
  from mark_as_read_refines [OF sample_mark_read sample_private_row(1) this sample_private_row(2-5)]
  obtain p' where p': "private_of (sample_db\<lparr>private_chats := [read_private 500 2 (sample_private 5 10 1 2)]\<rparr>) 10 = Some p'"
    and view: "private_view p' v = (if v = 2 then map_option (seen 500) (private_view (sample_private 5 10 1 2) v) else private_view (sample_private 5 10 1 2) v)" for v
    by auto
  have "private_view p' 2 = Some (0, Some 500, None)" "private_view p' 1 = Some (3, None, None)"
    unfolding view by (simp_all add: private_view_def seen_def sample_private_def)
  with p' show ?thesis by blast
qed

section \<open>Late projections\<close>

text \<open>The unread state of a user in a chat of either type, and what the rows of a chat are like.\<close>

definition read_state :: "db \<Rightarrow> uuid \<Rightarrow> uuid \<Rightarrow> unread_state option" where
  "read_state d i u = (case private_of d i of
       Some p \<Rightarrow> private_view p u
     | None \<Rightarrow> (case group_of d i of None \<Rightarrow> None
         | Some g \<Rightarrow> map_option member_view (find (\<lambda>m. member_key m = (gc_id g, u)) (group_members d))))"

definition chat_rows :: "uuid \<Rightarrow> db \<Rightarrow> bool" where
  "chat_rows i d \<longleftrightarrow> distinct (map pc_id (private_chats d)) \<and> distinct (map gc_id (group_chats d)) \<and>
     (\<forall>p. private_of d i = Some p \<longrightarrow> pc_user1_id p \<noteq> pc_user2_id p)"

lemma read_state_tables:
  assumes "private_chats x = private_chats y" and "group_chats x = group_chats y" and "group_members x = group_members y"
  shows "read_state x i u = read_state y i u"
  unfolding read_state_def private_of_def group_of_def assms by (rule refl)

lemma find_single: "filter P xs = [x] \<Longrightarrow> find P xs = Some x"
  by (induction xs) (auto split: if_splits)

lemma filter_singleD: "filter P xs = [x] \<Longrightarrow> x \<in> set xs" "filter P xs = [x] \<Longrightarrow> P x"
  using set_filter [of P xs] by (auto simp: set_eq_iff)

lemma project_user_chat [simp]:
  "pc_chat_id (project_user1 t p) = pc_chat_id p" "pc_chat_id (project_user2 t p) = pc_chat_id p"
  "pc_user1_id (project_user1 t p) = pc_user1_id p" "pc_user1_id (project_user2 t p) = pc_user1_id p"
  "pc_user2_id (project_user1 t p) = pc_user2_id p" "pc_user2_id (project_user2 t p) = pc_user2_id p"
  "member_key (project_member s t m) = member_key m"
  by (simp_all add: project_user1_def project_user2_def project_member_def member_key_def)

text \<open>A projection delivers its message to the state of each user in its chat, or leaves it alone.\<close>

definition delivered_to :: "uuid \<Rightarrow> uuid \<Rightarrow> outbox_record \<Rightarrow> time \<Rightarrow> db \<Rightarrow> db \<Rightarrow> bool" where
  "delivered_to i u rec t d d' \<longleftrightarrow> read_state d' i u = read_state d i u \<or>
     r_chat_id rec = i \<and> read_state d' i u = map_option (deliver (u = r_sender_id rec) t) (read_state d i u)"

lemma project_private_state:
  assumes "projectUnread flt d rec t = Inr d'" and "chat_rows i d" and row: "filter (\<lambda>p. pc_chat_id p = r_chat_id rec) (private_chats d) = [p]"
  shows "delivered_to i u rec t d d' \<and> chat_rows i d'"
proof -
  obtain f where d': "d' = d\<lparr>private_chats := update_where (\<lambda>q. pc_id q = pc_id p) f (private_chats d)\<rparr>"
    and f: "pc_user1_id p = Some (r_sender_id rec) \<and> f = project_user1 t \<or>
      pc_user1_id p \<noteq> Some (r_sender_id rec) \<and> pc_user2_id p = Some (r_sender_id rec) \<and> f = project_user2 t"
    using projectUnread_private [OF row assms(1)] by blast
  have keys: "pc_id (f q) = pc_id q" "pc_chat_id (f q) = pc_chat_id q" "pc_user1_id (f q) = pc_user1_id q" "pc_user2_id (f q) = pc_user2_id q" for q
    using f by auto
  have tables: "map pc_id (private_chats d') = map pc_id (private_chats d)" "group_chats d' = group_chats d" "group_members d' = group_members d"
    by (simp_all add: d' update_where_key keys)
  have p: "p \<in> set (private_chats d)" "pc_chat_id p = r_chat_id rec" by (rule filter_singleD [OF row])+
  have of: "private_of d' i = map_option (\<lambda>q. if pc_id q = pc_id p then f q else q) (private_of d i)"
    by (simp add: d' private_of_def find_update_where keys)
  have same: "q = p \<and> r_chat_id rec = i" if "private_of d i = Some q" "pc_id q = pc_id p" for q
  proof -
    have q: "q \<in> set (private_chats d)" "pc_chat_id q = i" using find_SomeD [OF that(1) [unfolded private_of_def]] by blast+
    then have "q = p" using distinct_key_eq [of pc_id "private_chats d" q p] that(2) assms(2) p(1) by (simp add: chat_rows_def)
    with q p(2) show ?thesis by simp
  qed
  have view: "private_view (f p) u = map_option (deliver (u = r_sender_id rec) t) (private_view p u)" if "private_of d i = Some p"
    using f that assms(2) by (auto simp: chat_rows_def project_user1_view project_user2_view)
  have "chat_rows i d'" using assms(2) keys by (auto simp: chat_rows_def of tables split: if_splits)
  moreover have "delivered_to i u rec t d d'"
  proof (cases "private_of d i")
    case None
    have "group_of d' i = group_of d i" using tables(2) by (simp add: group_of_def)
    then show ?thesis unfolding delivered_to_def read_state_def of None tables(3) by simp
  next
    case (Some q)
    then show ?thesis using same [OF Some] view by (auto simp: delivered_to_def read_state_def of)
  qed
  ultimately show ?thesis by blast
qed

lemma project_group_state:
  assumes "projectUnread flt d rec t = Inr d'" and "chat_rows i d" and none: "filter (\<lambda>p. pc_chat_id p = r_chat_id rec) (private_chats d) = []"
  shows "delivered_to i u rec t d d' \<and> chat_rows i d'"
proof -
  obtain g where g: "filter (\<lambda>g. gc_chat_id g = r_chat_id rec) (group_chats d) = [g]"
    and d': "d' = d\<lparr>group_members := update_where (\<lambda>m. gm_group_chat_id m = gc_id g \<and> gm_joined_at m \<le> t) (project_member (r_sender_id rec) t) (group_members d)\<rparr>"
    using projectUnread_group [OF none assms(1)] by blast
  have gs: "g \<in> set (group_chats d)" "gc_chat_id g = r_chat_id rec" by (rule filter_singleD [OF g])+
  have of: "private_of d' i = private_of d i" "group_of d' i = group_of d i" by (simp_all add: d' private_of_def group_of_def)
  have tables: "private_chats d' = private_chats d" "group_chats d' = group_chats d" by (simp_all add: d')
  have member: "find (\<lambda>m. member_key m = k) (group_members d') = map_option (\<lambda>m. if gm_group_chat_id m = gc_id g \<and> gm_joined_at m \<le> t
      then project_member (r_sender_id rec) t m else m) (find (\<lambda>m. member_key m = k) (group_members d))" for k
    by (simp add: d' find_update_where)
  have same: "r_chat_id rec = i" if "group_of d i = Some h" "gc_id h = gc_id g" for h
  proof -
    have h: "h \<in> set (group_chats d)" "gc_chat_id h = i" using find_SomeD [OF that(1) [unfolded group_of_def]] by blast+
    then have "h = g" using distinct_key_eq [of gc_id "group_chats d" h g] that(2) assms(2) gs(1) by (simp add: chat_rows_def)
    with h gs(2) show ?thesis by simp
  qed
  have key: "gm_group_chat_id m = gc_id h \<and> gm_user_id m = u" if "find (\<lambda>m. member_key m = (gc_id h, u)) (group_members d) = Some m" for h m
    using find_SomeD [OF that] by (simp add: member_key_def)
  have "chat_rows i d'" using assms(2) by (simp add: chat_rows_def of tables)
  moreover have "delivered_to i u rec t d d'"
  proof (cases "private_of d i")
    case None
    show ?thesis
    proof (cases "group_of d i")
      case (Some h)
      then show ?thesis using None same [OF Some] key [of h]
        by (cases "find (\<lambda>m. member_key m = (gc_id h, u)) (group_members d)") (auto simp: delivered_to_def read_state_def of member project_member_view)
    qed (simp add: delivered_to_def read_state_def of None)
  qed (simp add: delivered_to_def read_state_def of)
  ultimately show ?thesis by blast
qed

lemma projectUnread_state:
  assumes "projectUnread flt d rec t = Inr d'" and "chat_rows i d"
  shows "delivered_to i u rec t d d' \<and> chat_rows i d'"
proof -
  consider p where "filter (\<lambda>p. pc_chat_id p = r_chat_id rec) (private_chats d) = [p]" | "filter (\<lambda>p. pc_chat_id p = r_chat_id rec) (private_chats d) = []"
    using assms(1) by (auto simp: projectUnread_def ent_only_def split: list.splits if_splits)
  then show ?thesis using project_private_state [OF assms] project_group_state [OF assms] by cases blast+
qed

lemma ProjectFrom_state:
  assumes "ProjectFrom push e cf d0 d rec = Inr d'" and "chat_rows i d"
  shows "chat_rows i d' \<and> (read_state d' i u = read_state d i u \<or>
    (\<exists>msg\<in>set (messages d). m_id msg = r_message_id rec \<and> delivered_to i u rec (m_created_at msg) d d'))"
  using assms(1)
proof (cases rule: ProjectFrom_InrE)
  case (projected row)
  then show ?thesis using assms(2) by simp
next
  case (effect row d1)
  have frame: "read_state (x\<lparr>outbox := a\<rparr>) i u = read_state x i u" "chat_rows i (x\<lparr>outbox := a\<rparr>) = chat_rows i x"
    "read_state (x\<lparr>chats := b\<rparr>) i u = read_state x i u" "chat_rows i (x\<lparr>chats := b\<rparr>) = chat_rows i x"
    "read_state (x\<lparr>push_deliveries := c\<rparr>) i u = read_state x i u" "chat_rows i (x\<lparr>push_deliveries := c\<rparr>) = chat_rows i x" for x a b c
    by (rule read_state_tables; simp | simp add: chat_rows_def private_of_def)+
  show ?thesis
  proof (cases "r_event_type rec = EventMessageNew")
    case False
    with effect(3) have "d1 = d" by simp
    then show ?thesis using assms(2) unfolding effect(5) frame by simp
  next
    case True
    with effect(3) have "project_new push e cf d rec = Inr d1" by simp
    then obtain msg d2 tab where msg: "filter (\<lambda>m. m_id m = r_message_id rec) (messages d) = [msg]"
      and un: "projectUnread (fault e) (d\<lparr>chats := project_chat (r_chat_id rec) msg (chats d)\<rparr>) rec (m_created_at msg) = Inr d2"
      and d1: "d1 = d2\<lparr>push_deliveries := tab\<rparr>"
      by (elim project_new_InrE exE) blast
    have after: "read_state d' i u = read_state d2 i u" "chat_rows i d' = chat_rows i d2" unfolding effect(5) d1 by (simp_all add: frame)
    have "delivered_to i u rec (m_created_at msg) (d\<lparr>chats := project_chat (r_chat_id rec) msg (chats d)\<rparr>) d2 \<and> chat_rows i d2"
      using projectUnread_state [OF un] assms(2) by (simp add: frame)
    then have "chat_rows i d'" "delivered_to i u rec (m_created_at msg) d d'" unfolding delivered_to_def after frame by blast+
    then show ?thesis using filter_singleD [OF msg] by blast
  qed
qed

text \<open>What may happen after the user \<open>u\<close> has read the chat \<open>i\<close> at \<open>T\<close>: projections of records, by any number of
  workers, that in this chat belong to the messages the user wrote or to messages of others written until \<open>T\<close>;
  and any step of the program that keeps the user's unread state.\<close>

inductive late_step :: "uuid \<Rightarrow> uuid \<Rightarrow> time \<Rightarrow> db \<Rightarrow> db \<Rightarrow> bool" for i u T where
  late_project: "ProjectFrom push e cf d0 d rec = Inr d' \<Longrightarrow>
    (\<And>m. m \<in> set (messages d) \<Longrightarrow> m_id m = r_message_id rec \<Longrightarrow> r_chat_id rec = i \<Longrightarrow> r_sender_id rec \<noteq> u \<Longrightarrow> m_created_at m \<le> T) \<Longrightarrow>
    late_step i u T d d'"
| late_other: "read_state d' i u = read_state d i u \<Longrightarrow> chat_rows i d' \<Longrightarrow> late_step i u T d d'"

lemma deliver_read: "T \<le> r \<Longrightarrow> (\<not> is_sender \<longrightarrow> t \<le> T) \<Longrightarrow> \<exists>r'. deliver is_sender t (0, Some r, h) = (0, Some r', h) \<and> T \<le> r'"
  by (auto simp: deliver_def sql_ge_def)

lemma late_step_read:
  assumes "late_step i u T d d'" and "chat_rows i d" and "read_state d i u = Some (0, Some r, h)" and "T \<le> r"
  shows "chat_rows i d' \<and> (\<exists>r'. read_state d' i u = Some (0, Some r', h) \<and> T \<le> r')"
  using assms(1)
proof cases
  case (late_project push e cf d0 rec)
  show ?thesis
  proof (cases "read_state d' i u = read_state d i u")
    case False
    then obtain msg where msg: "msg \<in> set (messages d)" "m_id msg = r_message_id rec" "delivered_to i u rec (m_created_at msg) d d'"
      using ProjectFrom_state [OF late_project(1) assms(2), of u] by blast
    with False have to: "r_chat_id rec = i" "read_state d' i u = Some (deliver (u = r_sender_id rec) (m_created_at msg) (0, Some r, h))"
      by (auto simp: delivered_to_def assms(3))
    have "\<not> u = r_sender_id rec \<longrightarrow> m_created_at msg \<le> T" using late_project(2) [OF msg(1,2) to(1)] by blast
    from deliver_read [OF assms(4) this] to(2) ProjectFrom_state [OF late_project(1) assms(2)] show ?thesis by force
  qed (use ProjectFrom_state [OF late_project(1) assms(2)] assms(3,4) in force)
next
  case late_other
  then show ?thesis using assms(3,4) by simp
qed

text \<open>The rows of a live chat match its type: a private chat has its row, with two different sides, a group chat
  its row and no private one, and nobody is a member twice.\<close>

definition chat_typed :: "db \<Rightarrow> uuid \<Rightarrow> bool" where
  "chat_typed d i \<longleftrightarrow> (\<forall>c\<in>set (chats d). c_id c = i \<longrightarrow>
     (case c_type c of TypePrivate \<Rightarrow> private_of d i \<noteq> None | TypeGroup \<Rightarrow> private_of d i = None \<and> group_of d i \<noteq> None)) \<and>
   distinct (map member_key (group_members d))"

lemma MarkAsRead_state:
  assumes "MarkAsRead svc e d u i = Inr (ps, d')" and rows: "chat_rows i d" and typed: "chat_typed d i"
  shows "chat_rows i d' \<and> (\<exists>h. read_state d' i u = Some (0, Some (now e), h))"
proof -
  obtain c b where c: "live_chat d i c"
    and run: "(case (c_type c, private_of d i, group_of d i) of
            (TypePrivate, Some pc, _) \<Rightarrow> mark_private_read e d u pc
          | (TypeGroup, _, Some gc) \<Rightarrow> mark_group_read e d u gc
          | _ \<Rightarrow> Inr (False, d)) = Inr (b, d')"
    by (rule MarkAsRead_Inr [OF assms(1)])
  have type: "case c_type c of TypePrivate \<Rightarrow> private_of d i \<noteq> None | TypeGroup \<Rightarrow> private_of d i = None \<and> group_of d i \<noteq> None"
    and keys: "distinct (map member_key (group_members d))" using typed live_chatD [OF c] by (auto simp: chat_typed_def)
  show ?thesis
  proof (cases "private_of d i")
    case (Some pc)
    with type run have "mark_private_read e d u pc = Inr (b, d')" by (simp split: chat_type.splits)
    then obtain other where o: "other_side pc u = Some other"
      and d': "d' = d\<lparr>private_chats := update_where (\<lambda>p. pc_id p = pc_id pc) (read_private (now e) u) (private_chats d)\<rparr>"
      by (rule mark_private_read_Inr)
    have row: "private_of d' i = Some (read_private (now e) u pc)" unfolding d' using Some by (rule private_of_update) simp
    have sides: "pc_user1_id pc \<noteq> pc_user2_id pc" using rows Some by (simp add: chat_rows_def)
    obtain n r h where "private_view pc u = Some (n, r, h)" using other_side_view [OF o] by auto
    then have "read_state d' i u = Some (0, Some (now e), h)"
      using read_private_view [OF sides o, of "now e" u] by (simp add: read_state_def row seen_def)
    moreover have "chat_rows i d'" using rows sides by (simp add: chat_rows_def row) (simp add: d' update_where_key)
    ultimately show ?thesis by blast
  next
    case None
    with type obtain gc where gc: "group_of d i = Some gc" "c_type c = TypeGroup" by (auto split: chat_type.splits)
    with run have "mark_group_read e d u gc = Inr (b, d')" by simp
    then obtain m where m: "m \<in> set (group_members d)" "member_key m = (gc_id gc, u)"
      and d': "d' = d\<lparr>group_members := update_where (\<lambda>x. gm_id x = gm_id m) (\<lambda>x. x\<lparr>gm_unread_count := 0, gm_last_read_at := Some (now e)\<rparr>) (group_members d)\<rparr>"
      by (rule mark_group_read_Inr)
    have find: "find (\<lambda>x. member_key x = (gc_id gc, u)) (group_members d) = Some m"
    proof (cases "find (\<lambda>x. member_key x = (gc_id gc, u)) (group_members d)")
      case (Some x)
      then show ?thesis using find_SomeD [OF Some] m distinct_key_eq [OF keys, of x m] by simp
    qed (use m in \<open>auto simp: find_None_iff\<close>)
    have "private_of d' i = None" "group_of d' i = Some gc" "chat_rows i d'"
      using None gc(1) rows by (simp_all add: d' private_of_def group_of_def chat_rows_def)
    moreover have "find (\<lambda>x. member_key x = (gc_id gc, u)) (group_members d') = Some (m\<lparr>gm_unread_count := 0, gm_last_read_at := Some (now e)\<rparr>)"
    proof -
      have "member_key (x\<lparr>gm_unread_count := 0, gm_last_read_at := Some (now e)\<rparr>) = member_key x" for x by (simp add: member_key_def)
      then show ?thesis using find by (simp add: d' find_update_where [where k = member_key])
    qed
    ultimately show ?thesis by (simp add: read_state_def member_view_def)
  qed
qed

text \<open>C11. Once a user has read a chat, private or group, the projection of older messages does not bring its
  counter back. Whatever is projected afterwards, by any number of workers and in any order, overtaken workers
  included: as long as the messages of others it projects in this chat were written at or before the time of the read
  (the user's own messages may be newer) and nothing else touches this user's unread state, the counter stays at zero
  and the read mark never moves back before the read.
\<close>

theorem read_survives_late_projection:
  assumes "MarkAsRead svc e d u i = Inr (ps, d1)" and "chat_rows i d" and "chat_typed d i"
    and "(late_step i u (now e))\<^sup>*\<^sup>* d1 d2"
  shows "\<exists>r h. read_state d2 i u = Some (0, Some r, h) \<and> now e \<le> r"
proof -
  have "chat_rows i d2 \<and> (\<exists>r h. read_state d2 i u = Some (0, Some r, h) \<and> now e \<le> r)"
    using assms(4)
  proof (induction rule: rtranclp_induct)
    case base
    then show ?case using MarkAsRead_state [OF assms(1-3)] by blast
  next
    case (step d2 d3)
    then show ?case using late_step_read [OF step(2)] by blast
  qed
  then show ?thesis by blast
qed

definition sample_read :: db where
  "sample_read = sample_leased\<lparr>group_members := [sample_member 7 6 1 RoleOwner,
     (sample_member 8 6 2 RoleMember)\<lparr>gm_unread_count := 0, gm_last_read_at := Some 500\<rparr>]\<rparr>"

lemma sample_read_group: "\<exists>ps. MarkAsRead sample_chats (sample_env 500 900) sample_leased 2 11 = Inr (ps, sample_read)"
proof -
  have "map_sum id snd (MarkAsRead sample_chats (sample_env 500 900) sample_leased 2 11) = Inr sample_read" by code_simp
  then show ?thesis by (cases "MarkAsRead sample_chats (sample_env 500 900) sample_leased 2 11") auto
qed

lemma sample_late: "\<exists>d2. Project False (sample_env 510 901) (\<lambda>_. False) sample_read (sample_records ! 1) = Inr d2"
proof -
  have "isl (Project False (sample_env 510 901) (\<lambda>_. False) sample_read (sample_records ! 1)) = False" by code_simp
  then show ?thesis by (cases "Project False (sample_env 510 901) (\<lambda>_. False) sample_read (sample_records ! 1)") simp_all
qed

lemma sample_rows: "chat_rows 11 sample_leased" "chat_typed sample_leased 11" "now (sample_env 500 900) = 500"
proof -
  have "private_of sample_leased 11 = None" by code_simp
  moreover have "distinct (map pc_id (private_chats sample_leased)) \<and> distinct (map gc_id (group_chats sample_leased))" by code_simp
  ultimately show "chat_rows 11 sample_leased" by (simp add: chat_rows_def)
  show "chat_typed sample_leased 11" by code_simp
  show "now (sample_env 500 900) = 500" by (simp add: sample_env_def)
qed

theorem read_survives_late_projection_witness:
  "\<exists>d2 r h. Project False (sample_env 510 901) (\<lambda>_. False) sample_read (sample_records ! 1) = Inr d2 \<and>
     read_state sample_leased 11 2 = Some (0, None, None) \<and> read_state d2 11 2 = Some (0, Some r, h) \<and> 500 \<le> r"
proof -
  obtain ps where ps: "MarkAsRead sample_chats (sample_env 500 900) sample_leased 2 11 = Inr (ps, sample_read)"
    using sample_read_group by blast
  obtain d2 where d2: "Project False (sample_env 510 901) (\<lambda>_. False) sample_read (sample_records ! 1) = Inr d2" using sample_late by blast
  have "\<forall>m\<in>set (messages sample_read). m_created_at m \<le> 500" by code_simp
  then have "late_step 11 2 500 sample_read d2" using late_project [OF d2 [unfolded Project_def]] by blast
  then have "(late_step 11 2 (now (sample_env 500 900)))\<^sup>*\<^sup>* sample_read d2" unfolding sample_rows(3) by (rule r_into_rtranclp)
  moreover have "read_state sample_leased 11 2 = Some (0, None, None)" by code_simp
  ultimately show ?thesis using read_survives_late_projection [OF ps sample_rows(1,2), of d2] d2 sample_rows(3) by auto
qed

end
