(* ===== verification/Private_Chat_Laws.thy ===== *)
theory Private_Chat_Laws
  imports Private_Chat Chat_Laws
begin

text \<open>
  Two users have at most one private chat, also when both open it at the same time, and then both are
  answered with the same chat.
\<close>

section \<open>One chat per pair\<close>

definition pairs :: "db \<Rightarrow> (uuid option \<times> uuid option) list" where
  "pairs d = map (\<lambda>p. (pc_user1_id p, pc_user2_id p)) (private_chats d)"

abbreviation both :: "uuid option \<times> uuid option \<Rightarrow> bool" where
  "both x \<equiv> fst x \<noteq> None \<and> snd x \<noteq> None"

definition private_inv :: "db \<Rightarrow> bool" where
  "private_inv d \<longleftrightarrow> (\<forall>x\<in>set (pairs d). both x \<longrightarrow> the (fst x) \<le> the (snd x)) \<and> distinct (filter both (pairs d))"

lemma pair_matches_key:
  assumes "private_inv d" and "p \<in> set (private_chats d)"
  shows "pair_matches a b p \<longleftrightarrow> (pc_user1_id p, pc_user2_id p) = (Some (min a b), Some (max a b))"
proof -
  have "x \<le> y" if "pc_user1_id p = Some x" "pc_user2_id p = Some y" for x y
    using assms that by (force simp: private_inv_def pairs_def)
  then show ?thesis unfolding pair_matches_def by (cases "a \<le> b") (auto simp: min_def max_def dest: antisym)
qed

lemma private_inv_single:
  assumes "private_inv d"
  shows "length (filter (pair_matches a b) (private_chats d)) \<le> 1"
proof -
  let ?key = "(Some (min a b), Some (max a b))" and ?pair = "\<lambda>p. (pc_user1_id p, pc_user2_id p)"
  have "filter (pair_matches a b) (private_chats d) = filter (\<lambda>p. ?pair p = ?key) (private_chats d)"
    by (intro filter_cong refl) (rule pair_matches_key [OF assms])
  also have "\<dots> = filter (\<lambda>p. ?pair p = ?key \<and> True) (filter (both \<circ> ?pair) (private_chats d))"
    by (auto simp: intro!: filter_cong)
  also have "length \<dots> \<le> 1"
  proof (rule filter_key_unique)
    show "distinct (map ?pair (filter (both \<circ> ?pair) (private_chats d)))"
      using assms by (simp add: private_inv_def pairs_def filter_map comp_def)
  qed
  finally show ?thesis .
qed

lemma private_hook_pair:
  "(pc_user1_id (private_hook pc), pc_user2_id (private_hook pc)) =
     (case (pc_user1_id pc, pc_user2_id pc) of (Some a, Some b) \<Rightarrow> (Some (min a b), Some (max a b)) | p \<Rightarrow> p)"
  by (auto simp: private_hook_def min_def max_def split: option.splits)

lemma private_inv_insert:
  assumes "private_inv d" and "insert_private broken d pc = Inr d'" 
  shows "private_inv d'"
proof -
  let ?h = "private_hook pc"
  have d': "pairs d' = pairs d @ [(pc_user1_id ?h, pc_user2_id ?h)]" and free: "pair_free (private_chats d) ?h"
    using assms(2) by (auto simp: insert_private_def Let_def pairs_def split: if_splits)
  have "both (pc_user1_id ?h, pc_user2_id ?h) \<longrightarrow> the (pc_user1_id ?h) \<le> the (pc_user2_id ?h)"
    using private_hook_pair [of pc] by (auto split: option.splits)
  moreover have "both (pc_user1_id ?h, pc_user2_id ?h) \<longrightarrow> (pc_user1_id ?h, pc_user2_id ?h) \<notin> set (pairs d)"
    using free by (auto simp: pair_free_def pairs_def)
  ultimately show ?thesis using assms(1) unfolding private_inv_def d' by auto
qed

text \<open>What a successful request did: it found a chat of the pair, or it inserted one.\<close>

lemma create_private_rows_Inr:
  assumes "create_private_rows svc e d0 d c t u v = Inr (r, ps, d')"
  shows "d' = d \<or> (\<exists>ch. insert_private False (d\<lparr>chats := chats d @ [ch]\<rparr>) (new_private e (c_id ch) u v) = Inr d' \<and>
           c_id ch = newid e 0 \<and> r = Some (chat_to_response ch))"
proof -
  let ?ch = "\<lparr>c_id = newid e 0, c_type = TypePrivate, c_last_message_id = None, c_last_message_at = None, c_deleted_at = None, c_created_at = now e\<rparr>"
  have "d' = d \<or> insert_private (fault e ''create private chat'') (d\<lparr>chats := chats d @ [?ch]\<rparr>) (new_private e (c_id ?ch) u v) = Inr d' \<and>
      r = Some (chat_to_response ?ch)"
    using assms
    by (auto simp: create_private_rows_def Let_def and_then_Inr split: sum.splits ent_error.splits option.splits)
  moreover have "insert_private b x y = Inr z \<Longrightarrow> insert_private False x y = Inr z" for b x y z
    by (auto simp: insert_private_def Let_def split: if_splits)
  ultimately show ?thesis by fastforce
qed

lemma CreatePrivateChat_cases:
  assumes "CreatePrivateChat svc e valid d0 d u v = Inr (r, ps, d')"
  shows "d' = d \<or> (\<exists>c t. create_private_rows svc e d0 d c t u v = Inr (r, ps, d'))"
proof -
  obtain c t where "(case findExistingPrivateChat (fault e ''check existing private chat'') d0 u v of
       Inr existing \<Rightarrow> Inr (privateChatToResponse existing, [], d)
     | Inl NotFoundError \<Rightarrow> create_private_rows svc e d0 d c t u v
     | Inl _ \<Rightarrow> Inl internal_error) = Inr (r, ps, d')"
    using assms by (auto simp: CreatePrivateChat_def and_then_Inr)
  then show ?thesis
    by (cases "findExistingPrivateChat (fault e ''check existing private chat'') d0 u v") (auto split: ent_error.splits)
qed

lemma pairs_update:
  "(\<And>p. pc_user1_id (f p) = pc_user1_id p \<and> pc_user2_id (f p) = pc_user2_id p) \<Longrightarrow>
     pairs (d\<lparr>private_chats := update_where P f (private_chats d)\<rparr>) = pairs d"
  by (simp add: pairs_def update_where_def)

inductive chat_step :: "db \<Rightarrow> db \<Rightarrow> bool" where
  opened: "CreatePrivateChat svc e valid d0 d u v = Inr (r, ps, d') \<Longrightarrow> chat_step d d'"
| was_read: "MarkAsRead svc e d u c = Inr (ps, d') \<Longrightarrow> chat_step d d'"
| hidden: "HideChat svc e d u c = Inr (ps, d') \<Longrightarrow> chat_step d d'"

lemma MarkAsRead_pairs:
  assumes "MarkAsRead svc e d u i = Inr (ps, d')"
  shows "pairs d' = pairs d"
proof -
  have "pairs x = pairs d" if "mark_private_read e d u pc = Inr (b, x)" for pc b x
    by (rule mark_private_read_Inr [OF that]) (simp add: pairs_update)
  moreover have "pairs x = pairs d" if "mark_group_read e d u gc = Inr (b, x)" for gc b x
    by (rule mark_group_read_Inr [OF that]) (simp add: pairs_def)
  ultimately show ?thesis
    by (rule_tac MarkAsRead_Inr [OF assms]) (auto split: chat_type.splits option.splits)
qed

lemma HideChat_pairs: "HideChat svc e d u i = Inr (ps, d') \<Longrightarrow> pairs d' = pairs d"
  by (erule HideChat_Inr) (simp add: pairs_update)

lemma chat_step_inv: "chat_step d d' \<Longrightarrow> private_inv d \<Longrightarrow> private_inv d'"
proof (induction rule: chat_step.induct)
  case (opened svc e valid d0 d u v r ps d')
  from CreatePrivateChat_cases [OF opened.hyps] show ?case
  proof
    assume "\<exists>c t. create_private_rows svc e d0 d c t u v = Inr (r, ps, d')"
    then obtain c t where rows: "create_private_rows svc e d0 d c t u v = Inr (r, ps, d')" by blast
    have same: "private_inv (d\<lparr>chats := x\<rparr>) = private_inv d" for x by (simp add: private_inv_def pairs_def)
    from create_private_rows_Inr [OF rows] opened.prems show ?thesis
      using private_inv_insert [OF same [THEN iffD2]] by blast
  qed (use opened.prems in simp)
qed (simp_all add: private_inv_def MarkAsRead_pairs HideChat_pairs)

text \<open>
  C10. However requests to open, read and hide private chats follow each other, and whatever older state of the
  database the checks of a request saw, two users never have more than one private chat.
\<close>

theorem one_private_chat_per_pair:
  assumes "chat_step\<^sup>*\<^sup>* d d'" and "private_inv d"
  shows "length (filter (pair_matches a b) (private_chats d')) \<le> 1"
proof -
  from assms have "private_inv d'" by (induction rule: rtranclp_induct) (auto intro: chat_step_inv)
  then show ?thesis by (rule private_inv_single)
qed

definition sample_users3 :: db where
  "sample_users3 = sample_db\<lparr>users := [sample_user 1 ''Ann'', sample_user 2 ''Bob'', sample_user 3 ''Cid'']\<rparr>"

definition sample_opened :: db where
  "sample_opened = sample_users3\<lparr>chats := chats sample_users3 @ [(sample_chat 900 TypePrivate)\<lparr>c_created_at := 500\<rparr>],
     private_chats := private_chats sample_users3 @ [new_private (sample_env 500 900) 900 2 3]\<rparr>"

lemma sample_create: "CreatePrivateChat sample_chats (sample_env 500 900) (\<lambda>_. True) sample_users3 sample_users3 3 2 =
  Inr (Some \<lparr>cr_id = 900, cr_type = ''private'', cr_created_at = RFC3339 500\<rparr>, [], sample_opened)"
  by code_simp

lemma sample_private_inv: "private_inv sample_users3"
  by code_simp

theorem one_private_chat_per_pair_witness: "length (filter (pair_matches 2 3) (private_chats sample_opened)) \<le> 1"
  using one_private_chat_per_pair [of sample_users3 sample_opened 2 3] r_into_rtranclp [of chat_step, OF opened [OF sample_create]] sample_private_inv
  by blast

section \<open>Two requests at the same time\<close>

lemma retry_find_first:
  assumes "\<forall>s. \<not> fault e s" and "findExistingPrivateChat False d u v = Inr x"
  shows "retry_find e d u v = Some x"
  using assms by (simp add: retry_find_def RetryWithBackoffContext_def retry_loop.simps)

lemma inserted_pair:
  assumes "insert_private False d (new_private e c a b) = Inr d1" and "private_inv d"
  shows "filter (pair_matches b a) (private_chats d1) = [private_hook (new_private e c a b)]"
    and "private_chats d1 = private_chats d @ [private_hook (new_private e c a b)]" and "chats d1 = chats d"
    and "insert_private False (d1\<lparr>chats := cs\<rparr>) (new_private e' c' b a) = Inl ConstraintError"
proof -
  let ?h = "private_hook (new_private e c a b)"
  show rows: "private_chats d1 = private_chats d @ [?h]" and "chats d1 = chats d"
    using assms(1) by (auto simp: insert_private_def Let_def split: if_splits)
  have pair: "(pc_user1_id (private_hook (new_private x y a b)), pc_user2_id (private_hook (new_private x y a b))) = (Some (min a b), Some (max a b))"
    for x y a b by (simp only: private_hook_pair) (simp add: new_private_def)
  have "pair_matches b a ?h" using pair [of e c a b] by (auto simp: pair_matches_def min_def max_def split: if_splits)
  then have "?h \<in> set (filter (pair_matches b a) (private_chats d1))" by (simp add: rows)
  moreover have "length (filter (pair_matches b a) (private_chats d1)) \<le> 1"
    using private_inv_single private_inv_insert [OF assms(2,1)] by blast
  ultimately show "filter (pair_matches b a) (private_chats d1) = [?h]"
    by (cases "filter (pair_matches b a) (private_chats d1)") auto
  have "\<not> pair_free (private_chats d1) (private_hook (new_private e' c' b a))"
    using pair [of e c a b] pair [of e' c' b a] by (auto simp: pair_free_def rows min.commute max.commute)
  then show "insert_private False (d1\<lparr>chats := cs\<rparr>) (new_private e' c' b a) = Inl ConstraintError"
    by (simp add: insert_private_def Let_def)
qed

lemma late_request:
  assumes "\<forall>s. \<not> fault e s" and "valid a" and "create_private_checks e d0 b a = Inr us" and "filter (pair_matches b a) (private_chats d0) = []"
    and "\<And>cs c. insert_private False (d\<lparr>chats := cs\<rparr>) (new_private e c b a) = Inl ConstraintError"
    and "findExistingPrivateChat False d b a = Inr (pc, Some ch)"
  shows "CreatePrivateChat svc e valid d0 d b a = Inr (Some (chat_to_response ch), [], d)"
proof -
  have "findExistingPrivateChat False d0 b a = Inl NotFoundError" using assms(4) by (simp add: findExistingPrivateChat_def ent_only_def)
  then show ?thesis using assms(1-3,5) retry_find_first [OF assms(1,6)]
    by (cases us) (simp add: CreatePrivateChat_def create_private_rows_def Let_def begin_tx_def privateChatToResponse_def)
qed

text \<open>Two users open a chat with each other at the same time, both having found none. The request that writes
  second meets the unique index, finds the chat of the first and answers with it: both receive the same chat,
  and the second changes nothing. The second request is assumed to meet no driver error.
\<close>

theorem private_chat_race_agrees:
  assumes "CreatePrivateChat svc e1 valid d0 d a b = Inr (r, ps, d1)" and "d1 \<noteq> d" and "private_inv d" and "newid e1 0 \<notin> set (map c_id (chats d))"
    and "\<forall>s. \<not> fault e2 s" and "valid a" and "create_private_checks e2 d0' b a = Inr us" and "filter (pair_matches b a) (private_chats d0') = []"
  shows "r \<noteq> None \<and> CreatePrivateChat svc e2 valid d0' d1 b a = Inr (r, [], d1)"
proof -
  obtain ch where ins: "insert_private False (d\<lparr>chats := chats d @ [ch]\<rparr>) (new_private e1 (c_id ch) a b) = Inr d1"
    and ch: "c_id ch = newid e1 0" and r: "r = Some (chat_to_response ch)"
    using CreatePrivateChat_cases [OF assms(1)] assms(2) create_private_rows_Inr by blast
  have inv: "private_inv (d\<lparr>chats := chats d @ [ch]\<rparr>)" using assms(3) by (simp add: private_inv_def pairs_def)
  note row = inserted_pair [OF ins inv]
  let ?pc = "private_hook (new_private e1 (c_id ch) a b)"
  have "pc_chat_id ?pc = c_id ch" by (simp add: private_hook_def new_private_def split: option.splits)
  moreover have "find (\<lambda>c. c_id c = c_id ch) (chats d) = None" using assms(4) ch by (force simp: find_None_iff)
  then have "chat_of d1 (c_id ch) = Some ch" by (simp add: chat_of_def row(3) find_append_None)
  ultimately have "findExistingPrivateChat False d1 b a = Inr (?pc, Some ch)"
    using row(1) by (simp add: findExistingPrivateChat_def ent_only_def)
  from late_request [of e2 valid a d0' b us d1, OF assms(5-8) row(4) this] show ?thesis by (simp add: r)
qed

lemma sample_other_check: "create_private_checks (sample_env 600 950) sample_users3 2 3 = Inr (sample_user 2 ''Bob'', sample_user 3 ''Cid'')"
  by code_simp

theorem private_chat_race_agrees_witness:
  "CreatePrivateChat sample_chats (sample_env 600 950) (\<lambda>_. True) sample_users3 sample_opened 2 3 =
     Inr (Some \<lparr>cr_id = 900, cr_type = ''private'', cr_created_at = RFC3339 500\<rparr>, [], sample_opened)"
proof -
  have "sample_opened \<noteq> sample_users3" "newid (sample_env 500 900) 0 \<notin> set (map c_id (chats sample_users3))"
    "filter (pair_matches 2 3) (private_chats sample_users3) = []"
    by (code_simp+)
  then show ?thesis
    using private_chat_race_agrees [OF sample_create, of "sample_env 600 950" sample_users3] sample_private_inv sample_other_check by auto
qed

end
