(* ===== verification/Chat_Views.thy ===== *)
theory Chat_Views
  imports Chat_Laws Message_Laws
begin

text \<open>
  What a user sees of chats: hidden history stays hidden in the pages of messages, what the view of a single
  chat discloses and to whom, and that the pages of the chat list visit every listed chat.
\<close>

section \<open>Pages show visible messages only\<close>

lemma around_visible:
  assumes "GetMessagesAroundPage e d chatID h aroundID limit = Inr p"
  shows "set (ap_messages p) \<subseteq> set (visible_messages d chatID h)"
proof -
  let ?rows = "visible_messages d chatID h"
  let ?prev = "take (limit div 2 + 2) (rev (sort_key m_id (filter (\<lambda>m. m_id m \<le> aroundID) ?rows)))"
  let ?next = "take (limit div 2 + 1) (sort_key m_id (filter (\<lambda>m. aroundID < m_id m) ?rows))"
  have sub: "set ?prev \<subseteq> set ?rows" "set ?next \<subseteq> set ?rows" by (auto dest: in_set_takeD)
  obtain t ps where w: "?prev = t # ps"
    and p: "ap_messages p = sort_key m_id (rev (take (limit div 2) ps) @ [t] @ take (limit div 2) ?next)"
    using assms by (auto simp: GetMessagesAroundPage_def Let_def result_simps split: list.splits if_splits)
  have "set (take (limit div 2) ps) \<subseteq> set (t # ps)" using set_take_subset [of "limit div 2" ps] by auto
  moreover have "set (take (limit div 2) ?next) \<subseteq> set ?next" by (rule set_take_subset)
  moreover have "set (ap_messages p) = set (take (limit div 2) ps) \<union> {t} \<union> set (take (limit div 2) ?next)"
    by (simp only: p set_sort set_append set_rev Un_assoc) simp
  ultimately have "set (ap_messages p) \<subseteq> set (t # ps) \<union> set ?next" by (simp only:) auto
  moreover have "set (t # ps) \<subseteq> set (visible_messages d chatID h)" using sub(1) w by simp
  ultimately show ?thesis using sub(2) by blast
qed

lemma fetch_visible:
  assumes "fetch_messages e codec d h req = Inr (msgs, around)"
  shows "set msgs \<subseteq> set (visible_messages d (gr_chat_id req) h)"
proof (cases "gr_around req")
  case None
  then show ?thesis using assms
    by (auto simp: fetch_messages_def result_simps RepoGetMessages_def dest!: in_set_takeD split: if_splits)
next
  case (Some i)
  then obtain p where "GetMessagesAroundPage e d (gr_chat_id req) h i (gr_limit req) = Inr p" "msgs = ap_messages p"
    using assms by (auto simp: fetch_messages_def result_simps)
  then show ?thesis using around_visible by blast
qed

lemma paginate_subset:
  assumes "paginate e codec d h req msgs around = Inr (page, r)"
  shows "set page \<subseteq> set msgs"
  using assms by (auto simp: paginate_def Let_def result_simps case_prod_Inr split: if_splits dest: in_set_takeD)

lemma GetMessages_visible:
  assumes "GetMessages svc e codec valid d u req = Inr (rows, r)"
  obtains c h g where "find_live_chat e ''query chat details'' d (gr_chat_id req) = Inr c" and "read_access e d u c = Inr (h, g)"
    and "\<And>x. x \<in> set rows \<Longrightarrow> \<exists>m\<in>set (visible_messages d (gr_chat_id req) h). mr_id x = m_id m \<and> mr_created_at x = RFC3339 (m_created_at m)"
proof -
  define req' where "req' = (if gr_limit req = 0 then req\<lparr>gr_limit := 20\<rparr> else req)"
  have same: "gr_chat_id req' = gr_chat_id req" by (simp add: req'_def)
  have "\<exists>c h g msgs around page nc hn pc hp. find_live_chat e ''query chat details'' d (gr_chat_id req) = Inr c \<and> read_access e d u c = Inr (h, g) \<and>
     fetch_messages e codec d h req' = Inr (msgs, around) \<and> paginate e codec d h req' msgs around = Inr (page, nc, hn, pc, hp) \<and>
     rows = map (message_row svc codec d (resolve_users e codec d msgs) (sender_roles e d g msgs)) page"
    using assms unfolding GetMessages_def Let_def req'_def [symmetric] same by (simp only: handler_simps) blast
  then obtain c h g msgs around page us roles where acc: "find_live_chat e ''query chat details'' d (gr_chat_id req) = Inr c" "read_access e d u c = Inr (h, g)"
    and f: "fetch_messages e codec d h req' = Inr (msgs, around)"
    and p: "\<exists>r'. paginate e codec d h req' msgs around = Inr (page, r')" and rows: "rows = map (message_row svc codec d us roles) page"
    by blast
  from p fetch_visible [OF f] paginate_subset have sub: "set page \<subseteq> set (visible_messages d (gr_chat_id req) h)" unfolding same by blast
  have "mr_created_at (message_row svc codec d us roles m) = RFC3339 (m_created_at m)" for m
    by (simp add: message_row_def put_action_names_def ToMessageResponse_def load_full_def Let_def)
  with sub that [OF acc] show thesis unfolding rows by fastforce
qed

section \<open>Hiding a chat\<close>

lemma hidden_access:
  assumes "HideChat svc e d u i = Inr (ps, d')" and "find_live_chat e' site d' i = Inr c" and "read_access e' d' u c = Inr (h, g)"
  shows "h = Some (now e)"
proof -
  obtain c0 pc other where c0: "live_chat d i c0" "c_type c0 = TypePrivate" and pc: "private_of d i = Some pc" and o: "other_side pc u = Some other"
    and d': "d' = d\<lparr>private_chats := update_where (\<lambda>p. pc_id p = pc_id pc) (hide_private (now e) u) (private_chats d)\<rparr>"
    by (rule HideChat_Inr [OF assms(1)])
  have row: "private_of d' i = Some (hide_private (now e) u pc)" unfolding d' using pc by (rule private_of_update) simp
  have "c = c0" using find_live_chat_Inr [OF assms(2)] live_chat_unique [OF c0(1), of c] by (simp add: d')
  with assms(3) c0(2) row live_chatD [OF c0(1)] o show ?thesis
    by (auto simp: read_access_def hide_private_def other_side_def split: if_splits)
qed

text \<open>After a user hid a private chat, no page of messages that the user reads, in either direction or around a
  message, contains a message created up to the instant of hiding.
\<close>

theorem hidden_history_unreadable:
  assumes "HideChat svc e d u i = Inr (ps, d')" and "GetMessages msvc e' codec valid d' u req = Inr (rows, r)" and "gr_chat_id req = i"
    and "x \<in> set rows"
  shows "\<exists>m\<in>set (messages d'). mr_id x = m_id m \<and> mr_created_at x = RFC3339 (m_created_at m) \<and> now e < m_created_at m"
proof -
  obtain c h g where "find_live_chat e' ''query chat details'' d' (gr_chat_id req) = Inr c" "read_access e' d' u c = Inr (h, g)"
    and vis: "\<exists>m\<in>set (visible_messages d' (gr_chat_id req) h). mr_id x = m_id m \<and> mr_created_at x = RFC3339 (m_created_at m)"
    using GetMessages_visible [OF assms(2)] assms(4) by metis
  then have "h = Some (now e)" using hidden_access [OF assms(1)] assms(3) by blast
  with vis show ?thesis by (auto simp: visible_messages_def)
qed

definition sample_hide_db :: db where
  "sample_hide_db = sample_db\<lparr>messages := [sample_message 20 10 1 100, sample_message 22 10 2 600],
     chats := [(sample_chat 10 TypePrivate)\<lparr>c_last_message_id := Some 20, c_last_message_at := Some 100\<rparr>]\<rparr>"

definition sample_hidden_db :: db where
  "sample_hidden_db = sample_hide_db\<lparr>private_chats := [hide_private 500 1 (sample_private 5 10 1 2)]\<rparr>"

lemma sample_hide: "HideChat sample_chats (sample_env 500 900) sample_hide_db 1 10 = Inr ([], sample_hidden_db)"
  by code_simp

lemma sample_hidden_page:
  "case GetMessages quiet_service (sample_env 700 900) unary_codec (\<lambda>_. True) sample_hidden_db 1 sample_get of
     Inl _ \<Rightarrow> False | Inr (rows, _) \<Rightarrow> map mr_id rows = [22]"
  by code_simp

theorem hidden_history_unreadable_witness:
  "\<exists>x r. GetMessages quiet_service (sample_env 700 900) unary_codec (\<lambda>_. True) sample_hidden_db 1 sample_get = Inr ([x], r) \<and>
     (\<exists>m\<in>set (messages sample_hidden_db). mr_id x = m_id m \<and> 500 < m_created_at m)"
proof -
  obtain rows r where run: "GetMessages quiet_service (sample_env 700 900) unary_codec (\<lambda>_. True) sample_hidden_db 1 sample_get = Inr (rows, r)"
    and "map mr_id rows = [22]" using sample_hidden_page by (auto split: sum.splits)
  then obtain x where x: "rows = [x]" by auto
  have "\<exists>m\<in>set (messages sample_hidden_db). mr_id x = m_id m \<and> mr_created_at x = RFC3339 (m_created_at m) \<and> now (sample_env 500 900) < m_created_at m"
    using hidden_history_unreadable [OF sample_hide run] x by (simp add: sample_get_def)
  with run x show ?thesis unfolding sample_env_simps by blast
qed

section \<open>The view of a single chat\<close>

lemma ent_only_live:
  assumes "live_chat d i c" and "\<not> broken" and "P c"
  shows "ent_only broken (filter (\<lambda>c. c_id c = i \<and> c_deleted_at c = None \<and> P c) (chats d)) = Inr c"
proof -
  have "filter (\<lambda>c. c_id c = i \<and> c_deleted_at c = None \<and> P c) (chats d) = filter P (filter (\<lambda>c. c_id c = i \<and> c_deleted_at c = None) (chats d))"
    by (simp add: conj_commute conj_left_commute)
  with assms show ?thesis by (simp add: live_chat_def ent_only_def)
qed

lemma applyNotificationPreferences_one:
  assumes "applyNotificationPreferences e d u [c] = Inr rs"
  shows "\<exists>f t. rs = [c\<lparr>cl_muted_forever := f, cl_muted_until := t\<rparr>]"
proof -
  let ?rows = "filter (\<lambda>r. np_chat_id r = cl_id c) (filter (\<lambda>r. np_user_id r = u \<and> np_chat_id r \<in> set (map cl_id [c])) (notification_preferences d))"
  have "rs = [case ?rows of [] \<Rightarrow> c | rs \<Rightarrow> c\<lparr>cl_muted_forever := np_muted_forever (last rs), cl_muted_until := np_muted_until (last rs)\<rparr>]"
    using assms by (auto simp: applyNotificationPreferences_def result_simps)
  moreover have "c = c\<lparr>cl_muted_forever := cl_muted_forever c, cl_muted_until := cl_muted_until c\<rparr>" by simp
  ultimately show ?thesis by (cases ?rows) (simp only: list.case, blast)+
qed

text \<open>What \<open>GetChatByID\<close> answers: the view of a chat that is live and readable, with the user's preferences.\<close>

definition loaded_chat :: "db \<Rightarrow> uuid \<Rightarrow> chat \<Rightarrow> full_chat" where
  "loaded_chat d u c = \<lparr>fc_chat = c, fc_private = map_option (load_private d) (private_of d (c_id c)),
     fc_group = map_option (load_group d u) (group_of d (c_id c)),
     fc_last_message = map_option (load_preview d) (Option.bind (c_last_message_id c) (message_of d))\<rparr>"

lemma GetChatByID_Inr:
  assumes "GetChatByID svc e d u i = Inr resp"
  obtains c f t where "c \<in> set (chats d)" and "c_id c = i" and "c_deleted_at c = None" and "chat_readable d u c"
    and "resp = (chat_view svc e d u (hide_from_visitors (loaded_chat d u c)))\<lparr>cl_muted_forever := f, cl_muted_until := t\<rparr>"
proof -
  obtain c rs where c: "filter (\<lambda>c. c_id c = i \<and> c_deleted_at c = None \<and> chat_readable d u c) (chats d) = [c]"
    and rs: "resp = hd rs" "applyNotificationPreferences e d u [chat_view svc e d u (hide_from_visitors (loaded_chat d u c))] = Inr rs"
    using assms by (auto simp: GetChatByID_def RepoGetChatByID_def result_simps loaded_chat_def)
  have "c \<in> set (filter (\<lambda>c. c_id c = i \<and> c_deleted_at c = None \<and> chat_readable d u c) (chats d))" using c by simp
  with applyNotificationPreferences_one [OF rs(2)] rs(1) show thesis by (auto intro: that)
qed

lemma chat_view_fields:
  "cl_is_online (chat_view svc e d u c) = cl_is_online (MapChatToResponse (now e) u c
     (block_map (fault e ''block status'') d u [case chat_other u c of None \<Rightarrow> uuid_Nil | Some i \<Rightarrow> i])
     (online_map svc (if (case chat_other u c of None \<Rightarrow> uuid_Nil | Some i \<Rightarrow> i) = uuid_Nil then [] else [case chat_other u c of None \<Rightarrow> uuid_Nil | Some i \<Rightarrow> i]))
     (svc_urls (cs_base svc)))"
  "cl_invite_code (chat_view svc e d u c) = cl_invite_code (MapChatToResponse (now e) u c
     (block_map (fault e ''block status'') d u [case chat_other u c of None \<Rightarrow> uuid_Nil | Some i \<Rightarrow> i])
     (online_map svc (if (case chat_other u c of None \<Rightarrow> uuid_Nil | Some i \<Rightarrow> i) = uuid_Nil then [] else [case chat_other u c of None \<Rightarrow> uuid_Nil | Some i \<Rightarrow> i]))
     (svc_urls (cs_base svc)))"
  by (auto simp: chat_view_def Let_def name_last_message_def put_member_count_def split: option.splits chat_type.splits)

lemma hide_from_visitors_fields [simp]:
  "fc_chat (hide_from_visitors c) = fc_chat c" "fc_private (hide_from_visitors c) = fc_private c" "fc_group (hide_from_visitors c) = fc_group c"
  by (auto simp: hide_from_visitors_def split: chat_type.splits option.splits list.splits prod.splits)

lemma block_map_free:
  assumes "\<not> BlockedByMe (block_map False d u [v] v)" and "\<not> BlockedByOther (block_map False d u [v] v)"
  shows "\<not> blocked_between d u v"
  using assms by (cases "u = v") (auto simp: block_map_def blocked_between_def)

lemma online_shown:
  assumes "cl_is_online (chat_view svc e d u (hide_from_visitors (loaded_chat d u c)))" and "\<not> fault e ''block status''"
  shows "\<exists>pc v w. private_of d (c_id c) = Some pc \<and> other_side pc u = Some (Some v) \<and> user_of d v = Some w \<and>
           user_active (now e) w \<and> \<not> blocked_between d u v"
proof -
  let ?c = "hide_from_visitors (loaded_chat d u c)"
  let ?o = "case chat_other u ?c of None \<Rightarrow> uuid_Nil | Some i \<Rightarrow> i"
  from MapChatToResponse_online [OF assms(1) [unfolded chat_view_fields(1)]]
  obtain pc u1 u2 w av where ty: "c_type (fc_chat ?c) = TypePrivate" and pc: "fc_private ?c = Some (pc, u1, u2)"
    and side: "pc_user1_id pc = Some u \<and> u2 = Some (w, av) \<or> pc_user1_id pc \<noteq> Some u \<and> pc_user2_id pc = Some u \<and> u1 = Some (w, av)"
    and act: "u_deleted_at w = None" "\<not> currently_banned (now e) w"
    and free: "\<not> BlockedByMe (block_map (fault e ''block status'') d u [?o] (u_id w))" "\<not> BlockedByOther (block_map (fault e ''block status'') d u [?o] (u_id w))"
    by metis
  from pc have row: "private_of d (c_id c) = Some pc" and us: "u1 = load_user d (pc_user1_id pc)" "u2 = load_user d (pc_user2_id pc)"
    by (auto simp: loaded_chat_def load_private_def)
  have user: "\<exists>v. i = Some v \<and> user_of d v = Some w \<and> u_id w = v" if "load_user d i = Some (w, av)" for i
    using that find_SomeD [of "\<lambda>x. u_id x = _" "users d" w] by (cases i) (auto simp: load_user_def user_of_def)
  have "other_side pc u = Some (Some (u_id w)) \<and> user_of d (u_id w) = Some w \<and> chat_other u ?c = Some (u_id w)"
    using side us user [of "pc_user1_id pc"] user [of "pc_user2_id pc"] ty pc by (auto simp: other_side_def chat_other_def other_user_of_def)
  moreover from this free assms(2) have "\<not> blocked_between d u (u_id w)" using block_map_free [of d u "u_id w"] by simp
  moreover have "user_active (now e) w" using act by (simp add: user_active_iff)
  ultimately show ?thesis using row by blast
qed

definition takes_part :: "db \<Rightarrow> uuid \<Rightarrow> uuid \<Rightarrow> bool" where
  "takes_part d u i \<longleftrightarrow>
     (\<exists>p\<in>set (private_chats d). pc_chat_id p = i \<and> (pc_user1_id p = Some u \<or> pc_user2_id p = Some u)) \<or>
     (\<exists>g\<in>set (group_chats d). gc_chat_id g = i \<and> (\<exists>m\<in>set (group_members d). member_key m = (gc_id g, u)))"

lemma last_message_shown:
  assumes "cl_last_message (chat_view svc e d u (hide_from_visitors (loaded_chat d u c))) \<noteq> None" and "chat_readable d u c"
    and "distinct (map gc_chat_id (group_chats d))" and "group_of d (c_id c) \<noteq> None \<longrightarrow> c_type c = TypeGroup"
  shows "takes_part d u (c_id c)"
proof (rule ccontr)
  assume no: "\<not> takes_part d u (c_id c)"
  with assms(2) obtain g where g: "g \<in> set (group_chats d)" "gc_chat_id g = c_id c" "gc_is_public g"
    unfolding chat_readable_def takes_part_def by (auto simp: member_key_def)
  then have "group_of d (c_id c) = Some g" using filter_key_single [OF assms(3) g(1), of "\<lambda>_. True"] by (simp add: group_of_def find_filter)
  moreover have "filter (\<lambda>m. gm_group_chat_id m = gc_id g \<and> gm_user_id m = u) (group_members d) = []"
    using no g(1,2) by (auto simp: takes_part_def member_key_def filter_empty_conv)
  ultimately have "fc_last_message (hide_from_visitors (loaded_chat d u c)) = None"
    using g(3) assms(4) by (simp add: hide_from_visitors_def loaded_chat_def load_group_def)
  then have "cl_last_message (MapChatToResponse t u (hide_from_visitors (loaded_chat d u c)) bl on ug) = None" for t bl on ug
    by (auto simp: map_chat_defs Let_def split: option.splits chat_type.splits list.splits prod.splits)
  with assms(1) show False
    by (auto simp: chat_view_def Let_def name_last_message_def put_member_count_def split: option.splits chat_type.splits if_splits)
qed

text \<open>What the view of a chat discloses. The other side of a private chat is shown online only when it is neither
  deleted nor banned and neither side has blocked the other. The invitation code of a group that is not public
  is shown only to its owner and admins. The last message is shown only to those who take part in the chat, also
  in public groups, which everybody may look up.
\<close>

theorem chat_view_discloses:
  assumes "GetChatByID svc e d u i = Inr resp" and "\<not> fault e ''block status''"
    and "distinct (map gc_chat_id (group_chats d))" and "\<forall>c\<in>set (chats d). c_id c = i \<and> group_of d i \<noteq> None \<longrightarrow> c_type c = TypeGroup"
  shows "(cl_is_online resp \<longrightarrow> (\<exists>pc v w. private_of d i = Some pc \<and> other_side pc u = Some (Some v) \<and> user_of d v = Some w \<and>
            user_active (now e) w \<and> \<not> blocked_between d u v)) \<and>
         (\<forall>code. cl_invite_code resp = Some code \<longrightarrow> (\<exists>gc. group_of d i = Some gc \<and> code = gc_invite_code gc \<and>
            (gc_is_public gc \<or> (\<exists>m\<in>set (group_members d). member_key m = (gc_id gc, u) \<and> gm_role m \<noteq> RoleMember)))) \<and>
         (cl_last_message resp \<noteq> None \<longrightarrow> takes_part d u i)"
proof -
  obtain c f t where c: "c \<in> set (chats d)" "c_id c = i" "chat_readable d u c"
    and resp: "resp = (chat_view svc e d u (hide_from_visitors (loaded_chat d u c)))\<lparr>cl_muted_forever := f, cl_muted_until := t\<rparr>"
    using GetChatByID_Inr [OF assms(1)] by metis
  let ?v = "chat_view svc e d u (hide_from_visitors (loaded_chat d u c))"
  show ?thesis
  proof (intro conjI allI impI)
    assume "cl_is_online resp"
    then show "\<exists>pc v w. private_of d i = Some pc \<and> other_side pc u = Some (Some v) \<and> user_of d v = Some w \<and>
        user_active (now e) w \<and> \<not> blocked_between d u v" using online_shown [of svc e d u c] assms(2) c(2) by (simp add: resp)
  next
    fix code assume "cl_invite_code resp = Some code"
    then have "cl_invite_code ?v = Some code" by (simp add: resp)
    from MapChatToResponse_invite [OF this [unfolded chat_view_fields(2)]]
    obtain gc av ms where gc: "fc_group (loaded_chat d u c) = Some (gc, av, ms)" "code = gc_invite_code gc"
      and who: "gc_is_public gc \<or> (\<exists>m ms'. ms = m # ms' \<and> gm_role m \<noteq> RoleMember)" by auto
    from gc(1) have "group_of d i = Some gc" and ms: "ms = filter (\<lambda>m. gm_group_chat_id m = gc_id gc \<and> gm_user_id m = u) (group_members d)"
      by (auto simp: loaded_chat_def load_group_def c(2))
    moreover have "m \<in> set (group_members d) \<and> member_key m = (gc_id gc, u)" if "ms = m # ms'" for m ms'
    proof -
      have "m \<in> set (filter (\<lambda>m. gm_group_chat_id m = gc_id gc \<and> gm_user_id m = u) (group_members d))" using that ms by simp
      then show ?thesis by (simp add: member_key_def)
    qed
    ultimately show "\<exists>gc. group_of d i = Some gc \<and> code = gc_invite_code gc \<and>
        (gc_is_public gc \<or> (\<exists>m\<in>set (group_members d). member_key m = (gc_id gc, u) \<and> gm_role m \<noteq> RoleMember))" using gc(2) who by blast
  next
    assume "cl_last_message resp \<noteq> None"
    then show "takes_part d u i" using last_message_shown [of svc e d u c] c assms(3,4) by (simp add: resp)
  qed
qed

lemma sample_view:
  "case GetChatByID sample_chats (sample_env 700 900) sample_hidden_db 1 10 of
     Inl _ \<Rightarrow> False
   | Inr resp \<Rightarrow> cl_is_online resp \<and> cl_hidden_at resp = Some (RFC3339 500) \<and> map_option mr_content (cl_last_message resp) = Some ''hi''"
  by code_simp

theorem chat_view_discloses_witness:
  "\<exists>resp pc v w. GetChatByID sample_chats (sample_env 700 900) sample_hidden_db 1 10 = Inr resp \<and> cl_is_online resp \<and>
     private_of sample_hidden_db 10 = Some pc \<and> other_side pc 1 = Some (Some v) \<and> user_of sample_hidden_db v = Some w \<and>
     user_active 700 w \<and> \<not> blocked_between sample_hidden_db 1 v \<and> takes_part sample_hidden_db 1 10"
proof -
  obtain resp where run: "GetChatByID sample_chats (sample_env 700 900) sample_hidden_db 1 10 = Inr resp"
    and on: "cl_is_online resp" "cl_last_message resp \<noteq> None" using sample_view by (auto split: sum.splits)
  have "distinct (map gc_chat_id (group_chats sample_hidden_db))" "group_of sample_hidden_db 10 = None"
    by (simp_all add: sample_hidden_db_def sample_hide_db_def sample_db_def empty_db_def group_of_def)
  then show ?thesis using chat_view_discloses [OF run] run on by (simp del: One_nat_def)
qed

section \<open>The last message of a hidden chat\<close>

lemma chat_view_last:
  assumes "fc_last_message c = Some f"
  shows "\<exists>lm. cl_last_message (chat_view svc e d u c) = Some lm \<and> mr_content lm = mr_content (ToMessageResponse f (svc_urls (cs_base svc)) [])"
proof -
  have "cl_last_message (MapChatToResponse t u c bl on ug) = Some (ToMessageResponse f ug [])" for t bl on ug
    using assms by (auto simp: map_chat_defs Let_def split: option.splits chat_type.splits list.splits prod.splits)
  then have "cl_last_message (put_member_count e d c (MapChatToResponse t u c bl on ug)) = Some (ToMessageResponse f ug [])" for t bl on ug
    by (auto simp: put_member_count_def split: option.splits chat_type.splits)
  then show ?thesis by (simp add: chat_view_def Let_def name_last_message_def put_action_names_def)
qed

text \<open>A user hides a private chat whose last message was written before. The pages of messages no longer show the
  message, but the view of the chat still does: the mapper is given the instant of hiding and does not use it.
\<close>

theorem hidden_last_message_shown:
  assumes "HideChat svc e d u i = Inr (ps, d')" and "c \<in> set (chats d)" and "c_id c = i" and "c_deleted_at c = None"
    and "c_last_message_id c = Some (m_id m)" and "message_of d (m_id m) = Some m" and "m_deleted_at m = None" and "m_content m = Some t"
    and "m_created_at m \<le> now e" and "\<forall>s. \<not> fault e' s"
  shows "\<exists>resp lm. GetChatByID svc e' d' u i = Inr resp \<and> cl_last_message resp = Some lm \<and> mr_content lm = t \<and>
     m \<notin> set (visible_messages d' i (Some (now e)))"
proof -
  obtain c0 pc other where c0: "live_chat d i c0" "c_type c0 = TypePrivate" and pc: "private_of d i = Some pc" and o: "other_side pc u = Some other"
    and d': "d' = d\<lparr>private_chats := update_where (\<lambda>p. pc_id p = pc_id pc) (hide_private (now e) u) (private_chats d)\<rparr>"
    by (rule HideChat_Inr [OF assms(1)])
  have cc: "c0 = c" using live_chat_unique [OF c0(1)] assms(2-4) by blast
  have row: "private_of d' i = Some (hide_private (now e) u pc)" unfolding d' using pc by (rule private_of_update) simp
  then have "hide_private (now e) u pc \<in> set (private_chats d')" "pc_chat_id (hide_private (now e) u pc) = i"
    using find_SomeD [OF row [unfolded private_of_def]] by simp_all
  moreover have "pc_user1_id (hide_private (now e) u pc) = Some u \<or> pc_user2_id (hide_private (now e) u pc) = Some u"
    using o by (auto simp: other_side_def split: if_splits)
  ultimately have "chat_readable d' u c" unfolding chat_readable_def assms(3) by blast
  moreover have "live_chat d' i c" using c0 cc by (simp add: d' live_chat_def)
  ultimately have "RepoGetChatByID e' d' u i = Inr (loaded_chat d' u c)"
    using ent_only_live [of d' i c "fault e' ''get chat by ID''" "chat_readable d' u"] assms(10) by (simp add: RepoGetChatByID_def loaded_chat_def)
  moreover have "hide_from_visitors (loaded_chat d' u c) = loaded_chat d' u c"
    using c0(2) cc by (simp add: hide_from_visitors_def loaded_chat_def)
  moreover obtain f t' where "applyNotificationPreferences e' d' u [chat_view svc e' d' u (loaded_chat d' u c)] =
      Inr [(chat_view svc e' d' u (loaded_chat d' u c))\<lparr>cl_muted_forever := f, cl_muted_until := t'\<rparr>]"
  proof -
    obtain rs where "applyNotificationPreferences e' d' u [chat_view svc e' d' u (loaded_chat d' u c)] = Inr rs"
      using assms(10) by (simp add: applyNotificationPreferences_def ent_all_def)
    then show thesis using applyNotificationPreferences_one that by metis
  qed
  ultimately have run: "GetChatByID svc e' d' u i = Inr ((chat_view svc e' d' u (loaded_chat d' u c))\<lparr>cl_muted_forever := f, cl_muted_until := t'\<rparr>)"
    by (simp add: GetChatByID_def)
  have "message_of d' = message_of d" by (rule ext) (simp add: message_of_def d')
  then have "fc_last_message (loaded_chat d' u c) = Some (load_preview d' m)" using assms(5,6) by (simp add: loaded_chat_def)
  from chat_view_last [OF this, of svc e' d' u] assms(7,8)
  obtain lm where "cl_last_message (chat_view svc e' d' u (loaded_chat d' u c)) = Some lm" "mr_content lm = t"
    by (auto simp: ToMessageResponse_def load_preview_def Let_def)
  with run assms(9) show ?thesis by (auto simp: visible_messages_def)
qed

theorem hidden_last_message_shown_witness:
  "\<exists>resp lm. GetChatByID sample_chats (sample_env 700 900) sample_hidden_db 1 10 = Inr resp \<and> cl_last_message resp = Some lm \<and> mr_content lm = ''hi'' \<and>
     sample_message 20 10 1 100 \<notin> set (visible_messages sample_hidden_db 10 (Some 500))"
proof -
  let ?c = "(sample_chat 10 TypePrivate)\<lparr>c_last_message_id := Some 20, c_last_message_at := Some 100\<rparr>"
  have c: "?c \<in> set (chats sample_hide_db)" "c_id ?c = 10" "c_deleted_at ?c = None" "c_last_message_id ?c = Some (m_id (sample_message 20 10 1 100))"
    "message_of sample_hide_db (m_id (sample_message 20 10 1 100)) = Some (sample_message 20 10 1 100)"
    by (simp_all add: sample_hide_db_def sample_chat_def sample_message_def message_of_def)
  show ?thesis
    using hidden_last_message_shown [OF sample_hide c, of "''hi''" "sample_env 700 900"] by (simp add: sample_message_def)
qed

end
