(* ===== verification/Chat_List_Laws.thy ===== *)
theory Chat_List_Laws
  imports Chat_Laws
begin

text \<open>
  The chat list page by page: the cursor of a page leads to the next, and following the cursors visits every
  listed chat once, the most recent first; and what a page shows of attachments.
\<close>

section \<open>Cursors of the chat list\<close>

definition listed_chats :: "(string option \<Rightarrow> string \<Rightarrow> bool) \<Rightarrow> db \<Rightarrow> uuid \<Rightarrow> string \<Rightarrow> chat list" where
  "listed_chats contains_fold d u q = filter (\<lambda>c. chat_listed d u c \<and> chat_matches contains_fold d u q c) (chats d)"

text \<open>Postgres stores instants in microseconds; the instants of the chats are after 1970 and fit the cursor.\<close>

definition stored_instant :: "time \<Rightarrow> bool" where
  "stored_instant t \<longleftrightarrow> 0 \<le> t \<and> t mod 1000 = 0 \<and> t div 1000 \<le> max_int64"

definition uuid_plain :: "uuid_codec \<Rightarrow> bool" where
  "uuid_plain codec \<longleftrightarrow> uuid_text codec \<and> (\<forall>u. CHR '','' \<notin> set (UuidString codec u))"

lemma FormatInt_no_comma: "0 \<le> i \<Longrightarrow> CHR '','' \<notin> set (FormatInt i)"
  using digits_nat_digits [of "nat i"] by (auto simp: FormatInt_def list_all_iff)

lemma sublist_single: "sublist [x] ys \<longleftrightarrow> x \<in> set ys"
  by (auto simp: sublist_def in_set_conv_decomp)

lemma chat_cursor_next:
  assumes "uuid_plain codec" and "c_last_message_at c = Some t" and "stored_instant t"
  shows "chat_cursor codec (chat_next_cursor codec c) = Some (chat_key c)"
proof -
  let ?a = "FormatInt (t div 1000)" and ?b = "UuidString codec (c_id c)"
  have pos: "0 \<le> t div 1000" using assms(3) by (simp add: stored_instant_def pos_imp_zdiv_nonneg_iff)
  have "Split (?a @ '','' @ ?b) '','' = [?a, ?b]"
    using FormatInt_no_comma [OF pos] assms(1) by (intro Split_once) (simp_all add: uuid_plain_def sublist_single)
  moreover have "ParseInt ?a = Some (t div 1000)" using ParseInt_FormatInt [OF pos] assms(3) by (simp add: stored_instant_def)
  moreover have "t div 1000 * 1000 = t" using assms(3) by (auto simp: stored_instant_def)
  ultimately show ?thesis using assms(1,2)
    by (simp add: chat_cursor_def chat_next_cursor_def b64_decode_encode b64_encode_Nil uuid_plain_def uuid_text_def chat_key_def)
qed

lemma before_cursor_key: "c_last_message_at c \<noteq> None \<Longrightarrow> before_cursor cur c \<longleftrightarrow> (case cur of None \<Rightarrow> True | Some k \<Rightarrow> chat_key c < k)"
  by (auto simp: before_cursor_def chat_key_def split: option.splits)

section \<open>One page\<close>

lemma repo_rows:
  "take n (rev (sort_key chat_key (filter (\<lambda>c. chat_listed d u c \<and> chat_matches cf d u q c \<and> before_cursor cur c) (chats d)))) =
     take n (keyset_below chat_key cur (listed_chats cf d u q))"
proof -
  have "filter (\<lambda>c. chat_listed d u c \<and> chat_matches cf d u q c \<and> before_cursor cur c) (chats d) =
      filter (\<lambda>c. case cur of None \<Rightarrow> True | Some k \<Rightarrow> chat_key c < k) (listed_chats cf d u q)"
    unfolding listed_chats_def filter_filter by (intro filter_cong refl) (auto simp: before_cursor_key chat_listed_def)
  then show ?thesis by (simp add: keyset_below_def)
qed

lemma load_listed_chat [simp]: "fc_chat (load_listed d u b atts c) = c"
  by (simp add: load_listed_def)

lemma RepoGetChats_rows:
  assumes "\<forall>s. \<not> fault e s" and "B = keyset_below chat_key (chat_cursor codec cursor) (listed_chats cf d u q)"
  shows "\<exists>L. RepoGetChats e codec cf d u q cursor limit =
      (if length L > limit then Inr (take limit L, chat_next_cursor codec (fc_chat (last (take limit L))), True) else Inr (L, [], False)) \<and>
    map fc_chat L = take (limit + 1) B"
proof -
  let ?rows = "take (limit + 1) B"
  let ?L = "map (load_listed d u (\<exists>c\<in>set ?rows. c_type c = TypePrivate) (page_attachments d (List.map_filter (last_of d) ?rows))) ?rows"
  have "RepoGetChats e codec cf d u q cursor limit =
      (if length ?L > limit then Inr (take limit ?L, chat_next_cursor codec (fc_chat (last (take limit ?L))), True) else Inr (?L, [], False))"
    using assms(1) unfolding RepoGetChats_def repo_rows assms(2) [symmetric] by (simp only: ent_all_def Let_def if_False simp_thms fail_if_simps and_then_simps)
  moreover have "map fc_chat ?L = ?rows" by (simp only: map_map comp_def load_listed_chat map_ident)
  ultimately show ?thesis by blast
qed

lemma RepoGetChats_page:
  assumes "\<forall>s. \<not> fault e s" and "B = keyset_below chat_key (chat_cursor codec cursor) (listed_chats cf d u q)" and "0 < limit"
  shows "\<exists>page. RepoGetChats e codec cf d u q cursor limit =
      Inr (page, if length B > limit then chat_next_cursor codec (B ! (limit - 1)) else [], length B > limit) \<and>
    map fc_chat page = take limit B"
proof -
  obtain L where run: "RepoGetChats e codec cf d u q cursor limit =
      (if length L > limit then Inr (take limit L, chat_next_cursor codec (fc_chat (last (take limit L))), True) else Inr (L, [], False))"
    and chats: "map fc_chat L = take (limit + 1) B"
    using RepoGetChats_rows [OF assms(1,2)] by blast
  have len: "length L = min (length B) (limit + 1)" using arg_cong [OF chats, of length] by simp
  have page: "map fc_chat (take limit L) = take limit B"
    using arg_cong [OF chats, of "take limit"] by (simp add: take_map)
  show ?thesis
  proof (cases "length B > limit")
    case True
    then have "take limit L \<noteq> []" using len assms(3) by auto
    then have "fc_chat (last (take limit L)) = last (take limit B)" unfolding page [symmetric] by (simp add: last_map)
    also have "\<dots> = B ! (limit - 1)" using True assms(3) by (intro last_take) simp_all
    finally show ?thesis using run True page len by (intro exI [of _ "take limit L"]) simp
  next
    case False
    then show ?thesis using run chats len by (intro exI [of _ L]) simp
  qed
qed

lemma preferences_ids:
  assumes "\<forall>s. \<not> fault e s"
  shows "\<exists>rs. applyNotificationPreferences e d u cs = Inr rs \<and> map cl_id rs = map cl_id cs"
  using assms by (auto simp: applyNotificationPreferences_def ent_all_def split: list.splits)

lemma listed_response_id [simp]: "cl_id (listed_response svc e u bl on counts us c) = c_id (fc_chat c)"
proof -
  have "cl_id (MapChatToResponse t u c bl on ug) = c_id (fc_chat c)" for t ug
    by (auto simp: map_chat_defs Let_def split: option.splits chat_type.splits list.splits prod.splits)
  then show ?thesis by (auto simp: listed_response_def name_last_message_def Let_def split: option.splits chat_type.splits)
qed

section \<open>All pages\<close>

type_synonym chat_list_reader =
  "chat_service \<times> env \<times> (string option \<Rightarrow> string \<Rightarrow> bool) \<times> (chats_request \<Rightarrow> bool) \<times> count_cache \<times> db \<times> uuid \<times> chats_request"

definition chat_ids :: "chat_list_reader \<Rightarrow> string \<Rightarrow> app_error + (uuid list \<times> string \<times> bool)" where
  "chat_ids = (\<lambda>(svc, e, cf, valid, cache, d, u, req) cursor.
     and_then (fst (GetChats svc e cf valid cache d u (req\<lparr>cq_cursor := cursor\<rparr>))) (\<lambda>(rs, nextCursor, hasNext).
       Inr (map cl_id rs, nextCursor, hasNext)))"

definition chats_left :: "chat_list_reader \<Rightarrow> string \<Rightarrow> uuid list" where
  "chats_left = (\<lambda>(svc, e, cf, valid, cache, d, u, req) cursor.
     map c_id (keyset_below chat_key (chat_cursor (cs_codec svc) cursor) (listed_chats cf d u (TrimSpace (cq_query req)))))"

definition chats_good :: "chat_list_reader \<Rightarrow> string \<Rightarrow> bool" where
  "chats_good = (\<lambda>(svc, e, cf, valid, cache, d, u, req) cursor.
     (\<forall>s. \<not> fault e s) \<and> (\<forall>cs. valid (req\<lparr>cq_cursor := cs\<rparr>)) \<and> 0 < cq_limit req \<and> uuid_plain (cs_codec svc) \<and>
     distinct (map c_id (chats d)) \<and> (\<forall>c\<in>set (chats d). \<forall>t. c_last_message_at c = Some t \<longrightarrow> stored_instant t))"

lemma GetChats_page:
  assumes "\<forall>s. \<not> fault e s" and "valid req" and "0 < cq_limit req"
    and "B = keyset_below chat_key (chat_cursor (cs_codec svc) (cq_cursor req)) (listed_chats cf d u (TrimSpace (cq_query req)))"
  shows "\<exists>rs. fst (GetChats svc e cf valid cache d u req) =
      Inr (rs, if length B > cq_limit req then chat_next_cursor (cs_codec svc) (B ! (cq_limit req - 1)) else [], length B > cq_limit req) \<and>
    map cl_id rs = map c_id (take (cq_limit req) B)"
proof -
  obtain page nc hn where repo: "RepoGetChats e (cs_codec svc) cf d u (TrimSpace (cq_query req)) (cq_cursor req) (cq_limit req) = Inr (page, nc, hn)"
    and nc: "nc = (if length B > cq_limit req then chat_next_cursor (cs_codec svc) (B ! (cq_limit req - 1)) else [])" and hn: "hn = (length B > cq_limit req)"
    and page: "map fc_chat page = take (cq_limit req) B"
    using RepoGetChats_page [OF assms(1,4,3)] by blast
  let ?others = "List.map_filter (chat_other u) page"
  let ?us = "resolve_users e (cs_codec svc) d (List.map_filter (\<lambda>c. map_option fm_message (fc_last_message c)) page)"
  let ?rs = "map (listed_response svc e u (block_map (fault e ''block status'') d u ?others) (online_map svc ?others) (fst (page_counts e cache d page)) ?us) page"
  obtain rs where rs: "applyNotificationPreferences e d u ?rs = Inr rs" "map cl_id rs = map cl_id ?rs"
    using preferences_ids [OF assms(1)] by blast
  have "fst (GetChats svc e cf valid cache d u req) = Inr (rs, nc, hn)"
    using repo assms(2,3) rs(1) by (simp add: GetChats_def Let_def case_prod_unfold)
  moreover have "map cl_id rs = map c_id (map fc_chat page)" using rs(2) by (simp add: comp_def)
  ultimately show ?thesis unfolding nc hn page by blast
qed

interpretation chat_list: paged_reader chat_ids chats_left chats_good
proof
  fix cfg :: chat_list_reader and cursor :: string
  assume good: "chats_good cfg cursor"
  obtain svc e cf valid cache d u req where cfg: "cfg = (svc, e, cf, valid, cache, d, u, req)" by (metis prod.exhaust)
  note g = good [unfolded cfg chats_good_def prod.case]
  let ?L = "listed_chats cf d u (TrimSpace (cq_query req))" and ?n = "cq_limit req"
  define B where "B = keyset_below chat_key (chat_cursor (cs_codec svc) cursor) ?L"
  obtain rs where run: "fst (GetChats svc e cf valid cache d u (req\<lparr>cq_cursor := cursor\<rparr>)) =
      Inr (rs, if length B > ?n then chat_next_cursor (cs_codec svc) (B ! (?n - 1)) else [], length B > ?n)"
    and rs: "map cl_id rs = map c_id (take ?n B)"
    using GetChats_page [of e valid "req\<lparr>cq_cursor := cursor\<rparr>" B svc cf d u cache] g by (auto simp: B_def)
  have next_left: "chats_left cfg (chat_next_cursor (cs_codec svc) (B ! (?n - 1))) = map c_id (drop ?n B)" if more: "length B > ?n"
  proof -
    have "B ! (?n - 1) \<in> set B" using more g by simp
    then have mem: "B ! (?n - 1) \<in> set ?L" unfolding B_def keyset_below_mem by blast
    then obtain t where t: "c_last_message_at (B ! (?n - 1)) = Some t" by (auto simp: listed_chats_def chat_listed_def)
    moreover have "stored_instant t" using mem t g by (auto simp: listed_chats_def)
    ultimately have cur: "chat_cursor (cs_codec svc) (chat_next_cursor (cs_codec svc) (B ! (?n - 1))) = Some (chat_key (B ! (?n - 1)))"
      using chat_cursor_next g by blast
    have "distinct (map c_id ?L)" using g by (simp add: listed_chats_def distinct_map_filter)
    then have "distinct (map chat_key ?L)" by (auto simp: distinct_map inj_on_def chat_key_def)
    from keyset_below_next [OF this, of ?n "chat_cursor (cs_codec svc) cursor", folded B_def] more g
    have "keyset_below chat_key (Some (chat_key (B ! (?n - 1)))) ?L = drop ?n B" by simp
    with cur show ?thesis by (simp add: cfg chats_left_def)
  qed
  show "\<exists>page nextCursor hasNext. chat_ids cfg cursor = Inr (page, nextCursor, hasNext) \<and>
      (if hasNext then page \<noteq> [] \<and> chats_good cfg nextCursor \<and> chats_left cfg cursor = page @ chats_left cfg nextCursor else chats_left cfg cursor = page)"
  proof (intro exI conjI)
    show "chat_ids cfg cursor = Inr (map cl_id rs, if length B > ?n then chat_next_cursor (cs_codec svc) (B ! (?n - 1)) else [], length B > ?n)"
      using run by (simp add: cfg chat_ids_def)
    have left: "chats_left cfg cursor = map c_id B" by (simp add: cfg chats_left_def B_def)
    have "map c_id (take ?n B) @ map c_id (drop ?n B) = map c_id B" by (simp flip: map_append)
    moreover have "chats_good cfg nc" for nc using good by (simp add: cfg chats_good_def)
    ultimately show "if length B > ?n then map cl_id rs \<noteq> [] \<and>
        chats_good cfg (if length B > ?n then chat_next_cursor (cs_codec svc) (B ! (?n - 1)) else []) \<and>
        chats_left cfg cursor = map cl_id rs @ chats_left cfg (if length B > ?n then chat_next_cursor (cs_codec svc) (B ! (?n - 1)) else [])
      else chats_left cfg cursor = map cl_id rs"
      using rs left next_left g by auto
  qed
qed

text \<open>A client that reads its chat list page by page, following the cursors while a next page is announced,
  receives every listed chat that matches the search exactly once, the most recent first, and stops: one step
  more than there are chats is enough. Stored instants have the precision of the cursor, and the text form of
  identifiers parses back and has no comma.
\<close>

theorem chat_list_visits_all:
  assumes "\<forall>s. \<not> fault e s" and "\<forall>cs. valid (req\<lparr>cq_cursor := cs\<rparr>)" and "0 < cq_limit req" and "uuid_plain (cs_codec svc)"
    and "distinct (map c_id (chats d))" and "\<forall>c\<in>set (chats d). \<forall>t. c_last_message_at c = Some t \<longrightarrow> stored_instant t"
    and "length (chats d) < fuel"
  shows "walk fuel (chat_ids (svc, e, cf, valid, cache, d, u, req)) [] =
     Some (map c_id (rev (sort_key chat_key (listed_chats cf d u (TrimSpace (cq_query req))))))"
proof -
  let ?cfg = "(svc, e, cf, valid, cache, d, u, req)"
  have left: "chats_left ?cfg [] = map c_id (rev (sort_key chat_key (listed_chats cf d u (TrimSpace (cq_query req)))))"
    by (simp add: chats_left_def chat_cursor_def keyset_below_def)
  moreover have "length (chats_left ?cfg []) < fuel"
    using assms(7) le_less_trans [OF length_filter_le] by (simp add: left listed_chats_def)
  moreover have "chats_good ?cfg []" using assms(1-6) by (simp add: chats_good_def)
  ultimately show ?thesis using chat_list.walk_all [of ?cfg "[]" fuel] by simp
qed

lemma unary_codec_plain: "uuid_plain unary_codec"
  using unary_codec_text by (simp add: uuid_plain_def) (simp add: unary_codec_def)

definition sample_list_db :: db where
  "sample_list_db = sample_db\<lparr>chats := [(sample_chat 10 TypePrivate)\<lparr>c_last_message_id := Some 20, c_last_message_at := Some 100000\<rparr>,
     (sample_chat 11 TypeGroup)\<lparr>c_last_message_id := Some 21, c_last_message_at := Some 101000\<rparr>],
     medias := [\<lparr>md_id = 40, md_file_name = ''a'', md_original_name = ''a'', md_file_size = 1, md_mime_type = ''t'', md_category = CategoryMessageAttachment,
       md_upload_status = UploadStatusCompleted, md_upload_expires_at = None, md_completed_at = None, md_message_id = Some 20, md_uploaded_by_id = Some 1, md_created_at = 0\<rparr>,
      \<lparr>md_id = 41, md_file_name = ''b'', md_original_name = ''b'', md_file_size = 1, md_mime_type = ''t'', md_category = CategoryMessageAttachment,
       md_upload_status = UploadStatusCompleted, md_upload_expires_at = None, md_completed_at = None, md_message_id = Some 21, md_uploaded_by_id = Some 1, md_created_at = 0\<rparr>]\<rparr>"

definition sample_list_request :: chats_request where
  "sample_list_request = \<lparr>cq_query = [], cq_cursor = [], cq_limit = 1\<rparr>"

lemma sample_listed: "map c_id (rev (sort_key chat_key (listed_chats (\<lambda>_ _. True) sample_list_db 1 (TrimSpace (cq_query sample_list_request))))) = [11, 10]"
  by code_simp

theorem chat_list_visits_all_witness:
  "walk 3 (chat_ids (sample_chats, sample_env 500 900, (\<lambda>_ _. True), (\<lambda>_. True), (\<lambda>_. None), sample_list_db, 1, sample_list_request)) [] = Some [11, 10]"
proof -
  have "\<forall>c\<in>set (chats sample_list_db). \<forall>t. c_last_message_at c = Some t \<longrightarrow> stored_instant t"
    by (simp add: sample_list_db_def stored_instant_def max_int64_def)
  then show ?thesis
    using chat_list_visits_all [of "sample_env 500 900" "\<lambda>_. True" sample_list_request sample_chats sample_list_db 3 "\<lambda>_ _. True" "\<lambda>_. None" 1]
      unary_codec_plain sample_listed
    by (simp add: sample_list_request_def sample_chats_def del: One_nat_def) (simp add: sample_list_db_def sample_chat_def)
qed

section \<open>Attachments of the last messages\<close>

lemma RepoGetChats_attachments:
  assumes "RepoGetChats e codec cf d u q cursor limit = Inr (page, nc, hn)"
  shows "\<exists>atts b. length atts \<le> 1 \<and> set page \<subseteq> range (load_listed d u b atts)"
proof -
  have "\<exists>rows. (let L = map (load_listed d u (\<exists>c\<in>set rows. c_type c = TypePrivate) (page_attachments d (List.map_filter (last_of d) rows))) rows in
      if length L > limit then Inr (take limit L, chat_next_cursor codec (fc_chat (last (take limit L))), True) else Inr (L, [], False)) =
     (Inr (page, nc, hn) :: ent_error + _)"
    using assms unfolding RepoGetChats_def by (simp only: handler_simps) blast
  then obtain rows where r: "(let L = map (load_listed d u (\<exists>c\<in>set rows. c_type c = TypePrivate) (page_attachments d (List.map_filter (last_of d) rows))) rows in
      if length L > limit then Inr (take limit L, chat_next_cursor codec (fc_chat (last (take limit L))), True) else Inr (L, [], False)) =
     (Inr (page, nc, hn) :: ent_error + _)" ..
  let ?b = "\<exists>c\<in>set rows. c_type c = TypePrivate" and ?atts = "page_attachments d (List.map_filter (last_of d) rows)"
  have "\<exists>n. page = take n (map (load_listed d u ?b ?atts) rows)"
    using r by (cases "length rows > limit") (simp_all add: Let_def take_map, blast, metis take_all order_refl)
  then have "set page \<subseteq> set (map (load_listed d u ?b ?atts) rows)" using set_take_subset by metis
  moreover have "length ?atts \<le> 1" by (simp add: page_attachments_def)
  ultimately show ?thesis by (intro exI [of _ ?atts] exI [of _ ?b]) auto
qed

lemma preferences_last:
  assumes "applyNotificationPreferences e d u cs = Inr rs" and "r \<in> set rs"
  shows "\<exists>c\<in>set cs. cl_last_message r = cl_last_message c"
proof -
  have "map cl_last_message rs = map cl_last_message cs"
    using assms(1) by (auto simp: applyNotificationPreferences_def result_simps split: if_splits list.splits)
  then have "cl_last_message r \<in> set (map cl_last_message cs)" using assms(2) by (metis image_eqI set_map)
  then show ?thesis by auto
qed

lemma listed_response_last:
  assumes "cl_last_message (listed_response svc e u bl on counts us (load_listed d u b atts c)) = Some m" and "mr_attachments m \<noteq> []"
  shows "\<exists>a\<in>set atts. md_message_id a = Some (mr_id m)"
proof -
  let ?f = "load_listed d u b atts c"
  have last: "cl_last_message (MapChatToResponse t u ?f bl on ug) = map_option (\<lambda>f. ToMessageResponse f ug []) (fc_last_message ?f)" for t ug
    by (auto simp: map_chat_defs Let_def split: option.splits chat_type.splits list.splits prod.splits)
  have "cl_last_message (listed_response svc e u bl on counts us ?f) =
      map_option (put_action_names (cs_codec svc) us) (map_option (\<lambda>f. ToMessageResponse f (svc_urls (cs_base svc)) []) (fc_last_message ?f))"
    by (auto simp: listed_response_def name_last_message_def Let_def last split: option.splits chat_type.splits)
  with assms(1) have "map_option (put_action_names (cs_codec svc) us) (map_option (\<lambda>f. ToMessageResponse f (svc_urls (cs_base svc)) []) (fc_last_message ?f)) = Some m"
    by (simp only:)
  then obtain x where x: "last_of d c = Some x"
    and m: "m = put_action_names (cs_codec svc) us (ToMessageResponse \<lparr>fm_message = x, fm_sender = load_sender d True x,
          fm_attachments = filter (\<lambda>a. md_message_id a = Some (m_id x)) atts, fm_reply_to = None\<rparr> (svc_urls (cs_base svc)) [])"
    by (auto simp: load_listed_def)
  have "filter (\<lambda>a. md_message_id a = Some (m_id x)) atts \<noteq> []" "mr_id m = m_id x"
    using assms(2) by (auto simp: m put_action_names_def ToMessageResponse_def Let_def split: if_splits)
  then show ?thesis by (auto simp: filter_empty_conv)
qed

text \<open>A page of the chat list shows the attachments of at most one last message, however many of its chats end
  with a message that has one: the limit of one attachment is applied to the page and not to each message.
\<close>

theorem chat_list_shows_one_attachment:
  assumes "fst (GetChats svc e cf valid cache d u req) = Inr (rs, nc, hn)" and "r1 \<in> set rs" and "r2 \<in> set rs"
    and "cl_last_message r1 = Some m1" and "cl_last_message r2 = Some m2" and "mr_id m1 \<noteq> mr_id m2"
  shows "mr_attachments m1 = [] \<or> mr_attachments m2 = []"
proof (rule ccontr)
  assume "\<not> (mr_attachments m1 = [] \<or> mr_attachments m2 = [])"
  then have show_both: "mr_attachments m1 \<noteq> []" "mr_attachments m2 \<noteq> []" by simp_all
  obtain page nc' hn' bl on counts us where repo: "RepoGetChats e (cs_codec svc) cf d u (TrimSpace (cq_query req)) (cq_cursor req) (if cq_limit req = 0 then 20 else cq_limit req) = Inr (page, nc', hn')"
    and rs: "applyNotificationPreferences e d u (map (listed_response svc e u bl on counts us) page) = Inr rs"
    using assms(1) by (auto simp: GetChats_def Let_def result_simps case_prod_unfold split: sum.splits prod.splits)
  obtain atts b where atts: "length atts \<le> 1" "set page \<subseteq> range (load_listed d u b atts)" using RepoGetChats_attachments [OF repo] by blast
  have "\<exists>a\<in>set atts. md_message_id a = Some (mr_id m)" if "r \<in> set rs" "cl_last_message r = Some m" "mr_attachments m \<noteq> []" for r m
    using preferences_last [OF rs that(1)] atts(2) listed_response_last that(2,3) by fastforce
  from this [OF assms(2,4) show_both(1)] this [OF assms(3,5) show_both(2)] atts(1) assms(6) show False by (cases atts) auto
qed

lemma sample_list_page:
  "case fst (GetChats sample_chats (sample_env 500 900) (\<lambda>_ _. True) (\<lambda>_. True) (\<lambda>_. None) sample_list_db 1 (sample_list_request\<lparr>cq_limit := 2\<rparr>)) of
     Inl _ \<Rightarrow> False
   | Inr (rs, _) \<Rightarrow> map (\<lambda>r. map_option mr_id (cl_last_message r)) rs = [Some 21, Some 20]"
  by code_simp

text \<open>Both last messages have an attachment.\<close>

theorem chat_list_shows_one_attachment_witness:
  "\<exists>r1 r2 m1 m2 nc hn.
     fst (GetChats sample_chats (sample_env 500 900) (\<lambda>_ _. True) (\<lambda>_. True) (\<lambda>_. None) sample_list_db 1 (sample_list_request\<lparr>cq_limit := 2\<rparr>)) = Inr ([r1, r2], nc, hn) \<and>
     cl_last_message r1 = Some m1 \<and> cl_last_message r2 = Some m2 \<and> mr_id m1 = 21 \<and> mr_id m2 = 20 \<and>
     attachments_of sample_list_db 21 \<noteq> [] \<and> attachments_of sample_list_db 20 \<noteq> [] \<and> (mr_attachments m1 = [] \<or> mr_attachments m2 = [])"
proof -
  obtain rs nc hn where run: "fst (GetChats sample_chats (sample_env 500 900) (\<lambda>_ _. True) (\<lambda>_. True) (\<lambda>_. None) sample_list_db 1 (sample_list_request\<lparr>cq_limit := 2\<rparr>)) = Inr (rs, nc, hn)"
    and "map (\<lambda>r. map_option mr_id (cl_last_message r)) rs = [Some 21, Some 20]"
    using sample_list_page by (auto split: sum.splits)
  then obtain r1 r2 m1 m2 where rs: "rs = [r1, r2]" "cl_last_message r1 = Some m1" "cl_last_message r2 = Some m2" "mr_id m1 = 21" "mr_id m2 = 20" by auto
  have "mr_attachments m1 = [] \<or> mr_attachments m2 = []"
    using chat_list_shows_one_attachment [OF run, of r1 r2 m1 m2] rs by simp
  moreover have "attachments_of sample_list_db 21 \<noteq> []" "attachments_of sample_list_db 20 \<noteq> []" by (simp_all add: attachments_of_def sample_list_db_def)
  ultimately show ?thesis using run rs by blast
qed

section \<open>Cached member counts\<close>

text \<open>
  Over a history of the database, every entry of the cache was counted ten seconds before it expires, and not in
  the future.
\<close>

definition cache_inv :: "(time \<Rightarrow> db) \<Rightarrow> time \<Rightarrow> count_cache \<Rightarrow> bool" where
  "cache_inv hist t cache \<longleftrightarrow> (\<forall>i n expires. cache i = Some (n, expires) \<longrightarrow>
     (\<exists>s\<le>t. expires = s + groupMemberCountCacheTTL \<and> n = length (live_members (hist s) i)))"

lemma cache_inv_hit:
  assumes "cache_inv hist t cache" and "cache_hit now' cache i = Some n"
  shows "\<exists>s\<le>t. now' < s + groupMemberCountCacheTTL \<and> n = length (live_members (hist s) i)"
proof -
  obtain expires where x: "cache i = Some (n, expires)" "now' < expires" using assms(2) by (auto simp: cache_hit_def split: option.splits if_splits)
  with assms(1) obtain s where "s \<le> t" "expires = s + groupMemberCountCacheTTL" "n = length (live_members (hist s) i)" unfolding cache_inv_def by blast
  with x(2) show ?thesis by blast
qed

text \<open>A count of members the repository answers, from its cache or from the database, was the number of the group's
  live members at an instant at most ten seconds ago, and the cache keeps the invariant that makes this so,
  also when the query fails.
\<close>

theorem member_counts_fresh:
  assumes "cache_inv hist t cache" and "t \<le> now e" and "CountActiveMembersByGroupIDs e cache (hist (now e)) ids = (r, cache')"
  shows "cache_inv hist (now e) cache' \<and>
     (\<forall>counts i. r = Inr counts \<and> i \<in> set ids \<longrightarrow> (\<exists>s n. s \<le> now e \<and> now e - groupMemberCountCacheTTL < s \<and>
        counts i = Some n \<and> n = length (live_members (hist s) i)))"
proof
  have older: "cache_inv hist (now e) cache" using assms(1,2) unfolding cache_inv_def by (meson order_trans)
  then have dropped: "cache_inv hist (now e) (\<lambda>i. if P i then None else cache i)" for P by (simp add: cache_inv_def)
  have stored: "cache_inv hist (now e) (\<lambda>i. if P i then Some (length (live_members (hist (now e)) i), now e + groupMemberCountCacheTTL) else cache i)" for P
    using older by (auto simp: cache_inv_def)
  show "cache_inv hist (now e) cache'" using assms(3) older dropped stored by (auto simp: CountActiveMembersByGroupIDs_def Let_def split: if_splits)
  have hit: "\<exists>s n. s \<le> now e \<and> now e - groupMemberCountCacheTTL < s \<and> cache_hit (now e) cache i = Some n \<and> n = length (live_members (hist s) i)"
    if h: "cache_hit (now e) cache i \<noteq> None" for i
  proof -
    obtain n where n: "cache_hit (now e) cache i = Some n" using h by blast
    from cache_inv_hit [OF older n] obtain s where "s \<le> now e" "now e < s + groupMemberCountCacheTTL" "n = length (live_members (hist s) i)" by blast
    with n show ?thesis by (intro exI [of _ s] exI [of _ n]) simp
  qed
  show "\<forall>counts i. r = Inr counts \<and> i \<in> set ids \<longrightarrow> (\<exists>s n. s \<le> now e \<and> now e - groupMemberCountCacheTTL < s \<and>
        counts i = Some n \<and> n = length (live_members (hist s) i))"
  proof (intro allI impI)
    fix counts i assume a: "r = Inr counts \<and> i \<in> set ids"
    show "\<exists>s n. s \<le> now e \<and> now e - groupMemberCountCacheTTL < s \<and> counts i = Some n \<and> n = length (live_members (hist s) i)"
    proof (cases "cache_hit (now e) cache i = None")
      case True
      then have "counts i = Some (length (live_members (hist (now e)) i))"
        using a assms(3) by (auto simp: CountActiveMembersByGroupIDs_def Let_def filter_empty_conv split: if_splits)
      then show ?thesis by (intro exI [of _ "now e"]) simp
    next
      case False
      then have "counts i = cache_hit (now e) cache i"
        using a assms(3) by (auto simp: CountActiveMembersByGroupIDs_def Let_def split: if_splits)
      with hit [OF False] show ?thesis by simp
    qed
  qed
qed

lemma sample_count: "case CountActiveMembersByGroupIDs (sample_env 500 900) (\<lambda>_. None) sample_db [6] of (Inr counts, cache) \<Rightarrow> counts 6 = Some 2 | _ \<Rightarrow> False"
  by code_simp

theorem member_counts_fresh_witness:
  "\<exists>counts cache' (s :: time) n. CountActiveMembersByGroupIDs (sample_env 500 900) (\<lambda>_. None) sample_db [6] = (Inr counts, cache') \<and>
     s \<le> 500 \<and> counts 6 = Some n \<and> n = length (live_members sample_db 6)"
proof -
  obtain counts cache' where run: "CountActiveMembersByGroupIDs (sample_env 500 900) (\<lambda>_. None) sample_db [6] = (Inr counts, cache')"
    using sample_count by (auto split: prod.splits sum.splits)
  have "cache_inv (\<lambda>_. sample_db) 0 (\<lambda>_. None)" by (simp add: cache_inv_def)
  from member_counts_fresh [OF this, of "sample_env 500 900" "[6]"] run show ?thesis by auto
qed

end
