(* ===== verification/Redis_Store.thy ===== *)
theory Redis_Store
  imports Text_Helpers Schema
begin

text \<open>
  The key-value store behind sessions, one-time passwords and rate limits. The Redis server is not part of the
  program: its commands are the arguments \<open>redis_client\<close>, and \<open>redis_laws\<close> states what Redis documents of them, over
  an observer \<open>entry\<close> that gives the value of a key and the instant at which it expires. A command that does not
  reach the server fails at its call site. \<^verbatim>\<open>src/internal/infrastructure/redis/redis_adapter.go\<close> is the
  adapter on top; its script runs atomically.
\<close>

record 's redis_client =
  rc_get :: "'s \<Rightarrow> time \<Rightarrow> string \<Rightarrow> string option"
  rc_set :: "'s \<Rightarrow> time \<Rightarrow> string \<Rightarrow> string \<Rightarrow> duration \<Rightarrow> 's"
  rc_del :: "'s \<Rightarrow> time \<Rightarrow> string \<Rightarrow> 's"
  rc_incr :: "'s \<Rightarrow> time \<Rightarrow> string \<Rightarrow> int \<times> 's"
  rc_ttl :: "'s \<Rightarrow> time \<Rightarrow> string \<Rightarrow> duration"
  rc_expire :: "'s \<Rightarrow> time \<Rightarrow> string \<Rightarrow> duration \<Rightarrow> bool \<times> 's"

type_synonym kv_entry = "string \<times> time option"

type_synonym 's observer = "'s \<Rightarrow> time \<Rightarrow> string \<Rightarrow> kv_entry option"

abbreviation (input) second :: duration where "second \<equiv> 1000000000"
abbreviation (input) millisecond :: duration where "millisecond \<equiv> 1000000"

text \<open>The client sends a lifetime in whole units, one at least.\<close>

definition whole :: "duration \<Rightarrow> duration \<Rightarrow> duration" where
  "whole unit d = (if d < unit then unit else d - d mod unit)"

lemma whole_pos: "0 < unit \<Longrightarrow> 0 < whole unit d"
  unfolding whole_def by (smt (verit) pos_mod_bound)

lemma whole_close: "0 < unit \<Longrightarrow> d < whole unit d + unit"
  unfolding whole_def by (smt (verit) pos_mod_bound)

lemma whole_seconds: "0 < n \<Longrightarrow> whole second (n * second) = n * second"
  "0 < n \<Longrightarrow> whole millisecond (n * second) = n * second"
  by (simp_all add: whole_def)

section \<open>What Redis documents\<close>

text \<open>Nothing changes with time but that a key is gone from the instant on at which it expires.\<close>

definition ages :: "'s observer \<Rightarrow> bool" where
  "ages entry \<longleftrightarrow> (\<forall>s t t' k. t \<le> t' \<longrightarrow> entry s t' k =
     (case entry s t k of Some (v, Some ex) \<Rightarrow> if t' < ex then Some (v, Some ex) else None | x \<Rightarrow> x))"

definition get_law :: "'s observer \<Rightarrow> 's redis_client \<Rightarrow> bool" where
  "get_law entry R \<longleftrightarrow> (\<forall>s t k. rc_get R s t k = map_option fst (entry s t k))"

text \<open>A lifetime of zero means that the key does not expire; others are sent in milliseconds.\<close>

definition set_law :: "'s observer \<Rightarrow> 's redis_client \<Rightarrow> bool" where
  "set_law entry R \<longleftrightarrow> (\<forall>s t k v ttl k'. 0 \<le> ttl \<longrightarrow> entry (rc_set R s t k v ttl) t k' =
     (if k' = k then Some (v, if ttl = 0 then None else Some (t + whole millisecond ttl)) else entry s t k'))"

definition del_law :: "'s observer \<Rightarrow> 's redis_client \<Rightarrow> bool" where
  "del_law entry R \<longleftrightarrow> (\<forall>s t k k'. entry (rc_del R s t k) t k' = (if k' = k then None else entry s t k'))"

text \<open>The commands that count and that set an expiry leave the other keys alone.\<close>

definition frame_law :: "'s observer \<Rightarrow> 's redis_client \<Rightarrow> bool" where
  "frame_law entry R \<longleftrightarrow> (\<forall>s t k k' ttl. k' \<noteq> k \<longrightarrow> entry (snd (rc_incr R s t k)) t k' = entry s t k' \<and>
     entry (snd (rc_expire R s t k ttl)) t k' = entry s t k')"

text \<open>The lifetime is sent in seconds.\<close>

definition expire_law :: "'s observer \<Rightarrow> 's redis_client \<Rightarrow> bool" where
  "expire_law entry R \<longleftrightarrow> (\<forall>s t k k' v ex ttl. entry s t k = Some (v, ex) \<and> 0 < ttl \<longrightarrow>
     fst (rc_expire R s t k ttl) \<and>
     entry (snd (rc_expire R s t k ttl)) t k' = (if k' = k then Some (v, Some (t + whole second ttl)) else entry s t k'))"

text \<open>A missing key counts from zero and is created without expiry; an existing one keeps its expiry.\<close>

definition incr_law :: "'s observer \<Rightarrow> 's redis_client \<Rightarrow> bool" where
  "incr_law entry R \<longleftrightarrow> (\<forall>s t k k' n ex. 0 \<le> n \<and> n < max_int64 \<and> (entry s t k = None \<and> n = 0 \<and> ex = None \<or> entry s t k = Some (FormatInt n, ex)) \<longrightarrow>
     fst (rc_incr R s t k) = n + 1 \<and>
     entry (snd (rc_incr R s t k)) t k' = (if k' = k then Some (FormatInt (n + 1), ex) else entry s t k'))"

text \<open>The time to live is given in whole seconds, and negative for a key without expiry or no key.\<close>

definition ttl_law :: "'s observer \<Rightarrow> 's redis_client \<Rightarrow> bool" where
  "ttl_law entry R \<longleftrightarrow> (\<forall>s t k. case entry s t k of
       Some (v, Some ex) \<Rightarrow> 0 \<le> rc_ttl R s t k \<and> \<bar>rc_ttl R s t k - (ex - t)\<bar> \<le> second
     | _ \<Rightarrow> rc_ttl R s t k < 0)"

definition redis_laws :: "'s observer \<Rightarrow> 's redis_client \<Rightarrow> bool" where
  "redis_laws entry R \<longleftrightarrow> ages entry \<and> get_law entry R \<and> set_law entry R \<and> del_law entry R \<and> incr_law entry R \<and>
     expire_law entry R \<and> frame_law entry R \<and> ttl_law entry R"

lemma redis_get: "redis_laws entry R \<Longrightarrow> rc_get R s t k = map_option fst (entry s t k)"
  by (simp add: redis_laws_def get_law_def)

lemma redis_set: "redis_laws entry R \<Longrightarrow> 0 \<le> ttl \<Longrightarrow>
    entry (rc_set R s t k v ttl) t k' = (if k' = k then Some (v, if ttl = 0 then None else Some (t + whole millisecond ttl)) else entry s t k')"
  by (simp add: redis_laws_def set_law_def)

lemma redis_del: "redis_laws entry R \<Longrightarrow> entry (rc_del R s t k) t k' = (if k' = k then None else entry s t k')"
  by (simp add: redis_laws_def del_law_def)

lemma redis_later:
  "redis_laws entry R \<Longrightarrow> t \<le> t' \<Longrightarrow> entry s t' k =
     (case entry s t k of Some (v, Some ex) \<Rightarrow> if t' < ex then Some (v, Some ex) else None | x \<Rightarrow> x)"
  unfolding redis_laws_def ages_def by blast

lemma redis_incr_new:
  assumes "redis_laws entry R" and "entry s t k = None"
  shows "fst (rc_incr R s t k) = 1"
    and "entry (snd (rc_incr R s t k)) t k' = (if k' = k then Some (FormatInt 1, None) else entry s t k')"
proof -
  have "incr_law entry R" using assms(1) by (simp add: redis_laws_def)
  note law = this [unfolded incr_law_def]
  have "fst (rc_incr R s t k) = 0 + 1 \<and> entry (snd (rc_incr R s t k)) t k' = (if k' = k then Some (FormatInt (0 + 1), None) else entry s t k')"
    using assms(2) law [THEN spec, of s, THEN spec, of t, THEN spec, of k, THEN spec, of k', THEN spec, of 0, THEN spec, of None]
    by (simp add: max_int64_def)
  then show "fst (rc_incr R s t k) = 1" "entry (snd (rc_incr R s t k)) t k' = (if k' = k then Some (FormatInt 1, None) else entry s t k')"
    by simp_all
qed

lemma redis_incr:
  assumes "redis_laws entry R" and "entry s t k = Some (FormatInt n, ex)" and "0 \<le> n" and "n < max_int64"
  shows "fst (rc_incr R s t k) = n + 1"
    and "entry (snd (rc_incr R s t k)) t k' = (if k' = k then Some (FormatInt (n + 1), ex) else entry s t k')"
  using assms unfolding redis_laws_def incr_law_def by blast+

lemma redis_expire:
  assumes "redis_laws entry R" and "entry s t k = Some (v, ex)" and "0 < ttl"
  shows "fst (rc_expire R s t k ttl)"
    and "entry (snd (rc_expire R s t k ttl)) t k' = (if k' = k then Some (v, Some (t + whole second ttl)) else entry s t k')"
  using assms unfolding redis_laws_def expire_law_def by blast+

lemma redis_frame:
  assumes "redis_laws entry R" and "k' \<noteq> k"
  shows "entry (snd (rc_incr R s t k)) t k' = entry s t k'" and "entry (snd (rc_expire R s t k ttl)) t k' = entry s t k'"
  using assms unfolding redis_laws_def frame_law_def by blast+

lemma redis_ttl_live: "redis_laws entry R \<Longrightarrow> entry s t k = Some (v, Some ex) \<Longrightarrow> t + second < ex \<Longrightarrow> 0 < rc_ttl R s t k"
  unfolding redis_laws_def ttl_law_def by (smt (verit) option.simps(5) case_prod_conv)

lemma redis_ttl_none: "redis_laws entry R \<Longrightarrow> entry s t k = Some (v, None) \<Longrightarrow> rc_ttl R s t k < 0"
  unfolding redis_laws_def ttl_law_def by (metis (no_types, lifting) option.simps(4,5) case_prod_conv)

section \<open>The adapter\<close>

datatype redis_error = RedisUnavailable

text \<open>\<open>GET\<close>, compare, \<open>DEL\<close>, as one script.\<close>

definition ConsumeIfMatch :: "bool \<Rightarrow> 's redis_client \<Rightarrow> 's \<Rightarrow> time \<Rightarrow> string \<Rightarrow> string \<Rightarrow> redis_error + (bool \<times> 's)" where
  "ConsumeIfMatch broken R s t key expected =
     (if broken then Inl RedisUnavailable
      else if rc_get R s t key = Some expected then Inr (True, rc_del R s t key) else Inr (False, s))"

definition GetDel :: "bool \<Rightarrow> 's redis_client \<Rightarrow> 's \<Rightarrow> time \<Rightarrow> string \<Rightarrow> redis_error + (string option \<times> 's)" where
  "GetDel broken R s t key =
     (if broken then Inl RedisUnavailable
      else case rc_get R s t key of None \<Rightarrow> Inr (None, s) | Some v \<Rightarrow> Inr (Some v, rc_del R s t key))"

section \<open>A store that keeps the laws\<close>

text \<open>A finite account of the server for examples: a map whose time to live is rounded to the nearest second.\<close>

type_synonym kv = "string \<Rightarrow> kv_entry option"

definition kv_entry_at :: "kv observer" where
  "kv_entry_at s t k = (case s k of Some (v, Some ex) \<Rightarrow> if t < ex then Some (v, Some ex) else None | x \<Rightarrow> x)"

definition kv_redis :: "kv redis_client" where
  "kv_redis = \<lparr>rc_get = (\<lambda>s t k. map_option fst (kv_entry_at s t k)),
     rc_set = (\<lambda>s t k v ttl. s(k := Some (v, if ttl = 0 then None else Some (t + whole millisecond ttl)))),
     rc_del = (\<lambda>s t k. s(k := None)),
     rc_incr = (\<lambda>s t k. case kv_entry_at s t k of
         None \<Rightarrow> (1, s(k := Some (FormatInt 1, None)))
       | Some (v, ex) \<Rightarrow> (case ParseInt v of None \<Rightarrow> (0, s) | Some n \<Rightarrow> (n + 1, s(k := Some (FormatInt (n + 1), ex))))),
     rc_ttl = (\<lambda>s t k. case kv_entry_at s t k of None \<Rightarrow> -2 | Some (v, None) \<Rightarrow> -1 | Some (v, Some ex) \<Rightarrow> (ex - t + 500000000) div second * second),
     rc_expire = (\<lambda>s t k ttl. case kv_entry_at s t k of None \<Rightarrow> (False, s) | Some (v, ex) \<Rightarrow> (True, s(k := Some (v, Some (t + whole second ttl)))))\<rparr>"

definition quiet_env :: "time \<Rightarrow> env" where
  "quiet_env t = \<lparr>now = t, newid = (\<lambda>k. k), trace_parent = [], fault = (\<lambda>_. False)\<rparr>"

lemma kv_redis_incr: "incr_law kv_entry_at kv_redis"
proof -
  have "ParseInt (FormatInt n) = Some n" if "0 \<le> n" "n < max_int64" for n
    using that by (intro ParseInt_FormatInt) simp_all
  then show ?thesis
    unfolding incr_law_def kv_redis_def by (auto simp: kv_entry_at_def split: option.splits)
qed

lemma kv_redis_ttl: "ttl_law kv_entry_at kv_redis"
proof -
  have "0 \<le> (x + 500000000) div second * second \<and> \<bar>(x + 500000000) div second * second - x\<bar> \<le> second" if h: "0 < x" for x :: int
  proof -
    have "(x + 500000000) div second * second = x + 500000000 - (x + 500000000) mod second"
      by (rule minus_mod_eq_div_mult [symmetric])
    moreover have "0 \<le> (x + 500000000) mod second" "(x + 500000000) mod second < second" by simp_all
    moreover have "0 \<le> (x + 500000000) div second" using h by simp
    ultimately show ?thesis using h by (simp add: abs_le_iff) linarith
  qed
  then show ?thesis
    unfolding ttl_law_def kv_redis_def by (auto simp: kv_entry_at_def split: option.splits)
qed

lemma kv_redis_laws: "redis_laws kv_entry_at kv_redis"
  unfolding redis_laws_def
proof (intro conjI kv_redis_incr kv_redis_ttl)
  show "ages kv_entry_at" by (auto simp: ages_def kv_entry_at_def split: option.splits)
  show "get_law kv_entry_at kv_redis" by (simp add: get_law_def kv_redis_def)
  show "set_law kv_entry_at kv_redis"
    using whole_pos [of millisecond] by (auto simp: set_law_def kv_redis_def kv_entry_at_def split: option.splits)
  show "del_law kv_entry_at kv_redis" by (auto simp: del_law_def kv_redis_def kv_entry_at_def)
  show "frame_law kv_entry_at kv_redis" by (auto simp: frame_law_def kv_redis_def kv_entry_at_def split: option.splits)
  show "expire_law kv_entry_at kv_redis"
    using whole_pos [of second] by (auto simp: expire_law_def kv_redis_def kv_entry_at_def split: option.splits)
qed

end
