(* ===== verification/Rate_Limit.thy ===== *)
theory Rate_Limit
  imports Redis_Store
begin

text \<open>
  Fixed-window rate limits: \<^verbatim>\<open>src/internal/infrastructure/database/repository/rate_limit_repository.go\<close> and the
  middleware \<^verbatim>\<open>src/internal/api/http/middleware/rate_limit_middleware.go\<close>. The increment and the reading of the
  remaining lifetime are one pipeline; the expiry is set by a second request. Every outcome comes with the store it
  leaves, since a counter that was incremented stays so when the expiry cannot be set.
\<close>

datatype rate_error = PipelineError | ExpiryError | ExpiryKeyMissing

type_synonym 's limiter_result = "(rate_error + bool \<times> duration) \<times> 's"

definition Allow :: "'s redis_client \<Rightarrow> env \<Rightarrow> 's \<Rightarrow> string \<Rightarrow> int \<Rightarrow> duration \<Rightarrow> 's limiter_result" where
  "Allow R e s key limit window =
     (if fault e ''rate limit pipeline'' then (Inl PipelineError, s)
      else let (count, s1) = rc_incr R s (now e) key;
               ttl = rc_ttl R s1 (now e) key
           in if count = 1 \<or> ttl \<le> 0
              then (if fault e ''failed to set rate limit expiry'' then (Inl ExpiryError, s1)
                    else let (expireSet, s2) = rc_expire R s1 (now e) key window
                         in if \<not> expireSet then (Inl ExpiryKeyMissing, s2)
                            else (Inr (\<not> count > limit, window), s2))
              else (Inr (\<not> count > limit, ttl), s1))"

section \<open>The middleware\<close>

text \<open>
  A request has the user the authentication put into its context, if any, and the address it came from. The next handler
  runs with the fingerprint of the client. The headers the limiter sets come with either outcome.
\<close>

record limited_request =
  lq_user :: "uuid option"
  lq_ip :: string

datatype limit_outcome = Forwarded "string option" | Refused app_error

text \<open>\<open>int(ttl.Seconds())\<close> and \<open>int(math.Ceil(ttl.Seconds()))\<close>, for the durations the limiter returns.\<close>

definition ceil_seconds :: "duration \<Rightarrow> int" where
  "ceil_seconds d = - ((- d) div second)"

definition WithClientFingerprint :: "string option \<Rightarrow> string \<Rightarrow> string option" where
  "WithClientFingerprint ctx fingerprint = (let cleaned = TrimSpace fingerprint in if cleaned = [] then ctx else Some cleaned)"

definition ClientFingerprintFromContext :: "string option \<Rightarrow> string" where
  "ClientFingerprintFromContext ctx = (case ctx of None \<Rightarrow> [] | Some v \<Rightarrow> TrimSpace v)"

definition limit_identity :: "uuid_codec \<Rightarrow> limited_request \<Rightarrow> string \<times> string" where
  "limit_identity codec q =
     (case lq_user q of
        Some u \<Rightarrow> (''ratelimit:user'', UuidString codec u)
      | None \<Rightarrow> (''ratelimit:ip'', lq_ip q))"

definition Limit :: "bool \<Rightarrow> 's redis_client \<Rightarrow> uuid_codec \<Rightarrow> env \<Rightarrow> 's \<Rightarrow> string \<Rightarrow> int \<Rightarrow> duration \<Rightarrow> limited_request \<Rightarrow>
    limit_outcome \<times> (string \<times> int) list \<times> 's" where
  "Limit enabled R codec e s keyName limit window q =
     (if \<not> enabled then (Forwarded None, [], s)
      else let (keyPrefix, identifier) = limit_identity codec q;
               key = keyPrefix @ '':'' @ keyName @ '':'' @ identifier
           in case Allow R e s key limit window of
                (Inl _, s') \<Rightarrow> (Refused (NewServiceUnavailableError ''Rate limiting service unavailable''), [], s')
              | (Inr (allowed, ttl), s') \<Rightarrow>
                  let headers = [(''X-RateLimit-Limit'', limit), (''X-RateLimit-Reset'', ttl div second)]
                  in if \<not> allowed
                     then (Refused (NewTooManyRequestsError ''Rate limit exceeded. Please try again later.''),
                           headers @ [(''X-RateLimit-Remaining'', 0), (''Retry-After'', ceil_seconds ttl)], s')
                     else (Forwarded (WithClientFingerprint None identifier), headers, s'))"

section \<open>One window\<close>

definition no_rate_fault :: "env \<Rightarrow> bool" where
  "no_rate_fault e \<longleftrightarrow> \<not> fault e ''rate limit pipeline'' \<and> \<not> fault e ''failed to set rate limit expiry''"

lemma Allow_first:
  assumes "redis_laws entry R" and "no_rate_fault e" and "0 < window" and "entry s (now e) key = None"
  obtains s' where "Allow R e s key limit window = (Inr (1 \<le> limit, window), s')"
    and "entry s' (now e) key = Some (FormatInt 1, Some (now e + whole second window))"
    and "\<And>k. k \<noteq> key \<Longrightarrow> entry s' (now e) k = entry s (now e) k"
proof -
  obtain s1 where s1: "rc_incr R s (now e) key = (1, s1)"
    using redis_incr_new(1) [OF assms(1,4)] by (metis prod.collapse)
  have e1: "entry s1 (now e) k = (if k = key then Some (FormatInt 1, None) else entry s (now e) k)" for k
    using redis_incr_new(2) [OF assms(1,4), of k] s1 by simp
  obtain s2 where s2: "rc_expire R s1 (now e) key window = (True, s2)"
    using redis_expire(1) [OF assms(1) _ assms(3), of s1 "now e" key] e1 by (metis prod.collapse)
  have e2: "entry s2 (now e) k = (if k = key then Some (FormatInt 1, Some (now e + whole second window)) else entry s1 (now e) k)" for k
    using redis_expire(2) [OF assms(1) _ assms(3), of s1 "now e" key _ _ k] e1 [of key] s2 by simp
  have "Allow R e s key limit window = (Inr (1 \<le> limit, window), s2)"
    using assms(2) s1 s2 by (simp add: Allow_def no_rate_fault_def linorder_not_less)
  then show thesis using that e1 e2 by simp
qed

lemma Allow_next:
  assumes "redis_laws entry R" and "no_rate_fault e" and "entry s (now e) key = Some (FormatInt n, Some ex)"
    and "1 \<le> n" and "n < max_int64" and "now e + second < ex"
  obtains s' ttl where "Allow R e s key limit window = (Inr (n + 1 \<le> limit, ttl), s')"
    and "entry s' (now e) key = Some (FormatInt (n + 1), Some ex)"
    and "\<And>k. k \<noteq> key \<Longrightarrow> entry s' (now e) k = entry s (now e) k"
proof -
  obtain s1 where s1: "rc_incr R s (now e) key = (n + 1, s1)"
    using redis_incr(1) [OF assms(1,3) _ assms(5)] assms(4) by (metis prod.collapse linear not_one_le_zero order_trans zero_le_one)
  have e1: "entry s1 (now e) k = (if k = key then Some (FormatInt (n + 1), Some ex) else entry s (now e) k)" for k
    using redis_incr(2) [OF assms(1,3) _ assms(5), of k] assms(4) s1 by simp
  have "0 < rc_ttl R s1 (now e) key"
    using redis_ttl_live [OF assms(1), of s1 "now e" key] e1 [of key] assms(6) by simp
  then have "Allow R e s key limit window = (Inr (n + 1 \<le> limit, rc_ttl R s1 (now e) key), s1)"
    using assms(2,4) s1 by (auto simp: Allow_def no_rate_fault_def)
  then show thesis using that e1 by simp
qed

text \<open>The calls of one key at a sequence of instants.\<close>

fun allow_run :: "'s redis_client \<Rightarrow> env \<Rightarrow> 's \<Rightarrow> string \<Rightarrow> int \<Rightarrow> duration \<Rightarrow> time list \<Rightarrow> (rate_error + bool \<times> duration) list \<times> 's" where
  "allow_run R e s key limit window [] = ([], s)"
| "allow_run R e s key limit window (t # ts) =
     (let (x, s1) = Allow R (e\<lparr>now := t\<rparr>) s key limit window;
          (xs, s2) = allow_run R e s1 key limit window ts
      in (x # xs, s2))"

definition call_allowed :: "rate_error + bool \<times> duration \<Rightarrow> bool" where
  "call_allowed r = (case r of Inl _ \<Rightarrow> False | Inr (a, _) \<Rightarrow> a)"

lemma call_allowed_simps [simp]: "call_allowed (Inr (a, ttl)) = a" "call_allowed (Inl e) = False"
  by (simp_all add: call_allowed_def)

lemma allow_run_window:
  assumes "redis_laws entry R" and "no_rate_fault e"
    and "entry s t0 key = Some (FormatInt n, Some ex)" and "1 \<le> n" and "n + int (length ts) \<le> max_int64"
    and "sorted (t0 # ts)" and "\<forall>t\<in>set ts. t + second < ex"
  shows "map call_allowed (fst (allow_run R e s key limit window ts)) = map (\<lambda>i. n + int i < limit) [0..<length ts] \<and>
    entry (snd (allow_run R e s key limit window ts)) (last (t0 # ts)) key = Some (FormatInt (n + int (length ts)), Some ex)"
  using assms(3-)
proof (induction ts arbitrary: s t0 n)
  case (Cons t ts)
  let ?e = "e\<lparr>now := t\<rparr>"
  have nf: "no_rate_fault ?e" using assms(2) by (simp add: no_rate_fault_def)
  have cur: "entry s (now ?e) key = Some (FormatInt n, Some ex)"
    using redis_later [OF assms(1), of t0 t s key] Cons.prems(1,4,5) by auto
  obtain s' ttl where al: "Allow R ?e s key limit window = (Inr (n + 1 \<le> limit, ttl), s')"
    and en: "entry s' t key = Some (FormatInt (n + 1), Some ex)"
  proof (rule Allow_next [OF assms(1) nf cur, of limit window])
    show "1 \<le> n" "n < max_int64" "now ?e + second < ex" using Cons.prems(2-5) by simp_all
  qed simp
  have IH: "map call_allowed (fst (allow_run R e s' key limit window ts)) = map (\<lambda>i. n + 1 + int i < limit) [0..<length ts] \<and>
      entry (snd (allow_run R e s' key limit window ts)) (last (t # ts)) key = Some (FormatInt (n + 1 + int (length ts)), Some ex)"
    using Cons.prems by (intro Cons.IH en) simp_all
  have run: "allow_run R e s key limit window (t # ts) =
      (Inr (n + 1 \<le> limit, ttl) # fst (allow_run R e s' key limit window ts), snd (allow_run R e s' key limit window ts))"
    using al by (simp add: case_prod_unfold Let_def)
  have shift: "map (\<lambda>i. n + int i < limit) [0..<Suc k] = (n + 1 \<le> limit) # map (\<lambda>i. n + 1 + int i < limit) [0..<k]" for k
    by (simp add: upt_conv_Cons map_Suc_upt [symmetric] comp_def zless_add1_eq add.assoc del: upt_Suc) linarith
  show ?case
    using IH shift [of "length ts"] by (simp add: run algebra_simps del: upt_Suc allow_run.simps)
qed simp_all

lemma Allow_frame:
  assumes "redis_laws entry R" and "k \<noteq> key"
  shows "entry (snd (Allow R e s key limit window)) (now e) k = entry s (now e) k"
  using redis_frame [OF assms] by (simp add: Allow_def Let_def case_prod_unfold)

text \<open>From a missing counter on, of the calls within one window exactly the first \<open>limit\<close> are allowed, as long as
  none falls into the last second of the window; and when the window is over, the next call is the first of a new one.
\<close>

theorem rate_limit_window:
  assumes "redis_laws entry R" and "no_rate_fault e" and "0 < limit" and "0 < window" and "window mod second = 0"
    and "entry s t0 key = None" and "sorted (t0 # ts)" and "\<forall>t\<in>set ts. t + second < t0 + window" and "int (length ts) < max_int64"
    and "t0 + window \<le> t1"
  shows "map call_allowed (fst (allow_run R e s key limit window (t0 # ts))) = map (\<lambda>i. int i < limit) [0..<Suc (length ts)] \<and>
     fst (Allow R (e\<lparr>now := t1\<rparr>) (snd (allow_run R e s key limit window (t0 # ts))) key limit window) = Inr (True, window)"
proof -
  let ?e0 = "e\<lparr>now := t0\<rparr>" and ?e1 = "e\<lparr>now := t1\<rparr>"
  have nf: "no_rate_fault ?e0" "no_rate_fault ?e1" using assms(2) by (simp_all add: no_rate_fault_def)
  have none: "entry s (now ?e0) key = None" using assms(6) by simp
  obtain s' where al: "Allow R ?e0 s key limit window = (Inr (1 \<le> limit, window), s')"
    and en: "entry s' (now ?e0) key = Some (FormatInt 1, Some (now ?e0 + whole second window))"
    by (rule Allow_first [OF assms(1) nf(1) assms(4) none, of limit])
  have "window \<ge> second" using assms(4,5) by (metis mod_pos_pos_trivial not_le order_less_imp_le order_less_irrefl)
  then have en: "entry s' t0 key = Some (FormatInt 1, Some (t0 + window))"
    using en assms(5) by (simp add: whole_def)
  define r where "r = allow_run R e s' key limit window ts"
  have run: "map call_allowed (fst r) = map (\<lambda>i. 1 + int i < limit) [0..<length ts]"
    "entry (snd r) (last (t0 # ts)) key = Some (FormatInt (1 + int (length ts)), Some (t0 + window))"
    using allow_run_window [OF assms(1,2) en, of ts limit window] assms(7-9) by (simp_all add: r_def)
  have le: "last (t0 # ts) \<le> t1"
  proof (cases "ts = []")
    case False
    then have "last ts \<in> set ts" by simp
    then have "last ts + second < t0 + window" using assms(8) by blast
    then show ?thesis using False assms(10) by simp
  qed (use assms(4,10) in simp)
  have "entry (snd r) (now ?e1) key = None"
    using redis_later [OF assms(1) le, of "snd r" key] run(2) assms(10) by simp
  then obtain s'' where "Allow R ?e1 (snd r) key limit window = (Inr (1 \<le> limit, window), s'')"
    by (rule Allow_first [OF assms(1) nf(2) assms(4), of "snd r" key limit])
  moreover have "allow_run R e s key limit window (t0 # ts) = (Inr (1 \<le> limit, window) # fst r, snd r)"
    using al by (simp add: r_def case_prod_unfold Let_def)
  moreover have "map (\<lambda>i. int i < limit) [0..<Suc (length ts)] = (1 \<le> limit) # map (\<lambda>i. 1 + int i < limit) [0..<length ts]"
    using assms(3) by (simp add: upt_conv_Cons map_Suc_upt [symmetric] comp_def del: upt_Suc)
  ultimately show ?thesis using run(1) assms(3) by simp
qed

theorem rate_limit_window_witness:
  "map call_allowed (fst (allow_run kv_redis (quiet_env 0) (\<lambda>_. None) ''k'' 1 (60 * second) [0, 5])) = map (\<lambda>i. int i < 1) [0..<Suc (length [5 :: int])] \<and>
   fst (Allow kv_redis (quiet_env 0\<lparr>now := 60 * second\<rparr>) (snd (allow_run kv_redis (quiet_env 0) (\<lambda>_. None) ''k'' 1 (60 * second) [0, 5])) ''k'' 1 (60 * second))
     = Inr (True, 60 * second)"
  by (rule rate_limit_window [OF kv_redis_laws])
    (simp_all add: no_rate_fault_def quiet_env_def kv_entry_at_def max_int64_def)

text \<open>The reading of the lifetime is rounded: in the last half second of a window it is zero for a counter that is still there.
  Such a call, allowed or not, restarts the window with the old count, so that a client that is over the limit
  is refused for another whole window.
\<close>

theorem rate_window_extended:
  assumes "redis_laws entry R" and "no_rate_fault e" and "second \<le> window" and "window mod second = 0"
    and "entry s (now e) key = Some (FormatInt n, Some ex)" and "1 \<le> n" and "n + 1 < max_int64"
    and "rc_ttl R (snd (rc_incr R s (now e) key)) (now e) key = 0"
    and "limit \<le> n" and "now e \<le> t" and "t + second < now e + window"
  shows "\<not> call_allowed (fst (Allow R (e\<lparr>now := t\<rparr>) (snd (Allow R e s key limit window)) key limit window))"
proof -
  obtain s1 where s1: "rc_incr R s (now e) key = (n + 1, s1)"
    using redis_incr(1) [OF assms(1,5)] assms(6,7) by (metis prod.collapse add.commute add_le_cancel_right linorder_not_less order_less_le zero_le_one order_trans zless_add1_eq)
  have e1: "entry s1 (now e) key = Some (FormatInt (n + 1), Some ex)"
    using redis_incr(2) [OF assms(1,5), of key] assms(6,7) s1 by simp
  have pos: "0 < window" using assms(3) by simp
  obtain s2 where s2: "rc_expire R s1 (now e) key window = (True, s2)"
    using redis_expire(1) [OF assms(1) e1 pos] by (metis prod.collapse)
  have e2: "entry s2 (now e) key = Some (FormatInt (n + 1), Some (now e + window))"
    using redis_expire(2) [OF assms(1) e1 pos, of key] s2 assms(3,4) by (simp add: whole_def)
  have al: "snd (Allow R e s key limit window) = s2"
    using assms(2,8) s1 s2 by (simp add: Allow_def no_rate_fault_def)
  let ?e = "e\<lparr>now := t\<rparr>"
  have nf: "no_rate_fault ?e" using assms(2) by (simp add: no_rate_fault_def)
  have cur: "entry s2 (now ?e) key = Some (FormatInt (n + 1), Some (now e + window))"
    using redis_later [OF assms(1,10), of s2 key] e2 assms(11) by simp
  show ?thesis
    using Allow_next [OF assms(1) nf cur, of limit window "\<not> call_allowed (fst (Allow R ?e s2 key limit window))"] assms(6,7,9,11)
    by (simp add: al)
qed

theorem rate_window_extended_witness:
  "\<not> call_allowed (fst (Allow kv_redis (quiet_env (60 * second - 1)\<lparr>now := 100 * second\<rparr>)
      (snd (Allow kv_redis (quiet_env (60 * second - 1)) [''k'' \<mapsto> (''3'', Some (60 * second))] ''k'' 3 (60 * second))) ''k'' 3 (60 * second)))"
proof (rule rate_window_extended [OF kv_redis_laws])
  have "FormatInt 3 = ''3''" by code_simp
  then show "kv_entry_at [''k'' \<mapsto> (''3'', Some (60 * second))] (now (quiet_env (60 * second - 1))) ''k'' = Some (FormatInt 3, Some (60 * second))"
    by (simp add: kv_entry_at_def quiet_env_def)
  have "ParseInt ''3'' = Some 3" by code_simp
  then show "rc_ttl kv_redis (snd (rc_incr kv_redis [''k'' \<mapsto> (''3'', Some (60 * second))] (now (quiet_env (60 * second - 1))) ''k''))
      (now (quiet_env (60 * second - 1))) ''k'' = 0"
    by (simp add: kv_redis_def kv_entry_at_def quiet_env_def)
qed (simp_all add: no_rate_fault_def quiet_env_def max_int64_def)

end
