(* ===== verification/Session_Store.thy ===== *)
theory Session_Store
  imports Redis_Store
begin

text \<open>
  Ending sessions: \<^verbatim>\<open>src/internal/infrastructure/database/repository/session_repository.go\<close> and the
  transaction helpers of \<^verbatim>\<open>src/internal/domain/helper/session_revoke.go\<close>. A user's sessions are ended by a marker
  \<open>revoked_user:<id>\<close> that holds the instant of the revocation and a fresh identifier (the argument \<open>nonce\<close>); one token
  is ended by an entry of the blacklist. The digest of a token is the argument \<open>sha256_hex\<close>. A call that fails is
  named by the text of its error.
\<close>

record app_config =
  JWTSecret :: string
  JWTExp :: int
  OTPSecret :: string
  OTPExp :: int
  OTPRateLimitSeconds :: int

record 's session_repository =
  sr_redis :: "'s redis_client"
  sr_cfg :: app_config
  sr_codec :: uuid_codec

definition UnixMilli :: "time \<Rightarrow> int" where
  "UnixMilli t = t div millisecond"

datatype session_error = RevokeError string | BadMarker parse_error

section \<open>Revoking all sessions of a user\<close>

definition revoke_key :: "'s session_repository \<Rightarrow> uuid \<Rightarrow> string" where
  "revoke_key r userID = ''revoked_user:'' @ UuidString (sr_codec r) userID"

definition RevokeAllSessionsAt :: "'s session_repository \<Rightarrow> env \<Rightarrow> 's \<Rightarrow> string \<Rightarrow> uuid \<Rightarrow> int \<Rightarrow> session_error + (string \<times> 's)" where
  "RevokeAllSessionsAt r e s nonce userID revokedAt =
     (let ttl = wrap64 (JWTExp (sr_cfg r) * second);
          marker = FormatInt revokedAt @ '':'' @ nonce
      in if fault e ''failed to revoke sessions'' then Inl (RevokeError ''failed to revoke sessions'')
         else Inr (marker, rc_set (sr_redis r) s (now e) (revoke_key r userID) marker ttl))"

definition RevokeAllSessions :: "'s session_repository \<Rightarrow> env \<Rightarrow> 's \<Rightarrow> string \<Rightarrow> uuid \<Rightarrow> session_error + 's" where
  "RevokeAllSessions r e s nonce userID =
     and_then (RevokeAllSessionsAt r e s nonce userID (UnixMilli (now e))) (\<lambda>(_, s'). Inr s')"

record revoke_snapshot =
  sn_exists :: bool
  sn_value :: string
  sn_ttl :: duration

definition zero_snapshot :: revoke_snapshot where
  "zero_snapshot = \<lparr>sn_exists = False, sn_value = [], sn_ttl = 0\<rparr>"

definition SnapshotUserRevoke :: "'s session_repository \<Rightarrow> env \<Rightarrow> 's \<Rightarrow> uuid \<Rightarrow> session_error + revoke_snapshot" where
  "SnapshotUserRevoke r e s userID =
     (if fault e ''failed to snapshot revoke key'' then Inl (RevokeError ''failed to snapshot revoke key'')
      else case rc_get (sr_redis r) s (now e) (revoke_key r userID) of
             None \<Rightarrow> Inr zero_snapshot
           | Some val \<Rightarrow>
               if fault e ''failed to read revoke key ttl'' then Inl (RevokeError ''failed to read revoke key ttl'')
               else (let ttl = rc_ttl (sr_redis r) s (now e) (revoke_key r userID)
                     in Inr \<lparr>sn_exists = True, sn_value = val, sn_ttl = (if ttl < 0 then 0 else ttl)\<rparr>))"

text \<open>Only the marker of this transaction is taken back: another one in its place stays.\<close>

definition RollbackUserRevoke :: "'s session_repository \<Rightarrow> env \<Rightarrow> 's \<Rightarrow> uuid \<Rightarrow> string \<Rightarrow> revoke_snapshot \<Rightarrow> session_error + 's" where
  "RollbackUserRevoke r e s userID expectedValue snapshot =
     (if expectedValue = [] then Inr s
      else if fault e ''failed to read revoke key for rollback'' then Inl (RevokeError ''failed to read revoke key for rollback'')
      else case rc_get (sr_redis r) s (now e) (revoke_key r userID) of
             None \<Rightarrow> Inr s
           | Some currentValue \<Rightarrow>
               if currentValue \<noteq> expectedValue then Inr s
               else if sn_exists snapshot then
                 (if fault e ''failed to restore previous revoke key'' then Inl (RevokeError ''failed to restore previous revoke key'')
                  else Inr (rc_set (sr_redis r) s (now e) (revoke_key r userID) (sn_value snapshot) (sn_ttl snapshot)))
               else if fault e ''failed to delete revoke key during rollback'' then Inl (RevokeError ''failed to delete revoke key during rollback'')
               else Inr (rc_del (sr_redis r) s (now e) (revoke_key r userID)))"

definition IsUserRevoked :: "'s session_repository \<Rightarrow> env \<Rightarrow> 's \<Rightarrow> uuid \<Rightarrow> int \<Rightarrow> session_error + bool" where
  "IsUserRevoked r e s userID tokenIssuedAt =
     (if fault e ''revoked user lookup'' then Inl (RevokeError ''revoked user lookup'')
      else case rc_get (sr_redis r) s (now e) (revoke_key r userID) of
             None \<Rightarrow> Inr False
           | Some revokedAtStr \<Rightarrow> on_err (IsSessionRevoked revokedAtStr tokenIssuedAt) BadMarker)"

section \<open>Around a transaction (session\_revoke.go)\<close>

definition RevokeSessionsForTransaction :: "'s session_repository \<Rightarrow> env \<Rightarrow> 's \<Rightarrow> string \<Rightarrow> uuid \<Rightarrow>
    session_error + (string \<times> revoke_snapshot \<times> 's)" where
  "RevokeSessionsForTransaction r e s nonce userID =
     and_then (SnapshotUserRevoke r e s userID) (\<lambda>snapshot.
     and_then (RevokeAllSessionsAt r e s nonce userID (UnixMilli (now e))) (\<lambda>(marker, s').
       Inr (marker, snapshot, s')))"

definition RollbackSessionRevokeIfNeeded :: "'s session_repository \<Rightarrow> env \<Rightarrow> 's \<Rightarrow> uuid \<Rightarrow> string \<Rightarrow> revoke_snapshot \<Rightarrow> 's" where
  "RollbackSessionRevokeIfNeeded r e s userID expectedValue snapshot =
     (if expectedValue = [] then s
      else case RollbackUserRevoke r e s userID expectedValue snapshot of Inl _ \<Rightarrow> s | Inr s' \<Rightarrow> s')"

section \<open>The blacklist\<close>

text \<open>Of the two entries the first can be written and the second fail.\<close>

definition BlacklistToken :: "'s session_repository \<Rightarrow> (string \<Rightarrow> string) \<Rightarrow> env \<Rightarrow> 's \<Rightarrow> string \<Rightarrow> duration \<Rightarrow> session_error option \<times> 's" where
  "BlacklistToken r sha256_hex e s tokenString ttl =
     (if fault e ''push logout'' then (Some (RevokeError ''push logout''), s)
      else let s1 = rc_set (sr_redis r) s (now e) (''push_logout:'' @ sha256_hex tokenString) ''revoked'' ttl
           in if fault e ''blacklist'' then (Some (RevokeError ''blacklist''), s1)
              else (None, rc_set (sr_redis r) s1 (now e) (''blacklist:'' @ tokenString) ''revoked'' ttl))"

definition IsTokenBlacklisted :: "'s session_repository \<Rightarrow> env \<Rightarrow> 's \<Rightarrow> string \<Rightarrow> session_error + bool" where
  "IsTokenBlacklisted r e s tokenString =
     (if fault e ''blacklist lookup'' then Inl (RevokeError ''blacklist lookup'')
      else case rc_get (sr_redis r) s (now e) (''blacklist:'' @ tokenString) of
             None \<Rightarrow> Inr False
           | Some val \<Rightarrow> Inr (val \<noteq> []))"

section \<open>What the calls do to the store\<close>

text \<open>The configured lifetime is positive and its nanoseconds fit into a duration.\<close>

definition session_config :: "app_config \<Rightarrow> bool" where
  "session_config cfg \<longleftrightarrow> 0 < JWTExp cfg \<and> JWTExp cfg \<le> 9000000000"

lemma session_ttl: "session_config cfg \<Longrightarrow> wrap64 (JWTExp cfg * second) = JWTExp cfg * second"
  by (intro wrap64_id) (simp_all add: session_config_def max_int64_def)

text \<open>An instant between 1970 and the year 2262.\<close>

definition instant_ok :: "time \<Rightarrow> bool" where
  "instant_ok t \<longleftrightarrow> 0 \<le> t \<and> t \<le> max_int64"

lemma UnixMilli_range: "instant_ok t \<Longrightarrow> 0 \<le> UnixMilli t \<and> UnixMilli t \<le> max_int64"
  using zdiv_mono1 [of t max_int64 millisecond] pos_imp_zdiv_nonneg_iff [of millisecond t]
  by (simp add: instant_ok_def UnixMilli_def max_int64_def)

lemma UnixMilli_mono: "t \<le> t' \<Longrightarrow> UnixMilli t \<le> UnixMilli t'"
  by (simp add: UnixMilli_def zdiv_mono1)

lemma RevokeAllSessionsAt_entry:
  assumes "redis_laws entry (sr_redis r)" and "session_config (sr_cfg r)"
    and "RevokeAllSessionsAt r e s nonce userID at = Inr (marker, s')"
  shows "marker = FormatInt at @ '':'' @ nonce"
    and "entry s' (now e) k = (if k = revoke_key r userID then Some (marker, Some (now e + JWTExp (sr_cfg r) * second)) else entry s (now e) k)"
proof -
  have pos: "0 < JWTExp (sr_cfg r)" using assms(2) by (simp add: session_config_def)
  show "marker = FormatInt at @ '':'' @ nonce"
    using assms(3) by (auto simp: RevokeAllSessionsAt_def Let_def split: if_splits)
  show "entry s' (now e) k = (if k = revoke_key r userID then Some (marker, Some (now e + JWTExp (sr_cfg r) * second)) else entry s (now e) k)"
    using assms(3) pos by (auto simp: RevokeAllSessionsAt_def Let_def session_ttl [OF assms(2)] redis_set [OF assms(1)] whole_seconds split: if_splits)
qed

lemma RevokeSessionsForTransaction_Inr:
  assumes "RevokeSessionsForTransaction r e s nonce userID = Inr (marker, snapshot, s')"
  shows "SnapshotUserRevoke r e s userID = Inr snapshot"
    and "RevokeAllSessionsAt r e s nonce userID (UnixMilli (now e)) = Inr (marker, s')"
  using assms by (auto simp: RevokeSessionsForTransaction_def result_simps)

text \<open>A user is revoked while the marker is there, for every token issued no later than it says.\<close>

definition revoked_until :: "'s observer \<Rightarrow> 's session_repository \<Rightarrow> 's \<Rightarrow> time \<Rightarrow> uuid \<Rightarrow> time \<Rightarrow> bool" where
  "revoked_until entry r s t userID at \<longleftrightarrow>
     (\<exists>nonce. entry s t (revoke_key r userID) =
        Some (FormatInt (UnixMilli at) @ '':'' @ nonce, Some (at + JWTExp (sr_cfg r) * second)))"

lemma RevokeSessionsForTransaction_revokes:
  assumes "redis_laws entry (sr_redis r)" and "session_config (sr_cfg r)"
    and "RevokeSessionsForTransaction r e s nonce userID = Inr (marker, snapshot, s')"
  shows "revoked_until entry r s' (now e) userID (now e)"
  using RevokeAllSessionsAt_entry [OF assms(1,2) RevokeSessionsForTransaction_Inr(2) [OF assms(3)]]
  unfolding revoked_until_def by (metis (full_types))

lemma revoked_until_later:
  assumes "redis_laws entry R" and "revoked_until entry r s t userID at" and "t \<le> t'" and "t' < at + JWTExp (sr_cfg r) * second"
  shows "revoked_until entry r s t' userID at"
  using assms(2,4) redis_later [OF assms(1,3), of s "revoke_key r userID"] unfolding revoked_until_def by auto

lemma revoked_until_refuses:
  assumes "redis_laws entry (sr_redis r)" and "revoked_until entry r s (now e) userID at" and "instant_ok at"
    and "\<not> fault e ''revoked user lookup''" and "issued \<le> UnixMilli at"
  shows "IsUserRevoked r e s userID issued = Inr True"
proof -
  obtain nonce where en: "entry s (now e) (revoke_key r userID) =
      Some (FormatInt (UnixMilli at) @ '':'' @ nonce, Some (at + JWTExp (sr_cfg r) * second))"
    using assms(2) unfolding revoked_until_def by blast
  have "IsSessionRevoked (FormatInt (UnixMilli at) @ '':'' @ nonce) issued = Inr True"
    using IsSessionRevoked_marker [of "UnixMilli at"] UnixMilli_range [OF assms(3)] assms(5) by simp
  then show ?thesis using assms(4) by (simp add: IsUserRevoked_def redis_get [OF assms(1)] en)
qed

text \<open>A token issued in a later millisecond is not touched by the marker.\<close>

lemma revoked_until_spares:
  assumes "redis_laws entry (sr_redis r)" and "revoked_until entry r s (now e) userID at" and "instant_ok at"
    and "\<not> fault e ''revoked user lookup''" and "1000000000000 \<le> UnixMilli at" and "UnixMilli at < issued"
  shows "IsUserRevoked r e s userID issued = Inr False"
proof -
  obtain nonce where en: "entry s (now e) (revoke_key r userID) =
      Some (FormatInt (UnixMilli at) @ '':'' @ nonce, Some (at + JWTExp (sr_cfg r) * second))"
    using assms(2) unfolding revoked_until_def by blast
  have "IsSessionRevoked (FormatInt (UnixMilli at) @ '':'' @ nonce) issued = Inr False"
    using IsSessionRevoked_marker [of "UnixMilli at"] UnixMilli_range [OF assms(3)] assms(5,6) by simp
  then show ?thesis using assms(4) by (simp add: IsUserRevoked_def redis_get [OF assms(1)] en)
qed

section \<open>Taking a revocation back\<close>

text \<open>When the transaction of a revocation does not commit, the rollback gives back to the user the marker he had
  before, or none when he had none; but when another revocation has replaced the marker meanwhile, that
  one stays as it is.
\<close>

theorem revoke_rollback_restores:
  assumes "redis_laws entry (sr_redis r)" and "session_config (sr_cfg r)"
    and "RevokeSessionsForTransaction r e s nonce userID = Inr (marker, snapshot, s1)"
    and "fault e' = (\<lambda>_. False)" and "now e \<le> now e'" and "now e' < now e + JWTExp (sr_cfg r) * second"
  shows "map_option fst (entry (RollbackSessionRevokeIfNeeded r e' s1 userID marker snapshot) (now e') (revoke_key r userID)) =
           map_option fst (entry s (now e) (revoke_key r userID))"
    and "map_option fst (entry s2 (now e') (revoke_key r userID)) \<noteq> Some marker \<Longrightarrow>
           RollbackSessionRevokeIfNeeded r e' s2 userID marker snapshot = s2"
proof -
  note snap = RevokeSessionsForTransaction_Inr(1) [OF assms(3)]
  note set = RevokeAllSessionsAt_entry [OF assms(1,2) RevokeSessionsForTransaction_Inr(2) [OF assms(3)]]
  have ne: "marker \<noteq> []" using set(1) by simp
  have cur: "rc_get (sr_redis r) s1 (now e') (revoke_key r userID) = Some marker"
    using redis_later [OF assms(1,5), of s1 "revoke_key r userID"] set(2) [of "revoke_key r userID"] assms(6)
    by (simp add: redis_get [OF assms(1)])
  show "map_option fst (entry (RollbackSessionRevokeIfNeeded r e' s1 userID marker snapshot) (now e') (revoke_key r userID)) =
           map_option fst (entry s (now e) (revoke_key r userID))"
  proof (cases "entry s (now e) (revoke_key r userID)")
    case None
    then have "snapshot = zero_snapshot"
      using snap by (auto simp: SnapshotUserRevoke_def redis_get [OF assms(1)] split: if_splits)
    then show ?thesis using ne cur assms(4) None
      by (simp add: RollbackSessionRevokeIfNeeded_def RollbackUserRevoke_def zero_snapshot_def redis_del [OF assms(1)])
  next
    case (Some en)
    then have "sn_exists snapshot \<and> sn_value snapshot = fst en \<and> 0 \<le> sn_ttl snapshot"
      using snap by (auto simp: SnapshotUserRevoke_def redis_get [OF assms(1)] Let_def split: if_splits)
    then show ?thesis using ne cur assms(4) Some
      by (simp add: RollbackSessionRevokeIfNeeded_def RollbackUserRevoke_def redis_set [OF assms(1)])
  qed
  show "RollbackSessionRevokeIfNeeded r e' s2 userID marker snapshot = s2"
    if h: "map_option fst (entry s2 (now e') (revoke_key r userID)) \<noteq> Some marker"
    using h assms(4) by (auto simp: RollbackSessionRevokeIfNeeded_def RollbackUserRevoke_def redis_get [OF assms(1)] split: option.splits)
qed

definition sample_sessions :: "kv session_repository" where
  "sample_sessions = \<lparr>sr_redis = kv_redis, sr_cfg = \<lparr>JWTSecret = ''s'', JWTExp = 3600, OTPSecret = ''o'', OTPExp = 300, OTPRateLimitSeconds = 60\<rparr>,
     sr_codec = unary_codec\<rparr>"

theorem revoke_rollback_restores_witness:
  "map_option fst (kv_entry_at (RollbackSessionRevokeIfNeeded sample_sessions (quiet_env 9) (snd (snd (projr (RevokeSessionsForTransaction sample_sessions (quiet_env 5)
       (\<lambda>_. None) ''n'' 1)))) 1 ''0:n'' zero_snapshot) (now (quiet_env 9)) (revoke_key sample_sessions 1)) =
   map_option fst (kv_entry_at (\<lambda>_. None) (now (quiet_env 5)) (revoke_key sample_sessions 1))"
proof (rule revoke_rollback_restores(1))
  let ?r = "RevokeSessionsForTransaction sample_sessions (quiet_env 5) (\<lambda>_. None) ''n'' 1"
  show "redis_laws kv_entry_at (sr_redis sample_sessions)" by (simp add: sample_sessions_def kv_redis_laws)
  show "session_config (sr_cfg sample_sessions)" by (simp add: session_config_def sample_sessions_def)
  have "case ?r of Inl _ \<Rightarrow> False | Inr (m, sn, _) \<Rightarrow> m = ''0:n'' \<and> sn = zero_snapshot" by code_simp
  then show "?r = Inr (''0:n'', zero_snapshot, snd (snd (projr ?r)))" by (auto split: sum.splits)
qed (simp_all add: quiet_env_def sample_sessions_def)

end
