(* ===== verification/Otp_Service.thy ===== *)
theory Otp_Service
  imports Rate_Limit Session_Store Samples
begin

text \<open>
  One-time passwords: \<^verbatim>\<open>src/internal/api/application/auth/otp_service.go\<close>. The keyed digest \<open>HashOTP\<close>, the
  verdict of the captcha service, the random number and the outcome of the mail server are arguments, and so is the validator of the
  request. The mail is sent before or after the response, depending on \<open>SMTPAsync\<close>; the store given is
  the one after it was sent or could not be sent.
\<close>

definition ModeRegister :: string where "ModeRegister = ''register''"
definition ModeReset :: string where "ModeReset = ''reset''"
definition ModeChangeEmail :: string where "ModeChangeEmail = ''change_email''"

record 's otp_service =
  os_cfg :: app_config
  os_redis :: "'s redis_client"
  os_lower :: "string \<Rightarrow> string"
  HashOTP :: "string \<Rightarrow> string \<Rightarrow> string"

record otp_request =
  or_email :: string
  or_mode :: string
  or_captcha_token :: string

text \<open>\<open>%06d\<close> of a number below a million.\<close>

definition six_digits :: "nat \<Rightarrow> string" where
  "six_digits n = replicate (6 - length (digits_nat n)) CHR ''0'' @ digits_nat n"

definition otpVerifyRateLimitCount :: int where "otpVerifyRateLimitCount = 5"

definition clientRateLimitScope :: "'s otp_service \<Rightarrow> string option \<Rightarrow> string" where
  "clientRateLimitScope svc ctx =
     (let fingerprint = ClientFingerprintFromContext ctx
      in if fingerprint = [] then ''global'' else HashOTP svc fingerprint (OTPSecret (os_cfg svc)))"

definition otp_key :: "string \<Rightarrow> string \<Rightarrow> string" where
  "otp_key mode email = ''otp:'' @ mode @ '':'' @ email"

definition send_limit_key :: "string \<Rightarrow> string \<Rightarrow> string \<Rightarrow> string" where
  "send_limit_key mode email scope = ''ratelimit:otp:'' @ mode @ '':'' @ email @ '':'' @ scope"

definition verify_limit_key :: "string \<Rightarrow> string \<Rightarrow> string \<Rightarrow> string" where
  "verify_limit_key mode email scope = ''ratelimit:otp_verify:'' @ mode @ '':'' @ email @ '':'' @ scope"

definition try_again :: "duration \<Rightarrow> app_error" where
  "try_again ttl = NewTooManyRequestsError (''Please try again in '' @ FormatInt (ceil_seconds ttl) @ '' seconds'')"

section \<open>SendOTP\<close>

definition send_window :: "app_config \<Rightarrow> duration" where
  "send_window cfg = (let window = wrap64 (OTPRateLimitSeconds cfg * second) in if window = 0 then 60 * second else window)"

text \<open>Whether a code is sent: the answer does not tell whether the address is known.\<close>

definition should_send :: "string \<Rightarrow> bool \<Rightarrow> bool" where
  "should_send mode userExists \<longleftrightarrow>
     \<not> ((mode = ModeRegister \<or> mode = ModeChangeEmail) \<and> userExists) \<and> \<not> (mode = ModeReset \<and> \<not> userExists)"

definition store_otp :: "'s otp_service \<Rightarrow> env \<Rightarrow> bool \<Rightarrow> 's \<Rightarrow> string \<Rightarrow> string \<Rightarrow> string \<Rightarrow> (app_error + (string \<times> string) option) \<times> 's" where
  "store_otp svc e mail_ok s mode email code =
     (let hashedCode = HashOTP svc code (OTPSecret (os_cfg svc));
          key = otp_key mode email;
          otpTTL = wrap64 (OTPExp (os_cfg svc) * second)
      in if fault e ''save otp'' then (Inl (NewInternalServerError []), s)
         else let s1 = rc_set (os_redis svc) s (now e) key hashedCode otpTTL
              in if fault e ''email body'' then (Inr None, s1)
                 else if mail_ok then (Inr (Some (email, code)), s1)
                 else (Inr None, case ConsumeIfMatch (fault e ''withdraw otp'') (os_redis svc) s1 (now e) key hashedCode of
                                   Inl _ \<Rightarrow> s1 | Inr (_, s2) \<Rightarrow> s2))"

definition SendOTP :: "'s otp_service \<Rightarrow> env \<Rightarrow> (otp_request \<Rightarrow> bool) \<Rightarrow> (string \<Rightarrow> bool) \<Rightarrow> nat option \<Rightarrow> bool \<Rightarrow> string option \<Rightarrow>
    db \<Rightarrow> 's \<Rightarrow> otp_request \<Rightarrow> (app_error + (string \<times> string) option) \<times> 's" where
  "SendOTP svc e valid captcha random mail_ok ctx d s req0 =
     (let req = req0\<lparr>or_email := NormalizeEmail (os_lower svc) (or_email req0)\<rparr>;
          mode = or_mode req; email = or_email req
      in if \<not> valid req then (Inl (NewBadRequestError []), s)
         else if \<not> captcha (or_captcha_token req) then (Inl (NewBadRequestError []), s)
         else case Allow (os_redis svc) e s (send_limit_key mode email (clientRateLimitScope svc ctx)) 1 (send_window (os_cfg svc)) of
                (Inl _, s1) \<Rightarrow> (Inl (NewInternalServerError []), s1)
              | (Inr (allowed, ttl), s1) \<Rightarrow>
                  if \<not> allowed then (Inl (try_again ttl), s1)
                  else case ent_exist (fault e ''check user existence'') (filter (\<lambda>u. u_email u = Some email) (users d)) of
                         Inl _ \<Rightarrow> (Inl (NewInternalServerError []), s1)
                       | Inr userExists \<Rightarrow>
                           if \<not> should_send mode userExists then (Inr None, s1)
                           else case random of
                                  None \<Rightarrow> (Inl (NewInternalServerError []), s1)
                                | Some n \<Rightarrow> store_otp svc e mail_ok s1 mode email (six_digits n))"

section \<open>VerifyOTP\<close>

definition verify_window :: "app_config \<Rightarrow> duration" where
  "verify_window cfg = (let window = wrap64 (OTPRateLimitSeconds cfg * second) in if window \<le> 0 then 60 * second else window)"

definition VerifyOTP :: "'s otp_service \<Rightarrow> env \<Rightarrow> string option \<Rightarrow> 's \<Rightarrow> string \<Rightarrow> string \<Rightarrow> string \<Rightarrow> (app_error + unit) \<times> 's" where
  "VerifyOTP svc e ctx s email0 code mode =
     (let email = NormalizeEmail (os_lower svc) email0
      in case Allow (os_redis svc) e s (verify_limit_key mode email (clientRateLimitScope svc ctx)) otpVerifyRateLimitCount
                (verify_window (os_cfg svc)) of
           (Inl _, s1) \<Rightarrow> (Inl (NewServiceUnavailableError ''OTP service unavailable''), s1)
         | (Inr (allowed, ttl), s1) \<Rightarrow>
             if \<not> allowed then (Inl (try_again ttl), s1)
             else case ConsumeIfMatch (fault e ''consume otp'') (os_redis svc) s1 (now e) (otp_key mode email)
                         (HashOTP svc code (OTPSecret (os_cfg svc))) of
                    Inl _ \<Rightarrow> (Inl (NewServiceUnavailableError ''OTP service unavailable''), s1)
                  | Inr (consumed, s2) \<Rightarrow>
                      if \<not> consumed then (Inl (NewBadRequestError ''Invalid or expired OTP''), s2) else (Inr (), s2))"

end
