(* ===== verification/Otp_Laws.thy ===== *)
theory Otp_Laws
  imports Otp_Service
begin

text \<open>
  What the one-time passwords of \<^verbatim>\<open>src/internal/api/application/auth/otp_service.go\<close> guarantee: the code that was
  mailed is accepted until it expires, no code is accepted twice, and the answer to a request for a code does not
  depend on whether the address is registered.
\<close>

section \<open>The keys do not meet\<close>

lemma otp_keys_apart [simp]:
  "otp_key m em \<noteq> send_limit_key m' em' sc" "otp_key m em \<noteq> verify_limit_key m' em' sc"
  "send_limit_key m em sc \<noteq> verify_limit_key m' em' sc'"
  by (simp_all add: otp_key_def send_limit_key_def verify_limit_key_def)

lemmas otp_keys_apart_sym [simp] = otp_keys_apart [THEN not_sym]

section \<open>Single use\<close>

definition redeemed :: "(app_error + unit) \<times> 's \<Rightarrow> bool" where
  "redeemed r \<longleftrightarrow> fst r = Inr ()"

text \<open>A code is accepted only when its digest is stored, and then it is stored no longer.\<close>

lemma VerifyOTP_redeemed:
  assumes "redis_laws entry (os_redis svc)" and "redeemed (VerifyOTP svc e ctx s email code mode)"
  defines "k \<equiv> otp_key mode (NormalizeEmail (os_lower svc) email)"
  shows "map_option fst (entry s (now e) k) = Some (HashOTP svc code (OTPSecret (os_cfg svc)))"
    and "entry (snd (VerifyOTP svc e ctx s email code mode)) (now e) k = None"
proof -
  let ?vk = "verify_limit_key mode (NormalizeEmail (os_lower svc) email) (clientRateLimitScope svc ctx)"
  obtain r s1 where al: "Allow (os_redis svc) e s ?vk otpVerifyRateLimitCount (verify_window (os_cfg svc)) = (r, s1)"
    by (cases "Allow (os_redis svc) e s ?vk otpVerifyRateLimitCount (verify_window (os_cfg svc))") blast
  have fr: "entry s1 (now e) k = entry s (now e) k"
    using Allow_frame [OF assms(1), of k ?vk e s otpVerifyRateLimitCount "verify_window (os_cfg svc)"] al by (simp add: k_def)
  from assms(2) al have hit: "rc_get (os_redis svc) s1 (now e) k = Some (HashOTP svc code (OTPSecret (os_cfg svc)))"
      "snd (VerifyOTP svc e ctx s email code mode) = rc_del (os_redis svc) s1 (now e) k"
    by (auto simp: redeemed_def VerifyOTP_def ConsumeIfMatch_def k_def Let_def split: sum.splits if_splits prod.splits)
  show "map_option fst (entry s (now e) k) = Some (HashOTP svc code (OTPSecret (os_cfg svc)))"
    using hit(1) by (simp add: redis_get [OF assms(1)] fr)
  show "entry (snd (VerifyOTP svc e ctx s email code mode)) (now e) k = None"
    by (simp add: hit(2) redis_del [OF assms(1)])
qed

lemma VerifyOTP_none:
  assumes "redis_laws entry (os_redis svc)" and "entry s (now e) k = None" and "\<And>sc. k \<noteq> verify_limit_key mode (NormalizeEmail (os_lower svc) email) sc"
  shows "entry (snd (VerifyOTP svc e ctx s email code mode)) (now e) k = None"
proof -
  let ?vk = "verify_limit_key mode (NormalizeEmail (os_lower svc) email) (clientRateLimitScope svc ctx)"
  obtain r s1 where al: "Allow (os_redis svc) e s ?vk otpVerifyRateLimitCount (verify_window (os_cfg svc)) = (r, s1)"
    by (cases "Allow (os_redis svc) e s ?vk otpVerifyRateLimitCount (verify_window (os_cfg svc))") blast
  have fr: "entry s1 (now e) k = None"
    using Allow_frame [OF assms(1), of k ?vk e s otpVerifyRateLimitCount "verify_window (os_cfg svc)"] assms(3) al assms(2) by simp
  with al show ?thesis
    by (simp add: VerifyOTP_def ConsumeIfMatch_def Let_def redis_del [OF assms(1)] split: sum.split prod.split)
qed

text \<open>Attempts to redeem a code, in the order in which they reach the store.\<close>

type_synonym otp_attempt = "env \<times> string option \<times> string \<times> string \<times> string"

fun verify_run :: "'s otp_service \<Rightarrow> 's \<Rightarrow> otp_attempt list \<Rightarrow> bool list" where
  "verify_run svc s [] = []"
| "verify_run svc s ((e, ctx, email, code, mode) # as) =
     (let r = VerifyOTP svc e ctx s email code mode in redeemed r # verify_run svc (snd r) as)"

definition attempt_time :: "otp_attempt \<Rightarrow> time" where
  "attempt_time a = now (fst a)"

definition attempt_for :: "'s otp_service \<Rightarrow> string \<Rightarrow> string \<Rightarrow> otp_attempt \<Rightarrow> bool" where
  "attempt_for svc mode email a = (case a of (_, _, em, _, m) \<Rightarrow> m = mode \<and> NormalizeEmail (os_lower svc) em = email)"

lemma verify_run_none:
  assumes "redis_laws entry (os_redis svc)"
  shows "entry s t (otp_key mode email) = None \<Longrightarrow> sorted (t # map attempt_time as) \<Longrightarrow> list_all (attempt_for svc mode email) as \<Longrightarrow>
    True \<notin> set (verify_run svc s as)"
proof (induction as arbitrary: s t)
  case (Cons a as)
  obtain e ctx em code where a: "a = (e, ctx, em, code, mode)" and em: "NormalizeEmail (os_lower svc) em = email"
    using Cons.prems(3) by (cases a) (auto simp: attempt_for_def)
  have none: "entry s (now e) (otp_key mode email) = None"
    using redis_later [OF assms, of t "now e" s "otp_key mode email"] Cons.prems(1,2) a by (simp add: attempt_time_def)
  then have "\<not> redeemed (VerifyOTP svc e ctx s em code mode)"
    using VerifyOTP_redeemed(1) [OF assms, of e ctx s em code mode] em by auto
  moreover have "entry (snd (VerifyOTP svc e ctx s em code mode)) (now e) (otp_key mode email) = None"
    using VerifyOTP_none [OF assms none] by simp
  ultimately show ?case using Cons.IH [of "snd (VerifyOTP svc e ctx s em code mode)" "now e"] Cons.prems(2,3) a
    by (auto simp: attempt_time_def Let_def)
qed simp

text \<open>
  C13. Of any attempts to redeem codes of one address and one purpose, by any clients and whatever the codes, at most one
  succeeds until a new code is requested.
\<close>

theorem otp_single_use:
  assumes "redis_laws entry (os_redis svc)" and "sorted (map attempt_time as)" and "list_all (attempt_for svc mode email) as"
  shows "count_list (verify_run svc s as) True \<le> 1"
  using assms(2,3)
proof (induction as arbitrary: s)
  case (Cons a as)
  obtain e ctx em code where a: "a = (e, ctx, em, code, mode)" and em: "NormalizeEmail (os_lower svc) em = email"
    using Cons.prems(2) by (cases a) (auto simp: attempt_for_def)
  let ?r = "VerifyOTP svc e ctx s em code mode"
  have rest: "count_list (verify_run svc (snd ?r) as) True \<le> 1" using Cons by simp
  show ?case
  proof (cases "redeemed ?r")
    case True
    then have "entry (snd ?r) (now e) (otp_key mode email) = None"
      using VerifyOTP_redeemed(2) [OF assms(1), of e ctx s em code mode] em by simp
    moreover have "sorted (now e # map attempt_time as)" using Cons.prems(1) attempt_time_def [of a] a by simp
    ultimately have "True \<notin> set (verify_run svc (snd ?r) as)"
      using verify_run_none [OF assms(1)] Cons.prems(2) by simp
    then have "count_list (verify_run svc (snd ?r) as) True = 0" by (simp only: count_list_0_iff not_False_eq_True)
    with a True show ?thesis by (simp add: Let_def)
  qed (use a rest in \<open>simp add: Let_def\<close>)
qed simp

definition sample_otp :: "kv otp_service" where
  "sample_otp = \<lparr>os_cfg = \<lparr>JWTSecret = ''s'', JWTExp = 3600, OTPSecret = ''o'', OTPExp = 300, OTPRateLimitSeconds = 60\<rparr>,
     os_redis = kv_redis, os_lower = id, HashOTP = (\<lambda>code secret. secret @ code)\<rparr>"

lemma sample_email: "NormalizeEmail id ''a@b.c'' = ''a@b.c''" "NormalizeEmail id ''A@b.c'' = ''a@b.c''"
proof -
  have "no_space ''a@b.c''" "ToLower id ''A@b.c'' = ''a@b.c''" "ToLower id ''a@b.c'' = ''a@b.c''" by code_simp+
  then show "NormalizeEmail id ''a@b.c'' = ''a@b.c''" "NormalizeEmail id ''A@b.c'' = ''a@b.c''"
    by (simp_all add: NormalizeEmail_def TrimSpace_no_space)
qed

theorem otp_single_use_witness:
  "count_list (verify_run sample_otp [''otp:reset:a@b.c'' \<mapsto> (''o123456'', None)]
     [(quiet_env 1, None, ''a@b.c'', ''123456'', ''reset''), (quiet_env 2, None, ''A@b.c'', ''123456'', ''reset'')]) True \<le> 1"
proof (rule otp_single_use [where entry = kv_entry_at and mode = "''reset''" and email = "''a@b.c''"])
  show "redis_laws kv_entry_at (os_redis sample_otp)" by (simp add: sample_otp_def kv_redis_laws)
  show "list_all (attempt_for sample_otp ''reset'' ''a@b.c'')
      [(quiet_env 1, None, ''a@b.c'', ''123456'', ''reset''), (quiet_env 2, None, ''A@b.c'', ''123456'', ''reset'')]"
    by (simp add: attempt_for_def sample_otp_def sample_email)
qed (simp add: attempt_time_def quiet_env_def)

section \<open>From the mail to the account\<close>

text \<open>The code lives for a positive number of seconds whose nanoseconds fit into a duration.\<close>

definition otp_config :: "app_config \<Rightarrow> bool" where
  "otp_config cfg \<longleftrightarrow> 0 < OTPExp cfg \<and> OTPExp cfg \<le> 9000000000 \<and> 0 \<le> OTPRateLimitSeconds cfg \<and> OTPRateLimitSeconds cfg \<le> 9000000000"

lemma otp_windows_pos: "otp_config cfg \<Longrightarrow> 0 < verify_window cfg"
  by (simp add: otp_config_def verify_window_def Let_def)

lemma otp_ttl: "otp_config cfg \<Longrightarrow> wrap64 (OTPExp cfg * second) = OTPExp cfg * second"
  by (intro wrap64_id) (simp_all add: otp_config_def max_int64_def)

lemma SendOTP_mailed:
  assumes "redis_laws entry (os_redis svc)" and "otp_config (os_cfg svc)"
    and "SendOTP svc e valid captcha random mail_ok ctx d s req = (Inr (Some (email, code)), s')"
  shows "email = NormalizeEmail (os_lower svc) (or_email req)"
    and "entry s' (now e) (otp_key (or_mode req) email) =
           Some (HashOTP svc code (OTPSecret (os_cfg svc)), Some (now e + OTPExp (os_cfg svc) * second))"
proof -
  let ?em = "NormalizeEmail (os_lower svc) (or_email req)"
  have "\<exists>n s1. store_otp svc e mail_ok s1 (or_mode req) ?em (six_digits n) = (Inr (Some (email, code)), s')"
    using assms(3) by (auto simp: SendOTP_def Let_def split: if_splits sum.splits prod.splits option.splits)
  then obtain n s1 where st: "store_otp svc e mail_ok s1 (or_mode req) ?em (six_digits n) = (Inr (Some (email, code)), s')" by blast
  then show "email = ?em" by (auto simp: store_otp_def Let_def split: if_splits)
  have pos: "0 < OTPExp (os_cfg svc)" using assms(2) by (simp add: otp_config_def)
  from st show "entry s' (now e) (otp_key (or_mode req) email) =
           Some (HashOTP svc code (OTPSecret (os_cfg svc)), Some (now e + OTPExp (os_cfg svc) * second))"
    using pos by (auto simp: store_otp_def Let_def otp_ttl [OF assms(2)] redis_set [OF assms(1)] whole_seconds split: if_splits)
qed

text \<open>
  C14. A code that \<open>SendOTP\<close> has mailed is accepted by \<open>VerifyOTP\<close> for the same address, in any spelling with the same normal
  form, and the same purpose until it expires, by a client that has not yet tried in this window.
\<close>

theorem otp_roundtrip:
  assumes "redis_laws entry (os_redis svc)" and "otp_config (os_cfg svc)"
    and "SendOTP svc e valid captcha random mail_ok ctx d s req = (Inr (Some (email, code)), s')"
    and "now e \<le> now e'" and "now e' < now e + OTPExp (os_cfg svc) * second"
    and "no_rate_fault e'" and "\<not> fault e' ''consume otp''"
    and "NormalizeEmail (os_lower svc) spelling = email"
    and "entry s' (now e') (verify_limit_key (or_mode req) email (clientRateLimitScope svc ctx')) = None"
  shows "fst (VerifyOTP svc e' ctx' s' spelling code (or_mode req)) = Inr ()"
proof -
  have cur: "entry s' (now e') (otp_key (or_mode req) email) =
      Some (HashOTP svc code (OTPSecret (os_cfg svc)), Some (now e + OTPExp (os_cfg svc) * second))"
    using redis_later [OF assms(1,4), of s' "otp_key (or_mode req) email"] SendOTP_mailed(2) [OF assms(1-3)] assms(5) by simp
  let ?vk = "verify_limit_key (or_mode req) email (clientRateLimitScope svc ctx')"
  obtain s1 where al: "Allow (os_redis svc) e' s' ?vk otpVerifyRateLimitCount (verify_window (os_cfg svc)) =
      (Inr (1 \<le> otpVerifyRateLimitCount, verify_window (os_cfg svc)), s1)"
    and fr: "\<And>k. k \<noteq> ?vk \<Longrightarrow> entry s1 (now e') k = entry s' (now e') k"
    using Allow_first [OF assms(1,6) otp_windows_pos [OF assms(2)] assms(9), of otpVerifyRateLimitCount] by blast
  have "rc_get (os_redis svc) s1 (now e') (otp_key (or_mode req) email) = Some (HashOTP svc code (OTPSecret (os_cfg svc)))"
    using fr [of "otp_key (or_mode req) email"] cur by (simp add: redis_get [OF assms(1)])
  with al assms(7,8) show ?thesis
    by (simp add: VerifyOTP_def Let_def ConsumeIfMatch_def otpVerifyRateLimitCount_def)
qed

definition sample_otp_request :: otp_request where
  "sample_otp_request = \<lparr>or_email = ''A@b.c'', or_mode = ''register'', or_captcha_token = ''t''\<rparr>"

theorem otp_roundtrip_witness:
  "fst (VerifyOTP sample_otp (quiet_env 5) None
     (snd (SendOTP sample_otp (quiet_env 1) (\<lambda>_. True) (\<lambda>_. True) (Some 7) True None empty_db (\<lambda>_. None) sample_otp_request)) ''a@b.c'' ''000007''
     (or_mode sample_otp_request)) = Inr ()"
proof (rule otp_roundtrip [where entry = kv_entry_at and e = "quiet_env 1" and email = "''a@b.c''"])
  let ?r = "SendOTP sample_otp (quiet_env 1) (\<lambda>_. True) (\<lambda>_. True) (Some 7) True None empty_db (\<lambda>_. None) sample_otp_request"
  show "redis_laws kv_entry_at (os_redis sample_otp)" by (simp add: sample_otp_def kv_redis_laws)
  show "otp_config (os_cfg sample_otp)" by (simp add: otp_config_def sample_otp_def)
  have six: "six_digits 7 = ''000007''" by code_simp
  have "fst ?r = Inr (Some (''a@b.c'', ''000007''))"
    by (simp add: SendOTP_def store_otp_def Allow_def sample_otp_def sample_otp_request_def sample_email kv_redis_def kv_entry_at_def quiet_env_def
        ent_exist_def empty_db_def should_send_def ModeRegister_def ModeReset_def ModeChangeEmail_def six Let_def)
  then show "?r = (Inr (Some (''a@b.c'', ''000007'')), snd ?r)" by (metis prod.collapse)
  show "NormalizeEmail (os_lower sample_otp) ''a@b.c'' = ''a@b.c''" by (simp add: sample_otp_def sample_email)
  show "kv_entry_at (snd ?r) (now (quiet_env 5)) (verify_limit_key (or_mode sample_otp_request) ''a@b.c'' (clientRateLimitScope sample_otp None)) = None"
    by (simp add: SendOTP_def store_otp_def Allow_def sample_otp_def sample_otp_request_def sample_email kv_redis_def kv_entry_at_def quiet_env_def
        ent_exist_def empty_db_def should_send_def ModeRegister_def ModeReset_def ModeChangeEmail_def six Let_def otp_key_def send_limit_key_def verify_limit_key_def)
qed (simp_all add: quiet_env_def no_rate_fault_def sample_otp_def)

section \<open>The answer tells nothing about accounts\<close>

text \<open>Unless a call fails, the answer to a request for a code is the same whatever the database holds: it does not tell
  whether an account with this address exists.
\<close>

theorem otp_answer_hides_accounts:
  assumes "\<not> fault e ''check user existence''" and "\<not> fault e ''save otp''"
  shows "map_sum id (\<lambda>_. ()) (fst (SendOTP svc e valid captcha (Some n) mail_ok ctx d s req)) =
         map_sum id (\<lambda>_. ()) (fst (SendOTP svc e valid captcha (Some n) mail_ok ctx d' s req))"
proof -
  have "map_sum id (\<lambda>_. ()) (fst (store_otp svc e mail_ok s1 mode email code)) = Inr ()" for s1 mode email code
    using assms(2) by (simp add: store_otp_def Let_def)
  then show ?thesis
    using assms(1) by (simp add: SendOTP_def Let_def ent_exist_def split: sum.split prod.split)
qed

theorem otp_answer_hides_accounts_witness:
  "map_sum id (\<lambda>_. ()) (fst (SendOTP sample_otp (quiet_env 1) (\<lambda>_. True) (\<lambda>_. True) (Some 7) True None empty_db (\<lambda>_. None) sample_otp_request)) =
   map_sum id (\<lambda>_. ()) (fst (SendOTP sample_otp (quiet_env 1) (\<lambda>_. True) (\<lambda>_. True) (Some 7) True None sample_db (\<lambda>_. None) sample_otp_request))"
  by (rule otp_answer_hides_accounts) (simp_all add: quiet_env_def)

end
