(* ===== verification/Account_Service.thy ===== *)
theory Account_Service
  imports Otp_Service Group_Common Realtime_Publisher
begin

text \<open>
  \<^verbatim>\<open>src/internal/api/application/account/account_service.go\<close>. Every handler ends the sessions of the user before
  it commits, and takes the revocation back when the commit fails. The password hash (\<open>bcrypt\<close>) is a pair of
  arguments. A handler gives its result, the database and the store: the store can have changed when the handler
  fails. \<open>DeleteAccount\<close> checks outside of its transaction, so it takes the database its checks read and
  the one its transaction runs on.
\<close>

record 's account_service =
  as_sessions :: "'s session_repository"
  as_otp :: "'s otp_service"
  as_hub :: bool
  as_publisher :: publisher
  HashPassword :: "string \<Rightarrow> string option"
  CheckPasswordHash :: "string \<Rightarrow> string \<Rightarrow> bool"

type_synonym control = "string \<times> uuid \<times> string"

type_synonym ('a, 's) outcome = "(app_error + 'a) \<times> db \<times> 's"

section \<open>Shared steps\<close>

definition find_account :: "env \<Rightarrow> db \<Rightarrow> uuid \<Rightarrow> app_error + user" where
  "find_account e d userID =
     on_err (ent_only (fault e ''query user'') (filter (\<lambda>u. u_id u = userID) (users d)))
       (\<lambda>er. if er = NotFoundError then NewNotFoundError [] else internal_error)"

definition set_user :: "uuid \<Rightarrow> (user \<Rightarrow> user) \<Rightarrow> db \<Rightarrow> db" where
  "set_user userID f d = d\<lparr>users := update_where (\<lambda>u. u_id u = userID) f (users d)\<rparr>"

text \<open>\<open>UpdateOneID\<close>: an error when there is no such row.\<close>

definition update_user :: "env \<Rightarrow> string \<Rightarrow> uuid \<Rightarrow> (user \<Rightarrow> user) \<Rightarrow> db \<Rightarrow> app_error + db" where
  "update_user e site userID f d =
     (if fault e site \<or> userID \<notin> u_id ` set (users d) then Inl internal_error else Inr (set_user userID f d))"

definition disconnect :: "bool \<Rightarrow> publisher \<Rightarrow> uuid \<Rightarrow> control list" where
  "disconnect hub p userID = (if hub then DisconnectUser p userID else [])"

text \<open>The end of every handler: the sessions are revoked, then the transaction is committed.\<close>

definition commit_with_revoke :: "'s session_repository \<Rightarrow> env \<Rightarrow> string \<Rightarrow> uuid \<Rightarrow> db \<Rightarrow> db \<Rightarrow> 's \<Rightarrow> (unit, 's) outcome" where
  "commit_with_revoke r e nonce userID d d' s =
     (case RevokeSessionsForTransaction r e s nonce userID of
        Inl _ \<Rightarrow> (Inl (NewServiceUnavailableError ''Session service unavailable''), d, s)
      | Inr (revokeExpected, revokeSnapshot, s1) \<Rightarrow>
          (case commit e of
             Inl er \<Rightarrow> (Inl er, d, RollbackSessionRevokeIfNeeded r e s1 userID revokeExpected revokeSnapshot)
           | Inr _ \<Rightarrow> (Inr (), d', s1)))"

section \<open>ChangePassword\<close>

record password_request =
  pr_old :: "string option"
  pr_new :: string
  pr_confirm :: string

definition change_password_rows :: "'s account_service \<Rightarrow> env \<Rightarrow> db \<Rightarrow> uuid \<Rightarrow> password_request \<Rightarrow> app_error + db" where
  "change_password_rows svc e d userID req =
     and_then (begin_tx e) (\<lambda>_.
     and_then (find_account e d userID) (\<lambda>u.
     and_then (case u_password_hash u of
                 None \<Rightarrow> Inr ()
               | Some h \<Rightarrow> (case pr_old req of
                     None \<Rightarrow> Inl (NewBadRequestError [])
                   | Some old \<Rightarrow> fail_if (\<not> CheckPasswordHash svc old h) (NewBadRequestError ''Invalid old password''))) (\<lambda>_.
     case HashPassword svc (pr_new req) of
       None \<Rightarrow> Inl internal_error
     | Some hashed \<Rightarrow>
         update_user e ''update password'' userID (\<lambda>u. u\<lparr>u_password_hash := Some hashed\<rparr>) d)))"

definition ChangePassword :: "'s account_service \<Rightarrow> env \<Rightarrow> (password_request \<Rightarrow> bool) \<Rightarrow> string \<Rightarrow> db \<Rightarrow> 's \<Rightarrow> uuid \<Rightarrow> password_request \<Rightarrow>
    (control list, 's) outcome" where
  "ChangePassword svc e valid nonce d s userID req =
     (if \<not> valid req then (Inl (NewBadRequestError []), d, s)
      else case change_password_rows svc e d userID req of
             Inl er \<Rightarrow> (Inl er, d, s)
           | Inr d' \<Rightarrow>
               (case commit_with_revoke (as_sessions svc) e nonce userID d d' s of
                  (Inl er, ds) \<Rightarrow> (Inl er, ds)
                | (Inr _, ds) \<Rightarrow> (Inr (disconnect (as_hub svc) (as_publisher svc) userID), ds)))"

section \<open>ChangeEmail\<close>

record email_request =
  er_email :: string
  er_code :: string

definition change_email_checks :: "env \<Rightarrow> db \<Rightarrow> uuid \<Rightarrow> string \<Rightarrow> app_error + unit" where
  "change_email_checks e d userID email =
     and_then (find_account e d userID) (\<lambda>u.
     and_then (fail_if (u_password_hash u = None) (NewBadRequestError ''You must set a password before changing your email address'')) (\<lambda>_.
       fail_if (u_email u = Some email) (NewBadRequestError [])))"

definition drop_identities :: "uuid \<Rightarrow> db \<Rightarrow> db" where
  "drop_identities userID d = d\<lparr>user_identities := filter (\<lambda>i. ui_user_id i \<noteq> userID) (user_identities d)\<rparr>"

definition change_email_rows :: "env \<Rightarrow> db \<Rightarrow> uuid \<Rightarrow> string \<Rightarrow> app_error + db" where
  "change_email_rows e d userID email =
     and_then (begin_tx e) (\<lambda>_.
     and_then (on_err (ent_exist (fault e ''check user existence'') (filter (\<lambda>u. u_email u = Some email) (users d))) (\<lambda>_. internal_error)) (\<lambda>exists.
     and_then (fail_if exists (NewConflictError ''Email already registered'')) (\<lambda>_.
     and_then (fail_if (length email > 255) internal_error) (\<lambda>_.
     and_then (update_user e ''update email'' userID (\<lambda>u. u\<lparr>u_email := Some email\<rparr>) d) (\<lambda>d.
     and_then (fail_if (fault e ''unlink identities'') internal_error) (\<lambda>_.
       Inr (drop_identities userID d)))))))"

definition ChangeEmail :: "'s account_service \<Rightarrow> env \<Rightarrow> (email_request \<Rightarrow> bool) \<Rightarrow> string \<Rightarrow> string option \<Rightarrow> db \<Rightarrow> 's \<Rightarrow> uuid \<Rightarrow> email_request \<Rightarrow>
    (control list, 's) outcome" where
  "ChangeEmail svc e valid nonce ctx d s userID req0 =
     (let req = req0\<lparr>er_email := NormalizeEmail (os_lower (as_otp svc)) (er_email req0)\<rparr>; email = er_email req in
      if \<not> valid req then (Inl (NewBadRequestError []), d, s)
      else case change_email_checks e d userID email of
             Inl er \<Rightarrow> (Inl er, d, s)
           | Inr _ \<Rightarrow>
               (case VerifyOTP (as_otp svc) e ctx s email (er_code req) ModeChangeEmail of
                  (Inl er, s1) \<Rightarrow> (Inl er, d, s1)
                | (Inr _, s1) \<Rightarrow>
                    (case change_email_rows e d userID email of
                       Inl er \<Rightarrow> (Inl er, d, s1)
                     | Inr d' \<Rightarrow>
                         (case commit_with_revoke (as_sessions svc) e nonce userID d d' s1 of
                            (Inl er, ds) \<Rightarrow> (Inl er, ds)
                          | (Inr _, ds) \<Rightarrow> (Inr (disconnect (as_hub svc) (as_publisher svc) userID), ds)))))"

section \<open>DeleteAccount\<close>

text \<open>\<open>HasGroupChatWith(HasChatWith(DeletedAtIsNil))\<close>\<close>

definition owned_live_groups :: "db \<Rightarrow> uuid \<Rightarrow> group_member list" where
  "owned_live_groups d userID = filter (\<lambda>m. gm_user_id m = userID \<and> gm_role m = RoleOwner \<and>
     (\<exists>g\<in>set (group_chats d). gc_id g = gm_group_chat_id m \<and> chat_live d (gc_chat_id g))) (group_members d)"

definition delete_account_checks :: "'s account_service \<Rightarrow> env \<Rightarrow> db \<Rightarrow> uuid \<Rightarrow> string option \<Rightarrow> app_error + unit" where
  "delete_account_checks svc e d userID password =
     and_then (find_account e d userID) (\<lambda>u.
     and_then (case u_password_hash u of
                 None \<Rightarrow> Inr ()
               | Some h \<Rightarrow> (case password of
                     None \<Rightarrow> Inl (NewBadRequestError ''Password is required to delete account'')
                   | Some p \<Rightarrow> fail_if (\<not> CheckPasswordHash svc p h) (NewBadRequestError ''Invalid password''))) (\<lambda>_.
     and_then (on_err (ent_count (fault e ''check group ownership'') (owned_live_groups d userID)) (\<lambda>_. internal_error)) (\<lambda>owned.
       fail_if (owned > 0) (NewForbiddenError ''You must transfer ownership of your groups or delete them before deleting your account.''))))"

definition anonymized :: "time \<Rightarrow> user \<Rightarrow> user" where
  "anonymized t u = u\<lparr>u_email := None, u_username := None, u_full_name := None, u_bio := None, u_avatar_id := None,
     u_password_hash := None, u_deleted_at := Some t\<rparr>"

definition delete_account_rows :: "env \<Rightarrow> db \<Rightarrow> uuid \<Rightarrow> app_error + db" where
  "delete_account_rows e d userID =
     and_then (begin_tx e) (\<lambda>_.
     and_then (fail_if (fault e ''delete identities'') internal_error) (\<lambda>_.
       update_user e ''anonymize user'' userID (anonymized (now e)) (drop_identities userID d)))"

definition DeleteAccount :: "'s account_service \<Rightarrow> env \<Rightarrow> string \<Rightarrow> db \<Rightarrow> db \<Rightarrow> 's \<Rightarrow> uuid \<Rightarrow> string option \<Rightarrow>
    (uuid publication list \<times> control list, 's) outcome" where
  "DeleteAccount svc e nonce d0 d s userID password =
     (case and_then (delete_account_checks svc e d0 userID password) (\<lambda>_. delete_account_rows e d userID) of
        Inl er \<Rightarrow> (Inl er, d, s)
      | Inr d' \<Rightarrow>
          (case commit_with_revoke (as_sessions svc) e nonce userID d d' s of
             (Inl er, ds) \<Rightarrow> (Inl er, ds)
           | (Inr _, ds) \<Rightarrow>
               (Inr (if as_hub svc
                     then (BroadcastToContacts (as_publisher svc) (fault e) d' userID \<lparr>le_type = EventUserDeleted, le_payload = userID\<rparr>,
                           DisconnectUser (as_publisher svc) userID)
                     else ([], [])), ds)))"

end
