(* ===== verification/Auth_Service.thy ===== *)
theory Auth_Service
  imports Account_Service Chat_Mapper
begin

text \<open>
  Sessions of the API: \<^verbatim>\<open>src/internal/api/application/auth/auth_service.go\<close> (\<open>Login\<close>, \<open>Register\<close>,
  \<open>ResetPassword\<close>, \<open>Logout\<close>, \<open>VerifyUser\<close> with its cache of identities), \<open>GenerateJWT\<close> of
  \<^verbatim>\<open>src/internal/domain/helper/jwt.go\<close> and the middleware \<^verbatim>\<open>src/internal/api/http/middleware/auth_middleware.go\<close>.
  Signing and parsing of tokens are the arguments \<open>jwt_library\<close>, with \<open>jwt_laws\<close> for what the library documents; the verdict
  of the captcha service and the validator are arguments. The cache holds a role and an instant at which it is no longer used.
\<close>

section \<open>Tokens (jwt.go)\<close>

record jwt_claims =
  jc_user_id :: uuid
  jc_issued_at_millis :: int
  jc_expires_at :: "time option"
  jc_issued_at :: "time option"
  jc_issuer :: string

record jwt_library =
  SignedString :: "string \<Rightarrow> jwt_claims \<Rightarrow> string option"
  ParseWithClaims :: "string \<Rightarrow> time \<Rightarrow> string \<Rightarrow> jwt_claims option"

text \<open>A token the library signed is valid under the same secret until it expires.\<close>

definition jwt_laws :: "jwt_library \<Rightarrow> bool" where
  "jwt_laws J \<longleftrightarrow> (\<forall>secret c tok t. SignedString J secret c = Some tok \<longrightarrow>
     ParseWithClaims J secret t tok =
       (case jc_expires_at c of None \<Rightarrow> Some c | Some ex \<Rightarrow> if t < ex then Some c else None))"

text \<open>\<open>jwt.NewNumericDate\<close> keeps whole seconds.\<close>

definition NewNumericDate :: "time \<Rightarrow> time" where
  "NewNumericDate t = t - t mod second"

definition jwt_claims_at :: "int \<Rightarrow> time \<Rightarrow> uuid \<Rightarrow> jwt_claims" where
  "jwt_claims_at jwtExp t userID = \<lparr>jc_user_id = userID, jc_issued_at_millis = UnixMilli t,
     jc_expires_at = Some (NewNumericDate (t + wrap64 (jwtExp * second))), jc_issued_at = Some (NewNumericDate t), jc_issuer = ''AtoiTalkAPI''\<rparr>"

definition GenerateJWT :: "jwt_library \<Rightarrow> string \<Rightarrow> int \<Rightarrow> time \<Rightarrow> uuid \<Rightarrow> string option" where
  "GenerateJWT J jwtSecret jwtExp t userID = SignedString J jwtSecret (jwt_claims_at jwtExp t userID)"

section \<open>The service\<close>

record 's auth_service =
  au_account :: "'s account_service"
  au_jwt :: jwt_library
  au_urls :: urlgen
  au_captcha :: "string \<Rightarrow> bool"
  au_sha256 :: "string \<Rightarrow> string"

abbreviation (input) au_sessions :: "'s auth_service \<Rightarrow> 's session_repository" where
  "au_sessions svc \<equiv> as_sessions (au_account svc)"

abbreviation (input) au_cfg :: "'s auth_service \<Rightarrow> app_config" where
  "au_cfg svc \<equiv> sr_cfg (as_sessions (au_account svc))"

abbreviation (input) au_lower :: "'s auth_service \<Rightarrow> string \<Rightarrow> string" where
  "au_lower svc \<equiv> os_lower (as_otp (au_account svc))"

record user_dto =
  ud_id :: uuid
  ud_email :: string
  ud_username :: string
  ud_full_name :: string
  ud_avatar :: string
  ud_bio :: string
  ud_role :: string
  ud_has_password :: bool
  ud_private_chat_id :: "uuid option"
  ud_is_blocked_by_me :: "bool option"
  ud_is_blocked_by_other :: "bool option"
  ud_is_online :: "bool option"
  ud_is_banned :: "bool option"
  ud_last_seen_at :: "stamp option"

definition zero_user_dto :: user_dto where
  "zero_user_dto = \<lparr>ud_id = uuid_Nil, ud_email = [], ud_username = [], ud_full_name = [], ud_avatar = [], ud_bio = [], ud_role = [],
     ud_has_password = False, ud_private_chat_id = None, ud_is_blocked_by_me = None, ud_is_blocked_by_other = None,
     ud_is_online = None, ud_is_banned = None, ud_last_seen_at = None\<rparr>"

definition user_role_text :: "user_role \<Rightarrow> string" where
  "user_role_text r = (case r of RoleUser \<Rightarrow> ''user'' | RoleSiteAdmin \<Rightarrow> ''admin'')"

definition text_or_empty :: "string option \<Rightarrow> string" where
  "text_or_empty x = (case x of None \<Rightarrow> [] | Some v \<Rightarrow> v)"

record auth_response =
  ar_token :: string
  ar_user :: user_dto

section \<open>VerifyUser\<close>

type_synonym user_cache = "uuid \<Rightarrow> (string \<times> time) option"

definition authUserCacheTTL :: duration where "authUserCacheTTL = 10 * second"

definition token_issued_at :: "jwt_claims \<Rightarrow> time \<Rightarrow> int" where
  "token_issued_at c issued = (if jc_issued_at_millis c > 0 then jc_issued_at_millis c else UnixMilli issued)"

definition lift_ban :: "env \<Rightarrow> uuid \<Rightarrow> db \<Rightarrow> db" where
  "lift_ban e userID d =
     (if fault e ''lift ban'' then d
      else set_user userID (\<lambda>u. u\<lparr>u_is_banned := False, u_banned_until := None, u_ban_reason := None\<rparr>) d)"

text \<open>A banned user is refused until the ban is over, and then the ban is lifted; the text of a ban with an end is the argument \<open>suspended\<close>.\<close>

definition check_ban :: "env \<Rightarrow> db \<Rightarrow> user \<Rightarrow> (time \<Rightarrow> string) \<Rightarrow> app_error + db" where
  "check_ban e d u suspended =
     (if \<not> u_is_banned u then Inr d
      else case u_banned_until u of
             None \<Rightarrow> Inl (NewForbiddenError ''Account is permanently banned'')
           | Some b \<Rightarrow> if now e < b then Inl (NewForbiddenError (suspended b)) else Inr (lift_ban e (u_id u) d))"

definition verify_lookup :: "env \<Rightarrow> user_cache \<Rightarrow> db \<Rightarrow> uuid \<Rightarrow> (app_error + user_dto) \<times> user_cache \<times> db" where
  "verify_lookup e cache d userID =
     (case ent_only (fault e ''user lookup'') (filter (\<lambda>u. u_id u = userID \<and> u_deleted_at u = None) (users d)) of
        Inl NotFoundError \<Rightarrow> (Inl (NewUnauthorizedError []), cache(userID := None), d)
      | Inl _ \<Rightarrow> (Inl internal_error, cache, d)
      | Inr u \<Rightarrow>
          (let cache = (if u_is_banned u then cache(userID := None) else cache) in
           case check_ban e d u (\<lambda>_. ''Account is temporarily suspended'') of
             Inl er \<Rightarrow> (Inl er, cache, d)
           | Inr d' \<Rightarrow>
               (Inr (zero_user_dto\<lparr>ud_id := userID, ud_role := user_role_text (u_role u)\<rparr>),
                cache(userID := Some (user_role_text (u_role u), now e + authUserCacheTTL)), d')))"

definition VerifyUser :: "'s auth_service \<Rightarrow> env \<Rightarrow> user_cache \<Rightarrow> db \<Rightarrow> 's \<Rightarrow> string \<Rightarrow> (app_error + user_dto) \<times> user_cache \<times> db" where
  "VerifyUser svc e cache d s tokenString =
     (case ParseWithClaims (au_jwt svc) (JWTSecret (au_cfg svc)) (now e) tokenString of
        None \<Rightarrow> (Inl (NewUnauthorizedError []), cache, d)
      | Some claims \<Rightarrow>
          (case jc_issued_at claims of
             None \<Rightarrow> (Inl (NewUnauthorizedError []), cache, d)
           | Some issued \<Rightarrow>
               (let userID = jc_user_id claims in
                case IsUserRevoked (au_sessions svc) e s userID (token_issued_at claims issued) of
                  Inl _ \<Rightarrow> (Inl (NewServiceUnavailableError ''Session service unavailable''), cache, d)
                | Inr True \<Rightarrow> (Inl (NewUnauthorizedError []), cache(userID := None), d)
                | Inr False \<Rightarrow>
                    (case cache userID of
                       Some (role, expiresAt) \<Rightarrow>
                         if now e < expiresAt then (Inr (zero_user_dto\<lparr>ud_id := userID, ud_role := role\<rparr>), cache, d)
                         else verify_lookup e (cache(userID := None)) d userID
                     | None \<Rightarrow> verify_lookup e cache d userID))))"

section \<open>Login\<close>

record login_request =
  lr_email :: string
  lr_password :: string
  lr_captcha_token :: string

definition find_by_email :: "env \<Rightarrow> db \<Rightarrow> string \<Rightarrow> ent_error + user" where
  "find_by_email e d email =
     ent_only (fault e ''query user by email'') (filter (\<lambda>u. u_email u = Some email \<and> u_deleted_at u = None) (users d))"

definition auth_user_dto :: "user \<Rightarrow> string \<Rightarrow> user_dto" where
  "auth_user_dto u avatar = zero_user_dto\<lparr>ud_id := u_id u, ud_email := text_or_empty (u_email u), ud_username := text_or_empty (u_username u),
     ud_full_name := text_or_empty (u_full_name u), ud_avatar := avatar, ud_role := user_role_text (u_role u)\<rparr>"

definition give_token :: "'s auth_service \<Rightarrow> env \<Rightarrow> user \<Rightarrow> string \<Rightarrow> app_error + auth_response" where
  "give_token svc e u avatar =
     (case GenerateJWT (au_jwt svc) (JWTSecret (au_cfg svc)) (JWTExp (au_cfg svc)) (now e) (u_id u) of
        None \<Rightarrow> Inl internal_error
      | Some tok \<Rightarrow> Inr \<lparr>ar_token = tok, ar_user = auth_user_dto u avatar\<rparr>)"

text \<open>The instant of a ban is rendered by the argument \<open>show_time\<close>. The lifted ban stays lifted when no token can be signed.\<close>

definition Login :: "'s auth_service \<Rightarrow> env \<Rightarrow> (login_request \<Rightarrow> bool) \<Rightarrow> (time \<Rightarrow> string) \<Rightarrow> db \<Rightarrow> login_request \<Rightarrow> (app_error + auth_response) \<times> db" where
  "Login svc e valid show_time d req0 =
     (let req = req0\<lparr>lr_email := NormalizeEmail (au_lower svc) (lr_email req0)\<rparr> in
      if \<not> valid req then (Inl (NewBadRequestError []), d)
      else if \<not> au_captcha svc (lr_captcha_token req) then (Inl (NewBadRequestError []), d)
      else case find_by_email e d (lr_email req) of
             Inl er \<Rightarrow> (Inl (if er = NotFoundError then NewUnauthorizedError [] else internal_error), d)
           | Inr u \<Rightarrow>
               (case u_password_hash u of
                  None \<Rightarrow> (Inl (NewUnauthorizedError []), d)
                | Some h \<Rightarrow>
                    if \<not> CheckPasswordHash (au_account svc) (lr_password req) h then (Inl (NewUnauthorizedError []), d)
                    else case check_ban e d u (\<lambda>b. ''Account suspended until '' @ show_time b) of
                           Inl er \<Rightarrow> (Inl er, d)
                         | Inr d' \<Rightarrow> (give_token svc e u (avatar_link (au_urls svc) (Option.bind (u_avatar_id u) (media_of d))), d')))"

section \<open>Register\<close>

record register_request =
  rr_email :: string
  rr_username :: string
  rr_code :: string
  rr_full_name :: string
  rr_password :: string
  rr_captcha_token :: string

text \<open>The length limits of the schema count bytes; the unique indexes do not count missing values.\<close>

definition user_fields_ok :: "user \<Rightarrow> bool" where
  "user_fields_ok u \<longleftrightarrow> length (text_or_empty (u_email u)) \<le> 255 \<and> length (text_or_empty (u_username u)) \<le> 50 \<and>
     length (text_or_empty (u_password_hash u)) \<le> 255 \<and> length (text_or_empty (u_full_name u)) \<le> 100 \<and> length (text_or_empty (u_bio u)) \<le> 255"

definition user_unique :: "user list \<Rightarrow> user \<Rightarrow> bool" where
  "user_unique rows u \<longleftrightarrow> \<not> (\<exists>v\<in>set rows. u_email u \<noteq> None \<and> u_email v = u_email u \<or> u_username u \<noteq> None \<and> u_username v = u_username u)"

definition insert_user :: "bool \<Rightarrow> db \<Rightarrow> user \<Rightarrow> ent_error + db" where
  "insert_user broken d u =
     (if broken \<or> \<not> user_fields_ok u then Inl DriverError
      else if \<not> user_unique (users d) u then Inl ConstraintError
      else Inr (d\<lparr>users := users d @ [u]\<rparr>))"

definition new_user :: "env \<Rightarrow> string \<Rightarrow> string \<Rightarrow> string \<Rightarrow> string option \<Rightarrow> user" where
  "new_user e email username fullName hashed = \<lparr>u_id = newid e 0, u_email = Some email, u_username = Some username, u_password_hash = hashed,
     u_full_name = Some fullName, u_bio = None, u_avatar_id = None, u_last_seen_at = None, u_deleted_at = None, u_role = RoleUser,
     u_is_banned = False, u_message_notifications_enabled = True, u_banned_until = None, u_ban_reason = None, u_created_at = now e\<rparr>"

text \<open>Which of the two unique values was taken is looked up after the failed insert.\<close>

definition register_conflict :: "env \<Rightarrow> db \<Rightarrow> string \<Rightarrow> string \<Rightarrow> app_error" where
  "register_conflict e d email username =
     (case ent_exist (fault e ''email exists'') (filter (\<lambda>u. u_email u = Some email \<and> u_deleted_at u = None) (users d)) of
        Inl _ \<Rightarrow> internal_error
      | Inr True \<Rightarrow> NewConflictError ''Email already registered''
      | Inr False \<Rightarrow>
          (case ent_exist (fault e ''username exists'') (filter (\<lambda>u. u_username u = Some username \<and> u_deleted_at u = None) (users d)) of
             Inl _ \<Rightarrow> internal_error
           | Inr True \<Rightarrow> NewConflictError ''Username already taken''
           | Inr False \<Rightarrow> NewConflictError ''Email or Username already taken''))"

definition register_rows :: "'s auth_service \<Rightarrow> env \<Rightarrow> db \<Rightarrow> register_request \<Rightarrow> app_error + (user \<times> db)" where
  "register_rows svc e d req =
     and_then (begin_tx e) (\<lambda>_.
     case HashPassword (au_account svc) (rr_password req) of
       None \<Rightarrow> Inl internal_error
     | Some hashed \<Rightarrow>
         (let u = new_user e (rr_email req) (rr_username req) (rr_full_name req) (Some hashed) in
          case insert_user (fault e ''create user'') d u of
            Inl ConstraintError \<Rightarrow> Inl (register_conflict e d (rr_email req) (rr_username req))
          | Inl _ \<Rightarrow> Inl internal_error
          | Inr d' \<Rightarrow> and_then (commit e) (\<lambda>_. Inr (u, d'))))"

definition Register :: "'s auth_service \<Rightarrow> env \<Rightarrow> (register_request \<Rightarrow> bool) \<Rightarrow> string option \<Rightarrow> db \<Rightarrow> 's \<Rightarrow> register_request \<Rightarrow>
    (auth_response, 's) outcome" where
  "Register svc e valid ctx d s req0 =
     (let req = req0\<lparr>rr_email := NormalizeEmail (au_lower svc) (rr_email req0),
            rr_username := NormalizeUsername (au_lower svc) (rr_username req0), rr_full_name := TrimSpace (rr_full_name req0)\<rparr> in
      if \<not> valid req then (Inl (NewBadRequestError []), d, s)
      else if \<not> au_captcha svc (rr_captcha_token req) then (Inl (NewBadRequestError []), d, s)
      else case VerifyOTP (as_otp (au_account svc)) e ctx s (rr_email req) (rr_code req) ModeRegister of
             (Inl er, s1) \<Rightarrow> (Inl er, d, s1)
           | (Inr _, s1) \<Rightarrow>
               (case register_rows svc e d req of
                  Inl er \<Rightarrow> (Inl er, d, s1)
                | Inr (u, d') \<Rightarrow> (give_token svc e u [], d', s1)))"

section \<open>ResetPassword and Logout\<close>

record reset_request =
  rs_email :: string
  rs_code :: string
  rs_password :: string
  rs_confirm :: string
  rs_captcha_token :: string

definition reset_password_rows :: "'s auth_service \<Rightarrow> env \<Rightarrow> db \<Rightarrow> reset_request \<Rightarrow> app_error + (uuid \<times> db)" where
  "reset_password_rows svc e d req =
     and_then (begin_tx e) (\<lambda>_.
     and_then (on_err (find_by_email e d (rs_email req)) (\<lambda>er. if er = NotFoundError then NewNotFoundError [] else internal_error)) (\<lambda>u.
     case HashPassword (au_account svc) (rs_password req) of
       None \<Rightarrow> Inl internal_error
     | Some hashed \<Rightarrow>
         and_then (update_user e ''update password'' (u_id u) (\<lambda>u. u\<lparr>u_password_hash := Some hashed\<rparr>) d) (\<lambda>d'. Inr (u_id u, d'))))"

definition ResetPassword :: "'s auth_service \<Rightarrow> env \<Rightarrow> (reset_request \<Rightarrow> bool) \<Rightarrow> string \<Rightarrow> string option \<Rightarrow> db \<Rightarrow> 's \<Rightarrow> reset_request \<Rightarrow>
    (control list, 's) outcome" where
  "ResetPassword svc e valid nonce ctx d s req0 =
     (let req = req0\<lparr>rs_email := NormalizeEmail (au_lower svc) (rs_email req0)\<rparr> in
      if \<not> valid req then (Inl (NewBadRequestError []), d, s)
      else if \<not> au_captcha svc (rs_captcha_token req) then (Inl (NewBadRequestError []), d, s)
      else case VerifyOTP (as_otp (au_account svc)) e ctx s (rs_email req) (rs_code req) ModeReset of
             (Inl er, s1) \<Rightarrow> (Inl er, d, s1)
           | (Inr _, s1) \<Rightarrow>
               (case reset_password_rows svc e d req of
                  Inl er \<Rightarrow> (Inl er, d, s1)
                | Inr (userID, d') \<Rightarrow>
                    (case commit_with_revoke (au_sessions svc) e nonce userID d d' s1 of
                       (Inl er, ds) \<Rightarrow> (Inl er, ds)
                     | (Inr _, ds) \<Rightarrow> (Inr (disconnect (as_hub (au_account svc)) (as_publisher (au_account svc)) userID), ds))))"

text \<open>The blacklist entry lives as long as the token, or as long as a new token when that is not known.\<close>

definition logout_ttl :: "'s auth_service \<Rightarrow> time \<Rightarrow> jwt_claims option \<Rightarrow> duration" where
  "logout_ttl svc t claims =
     (let ttl = (case Option.bind claims jc_expires_at of None \<Rightarrow> 0 | Some ex \<Rightarrow> ex - t)
      in if ttl \<le> 0 then wrap64 (JWTExp (au_cfg svc) * second) else ttl)"

definition Logout :: "'s auth_service \<Rightarrow> env \<Rightarrow> 's \<Rightarrow> string \<Rightarrow> (app_error + control list) \<times> 's" where
  "Logout svc e s tokenString =
     (let claims = ParseWithClaims (au_jwt svc) (JWTSecret (au_cfg svc)) (now e) tokenString;
          userID = (case claims of None \<Rightarrow> uuid_Nil | Some c \<Rightarrow> jc_user_id c)
      in case BlacklistToken (au_sessions svc) (au_sha256 svc) e s tokenString (logout_ttl svc (now e) claims) of
           (Some _, s') \<Rightarrow> (Inl internal_error, s')
         | (None, s') \<Rightarrow>
             (Inr (if as_hub (au_account svc) \<and> userID \<noteq> uuid_Nil then DisconnectUser (as_publisher (au_account svc)) userID else []), s'))"

section \<open>The middleware\<close>

text \<open>\<open>strings.Split\<close> at a space.\<close>

fun split_at_space :: "string \<Rightarrow> string list" where
  "split_at_space [] = [[]]"
| "split_at_space (c # cs) = (if c = CHR '' '' then [] # split_at_space cs
     else case split_at_space cs of [] \<Rightarrow> [[c]] | w # ws \<Rightarrow> (c # w) # ws)"

definition VerifyToken :: "'s auth_service \<Rightarrow> env \<Rightarrow> user_cache \<Rightarrow> db \<Rightarrow> 's \<Rightarrow> string \<Rightarrow> (app_error + user_dto \<times> string) \<times> user_cache \<times> db" where
  "VerifyToken svc e cache d s authHeader =
     (case split_at_space authHeader of
        [scheme, tokenString] \<Rightarrow>
          if authHeader = [] \<or> scheme \<noteq> ''Bearer'' then (Inl (NewUnauthorizedError []), cache, d)
          else (case IsTokenBlacklisted (au_sessions svc) e s tokenString of
                  Inl _ \<Rightarrow> (Inl (NewServiceUnavailableError ''Session service unavailable''), cache, d)
                | Inr True \<Rightarrow> (Inl (NewUnauthorizedError ''Token has been revoked''), cache, d)
                | Inr False \<Rightarrow>
                    (case VerifyUser svc e cache d s tokenString of
                       (Inl er, cd) \<Rightarrow> (Inl er, cd)
                     | (Inr u, cd) \<Rightarrow> (Inr (u, tokenString), cd)))
      | _ \<Rightarrow> (Inl (NewUnauthorizedError []), cache, d))"

definition AdminOnly :: "user_dto option \<Rightarrow> app_error + unit" where
  "AdminOnly userContext =
     (case userContext of
        None \<Rightarrow> Inl (NewUnauthorizedError [])
      | Some u \<Rightarrow> fail_if (ud_role u \<noteq> user_role_text RoleSiteAdmin) (NewForbiddenError ''Admin access required''))"

end
