(* ===== verification/Auth_Laws.thy ===== *)
theory Auth_Laws
  imports Auth_Service Otp_Laws
begin

text \<open>
  What the handlers of \<^verbatim>\<open>src/internal/api/application/account\<close> and \<^verbatim>\<open>src/internal/api/application/auth\<close> guarantee of
  sessions: a change of the credentials ends every session, a logout ends one, a failed change leaves everything as it was,
  and the cache of identities is at most ten seconds behind.
\<close>

section \<open>Ending sessions\<close>

lemma commit_with_revoke_Inr:
  assumes "commit_with_revoke r e nonce userID d d' s = (Inr (), d1, s1)"
  obtains marker snapshot where "RevokeSessionsForTransaction r e s nonce userID = Inr (marker, snapshot, s1)" and "d1 = d'"
  using assms by (auto simp: commit_with_revoke_def split: sum.splits prod.splits)

lemma commit_with_revoke_revokes:
  assumes "redis_laws entry (sr_redis r)" and "session_config (sr_cfg r)" and "commit_with_revoke r e nonce userID d d' s = (Inr (), d1, s1)"
  shows "revoked_until entry r s1 (now e) userID (now e)"
  by (rule commit_with_revoke_Inr [OF assms(3)]) (rule RevokeSessionsForTransaction_revokes [OF assms(1,2)])

lemma NewNumericDate_le: "NewNumericDate t \<le> t"
  by (simp add: NewNumericDate_def)

lemma token_issued_before:
  assumes "0 \<le> t0" and "t0 \<le> t"
  shows "token_issued_at (jwt_claims_at x t0 userID) (NewNumericDate t0) \<le> UnixMilli t"
  using UnixMilli_mono [OF assms(2)] UnixMilli_mono [OF NewNumericDate_le, of t0]
  by (simp add: token_issued_at_def jwt_claims_at_def)

text \<open>A token that was issued before the revocation is refused from then on: while the marker is there because of it, later because it has expired.\<close>

lemma revoked_token_refused:
  assumes "redis_laws entry (sr_redis (au_sessions svc))" and "session_config (au_cfg svc)" and "jwt_laws (au_jwt svc)"
    and "revoked_until entry (au_sessions svc) s at userID at" and "instant_ok at"
    and "GenerateJWT (au_jwt svc) (JWTSecret (au_cfg svc)) (JWTExp (au_cfg svc)) t0 userID = Some tok" and "0 \<le> t0" and "t0 \<le> at"
    and "at \<le> now e" and "\<not> fault e ''revoked user lookup''"
  shows "fst (VerifyUser svc e cache d s tok) = Inl (NewUnauthorizedError [])"
proof (cases "now e < at + JWTExp (au_cfg svc) * second")
  case True
  let ?c = "jwt_claims_at (JWTExp (au_cfg svc)) t0 userID"
  have "revoked_until entry (au_sessions svc) s (now e) userID at"
    using revoked_until_later [OF assms(1,4,9)] True by simp
  then have rev: "IsUserRevoked (au_sessions svc) e s userID (token_issued_at ?c (NewNumericDate t0)) = Inr True"
    by (rule revoked_until_refuses [OF assms(1) _ assms(5,10) token_issued_before [OF assms(7,8)]])
  have "ParseWithClaims (au_jwt svc) (JWTSecret (au_cfg svc)) (now e) tok \<in> {None, Some ?c}"
    using assms(3,6) by (auto simp: jwt_laws_def GenerateJWT_def split: option.splits)
  then show ?thesis using rev by (auto simp: VerifyUser_def jwt_claims_at_def Let_def)
next
  case False
  have "NewNumericDate (t0 + JWTExp (au_cfg svc) * second) \<le> now e"
    using NewNumericDate_le [of "t0 + JWTExp (au_cfg svc) * second"] assms(8) False by linarith
  then have "ParseWithClaims (au_jwt svc) (JWTSecret (au_cfg svc)) (now e) tok = None"
    using assms(3,6) by (simp add: jwt_laws_def GenerateJWT_def jwt_claims_at_def session_ttl [OF assms(2)])
  then show ?thesis by (simp add: VerifyUser_def)
qed

text \<open>The four handlers end with the same step.\<close>

lemma ChangePassword_revokes:
  assumes "redis_laws entry (sr_redis (as_sessions acc))" and "session_config (sr_cfg (as_sessions acc))"
    and "ChangePassword acc e valid nonce d s userID req = (Inr cs, d', s')"
  shows "revoked_until entry (as_sessions acc) s' (now e) userID (now e)"
  using assms(3) commit_with_revoke_revokes [OF assms(1,2)]
  by (auto simp: ChangePassword_def split: if_splits sum.splits prod.splits)

lemma ChangeEmail_revokes:
  assumes "redis_laws entry (sr_redis (as_sessions acc))" and "session_config (sr_cfg (as_sessions acc))"
    and "ChangeEmail acc e valid nonce ctx d s userID req = (Inr cs, d', s')"
  shows "revoked_until entry (as_sessions acc) s' (now e) userID (now e)"
  using assms(3) commit_with_revoke_revokes [OF assms(1,2)]
  by (auto simp: ChangeEmail_def Let_def split: if_splits sum.splits prod.splits)

lemma DeleteAccount_revokes:
  assumes "redis_laws entry (sr_redis (as_sessions acc))" and "session_config (sr_cfg (as_sessions acc))"
    and "DeleteAccount acc e nonce d0 d s userID pw = (Inr out, d', s')"
  shows "revoked_until entry (as_sessions acc) s' (now e) userID (now e)"
  using assms(3) commit_with_revoke_revokes [OF assms(1,2)]
  by (auto simp: DeleteAccount_def split: if_splits sum.splits prod.splits)

lemma reset_password_rows_Inr:
  assumes "reset_password_rows svc e d req = Inr (userID, d')"
  obtains u h where "u \<in> set (users d)" and "u_email u = Some (rs_email req)" and "u_deleted_at u = None" and "u_id u = userID"
    and "find_by_email e d (rs_email req) = Inr u"
    and "HashPassword (au_account svc) (rs_password req) = Some h" and "d' = set_user userID (\<lambda>u. u\<lparr>u_password_hash := Some h\<rparr>) d"
proof -
  obtain u h where u: "find_by_email e d (rs_email req) = Inr u" and h: "HashPassword (au_account svc) (rs_password req) = Some h"
    and up: "update_user e ''update password'' (u_id u) (\<lambda>u. u\<lparr>u_password_hash := Some h\<rparr>) d = Inr d'" and i: "u_id u = userID"
    using assms by (auto simp: reset_password_rows_def result_simps split: option.splits)
  have "[u] = filter (\<lambda>u. u_email u = Some (rs_email req) \<and> u_deleted_at u = None) (users d)"
    using u by (auto simp: find_by_email_def result_simps)
  then have "u \<in> set (filter (\<lambda>u. u_email u = Some (rs_email req) \<and> u_deleted_at u = None) (users d))" by (metis list.set_intros(1))
  moreover have "d' = set_user userID (\<lambda>u. u\<lparr>u_password_hash := Some h\<rparr>) d" using up i by (auto simp: update_user_def split: if_splits)
  ultimately show thesis using u h i by (intro that [of u h]) auto
qed

lemma ResetPassword_Inr:
  assumes "ResetPassword svc e valid nonce ctx d s req = (Inr cs, d', s')"
  obtains userID s1 where "reset_password_rows svc e d (req\<lparr>rs_email := NormalizeEmail (au_lower svc) (rs_email req)\<rparr>) = Inr (userID, d')"
    and "commit_with_revoke (au_sessions svc) e nonce userID d d' s1 = (Inr (), d', s')"
proof -
  obtain userID s1 d1 where rows: "reset_password_rows svc e d (req\<lparr>rs_email := NormalizeEmail (au_lower svc) (rs_email req)\<rparr>) = Inr (userID, d1)"
    and c: "commit_with_revoke (au_sessions svc) e nonce userID d d1 s1 = (Inr (), d', s')"
    using assms by (auto simp: ResetPassword_def Let_def split: if_splits sum.splits prod.splits)
  have "d1 = d'" by (rule commit_with_revoke_Inr [OF c]) simp
  with rows c that show thesis by blast
qed

text \<open>
  C12. After a successful change of the password or of the address, a password reset or the deletion of the account, every
  token that was issued to this user before is refused at every later instant, whatever the cache holds.
\<close>

theorem credential_change_ends_sessions:
  assumes "redis_laws entry (sr_redis (as_sessions (au_account svc)))" and "session_config (sr_cfg (as_sessions (au_account svc)))" and "jwt_laws (au_jwt svc)"
    and "ChangePassword (au_account svc) e valid nonce d s userID req = (Inr cs, d', s') \<or>
         ChangeEmail (au_account svc) e valid1 nonce ctx d s userID req1 = (Inr cs, d', s') \<or>
         DeleteAccount (au_account svc) e nonce d0 d s userID pw = (Inr out, d', s') \<or>
         ResetPassword svc e valid2 nonce ctx d s req2 = (Inr cs, d', s') \<and>
           find_by_email e d (NormalizeEmail (os_lower (as_otp (au_account svc))) (rs_email req2)) = Inr u \<and> u_id u = userID"
    and "GenerateJWT (au_jwt svc) (JWTSecret (sr_cfg (as_sessions (au_account svc)))) (JWTExp (sr_cfg (as_sessions (au_account svc)))) t0 userID = Some tok"
    and "0 \<le> t0" and "t0 \<le> now e" and "instant_ok (now e)" and "now e \<le> now e'" and "\<not> fault e' ''revoked user lookup''"
  shows "fst (VerifyUser svc e' cache d'' s' tok) = Inl (NewUnauthorizedError [])"
proof -
  have "revoked_until entry (as_sessions (au_account svc)) s' (now e) userID (now e)"
    using assms(4)
  proof (elim disjE conjE)
    assume r: "ResetPassword svc e valid2 nonce ctx d s req2 = (Inr cs, d', s')"
      and u: "find_by_email e d (NormalizeEmail (os_lower (as_otp (au_account svc))) (rs_email req2)) = Inr u" "u_id u = userID"
    show ?thesis
    proof (rule ResetPassword_Inr [OF r])
      fix i s1
      assume rows: "reset_password_rows svc e d (req2\<lparr>rs_email := NormalizeEmail (os_lower (as_otp (au_account svc))) (rs_email req2)\<rparr>) = Inr (i, d')"
        and c: "commit_with_revoke (as_sessions (au_account svc)) e nonce i d d' s1 = (Inr (), d', s')"
      have "i = userID" by (rule reset_password_rows_Inr [OF rows]) (use u in simp)
      then show ?thesis using commit_with_revoke_revokes [OF assms(1,2) c] by simp
    qed
  qed (blast intro: ChangePassword_revokes ChangeEmail_revokes DeleteAccount_revokes assms(1,2))+
  then show ?thesis
    by (rule revoked_token_refused [OF assms(1-3) _ assms(8) assms(5-7,9,10)])
qed

definition sample_jwt :: jwt_library where
  "sample_jwt = \<lparr>SignedString = (\<lambda>secret c. if c = jwt_claims_at 3600 0 1 then Some ''token'' else None),
     ParseWithClaims = (\<lambda>secret t tok. if tok = ''token'' \<and> t < 3600 * second then Some (jwt_claims_at 3600 0 1) else None)\<rparr>"

lemma sample_jwt_laws: "jwt_laws sample_jwt"
proof -
  have "jc_expires_at (jwt_claims_at 3600 0 1) = Some (3600 * second)" by code_simp
  then show ?thesis by (simp add: jwt_laws_def sample_jwt_def)
qed

definition sample_account :: "kv account_service" where
  "sample_account = \<lparr>as_sessions = sample_sessions, as_otp = sample_otp, as_hub = True, as_publisher = \<lparr>pb_db = True, pb_redis = True\<rparr>,
     HashPassword = (\<lambda>p. Some (''h'' @ p)), CheckPasswordHash = (\<lambda>p h. h = ''h'' @ p)\<rparr>"

definition sample_auth :: "kv auth_service" where
  "sample_auth = \<lparr>au_account = sample_account, au_jwt = sample_jwt, au_urls = \<lparr>GetPresignedURL = id, GetPublicURL = id\<rparr>, au_captcha = (\<lambda>_. True), au_sha256 = id\<rparr>"

definition sample_password_request :: password_request where
  "sample_password_request = \<lparr>pr_old = None, pr_new = ''new'', pr_confirm = ''new''\<rparr>"

abbreviation (input) sample_change :: "(control list, kv) outcome" where
  "sample_change \<equiv> ChangePassword sample_account (quiet_env 7) (\<lambda>_. True) ''n'' sample_db (\<lambda>_. None) 1 sample_password_request"

theorem credential_change_ends_sessions_witness:
  "fst (VerifyUser sample_auth (quiet_env 9) (\<lambda>_. None) sample_db (snd (snd sample_change)) ''token'') = Inl (NewUnauthorizedError [])"
proof -
  have redis: "redis_laws kv_entry_at (sr_redis (as_sessions (au_account sample_auth)))"
    by (simp add: sample_auth_def sample_account_def sample_sessions_def kv_redis_laws)
  have cfg: "session_config (sr_cfg (as_sessions (au_account sample_auth)))"
    by (simp add: sample_auth_def sample_account_def sample_sessions_def session_config_def)
  have jwt: "jwt_laws (au_jwt sample_auth)" by (simp add: sample_auth_def sample_jwt_laws)
  have "case fst sample_change of Inl _ \<Rightarrow> False | Inr _ \<Rightarrow> True" by code_simp
  then have change: "ChangePassword (au_account sample_auth) (quiet_env 7) (\<lambda>_. True) ''n'' sample_db (\<lambda>_. None) 1 sample_password_request =
      (Inr (projr (fst sample_change)), fst (snd sample_change), snd (snd sample_change))"
    by (auto simp: sample_auth_def prod_eq_iff split: sum.splits)
  have token: "GenerateJWT (au_jwt sample_auth) (JWTSecret (sr_cfg (as_sessions (au_account sample_auth))))
      (JWTExp (sr_cfg (as_sessions (au_account sample_auth)))) 0 1 = Some ''token''" by code_simp
  show ?thesis
    by (rule credential_change_ends_sessions [OF redis cfg jwt disjI1 [OF change] token])
      (simp_all add: quiet_env_def instant_ok_def max_int64_def)
qed

section \<open>Ending one session\<close>

lemma split_at_space_plain: "CHR '' '' \<notin> set w \<Longrightarrow> split_at_space w = [w]"
  by (induction w) auto

lemma split_at_space_append: "CHR '' '' \<notin> set w \<Longrightarrow> split_at_space (w @ CHR '' '' # rest) = w # split_at_space rest"
  by (induction w) auto

lemma split_bearer: "CHR '' '' \<notin> set tok \<Longrightarrow> split_at_space (''Bearer '' @ tok) = [''Bearer'', tok]"
  using split_at_space_append [of "''Bearer''" tok] split_at_space_plain [of tok] by simp

lemma Logout_blacklists:
  assumes "redis_laws entry (sr_redis (au_sessions svc))" and "Logout svc e s tok = (Inr cs, s')" and "session_config (au_cfg svc)"
  shows "entry s' (now e) (''blacklist:'' @ tok) =
    Some (''revoked'', Some (now e + whole millisecond (logout_ttl svc (now e) (ParseWithClaims (au_jwt svc) (JWTSecret (au_cfg svc)) (now e) tok))))"
proof -
  have pos: "0 < logout_ttl svc (now e) c" for c
    using assms(3) by (simp add: logout_ttl_def Let_def session_ttl [OF assms(3)]) (simp add: session_config_def)
  then show ?thesis
    using assms(2) redis_set [OF assms(1)] less_imp_le [OF pos] pos [THEN less_imp_neq]
    by (auto simp: Logout_def BlacklistToken_def Let_def split: if_splits option.splits prod.splits)
qed

text \<open>A token that was logged out stays in the blacklist until its last millisecond, and afterwards does not parse any more.\<close>

lemma Logout_lasts:
  assumes "redis_laws entry (sr_redis (au_sessions svc))" and "session_config (au_cfg svc)" and "jwt_laws (au_jwt svc)"
    and "SignedString (au_jwt svc) (JWTSecret (au_cfg svc)) claims = Some tok" and "jc_expires_at claims = Some ex"
    and "Logout svc e s tok = (Inr cs, s')" and "now e < ex" and "now e \<le> now e'"
    and "now e' + millisecond \<le> ex \<or> ex \<le> now e'" and "\<not> fault e' ''blacklist lookup''"
  shows "IsTokenBlacklisted (au_sessions svc) e' s' tok = Inr True \<or>
    ParseWithClaims (au_jwt svc) (JWTSecret (au_cfg svc)) (now e') tok = None"
proof -
  let ?parse = "\<lambda>t. ParseWithClaims (au_jwt svc) (JWTSecret (au_cfg svc)) t tok"
  have parse: "?parse t = (if t < ex then Some claims else None)" for t
    using assms(3,4,5) by (simp add: jwt_laws_def)
  have "entry s' (now e) (''blacklist:'' @ tok) = Some (''revoked'', Some (now e + whole millisecond (ex - now e)))"
    using Logout_blacklists [OF assms(1,6,2)] parse assms(5,7) by (simp add: logout_ttl_def Let_def)
  then have late: "entry s' (now e') (''blacklist:'' @ tok) =
      (if now e' < now e + whole millisecond (ex - now e) then Some (''revoked'', Some (now e + whole millisecond (ex - now e))) else None)"
    using redis_later [OF assms(1,8), of s' "''blacklist:'' @ tok"] by simp
  consider "now e' < now e + whole millisecond (ex - now e)" | "ex \<le> now e'"
    using assms(9) whole_close [of millisecond "ex - now e"] by fastforce
  then show ?thesis
  proof cases
    case 1
    then show ?thesis using late assms(10) by (simp add: IsTokenBlacklisted_def redis_get [OF assms(1)])
  next
    case 2
    then show ?thesis using parse by simp
  qed
qed

text \<open>
  C16. A token that was used to log out is refused by the middleware ever after: while its entry in the blacklist lives, and from the
  instant on at which the token itself has expired. The entry is kept in whole milliseconds, so the
  last millisecond of the token is left open.
\<close>

theorem logout_ends_session:
  assumes "redis_laws entry (sr_redis (as_sessions (au_account svc)))" and "session_config (sr_cfg (as_sessions (au_account svc)))" and "jwt_laws (au_jwt svc)"
    and "SignedString (au_jwt svc) (JWTSecret (sr_cfg (as_sessions (au_account svc)))) claims = Some tok" and "jc_expires_at claims = Some ex"
    and "CHR '' '' \<notin> set tok" and "Logout svc e s tok = (Inr cs, s')" and "now e < ex" and "now e \<le> now e'"
    and "now e' + millisecond \<le> ex \<or> ex \<le> now e'" and "\<not> fault e' ''blacklist lookup''"
  shows "\<exists>msg. fst (VerifyToken svc e' cache d s' (''Bearer '' @ tok)) = Inl (NewUnauthorizedError msg)"
proof -
  consider "IsTokenBlacklisted (as_sessions (au_account svc)) e' s' tok = Inr True"
    | "ParseWithClaims (au_jwt svc) (JWTSecret (sr_cfg (as_sessions (au_account svc)))) (now e') tok = None"
    using Logout_lasts [OF assms(1-5,7-11)] by (elim disjE) simp_all
  then show ?thesis
  proof cases
    case 1
    then show ?thesis by (auto simp: VerifyToken_def split_bearer [OF assms(6), simplified])
  next
    case 2
    then have "fst (VerifyUser svc e' cache d s' tok) = Inl (NewUnauthorizedError [])" by (simp add: VerifyUser_def)
    moreover have "IsTokenBlacklisted (as_sessions (au_account svc)) e' s' tok \<in> {Inr True, Inr False}"
      using assms(11) by (auto simp: IsTokenBlacklisted_def split: option.splits)
    ultimately show ?thesis
      by (auto simp: VerifyToken_def split_bearer [OF assms(6), simplified] split: prod.split)
  qed
qed

theorem logout_ends_session_witness:
  "\<exists>msg. fst (VerifyToken sample_auth (quiet_env 9) (\<lambda>_. None) sample_db (snd (Logout sample_auth (quiet_env 7) (\<lambda>_. None) ''token'')) (''Bearer '' @ ''token'')) =
     Inl (NewUnauthorizedError msg)"
proof (rule logout_ends_session)
  show "redis_laws kv_entry_at (sr_redis (as_sessions (au_account sample_auth)))"
    by (simp add: sample_auth_def sample_account_def sample_sessions_def kv_redis_laws)
  show "session_config (sr_cfg (as_sessions (au_account sample_auth)))"
    by (simp add: sample_auth_def sample_account_def sample_sessions_def session_config_def)
  show "jwt_laws (au_jwt sample_auth)" by (simp add: sample_auth_def sample_jwt_laws)
  show "SignedString (au_jwt sample_auth) (JWTSecret (sr_cfg (as_sessions (au_account sample_auth)))) (jwt_claims_at 3600 0 1) = Some ''token''"
    by (simp add: sample_auth_def sample_jwt_def)
  show "jc_expires_at (jwt_claims_at 3600 0 1) = Some (3600 * second)" by code_simp
  have "case fst (Logout sample_auth (quiet_env 7) (\<lambda>_. None) ''token'') of Inl _ \<Rightarrow> False | Inr _ \<Rightarrow> True" by code_simp
  then show "Logout sample_auth (quiet_env 7) (\<lambda>_. None) ''token'' =
      (Inr (projr (fst (Logout sample_auth (quiet_env 7) (\<lambda>_. None) ''token''))), snd (Logout sample_auth (quiet_env 7) (\<lambda>_. None) ''token''))"
    by (auto simp: prod_eq_iff split: sum.splits)
qed (simp_all add: quiet_env_def)

end
