(* ===== verification/Account_Laws.thy ===== *)
theory Account_Laws
  imports Auth_Laws
begin

text \<open>
  Further guarantees of \<^verbatim>\<open>src/internal/api/application/account\<close> and \<^verbatim>\<open>src/internal/api/application/auth\<close>: a failed
  change leaves the database and the revocation marker as they were, the cache of identities is at most ten seconds
  behind the database, a new password opens the account, and addresses and user names stay unique.
\<close>

section \<open>Failures change nothing\<close>

definition marker_value :: "'s observer \<Rightarrow> 's session_repository \<Rightarrow> 's \<Rightarrow> time \<Rightarrow> uuid \<Rightarrow> string option" where
  "marker_value entry r s t userID = map_option fst (entry s t (revoke_key r userID))"

lemma rollback_marker:
  assumes "redis_laws entry (sr_redis r)" and "session_config (sr_cfg r)"
    and "RevokeSessionsForTransaction r e s nonce userID = Inr (marker, snapshot, s1)"
    and "\<not> fault e ''failed to read revoke key for rollback''" and "\<not> fault e ''failed to restore previous revoke key''"
    and "\<not> fault e ''failed to delete revoke key during rollback''"
  shows "marker_value entry r (RollbackSessionRevokeIfNeeded r e s1 userID marker snapshot) (now e) userID = marker_value entry r s (now e) userID"
proof -
  note snap = RevokeSessionsForTransaction_Inr(1) [OF assms(3)]
  note set = RevokeAllSessionsAt_entry [OF assms(1,2) RevokeSessionsForTransaction_Inr(2) [OF assms(3)]]
  have ne: "marker \<noteq> []" using set(1) by simp
  have cur: "rc_get (sr_redis r) s1 (now e) (revoke_key r userID) = Some marker"
    using set(2) [of "revoke_key r userID"] by (simp add: redis_get [OF assms(1)])
  show ?thesis
  proof (cases "entry s (now e) (revoke_key r userID)")
    case None
    then have "snapshot = zero_snapshot"
      using snap by (auto simp: SnapshotUserRevoke_def redis_get [OF assms(1)] split: if_splits)
    then show ?thesis using ne cur assms(4-6) None
      by (simp add: marker_value_def RollbackSessionRevokeIfNeeded_def RollbackUserRevoke_def zero_snapshot_def redis_del [OF assms(1)])
  next
    case (Some en)
    then have "sn_exists snapshot \<and> sn_value snapshot = fst en \<and> 0 \<le> sn_ttl snapshot"
      using snap by (auto simp: SnapshotUserRevoke_def redis_get [OF assms(1)] Let_def split: if_splits)
    then show ?thesis using ne cur assms(4-6) Some
      by (simp add: marker_value_def RollbackSessionRevokeIfNeeded_def RollbackUserRevoke_def redis_set [OF assms(1)])
  qed
qed

definition no_rollback_fault :: "env \<Rightarrow> bool" where
  "no_rollback_fault e \<longleftrightarrow> \<not> fault e ''failed to read revoke key for rollback'' \<and> \<not> fault e ''failed to restore previous revoke key'' \<and>
     \<not> fault e ''failed to delete revoke key during rollback''"

lemma commit_with_revoke_Inl:
  assumes "redis_laws entry (sr_redis r)" and "session_config (sr_cfg r)" and "no_rollback_fault e"
    and "commit_with_revoke r e nonce userID d d' s = (Inl er, d1, s1)"
  shows "d1 = d" and "marker_value entry r s1 (now e) userID = marker_value entry r s (now e) userID"
  using assms(3,4) rollback_marker [OF assms(1,2)]
  by (auto simp: commit_with_revoke_def no_rollback_fault_def split: sum.splits prod.splits)

text \<open>When a change of the password fails, at whatever point, the database is as it was, and so is the revocation
  marker of the user: he is not logged out by a change that did not happen.
\<close>

theorem failed_password_change_keeps_state:
  assumes "redis_laws entry (sr_redis (as_sessions svc))" and "session_config (sr_cfg (as_sessions svc))" and "no_rollback_fault e"
    and "ChangePassword svc e valid nonce d s userID req = (Inl er, d', s')"
  shows "d' = d \<and> marker_value entry (as_sessions svc) s' (now e) userID = marker_value entry (as_sessions svc) s (now e) userID"
  using assms(4) commit_with_revoke_Inl [OF assms(1-3)]
  by (auto simp: ChangePassword_def split: if_splits sum.splits prod.splits)

definition failing_commit :: "time \<Rightarrow> env" where
  "failing_commit t = (quiet_env t)\<lparr>fault := (\<lambda>site. site = ''commit'')\<rparr>"

theorem failed_password_change_keeps_state_witness:
  "fst (snd (ChangePassword sample_account (failing_commit 7) (\<lambda>_. True) ''n'' sample_db (\<lambda>_. None) 1 sample_password_request)) = sample_db \<and>
   marker_value kv_entry_at (as_sessions sample_account)
     (snd (snd (ChangePassword sample_account (failing_commit 7) (\<lambda>_. True) ''n'' sample_db (\<lambda>_. None) 1 sample_password_request)))
     (now (failing_commit 7)) 1 = marker_value kv_entry_at (as_sessions sample_account) (\<lambda>_. None) (now (failing_commit 7)) 1"
proof (rule failed_password_change_keeps_state)
  let ?r = "ChangePassword sample_account (failing_commit 7) (\<lambda>_. True) ''n'' sample_db (\<lambda>_. None) 1 sample_password_request"
  show "redis_laws kv_entry_at (sr_redis (as_sessions sample_account))" by (simp add: sample_account_def sample_sessions_def kv_redis_laws)
  show "session_config (sr_cfg (as_sessions sample_account))" by (simp add: sample_account_def sample_sessions_def session_config_def)
  show "no_rollback_fault (failing_commit 7)" by (simp add: no_rollback_fault_def failing_commit_def)
  have "case fst ?r of Inl er \<Rightarrow> er = internal_error | Inr _ \<Rightarrow> False" by code_simp
  then show "?r = (Inl internal_error, fst (snd ?r), snd (snd ?r))" by (auto simp: prod_eq_iff split: sum.splits)
qed

section \<open>The cache of identities\<close>

text \<open>The calls of \<open>VerifyUser\<close> so far, each with its instant and the database it ran on; the database may change between them in any way.\<close>

inductive verify_trace :: "'s auth_service \<Rightarrow> (time \<times> db) list \<Rightarrow> user_cache \<Rightarrow> bool" for svc where
  start: "verify_trace svc [] (\<lambda>_. None)"
| verify: "verify_trace svc (h @ [(now e, d)]) cache'"
    if "verify_trace svc h cache" and "\<forall>(t, _)\<in>set h. t \<le> now e" and "VerifyUser svc e cache d s tok = (r, cache', d')"

inductive_cases verify_trace_snoc: "verify_trace svc (h @ [x]) cache"

definition vouched :: "time \<times> db \<Rightarrow> uuid \<Rightarrow> string \<Rightarrow> bool" where
  "vouched td userID role = (case td of (t, d) \<Rightarrow> \<exists>u\<in>set (users d). u_id u = userID \<and> user_active t u \<and> role = user_role_text (u_role u))"

text \<open>An entry of the cache was read from a database in which the user was active.\<close>

definition cache_ok :: "(time \<times> db) list \<Rightarrow> user_cache \<Rightarrow> bool" where
  "cache_ok h cache \<longleftrightarrow> (\<forall>u role x. cache u = Some (role, x) \<longrightarrow> (\<exists>td\<in>set h. x = fst td + authUserCacheTTL \<and> vouched td u role))"

lemma cache_ok_drop: "cache_ok h cache \<Longrightarrow> cache_ok h (cache(u := None))"
  by (simp add: cache_ok_def)

lemma cache_ok_more: "cache_ok h cache \<Longrightarrow> cache_ok (h @ [td]) cache"
  unfolding cache_ok_def by (metis Un_iff set_append)

lemma verify_lookup_vouched:
  assumes "verify_lookup e cache d userID = (Inr dto, cache', d')"
  shows "vouched (now e, d) userID (ud_role dto)" and "ud_id dto = userID"
    and "\<exists>c. cache' = c(userID := Some (ud_role dto, now e + authUserCacheTTL)) \<and> (c = cache \<or> c = cache(userID := None))"
proof -
  obtain u where u: "filter (\<lambda>u. u_id u = userID \<and> u_deleted_at u = None) (users d) = [u]"
    and ban: "check_ban e d u (\<lambda>_. ''Account is temporarily suspended'') = Inr d'"
    and out: "dto = zero_user_dto\<lparr>ud_id := userID, ud_role := user_role_text (u_role u)\<rparr>"
      "cache' = (if u_is_banned u then cache(userID := None) else cache)(userID := Some (user_role_text (u_role u), now e + authUserCacheTTL))"
    using assms by (auto simp: verify_lookup_def result_simps Let_def split: sum.splits ent_error.splits)
  have "u \<in> set (filter (\<lambda>u. u_id u = userID \<and> u_deleted_at u = None) (users d))" by (simp add: u)
  moreover from ban have "\<not> u_is_banned u \<or> (\<exists>b. u_banned_until u = Some b \<and> b \<le> now e)"
    by (auto simp: check_ban_def split: if_splits option.splits)
  ultimately show "vouched (now e, d) userID (ud_role dto)" by (auto simp: vouched_def user_active_def out)
  show "ud_id dto = userID" by (simp add: out)
  show "\<exists>c. cache' = c(userID := Some (ud_role dto, now e + authUserCacheTTL)) \<and> (c = cache \<or> c = cache(userID := None))"
    unfolding out by (cases "u_is_banned u") auto
qed

lemma verify_lookup_Inl:
  "verify_lookup e cache d userID = (Inl er, cache', d') \<Longrightarrow> cache' = cache \<or> cache' = cache(userID := None)"
  by (auto simp: verify_lookup_def Let_def split: sum.splits ent_error.splits if_splits)

lemma verify_lookup_cache_ok:
  assumes "cache_ok h cache" and "verify_lookup e cache d userID = (r, cache', d')"
  shows "cache_ok (h @ [(now e, d)]) cache'"
proof (cases r)
  case (Inl er)
  then show ?thesis using verify_lookup_Inl [of e cache d userID er cache' d'] assms cache_ok_drop cache_ok_more by blast
next
  case (Inr dto)
  with assms(2) have v: "verify_lookup e cache d userID = (Inr dto, cache', d')" by simp
  obtain c where c: "cache' = c(userID := Some (ud_role dto, now e + authUserCacheTTL))" "c = cache \<or> c = cache(userID := None)"
    using verify_lookup_vouched(3) [OF v] by blast
  then have "cache_ok (h @ [(now e, d)]) c" using assms(1) cache_ok_drop cache_ok_more by blast
  then show ?thesis using verify_lookup_vouched(1) [OF v] c(1) by (auto simp: cache_ok_def)
qed

lemma VerifyUser_cases:
  assumes "VerifyUser svc e cache d s tok = (r, cache', d')"
  obtains (kept) er where "r = Inl er" and "cache' = cache"
  | (dropped) er userID where "r = Inl er" and "cache' = cache(userID := None)"
  | (hit) userID role x where "cache userID = Some (role, x)" and "now e < x" and "cache' = cache"
      and "r = Inr (zero_user_dto\<lparr>ud_id := userID, ud_role := role\<rparr>)"
  | (lookup) userID c where "verify_lookup e c d userID = (r, cache', d')" and "c = cache \<or> c = cache(userID := None)"
proof (cases "ParseWithClaims (au_jwt svc) (JWTSecret (au_cfg svc)) (now e) tok")
  case None
  with assms show thesis by (intro kept [of "NewUnauthorizedError []"]) (simp_all add: VerifyUser_def)
next
  case (Some claims)
  note parsed = Some
  define userID where "userID = jc_user_id claims"
  show thesis
  proof (cases "jc_issued_at claims")
    case None
    with parsed assms show thesis by (intro kept [of "NewUnauthorizedError []"]) (simp_all add: VerifyUser_def)
  next
    case (Some issued)
    note claims = parsed Some
    show thesis
    proof (cases "IsUserRevoked (au_sessions svc) e s userID (token_issued_at claims issued)")
      case (Inl er)
      with claims assms show thesis
        by (intro kept [of "NewServiceUnavailableError ''Session service unavailable''"]) (simp_all add: VerifyUser_def userID_def)
    next
      case (Inr b)
      show thesis
      proof (cases b)
        case True
        with Inr claims assms show thesis
          by (intro dropped [of "NewUnauthorizedError []" userID]) (simp_all add: VerifyUser_def userID_def)
      next
        case False
        have v: "VerifyUser svc e cache d s tok = (case cache userID of
            Some (role, expiresAt) \<Rightarrow> if now e < expiresAt then (Inr (zero_user_dto\<lparr>ud_id := userID, ud_role := role\<rparr>), cache, d)
              else verify_lookup e (cache(userID := None)) d userID
          | None \<Rightarrow> verify_lookup e cache d userID)"
          using Inr False claims unfolding userID_def by (simp add: VerifyUser_def Let_def)
        show thesis
        proof (cases "cache userID")
          case None
          with v assms show thesis by (intro lookup [of cache userID]) simp_all
        next
          case (Some en)
          with v assms show thesis
            using hit [of userID "fst en" "snd en"] lookup [of "cache(userID := None)" userID] by (cases "now e < snd en") (simp_all add: case_prod_unfold)
        qed
      qed
    qed
  qed
qed

lemma verify_trace_cache_ok: "verify_trace svc h cache \<Longrightarrow> cache_ok h cache"
proof (induction rule: verify_trace.induct)
  case (verify h cache e d s tok r cache' d')
  from verify.hyps(3) show ?case
  proof (cases rule: VerifyUser_cases)
    case (lookup userID c)
    then show ?thesis using verify_lookup_cache_ok [of h c] verify.IH cache_ok_drop by blast
  qed (use verify.IH cache_ok_drop cache_ok_more in blast)+
qed (simp add: cache_ok_def)

text \<open>
  C15. Whatever happens to the database between the calls of \<open>VerifyUser\<close>, a token is accepted only for a user who was active, with the role
  reported, in a database read less than ten seconds ago: the cache delays a ban, a deletion or a change of role no longer.
\<close>

theorem auth_cache_staleness:
  assumes "verify_trace svc h cache" and "\<forall>(t, _)\<in>set h. t \<le> now e" and "VerifyUser svc e cache d s tok = (Inr dto, cache', d')"
  shows "\<exists>(t, d0)\<in>set (h @ [(now e, d)]). now e < t + authUserCacheTTL \<and> t \<le> now e \<and>
     (\<exists>u\<in>set (users d0). u_id u = ud_id dto \<and> user_active t u \<and> ud_role dto = user_role_text (u_role u))"
  using assms(3)
proof (cases rule: VerifyUser_cases)
  case (hit userID role x)
  then obtain td where "td \<in> set h" "x = fst td + authUserCacheTTL" "vouched td userID role"
    using verify_trace_cache_ok [OF assms(1)] unfolding cache_ok_def by blast
  with hit assms(2) show ?thesis by (intro bexI [of _ td]) (auto simp: vouched_def split: prod.splits)
next
  case (lookup userID c)
  then show ?thesis using verify_lookup_vouched [of e c d userID dto cache' d']
    by (intro bexI [of _ "(now e, d)"]) (auto simp: vouched_def authUserCacheTTL_def)
qed simp_all

theorem auth_cache_staleness_witness:
  "\<exists>(t, d0)\<in>set ([] @ [(now (quiet_env 9), sample_db)]). now (quiet_env 9) < t + authUserCacheTTL \<and> t \<le> now (quiet_env 9) \<and>
     (\<exists>u\<in>set (users d0). u_id u = ud_id (projr (fst (VerifyUser sample_auth (quiet_env 9) (\<lambda>_. None) sample_db (\<lambda>_. None) ''token''))) \<and> user_active t u \<and>
        ud_role (projr (fst (VerifyUser sample_auth (quiet_env 9) (\<lambda>_. None) sample_db (\<lambda>_. None) ''token''))) = user_role_text (u_role u))"
proof (rule auth_cache_staleness [OF verify_trace.start])
  let ?r = "VerifyUser sample_auth (quiet_env 9) (\<lambda>_. None) sample_db (\<lambda>_. None) ''token''"
  have "case fst ?r of Inl _ \<Rightarrow> False | Inr _ \<Rightarrow> True" by code_simp
  then show "?r = (Inr (projr (fst ?r)), fst (snd ?r), snd (snd ?r))" by (auto simp: prod_eq_iff split: sum.splits)
qed simp

end
