(* ===== verification/Search_Pages.thy ===== *)
theory Search_Pages
  imports Paging Cursor Text_Helpers Schema "HOL-Library.Product_Lexorder"
begin

text \<open>
  What the searches of \<^verbatim>\<open>src/internal/infrastructure/database/repository\<close> share: a page holds the rows
  behind the cursor in an ascending order, one row more than asked for tells whether there is a next page, and the cursor of
  the next page names the last row of this one. What the database decides about texts is the argument \<open>collation\<close>: its lower case,
  its comparison without case and the position of a name in its order.
\<close>

record collation =
  db_lower :: "string \<Rightarrow> string"
  equal_fold :: "string \<Rightarrow> string \<Rightarrow> bool"
  name_rank :: "string \<Rightarrow> nat"

datatype search_error = CursorFormat cursor_error | CursorKeyFormat | CursorIdFormat | SearchQuery ent_error

text \<open>\<open>strings.Contains(err.Error(), "invalid cursor format")\<close>: the errors of the key and the identifier have other texts.\<close>

definition search_failed :: "search_error \<Rightarrow> app_error" where
  "search_failed er = (case er of CursorFormat _ \<Rightarrow> NewBadRequestError [] | _ \<Rightarrow> NewInternalServerError [])"

definition has_lower_prefix :: "collation \<Rightarrow> (string \<Rightarrow> string) \<Rightarrow> string \<Rightarrow> string option \<Rightarrow> bool" where
  "has_lower_prefix col ulow q x = (case x of None \<Rightarrow> False | Some v \<Rightarrow> prefix (ToLower ulow q) (db_lower col v))"

definition page_of :: "nat \<Rightarrow> ('a \<Rightarrow> string) \<Rightarrow> 'a list \<Rightarrow> 'a list \<times> string \<times> bool" where
  "page_of limit mk rows =
     (if length rows > limit then (take limit rows, mk (last (take limit rows)), True) else (rows, [], False))"

lemma page_of_map:
  assumes "\<And>x. mk (f x) = mk' x" and "0 < n"
  shows "page_of n mk (map f xs) = (case page_of n mk' xs of (p, c, h) \<Rightarrow> (map f p, c, h))"
proof (cases "n < length xs")
  case True
  then have "take n xs \<noteq> []" using assms(2) by auto
  then show ?thesis using True assms(1) by (simp add: page_of_def take_map last_map)
qed (simp add: page_of_def)

lemma own_cursor:
  assumes "sep \<noteq> []" and "\<not> sublist sep (a @ butlast sep)" and "\<not> sublist sep b"
  shows "DecodeCursor (EncodeCursor a b sep) sep = Inr (a, b)" and "EncodeCursor a b sep \<noteq> []"
  using Split_once [OF assms] assms(1) by (simp_all add: DecodeCursor_def EncodeCursor_def b64_decode_encode b64_encode_Nil)

section \<open>Ascending keyset pages\<close>

definition keyset_above :: "('a \<Rightarrow> 'k::linorder) \<Rightarrow> 'k option \<Rightarrow> 'a list \<Rightarrow> 'a list" where
  "keyset_above key cur rows = sort_key key (filter (\<lambda>r. case cur of None \<Rightarrow> True | Some k \<Rightarrow> k < key r) rows)"

lemma keyset_above_mem:
  "r \<in> set (keyset_above key cur rows) \<longleftrightarrow> r \<in> set rows \<and> (case cur of None \<Rightarrow> True | Some k \<Rightarrow> k < key r)"
  by (simp add: keyset_above_def)

lemma length_keyset_above: "length (keyset_above key cur rows) \<le> length rows"
  by (simp add: keyset_above_def)

lemma keyset_above_next:
  assumes "distinct (map key rows)" and "0 < n" and "n \<le> length (keyset_above key cur rows)"
  shows "keyset_above key (Some (key (keyset_above key cur rows ! (n - 1)))) rows = drop n (keyset_above key cur rows)"
proof -
  let ?B = "keyset_above key cur rows" and ?P = "\<lambda>r. case cur of None \<Rightarrow> True | Some k \<Rightarrow> k < key r"
  define x where "x = ?B ! (n - 1)"
  have k: "n - 1 < length ?B" using assms(2,3) by simp
  then have "x \<in> set ?B" by (simp add: x_def)
  then have "?P x" using keyset_above_mem by fast
  then have "filter (\<lambda>r. key x < key r) rows = filter (\<lambda>r. key x < key r) (filter ?P rows)"
    by (auto intro!: filter_cong split: option.splits)
  then have "keyset_above key (Some (key x)) rows = filter (\<lambda>r. key x < key r) ?B"
    by (simp only: keyset_above_def option.case filter_sort [symmetric])
  also have "\<dots> = drop (Suc (n - 1)) ?B"
    unfolding x_def
  proof (rule filter_behind [OF _ k])
    show "sorted_wrt (\<lambda>a b. key a < key b) ?B" unfolding keyset_above_def
      by (rule strict_sort_key) (simp add: assms(1) distinct_map_filter)
  qed simp
  finally show ?thesis using assms(2) by (simp add: x_def)
qed

text \<open>A page of such rows is a first part of what is left, and its cursor leaves the remainder.\<close>

lemma page_of_keyset:
  fixes key :: "'a \<Rightarrow> 'k::linorder" and cur :: "'k option"
  assumes "distinct (map key rows)" and "0 < limit"
  defines "B \<equiv> keyset_above key cur rows"
  shows "page_of limit mk (take (limit + 1) B) =
           (take limit B, if length B > limit then mk (B ! (limit - 1)) else [], length B > limit)"
    and "length B > limit \<Longrightarrow> keyset_above key (Some (key (B ! (limit - 1)))) rows = drop limit B"
    and "length B > limit \<Longrightarrow> B ! (limit - 1) \<in> set rows"
proof -
  show "page_of limit mk (take (limit + 1) B) = (take limit B, if length B > limit then mk (B ! (limit - 1)) else [], length B > limit)"
    using last_take [of limit B] assms(2) by (simp add: page_of_def min_def)
  show "keyset_above key (Some (key (B ! (limit - 1)))) rows = drop limit B" if "length B > limit"
    using keyset_above_next [OF assms(1,2), of cur] that by (simp add: B_def)
  show "B ! (limit - 1) \<in> set rows" if h: "length B > limit"
  proof -
    have "limit - 1 < length B" using h by simp
    then have "B ! (limit - 1) \<in> set B" by simp
    then show ?thesis by (simp add: B_def keyset_above_mem)
  qed
qed

lemma search_page_good:
  assumes "distinct (map key rows)" and "0 < limit" and "\<And>r. r \<in> set rows \<Longrightarrow> decode (mk r) = Some (Some (key r))" and "decode c = Some cur"
  shows "\<exists>page nextCursor hasNext. page_of limit mk (take (limit + 1) (keyset_above key cur rows)) = (page, nextCursor, hasNext) \<and>
     (if hasNext then page \<noteq> [] \<and> (\<exists>cur'. decode nextCursor = Some cur' \<and> keyset_above key cur rows = page @ keyset_above key cur' rows)
      else keyset_above key cur rows = page)"
proof -
  let ?B = "keyset_above key cur rows"
  show ?thesis
  proof (cases "length ?B > limit")
    case True
    then have "decode (mk (?B ! (limit - 1))) = Some (Some (key (?B ! (limit - 1))))"
      using assms(3) page_of_keyset(3) [OF assms(1,2)] by blast
    moreover have "?B = take limit ?B @ keyset_above key (Some (key (?B ! (limit - 1)))) rows"
      using page_of_keyset(2) [OF assms(1,2) True] by simp
    moreover have "take limit ?B \<noteq> []" using True assms(2) by auto
    ultimately show ?thesis using page_of_keyset(1) [OF assms(1,2), where mk = mk and cur = cur] True by auto
  next
    case False
    then show ?thesis using page_of_keyset(1) [OF assms(1,2), where mk = mk and cur = cur] by auto
  qed
qed

section \<open>Searches\<close>

text \<open>
  The contract of a search with such pages, for any configuration that is good: the rows it finds have different keys, the cursor of a row
  is read as its key, and a page is the page of the rows above the cursor, each shown by \<open>view\<close>. It is a reader whose cursors can be followed.
\<close>

locale keyset_search =
  fixes fetch :: "'cfg \<Rightarrow> string \<Rightarrow> 'e + ('r list \<times> string \<times> bool)"
    and rows :: "'cfg \<Rightarrow> 'a list"
    and key :: "'cfg \<Rightarrow> 'a \<Rightarrow> 'k::linorder"
    and mk :: "'cfg \<Rightarrow> 'a \<Rightarrow> string"
    and mark :: "'cfg \<Rightarrow> string \<Rightarrow> 'k option option"
    and limit :: "'cfg \<Rightarrow> nat"
    and view :: "'a \<Rightarrow> 'r"
    and good :: "'cfg \<Rightarrow> bool"
  assumes good_keys: "good cfg \<Longrightarrow> distinct (map (key cfg) (rows cfg))"
    and good_limit: "good cfg \<Longrightarrow> 0 < limit cfg"
    and mark_start: "mark cfg [] = Some None"
    and mark_next: "good cfg \<Longrightarrow> r \<in> set (rows cfg) \<Longrightarrow> mark cfg (mk cfg r) = Some (Some (key cfg r))"
    and fetch_page: "good cfg \<Longrightarrow> mark cfg c = Some cur \<Longrightarrow>
      fetch cfg c = Inr (case page_of (limit cfg) (mk cfg) (take (limit cfg + 1) (keyset_above (key cfg) cur (rows cfg))) of (p, nc, h) \<Rightarrow> (map view p, nc, h))"
begin

definition left :: "'cfg \<Rightarrow> string \<Rightarrow> 'r list" where
  "left cfg c = (case mark cfg c of None \<Rightarrow> [] | Some cur \<Rightarrow> map view (keyset_above (key cfg) cur (rows cfg)))"

lemma fetch_left:
  assumes "good cfg" and "mark cfg c = Some cur"
  shows "\<exists>page nc hn. fetch cfg c = Inr (page, nc, hn) \<and>
    (if hn then page \<noteq> [] \<and> (good cfg \<and> mark cfg nc \<noteq> None) \<and> left cfg c = page @ left cfg nc else left cfg c = page)"
proof -
  have "\<exists>p nc h. page_of (limit cfg) (mk cfg) (take (limit cfg + 1) (keyset_above (key cfg) cur (rows cfg))) = (p, nc, h) \<and>
     (if h then p \<noteq> [] \<and> (\<exists>cur'. mark cfg nc = Some cur' \<and> keyset_above (key cfg) cur (rows cfg) = p @ keyset_above (key cfg) cur' (rows cfg))
      else keyset_above (key cfg) cur (rows cfg) = p)"
    by (rule search_page_good [where decode = "mark cfg", OF good_keys [OF assms(1)] good_limit [OF assms(1)] _ assms(2)]) (rule mark_next [OF assms(1)])
  then obtain p nc h where page: "page_of (limit cfg) (mk cfg) (take (limit cfg + 1) (keyset_above (key cfg) cur (rows cfg))) = (p, nc, h)"
    and next_page: "if h then p \<noteq> [] \<and> (\<exists>cur'. mark cfg nc = Some cur' \<and> keyset_above (key cfg) cur (rows cfg) = p @ keyset_above (key cfg) cur' (rows cfg))
      else keyset_above (key cfg) cur (rows cfg) = p" by (elim exE conjE)
  have "fetch cfg c = Inr (map view p, nc, h)" using fetch_page [OF assms] page by simp
  moreover have "if h then map view p \<noteq> [] \<and> (good cfg \<and> mark cfg nc \<noteq> None) \<and> left cfg c = map view p @ left cfg nc else left cfg c = map view p"
    using next_page assms by (cases h) (auto simp: left_def)
  ultimately show ?thesis by (intro exI conjI)
qed

end

sublocale keyset_search \<subseteq> paged_reader fetch left "\<lambda>cfg c. good cfg \<and> mark cfg c \<noteq> None"
  by unfold_locales (use fetch_left in blast)

context keyset_search
begin

lemma visits_all:
  assumes "good cfg" and "length (rows cfg) < fuel"
  shows "walk fuel (fetch cfg) [] = Some (map view (sort_key (key cfg) (rows cfg)))"
proof -
  have "left cfg [] = map view (sort_key (key cfg) (rows cfg))" by (simp add: left_def mark_start keyset_above_def)
  then show ?thesis using walk_all [of cfg "[]" fuel] assms mark_start by simp
qed

end

end
