(* ===== verification/User_Service.thy ===== *)
theory User_Service
  imports Auth_Service Search_Pages
begin

text \<open>
  \<^verbatim>\<open>src/internal/api/application/user/user_service.go\<close> and the searches of
  \<^verbatim>\<open>src/internal/infrastructure/database/repository/user_repository.go\<close>. The presence store answers whether a user is
  online; its errors are ignored and read as offline. Of an event the payload and its recipients are kept.
\<close>

record user_service =
  us_urls :: urlgen
  us_hub :: bool
  us_publisher :: publisher
  us_online :: "uuid \<Rightarrow> bool"
  us_lower :: "string \<Rightarrow> string"
  us_codec :: uuid_codec
  us_collation :: collation

datatype user_payload = UserUpdated uuid string string string string "stamp option" | BlockPair uuid uuid

definition user_avatar_url :: "user_service \<Rightarrow> db \<Rightarrow> user \<Rightarrow> string" where
  "user_avatar_url svc d u = avatar_link (us_urls svc) (Option.bind (u_avatar_id u) (media_of d))"

definition find_live_user :: "env \<Rightarrow> string \<Rightarrow> db \<Rightarrow> uuid \<Rightarrow> string \<Rightarrow> app_error + user" where
  "find_live_user e site d userID notFound =
     on_err (ent_only (fault e site) (filter (\<lambda>u. u_id u = userID \<and> u_deleted_at u = None) (users d)))
       (\<lambda>er. if er = NotFoundError then NewNotFoundError notFound else internal_error)"

section \<open>Profiles\<close>

definition own_profile :: "user_service \<Rightarrow> user \<Rightarrow> string \<Rightarrow> user_dto" where
  "own_profile svc u avatarURL = zero_user_dto\<lparr>ud_id := u_id u, ud_email := text_or_empty (u_email u), ud_username := text_or_empty (u_username u),
     ud_full_name := text_or_empty (u_full_name u), ud_avatar := avatarURL, ud_bio := text_or_empty (u_bio u),
     ud_role := user_role_text (u_role u), ud_has_password := (u_password_hash u \<noteq> None), ud_is_online := Some (us_online svc (u_id u))\<rparr>"

definition GetCurrentUser :: "user_service \<Rightarrow> env \<Rightarrow> db \<Rightarrow> uuid \<Rightarrow> app_error + user_dto" where
  "GetCurrentUser svc e d userID =
     and_then (find_live_user e ''query user'' d userID []) (\<lambda>u. Inr (own_profile svc u (user_avatar_url svc d u)))"

definition profile_banned :: "time \<Rightarrow> user \<Rightarrow> bool" where
  "profile_banned t u \<longleftrightarrow> u_is_banned u \<and> \<not> (case u_banned_until u of None \<Rightarrow> False | Some b \<Rightarrow> b < t)"

definition GetUserProfile :: "user_service \<Rightarrow> env \<Rightarrow> db \<Rightarrow> uuid \<Rightarrow> uuid \<Rightarrow> app_error + user_dto" where
  "GetUserProfile svc e d currentUserID targetUserID =
     and_then (on_err (ent_all (fault e ''check block status'')
         (filter (\<lambda>b. ub_blocker_id b = currentUserID \<and> ub_blocked_id b = targetUserID \<or>
                       ub_blocker_id b = targetUserID \<and> ub_blocked_id b = currentUserID) (user_blocks d))) (\<lambda>_. internal_error)) (\<lambda>blocks.
     let isBlockedByMe = (\<exists>b\<in>set blocks. ub_blocker_id b = currentUserID);
         isBlockedByOther = (\<exists>b\<in>set blocks. ub_blocker_id b = targetUserID) in
     and_then (find_live_user e ''query user profile'' d targetUserID ''User not found'') (\<lambda>u.
     let hidden = (isBlockedByMe \<or> isBlockedByOther \<or> profile_banned (now e) u) in
     Inr (zero_user_dto\<lparr>ud_id := u_id u, ud_username := text_or_empty (u_username u), ud_full_name := text_or_empty (u_full_name u),
        ud_avatar := user_avatar_url svc d u, ud_bio := text_or_empty (u_bio u), ud_role := user_role_text (u_role u),
        ud_is_blocked_by_me := Some isBlockedByMe, ud_is_blocked_by_other := Some isBlockedByOther,
        ud_is_online := Some (\<not> hidden \<and> us_online svc (u_id u)),
        ud_last_seen_at := (if hidden then None else map_option RFC3339 (u_last_seen_at u))\<rparr>)))"

section \<open>UpdateProfile\<close>

record profile_request =
  pq_username :: string
  pq_full_name :: string
  pq_bio :: string
  pq_avatar_media_id :: "uuid option"
  pq_delete_avatar :: bool

text \<open>The name, the bio and the user name to be set, each with whether it changes anything.\<close>

definition profile_name :: "profile_request \<Rightarrow> user \<Rightarrow> bool" where
  "profile_name req u \<longleftrightarrow> pq_full_name req \<noteq> [] \<and> u_full_name u \<noteq> Some (pq_full_name req)"

definition profile_bio :: "profile_request \<Rightarrow> user \<Rightarrow> bool" where
  "profile_bio req u \<longleftrightarrow> pq_bio req \<noteq> text_or_empty (u_bio u)"

definition profile_username :: "user_service \<Rightarrow> env \<Rightarrow> db \<Rightarrow> profile_request \<Rightarrow> user \<Rightarrow> app_error + string option" where
  "profile_username svc e d req u =
     (let normalized = NormalizeUsername (us_lower svc) (pq_username req) in
      if pq_username req = [] \<or> normalized = text_or_empty (u_username u) then Inr None
      else and_then (on_err (ent_exist (fault e ''check username existence'')
               (filter (\<lambda>v. u_username v = Some normalized \<and> u_deleted_at v = None) (users d))) (\<lambda>_. internal_error)) (\<lambda>exists.
           and_then (fail_if exists (NewConflictError ''Username already taken'')) (\<lambda>_. Inr (Some normalized))))"

definition usable_user_avatar :: "db \<Rightarrow> uuid \<Rightarrow> uuid \<Rightarrow> media list" where
  "usable_user_avatar d uploader mid = filter (\<lambda>m. md_id m = mid \<and> md_category m = CategoryUserAvatar \<and>
     md_upload_status m = UploadStatusCompleted \<and> md_uploaded_by_id m = Some uploader \<and>
     (\<exists>u\<in>set (users d). u_id u = uploader) \<and>
     \<not> (\<exists>u\<in>set (users d). u_avatar_id u = Some (md_id m)) \<and> \<not> (\<exists>g\<in>set (group_chats d). gc_avatar_id g = Some (md_id m)) \<and>
     md_message_id m = None) (medias d)"

text \<open>The avatar after the update: none, a new one, or the one the user had.\<close>

definition profile_avatar :: "env \<Rightarrow> db \<Rightarrow> uuid \<Rightarrow> profile_request \<Rightarrow> user \<Rightarrow> app_error + (uuid option \<times> string)" where
  "profile_avatar e d userID req u =
     (if pq_delete_avatar req then Inr (None, [])
      else case pq_avatar_media_id req of
             Some mid \<Rightarrow>
               and_then (on_err (ent_only (fault e ''query avatar'') (usable_user_avatar d userID mid))
                   (\<lambda>er. if er = NotFoundError then NewBadRequestError ''Invalid avatar media'' else internal_error)) (\<lambda>m.
                 Inr (Some (md_id m), md_file_name m))
           | None \<Rightarrow> Inr (u_avatar_id u, case Option.bind (u_avatar_id u) (media_of d) of None \<Rightarrow> [] | Some m \<Rightarrow> md_file_name m))"

definition edited_profile :: "profile_request \<Rightarrow> string option \<Rightarrow> uuid option \<Rightarrow> user \<Rightarrow> user" where
  "edited_profile req username avatar u = u\<lparr>
     u_full_name := (if profile_name req u then Some (pq_full_name req) else u_full_name u),
     u_bio := (if profile_bio req u then (if pq_bio req = [] then None else Some (pq_bio req)) else u_bio u),
     u_username := (case username of None \<Rightarrow> u_username u | Some n \<Rightarrow> Some n),
     u_avatar_id := avatar\<rparr>"

text \<open>\<open>Save\<close>: validators first, then the unique index of the other rows.\<close>

definition save_user :: "env \<Rightarrow> db \<Rightarrow> user \<Rightarrow> app_error + db" where
  "save_user e d u =
     (if fault e ''save profile'' \<or> \<not> user_fields_ok u then Inl internal_error
      else if \<not> user_unique (filter (\<lambda>v. u_id v \<noteq> u_id u) (users d)) u then Inl (NewConflictError ''Username already taken'')
      else Inr (set_user (u_id u) (\<lambda>_. u) d))"

definition profile_events :: "user_service \<Rightarrow> env \<Rightarrow> db \<Rightarrow> user \<Rightarrow> string \<Rightarrow> user_payload publication list" where
  "profile_events svc e d u avatarURL =
     (if \<not> us_hub svc then []
      else let ev = \<lparr>le_type = EventUserUpdate, le_payload = UserUpdated (u_id u) (text_or_empty (u_username u)) (text_or_empty (u_full_name u))
             avatarURL (text_or_empty (u_bio u)) (map_option RFC3339 (u_last_seen_at u))\<rparr>
           in BroadcastToUser (us_publisher svc) (u_id u) ev @ BroadcastToContacts (us_publisher svc) (fault e) d (u_id u) ev)"

definition with_last_seen :: "user \<Rightarrow> user_dto \<Rightarrow> user_dto" where
  "with_last_seen u dto = dto\<lparr>ud_last_seen_at := map_option RFC3339 (u_last_seen_at u)\<rparr>"

definition UpdateProfile :: "user_service \<Rightarrow> env \<Rightarrow> (profile_request \<Rightarrow> bool) \<Rightarrow> db \<Rightarrow> uuid \<Rightarrow> profile_request \<Rightarrow>
    app_error + (user_dto \<times> user_payload publication list \<times> db)" where
  "UpdateProfile svc e valid d userID req0 =
     (let req = req0\<lparr>pq_full_name := TrimSpace (pq_full_name req0), pq_bio := TrimSpace (pq_bio req0)\<rparr> in
      and_then (fail_if (pq_delete_avatar req \<and> pq_avatar_media_id req \<noteq> None) (NewBadRequestError [])) (\<lambda>_.
      and_then (fail_if (\<not> valid req) (NewBadRequestError [])) (\<lambda>_.
      and_then (begin_tx e) (\<lambda>_.
      and_then (find_live_user e ''query user'' d userID []) (\<lambda>u.
      and_then (profile_username svc e d req u) (\<lambda>username.
      if \<not> profile_name req u \<and> \<not> profile_bio req u \<and> username = None \<and> \<not> pq_delete_avatar req \<and> pq_avatar_media_id req = None
      then Inr (with_last_seen u (own_profile svc u (user_avatar_url svc d u)), [], d)
      else
        and_then (profile_avatar e d userID req u) (\<lambda>(avatar, fileName).
        let u' = edited_profile req username avatar u;
            avatarURL = (if fileName = [] then [] else GetPublicURL (us_urls svc) fileName) in
        and_then (save_user e d u') (\<lambda>d'.
        and_then (commit e) (\<lambda>_.
          Inr (with_last_seen u' (own_profile svc u' avatarURL), profile_events svc e d' u' avatarURL, d'))))))))))"

section \<open>Blocks\<close>

definition new_block :: "env \<Rightarrow> uuid \<Rightarrow> uuid \<Rightarrow> user_block" where
  "new_block e blockerID blockedID = \<lparr>ub_id = newid e 0, ub_blocker_id = blockerID, ub_blocked_id = blockedID\<rparr>"

text \<open>The pair is unique, and both users must exist.\<close>

definition insert_block :: "bool \<Rightarrow> db \<Rightarrow> user_block \<Rightarrow> ent_error + db" where
  "insert_block broken d b =
     (if broken then Inl DriverError
      else if (\<exists>x\<in>set (user_blocks d). ub_blocker_id x = ub_blocker_id b \<and> ub_blocked_id x = ub_blocked_id b) \<or>
              \<not> {ub_blocker_id b, ub_blocked_id b} \<subseteq> u_id ` set (users d)
      then Inl ConstraintError
      else Inr (d\<lparr>user_blocks := user_blocks d @ [b]\<rparr>))"

definition block_events :: "user_service \<Rightarrow> string \<Rightarrow> uuid \<Rightarrow> uuid \<Rightarrow> user_payload publication list" where
  "block_events svc ty blockerID blockedID =
     (if us_hub svc
      then BroadcastToUser (us_publisher svc) blockedID \<lparr>le_type = ty, le_payload = BlockPair blockerID blockedID\<rparr> @
           BroadcastToUser (us_publisher svc) blockerID \<lparr>le_type = ty, le_payload = BlockPair blockerID blockedID\<rparr>
      else [])"

definition BlockUser :: "user_service \<Rightarrow> env \<Rightarrow> db \<Rightarrow> uuid \<Rightarrow> uuid \<Rightarrow> app_error + (user_payload publication list \<times> db)" where
  "BlockUser svc e d blockerID blockedID =
     and_then (fail_if (blockerID = blockedID) (NewBadRequestError ''Cannot block yourself'')) (\<lambda>_.
     and_then (on_err (ent_exist (fault e ''check user existence'') (filter (\<lambda>u. u_id u = blockedID \<and> u_deleted_at u = None) (users d))) (\<lambda>_. internal_error)) (\<lambda>exists.
     and_then (fail_if (\<not> exists) (NewNotFoundError [])) (\<lambda>_.
     case insert_block (fault e ''block user'') d (new_block e blockerID blockedID) of
       Inl ConstraintError \<Rightarrow> Inr ([], d)
     | Inl _ \<Rightarrow> Inl internal_error
     | Inr d' \<Rightarrow> Inr (block_events svc EventUserBlock blockerID blockedID, d'))))"

definition UnblockUser :: "user_service \<Rightarrow> env \<Rightarrow> db \<Rightarrow> uuid \<Rightarrow> uuid \<Rightarrow> app_error + (user_payload publication list \<times> db)" where
  "UnblockUser svc e d blockerID blockedID =
     and_then (fail_if (fault e ''unblock user'') internal_error) (\<lambda>_.
       Inr (block_events svc EventUserUnblock blockerID blockedID,
            d\<lparr>user_blocks := filter (\<lambda>b. \<not> (ub_blocker_id b = blockerID \<and> ub_blocked_id b = blockedID)) (user_blocks d)\<rparr>))"

section \<open>Searches\<close>

definition user_key :: "collation \<Rightarrow> user \<Rightarrow> (nat \<times> nat) \<times> uuid" where
  "user_key col u = (case u_full_name u of None \<Rightarrow> ((1, 0), u_id u) | Some n \<Rightarrow> ((0, name_rank col n), u_id u))"

definition user_cursor :: "uuid_codec \<Rightarrow> string \<Rightarrow> search_error + (string \<times> uuid) option" where
  "user_cursor codec cursor =
     (if cursor = [] then Inr None
      else case DecodeCursor cursor ''|||'' of
             Inl er \<Rightarrow> Inl (CursorFormat er)
           | Inr (cursorName, idText) \<Rightarrow>
               (case UuidParse codec idText of None \<Rightarrow> Inl CursorIdFormat | Some cursorID \<Rightarrow> Inr (Some (cursorName, cursorID))))"

text \<open>\<open>FullNameGT\<close>, or \<open>FullNameEQ\<close> and \<open>IDGT\<close>: neither holds of a missing name.\<close>

definition after_user :: "collation \<Rightarrow> (string \<times> uuid) option \<Rightarrow> user \<Rightarrow> bool" where
  "after_user col cur u =
     (case cur of
        None \<Rightarrow> True
      | Some (cursorName, cursorID) \<Rightarrow>
          (case u_full_name u of
             None \<Rightarrow> False
           | Some n \<Rightarrow> name_rank col cursorName < name_rank col n \<or> n = cursorName \<and> cursorID < u_id u))"

definition user_next_cursor :: "uuid_codec \<Rightarrow> user \<Rightarrow> string" where
  "user_next_cursor codec u = EncodeCursor (text_or_empty (u_full_name u)) (UuidString codec (u_id u)) ''|||''"

text \<open>The columns that are read: identifier, user name, name and avatar; the others are empty.\<close>

definition selected_user :: "user \<Rightarrow> user" where
  "selected_user u = u\<lparr>u_email := None, u_password_hash := None, u_bio := None, u_last_seen_at := None, u_deleted_at := None,
     u_is_banned := False, u_message_notifications_enabled := False, u_banned_until := None, u_ban_reason := None\<rparr>"

definition user_page :: "user_service \<Rightarrow> bool \<Rightarrow> db \<Rightarrow> (user \<Rightarrow> bool) \<Rightarrow> string \<Rightarrow> nat \<Rightarrow> search_error + (user list \<times> string \<times> bool)" where
  "user_page svc broken d P cursor limit =
     and_then (user_cursor (us_codec svc) cursor) (\<lambda>cur.
     and_then (on_err (ent_all broken (take (limit + 1) (sort_key (user_key (us_collation svc))
           (filter (\<lambda>u. P u \<and> after_user (us_collation svc) cur u) (users d))))) SearchQuery) (\<lambda>rows.
       Inr (page_of limit (user_next_cursor (us_codec svc)) (map selected_user rows))))"

definition findable :: "env \<Rightarrow> db \<Rightarrow> uuid \<Rightarrow> uuid option \<Rightarrow> user \<Rightarrow> bool" where
  "findable e d currentUserID excludeChatID u \<longleftrightarrow>
     u_id u \<noteq> currentUserID \<and> u_deleted_at u = None \<and>
     (\<not> u_is_banned u \<or> (case u_banned_until u of None \<Rightarrow> False | Some b \<Rightarrow> b < now e)) \<and>
     \<not> blocked_between d currentUserID (u_id u) \<and>
     (case excludeChatID of None \<Rightarrow> True
      | Some c \<Rightarrow> \<not> (\<exists>m\<in>set (group_members d). \<exists>g\<in>set (group_chats d).
                     gm_group_chat_id m = gc_id g \<and> gc_chat_id g = c \<and> gm_user_id m = u_id u))"

definition name_matches :: "user_service \<Rightarrow> string \<Rightarrow> user \<Rightarrow> bool" where
  "name_matches svc q u \<longleftrightarrow> has_lower_prefix (us_collation svc) (us_lower svc) q (u_full_name u) \<or>
     has_lower_prefix (us_collation svc) (us_lower svc) q (u_username u)"

definition email_matches :: "user_service \<Rightarrow> string \<Rightarrow> user \<Rightarrow> bool" where
  "email_matches svc q u = (case u_email u of None \<Rightarrow> False | Some em \<Rightarrow> equal_fold (us_collation svc) em q)"

definition RepoSearchUsers :: "user_service \<Rightarrow> env \<Rightarrow> db \<Rightarrow> uuid \<Rightarrow> string \<Rightarrow> string \<Rightarrow> nat \<Rightarrow> uuid option \<Rightarrow>
    search_error + (user list \<times> string \<times> bool)" where
  "RepoSearchUsers svc e d currentUserID queryStr cursor limit excludeChatID =
     (let q = TrimSpace queryStr in
      user_page svc (fault e ''search users'') d
        (\<lambda>u. findable e d currentUserID excludeChatID u \<and> (name_matches svc q u \<or> email_matches svc q u)) cursor limit)"

definition RepoGetBlockedUsers :: "user_service \<Rightarrow> env \<Rightarrow> db \<Rightarrow> uuid \<Rightarrow> string \<Rightarrow> string \<Rightarrow> nat \<Rightarrow>
    search_error + (user list \<times> string \<times> bool)" where
  "RepoGetBlockedUsers svc e d currentUserID queryStr cursor limit =
     (let q = TrimSpace queryStr in
      user_page svc (fault e ''get blocked users'') d
        (\<lambda>u. (\<exists>b\<in>set (user_blocks d). ub_blocker_id b = currentUserID \<and> ub_blocked_id b = u_id u) \<and> u_deleted_at u = None \<and>
              (q = [] \<or> name_matches svc q u)) cursor limit)"

record search_request =
  sq_query :: string
  sq_cursor :: string
  sq_limit :: nat
  sq_include_chat_id :: bool
  sq_exclude_chat_id :: "uuid option"

text \<open>The role of a row that was read without its role column is the empty text.\<close>

definition found_dto :: "user_service \<Rightarrow> db \<Rightarrow> user \<Rightarrow> user_dto" where
  "found_dto svc d u = zero_user_dto\<lparr>ud_id := u_id u, ud_username := text_or_empty (u_username u), ud_full_name := text_or_empty (u_full_name u),
     ud_avatar := user_avatar_url svc d u, ud_bio := text_or_empty (u_bio u), ud_role := []\<rparr>"

definition chat_partner :: "uuid \<Rightarrow> private_chat \<Rightarrow> uuid" where
  "chat_partner userID pc =
     (if pc_user1_id pc = Some userID then (case pc_user2_id pc of None \<Rightarrow> uuid_Nil | Some v \<Rightarrow> v)
      else (case pc_user1_id pc of None \<Rightarrow> uuid_Nil | Some v \<Rightarrow> v))"

text \<open>Of several chats with one user the last one read counts.\<close>

definition private_chat_map :: "env \<Rightarrow> db \<Rightarrow> uuid \<Rightarrow> uuid list \<Rightarrow> uuid \<Rightarrow> uuid option" where
  "private_chat_map e d userID ids target =
     (if fault e ''private chats of results'' \<or> target = uuid_Nil then None
      else map_option pc_chat_id (find (\<lambda>pc. chat_partner userID pc = target)
        (rev (filter (\<lambda>pc. pc_user1_id pc = Some userID \<and> (\<exists>v\<in>set ids. pc_user2_id pc = Some v) \<or>
                            (\<exists>v\<in>set ids. pc_user1_id pc = Some v) \<and> pc_user2_id pc = Some userID) (private_chats d)))))"

definition SearchUsers :: "user_service \<Rightarrow> env \<Rightarrow> (search_request \<Rightarrow> bool) \<Rightarrow> db \<Rightarrow> uuid \<Rightarrow> search_request \<Rightarrow>
    app_error + (user_dto list \<times> string \<times> bool)" where
  "SearchUsers svc e valid d currentUserID req =
     and_then (fail_if (\<not> valid req) (NewBadRequestError [])) (\<lambda>_.
     let limit = (if sq_limit req = 0 then 10 else sq_limit req) in
     and_then (on_err (RepoSearchUsers svc e d currentUserID (sq_query req) (sq_cursor req) limit (sq_exclude_chat_id req)) search_failed) (\<lambda>(us, nextCursor, hasNext).
       Inr (map (\<lambda>u. (found_dto svc d u)\<lparr>ud_private_chat_id :=
                   (if sq_include_chat_id req then private_chat_map e d currentUserID (map u_id us) (u_id u) else None)\<rparr>) us, nextCursor, hasNext)))"

definition GetBlockedUsers :: "user_service \<Rightarrow> env \<Rightarrow> (search_request \<Rightarrow> bool) \<Rightarrow> db \<Rightarrow> uuid \<Rightarrow> search_request \<Rightarrow>
    app_error + (user_dto list \<times> string \<times> bool)" where
  "GetBlockedUsers svc e valid d currentUserID req =
     and_then (fail_if (\<not> valid req) (NewBadRequestError [])) (\<lambda>_.
     let limit = (if sq_limit req = 0 then 10 else sq_limit req) in
     and_then (on_err (RepoGetBlockedUsers svc e d currentUserID (sq_query req) (sq_cursor req) limit) search_failed) (\<lambda>(us, nextCursor, hasNext).
       Inr (map (\<lambda>u. (found_dto svc d u)\<lparr>ud_is_blocked_by_me := Some True\<rparr>) us, nextCursor, hasNext)))"

end
