(* ===== verification/Cleanup.thy ===== *)
theory Cleanup
  imports Schema Complex_Main
begin

text \<open>
  The jobs of \<^verbatim>\<open>src/internal/scheduler/job\<close>: removing the rows of users and chats that were deleted long ago, settled
  outbox rows, abandoned private chats and unused media.

  Every job is a loop \<open>sweep\<close> that reads a batch, deletes its rows one by one and goes on until a batch is empty or
  made no progress; what the driver refuses may differ from round to round. The loop may run as long as it makes progress, so it is
  defined as a partial function and that it returns is proved (\<open>Cleanup_Laws\<close>). Deletes are not in a transaction: an error
  leaves what was deleted before. A deleted row takes the rows that refer to it along, or clears the reference, as the
  foreign keys of the schema say.
\<close>

section \<open>Deleting a row with its references\<close>

definition cleared :: "(uuid \<Rightarrow> bool) \<Rightarrow> uuid option \<Rightarrow> uuid option" where
  "cleared gone x = (case x of Some i \<Rightarrow> if gone i then None else Some i | None \<Rightarrow> None)"

definition delete_user :: "uuid \<Rightarrow> db \<Rightarrow> db" where
  "delete_user i d = d\<lparr>
     users := filter (\<lambda>u. u_id u \<noteq> i) (users d),
     user_identities := filter (\<lambda>x. ui_user_id x \<noteq> i) (user_identities d),
     user_blocks := filter (\<lambda>b. ub_blocker_id b \<noteq> i \<and> ub_blocked_id b \<noteq> i) (user_blocks d),
     group_members := filter (\<lambda>m. gm_user_id m \<noteq> i) (group_members d),
     messages := map (\<lambda>m. m\<lparr>m_sender_id := cleared (\<lambda>j. j = i) (m_sender_id m)\<rparr>) (messages d),
     group_chats := map (\<lambda>g. g\<lparr>gc_created_by := cleared (\<lambda>j. j = i) (gc_created_by g)\<rparr>) (group_chats d),
     private_chats := map (\<lambda>p. p\<lparr>pc_user1_id := cleared (\<lambda>j. j = i) (pc_user1_id p), pc_user2_id := cleared (\<lambda>j. j = i) (pc_user2_id p)\<rparr>) (private_chats d),
     medias := map (\<lambda>m. m\<lparr>md_uploaded_by_id := cleared (\<lambda>j. j = i) (md_uploaded_by_id m)\<rparr>) (medias d),
     reports := map (\<lambda>r. r\<lparr>rt_reporter_id := cleared (\<lambda>j. j = i) (rt_reporter_id r), rt_target_user_id := cleared (\<lambda>j. j = i) (rt_target_user_id r),
                            rt_resolved_by_id := cleared (\<lambda>j. j = i) (rt_resolved_by_id r)\<rparr>) (reports d)\<rparr>"

definition chat_messages :: "uuid \<Rightarrow> db \<Rightarrow> uuid list" where
  "chat_messages i d = map m_id (filter (\<lambda>m. m_chat_id m = i) (messages d))"

definition chat_groups :: "uuid \<Rightarrow> db \<Rightarrow> uuid list" where
  "chat_groups i d = map gc_id (filter (\<lambda>g. gc_chat_id g = i) (group_chats d))"

definition delete_chat :: "uuid \<Rightarrow> db \<Rightarrow> db" where
  "delete_chat i d =
     (let msg = (\<lambda>j. j \<in> set (chat_messages i d)); grp = (\<lambda>j. j \<in> set (chat_groups i d)) in
      d\<lparr>chats := map (\<lambda>c. c\<lparr>c_last_message_id := cleared msg (c_last_message_id c)\<rparr>) (filter (\<lambda>c. c_id c \<noteq> i) (chats d)),
        messages := map (\<lambda>m. m\<lparr>m_reply_to_id := cleared msg (m_reply_to_id m)\<rparr>) (filter (\<lambda>m. m_chat_id m \<noteq> i) (messages d)),
        private_chats := filter (\<lambda>p. pc_chat_id p \<noteq> i) (private_chats d),
        group_chats := filter (\<lambda>g. gc_chat_id g \<noteq> i) (group_chats d),
        group_members := filter (\<lambda>m. \<not> grp (gm_group_chat_id m)) (group_members d),
        medias := map (\<lambda>m. m\<lparr>md_message_id := cleared msg (md_message_id m)\<rparr>) (medias d),
        reports := map (\<lambda>r. r\<lparr>rt_message_id := cleared msg (rt_message_id r), rt_group_id := cleared grp (rt_group_id r)\<rparr>) (reports d)\<rparr>)"

definition delete_media :: "uuid \<Rightarrow> db \<Rightarrow> db" where
  "delete_media i d = d\<lparr>
     medias := filter (\<lambda>m. md_id m \<noteq> i) (medias d),
     users := map (\<lambda>u. u\<lparr>u_avatar_id := cleared (\<lambda>j. j = i) (u_avatar_id u)\<rparr>) (users d),
     group_chats := map (\<lambda>g. g\<lparr>gc_avatar_id := cleared (\<lambda>j. j = i) (gc_avatar_id g)\<rparr>) (group_chats d),
     report_evidence := filter (\<lambda>(r, m). m \<noteq> i) (report_evidence d)\<rparr>"

text \<open>\<open>DeleteOneID(id).Exec\<close>: an error of the driver, or of a row that is not there.\<close>

definition delete_one :: "bool \<Rightarrow> bool \<Rightarrow> (db \<Rightarrow> db) \<Rightarrow> db \<Rightarrow> bool \<times> db" where
  "delete_one broken present del d = (if broken \<or> \<not> present then (False, d) else (True, del d))"

section \<open>The loop\<close>

definition cleanupBatchSize :: nat where
  "cleanupBatchSize = 100"

text \<open>The rows of a batch one after the other; the count is of the rows that were deleted.\<close>

fun sweep_each :: "(uuid \<Rightarrow> 's \<Rightarrow> bool \<times> 's) \<Rightarrow> uuid list \<Rightarrow> 's \<Rightarrow> 's \<times> nat" where
  "sweep_each del [] s = (s, 0)"
| "sweep_each del (i # rest) s =
     (case del i s of (ok, s') \<Rightarrow>
      case sweep_each del rest s' of (s'', deleted) \<Rightarrow> (s'', (if ok then 1 else 0) + deleted))"

partial_function (option) sweep :: "('s \<Rightarrow> uuid list) \<Rightarrow> (nat \<Rightarrow> bool) \<Rightarrow> (nat \<Rightarrow> uuid list \<Rightarrow> 's \<Rightarrow> ent_error + 's \<times> nat) \<Rightarrow>
    nat \<Rightarrow> 's \<Rightarrow> (ent_error option \<times> 's) option" where
  "sweep due broken body k s =
     (if broken k then Some (Some DriverError, s)
      else if take cleanupBatchSize (due s) = [] then Some (None, s)
      else (case body k (take cleanupBatchSize (due s)) s of
              Inl er \<Rightarrow> Some (Some er, s)
            | Inr r \<Rightarrow> if snd r = 0 then Some (None, fst r) else sweep due broken body (Suc k) (fst r)))"

text \<open>What the driver refuses in a round: the query of the batch, the delete of a row.\<close>

record sweep_faults =
  query_fails :: "nat \<Rightarrow> bool"
  delete_fails :: "nat \<Rightarrow> uuid \<Rightarrow> bool"

definition each_row :: "(nat \<Rightarrow> uuid \<Rightarrow> 's \<Rightarrow> bool \<times> 's) \<Rightarrow> nat \<Rightarrow> uuid list \<Rightarrow> 's \<Rightarrow> ent_error + 's \<times> nat" where
  "each_row del k batch s = Inr (sweep_each (del k) batch s)"

section \<open>Users, chats and outbox rows\<close>

definition day :: duration where
  "day = 86400000000000"

record cleanup_config =
  SoftDeleteRetentionDays :: int
  MessageOutboxRetentionDays :: int
  MediaRetentionDays :: rat

definition older :: "time \<Rightarrow> time option \<Rightarrow> bool" where
  "older cutoff x = (case x of None \<Rightarrow> False | Some t \<Rightarrow> t < cutoff)"

definition entity_cutoff :: "cleanup_config \<Rightarrow> time \<Rightarrow> time" where
  "entity_cutoff cfg t = t - (if SoftDeleteRetentionDays cfg < 0 then 30 else SoftDeleteRetentionDays cfg) * day"

definition outbox_cutoff :: "cleanup_config \<Rightarrow> time \<Rightarrow> time" where
  "outbox_cutoff cfg t = t - (if MessageOutboxRetentionDays cfg \<le> 0 then 7 else MessageOutboxRetentionDays cfg) * day"

definition due_users :: "time \<Rightarrow> db \<Rightarrow> uuid list" where
  "due_users cutoff d = sort (map u_id (filter (\<lambda>u. older cutoff (u_deleted_at u)) (users d)))"

definition drop_user :: "sweep_faults \<Rightarrow> nat \<Rightarrow> uuid \<Rightarrow> db \<Rightarrow> bool \<times> db" where
  "drop_user f k i d = delete_one (delete_fails f k i) (i \<in> set (map u_id (users d))) (delete_user i) d"

definition due_chats :: "time \<Rightarrow> db \<Rightarrow> uuid list" where
  "due_chats cutoff d = sort (map c_id (filter (\<lambda>c. older cutoff (c_deleted_at c)) (chats d)))"

definition drop_chat :: "sweep_faults \<Rightarrow> nat \<Rightarrow> uuid \<Rightarrow> db \<Rightarrow> bool \<times> db" where
  "drop_chat f k i d = delete_one (delete_fails f k i) (i \<in> set (map c_id (chats d))) (delete_chat i) d"

definition due_outbox :: "time \<Rightarrow> db \<Rightarrow> uuid list" where
  "due_outbox cutoff d = sort (map ob_id (filter (\<lambda>r. older cutoff (ob_published_at r) \<or> older cutoff (ob_dead_lettered_at r)) (outbox d)))"

definition drop_outbox :: "sweep_faults \<Rightarrow> nat \<Rightarrow> uuid list \<Rightarrow> db \<Rightarrow> ent_error + db \<times> nat" where
  "drop_outbox f k ids d =
     (if delete_fails f k 0 then Inl DriverError
      else Inr (d\<lparr>outbox := filter (\<lambda>r. ob_id r \<notin> set ids) (outbox d)\<rparr>, affected (\<lambda>r. ob_id r \<in> set ids) (outbox d)))"

text \<open>The next loop runs unless the one before returned an error.\<close>

definition next_loop :: "(ent_error option \<times> 's) option \<Rightarrow> ('s \<Rightarrow> (ent_error option \<times> 's) option) \<Rightarrow> (ent_error option \<times> 's) option" where
  "next_loop r k = Option.bind r (\<lambda>(er, s). if er = None then k s else Some (er, s))"

definition RunEntityCleanup :: "cleanup_config \<Rightarrow> time \<Rightarrow> sweep_faults \<Rightarrow> sweep_faults \<Rightarrow> sweep_faults \<Rightarrow> db \<Rightarrow> (ent_error option \<times> db) option" where
  "RunEntityCleanup cfg t fu fc fo d =
     next_loop (sweep (due_users (entity_cutoff cfg t)) (query_fails fu) (each_row (drop_user fu)) 0 d) (\<lambda>d.
     next_loop (sweep (due_chats (entity_cutoff cfg t)) (query_fails fc) (each_row (drop_chat fc)) 0 d) (\<lambda>d.
       sweep (due_outbox (outbox_cutoff cfg t)) (query_fails fo) (drop_outbox fo) 0 d))"

section \<open>Abandoned private chats\<close>

definition due_private :: "db \<Rightarrow> uuid list" where
  "due_private d = map pc_chat_id (sort_key pc_id (filter (\<lambda>p. pc_user1_id p = None \<and> pc_user2_id p = None) (private_chats d)))"

definition RunPrivateChatCleanup :: "sweep_faults \<Rightarrow> db \<Rightarrow> (ent_error option \<times> db) option" where
  "RunPrivateChatCleanup f d = sweep due_private (query_fails f) (each_row (drop_chat f)) 0 d"

section \<open>Unused media\<close>

text \<open>
  \<open>storage k name public\<close> says whether the object store deletes the object in round \<open>k\<close>. The objects that were
  deleted are recorded beside the database: bucket and name. The product of days and hours is exact here, where the code
  computes it with floating point numbers.
\<close>

type_synonym object_log = "(bool \<times> string) list"

definition media_cutoff :: "cleanup_config \<Rightarrow> time \<Rightarrow> time" where
  "media_cutoff cfg t = t - \<lfloor>(if MediaRetentionDays cfg < 0 then 7 else MediaRetentionDays cfg) * of_int day\<rfloor>"

definition media_in_use :: "db \<Rightarrow> media \<Rightarrow> bool" where
  "media_in_use d m \<longleftrightarrow> md_message_id m \<noteq> None \<or> (\<exists>u\<in>set (users d). u_avatar_id u = Some (md_id m)) \<or>
     (\<exists>g\<in>set (group_chats d). gc_avatar_id g = Some (md_id m)) \<or> (\<exists>(r, i)\<in>set (report_evidence d). i = md_id m)"

definition orphan :: "time \<Rightarrow> time \<Rightarrow> db \<Rightarrow> media \<Rightarrow> bool" where
  "orphan cutoff t d m \<longleftrightarrow>
     (md_upload_status m = UploadStatusPending \<and> older t (md_upload_expires_at m) \<or>
      md_upload_status m = UploadStatusCompleted \<and> md_created_at m < cutoff) \<and> \<not> media_in_use d m"

definition due_media :: "time \<Rightarrow> time \<Rightarrow> db \<times> object_log \<Rightarrow> uuid list" where
  "due_media cutoff t s = sort (map md_id (filter (orphan cutoff t (fst s)) (medias (fst s))))"

definition public_category :: "media_category \<Rightarrow> bool" where
  "public_category c \<longleftrightarrow> c = CategoryUserAvatar \<or> c = CategoryGroupAvatar"

definition drop_media :: "sweep_faults \<Rightarrow> (nat \<Rightarrow> string \<Rightarrow> bool \<Rightarrow> bool) \<Rightarrow> nat \<Rightarrow> uuid \<Rightarrow> db \<times> object_log \<Rightarrow> bool \<times> db \<times> object_log" where
  "drop_media f storage k i s = (case s of (d, objs) \<Rightarrow>
     (case find (\<lambda>m. md_id m = i) (medias d) of
        None \<Rightarrow> (False, d, objs)
      | Some m \<Rightarrow>
          let isPublic = public_category (md_category m); name = md_file_name m in
          if \<not> storage k name isPublic \<and> \<not> storage k name (\<not> isPublic) then (False, d, objs)
          else let objs = objs @ [(if storage k name isPublic then isPublic else \<not> isPublic, name)] in
               if delete_fails f k i then (False, d, objs) else (True, delete_media i d, objs)))"

definition RunMediaCleanup :: "cleanup_config \<Rightarrow> time \<Rightarrow> sweep_faults \<Rightarrow> (nat \<Rightarrow> string \<Rightarrow> bool \<Rightarrow> bool) \<Rightarrow> db \<times> object_log \<Rightarrow>
    (ent_error option \<times> db \<times> object_log) option" where
  "RunMediaCleanup cfg t f storage s =
     sweep (due_media (media_cutoff cfg t) t) (query_fails f) (each_row (drop_media f storage)) 0 s"

end
