(* ===== verification/Cleanup_Laws.thy ===== *)
theory Cleanup_Laws
  imports Cleanup
begin

text \<open>
  The cleanup jobs return, remove what is due and nothing else. The loop is treated once: \<open>sweep_loop\<close> is its contract for any
  body that reports how many rows it deleted, \<open>row_sweep\<close> the contract of the bodies that delete row by row, which gives the
  first.
\<close>

section \<open>The loop\<close>

locale sweep_loop =
  fixes due :: "'s \<Rightarrow> uuid list"
    and body :: "nat \<Rightarrow> uuid list \<Rightarrow> 's \<Rightarrow> ent_error + 's \<times> nat"
  assumes progress: "body k batch s = Inr (s', n) \<Longrightarrow> set batch \<subseteq> set (due s) \<Longrightarrow> 0 < n \<Longrightarrow> length (due s') < length (due s)"
begin

lemma returns: "\<exists>er s'. sweep due broken body k s = Some (er, s')"
proof (induction "length (due s)" arbitrary: k s rule: less_induct)
  case less
  show ?case
  proof (cases "body k (take cleanupBatchSize (due s)) s")
    case (Inl er)
    then show ?thesis by (subst sweep.simps) auto
  next
    case (Inr r)
    obtain s' n where r: "r = (s', n)" by (cases r)
    have "n = 0 \<or> length (due s') < length (due s)" using progress [OF _ set_take_subset] Inr r by blast
    with less [of s' "Suc k"] Inr r show ?thesis by (subst sweep.simps) auto
  qed
qed

lemma invariant:
  assumes "sweep due broken body k s = Some (er, s')" and "P s"
    and "\<And>k batch s s' n. P s \<Longrightarrow> set batch \<subseteq> set (due s) \<Longrightarrow> body k batch s = Inr (s', n) \<Longrightarrow> P s'"
  shows "P s'"
  using assms(1,2)
proof (induction "length (due s)" arbitrary: k s rule: less_induct)
  case less
  show ?case
  proof (cases "broken k \<or> take cleanupBatchSize (due s) = []")
    case True
    with less.prems show ?thesis by (subst (asm) sweep.simps) (auto split: if_splits)
  next
    case False
    show ?thesis
    proof (cases "body k (take cleanupBatchSize (due s)) s")
      case (Inl e)
      with False less.prems show ?thesis by (subst (asm) sweep.simps) auto
    next
      case (Inr r)
      obtain s1 n where r: "r = (s1, n)" by (cases r)
      have sub: "set (take cleanupBatchSize (due s)) \<subseteq> set (due s)" by (rule set_take_subset)
      have P: "P s1" using assms(3) [OF less.prems(2) sub] Inr r by blast
      have "n = 0 \<or> length (due s1) < length (due s)" using progress [OF _ sub] Inr r by blast
      with less.hyps [of s1 "Suc k"] P less.prems(1) False Inr r show ?thesis by (subst (asm) sweep.simps) (auto split: if_splits)
    qed
  qed
qed

lemma complete:
  assumes "sweep due broken body k s = Some (er, s')" and "\<And>k. \<not> broken k"
    and "\<And>k batch s. batch \<noteq> [] \<Longrightarrow> set batch \<subseteq> set (due s) \<Longrightarrow> \<exists>s' n. body k batch s = Inr (s', Suc n)"
  shows "er = None" and "due s' = []"
proof -
  have "er = None \<and> due s' = []"
    using assms(1)
  proof (induction "length (due s)" arbitrary: k s rule: less_induct)
    case less
    show ?case
    proof (cases "take cleanupBatchSize (due s) = []")
      case True
      with less.prems assms(2) show ?thesis by (subst (asm) sweep.simps) (simp add: cleanupBatchSize_def)
    next
      case False
      have sub: "set (take cleanupBatchSize (due s)) \<subseteq> set (due s)" by (rule set_take_subset)
      obtain s1 n where b: "body k (take cleanupBatchSize (due s)) s = Inr (s1, Suc n)" using assms(3) [OF False sub] by blast
      have "length (due s1) < length (due s)" using progress [OF b sub] by simp
      then show ?thesis
      proof (rule less.hyps)
        show "sweep due broken body (Suc k) s1 = Some (er, s')"
          using less.prems assms(2) False b by (subst (asm) sweep.simps) simp
      qed
    qed
  qed
  then show "er = None" "due s' = []" by simp_all
qed

end

locale row_sweep =
  fixes due :: "'s \<Rightarrow> uuid list"
    and del :: "nat \<Rightarrow> uuid \<Rightarrow> 's \<Rightarrow> bool \<times> 's"
    and present :: "uuid \<Rightarrow> 's \<Rightarrow> bool"
  assumes needs: "del k i s = (True, s') \<Longrightarrow> present i s"
    and removes: "del k i s = (True, s') \<Longrightarrow> due s' = filter (\<lambda>j. j \<noteq> i) (due s)"
    and gone: "del k i s = (True, s') \<Longrightarrow> present j s' \<longleftrightarrow> present j s \<and> j \<noteq> i"
    and keeps: "del k i s = (False, s') \<Longrightarrow> due s' = due s \<and> (present j s' \<longleftrightarrow> present j s)"
begin

lemma still_due:
  assumes "del k i s = (ok, s')" and "\<And>j. j \<in> set rest \<Longrightarrow> present j s \<Longrightarrow> j \<in> set (due s)" and "j \<in> set rest" and "present j s'"
  shows "j \<in> set (due s')"
proof (cases ok)
  case True
  then have "present j s" "j \<noteq> i" using assms(1,4) gone [of k i s s' j] by simp_all
  with assms(2,3) True removes [of k i s s'] assms(1) show ?thesis by simp
next
  case False
  then show ?thesis using assms keeps [of k i s s' j] by simp
qed

lemma each_progress:
  assumes "sweep_each (del k) batch s = (s', n)" and "\<And>j. j \<in> set batch \<Longrightarrow> present j s \<Longrightarrow> j \<in> set (due s)"
  shows "length (due s') + n \<le> length (due s)"
  using assms
proof (induction batch arbitrary: s n)
  case (Cons i rest)
  obtain ok s1 where d: "del k i s = (ok, s1)" by (cases "del k i s")
  obtain m where m: "sweep_each (del k) rest s1 = (s', m)" "n = (if ok then 1 else 0) + m"
    using Cons.prems(1) d by (auto split: prod.splits)
  have IH: "length (due s') + m \<le> length (due s1)" using still_due [OF d, of rest] Cons.prems(2) by (intro Cons.IH [OF m(1)]) auto
  show ?case
  proof (cases ok)
    case True
    then have "i \<in> set (due s)" using needs [of k i s s1] d Cons.prems(2) by simp
    then have "length (due s1) < length (due s)" using removes [of k i s s1] d True by (simp add: length_filter_less)
    with IH m(2) True show ?thesis by simp
  next
    case False
    with IH m(2) keeps [of k i s s1] d show ?thesis by simp
  qed
qed simp

lemma each_invariant:
  assumes "sweep_each (del k) batch s = (s', n)" and "\<And>j. j \<in> set batch \<Longrightarrow> present j s \<Longrightarrow> j \<in> set (due s)" and "P s"
    and "\<And>i s ok s'. P s \<Longrightarrow> (present i s \<Longrightarrow> i \<in> set (due s)) \<Longrightarrow> del k i s = (ok, s') \<Longrightarrow> P s'"
  shows "P s'"
  using assms(1-3)
proof (induction batch arbitrary: s n)
  case (Cons i rest)
  obtain ok s1 where d: "del k i s = (ok, s1)" by (cases "del k i s")
  obtain m where m: "sweep_each (del k) rest s1 = (s', m)" using Cons.prems(1) d by (auto split: prod.splits)
  have "P s1" using assms(4) [OF Cons.prems(3) _ d] Cons.prems(2) by simp
  then show ?case using still_due [OF d, of rest] Cons.prems(2) by (intro Cons.IH [OF m]) auto
qed simp

end

sublocale row_sweep \<subseteq> sweep_loop due "each_row del"
proof
  fix k batch s s' n
  assume b: "each_row del k batch s = Inr (s', n)" and sub: "set batch \<subseteq> set (due s)" and n: "0 < n"
  have "length (due s') + n \<le> length (due s)" using sub b by (intro each_progress [of k batch]) (auto simp: each_row_def)
  with n show "length (due s') < length (due s)" by simp
qed

context row_sweep
begin

lemma rows_invariant:
  assumes "sweep due broken (each_row del) k s = Some (er, s')" and "P s"
    and "\<And>k i s ok s'. P s \<Longrightarrow> (present i s \<Longrightarrow> i \<in> set (due s)) \<Longrightarrow> del k i s = (ok, s') \<Longrightarrow> P s'"
  shows "P s'"
  using assms(1,2)
proof (rule invariant)
  fix k batch s s' n
  assume P: "P s" and sub: "set batch \<subseteq> set (due s)" and b: "each_row del k batch s = Inr (s', n)"
  show "P s'"
  proof (rule each_invariant)
    show "sweep_each (del k) batch s = (s', n)" using b by (simp add: each_row_def)
    show "P s" by (rule P)
    show "j \<in> set (due s)" if "j \<in> set batch" for j using that sub by blast
  qed (rule assms(3))
qed

lemma rows_complete:
  assumes "sweep due broken (each_row del) k s = Some (er, s')" and "\<And>k. \<not> broken k"
    and "\<And>k i s. i \<in> set (due s) \<Longrightarrow> fst (del k i s)"
  shows "er = None" and "due s' = []"
proof -
  have "\<exists>s' n. each_row del k batch s = Inr (s', Suc n)" if ne: "batch \<noteq> []" and sub: "set batch \<subseteq> set (due s)" for k batch s
  proof -
    obtain i rest where b: "batch = i # rest" using ne by (cases batch) auto
    then have "fst (del k i s)" using assms(3) sub by simp
    then show ?thesis by (auto simp: each_row_def b split: prod.splits)
  qed
  note all = this
  show "er = None" by (rule complete(1) [OF assms(1,2) all])
  show "due s' = []" by (rule complete(2) [OF assms(1,2) all])
qed

end


section \<open>The jobs are such loops\<close>

lemmas sweep_defs = delete_one_def filter_map comp_def filter_sort conj_commute

interpretation user_sweep: row_sweep "due_users cutoff" "drop_user f" "\<lambda>i d. i \<in> set (map u_id (users d))" for cutoff f
  by unfold_locales (auto simp: due_users_def drop_user_def delete_user_def sweep_defs split: if_splits)

lemma delete_chat_ids [simp]: "set (map c_id (chats (delete_chat i d))) = set (map c_id (chats d)) - {i}"
  by (auto simp: delete_chat_def Let_def image_image)

lemma due_delete_chat:
  "due_chats cutoff (delete_chat i d) = filter (\<lambda>j. j \<noteq> i) (due_chats cutoff d)"
  "due_private (delete_chat i d) = filter (\<lambda>j. j \<noteq> i) (due_private d)"
  by (simp_all add: due_chats_def due_private_def delete_chat_def Let_def sweep_defs)

interpretation chat_sweep: row_sweep "due_chats cutoff" "drop_chat f" "\<lambda>i d. i \<in> set (map c_id (chats d))" for cutoff f
  by unfold_locales (auto simp: drop_chat_def delete_one_def due_delete_chat simp del: set_map split: if_splits)

interpretation private_sweep: row_sweep due_private "drop_chat f" "\<lambda>i d. i \<in> set (map c_id (chats d))" for f
  by unfold_locales (auto simp: drop_chat_def delete_one_def due_delete_chat simp del: set_map split: if_splits)

interpretation outbox_sweep: sweep_loop "due_outbox cutoff" "drop_outbox f" for cutoff f
proof
  fix k ids d d' n
  assume "drop_outbox f k ids d = Inr (d', n)" and sub: "set ids \<subseteq> set (due_outbox cutoff d)" and n: "0 < n"
  then have d': "d' = d\<lparr>outbox := filter (\<lambda>r. ob_id r \<notin> set ids) (outbox d)\<rparr>" and "\<exists>r\<in>set (outbox d). ob_id r \<in> set ids"
    by (auto simp: drop_outbox_def affected_def filter_empty_conv split: if_splits)
  then obtain i where i: "i \<in> set ids" by blast
  have "due_outbox cutoff d' = filter (\<lambda>j. j \<notin> set ids) (due_outbox cutoff d)"
    by (simp add: d' due_outbox_def sweep_defs)
  with i sub show "length (due_outbox cutoff d') < length (due_outbox cutoff d)" by (auto intro: length_filter_less)
qed

lemma delete_media_in_use:
  assumes "md_id m \<noteq> i"
  shows "media_in_use (delete_media i d) m = media_in_use d m"
proof -
  have c: "cleared (\<lambda>j. j = i) x = Some (md_id m) \<longleftrightarrow> x = Some (md_id m)" for x using assms by (auto simp: cleared_def split: option.splits)
  show ?thesis using assms by (auto simp: media_in_use_def delete_media_def c)
qed

lemma due_delete_media: "due_media cutoff t (delete_media i d, objs) = filter (\<lambda>j. j \<noteq> i) (due_media cutoff t (d, objs'))"
proof -
  have "medias (delete_media i d) = filter (\<lambda>m. md_id m \<noteq> i) (medias d)" by (simp add: delete_media_def)
  then have "filter (orphan cutoff t (delete_media i d)) (medias (delete_media i d)) = filter (\<lambda>m. md_id m \<noteq> i \<and> orphan cutoff t d m) (medias d)"
    by (auto simp: orphan_def delete_media_in_use intro!: filter_cong)
  then show ?thesis by (simp add: due_media_def sweep_defs)
qed

interpretation media_sweep: row_sweep "due_media cutoff t" "drop_media f storage" "\<lambda>i s. i \<in> set (map md_id (medias (fst s)))" for cutoff t f storage
proof
  fix k i and s s' :: "db \<times> object_log"
  obtain d objs where s: "s = (d, objs)" by (cases s)
  { assume "drop_media f storage k i s = (True, s')"
    then obtain m objs' where m: "find (\<lambda>m. md_id m = i) (medias d) = Some m" and s': "s' = (delete_media i d, objs')"
      by (auto simp: drop_media_def s Let_def split: option.splits if_splits)
    from find_SomeD [OF m] show "i \<in> set (map md_id (medias (fst s)))" by (auto simp: s)
    show "due_media cutoff t s' = filter (\<lambda>j. j \<noteq> i) (due_media cutoff t s)" by (simp add: s s' due_delete_media)
    show "j \<in> set (map md_id (medias (fst s'))) \<longleftrightarrow> j \<in> set (map md_id (medias (fst s))) \<and> j \<noteq> i" for j
      by (auto simp: s s' delete_media_def) }
  { assume "drop_media f storage k i s = (False, s')"
    then have "fst s' = d" by (auto simp: drop_media_def s Let_def split: option.splits if_splits)
    then show "due_media cutoff t s' = due_media cutoff t s \<and> (j \<in> set (map md_id (medias (fst s'))) \<longleftrightarrow> j \<in> set (map md_id (medias (fst s))))" for j
      by (simp add: s due_media_def) }
qed

end
