(* ===== verification/Cleanup_Properties.thy ===== *)
theory Cleanup_Properties
  imports Cleanup_Laws Samples
begin

text \<open>
  What the cleanup jobs do to the database: they return, they remove exactly the rows that are due, and media that anything
  refers to keeps its row and its object.
\<close>

section \<open>Termination\<close>

lemma next_loop_returns:
  assumes "\<exists>er s'. r = Some (er, s')" and "\<And>s. \<exists>er s'. k s = Some (er, s')"
  shows "\<exists>er s'. next_loop r k = Some (er, s')"
  using assms by (auto simp: next_loop_def)

text \<open>
  C34. Every cleanup job returns, whatever the database holds, however the retention is configured and whichever queries,
  deletes and object removals fail in whichever round.
\<close>

theorem cleanup_terminates:
  "(\<exists>er d'. RunEntityCleanup cfg t fu fc fo d = Some (er, d')) \<and> (\<exists>er d'. RunPrivateChatCleanup f d = Some (er, d')) \<and>
   (\<exists>er s'. RunMediaCleanup cfg t f storage s = Some (er, s'))"
  unfolding RunEntityCleanup_def RunPrivateChatCleanup_def RunMediaCleanup_def
  by (intro conjI next_loop_returns user_sweep.returns chat_sweep.returns outbox_sweep.returns private_sweep.returns media_sweep.returns)

section \<open>Users, chats and outbox rows\<close>

definition kept_users :: "time \<Rightarrow> db \<Rightarrow> user list" where
  "kept_users cutoff d = filter (\<lambda>u. \<not> older cutoff (u_deleted_at u)) (users d)"

definition kept_chats :: "time \<Rightarrow> db \<Rightarrow> chat list" where
  "kept_chats cutoff d = map (\<lambda>c. c\<lparr>c_last_message_id := None\<rparr>) (filter (\<lambda>c. \<not> older cutoff (c_deleted_at c)) (chats d))"

definition kept_messages :: "uuid set \<Rightarrow> db \<Rightarrow> message list" where
  "kept_messages D d = map (\<lambda>m. m\<lparr>m_sender_id := None, m_reply_to_id := None\<rparr>) (filter (\<lambda>m. m_chat_id m \<notin> D) (messages d))"

definition kept_outbox :: "time \<Rightarrow> db \<Rightarrow> message_outbox list" where
  "kept_outbox cutoff d = filter (\<lambda>r. \<not> (older cutoff (ob_published_at r) \<or> older cutoff (ob_dead_lettered_at r))) (outbox d)"

definition primary_keys :: "db \<Rightarrow> bool" where
  "primary_keys d \<longleftrightarrow> distinct (map u_id (users d)) \<and> distinct (map c_id (chats d)) \<and> distinct (map ob_id (outbox d))"

text \<open>What the three loops keep of the database \<open>d0\<close> they started with.\<close>

definition entity_kept :: "time \<Rightarrow> time \<Rightarrow> db \<Rightarrow> db \<Rightarrow> bool" where
  "entity_kept cutoff ocutoff d0 d \<longleftrightarrow> primary_keys d \<and> kept_users cutoff d = kept_users cutoff d0 \<and> kept_chats cutoff d = kept_chats cutoff d0 \<and>
     set (due_chats cutoff d) \<subseteq> set (due_chats cutoff d0) \<and>
     kept_messages (set (due_chats cutoff d0)) d = kept_messages (set (due_chats cutoff d0)) d0 \<and> kept_outbox ocutoff d = kept_outbox ocutoff d0"

lemma filter_drop_key:
  assumes "distinct (map k rows)" and "i \<in> k ` {x \<in> set rows. P x}"
  shows "filter (\<lambda>x. k x \<noteq> i \<and> \<not> P x) rows = filter (\<lambda>x. \<not> P x) rows"
  using assms by (intro filter_cong refl) (auto dest: distinct_key_eq)

lemma distinct_map_filter_key: "distinct (map k rows) \<Longrightarrow> distinct (map k (filter P rows))"
  by (induction rows) auto

lemma entity_kept_user:
  assumes "entity_kept cutoff oc d0 d" and "i \<in> set (map u_id (users d)) \<Longrightarrow> i \<in> set (due_users cutoff d)" and "drop_user f k i d = (ok, d')"
  shows "entity_kept cutoff oc d0 d'"
proof (cases ok)
  case True
  then have d': "d' = delete_user i d" and i: "i \<in> u_id ` {u \<in> set (users d). older cutoff (u_deleted_at u)}"
    using assms(2,3) by (auto simp: drop_user_def delete_one_def due_users_def split: if_splits)
  have "kept_users cutoff d' = kept_users cutoff d"
    using filter_drop_key [OF _ i] assms(1) by (simp add: d' kept_users_def delete_user_def entity_kept_def primary_keys_def conj_commute)
  with assms(1) show ?thesis
    by (simp add: d' entity_kept_def primary_keys_def delete_user_def kept_chats_def due_chats_def kept_messages_def kept_outbox_def
        distinct_map_filter_key filter_map comp_def)
next
  case False
  with assms show ?thesis by (simp add: drop_user_def delete_one_def split: if_splits)
qed

lemma entity_kept_chat:
  assumes "entity_kept cutoff oc d0 d" and "i \<in> set (map c_id (chats d)) \<Longrightarrow> i \<in> set (due_chats cutoff d)" and "drop_chat f k i d = (ok, d')"
  shows "entity_kept cutoff oc d0 d'"
proof (cases ok)
  case True
  then have d': "d' = delete_chat i d" and i: "i \<in> c_id ` {c \<in> set (chats d). older cutoff (c_deleted_at c)}"
    using assms(2,3) by (auto simp: drop_chat_def delete_one_def due_chats_def split: if_splits)
  have "kept_chats cutoff d' = kept_chats cutoff d"
    using filter_drop_key [OF _ i] assms(1)
    by (simp add: d' kept_chats_def delete_chat_def Let_def entity_kept_def primary_keys_def conj_commute filter_map comp_def)
  moreover have "i \<in> set (due_chats cutoff d0)" using i assms(1) by (auto simp: entity_kept_def due_chats_def)
  then have "filter (\<lambda>m. m_chat_id m \<noteq> i \<and> m_chat_id m \<notin> set (due_chats cutoff d0)) (messages d) = filter (\<lambda>m. m_chat_id m \<notin> set (due_chats cutoff d0)) (messages d)"
    by (intro filter_cong) auto
  then have "kept_messages (set (due_chats cutoff d0)) d' = kept_messages (set (due_chats cutoff d0)) d"
    by (simp add: d' kept_messages_def delete_chat_def Let_def filter_map comp_def conj_commute)
  moreover have "set (due_chats cutoff d') \<subseteq> set (due_chats cutoff d)" by (auto simp: d' due_delete_chat)
  ultimately show ?thesis using assms(1)
    by (auto simp: entity_kept_def primary_keys_def kept_users_def kept_outbox_def d' delete_chat_def Let_def comp_def distinct_map_filter_key)
next
  case False
  with assms show ?thesis by (simp add: drop_chat_def delete_one_def split: if_splits)
qed

lemma entity_kept_outbox:
  assumes "entity_kept cutoff oc d0 d" and "set ids \<subseteq> set (due_outbox oc d)" and "drop_outbox f k ids d = Inr (d', n)"
  shows "entity_kept cutoff oc d0 d'"
proof -
  have d': "d' = d\<lparr>outbox := filter (\<lambda>r. ob_id r \<notin> set ids) (outbox d)\<rparr>" using assms(3) by (auto simp: drop_outbox_def split: if_splits)
  have dist: "distinct (map ob_id (outbox d))" using assms(1) by (simp add: entity_kept_def primary_keys_def)
  have "ob_id r \<notin> set ids" if r: "r \<in> set (outbox d)" "\<not> (older oc (ob_published_at r) \<or> older oc (ob_dead_lettered_at r))" for r
  proof
    assume "ob_id r \<in> set ids"
    then obtain r' where "r' \<in> set (outbox d)" "ob_id r' = ob_id r" "older oc (ob_published_at r') \<or> older oc (ob_dead_lettered_at r')"
      using assms(2) by (auto simp: due_outbox_def)
    with r distinct_key_eq [OF dist] show False by metis
  qed
  then have "kept_outbox oc d' = kept_outbox oc d" by (auto simp: kept_outbox_def d' intro!: filter_cong)
  with assms(1) show ?thesis
    by (simp add: d' entity_kept_def primary_keys_def kept_users_def kept_chats_def due_chats_def kept_messages_def distinct_map_filter_key)
qed

lemma next_loop_cases:
  assumes "next_loop r k = Some (er, s')"
  obtains s1 where "r = Some (None, s1)" "k s1 = Some (er, s')" | "r = Some (er, s')" "er \<noteq> None"
proof -
  obtain e1 s1 where r: "r = Some (e1, s1)" and k: "(if e1 = None then k s1 else Some (e1, s1)) = Some (er, s')"
    using assms by (auto simp: next_loop_def bind_eq_Some_conv)
  show thesis using that r k by (cases "e1 = None") auto
qed

lemma entity_user_loop:
  assumes "sweep (due_users cutoff) b (each_row (drop_user f)) k d = Some (er, d')" and "entity_kept cutoff oc d0 d"
  shows "entity_kept cutoff oc d0 d'"
  using assms by (rule user_sweep.rows_invariant) (rule entity_kept_user)

lemma entity_chat_loop:
  assumes "sweep (due_chats cutoff) b (each_row (drop_chat f)) k d = Some (er, d')" and "entity_kept cutoff oc d0 d"
  shows "entity_kept cutoff oc d0 d'"
  using assms by (rule chat_sweep.rows_invariant) (rule entity_kept_chat)

lemma entity_outbox_loop:
  assumes "sweep (due_outbox oc) b (drop_outbox f) k d = Some (er, d')" and "entity_kept cutoff oc d0 d"
  shows "entity_kept cutoff oc d0 d'"
  using assms by (rule outbox_sweep.invariant) (rule entity_kept_outbox)

definition never_fails :: "sweep_faults \<Rightarrow> bool" where
  "never_fails f \<longleftrightarrow> (\<forall>k i. \<not> query_fails f k \<and> \<not> delete_fails f k i)"

lemma user_sweep_done:
  assumes "sweep (due_users cutoff) (query_fails f) (each_row (drop_user f)) k d = Some (er, d')" and "never_fails f"
  shows "er = None" and "due_users cutoff d' = []"
proof -
  have q: "\<not> query_fails f k" for k using assms(2) by (simp add: never_fails_def)
  have ok: "fst (drop_user f k i s)" if "i \<in> set (due_users cutoff s)" for k i s
    using that assms(2) by (auto simp: drop_user_def delete_one_def never_fails_def due_users_def)
  show "er = None" by (rule user_sweep.rows_complete(1) [OF assms(1) q ok])
  show "due_users cutoff d' = []" by (rule user_sweep.rows_complete(2) [OF assms(1) q ok])
qed

lemma chat_sweep_done:
  assumes "sweep (due_chats cutoff) (query_fails f) (each_row (drop_chat f)) k d = Some (er, d')" and "never_fails f"
  shows "er = None" and "due_chats cutoff d' = []"
proof -
  have q: "\<not> query_fails f k" for k using assms(2) by (simp add: never_fails_def)
  have ok: "fst (drop_chat f k i s)" if "i \<in> set (due_chats cutoff s)" for k i s
    using that assms(2) by (auto simp: drop_chat_def delete_one_def never_fails_def due_chats_def)
  show "er = None" by (rule chat_sweep.rows_complete(1) [OF assms(1) q ok])
  show "due_chats cutoff d' = []" by (rule chat_sweep.rows_complete(2) [OF assms(1) q ok])
qed

lemma outbox_sweep_done:
  assumes "sweep (due_outbox cutoff) (query_fails f) (drop_outbox f) k d = Some (er, d')" and "never_fails f"
  shows "er = None" and "due_outbox cutoff d' = []"
proof -
  have q: "\<not> query_fails f k" for k using assms(2) by (simp add: never_fails_def)
  have ok: "\<exists>s' n. drop_outbox f k ids s = Inr (s', Suc n)" if ne: "ids \<noteq> []" and sub: "set ids \<subseteq> set (due_outbox cutoff s)" for k ids s
  proof -
    obtain i where "i \<in> set ids" using ne by (cases ids) auto
    with sub have "i \<in> ob_id ` set (outbox s)" by (auto simp: due_outbox_def)
    with \<open>i \<in> set ids\<close> have "0 < affected (\<lambda>r. ob_id r \<in> set ids) (outbox s)" by (auto simp: affected_def filter_empty_conv)
    then show ?thesis using assms(2) gr0_implies_Suc by (fastforce simp: drop_outbox_def never_fails_def)
  qed
  show "er = None" by (rule outbox_sweep.complete(1) [OF assms(1) q ok])
  show "due_outbox cutoff d' = []" by (rule outbox_sweep.complete(2) [OF assms(1) q ok])
qed

lemma due_nothing:
  "due_users cutoff d = [] \<Longrightarrow> users d = kept_users cutoff d"
  "due_outbox oc d = [] \<Longrightarrow> outbox d = kept_outbox oc d"
  by (auto simp: due_users_def kept_users_def due_outbox_def kept_outbox_def filter_empty_conv dest!: arg_cong [of _ _ set] intro!: filter_True [symmetric])

text \<open>The loops after the first leave the users alone, the last one also the chats.\<close>

lemma chat_loop_users:
  assumes "sweep (due_chats cutoff) b (each_row (drop_chat f)) k d = Some (er, d')"
  shows "users d' = users d"
  using assms by (rule chat_sweep.rows_invariant) (auto simp: drop_chat_def delete_one_def delete_chat_def Let_def split: if_splits)

lemma outbox_loop_frame:
  assumes "sweep (due_outbox oc) b (drop_outbox f) k d = Some (er, d')"
  shows "users d' = users d \<and> chats d' = chats d"
  using assms by (rule outbox_sweep.invariant) (auto simp: drop_outbox_def split: if_splits)

text \<open>The entity cleanup, also when queries and deletes fail, removes only users and chats that were deleted before the retention and
  outbox rows that were settled before it: every other user row is unchanged, every other chat is still there with all its messages
  (of a message at most the references to removed rows are cleared), and every other outbox row is unchanged. When nothing fails
  it reports no error and removes all that is due.
\<close>

theorem entity_cleanup_exact:
  fixes d :: db and cfg :: cleanup_config and t :: time
  defines "cutoff \<equiv> entity_cutoff cfg t" and "oc \<equiv> outbox_cutoff cfg t"
  assumes "RunEntityCleanup cfg t fu fc fo d = Some (er, d')" and "primary_keys d"
  shows "kept_users cutoff d' = kept_users cutoff d \<and> kept_chats cutoff d' = kept_chats cutoff d \<and>
    kept_messages (set (due_chats cutoff d)) d' = kept_messages (set (due_chats cutoff d)) d \<and> kept_outbox oc d' = kept_outbox oc d \<and>
    (never_fails fu \<and> never_fails fc \<and> never_fails fo \<longrightarrow>
       er = None \<and> users d' = kept_users cutoff d \<and> due_chats cutoff d' = [] \<and> outbox d' = kept_outbox oc d)"
proof -
  have k0: "entity_kept cutoff oc d d" using assms(4) by (simp add: entity_kept_def)
  have run: "next_loop (sweep (due_users cutoff) (query_fails fu) (each_row (drop_user fu)) 0 d) (\<lambda>d.
     next_loop (sweep (due_chats cutoff) (query_fails fc) (each_row (drop_chat fc)) 0 d) (\<lambda>d.
       sweep (due_outbox oc) (query_fails fo) (drop_outbox fo) 0 d)) = Some (er, d')"
    using assms(3) by (simp add: RunEntityCleanup_def cutoff_def oc_def)
  have "entity_kept cutoff oc d d' \<and> (never_fails fu \<and> never_fails fc \<and> never_fails fo \<longrightarrow>
      er = None \<and> due_users cutoff d' = [] \<and> due_chats cutoff d' = [] \<and> due_outbox oc d' = [])"
    using run
  proof (cases rule: next_loop_cases)
    case (1 d1)
    note u = entity_user_loop [OF 1(1) k0] and ud = user_sweep_done [OF 1(1)]
    from 1(2) show ?thesis
    proof (cases rule: next_loop_cases)
      case (1 d2)
      note c = entity_chat_loop [OF 1(1) u] and cd = chat_sweep_done [OF 1(1)]
      note ob = entity_outbox_loop [OF 1(2) c] and od = outbox_sweep_done [OF 1(2)]
      have "users d' = users d1" "chats d' = chats d2" using chat_loop_users [OF 1(1)] outbox_loop_frame [OF 1(2)] by simp_all
      then have "due_users cutoff d' = due_users cutoff d1" "due_chats cutoff d' = due_chats cutoff d2" by (simp_all add: due_users_def due_chats_def)
      with ob od ud cd show ?thesis by auto
    next
      case 2
      with entity_chat_loop [OF 2(1) u] chat_sweep_done(1) [OF 2(1)] show ?thesis by auto
    qed
  next
    case 2
    with entity_user_loop [OF 2(1) k0] user_sweep_done(1) [OF 2(1)] show ?thesis by auto
  qed
  then show ?thesis using due_nothing [of cutoff d'] due_nothing(2) [of oc d'] by (auto simp: entity_kept_def)
qed

definition sample_cleanup :: cleanup_config where
  "sample_cleanup = \<lparr>SoftDeleteRetentionDays = 30, MessageOutboxRetentionDays = 7, MediaRetentionDays = 7\<rparr>"

definition no_sweep_faults :: sweep_faults where
  "no_sweep_faults = \<lparr>query_fails = (\<lambda>k. False), delete_fails = (\<lambda>k i. False)\<rparr>"

lemma no_sweep_faults [simp]: "never_fails no_sweep_faults"
  by (simp add: never_fails_def no_sweep_faults_def)

text \<open>User 3 was deleted at the epoch, and with him nobody else.\<close>

definition sample_old_db :: db where
  "sample_old_db = sample_db\<lparr>users := [sample_user 1 ''Ann'', (sample_user 3 ''Cy'')\<lparr>u_deleted_at := Some 0\<rparr>]\<rparr>"

theorem entity_cleanup_exact_witness:
  "\<exists>er d'. RunEntityCleanup sample_cleanup (31 * day) no_sweep_faults no_sweep_faults no_sweep_faults sample_old_db = Some (er, d') \<and>
     er = None \<and> users d' = [sample_user 1 ''Ann'']"
proof -
  have keys: "primary_keys sample_old_db" by (simp add: primary_keys_def sample_old_db_def sample_db_def empty_db_def sample_defs)
  have kept: "kept_users (entity_cutoff sample_cleanup (31 * day)) sample_old_db = [sample_user 1 ''Ann'']"
    by (simp add: kept_users_def sample_old_db_def sample_cleanup_def entity_cutoff_def older_def day_def)
  obtain er d' where run: "RunEntityCleanup sample_cleanup (31 * day) no_sweep_faults no_sweep_faults no_sweep_faults sample_old_db = Some (er, d')"
    unfolding RunEntityCleanup_def using next_loop_returns user_sweep.returns chat_sweep.returns outbox_sweep.returns by metis
  show ?thesis using entity_cleanup_exact [OF run keys] kept run by simp
qed

section \<open>Media\<close>

definition same_but_media :: "db \<Rightarrow> db \<Rightarrow> bool" where
  "same_but_media d d0 \<longleftrightarrow> d\<lparr>medias := []\<rparr> = d0\<lparr>medias := []\<rparr>"

definition media_kept :: "time \<Rightarrow> time \<Rightarrow> db \<Rightarrow> object_log \<Rightarrow> db \<times> object_log \<Rightarrow> bool" where
  "media_kept cutoff t d0 objs0 s \<longleftrightarrow> (case s of (d, objs) \<Rightarrow>
     same_but_media d d0 \<and> distinct (map md_id (medias d)) \<and> set (medias d) \<subseteq> set (medias d0) \<and>
     filter (\<lambda>m. \<not> orphan cutoff t d0 m) (medias d) = filter (\<lambda>m. \<not> orphan cutoff t d0 m) (medias d0) \<and>
     (\<forall>x\<in>set objs. x \<in> set objs0 \<or> (\<exists>m\<in>set (medias d0). orphan cutoff t d0 m \<and> snd x = md_file_name m)))"

lemma orphan_medias: "orphan cutoff t (d\<lparr>medias := ms\<rparr>) = orphan cutoff t d"
  by (auto simp: orphan_def media_in_use_def fun_eq_iff)

lemma orphan_cong: "same_but_media d d0 \<Longrightarrow> orphan cutoff t d = orphan cutoff t d0"
  unfolding same_but_media_def by (metis orphan_medias)

lemma same_but_media_refl: "same_but_media d d"
  by (simp add: same_but_media_def)

lemma same_but_media_upd: "same_but_media d d0 \<Longrightarrow> same_but_media (d\<lparr>medias := ms\<rparr>) d0"
  unfolding same_but_media_def by simp

lemma delete_orphan:
  assumes "orphan cutoff t d m"
  shows "delete_media (md_id m) d = d\<lparr>medias := filter (\<lambda>x. md_id x \<noteq> md_id m) (medias d)\<rparr>"
proof -
  have u: "u\<lparr>u_avatar_id := cleared (\<lambda>j. j = md_id m) (u_avatar_id u)\<rparr> = u" if "u \<in> set (users d)" for u
    using that assms by (auto simp: orphan_def media_in_use_def cleared_def split: option.splits)
  have g: "g\<lparr>gc_avatar_id := cleared (\<lambda>j. j = md_id m) (gc_avatar_id g)\<rparr> = g" if "g \<in> set (group_chats d)" for g
    using that assms by (auto simp: orphan_def media_in_use_def cleared_def split: option.splits)
  have e: "filter (\<lambda>(r, i). i \<noteq> md_id m) (report_evidence d) = report_evidence d"
    using assms by (auto simp: orphan_def media_in_use_def filter_id_conv)
  show ?thesis using u g e by (simp add: delete_media_def map_idI)
qed

lemma media_kept_step:
  assumes "media_kept cutoff t d0 objs0 s" and "i \<in> set (map md_id (medias (fst s))) \<Longrightarrow> i \<in> set (due_media cutoff t s)"
    and "drop_media f storage k i s = (ok, s')"
  shows "media_kept cutoff t d0 objs0 s'"
proof -
  obtain d objs where s: "s = (d, objs)" by (cases s)
  show ?thesis
  proof (cases "find (\<lambda>m. md_id m = i) (medias d)")
    case None
    with assms s show ?thesis by (simp add: drop_media_def)
  next
    case (Some m)
    then have m: "m \<in> set (medias d)" "md_id m = i" using find_SomeD [OF Some] by simp_all
    have dist: "distinct (map md_id (medias d))" and d: "same_but_media d d0" and sub: "set (medias d) \<subseteq> set (medias d0)"
      and kept: "filter (\<lambda>m. \<not> orphan cutoff t d0 m) (medias d) = filter (\<lambda>m. \<not> orphan cutoff t d0 m) (medias d0)"
      using assms(1) by (simp_all add: media_kept_def s)
    have o0: "orphan cutoff t d = orphan cutoff t d0" by (rule orphan_cong [OF d])
    have "i \<in> set (due_media cutoff t (d, objs))" using assms(2) m s by auto
    then have om: "orphan cutoff t d m" using m dist by (auto simp: due_media_def dest: distinct_key_eq)
    have "s' = s \<or> (\<exists>b. s' = (d, objs @ [(b, md_file_name m)]) \<or> s' = (delete_media i d, objs @ [(b, md_file_name m)]))"
      using assms(3) Some by (simp add: drop_media_def s Let_def split: if_splits) blast+
    then obtain b where s': "s' = s \<or> s' = (d, objs @ [(b, md_file_name m)]) \<or> s' = (delete_media i d, objs @ [(b, md_file_name m)])" by blast
    have del: "delete_media i d = d\<lparr>medias := filter (\<lambda>x. md_id x \<noteq> i) (medias d)\<rparr>"
      unfolding m(2) [symmetric] by (rule delete_orphan [OF om])
    have "filter (\<lambda>x. md_id x \<noteq> i \<and> \<not> orphan cutoff t d0 x) (medias d) = filter (\<lambda>x. \<not> orphan cutoff t d0 x) (medias d)"
      using m om by (intro filter_drop_key [OF dist]) (auto simp: o0)
    with kept have k2: "filter (\<lambda>x. md_id x \<noteq> i \<and> \<not> orphan cutoff t d0 x) (medias d) = filter (\<lambda>m. \<not> orphan cutoff t d0 m) (medias d0)"
      by simp
    have "\<exists>m'\<in>set (medias d0). orphan cutoff t d0 m' \<and> md_file_name m = md_file_name m'" using m(1) sub om o0 by auto
    with assms(1) have log: "media_kept cutoff t d0 objs0 (d, objs @ [(b, md_file_name m)])" by (auto simp: media_kept_def s)
    then have "media_kept cutoff t d0 objs0 (delete_media i d, objs @ [(b, md_file_name m)])"
      using k2 sub dist by (auto simp: media_kept_def del distinct_map_filter_key same_but_media_upd)
    with s' log assms(1) show ?thesis by blast
  qed
qed

lemma media_cleanup_rows:
  assumes "RunMediaCleanup cfg t f storage (d, objs) = Some (er, d', objs')" and "distinct (map md_id (medias d))"
  shows "same_but_media d' d \<and> set (medias d') \<subseteq> set (medias d) \<and>
    filter (\<lambda>m. \<not> orphan (media_cutoff cfg t) t d m) (medias d') = filter (\<lambda>m. \<not> orphan (media_cutoff cfg t) t d m) (medias d) \<and>
    (\<forall>x\<in>set objs'. x \<in> set objs \<or> (\<exists>m\<in>set (medias d). orphan (media_cutoff cfg t) t d m \<and> snd x = md_file_name m)) \<and>
    (never_fails f \<and> (\<forall>k n b. storage k n b) \<longrightarrow> er = None \<and> medias d' = filter (\<lambda>m. \<not> orphan (media_cutoff cfg t) t d m) (medias d))"
proof -
  have run: "sweep (due_media (media_cutoff cfg t) t) (query_fails f) (each_row (drop_media f storage)) 0 (d, objs) = Some (er, d', objs')"
    using assms(1) by (simp add: RunMediaCleanup_def)
  have "media_kept (media_cutoff cfg t) t d objs (d, objs)" using assms(2) by (simp add: media_kept_def same_but_media_refl)
  with run have k: "media_kept (media_cutoff cfg t) t d objs (d', objs')" by (rule media_sweep.rows_invariant) (rule media_kept_step)
  then have o: "orphan (media_cutoff cfg t) t d' = orphan (media_cutoff cfg t) t d"
    by (intro orphan_cong) (simp add: media_kept_def)
  have "er = None \<and> medias d' = filter (\<lambda>m. \<not> orphan (media_cutoff cfg t) t d m) (medias d)" if nf: "never_fails f" and st: "\<forall>k n b. storage k n b"
  proof -
    have q: "\<not> query_fails f k" for k using nf by (simp add: never_fails_def)
    have ok: "fst (drop_media f storage k i s)" if i: "i \<in> set (due_media (media_cutoff cfg t) t s)" for k i s
    proof -
      obtain m where m: "m \<in> set (medias (fst s))" "md_id m = i" using i by (auto simp: due_media_def)
      obtain m' where "find (\<lambda>m. md_id m = i) (medias (fst s)) = Some m'" using find_Some_ex [of m _ "\<lambda>m. md_id m = i", OF m] by blast
      then show ?thesis using nf st by (auto simp: drop_media_def never_fails_def Let_def split: prod.splits)
    qed
    have "er = None" and "due_media (media_cutoff cfg t) t (d', objs') = []"
      by (rule media_sweep.rows_complete [OF run q ok]; assumption)+
    then have "medias d' = filter (\<lambda>m. \<not> orphan (media_cutoff cfg t) t d m) (medias d')"
      by (auto simp: due_media_def o filter_empty_conv dest!: arg_cong [of _ _ set] intro!: filter_True [symmetric])
    with \<open>er = None\<close> k show ?thesis by (simp add: media_kept_def)
  qed
  with k show ?thesis by (simp add: media_kept_def)
qed

text \<open>What protects a media row: a message it is attached to, a user or a group it is the avatar of, a report it is evidence for; an upload that
  is pending is protected until it expires, and a completed one for the days of the retention (seven when the configured number is negative).\<close>

definition retention :: "cleanup_config \<Rightarrow> rat" where
  "retention cfg = (if MediaRetentionDays cfg < 0 then 7 else MediaRetentionDays cfg) * 86400000000000"

definition protected_upload :: "cleanup_config \<Rightarrow> time \<Rightarrow> db \<Rightarrow> media \<Rightarrow> bool" where
  "protected_upload cfg t d m \<longleftrightarrow>
     md_message_id m \<noteq> None \<or> Some (md_id m) \<in> u_avatar_id ` set (users d) \<or> Some (md_id m) \<in> gc_avatar_id ` set (group_chats d) \<or>
     md_id m \<in> snd ` set (report_evidence d) \<or>
     (if md_upload_status m = UploadStatusPending then \<forall>x. md_upload_expires_at m = Some x \<longrightarrow> t \<le> x
      else md_upload_status m = UploadStatusCompleted \<longrightarrow> of_int (t - md_created_at m) \<le> retention cfg)"

lemma orphan_unprotected: "orphan (media_cutoff cfg t) t d m \<longleftrightarrow> \<not> protected_upload cfg t d m"
proof -
  have "md_created_at m < media_cutoff cfg t \<longleftrightarrow> \<not> of_int (t - md_created_at m) \<le> retention cfg"
  proof -
    have "media_cutoff cfg t = t - \<lfloor>retention cfg\<rfloor>" by (simp add: media_cutoff_def retention_def day_def)
    moreover have "t - md_created_at m \<le> \<lfloor>retention cfg\<rfloor> \<longleftrightarrow> of_int (t - md_created_at m) \<le> retention cfg" by (rule le_floor_iff)
    ultimately show ?thesis by linarith
  qed
  moreover have "(\<exists>(r, i)\<in>set (report_evidence d). i = md_id m) \<longleftrightarrow> md_id m \<in> snd ` set (report_evidence d)" by force
  moreover have "older t (md_upload_expires_at m) \<longleftrightarrow> \<not> (\<forall>x. md_upload_expires_at m = Some x \<longrightarrow> t \<le> x)"
    by (auto simp: older_def split: option.splits)
  ultimately show ?thesis by (auto simp: orphan_def media_in_use_def protected_upload_def image_iff eq_commute [of "Some (md_id m)"])
qed

text \<open>
  C35. The media cleanup changes nothing of the database but the media table, and keeps there every row that a message, an avatar or the
  evidence of a report refers to, every upload that has not expired and every completed one within the retention. Every object it deletes
  from the store belongs to a row that none of these protect. When nothing fails it removes all other rows.
\<close>

theorem media_cleanup_exact:
  assumes "RunMediaCleanup cfg t f storage (d, objs) = Some (er, d', objs')" and "distinct (map md_id (medias d))"
  shows "same_but_media d' d \<and> set (medias d') \<subseteq> set (medias d) \<and>
    filter (protected_upload cfg t d) (medias d') = filter (protected_upload cfg t d) (medias d) \<and>
    (\<forall>x\<in>set objs'. x \<in> set objs \<or> (\<exists>m\<in>set (medias d). \<not> protected_upload cfg t d m \<and> snd x = md_file_name m)) \<and>
    (never_fails f \<and> (\<forall>k n b. storage k n b) \<longrightarrow> er = None \<and> medias d' = filter (protected_upload cfg t d) (medias d))"
  using media_cleanup_rows [OF assms] unfolding orphan_unprotected not_not .

text \<open>An upload that expired and an attachment of message 20.\<close>

definition sample_media :: "uuid \<Rightarrow> upload_status \<Rightarrow> uuid option \<Rightarrow> media" where
  "sample_media i st msg = \<lparr>md_id = i, md_file_name = ''f'' @ replicate i CHR ''1'', md_original_name = ''o'', md_file_size = 1, md_mime_type = ''image/png'',
     md_category = CategoryMessageAttachment, md_upload_status = st, md_upload_expires_at = Some 50, md_completed_at = None, md_message_id = msg,
     md_uploaded_by_id = Some 1, md_created_at = 0\<rparr>"

theorem media_cleanup_exact_witness:
  "\<exists>er d' objs'. RunMediaCleanup sample_cleanup 100 no_sweep_faults (\<lambda>k n b. True)
      (sample_db\<lparr>medias := [sample_media 1 UploadStatusPending None, sample_media 2 UploadStatusCompleted (Some 20)]\<rparr>, []) = Some (er, d', objs') \<and>
     er = None \<and> medias d' = [sample_media 2 UploadStatusCompleted (Some 20)]"
proof -
  let ?d = "sample_db\<lparr>medias := [sample_media 1 UploadStatusPending None, sample_media 2 UploadStatusCompleted (Some 20)]\<rparr>"
  have dist: "distinct (map md_id (medias ?d))" by (simp add: sample_media_def)
  obtain er d' objs' where run: "RunMediaCleanup sample_cleanup 100 no_sweep_faults (\<lambda>k n b. True) (?d, []) = Some (er, d', objs')"
    unfolding RunMediaCleanup_def using media_sweep.returns [of "media_cutoff sample_cleanup 100" 100] by (metis surj_pair)
  have "filter (protected_upload sample_cleanup 100 ?d) (medias ?d) = [sample_media 2 UploadStatusCompleted (Some 20)]"
    by (simp add: protected_upload_def sample_media_def sample_db_def empty_db_def sample_defs)
  then show ?thesis using media_cleanup_exact [OF run dist] run by auto
qed

end
