(* ===== verification/User_Laws.thy ===== *)
theory User_Laws
  imports User_Service Message_Laws Private_Chat_Laws Chat_Laws Cleanup_Properties
begin

text \<open>
  What \<^verbatim>\<open>src/internal/api/application/user/user_service.go\<close> guarantees: blocking refines a set of pairs and silences
  both sides, a profile hides the presence of blocked and banned users, and the search visits every user who can be found, page by page.
\<close>

section \<open>Blocks as a set of pairs\<close>

definition block_set :: "db \<Rightarrow> (uuid \<times> uuid) set" where
  "block_set d = (\<lambda>b. (ub_blocker_id b, ub_blocked_id b)) ` set (user_blocks d)"

lemma in_block_set: "(a, b) \<in> block_set d \<longleftrightarrow> (\<exists>x\<in>set (user_blocks d). ub_blocker_id x = a \<and> ub_blocked_id x = b)"
  by (auto simp: block_set_def image_iff)

lemma blocked_between_block_set: "blocked_between d a b \<longleftrightarrow> (a, b) \<in> block_set d \<or> (b, a) \<in> block_set d"
  by (auto simp: blocked_between_def block_set_def)

lemma BlockUser_Inr:
  assumes "BlockUser svc e d a b = Inr (evs, d')"
  obtains "d' = d\<lparr>user_blocks := user_blocks d @ [new_block e a b]\<rparr>" and "a \<noteq> b"
  | "d' = d" and "a \<noteq> b" and "(a, b) \<in> block_set d \<or> a \<notin> u_id ` set (users d)"
proof -
  have ne: "a \<noteq> b" and ex: "\<exists>u\<in>set (users d). u_id u = b"
    and ins: "insert_block (fault e ''block user'') d (new_block e a b) = Inl ConstraintError \<and> d' = d \<or>
      insert_block (fault e ''block user'') d (new_block e a b) = Inr d'"
    using assms by (auto simp: BlockUser_def result_simps filter_empty_conv split: sum.splits ent_error.splits)
  from ins show thesis
  proof
    assume h: "insert_block (fault e ''block user'') d (new_block e a b) = Inl ConstraintError \<and> d' = d"
    then have "(a, b) \<in> block_set d \<or> a \<notin> u_id ` set (users d)"
      using ex by (auto simp: insert_block_def new_block_def in_block_set split: if_splits)
    then show thesis using that(2) h ne by blast
  next
    assume "insert_block (fault e ''block user'') d (new_block e a b) = Inr d'"
    then show thesis using that(1) ne by (simp add: insert_block_def split: if_splits)
  qed
qed

text \<open>
  C17. The blocks are a set of pairs: \<open>BlockUser\<close> adds a pair, however often it is called, \<open>UnblockUser\<close> takes it out, and neither
  touches another pair or another table.
\<close>

theorem blocks_refine_pairs:
  assumes "a \<in> u_id ` set (users d)"
  shows "(BlockUser svc e d a b = Inr (evs, d') \<longrightarrow> block_set d' = insert (a, b) (block_set d) \<and> d'\<lparr>user_blocks := user_blocks d\<rparr> = d) \<and>
    (UnblockUser svc e d a b = Inr (evs', d'') \<longrightarrow> block_set d'' = block_set d - {(a, b)} \<and> d''\<lparr>user_blocks := user_blocks d\<rparr> = d)"
proof (intro conjI [OF impI impI])
  assume h: "BlockUser svc e d a b = Inr (evs, d')"
  show "block_set d' = insert (a, b) (block_set d) \<and> d'\<lparr>user_blocks := user_blocks d\<rparr> = d"
  proof (rule BlockUser_Inr [OF h])
    assume "d' = d\<lparr>user_blocks := user_blocks d @ [new_block e a b]\<rparr>"
    then show ?thesis by (auto simp: block_set_def new_block_def)
  qed (use assms in auto)
next
  assume "UnblockUser svc e d a b = Inr (evs', d'')"
  then show "block_set d'' = block_set d - {(a, b)} \<and> d''\<lparr>user_blocks := user_blocks d\<rparr> = d"
    by (auto simp: UnblockUser_def result_simps block_set_def)
qed

text \<open>An order of names for the examples: the bytes as digits.\<close>

definition byte_rank :: "string \<Rightarrow> nat" where
  "byte_rank n = foldl (\<lambda>k c. k * 256 + of_char c) 1 n"

lemma byte_rank_snoc: "byte_rank (n @ [c]) = byte_rank n * 256 + of_char c" and byte_rank_Nil: "byte_rank [] = 1"
  by (simp_all add: byte_rank_def)

lemma byte_rank_pos: "1 \<le> byte_rank n"
  by (induction n rule: rev_induct) (simp_all add: byte_rank_snoc byte_rank_Nil)

lemma byte_digit: "k * 256 + of_char (c :: char) = l * 256 + of_char (d :: char) \<longleftrightarrow> k = (l :: nat) \<and> c = d"
proof
  assume "k * 256 + of_char c = l * 256 + of_char d"
  moreover have "of_char c < (256 :: nat)" "of_char d < (256 :: nat)" by (rule nat_of_char_less_256)+
  ultimately have "k = l" by linarith
  then show "k = l \<and> c = d" using \<open>k * 256 + of_char c = l * 256 + of_char d\<close> by simp
qed simp

lemma byte_rank_inj: "byte_rank n = byte_rank n' \<longleftrightarrow> n = n'"
proof (induction n arbitrary: n' rule: rev_induct)
  case Nil
  show ?case
  proof (cases n' rule: rev_cases)
    case (snoc ys y)
    with byte_rank_pos [of ys] show ?thesis by (simp add: byte_rank_snoc byte_rank_Nil)
  qed simp
next
  case (snoc c n)
  show ?case
  proof (cases n' rule: rev_cases)
    case Nil
    with byte_rank_pos [of n] show ?thesis by (simp add: byte_rank_snoc byte_rank_Nil)
  qed (simp add: byte_rank_snoc byte_digit snoc.IH)
qed

lemma inj_byte_rank: "inj byte_rank"
  by (simp add: inj_def byte_rank_inj)

definition sample_users :: user_service where
  "sample_users = \<lparr>us_urls = \<lparr>GetPresignedURL = id, GetPublicURL = id\<rparr>, us_hub = True, us_publisher = \<lparr>pb_db = True, pb_redis = True\<rparr>,
     us_online = (\<lambda>_. True), us_lower = id, us_codec = unary_codec,
     us_collation = \<lparr>db_lower = map lower_byte, equal_fold = (=), name_rank = byte_rank\<rparr>\<rparr>"

theorem blocks_refine_pairs_witness:
  "block_set (snd (projr (BlockUser sample_users (sample_env 5 90) sample_db 1 2))) = insert (1, 2) (block_set sample_db) \<and>
   (snd (projr (BlockUser sample_users (sample_env 5 90) sample_db 1 2)))\<lparr>user_blocks := user_blocks sample_db\<rparr> = sample_db \<and>
   block_set (snd (projr (UnblockUser sample_users (sample_env 5 90) sample_db 1 2))) = block_set sample_db - {(1, 2)}"
proof -
  have mem: "1 \<in> u_id ` set (users sample_db)" by (simp add: sample_db_def empty_db_def)
  have "case BlockUser sample_users (sample_env 5 90) sample_db 1 2 of Inl _ \<Rightarrow> False | Inr _ \<Rightarrow> True"
    "case UnblockUser sample_users (sample_env 5 90) sample_db 1 2 of Inl _ \<Rightarrow> False | Inr _ \<Rightarrow> True" by code_simp+
  then have "BlockUser sample_users (sample_env 5 90) sample_db 1 2 =
        Inr (fst (projr (BlockUser sample_users (sample_env 5 90) sample_db 1 2)), snd (projr (BlockUser sample_users (sample_env 5 90) sample_db 1 2)))"
    "UnblockUser sample_users (sample_env 5 90) sample_db 1 2 =
        Inr (fst (projr (UnblockUser sample_users (sample_env 5 90) sample_db 1 2)), snd (projr (UnblockUser sample_users (sample_env 5 90) sample_db 1 2)))"
    by (auto split: sum.splits)
  with blocks_refine_pairs [OF mem] show ?thesis by blast
qed

section \<open>Silence\<close>

lemma BlockUser_in_set:
  assumes "BlockUser svc e d a b = Inr (evs, d')" and "a \<in> u_id ` set (users d)"
  shows "(a, b) \<in> block_set d'"
  by (rule BlockUser_Inr [OF assms(1)]) (use assms(2) in \<open>auto simp: block_set_def new_block_def\<close>)

text \<open>A block lasts until it is taken back. Only \<open>BlockUser\<close>, \<open>UnblockUser\<close> and the removal of a user's row write the
  table of blocks; the handlers of messages, chats and profiles do not, nor does anything else.\<close>

definition both_live :: "uuid \<Rightarrow> uuid \<Rightarrow> db \<Rightarrow> bool" where
  "both_live a b d \<longleftrightarrow> (\<forall>u\<in>set (users d). u_id u \<in> {a, b} \<longrightarrow> u_deleted_at u = None)"

inductive unlifted_step :: "uuid \<Rightarrow> uuid \<Rightarrow> db \<Rightarrow> db \<Rightarrow> bool" for a b where
  block: "BlockUser svc e d x y = Inr (evs, d') \<Longrightarrow> unlifted_step a b d d'"
| unblock: "UnblockUser svc e d x y = Inr (evs, d') \<Longrightarrow> (x, y) \<noteq> (a, b) \<Longrightarrow> unlifted_step a b d d'"
| profile: "UpdateProfile svc e pvalid d u preq = Inr (dto, evs, d') \<Longrightarrow> unlifted_step a b d d'"
| send: "SendMessage msvc e valid d u req = Inr (resp, d') \<Longrightarrow> unlifted_step a b d d'"
| edit: "EditMessage msvc e evalid d u mid ereq = Inr (resp, d') \<Longrightarrow> unlifted_step a b d d'"
| delete: "DeleteMessage e d u mid = Inr d' \<Longrightarrow> unlifted_step a b d d'"
| chat: "chat_step d d' \<Longrightarrow> unlifted_step a b d d'"
| entities: "RunEntityCleanup cfg t fu fc fo d = Some (er, d') \<Longrightarrow> both_live a b d \<Longrightarrow> unlifted_step a b d d'"
| other: "user_blocks d' = user_blocks d \<Longrightarrow> unlifted_step a b d d'"

lemma UpdateProfile_user_blocks: "UpdateProfile svc e valid d u req = Inr (dto, evs, d') \<Longrightarrow> user_blocks d' = user_blocks d"
  by (auto simp: UpdateProfile_def Let_def result_simps save_user_def set_user_def split: if_splits)

lemma message_user_blocks:
  "SendMessage msvc e valid d u req = Inr (resp, d') \<Longrightarrow> user_blocks d' = user_blocks d"
  "EditMessage msvc e evalid d u mid ereq = Inr (resp, d') \<Longrightarrow> user_blocks d' = user_blocks d"
  "DeleteMessage e d u mid = Inr d' \<Longrightarrow> user_blocks d' = user_blocks d"
proof -
  show "user_blocks d' = user_blocks d" if "SendMessage msvc e valid d u req = Inr (resp, d')"
    using that by (rule SendMessage_Inr) simp
  show "user_blocks d' = user_blocks d" if "EditMessage msvc e evalid d u mid ereq = Inr (resp, d')"
    using EditMessage_Inr [OF that] by (auto dest: apply_edit_Inr)
  show "user_blocks d' = user_blocks d" if "DeleteMessage e d u mid = Inr d'"
    using DeleteMessage_Inr [OF that] by (auto simp: erase_message_def)
qed

lemma insert_private_user_blocks: "insert_private f d p = Inr d' \<Longrightarrow> user_blocks d' = user_blocks d"
  by (auto simp: insert_private_def Let_def split: if_splits)

lemma chat_step_user_blocks: "chat_step d d' \<Longrightarrow> user_blocks d' = user_blocks d"
proof (induction rule: chat_step.induct)
  case (opened svc e valid d0 d u v r ps d')
  from CreatePrivateChat_cases [OF opened.hyps] show ?case
    by (auto dest!: create_private_rows_Inr insert_private_user_blocks)
next
  case (was_read svc e d u c ps d')
  have "user_blocks x = user_blocks d" if "mark_private_read e d u pc = Inr (b, x)" for pc b x
    by (rule mark_private_read_Inr [OF that]) simp
  moreover have "user_blocks x = user_blocks d" if "mark_group_read e d u gc = Inr (b, x)" for gc b x
    by (rule mark_group_read_Inr [OF that]) simp
  ultimately show ?case
    by (rule_tac MarkAsRead_Inr [OF was_read.hyps]) (auto split: chat_type.splits option.splits)
next
  case (hidden svc e d u c ps d')
  then show ?case by (rule HideChat_Inr) simp
qed

lemma entity_cleanup_keeps_block:
  assumes "RunEntityCleanup cfg t fu fc fo d = Some (er, d')" and "both_live a b d" and "(a, b) \<in> block_set d"
  shows "(a, b) \<in> block_set d'"
proof -
  define P where "P d \<longleftrightarrow> both_live a b d \<and> (a, b) \<in> block_set d" for d
  have users: "P s'" if "sweep (due_users cutoff) f (each_row (drop_user fs)) k s = Some (er, s')" "P s" for cutoff f fs k s er s'
    using that
  proof (rule user_sweep.rows_invariant)
    fix k i s ok s'
    assume s: "P s" and due: "i \<in> set (map u_id (users s)) \<Longrightarrow> i \<in> set (due_users cutoff s)" and "drop_user fs k i s = (ok, s')"
    then have "s' = s \<or> s' = delete_user i s \<and> i \<in> set (due_users cutoff s)" by (auto simp: drop_user_def delete_one_def split: if_splits)
    then show "P s'" using s
      by (auto simp: P_def both_live_def in_block_set delete_user_def due_users_def older_def split: option.splits)
  qed
  have chats: "P s'" if "sweep (due_chats cutoff) f (each_row (drop_chat fs)) k s = Some (er, s')" "P s" for cutoff f fs k s er s'
    using that by (rule chat_sweep.rows_invariant)
      (auto simp: drop_chat_def delete_one_def P_def both_live_def in_block_set delete_chat_def Let_def split: if_splits)
  have outbox: "P s'" if "sweep (due_outbox cutoff) f (drop_outbox fs) k s = Some (er, s')" "P s" for cutoff f fs k s er s'
    using that by (rule outbox_sweep.invariant) (auto simp: drop_outbox_def P_def both_live_def in_block_set split: if_splits)
  have "P d" using assms(2,3) by (simp add: P_def)
  then have "P d'" using assms(1) unfolding RunEntityCleanup_def by (elim next_loop_cases) (blast intro: users chats outbox)+
  then show ?thesis by (simp add: P_def)
qed

lemma unlifted_step_keeps: "unlifted_step a b d d' \<Longrightarrow> (a, b) \<in> block_set d \<Longrightarrow> (a, b) \<in> block_set d'"
proof (induction rule: unlifted_step.induct)
  case (block svc e d x y evs d')
  then show ?case by (rule_tac BlockUser_Inr [OF block(1)]) (auto simp: block_set_def)
next
  case (unblock svc e d x y evs d')
  then show ?case by (auto simp: UnblockUser_def result_simps in_block_set)
qed (auto simp: block_set_def dest: UpdateProfile_user_blocks message_user_blocks chat_step_user_blocks intro: entity_cleanup_keeps_block [unfolded block_set_def])

lemma block_lasts: "(unlifted_step a b)\<^sup>*\<^sup>* d d' \<Longrightarrow> (a, b) \<in> block_set d \<Longrightarrow> (a, b) \<in> block_set d'"
  by (induction rule: rtranclp_induct) (blast intro: unlifted_step_keeps)+

text \<open>What the search lists can be found.\<close>

lemma page_of_set: "page_of n mk rows = (p, c, h) \<Longrightarrow> set p \<subseteq> set rows"
  by (auto simp: page_of_def split: if_splits dest: in_set_takeD)

lemma user_page_set:
  assumes "user_page svc broken d P cursor limit = Inr (rows, c, h)" and "v \<in> set rows"
  shows "\<exists>r\<in>set (users d). v = selected_user r \<and> P r"
proof -
  define found where "found cur = take (limit + 1) (sort_key (user_key (us_collation svc)) (filter (\<lambda>u. P u \<and> after_user (us_collation svc) cur u) (users d)))" for cur
  obtain cur where "page_of limit (user_next_cursor (us_codec svc)) (map selected_user (found cur)) = (rows, c, h)"
    using assms(1) unfolding user_page_def found_def [symmetric] by (auto simp: result_simps ent_all_def split: if_splits)
  from subsetD [OF page_of_set [OF this] assms(2)] have "v \<in> selected_user ` set (found cur)" by simp
  moreover have "set (found cur) \<subseteq> {u \<in> set (users d). P u}" by (auto simp: found_def simp del: take_Suc_Cons dest!: in_set_takeD)
  ultimately show ?thesis by blast
qed

lemma SearchUsers_findable:
  assumes "SearchUsers svc e valid d me req = Inr (us, c, h)" and "u \<in> set us"
  shows "\<exists>r\<in>set (users d). u_id r = ud_id u \<and> findable e d me (sq_exclude_chat_id req) r"
proof -
  obtain rows where rows: "RepoSearchUsers svc e d me (sq_query req) (sq_cursor req) (if sq_limit req = 0 then 10 else sq_limit req) (sq_exclude_chat_id req) =
      Inr (rows, c, h)" and ids: "map ud_id us = map u_id rows"
    using assms(1) by (auto simp: SearchUsers_def Let_def result_simps found_dto_def zero_user_dto_def)
  have "ud_id u \<in> u_id ` set rows" using ids assms(2) by (metis image_eqI list.set_map)
  moreover have "\<exists>r\<in>set (users d). u_id r = u_id v \<and> findable e d me (sq_exclude_chat_id req) r" if "v \<in> set rows" for v
    using user_page_set [OF rows [unfolded RepoSearchUsers_def Let_def] that] by (auto simp: selected_user_def)
  ultimately show ?thesis by auto
qed

text \<open>
  C18. After one user has blocked another, and whatever happens until the block is taken back (by \<open>UnblockUser\<close> of this
  pair, or when the row of a deleted user is removed), neither of the two can send a message in their private chat or open one,
  and neither finds the other in the search, whichever of them asks: the handlers refuse, and the lists do not show him.
\<close>

theorem block_silences_both:
  assumes "BlockUser svc e d a b = Inr (evs, d1)" and "a \<in> u_id ` set (users d)" and "(unlifted_step a b)\<^sup>*\<^sup>* d1 d'" and "{x, y} = {a, b}"
    and "distinct (map c_id (chats d'))"
  shows "(\<forall>c\<in>set (chats d'). c_id c = sr_chat_id req \<and> c_type c = TypePrivate \<and>
        (\<forall>pc\<in>set (private_chats d'). pc_chat_id pc = c_id c \<longrightarrow> pair_matches a b pc) \<longrightarrow> (\<forall>out. SendMessage msvc e' valid d' x req \<noteq> Inr out)) \<and> (\<forall>out. CreatePrivateChat csvc e' valid' d' d'' x y \<noteq> Inr out) \<and>
    (\<forall>us cur more. SearchUsers usvc e' valid'' d' x sreq = Inr (us, cur, more) \<longrightarrow> y \<notin> ud_id ` set us)"
proof (intro conjI ballI allI notI impI)
  have "(a, b) \<in> block_set d1" using BlockUser_in_set [OF assms(1,2)] .
  then have "(a, b) \<in> block_set d'" by (rule block_lasts [OF assms(3)])
  then have bxy: "blocked_between d' x y" using assms(4) by (auto simp: blocked_between_block_set doubleton_eq_iff)
  have ab: "a \<noteq> b" by (rule BlockUser_Inr [OF assms(1)])
  then have ne: "x \<noteq> y" using assms(4) by auto
  show False if c: "c \<in> set (chats d')" and pcs: "c_id c = sr_chat_id req \<and> c_type c = TypePrivate \<and>
      (\<forall>pc\<in>set (private_chats d'). pc_chat_id pc = c_id c \<longrightarrow> pair_matches a b pc)"
    and sent: "SendMessage msvc e' valid d' x req = Inr out" for c out
  proof -
    obtain resp d2 where o: "out = (resp, d2)" by (cases out)
    obtain c' where "c' \<in> set (chats d')" "c_id c' = sr_chat_id req" and may: "may_send d' (now e') x c'"
      by (rule SendMessage_Inr [OF sent [unfolded o]])
    then have "c' = c" using distinct_key_eq [OF assms(5)] c pcs by metis
    then obtain pc other where pc: "pc \<in> set (private_chats d')" "pc_chat_id pc = c_id c" "other_side pc x = Some (Some other)" "\<not> blocked_between d' x other"
      using may pcs by (auto simp: may_send_def)
    have "other = y"
      using pc(3) assms(4) pcs pc(1,2) ne by (auto simp: pair_matches_def other_side_def doubleton_eq_iff split: if_splits)
    with pc(4) bxy show False by simp
  qed
  show False if opened: "CreatePrivateChat csvc e' valid' d' d'' x y = Inr out" for out
  proof -
    obtain p where "create_private_checks e' d' x y = Inr p" using opened by (auto simp: CreatePrivateChat_def result_simps)
    then have "\<not> blocked_between d' x y"
      by (auto simp: create_private_checks_def result_simps blocked_between_def filter_empty_conv split: option.splits)
    with bxy show False by simp
  qed
  show False if "SearchUsers usvc e' valid'' d' x sreq = Inr (us, cur, more)" "y \<in> ud_id ` set us" for us cur more
    using SearchUsers_findable [OF that(1)] that(2) bxy by (fastforce simp: findable_def)
qed

definition sample_blocked_db :: db where
  "sample_blocked_db = sample_db\<lparr>user_blocks := [new_block (sample_env 5 90) 1 2]\<rparr>"

definition sample_hello :: send_request where
  "sample_hello = \<lparr>sr_chat_id = 10, sr_content = ''hi'', sr_attachment_ids = [], sr_reply_to_id = None\<rparr>"

definition sample_search :: search_request where
  "sample_search = \<lparr>sq_query = [], sq_cursor = [], sq_limit = 1, sq_include_chat_id = False, sq_exclude_chat_id = None\<rparr>"

lemma sample_block: "\<exists>evs. BlockUser sample_users (sample_env 5 90) sample_db 1 2 = Inr (evs, sample_blocked_db)"
  by (simp add: BlockUser_def insert_block_def sample_blocked_db_def new_block_def sample_db_def empty_db_def ent_exist_def)

text \<open>After Ann has blocked Bob, Bob unblocks Ann, whom he never blocked: he still cannot write, open a chat or find her.\<close>

theorem block_silences_both_witness:
  "\<exists>evs evs'. BlockUser sample_users (sample_env 5 90) sample_db 1 2 = Inr (evs, sample_blocked_db) \<and>
   UnblockUser sample_users (sample_env 7 92) sample_blocked_db 2 1 = Inr (evs', sample_blocked_db) \<and>
   (\<forall>out. SendMessage \<lparr>svc_urls = us_urls sample_users, svc_hub = True, svc_random = (\<lambda>_. None)\<rparr> (sample_env 9 95) (\<lambda>_. True) sample_blocked_db 2 sample_hello \<noteq> Inr out) \<and>
   (\<forall>out. CreatePrivateChat sample_chats (sample_env 9 95) (\<lambda>_. True) sample_blocked_db sample_blocked_db 2 1 \<noteq> Inr out) \<and>
   1 \<notin> ud_id ` set (fst (projr (SearchUsers sample_users (sample_env 9 95) (\<lambda>_. True) sample_blocked_db 2 sample_search)))"
proof -
  obtain evs where block: "BlockUser sample_users (sample_env 5 90) sample_db 1 2 = Inr (evs, sample_blocked_db)" using sample_block by blast
  obtain evs' where lift: "UnblockUser sample_users (sample_env 7 92) sample_blocked_db 2 1 = Inr (evs', sample_blocked_db)"
    by (simp add: UnblockUser_def sample_blocked_db_def new_block_def)
  have run: "(unlifted_step 1 2)\<^sup>*\<^sup>* sample_blocked_db sample_blocked_db" by (rule r_into_rtranclp) (rule unlifted_step.unblock [OF lift], simp)
  have found: "\<exists>us c h. SearchUsers sample_users (sample_env 9 95) (\<lambda>_. True) sample_blocked_db 2 sample_search = Inr (us, c, h)"
    by (auto simp: SearchUsers_def RepoSearchUsers_def user_page_def user_cursor_def sample_search_def Let_def ent_all_def page_of_def)
  let ?msvc = "\<lparr>svc_urls = us_urls sample_users, svc_hub = True, svc_random = (\<lambda>_. None)\<rparr>"
  have silent: "(\<forall>c\<in>set (chats sample_blocked_db). c_id c = sr_chat_id sample_hello \<and> c_type c = TypePrivate \<and>
      (\<forall>pc\<in>set (private_chats sample_blocked_db). pc_chat_id pc = c_id c \<longrightarrow> pair_matches 1 2 pc) \<longrightarrow>
      (\<forall>out. SendMessage ?msvc (sample_env 9 95) (\<lambda>_. True) sample_blocked_db 2 sample_hello \<noteq> Inr out)) \<and>
   (\<forall>out. CreatePrivateChat sample_chats (sample_env 9 95) (\<lambda>_. True) sample_blocked_db sample_blocked_db 2 1 \<noteq> Inr out) \<and>
   (\<forall>us cur more. SearchUsers sample_users (sample_env 9 95) (\<lambda>_. True) sample_blocked_db 2 sample_search = Inr (us, cur, more) \<longrightarrow> 1 \<notin> ud_id ` set us)"
    using block _ run
    by (rule block_silences_both) (auto simp: sample_blocked_db_def sample_db_def empty_db_def sample_chat_def)
  moreover have "sample_chat 10 TypePrivate \<in> set (chats sample_blocked_db)" "c_id (sample_chat 10 TypePrivate) = sr_chat_id sample_hello"
    "c_type (sample_chat 10 TypePrivate) = TypePrivate" "\<forall>pc\<in>set (private_chats sample_blocked_db). pair_matches 1 2 pc"
    by (simp_all add: sample_blocked_db_def sample_db_def empty_db_def sample_hello_def sample_chat_def sample_private_def pair_matches_def)
  ultimately have "\<forall>out. SendMessage ?msvc (sample_env 9 95) (\<lambda>_. True) sample_blocked_db 2 sample_hello \<noteq> Inr out" by blast
  moreover have "1 \<notin> ud_id ` set (fst (projr (SearchUsers sample_users (sample_env 9 95) (\<lambda>_. True) sample_blocked_db 2 sample_search)))"
    using silent found by fastforce
  ultimately show ?thesis using block lift silent by blast
qed

section \<open>Profiles\<close>

text \<open>The profile of a user who is banned, or whom the reader has blocked or is blocked by, shows neither whether he is online nor
  when he was last seen: it is the same whatever the two are.
\<close>

theorem profile_hides_presence:
  assumes "blocked_between d me (u_id u) \<or> profile_banned (now e) u" and "users d = us @ u # vs" and "u_id u \<notin> u_id ` (set us \<union> set vs)"
  shows "GetUserProfile (svc\<lparr>us_online := online\<rparr>) e (d\<lparr>users := us @ (u\<lparr>u_last_seen_at := ls\<rparr>) # vs\<rparr>) me (u_id u) = GetUserProfile svc e d me (u_id u)"
proof -
  let ?u = "u\<lparr>u_last_seen_at := ls\<rparr>" and ?d = "d\<lparr>users := us @ (u\<lparr>u_last_seen_at := ls\<rparr>) # vs\<rparr>"
  define bs where "bs = filter (\<lambda>b. ub_blocker_id b = me \<and> ub_blocked_id b = u_id u \<or> ub_blocker_id b = u_id u \<and> ub_blocked_id b = me) (user_blocks d)"
  have others: "filter (\<lambda>v. u_id v = u_id u \<and> u_deleted_at v = None) us = []" "filter (\<lambda>v. u_id v = u_id u \<and> u_deleted_at v = None) vs = []"
    using assms(3) by (auto simp: filter_empty_conv image_iff dest!: bspec)
  have found: "find_live_user e site d (u_id u) nf = (if fault e site then Inl internal_error else if u_deleted_at u = None then Inr u else Inl (NewNotFoundError nf))"
      "find_live_user e site ?d (u_id u) nf = (if fault e site then Inl internal_error else if u_deleted_at u = None then Inr ?u else Inl (NewNotFoundError nf))" for site nf
    using others by (simp_all add: find_live_user_def ent_only_def assms(2))
  have ban: "profile_banned (now e) ?u = profile_banned (now e) u" by (simp add: profile_banned_def)
  have "media_of ?d = media_of d" by (simp add: media_of_def fun_eq_iff)
  then have av: "user_avatar_url (svc\<lparr>us_online := online\<rparr>) ?d ?u = user_avatar_url svc d u" by (simp add: user_avatar_url_def)
  have hid: "((\<exists>b\<in>set bs. ub_blocker_id b = me) \<or> (\<exists>b\<in>set bs. ub_blocker_id b = u_id u) \<or> profile_banned (now e) u) = True"
    using assms(1) by (auto simp: blocked_between_def bs_def)
  have bd: "filter (\<lambda>b. ub_blocker_id b = me \<and> ub_blocked_id b = u_id u \<or> ub_blocker_id b = u_id u \<and> ub_blocked_id b = me) (user_blocks ?d) = bs"
    by (simp add: bs_def)
  show ?thesis
  proof (cases "fault e ''check block status'' \<or> fault e ''query user profile'' \<or> u_deleted_at u \<noteq> None")
    case True
    then show ?thesis unfolding GetUserProfile_def bd bs_def [symmetric] found by (auto simp: ent_all_def Let_def)
  next
    case False
    then have "ent_all (fault e ''check block status'') bs = Inr bs" "find_live_user e ''query user profile'' d (u_id u) ''User not found'' = Inr u"
      "find_live_user e ''query user profile'' ?d (u_id u) ''User not found'' = Inr ?u"
      by (simp_all add: ent_all_def found)
    then show ?thesis unfolding GetUserProfile_def bd bs_def [symmetric]
      by (simp only: on_err_simps and_then_simps Let_def ban av hid) simp
  qed
qed

theorem profile_hides_presence_witness:
  "GetUserProfile (sample_users\<lparr>us_online := (\<lambda>_. False)\<rparr>) (sample_env 9 95)
     (sample_blocked_db\<lparr>users := [sample_user 1 ''Ann''] @ ((sample_user 2 ''Bob'')\<lparr>u_last_seen_at := Some 7\<rparr>) # []\<rparr>) 1 (u_id (sample_user 2 ''Bob'')) =
   GetUserProfile sample_users (sample_env 9 95) sample_blocked_db 1 (u_id (sample_user 2 ''Bob''))"
  by (rule profile_hides_presence)
    (simp_all add: sample_blocked_db_def sample_db_def empty_db_def blocked_between_def new_block_def)

section \<open>The search\<close>

text \<open>Every user who can be found has a name that the delimiter of the cursors does not occur in, and names differ in the order of the database.\<close>

definition names_ok :: "user_service \<Rightarrow> user list \<Rightarrow> bool" where
  "names_ok svc us \<longleftrightarrow> uuid_text (us_codec svc) \<and> (\<forall>i. \<not> sublist ''|||'' (UuidString (us_codec svc) i)) \<and> inj (name_rank (us_collation svc)) \<and>
     (\<forall>u\<in>set us. \<exists>n. u_full_name u = Some n \<and> \<not> sublist ''|||'' (n @ ''||''))"

definition user_mark :: "user_service \<Rightarrow> string \<Rightarrow> ((nat \<times> nat) \<times> uuid) option option" where
  "user_mark svc cursor = (case user_cursor (us_codec svc) cursor of Inl _ \<Rightarrow> None | Inr cur \<Rightarrow>
     Some (map_option (\<lambda>(n, i). ((0, name_rank (us_collation svc) n), i)) cur))"

lemma user_mark_next:
  assumes "names_ok svc us" and "u \<in> set us"
  shows "user_mark svc (user_next_cursor (us_codec svc) u) = Some (Some (user_key (us_collation svc) u))"
proof -
  obtain n where n: "u_full_name u = Some n" "\<not> sublist ''|||'' (n @ ''||'')" using assms by (auto simp: names_ok_def)
  have "Split (n @ ''|||'' @ UuidString (us_codec svc) (u_id u)) ''|||'' = [n, UuidString (us_codec svc) (u_id u)]"
    using n(2) assms(1) by (intro Split_once) (simp_all add: names_ok_def)
  then have "DecodeCursor (user_next_cursor (us_codec svc) u) ''|||'' = Inr (n, UuidString (us_codec svc) (u_id u))"
    using n(1) by (simp add: DecodeCursor_def user_next_cursor_def EncodeCursor_def b64_decode_encode text_or_empty_def)
  moreover have "user_next_cursor (us_codec svc) u \<noteq> []" by (simp add: user_next_cursor_def EncodeCursor_def b64_encode_Nil)
  moreover have "UuidParse (us_codec svc) (UuidString (us_codec svc) (u_id u)) = Some (u_id u)" using assms(1) by (simp add: names_ok_def uuid_text_def)
  ultimately show ?thesis using n(1) by (simp add: user_mark_def user_cursor_def user_key_def)
qed

lemma after_user_key:
  assumes "names_ok svc us" and "u \<in> set us" and "user_cursor (us_codec svc) cursor = Inr cur"
  shows "after_user (us_collation svc) cur u \<longleftrightarrow>
    (case map_option (\<lambda>(n, i). ((0 :: nat, name_rank (us_collation svc) n), i)) cur of None \<Rightarrow> True | Some k \<Rightarrow> k < user_key (us_collation svc) u)"
proof -
  obtain n where n: "u_full_name u = Some n" using assms by (auto simp: names_ok_def)
  have inj: "name_rank (us_collation svc) n' = name_rank (us_collation svc) n \<longleftrightarrow> n' = n" for n'
    using assms(1) by (auto simp: names_ok_def inj_def)
  show ?thesis
  proof (cases cur)
    case (Some p)
    then show ?thesis using n inj [of "fst p"] by (cases p) (auto simp: after_user_def user_key_def le_less)
  qed (simp add: after_user_def)
qed

lemma selected_user_key [simp]: "user_next_cursor codec (selected_user u) = user_next_cursor codec u" "u_id (selected_user u) = u_id u"
  by (simp_all add: user_next_cursor_def selected_user_def)

lemma user_page_rows:
  assumes "names_ok svc (filter P (users d))" and "user_mark svc cursor = Some cur" and "\<not> broken" and "0 < limit"
  shows "user_page svc broken d P cursor limit = Inr (case page_of limit (user_next_cursor (us_codec svc))
      (take (limit + 1) (keyset_above (user_key (us_collation svc)) cur (filter P (users d)))) of (p, c, h) \<Rightarrow> (map selected_user p, c, h))"
proof -
  obtain cur0 where c: "user_cursor (us_codec svc) cursor = Inr cur0" "cur = map_option (\<lambda>(n, i). ((0, name_rank (us_collation svc) n), i)) cur0"
    using assms(2) by (auto simp: user_mark_def split: sum.splits)
  have "filter (\<lambda>u. P u \<and> after_user (us_collation svc) cur0 u) (users d) =
      filter (\<lambda>r. case cur of None \<Rightarrow> True | Some k \<Rightarrow> k < user_key (us_collation svc) r) (filter P (users d))"
    unfolding filter_filter by (intro filter_cong refl) (use after_user_key [OF assms(1) _ c(1)] c(2) in auto)
  then show ?thesis
    using c(1) assms(3,4) by (simp add: user_page_def ent_all_def keyset_above_def page_of_map [where mk' = "user_next_cursor (us_codec svc)"] del: take_Suc_Cons)
qed

type_synonym user_reader = "user_service \<times> env \<times> (search_request \<Rightarrow> bool) \<times> db \<times> uuid \<times> search_request"

definition found_users :: "user_reader \<Rightarrow> user list" where
  "found_users = (\<lambda>(svc, e, valid, d, me, req). filter (\<lambda>u. findable e d me (sq_exclude_chat_id req) u \<and>
     (name_matches svc (TrimSpace (sq_query req)) u \<or> email_matches svc (TrimSpace (sq_query req)) u)) (users d))"

definition search_ids :: "user_reader \<Rightarrow> string \<Rightarrow> app_error + (uuid list \<times> string \<times> bool)" where
  "search_ids = (\<lambda>(svc, e, valid, d, me, req) cursor.
     and_then (SearchUsers svc e valid d me (req\<lparr>sq_cursor := cursor\<rparr>)) (\<lambda>(us, c, h). Inr (map ud_id us, c, h)))"

definition search_good :: "user_reader \<Rightarrow> bool" where
  "search_good = (\<lambda>(svc, e, valid, d, me, req).
     \<not> fault e ''search users'' \<and> (\<forall>cs. valid (req\<lparr>sq_cursor := cs\<rparr>)) \<and> 0 < sq_limit req \<and> distinct (map u_id (users d)) \<and>
     names_ok svc (found_users (svc, e, valid, d, me, req)))"

lemma search_ids_page:
  assumes "search_good (svc, e, valid, d, me, req)" and "user_mark svc cursor = Some cur"
  shows "search_ids (svc, e, valid, d, me, req) cursor = Inr (case page_of (sq_limit req) (user_next_cursor (us_codec svc))
     (take (sq_limit req + 1) (keyset_above (user_key (us_collation svc)) cur (found_users (svc, e, valid, d, me, req)))) of (p, nc, h) \<Rightarrow> (map u_id p, nc, h))"
proof -
  note g = assms(1) [unfolded search_good_def prod.case]
  let ?P = "\<lambda>u. findable e d me (sq_exclude_chat_id req) u \<and> (name_matches svc (TrimSpace (sq_query req)) u \<or> email_matches svc (TrimSpace (sq_query req)) u)"
  have F: "found_users (svc, e, valid, d, me, req) = filter ?P (users d)" by (simp add: found_users_def)
  have names: "names_ok svc (filter ?P (users d))" using g F by metis
  obtain p nc h where page: "page_of (sq_limit req) (user_next_cursor (us_codec svc))
      (take (sq_limit req + 1) (keyset_above (user_key (us_collation svc)) cur (filter ?P (users d)))) = (p, nc, h)" by (metis prod.exhaust)
  have "RepoSearchUsers svc e d me (sq_query req) cursor (sq_limit req) (sq_exclude_chat_id req) = Inr (map selected_user p, nc, h)"
    unfolding RepoSearchUsers_def Let_def user_page_rows [OF names assms(2) conjunct1 [OF g] conjunct1 [OF conjunct2 [OF conjunct2 [OF g]]]] page by simp
  then show ?thesis using g page by (simp add: F search_ids_def SearchUsers_def Let_def found_dto_def comp_def zero_user_dto_def del: take_Suc_Cons)
qed

interpretation user_search: keyset_search search_ids found_users "\<lambda>cfg. user_key (us_collation (fst cfg))" "\<lambda>cfg. user_next_cursor (us_codec (fst cfg))"
  "\<lambda>cfg. user_mark (fst cfg)" "\<lambda>(svc, e, valid, d, me, req). sq_limit req" u_id search_good
proof
  fix cfg :: user_reader and cursor cur u
  show "user_mark (fst cfg) [] = Some None" by (simp add: user_mark_def user_cursor_def)
  assume good: "search_good cfg"
  obtain svc e valid d me req where cfg: "cfg = (svc, e, valid, d, me, req)" by (metis prod.exhaust)
  note g = good [unfolded cfg search_good_def prod.case]
  have "distinct (map u_id (found_users cfg))" using g by (simp add: cfg found_users_def distinct_map_filter)
  then show "distinct (map (user_key (us_collation (fst cfg))) (found_users cfg))"
    by (auto simp: distinct_map inj_on_def user_key_def split: option.splits)
  show "0 < (case cfg of (svc, e, valid, d, me, req) \<Rightarrow> sq_limit req)" using g by (simp add: cfg)
  show "user_mark (fst cfg) (user_next_cursor (us_codec (fst cfg)) u) = Some (Some (user_key (us_collation (fst cfg)) u))" if "u \<in> set (found_users cfg)"
    using g that user_mark_next by (auto simp: cfg)
  show "search_ids cfg cursor = Inr (case page_of (case cfg of (svc, e, valid, d, me, req) \<Rightarrow> sq_limit req) (user_next_cursor (us_codec (fst cfg)))
      (take ((case cfg of (svc, e, valid, d, me, req) \<Rightarrow> sq_limit req) + 1) (keyset_above (user_key (us_collation (fst cfg))) cur (found_users cfg))) of
      (p, nc, h) \<Rightarrow> (map u_id p, nc, h))" if "user_mark (fst cfg) cursor = Some cur"
    using search_ids_page good that by (simp add: cfg del: take_Suc_Cons)
qed

text \<open>Following the cursors of \<open>SearchUsers\<close> lists every user who can be found and matches, once and in the order of the names: users other than the
  reader, neither deleted nor banned, and with no block between the two.
\<close>

theorem user_search_visits_all:
  assumes "\<not> fault e ''search users''" and "\<forall>cs. valid (req\<lparr>sq_cursor := cs\<rparr>)" and "0 < sq_limit req" and "distinct (map u_id (users d))"
    and "names_ok svc (found_users (svc, e, valid, d, me, req))" and "length (users d) < fuel"
  shows "walk fuel (search_ids (svc, e, valid, d, me, req)) [] =
     Some (map u_id (sort_key (user_key (us_collation svc)) (found_users (svc, e, valid, d, me, req))))"
proof -
  have "length (found_users (svc, e, valid, d, me, req)) < fuel"
    using assms(6) le_less_trans [OF length_filter_le] by (simp add: found_users_def)
  then show ?thesis using user_search.visits_all [of "(svc, e, valid, d, me, req)" fuel] assms(1-5) by (simp add: search_good_def)
qed

lemma sample_names: "names_ok sample_users [sample_user 2 ''Bob'']"
proof -
  have "\<not> sublist ''|||'' (UuidString unary_codec k)" for k
    using set_mono_sublist [of "''|||''" "UuidString unary_codec k"] by (auto simp: unary_codec_def)
  moreover have "\<not> sublist ''|||'' (''Bob'' @ ''||'')" by code_simp
  ultimately show ?thesis by (simp add: names_ok_def sample_users_def unary_codec_text inj_byte_rank sample_user_def del: append.simps)
qed

theorem user_search_visits_all_witness:
  "walk 3 (search_ids (sample_users, sample_env 9 95, (\<lambda>_. True), sample_db, 1, sample_search)) [] =
     Some (map u_id (sort_key (user_key (us_collation sample_users)) (found_users (sample_users, sample_env 9 95, (\<lambda>_. True), sample_db, 1, sample_search))))"
proof (rule user_search_visits_all)
  have trim: "TrimSpace [] = []" by (simp add: TrimSpace_no_space no_space_def is_ascii_def)
  have "found_users (sample_users, sample_env 9 95, (\<lambda>_. True), sample_db, 1, sample_search) = [sample_user 2 ''Bob'']"
    by (simp add: found_users_def findable_def sample_db_def empty_db_def sample_search_def trim name_matches_def has_lower_prefix_def sample_user_def
        blocked_between_def ToLower_def is_ascii_def)
  then show "names_ok sample_users (found_users (sample_users, sample_env 9 95, (\<lambda>_. True), sample_db, 1, sample_search))"
    using sample_names by simp
qed (simp_all add: sample_search_def sample_db_def empty_db_def)

text \<open>A cursor that decodes to a name and a text that is not an identifier is the client's mistake, but the search answers it with an
  internal server error: the handler looks for a text that only the other error has.
\<close>

theorem bad_cursor_id_is_server_error:
  assumes "valid req" and "sq_cursor req \<noteq> []" and "DecodeCursor (sq_cursor req) ''|||'' = Inr (n, i)" and "UuidParse (us_codec svc) i = None"
  shows "SearchUsers svc e valid d me req = Inl (NewInternalServerError [])"
  using assms by (simp add: SearchUsers_def RepoSearchUsers_def user_page_def user_cursor_def search_failed_def Let_def)

theorem bad_cursor_id_is_server_error_witness:
  "SearchUsers (sample_users\<lparr>us_codec := unary_codec\<lparr>UuidParse := (\<lambda>_. None)\<rparr>\<rparr>) (sample_env 9 95) (\<lambda>_. True) sample_db 1
     (sample_search\<lparr>sq_cursor := EncodeCursor ''Bob'' ''x'' ''|||''\<rparr>) = Inl (NewInternalServerError [])"
proof (rule bad_cursor_id_is_server_error)
  show "DecodeCursor (sq_cursor (sample_search\<lparr>sq_cursor := EncodeCursor ''Bob'' ''x'' ''|||''\<rparr>)) ''|||'' = Inr (''Bob'', ''x'')" by code_simp
  show "sq_cursor (sample_search\<lparr>sq_cursor := EncodeCursor ''Bob'' ''x'' ''|||''\<rparr>) \<noteq> []" by code_simp
qed simp_all

end
