(* ===== verification/Report_Service.thy ===== *)
theory Report_Service
  imports Message_Service Text_Helpers
begin

text \<open>
  \<^verbatim>\<open>src/internal/api/application/admin/report_service.go\<close>: a report keeps a snapshot of what is reported, and links the media
  that is evidence. In the snapshot an identifier rendered as text is kept as that identifier; a missing one is the empty text.
\<close>

record report_service =
  rs_urls :: urlgen

record report_request =
  cr_target_type :: string
  cr_reason :: string
  cr_description :: string
  cr_message_id :: "uuid option"
  cr_chat_id :: "uuid option"
  cr_target_user_id :: "uuid option"

text \<open>What a branch of the switch finds: the evidence, the media to protect and the target.\<close>

record report_subject =
  sj_evidence :: json_object
  sj_media :: "uuid list"
  sj_message_id :: "uuid option"
  sj_chat_id :: "uuid option"
  sj_user_id :: "uuid option"

definition or_not_found :: "string \<Rightarrow> ent_error \<Rightarrow> app_error" where
  "or_not_found msg er = (if er = NotFoundError then NewNotFoundError msg else internal_error)"

definition json_of_uuid :: "uuid option \<Rightarrow> json" where
  "json_of_uuid x = (case x of None \<Rightarrow> JNull | Some i \<Rightarrow> JUuid i)"

definition text_of :: "string option \<Rightarrow> string" where
  "text_of x = (case x of None \<Rightarrow> [] | Some s \<Rightarrow> s)"

section \<open>The three kinds of report\<close>

definition attachment_json :: "report_service \<Rightarrow> media \<Rightarrow> json" where
  "attachment_json svc m = JObj [(''id'', JUuid (md_id m)), (''file_name'', JStr (md_file_name m)), (''original_name'', JStr (md_original_name m)),
     (''file_size'', JInt (md_file_size m)), (''mime_type'', JStr (md_mime_type m)), (''url'', JStr (GetPublicURL (rs_urls svc) (md_file_name m)))]"

definition is_group_member :: "env \<Rightarrow> db \<Rightarrow> uuid \<Rightarrow> uuid \<Rightarrow> app_error + bool" where
  "is_group_member e d groupID userID =
     on_err (ent_exist (fault e ''check group membership'') (filter (\<lambda>m. gm_group_chat_id m = groupID \<and> gm_user_id m = userID) (group_members d)))
       (\<lambda>_. internal_error)"

text \<open>The reporter takes part in the chat; for a group its identifier is part of the evidence.\<close>

definition report_access :: "env \<Rightarrow> db \<Rightarrow> uuid \<Rightarrow> chat \<Rightarrow> app_error + uuid option" where
  "report_access e d reporterID c =
     (case c_type c of
        TypePrivate \<Rightarrow>
          (case private_of d (c_id c) of
             None \<Rightarrow> Inl internal_error
           | Some pc \<Rightarrow>
               if pc_user1_id pc \<noteq> Some reporterID \<and> pc_user2_id pc \<noteq> Some reporterID
               then Inl (NewForbiddenError ''You cannot report a message from a chat you are not part of'') else Inr None)
      | TypeGroup \<Rightarrow>
          (case group_of d (c_id c) of
             None \<Rightarrow> Inl internal_error
           | Some g \<Rightarrow>
               and_then (is_group_member e d (gc_id g) reporterID) (\<lambda>isMember.
               if \<not> isMember then Inl (NewForbiddenError ''You cannot report a message from a group you are not part of'') else Inr (Some (gc_id g)))))"

definition chat_type_text :: "chat_type \<Rightarrow> string" where
  "chat_type_text t = (case t of TypePrivate \<Rightarrow> ''private'' | TypeGroup \<Rightarrow> ''group'')"

definition report_message :: "report_service \<Rightarrow> env \<Rightarrow> db \<Rightarrow> uuid \<Rightarrow> uuid \<Rightarrow> app_error + report_subject" where
  "report_message svc e d reporterID messageID =
     and_then (on_err (ent_only (fault e ''query reported message'') (filter (\<lambda>m. m_id m = messageID) (messages d))) (or_not_found ''Message not found'')) (\<lambda>msg.
     let atts = take (MaxMessageAttachments + 1) (filter (\<lambda>m. md_message_id m = Some messageID) (medias d));
         sender = Option.bind (m_sender_id msg) (user_of d) in
     and_then (fail_if (m_sender_id msg = Some reporterID) (NewBadRequestError ''You cannot report your own message'')) (\<lambda>_.
     and_then (on_err (ent_only (fault e ''query chat info'') (filter (\<lambda>c. c_id c = m_chat_id msg) (chats d))) (\<lambda>_. internal_error)) (\<lambda>c.
     and_then (report_access e d reporterID c) (\<lambda>groupID.
     and_then (fail_if (length atts > MaxMessageAttachments) (NewBadRequestError ''Too many message attachments'')) (\<lambda>_.
       Inr \<lparr>sj_evidence = [(''content'', json_of_string (m_content msg)),
              (''sender_id'', case m_sender_id msg of None \<Rightarrow> JStr [] | Some i \<Rightarrow> JUuid i),
              (''sender_username'', JStr (case sender of None \<Rightarrow> [] | Some u \<Rightarrow> text_of (u_username u))),
              (''sender_name'', JStr (case sender of None \<Rightarrow> [] | Some u \<Rightarrow> text_of (u_full_name u))),
              (''sent_at'', json_of_time (Some (m_created_at msg))),
              (''attachments'', JList (map (attachment_json svc) atts)),
              (''is_edited'', JBool (m_edited_at msg \<noteq> None)), (''chat_id'', JUuid (m_chat_id msg)),
              (''chat_type'', JStr (chat_type_text (c_type c)))] @
              (case groupID of None \<Rightarrow> [] | Some g \<Rightarrow> [(''group_id'', JUuid g)]),
            sj_media = map md_id atts, sj_message_id = Some messageID, sj_chat_id = None, sj_user_id = None\<rparr>)))))"

definition avatar_evidence :: "report_service \<Rightarrow> media option \<Rightarrow> string \<times> uuid list" where
  "avatar_evidence svc m = (case m of None \<Rightarrow> ([], []) | Some a \<Rightarrow> (GetPublicURL (rs_urls svc) (md_file_name a), [md_id a]))"

definition report_group :: "report_service \<Rightarrow> env \<Rightarrow> db \<Rightarrow> uuid \<Rightarrow> uuid \<Rightarrow> app_error + report_subject" where
  "report_group svc e d reporterID chatID =
     and_then (on_err (ent_only (fault e ''query reported group'') (filter (\<lambda>g. gc_chat_id g = chatID) (group_chats d))) (or_not_found ''Group not found'')) (\<lambda>g.
     and_then (is_group_member e d (gc_id g) reporterID) (\<lambda>isMember.
     and_then (fail_if (\<not> isMember) (NewForbiddenError ''You must be a member of the group to report it'')) (\<lambda>_.
     let (url, protect) = avatar_evidence svc (Option.bind (gc_avatar_id g) (media_of d)) in
       Inr \<lparr>sj_evidence = [(''group_id'', JUuid (gc_id g)), (''chat_id'', JUuid (gc_chat_id g)), (''name'', JStr (gc_name g)),
              (''description'', json_of_string (gc_description g)), (''avatar'', JStr url), (''created_by'', json_of_uuid (gc_created_by g))],
            sj_media = protect, sj_message_id = None, sj_chat_id = Some chatID, sj_user_id = None\<rparr>)))"

definition report_user :: "report_service \<Rightarrow> env \<Rightarrow> db \<Rightarrow> uuid \<Rightarrow> uuid \<Rightarrow> app_error + report_subject" where
  "report_user svc e d reporterID targetID =
     and_then (fail_if (targetID = reporterID) (NewBadRequestError ''You cannot report yourself'')) (\<lambda>_.
     and_then (on_err (ent_only (fault e ''query reported user'') (filter (\<lambda>u. u_id u = targetID) (users d))) (or_not_found ''User not found'')) (\<lambda>u.
     let (url, protect) = avatar_evidence svc (Option.bind (u_avatar_id u) (media_of d)) in
       Inr \<lparr>sj_evidence = [(''user_id'', JUuid (u_id u)), (''username'', json_of_string (u_username u)), (''full_name'', json_of_string (u_full_name u)),
              (''bio'', json_of_string (u_bio u)), (''avatar'', JStr url)],
            sj_media = protect, sj_message_id = None, sj_chat_id = None, sj_user_id = Some targetID\<rparr>))"

definition report_branch :: "report_service \<Rightarrow> env \<Rightarrow> db \<Rightarrow> uuid \<Rightarrow> report_request \<Rightarrow> app_error + report_target \<times> report_subject" where
  "report_branch svc e d reporterID req =
     (if cr_target_type req = ''message'' then
        (case cr_message_id req of None \<Rightarrow> Inl (NewBadRequestError ''Message ID is required'')
         | Some i \<Rightarrow> and_then (report_message svc e d reporterID i) (\<lambda>sj. Inr (TargetTypeMessage, sj)))
      else if cr_target_type req = ''group'' then
        (case cr_chat_id req of None \<Rightarrow> Inl (NewBadRequestError ''Chat ID is required for group report'')
         | Some i \<Rightarrow> and_then (report_group svc e d reporterID i) (\<lambda>sj. Inr (TargetTypeGroup, sj)))
      else if cr_target_type req = ''user'' then
        (case cr_target_user_id req of None \<Rightarrow> Inl (NewBadRequestError ''Target User ID is required'')
         | Some i \<Rightarrow> and_then (report_user svc e d reporterID i) (\<lambda>sj. Inr (TargetTypeUser, sj)))
      else Inl internal_error)"

section \<open>CreateReport\<close>

text \<open>\<open>Save\<close>: the reason must not be empty, and the reporter must exist.\<close>

definition insert_report :: "env \<Rightarrow> db \<Rightarrow> report \<Rightarrow> uuid list \<Rightarrow> app_error + db" where
  "insert_report e d r evidence =
     (if fault e ''create report'' \<or> rt_reason r = [] \<or> \<not> (\<exists>u\<in>set (users d). rt_reporter_id r = Some (u_id u)) then Inl internal_error
      else Inr (d\<lparr>reports := reports d @ [r], report_evidence := report_evidence d @ map (\<lambda>m. (rt_id r, m)) evidence\<rparr>))"

definition report_group_id :: "env \<Rightarrow> db \<Rightarrow> uuid option \<Rightarrow> app_error + uuid option" where
  "report_group_id e d chatID =
     (case chatID of
        None \<Rightarrow> Inr None
      | Some c \<Rightarrow> and_then (on_err (ent_only (fault e ''resolve group chat'') (filter (\<lambda>g. gc_chat_id g = c) (group_chats d))) (\<lambda>_. internal_error))
                   (\<lambda>g. Inr (Some (gc_id g))))"

definition CreateReport :: "report_service \<Rightarrow> env \<Rightarrow> (report_request \<Rightarrow> bool) \<Rightarrow> db \<Rightarrow> uuid \<Rightarrow> report_request \<Rightarrow> app_error + db" where
  "CreateReport svc e valid d reporterID req =
     and_then (fail_if (\<not> valid req) (NewBadRequestError [])) (\<lambda>_.
     and_then (report_branch svc e d reporterID req) (\<lambda>(target, sj).
     and_then (report_group_id e d (sj_chat_id sj)) (\<lambda>groupID.
       insert_report e d
         \<lparr>rt_id = newid e 0, rt_target_type = target, rt_reason = TrimSpace (cr_reason req), rt_description = Some (TrimSpace (cr_description req)),
          rt_evidence_snapshot = Some (sj_evidence sj), rt_status = StatusPending, rt_reporter_id = Some reporterID,
          rt_message_id = sj_message_id sj, rt_group_id = groupID, rt_target_user_id = sj_user_id sj, rt_resolution_notes = None,
          rt_resolved_at = None, rt_resolved_by_id = None, rt_created_at = now e, rt_updated_at = now e\<rparr>
         (sj_media sj))))"

end
