(* ===== verification/Admin_Service.thy ===== *)
theory Admin_Service
  imports User_Service Report_Service Chat_Repository
begin

text \<open>
  \<^verbatim>\<open>src/internal/api/application/admin/admin_service.go\<close>: bans, reports and the administrator's views of users and groups. A ban ends the
  sessions of the user before it commits, as the handlers of \<open>Account_Service\<close> do. The search without case of the
  database (\<open>ContainsFold\<close>) is an argument of the service; presigning a URL may fail.
\<close>

record 's admin_service =
  ad_sessions :: "'s session_repository"
  ad_hub :: bool
  ad_publisher :: publisher
  ad_urls :: urlgen
  ad_presign :: "string \<Rightarrow> string option"
  ad_codec :: uuid_codec
  ad_lower :: "string \<Rightarrow> string"
  ad_collation :: collation
  ad_contains_fold :: "string option \<Rightarrow> string \<Rightarrow> bool"

definition EventUserBanned :: string where "EventUserBanned = ''user.banned''"
definition EventUserUnbanned :: string where "EventUserUnbanned = ''user.unbanned''"

datatype ban_payload = UserBanned uuid string | UserUnbanned uuid

definition find_target :: "env \<Rightarrow> db \<Rightarrow> uuid \<Rightarrow> app_error + user" where
  "find_target e d userID = on_err (ent_only (fault e ''query user'') (filter (\<lambda>u. u_id u = userID) (users d))) (or_not_found ''User not found'')"

section \<open>Bans\<close>

record ban_request =
  bq_target_user_id :: uuid
  bq_reason :: string
  bq_duration_hours :: int

definition hour :: duration where
  "hour = 3600000000000"

text \<open>\<open>time.Duration(req.DurationHours) * time.Hour\<close> is computed in 64 bits.\<close>

definition ban_until :: "time \<Rightarrow> int \<Rightarrow> time option" where
  "ban_until t hours = (if hours > 0 then Some (t + wrap64 (hours * hour)) else None)"

definition banned_user :: "string \<Rightarrow> time option \<Rightarrow> user \<Rightarrow> user" where
  "banned_user reason until u = u\<lparr>u_is_banned := True, u_ban_reason := Some reason, u_banned_until := until\<rparr>"

definition same_ban :: "string \<Rightarrow> time option \<Rightarrow> user \<Rightarrow> bool" where
  "same_ban reason until u \<longleftrightarrow> u_is_banned u \<and> u_ban_reason u = Some reason \<and> u_banned_until u = until"

definition BanUser :: "'s admin_service \<Rightarrow> env \<Rightarrow> (ban_request \<Rightarrow> bool) \<Rightarrow> string \<Rightarrow> db \<Rightarrow> 's \<Rightarrow> uuid \<Rightarrow> ban_request \<Rightarrow>
    (ban_payload publication list \<times> control list, 's) outcome" where
  "BanUser svc e valid nonce d s adminID req =
     (let reason = TrimSpace (bq_reason req); target = bq_target_user_id req; until = ban_until (now e) (bq_duration_hours req) in
      case and_then (fail_if (\<not> valid req) (NewBadRequestError [])) (\<lambda>_.
           and_then (find_target e d target) (\<lambda>u.
           and_then (fail_if (u_role u = RoleSiteAdmin) (NewForbiddenError ''Cannot ban another admin'')) (\<lambda>_. Inr u))) of
        Inl er \<Rightarrow> (Inl er, d, s)
      | Inr u \<Rightarrow>
          if same_ban reason until u then (Inr ([], []), d, s)
          else case and_then (begin_tx e) (\<lambda>_. update_user e ''ban user'' target (banned_user reason until) d) of
                 Inl er \<Rightarrow> (Inl er, d, s)
               | Inr d' \<Rightarrow>
                   (case commit_with_revoke (ad_sessions svc) e nonce target d d' s of
                      (Inl er, ds) \<Rightarrow> (Inl er, ds)
                    | (Inr _, ds) \<Rightarrow>
                        (Inr (if ad_hub svc
                              then let ev = \<lparr>le_type = EventUserBanned, le_payload = UserBanned target reason\<rparr> in
                                   (BroadcastToUser (ad_publisher svc) target ev @ BroadcastToContacts (ad_publisher svc) (fault e) d' target ev,
                                    DisconnectUser (ad_publisher svc) target)
                              else ([], [])), ds)))"

definition UnbanUser :: "'s admin_service \<Rightarrow> env \<Rightarrow> db \<Rightarrow> uuid \<Rightarrow> uuid \<Rightarrow> app_error + (ban_payload publication list \<times> db)" where
  "UnbanUser svc e d adminID targetUserID =
     and_then (find_target e d targetUserID) (\<lambda>u.
     if \<not> u_is_banned u then Inr ([], d)
     else and_then (update_user e ''unban user'' targetUserID (\<lambda>u. u\<lparr>u_is_banned := False, u_banned_until := None, u_ban_reason := None\<rparr>) d) (\<lambda>d'.
       let ev = \<lparr>le_type = EventUserUnbanned, le_payload = UserUnbanned targetUserID\<rparr> in
       Inr (if ad_hub svc
            then BroadcastToUser (ad_publisher svc) targetUserID ev @ BroadcastToContacts (ad_publisher svc) (fault e) d' targetUserID ev
            else [], d')))"

section \<open>Lists\<close>

text \<open>A cursor that does not decode is ignored.\<close>

definition id_cursor :: "uuid_codec \<Rightarrow> string \<Rightarrow> uuid option" where
  "id_cursor codec cursor = (if cursor = [] then None else Option.bind (b64_decode cursor) (UuidParse codec))"

definition id_next_cursor :: "uuid_codec \<Rightarrow> uuid \<Rightarrow> string" where
  "id_next_cursor codec i = b64_encode (UuidString codec i)"

record report_list_request =
  rl_query :: string
  rl_status :: string
  rl_limit :: nat
  rl_cursor :: string

definition status_text :: "report_status \<Rightarrow> string" where
  "status_text st = (case st of StatusPending \<Rightarrow> ''pending'' | StatusReviewed \<Rightarrow> ''reviewed'' | StatusResolved \<Rightarrow> ''resolved'' | StatusRejected \<Rightarrow> ''rejected'')"

definition target_text :: "report_target \<Rightarrow> string" where
  "target_text t = (case t of TargetTypeMessage \<Rightarrow> ''message'' | TargetTypeGroup \<Rightarrow> ''group'' | TargetTypeUser \<Rightarrow> ''user'')"

record report_list_response =
  rr_id :: uuid
  rr_target_type :: string
  rr_reason :: string
  rr_status :: string
  rr_reporter_name :: string
  rr_created_at :: stamp

definition report_matches :: "'s admin_service \<Rightarrow> db \<Rightarrow> string \<Rightarrow> report \<Rightarrow> bool" where
  "report_matches svc d q r \<longleftrightarrow> q = [] \<or> ad_contains_fold svc (Some (rt_reason r)) q \<or>
     (\<exists>u\<in>set (users d). rt_reporter_id r = Some (u_id u) \<and>
        (has_lower_prefix (ad_collation svc) (ad_lower svc) q (u_username u) \<or> has_lower_prefix (ad_collation svc) (ad_lower svc) q (u_full_name u)))"

definition reporter_name :: "db \<Rightarrow> report \<Rightarrow> string" where
  "reporter_name d r = (case Option.bind (rt_reporter_id r) (user_of d) of
     Some u \<Rightarrow> (case u_full_name u of Some n \<Rightarrow> n | None \<Rightarrow> ''Deleted User'') | None \<Rightarrow> ''Deleted User'')"

definition GetReports :: "'s admin_service \<Rightarrow> env \<Rightarrow> (report_list_request \<Rightarrow> bool) \<Rightarrow> db \<Rightarrow> report_list_request \<Rightarrow>
    app_error + (report_list_response list \<times> string \<times> bool)" where
  "GetReports svc e valid d req =
     and_then (fail_if (\<not> valid req) (NewBadRequestError [])) (\<lambda>_.
     let limit = (if rl_limit req = 0 then 20 else rl_limit req) in
     and_then (on_err (ent_all (fault e ''fetch reports'') (take (limit + 1) (keyset_below rt_id (id_cursor (ad_codec svc) (rl_cursor req))
         (filter (\<lambda>r. (rl_status req = [] \<or> status_text (rt_status r) = rl_status req) \<and> report_matches svc d (rl_query req) r) (reports d))))) (\<lambda>_. internal_error)) (\<lambda>rows.
     case page_of limit (\<lambda>r. id_next_cursor (ad_codec svc) (rt_id r)) rows of (page, nextCursor, hasNext) \<Rightarrow>
       Inr (map (\<lambda>r. \<lparr>rr_id = rt_id r, rr_target_type = target_text (rt_target_type r), rr_reason = rt_reason r, rr_status = status_text (rt_status r),
                     rr_reporter_name = reporter_name d r, rr_created_at = RFC3339 (rt_created_at r)\<rparr>) page, nextCursor, hasNext)))"

section \<open>One report\<close>

record report_detail =
  dt_id :: uuid
  dt_target_type :: string
  dt_target_id :: "uuid option"
  dt_target_is_deleted :: bool
  dt_target_is_banned :: bool
  dt_reason :: string
  dt_description :: "string option"
  dt_status :: string
  dt_reporter_id :: uuid
  dt_reporter_name :: string
  dt_reporter_avatar :: string
  dt_reporter_is_deleted :: bool
  dt_reporter_is_banned :: bool
  dt_evidence_snapshot :: "json_object option"
  dt_admin_notes :: "string option"
  dt_created_at :: stamp
  dt_updated_at :: stamp

definition find_report :: "env \<Rightarrow> db \<Rightarrow> uuid \<Rightarrow> string \<Rightarrow> app_error + report" where
  "find_report e d i failed = on_err (ent_only (fault e ''query report'') (filter (\<lambda>r. rt_id r = i) (reports d)))
     (\<lambda>er. if er = NotFoundError then NewNotFoundError ''Report not found'' else NewInternalServerError failed)"

fun json_put :: "string \<Rightarrow> json \<Rightarrow> json_object \<Rightarrow> json_object" where
  "json_put k v [] = [(k, v)]"
| "json_put k v ((k', v') # ob) = (if k' = k then (k, v) # ob else (k', v') # json_put k v ob)"

text \<open>An attachment that is neither a text nor an object is dropped. An empty slice of the refreshed list is rendered as null.\<close>

definition refresh_attachment :: "'s admin_service \<Rightarrow> json \<Rightarrow> json list" where
  "refresh_attachment svc att =
     (case att of
        JStr fileName \<Rightarrow> [JStr (case ad_presign svc fileName of Some url \<Rightarrow> url | None \<Rightarrow> fileName)]
      | JObj ob \<Rightarrow>
          [JObj (case Option.bind (map_of ob ''file_name'') json_string of
                   Some fileName \<Rightarrow> (case ad_presign svc fileName of Some url \<Rightarrow> json_put ''url'' (JStr url) ob | None \<Rightarrow> ob)
                 | None \<Rightarrow> ob)]
      | _ \<Rightarrow> [])"

definition refresh_evidence :: "'s admin_service \<Rightarrow> report \<Rightarrow> json_object option" where
  "refresh_evidence svc r =
     (case rt_evidence_snapshot r of
        Some ob \<Rightarrow>
          (case map_of ob ''attachments'' of
             Some (JList atts) \<Rightarrow>
               if rt_target_type r = TargetTypeMessage
               then let fresh = concat (map (refresh_attachment svc) atts) in
                    Some (json_put ''attachments'' (if fresh = [] then JNull else JList fresh) ob)
               else Some ob
           | _ \<Rightarrow> Some ob)
      | None \<Rightarrow> None)"

text \<open>Identifier, deletion and ban of the reported user, group or message; a failing query counts as a target that is gone.\<close>

definition report_target_state :: "env \<Rightarrow> db \<Rightarrow> report \<Rightarrow> uuid option \<times> bool \<times> bool" where
  "report_target_state e d r =
     (case rt_target_type r of
        TargetTypeUser \<Rightarrow>
          (case rt_target_user_id r of
             None \<Rightarrow> (None, True, False)
           | Some i \<Rightarrow> (case ent_only (fault e ''target user'') (filter (\<lambda>u. u_id u = i) (users d)) of
                 Inl _ \<Rightarrow> (Some i, True, False)
               | Inr u \<Rightarrow> (Some i, u_deleted_at u \<noteq> None, currently_banned (now e) u)))
      | TargetTypeGroup \<Rightarrow>
          (case rt_group_id r of
             None \<Rightarrow> (None, True, False)
           | Some i \<Rightarrow> (Some i, fault e ''target group'' \<or> \<not> (\<exists>g\<in>set (group_chats d). gc_id g = i \<and> chat_live d (gc_chat_id g)), False))
      | TargetTypeMessage \<Rightarrow>
          (case rt_message_id r of
             None \<Rightarrow> (None, True, False)
           | Some i \<Rightarrow> (case ent_only (fault e ''target message'') (filter (\<lambda>m. m_id m = i) (messages d)) of
                 Inl _ \<Rightarrow> (Some i, True, False)
               | Inr m \<Rightarrow> (Some i, m_deleted_at m \<noteq> None,
                           (case Option.bind (m_sender_id m) (user_of d) of None \<Rightarrow> False | Some u \<Rightarrow> currently_banned (now e) u)))))"

definition GetReportDetail :: "'s admin_service \<Rightarrow> env \<Rightarrow> db \<Rightarrow> uuid \<Rightarrow> app_error + report_detail" where
  "GetReportDetail svc e d reportID =
     and_then (find_report e d reportID []) (\<lambda>r.
     let reporter = Option.bind (rt_reporter_id r) (user_of d) in
     case report_target_state e d r of (targetID, targetIsDeleted, targetIsBanned) \<Rightarrow>
       Inr \<lparr>dt_id = rt_id r, dt_target_type = target_text (rt_target_type r), dt_target_id = targetID, dt_target_is_deleted = targetIsDeleted,
            dt_target_is_banned = targetIsBanned, dt_reason = rt_reason r, dt_description = rt_description r, dt_status = status_text (rt_status r),
            dt_reporter_id = (case rt_reporter_id r of None \<Rightarrow> uuid_Nil | Some i \<Rightarrow> i), dt_reporter_name = reporter_name d r,
            dt_reporter_avatar = (case reporter of None \<Rightarrow> [] | Some u \<Rightarrow> avatar_link (ad_urls svc) (Option.bind (u_avatar_id u) (media_of d))),
            dt_reporter_is_deleted = (case reporter of None \<Rightarrow> True | Some u \<Rightarrow> u_deleted_at u \<noteq> None),
            dt_reporter_is_banned = (case reporter of None \<Rightarrow> False | Some u \<Rightarrow> currently_banned (now e) u),
            dt_evidence_snapshot = refresh_evidence svc r, dt_admin_notes = rt_resolution_notes r,
            dt_created_at = RFC3339 (rt_created_at r), dt_updated_at = RFC3339 (rt_updated_at r)\<rparr>)"

section \<open>Resolving and deleting a report\<close>

record resolve_request =
  rq_status :: report_status
  rq_notes :: string

definition resolved_report :: "env \<Rightarrow> uuid \<Rightarrow> report_status \<Rightarrow> string \<Rightarrow> report \<Rightarrow> report" where
  "resolved_report e adminID st notes r = r\<lparr>rt_status := st, rt_resolved_by_id := Some adminID, rt_resolved_at := Some (now e),
     rt_resolution_notes := (if notes = [] then rt_resolution_notes r else Some notes), rt_updated_at := now e\<rparr>"

text \<open>Content and attachments of the message are cleared; a message that was deleted before keeps its instant.\<close>

definition censor_message :: "env \<Rightarrow> message \<Rightarrow> db \<Rightarrow> db" where
  "censor_message e msg d =
     d\<lparr>messages := update_where (\<lambda>m. m_id m = m_id msg)
          (\<lambda>m. m\<lparr>m_content := None, m_deleted_at := (if m_deleted_at msg = None then Some (now e) else m_deleted_at m)\<rparr>) (messages d),
       medias := update_where (\<lambda>m. md_message_id m = Some (m_id msg)) (\<lambda>m. m\<lparr>md_message_id := None\<rparr>) (medias d)\<rparr>"

definition remove_reported :: "env \<Rightarrow> db \<Rightarrow> uuid \<Rightarrow> uuid \<Rightarrow> app_error + db" where
  "remove_reported e d adminID messageID =
     (case ent_only (fault e ''query reported message'') (filter (\<lambda>m. m_id m = messageID) (messages d)) of
        Inl er \<Rightarrow> if er = NotFoundError then Inr d else Inl internal_error
      | Inr msg \<Rightarrow>
          and_then (fail_if (fault e ''delete reported message'') internal_error) (\<lambda>_.
          if m_deleted_at msg = None
          then on_err (PersistMessageOutbox e 0 (censor_message e msg d) msg EventMessageDelete adminID) (\<lambda>_. internal_error)
          else Inr (censor_message e msg d)))"

definition ResolveReport :: "env \<Rightarrow> (resolve_request \<Rightarrow> bool) \<Rightarrow> db \<Rightarrow> uuid \<Rightarrow> uuid \<Rightarrow> resolve_request \<Rightarrow> app_error + db" where
  "ResolveReport e valid d adminID reportID req =
     and_then (fail_if (\<not> valid req) (NewBadRequestError [])) (\<lambda>_.
     and_then (begin_tx e) (\<lambda>_.
     and_then (find_report e d reportID []) (\<lambda>r.
     if rt_status r = rq_status req then Inr d
     else
       and_then (fail_if (fault e ''update report'' \<or> \<not> (\<exists>u\<in>set (users d). u_id u = adminID)) internal_error) (\<lambda>_.
       let d' = d\<lparr>reports := update_where (\<lambda>x. rt_id x = reportID) (resolved_report e adminID (rq_status req) (TrimSpace (rq_notes req))) (reports d)\<rparr> in
       and_then (case rt_message_id r of
                   Some i \<Rightarrow> if rq_status req = StatusResolved \<and> rt_target_type r = TargetTypeMessage then remove_reported e d' adminID i else Inr d'
                 | None \<Rightarrow> Inr d') (\<lambda>d'.
       and_then (commit e) (\<lambda>_. Inr d'))))))"

text \<open>The links to evidence go with the report.\<close>

definition DeleteReport :: "env \<Rightarrow> db \<Rightarrow> uuid \<Rightarrow> app_error + db" where
  "DeleteReport e d reportID =
     and_then (find_report e d reportID ''Failed to delete report'') (\<lambda>r.
     and_then (fail_if (rt_status r \<noteq> StatusResolved \<and> rt_status r \<noteq> StatusRejected)
                (NewBadRequestError ''Cannot delete report that is not resolved or rejected'')) (\<lambda>_.
     and_then (fail_if (fault e ''delete report'') (NewInternalServerError ''Failed to delete report'')) (\<lambda>_.
       Inr (d\<lparr>reports := filter (\<lambda>x. rt_id x \<noteq> reportID) (reports d), report_evidence := filter (\<lambda>(x, m). x \<noteq> reportID) (report_evidence d)\<rparr>))))"

end
