(* ===== verification/Admin_Views.thy ===== *)
theory Admin_Views
  imports Admin_Service
begin

text \<open>
  The rest of \<^verbatim>\<open>src/internal/api/application/admin/admin_service.go\<close>: the numbers of the dashboard, the lists and details of users and
  groups, and the reset of a profile.
\<close>

record dashboard =
  TotalUsers :: nat
  TotalGroups :: nat
  TotalMessages :: nat
  ActiveReports :: nat

definition GetDashboardStats :: "env \<Rightarrow> db \<Rightarrow> app_error + dashboard" where
  "GetDashboardStats e d =
     (if fault e ''count users'' \<or> fault e ''count groups'' \<or> fault e ''count messages'' \<or> fault e ''count reports'' then Inl internal_error
      else Inr \<lparr>TotalUsers = length (users d), TotalGroups = length (group_chats d), TotalMessages = length (messages d),
                ActiveReports = length (filter (\<lambda>r. rt_status r = StatusPending) (reports d))\<rparr>)"

section \<open>Users\<close>

record user_list_request =
  ul_query :: string
  ul_role :: string
  ul_limit :: nat
  ul_cursor :: string

record admin_user =
  aw_id :: uuid
  aw_username :: string
  aw_email :: string
  aw_full_name :: string
  aw_role :: string
  aw_is_banned :: bool
  aw_created_at :: stamp

definition admin_user_row :: "time \<Rightarrow> user \<Rightarrow> admin_user" where
  "admin_user_row t u = \<lparr>aw_id = u_id u, aw_username = text_or_empty (u_username u), aw_email = text_or_empty (u_email u),
     aw_full_name = text_or_empty (u_full_name u), aw_role = user_role_text (u_role u), aw_is_banned = profile_banned t u,
     aw_created_at = RFC3339 (u_created_at u)\<rparr>"

definition user_listed :: "'s admin_service \<Rightarrow> user_list_request \<Rightarrow> user \<Rightarrow> bool" where
  "user_listed svc req u \<longleftrightarrow> u_deleted_at u = None \<and>
     (ul_query req = [] \<or> ad_contains_fold svc (u_username u) (ul_query req) \<or> ad_contains_fold svc (u_email u) (ul_query req) \<or>
        ad_contains_fold svc (u_full_name u) (ul_query req)) \<and>
     (ul_role req = [] \<or> user_role_text (u_role u) = ul_role req)"

definition GetUsers :: "'s admin_service \<Rightarrow> env \<Rightarrow> (user_list_request \<Rightarrow> bool) \<Rightarrow> db \<Rightarrow> user_list_request \<Rightarrow>
    app_error + (admin_user list \<times> string \<times> bool)" where
  "GetUsers svc e valid d req =
     and_then (fail_if (\<not> valid req) (NewBadRequestError [])) (\<lambda>_.
     let limit = (if ul_limit req = 0 then 20 else ul_limit req) in
     and_then (on_err (ent_all (fault e ''fetch users'') (take (limit + 1) (keyset_below u_id (id_cursor (ad_codec svc) (ul_cursor req))
         (filter (user_listed svc req) (users d))))) (\<lambda>_. internal_error)) (\<lambda>rows.
     case page_of limit (\<lambda>u. id_next_cursor (ad_codec svc) (u_id u)) rows of (page, nextCursor, hasNext) \<Rightarrow>
       Inr (map (admin_user_row (now e)) page, nextCursor, hasNext)))"

record admin_user_detail = admin_user +
  aw_bio :: string
  aw_avatar :: string
  aw_ban_reason :: "string option"
  aw_banned_until :: "stamp option"
  aw_last_seen_at :: "stamp option"
  aw_total_messages :: nat
  aw_total_groups :: nat

definition GetUserDetail :: "'s admin_service \<Rightarrow> env \<Rightarrow> db \<Rightarrow> uuid \<Rightarrow> app_error + admin_user_detail" where
  "GetUserDetail svc e d userID =
     and_then (find_target e d userID) (\<lambda>u.
     and_then (on_err (ent_count (fault e ''count user messages'') (filter (\<lambda>m. m_sender_id m = Some (u_id u)) (messages d))) (\<lambda>_. internal_error)) (\<lambda>msgCount.
     and_then (on_err (ent_count (fault e ''count user groups'') (filter (\<lambda>m. gm_user_id m = u_id u) (group_members d))) (\<lambda>_. internal_error)) (\<lambda>groupCount.
       Inr (admin_user.extend (admin_user_row (now e) u)
         (admin_user_detail.fields (text_or_empty (u_bio u)) (avatar_link (ad_urls svc) (Option.bind (u_avatar_id u) (media_of d))) (u_ban_reason u)
            (map_option RFC3339 (u_banned_until u)) (map_option RFC3339 (u_last_seen_at u)) msgCount groupCount)))))"

record reset_info_request =
  ri_target_user_id :: uuid
  ri_reset_avatar :: bool
  ri_reset_bio :: bool
  ri_reset_name :: bool

definition default_name :: "uuid_codec \<Rightarrow> uuid \<Rightarrow> string" where
  "default_name codec i = ''User '' @ take 8 (UuidString codec i)"

definition reset_info :: "uuid_codec \<Rightarrow> db \<Rightarrow> reset_info_request \<Rightarrow> user \<Rightarrow> user" where
  "reset_info codec d req u = u\<lparr>
     u_bio := (if ri_reset_bio req then None else u_bio u),
     u_full_name := (if ri_reset_name req then Some (default_name codec (u_id u)) else u_full_name u),
     u_avatar_id := (if ri_reset_avatar req \<and> Option.bind (u_avatar_id u) (media_of d) \<noteq> None then None else u_avatar_id u)\<rparr>"

text \<open>Nothing is written when the profile already is as asked for. Every error of the lookup counts as a missing user.\<close>

definition ResetUserInfo :: "'s admin_service \<Rightarrow> env \<Rightarrow> db \<Rightarrow> reset_info_request \<Rightarrow> app_error + (user_payload publication list \<times> db)" where
  "ResetUserInfo svc e d req =
     and_then (on_err (ent_only (fault e ''query user'') (filter (\<lambda>u. u_id u = ri_target_user_id req) (users d))) (\<lambda>_. NewNotFoundError ''User not found'')) (\<lambda>u.
     and_then (fail_if (u_role u = RoleSiteAdmin) (NewForbiddenError ''Cannot reset info of another admin'')) (\<lambda>_.
     let u' = reset_info (ad_codec svc) d req u in
     if u' = u then Inr ([], d)
     else
       and_then (fail_if (fault e ''reset info'') (NewInternalServerError ''Failed to reset info'')) (\<lambda>_.
       let d' = set_user (u_id u) (\<lambda>_. u') d;
           ev = \<lparr>le_type = EventUserUpdate, le_payload = UserUpdated (u_id u') (text_or_empty (u_username u')) (text_or_empty (u_full_name u'))
             (avatar_link (ad_urls svc) (Option.bind (u_avatar_id u') (media_of d'))) (text_or_empty (u_bio u')) (map_option RFC3339 (u_last_seen_at u'))\<rparr> in
       Inr (if ad_hub svc \<and> \<not> fault e ''query updated user''
            then BroadcastToUser (ad_publisher svc) (u_id u') ev @ BroadcastToContacts (ad_publisher svc) (fault e) d' (u_id u') ev else [], d'))))"

section \<open>Groups\<close>

record group_list_request =
  gl_query :: string
  gl_limit :: int
  gl_cursor :: string

record admin_group =
  ag_id :: uuid
  ag_chat_id :: uuid
  ag_name :: string
  ag_is_public :: bool
  ag_member_count :: nat
  ag_created_at :: "stamp option"

definition chat_created :: "db \<Rightarrow> uuid \<Rightarrow> stamp option" where
  "chat_created d chatID = map_option (\<lambda>c. RFC3339 (c_created_at c)) (chat_of d chatID)"

definition GetGroups :: "'s admin_service \<Rightarrow> env \<Rightarrow> count_cache \<Rightarrow> db \<Rightarrow> group_list_request \<Rightarrow>
    (app_error + (admin_group list \<times> string \<times> bool)) \<times> count_cache" where
  "GetGroups svc e cache d req =
     (let limit = (if gl_limit req \<le> 0 then 20 else nat (gl_limit req));
          rows = take (limit + 1) (keyset_above gc_id (id_cursor (ad_codec svc) (gl_cursor req))
            (filter (\<lambda>g. chat_live d (gc_chat_id g) \<and> (gl_query req = [] \<or> ad_contains_fold svc (Some (gc_name g)) (gl_query req))) (group_chats d))) in
      if fault e ''fetch groups'' then (Inl (NewInternalServerError ''Failed to fetch groups''), cache)
      else case page_of limit (\<lambda>g. id_next_cursor (ad_codec svc) (gc_id g)) rows of (page, nextCursor, hasNext) \<Rightarrow>
        (case (if page = [] then (Inr (\<lambda>_. None), cache) else CountActiveMembersByGroupIDs e cache d (map gc_id page)) of
           (Inl _, cache) \<Rightarrow> (Inl (NewInternalServerError ''Failed to fetch groups''), cache)
         | (Inr counts, cache) \<Rightarrow>
             (Inr (map (\<lambda>g. \<lparr>ag_id = gc_id g, ag_chat_id = gc_chat_id g, ag_name = gc_name g, ag_is_public = gc_is_public g,
                            ag_member_count = (case counts (gc_id g) of None \<Rightarrow> 0 | Some n \<Rightarrow> n), ag_created_at = chat_created d (gc_chat_id g)\<rparr>) page,
                   nextCursor, hasNext), cache)))"

record admin_group_detail = admin_group +
  ag_description :: "string option"
  ag_avatar :: string
  ag_creator_id :: "uuid option"
  ag_creator_name :: "string option"
  ag_total_messages :: nat

definition GetGroupDetail :: "'s admin_service \<Rightarrow> env \<Rightarrow> db \<Rightarrow> uuid \<Rightarrow> app_error + admin_group_detail" where
  "GetGroupDetail svc e d chatID =
     and_then (on_err (ent_only (fault e ''query group'') (filter (\<lambda>g. gc_chat_id g = chatID) (group_chats d))) (or_not_found ''Group not found'')) (\<lambda>g.
     and_then (on_err (ent_count (fault e ''count group members'') (live_members d (gc_id g))) (\<lambda>_. internal_error)) (\<lambda>memberCount.
     and_then (if chat_of d (gc_chat_id g) = None then Inr 0
               else on_err (ent_count (fault e ''count group messages'') (filter (\<lambda>m. m_chat_id m = gc_chat_id g) (messages d))) (\<lambda>_. internal_error)) (\<lambda>messageCount.
       Inr (admin_group.extend
         \<lparr>ag_id = gc_id g, ag_chat_id = gc_chat_id g, ag_name = gc_name g, ag_is_public = gc_is_public g, ag_member_count = memberCount,
          ag_created_at = chat_created d (gc_chat_id g)\<rparr>
         (admin_group_detail.fields (gc_description g) (avatar_link (ad_urls svc) (Option.bind (gc_avatar_id g) (media_of d))) (gc_created_by g)
            (Option.bind (Option.bind (gc_created_by g) (user_of d)) u_full_name) messageCount)))))"

end
