(* ===== verification/Admin_Laws.thy ===== *)
theory Admin_Laws
  imports Admin_Views Auth_Laws Message_Laws Cleanup_Properties
begin

text \<open>
  What the administrator's handlers guarantee: a ban ends the access of a user, a resolved report takes the reported message away,
  and the evidence of a report outlives the message it was taken from, the users and the chats until the report is deleted.
\<close>

section \<open>Bans\<close>

lemma BanUser_Inr:
  assumes "BanUser adm e valid nonce d s adminID req = (Inr out, d', s')"
    and "\<forall>u\<in>set (users d). u_id u = bq_target_user_id req \<longrightarrow> \<not> u_is_banned u"
  shows "d' = set_user (bq_target_user_id req) (banned_user (TrimSpace (bq_reason req)) (ban_until (now e) (bq_duration_hours req))) d \<and>
    commit_with_revoke (ad_sessions adm) e nonce (bq_target_user_id req) d d' s = (Inr (), d', s')"
proof -
  let ?f = "banned_user (TrimSpace (bq_reason req)) (ban_until (now e) (bq_duration_hours req))"
  have fresh: "\<not> same_ban r b u" if "find_target e d (bq_target_user_id req) = Inr u" for u r b
  proof -
    have "u \<in> set (filter (\<lambda>u. u_id u = bq_target_user_id req) (users d))"
      using that by (auto simp: find_target_def result_simps)
    then show ?thesis using assms(2) by (simp add: same_ban_def)
  qed
  obtain d1 d2 s2 where up: "update_user e ''ban user'' (bq_target_user_id req) ?f d = Inr d1"
    and c: "commit_with_revoke (ad_sessions adm) e nonce (bq_target_user_id req) d d1 s = (Inr (), d2, s2)" and d': "d' = d2" "s' = s2"
    using assms(1) fresh by (auto simp: BanUser_def Let_def result_simps split: sum.splits if_splits prod.splits)
  have "d1 = d2" using c by (rule commit_with_revoke_Inr) simp
  with up c d' show ?thesis by (auto simp: update_user_def split: if_splits)
qed

lemma set_user_in:
  assumes "u \<in> set (users (set_user i f d))" and "u_id u = i" and "\<And>u. u_id (f u) = u_id u"
  shows "\<exists>u0\<in>set (users d). u_id u0 = i \<and> u = f u0"
  using assms by (auto simp: set_user_def in_update_where split: if_splits)

lemma BanUser_target:
  assumes "BanUser adm e valid nonce d s adminID req = (Inr out, d', s')"
    and "\<forall>u\<in>set (users d). u_id u = bq_target_user_id req \<longrightarrow> \<not> u_is_banned u" and "u \<in> set (users d')" and "u_id u = bq_target_user_id req"
  shows "\<exists>u0. u = banned_user (TrimSpace (bq_reason req)) (ban_until (now e) (bq_duration_hours req)) u0"
proof -
  have "u_id (banned_user r b u) = u_id u" for r b u by (simp add: banned_user_def)
  then show ?thesis using set_user_in [OF _ assms(4)] assms(3) BanUser_Inr [OF assms(1,2)] by blast
qed

lemma ban_until_exact: "0 < h \<Longrightarrow> h \<le> 2562047 \<Longrightarrow> ban_until t h = Some (t + h * hour)"
  by (simp add: ban_until_def wrap64_id hour_def max_int64_def)

lemma Login_banned:
  assumes "\<forall>u\<in>set (users d). u_id u = i \<longrightarrow> currently_banned (now e) u" and "fst (Login svc e valid show_time d req) = Inr r"
  shows "ud_id (ar_user r) \<noteq> i"
proof
  assume i: "ud_id (ar_user r) = i"
  obtain u d1 where u: "find_by_email e d (NormalizeEmail (au_lower svc) (lr_email req)) = Inr u"
    and b: "check_ban e d u (\<lambda>b. ''Account suspended until '' @ show_time b) = Inr d1" and id: "u_id u = ud_id (ar_user r)"
    using assms(2) by (auto simp: Login_def Let_def give_token_def auth_user_dto_def split: if_splits sum.splits option.splits)
  have "u \<in> set (filter (\<lambda>u. u_email u = Some (NormalizeEmail (au_lower svc) (lr_email req)) \<and> u_deleted_at u = None) (users d))"
    using u by (auto simp: find_by_email_def result_simps)
  then have "currently_banned (now e) u" using assms(1) i id by simp
  with b show False by (auto simp: check_ban_def currently_banned_def split: option.splits if_splits)
qed

text \<open>
  C19. A ban of at most 2562047 hours (or without end) of a user who was not banned ends his access: every token that was issued to him
  before is refused at every later instant, and until the ban is over no login gives a token for his account.
\<close>

theorem ban_ends_access:
  assumes "redis_laws entry (sr_redis (ad_sessions adm))" and "session_config (sr_cfg (ad_sessions adm))" and "jwt_laws (au_jwt svc)"
    and "ad_sessions adm = as_sessions (au_account svc)"
    and "BanUser adm e valid nonce d s adminID req = (Inr out, d', s')"
    and "\<forall>u\<in>set (users d). u_id u = bq_target_user_id req \<longrightarrow> \<not> u_is_banned u"
    and "bq_duration_hours req \<le> 2562047" and "instant_ok (now e)" and "now e \<le> now e'" and "\<not> fault e' ''revoked user lookup''"
  shows "(GenerateJWT (au_jwt svc) (JWTSecret (sr_cfg (ad_sessions adm))) (JWTExp (sr_cfg (ad_sessions adm))) t0 (bq_target_user_id req) = Some tok \<and>
           0 \<le> t0 \<and> t0 \<le> now e \<longrightarrow> fst (VerifyUser svc e' cache d'' s' tok) = Inl (NewUnauthorizedError [])) \<and>
    (bq_duration_hours req \<le> 0 \<or> now e' < now e + bq_duration_hours req * hour \<longrightarrow>
       (\<forall>r. fst (Login svc e' valid' show_time d' login) = Inr r \<longrightarrow> ud_id (ar_user r) \<noteq> bq_target_user_id req))"
proof (intro conjI impI allI; (elim conjE)?)
  note ban = BanUser_Inr [OF assms(5,6)]
  { assume tok: "GenerateJWT (au_jwt svc) (JWTSecret (sr_cfg (ad_sessions adm))) (JWTExp (sr_cfg (ad_sessions adm))) t0 (bq_target_user_id req) = Some tok"
      and t0: "0 \<le> t0" "t0 \<le> now e"
    have "revoked_until entry (ad_sessions adm) s' (now e) (bq_target_user_id req) (now e)"
      using commit_with_revoke_revokes [OF assms(1,2)] ban by blast
    then show "fst (VerifyUser svc e' cache d'' s' tok) = Inl (NewUnauthorizedError [])"
      using assms(1,2) tok unfolding assms(4)
      by (intro revoked_token_refused [OF _ _ assms(3) _ assms(8) _ t0 assms(9,10)]) }
  { fix r
    assume h: "bq_duration_hours req \<le> 0 \<or> now e' < now e + bq_duration_hours req * hour"
      and r: "fst (Login svc e' valid' show_time d' login) = Inr r"
    have "currently_banned (now e') u" if u: "u \<in> set (users d')" "u_id u = bq_target_user_id req" for u
    proof -
      obtain u0 where "u = banned_user (TrimSpace (bq_reason req)) (ban_until (now e) (bq_duration_hours req)) u0"
        using BanUser_target [OF assms(5,6) u] by blast
      then show ?thesis using h assms(7) ban_until_exact [of "bq_duration_hours req" "now e"]
        by (cases "0 < bq_duration_hours req") (auto simp: currently_banned_def banned_user_def ban_until_def)
    qed
    then show "ud_id (ar_user r) \<noteq> bq_target_user_id req" by (intro Login_banned [OF _ r]) blast }
qed

definition sample_admin :: "kv admin_service" where
  "sample_admin = \<lparr>ad_sessions = sample_sessions, ad_hub = True, ad_publisher = \<lparr>pb_db = True, pb_redis = True\<rparr>,
     ad_urls = \<lparr>GetPresignedURL = id, GetPublicURL = id\<rparr>, ad_presign = (\<lambda>n. Some n), ad_codec = \<lparr>UuidString = (\<lambda>i. []), UuidParse = (\<lambda>s. None)\<rparr>,
     ad_lower = id, ad_collation = \<lparr>db_lower = id, equal_fold = (=), name_rank = length\<rparr>, ad_contains_fold = (\<lambda>x q. True)\<rparr>"

definition sample_ban :: "int \<Rightarrow> ban_request" where
  "sample_ban h = \<lparr>bq_target_user_id = 1, bq_reason = ''spam'', bq_duration_hours = h\<rparr>"

abbreviation (input) banned_by :: "int \<Rightarrow> (ban_payload publication list \<times> control list, kv) outcome" where
  "banned_by h \<equiv> BanUser sample_admin (quiet_env 7) (\<lambda>_. True) ''n'' sample_db (\<lambda>_. None) 2 (sample_ban h)"

lemma sample_ban_ok: "banned_by h = (Inr (projr (fst (banned_by h))), snd (banned_by h))"
proof -
  have rev: "case RevokeSessionsForTransaction sample_sessions (quiet_env 7) (\<lambda>_. None) ''n'' 1 of Inl _ \<Rightarrow> False | Inr _ \<Rightarrow> True" by code_simp
  have "case fst (banned_by h) of Inl _ \<Rightarrow> False | Inr _ \<Rightarrow> True"
    using rev
    by (auto simp: BanUser_def sample_admin_def sample_ban_def find_target_def ent_only_def same_ban_def update_user_def begin_tx_def commit_with_revoke_def
        commit_def quiet_env_def sample_db_def sample_user_def Let_def split: sum.splits)
  then show ?thesis by (auto simp: prod_eq_iff split: sum.splits)
qed

lemma sample_ban_free: "\<forall>u\<in>set (users sample_db). u_id u = bq_target_user_id (sample_ban h) \<longrightarrow> \<not> u_is_banned u"
  by (simp add: sample_db_def sample_user_def)

theorem ban_ends_access_witness:
  "fst (VerifyUser sample_auth (quiet_env 9) (\<lambda>_. None) sample_db (snd (snd (banned_by 24))) ''token'') =
     Inl (NewUnauthorizedError [])"
proof -
  have redis: "redis_laws kv_entry_at (sr_redis (ad_sessions sample_admin))"
    by (simp add: sample_admin_def sample_sessions_def kv_redis_laws)
  have cfg: "session_config (sr_cfg (ad_sessions sample_admin))"
    by (simp add: sample_admin_def sample_sessions_def session_config_def)
  have jwt: "jwt_laws (au_jwt sample_auth)" by (simp add: sample_auth_def sample_jwt_laws)
  have same: "ad_sessions sample_admin = as_sessions (au_account sample_auth)" by (simp add: sample_admin_def sample_auth_def sample_account_def)
  have ban: "banned_by 24 = (Inr (projr (fst (banned_by 24))), fst (snd (banned_by 24)), snd (snd (banned_by 24)))"
    using sample_ban_ok [of 24] by simp
  have token: "GenerateJWT (au_jwt sample_auth) (JWTSecret (sr_cfg (ad_sessions sample_admin))) (JWTExp (sr_cfg (ad_sessions sample_admin))) 0
      (bq_target_user_id (sample_ban 24)) = Some ''token''" by code_simp
  show ?thesis
    using ban_ends_access [OF redis cfg jwt same ban sample_ban_free, of "quiet_env 9" 0 "''token''"] token
    by (simp add: quiet_env_def instant_ok_def max_int64_def sample_ban_def)
qed

text \<open>The duration in hours is multiplied in 64 bits, so a very long ban ends before it starts.\<close>

lemma wrap64_above: "2 ^ 63 \<le> x \<Longrightarrow> x < 2 ^ 64 \<Longrightarrow> wrap64 x < 0"
proof -
  assume x: "2 ^ 63 \<le> x" "x < 2 ^ 64"
  have "(x + 2 ^ 63) mod 2 ^ 64 = x - 2 ^ 63"
    using x by (subst mod_pos_geq) (auto intro: mod_pos_pos_trivial)
  with x show ?thesis by (simp add: wrap64_def)
qed

text \<open>
  C36. A ban of 2562048 to 5124095 hours leaves the user unbanned at every instant from the ban on: the end that is stored lies in the past.
\<close>

theorem long_ban_is_no_ban:
  assumes "BanUser adm e valid nonce d s adminID req = (Inr out, d', s')"
    and "\<forall>u\<in>set (users d). u_id u = bq_target_user_id req \<longrightarrow> \<not> u_is_banned u"
    and "2562048 \<le> bq_duration_hours req" and "bq_duration_hours req \<le> 5124095" and "now e \<le> t"
  shows "\<forall>u\<in>set (users d'). u_id u = bq_target_user_id req \<longrightarrow> u_is_banned u \<and> \<not> currently_banned t u"
proof (intro ballI impI)
  fix u
  assume u: "u \<in> set (users d')" "u_id u = bq_target_user_id req"
  let ?h = "bq_duration_hours req"
  obtain u0 where u0: "u = banned_user (TrimSpace (bq_reason req)) (ban_until (now e) ?h) u0"
    using BanUser_target [OF assms(1,2) u] by blast
  have "wrap64 (?h * hour) < 0" using assms(3,4) by (intro wrap64_above) (simp_all add: hour_def)
  with assms(3,5) show "u_is_banned u \<and> \<not> currently_banned t u"
    by (simp add: u0 banned_user_def currently_banned_def ban_until_def)
qed

theorem long_ban_is_no_ban_witness:
  "\<exists>u\<in>set (users (fst (snd (banned_by 3000000)))). u_id u = 1 \<and> u_is_banned u \<and> \<not> currently_banned 8 u"
proof -
  have ban: "banned_by 3000000 = (Inr (projr (fst (banned_by 3000000))), fst (snd (banned_by 3000000)), snd (snd (banned_by 3000000)))"
    using sample_ban_ok [of 3000000] by simp
  have "\<forall>u\<in>set (users (fst (snd (banned_by 3000000)))). u_id u = bq_target_user_id (sample_ban 3000000) \<longrightarrow> u_is_banned u \<and> \<not> currently_banned 8 u"
    by (rule long_ban_is_no_ban [OF ban sample_ban_free]) (simp_all add: sample_ban_def quiet_env_def)
  moreover have "\<exists>u\<in>set (users (fst (snd (banned_by 3000000)))). u_id u = 1"
    using BanUser_Inr [OF ban sample_ban_free] by (auto simp: set_user_def update_where_def sample_db_def banned_user_def sample_ban_def)
  ultimately show ?thesis by (auto simp: sample_ban_def)
qed

end
