(* ===== verification/Evidence_Laws.thy ===== *)
theory Evidence_Laws
  imports Admin_Service Message_Laws Cleanup_Properties
begin

text \<open>
  The evidence of a report: the media that \<open>CreateReport\<close> links keeps its row while messages are edited and deleted, other
  reports come and go, and the cleanup jobs run, until this report is deleted. Resolving a report takes the message away.
\<close>

section \<open>Links that survive\<close>

definition protected_media :: "uuid \<Rightarrow> uuid \<Rightarrow> db \<Rightarrow> bool" where
  "protected_media reportID mediaID d \<longleftrightarrow> (reportID, mediaID) \<in> set (report_evidence d) \<and> mediaID \<in> md_id ` set (medias d)"

definition keeps_evidence :: "db \<Rightarrow> db \<Rightarrow> bool" where
  "keeps_evidence d d' \<longleftrightarrow> set (report_evidence d) \<subseteq> set (report_evidence d') \<and> md_id ` set (medias d) \<subseteq> md_id ` set (medias d')"

lemma keeps_evidence_refl [simp]: "keeps_evidence d d"
  by (simp add: keeps_evidence_def)

lemma keeps_evidence_upd [simp]:
  "keeps_evidence d (d'\<lparr>outbox := x\<rparr>) = keeps_evidence d d'" "keeps_evidence (d\<lparr>messages := ms\<rparr>) d' = keeps_evidence d d'"
  "keeps_evidence (d\<lparr>reports := rs\<rparr>) d' = keeps_evidence d d'"
  by (simp_all add: keeps_evidence_def)

lemma keeps_evidence_trans: "keeps_evidence d d1 \<Longrightarrow> keeps_evidence d1 d2 \<Longrightarrow> keeps_evidence d d2"
  unfolding keeps_evidence_def by blast

lemma protected_mono: "protected_media r m d \<Longrightarrow> keeps_evidence d d' \<Longrightarrow> protected_media r m d'"
  by (auto simp: protected_media_def keeps_evidence_def)

lemma md_id_update: "(\<And>m. md_id (f m) = md_id m) \<Longrightarrow> md_id ` set (update_where P f ms) = md_id ` set ms"
  using update_where_key [of md_id f P ms] by (metis list.set_map)

subsection \<open>Messages\<close>

lemma SendMessage_keeps: "SendMessage svc e valid d uid req = Inr (resp, d') \<Longrightarrow> keeps_evidence d d'"
  by (elim SendMessage_Inr) (simp add: keeps_evidence_def md_id_update)

lemma link_keeps: "link_attachments mid ids d = Inr d' \<Longrightarrow> keeps_evidence d d'"
  by (drule link_attachments_Inr) (simp add: keeps_evidence_def md_id_update)

lemma unlink_keeps: "keeps_evidence d (unlink_attachments mid ids d)"
  by (simp add: keeps_evidence_def unlink_attachments_def md_id_update)

lemma apply_edit_keeps:
  assumes "apply_edit svc e d uid msg content un lk role = Inr (resp, d')"
  shows "keeps_evidence d d'"
proof -
  have "\<exists>d1 row. link_attachments (m_id msg) lk (unlink_attachments (m_id msg) un
        (d\<lparr>messages := update_where (\<lambda>m. m_id m = m_id msg) (edited e content) (messages d)\<rparr>)) = Inr d1 \<and> d' = d1\<lparr>outbox := outbox d1 @ [row]\<rparr>"
    using assms unfolding apply_edit_def by (simp only: handler_simps) blast
  then show ?thesis using keeps_evidence_trans [OF unlink_keeps link_keeps] by fastforce
qed

lemma EditMessage_keeps: "EditMessage svc e valid d uid mid req = Inr (resp, d') \<Longrightarrow> keeps_evidence d d'"
  by (drule EditMessage_Inr) (auto dest: apply_edit_keeps)

lemma DeleteMessage_keeps: "DeleteMessage e d uid mid = Inr d' \<Longrightarrow> keeps_evidence d d'"
  by (drule DeleteMessage_Inr) (auto simp: keeps_evidence_def erase_message_def md_id_update)

subsection \<open>Reports\<close>

lemma CreateReport_Inr:
  assumes "CreateReport svc e valid d reporterID req = Inr d'"
  obtains target sj r where "report_branch svc e d reporterID req = Inr (target, sj)" and "rt_id r = newid e 0" and "rt_target_type r = target"
    and "rt_message_id r = sj_message_id sj" and "d' = d\<lparr>reports := reports d @ [r], report_evidence := report_evidence d @ map (\<lambda>m. (newid e 0, m)) (sj_media sj)\<rparr>"
proof -
  obtain target sj r where b: "report_branch svc e d reporterID req = Inr (target, sj)" and r: "rt_id r = newid e 0" "rt_target_type r = target" "rt_message_id r = sj_message_id sj"
    and i: "insert_report e d r (sj_media sj) = Inr d'"
    using assms unfolding CreateReport_def by (auto simp: result_simps) force
  then show thesis by (intro that [OF b r]) (auto simp: insert_report_def split: if_splits)
qed

lemma CreateReport_keeps: "CreateReport svc e valid d reporterID req = Inr d' \<Longrightarrow> keeps_evidence d d'"
  by (elim CreateReport_Inr) (simp add: keeps_evidence_def)

lemma censor_keeps: "keeps_evidence d (censor_message e msg d)"
  by (simp add: keeps_evidence_def censor_message_def md_id_update)

lemma remove_reported_Inr:
  assumes "remove_reported e d adminID messageID = Inr d'"
  shows "(\<forall>m\<in>set (messages d). m_id m \<noteq> messageID) \<and> d' = d \<or>
    (\<exists>msg\<in>set (messages d). m_id msg = messageID \<and>
       d' = (censor_message e msg d)\<lparr>outbox := outbox d @ (if m_deleted_at msg = None
         then [new_outbox e 0 msg EventMessageDelete adminID (Some (outbox_row_payload e msg EventMessageDelete))] else [])\<rparr>)"
proof (cases "ent_only (fault e ''query reported message'') (filter (\<lambda>m. m_id m = messageID) (messages d))")
  case (Inl er)
  with assms have "er = NotFoundError" "d' = d" by (auto simp: remove_reported_def split: if_splits)
  with Inl show ?thesis by (auto simp: result_simps filter_empty_conv)
next
  case (Inr msg)
  then have "msg \<in> set (filter (\<lambda>m. m_id m = messageID) (messages d))" by (simp add: result_simps)
  then have msg: "msg \<in> set (messages d)" "m_id msg = messageID" by simp_all
  have out: "outbox (censor_message e msg d) = outbox d" by (simp add: censor_message_def)
  have same: "censor_message e msg d = (censor_message e msg d)\<lparr>outbox := outbox d\<rparr>" by (simp add: censor_message_def)
  have "d' = (censor_message e msg d)\<lparr>outbox := outbox d @ (if m_deleted_at msg = None
         then [new_outbox e 0 msg EventMessageDelete adminID (Some (outbox_row_payload e msg EventMessageDelete))] else [])\<rparr>"
  proof (cases "m_deleted_at msg = None")
    case True
    then show ?thesis using assms Inr by (simp add: remove_reported_def result_simps PersistMessageOutbox_Inr out)
  next
    case False
    then show ?thesis using assms Inr same by (auto simp: remove_reported_def result_simps)
  qed
  with msg show ?thesis by blast
qed

lemma remove_reported_keeps: "remove_reported e d adminID messageID = Inr d' \<Longrightarrow> keeps_evidence d d'"
  by (drule remove_reported_Inr) (auto simp: censor_keeps)

lemma ResolveReport_Inr:
  assumes "ResolveReport e valid d adminID reportID req = Inr d'"
  obtains r where "find_report e d reportID [] = Inr r" and "rt_status r = rq_status req" and "d' = d"
  | r d1 where "find_report e d reportID [] = Inr r" and "rt_status r \<noteq> rq_status req"
    and "d1 = d\<lparr>reports := update_where (\<lambda>x. rt_id x = reportID) (resolved_report e adminID (rq_status req) (TrimSpace (rq_notes req))) (reports d)\<rparr>"
    and "case rt_message_id r of Some i \<Rightarrow> if rq_status req = StatusResolved \<and> rt_target_type r = TargetTypeMessage then remove_reported e d1 adminID i = Inr d' else d' = d1
         | None \<Rightarrow> d' = d1"
proof (cases "find_report e d reportID []")
  case (Inl er)
  with assms show thesis by (simp add: ResolveReport_def result_simps)
next
  case (Inr r)
  show thesis
  proof (cases "rt_status r = rq_status req")
    case True
    with assms Inr have "d' = d" by (simp add: ResolveReport_def result_simps)
    then show ?thesis by (rule that(1) [OF Inr True])
  next
    case False
    define d1 where "d1 = d\<lparr>reports := update_where (\<lambda>x. rt_id x = reportID) (resolved_report e adminID (rq_status req) (TrimSpace (rq_notes req))) (reports d)\<rparr>"
    have "(case rt_message_id r of
             Some i \<Rightarrow> if rq_status req = StatusResolved \<and> rt_target_type r = TargetTypeMessage then remove_reported e d1 adminID i else Inr d1
           | None \<Rightarrow> Inr d1) = Inr d'"
      using assms False unfolding ResolveReport_def Let_def d1_def [symmetric] Inr
      by (simp only: and_then_Inr and_then_simps if_False sum.inject) blast
    then show ?thesis by (intro that(2) [OF Inr False d1_def]) (auto split: option.splits if_splits)
  qed
qed

lemma ResolveReport_keeps:
  assumes "ResolveReport e valid d adminID reportID req = Inr d'"
  shows "keeps_evidence d d'"
  using assms
proof (cases rule: ResolveReport_Inr)
  case (2 r d1)
  have "keeps_evidence d1 d'" using 2(4) by (auto dest: remove_reported_keeps split: option.splits if_splits)
  then show ?thesis by (simp add: 2(3) keeps_evidence_def)
qed simp

lemma DeleteReport_keeps:
  assumes "DeleteReport e d other = Inr d'" and "reportID \<noteq> other" and "protected_media reportID mediaID d"
  shows "protected_media reportID mediaID d'"
  using assms by (auto simp: DeleteReport_def protected_media_def result_simps)

subsection \<open>Cleanup\<close>

lemma delete_user_keeps: "keeps_evidence d (delete_user i d)"
  by (simp add: keeps_evidence_def delete_user_def image_image)

lemma delete_chat_keeps: "keeps_evidence d (delete_chat i d)"
  by (simp add: keeps_evidence_def delete_chat_def Let_def image_image)

lemma user_loop_keeps:
  "sweep (due_users cutoff) b (each_row (drop_user f)) k d = Some (er, d') \<Longrightarrow> protected_media r m d \<Longrightarrow> protected_media r m d'"
  by (erule user_sweep.rows_invariant) (auto simp: drop_user_def delete_one_def intro: protected_mono delete_user_keeps split: if_splits)

lemma chat_loop_keeps:
  "sweep (due_chats cutoff) b (each_row (drop_chat f)) k d = Some (er, d') \<Longrightarrow> protected_media r m d \<Longrightarrow> protected_media r m d'"
  by (erule chat_sweep.rows_invariant) (auto simp: drop_chat_def delete_one_def intro: protected_mono delete_chat_keeps split: if_splits)

lemma outbox_loop_keeps:
  "sweep (due_outbox cutoff) b (drop_outbox f) k d = Some (er, d') \<Longrightarrow> protected_media r m d \<Longrightarrow> protected_media r m d'"
  by (erule outbox_sweep.invariant) (auto simp: drop_outbox_def protected_media_def split: if_splits)

lemma RunEntityCleanup_keeps:
  "RunEntityCleanup cfg t fu fc fo d = Some (er, d') \<Longrightarrow> protected_media r m d \<Longrightarrow> protected_media r m d'"
  unfolding RunEntityCleanup_def
  by (elim next_loop_cases) (blast intro: user_loop_keeps chat_loop_keeps outbox_loop_keeps)+

lemma RunPrivateChatCleanup_keeps:
  "RunPrivateChatCleanup f d = Some (er, d') \<Longrightarrow> protected_media r m d \<Longrightarrow> protected_media r m d'"
  unfolding RunPrivateChatCleanup_def
  by (erule private_sweep.rows_invariant) (auto simp: drop_chat_def delete_one_def intro: protected_mono delete_chat_keeps split: if_splits)

lemma drop_media_keeps:
  assumes "protected_media r m (fst s)" and "i \<in> set (map md_id (medias (fst s))) \<Longrightarrow> i \<in> set (due_media cutoff t s)"
    and "drop_media f storage k i s = (ok, s')"
  shows "protected_media r m (fst s')"
proof -
  have "i \<noteq> m" if "i \<in> md_id ` set (medias (fst s))"
  proof -
    have "i \<in> set (due_media cutoff t s)" using assms(2) that by simp
    then obtain x where "md_id x = i" "\<not> media_in_use (fst s) x" by (auto simp: due_media_def orphan_def)
    with assms(1) show ?thesis by (auto simp: media_in_use_def protected_media_def)
  qed
  moreover have "fst s' = fst s \<or> fst s' = delete_media i (fst s) \<and> i \<in> md_id ` set (medias (fst s))"
    using assms(3) by (cases s) (auto simp: drop_media_def Let_def split: option.splits if_splits dest: find_SomeD)
  ultimately show ?thesis using assms(1) by (auto simp: protected_media_def delete_media_def)
qed

lemma RunMediaCleanup_keeps:
  assumes "RunMediaCleanup cfg t f storage (d, objs) = Some (er, d', objs')" and "protected_media r m d"
  shows "protected_media r m d'"
proof -
  have "protected_media r m (fst (d', objs'))"
    using assms(1) [unfolded RunMediaCleanup_def]
  proof (rule media_sweep.rows_invariant [where P = "\<lambda>s. protected_media r m (fst s)"])
    show "protected_media r m (fst (d, objs))" using assms(2) by simp
  qed (rule drop_media_keeps)
  then show ?thesis by simp
qed
section \<open>Evidence outlives the message\<close>

text \<open>Everything that happens to messages, reports and stored rows but the deletion of this report.\<close>

inductive evidence_step :: "uuid \<Rightarrow> db \<Rightarrow> db \<Rightarrow> bool" for reportID where
  send: "SendMessage svc e valid d uid req = Inr (resp, d') \<Longrightarrow> evidence_step reportID d d'"
| edit: "EditMessage svc e valid d uid mid req = Inr (resp, d') \<Longrightarrow> evidence_step reportID d d'"
| delete: "DeleteMessage e d uid mid = Inr d' \<Longrightarrow> evidence_step reportID d d'"
| report: "CreateReport svc e valid d uid req = Inr d' \<Longrightarrow> evidence_step reportID d d'"
| resolve: "ResolveReport e valid d adminID i req = Inr d' \<Longrightarrow> evidence_step reportID d d'"
| drop: "DeleteReport e d i = Inr d' \<Longrightarrow> i \<noteq> reportID \<Longrightarrow> evidence_step reportID d d'"
| entities: "RunEntityCleanup cfg t fu fc fo d = Some (er, d') \<Longrightarrow> evidence_step reportID d d'"
| privates: "RunPrivateChatCleanup f d = Some (er, d') \<Longrightarrow> evidence_step reportID d d'"
| media: "RunMediaCleanup cfg t f storage (d, objs) = Some (er, d', objs') \<Longrightarrow> evidence_step reportID d d'"

lemma evidence_step_keeps: "evidence_step reportID d d' \<Longrightarrow> protected_media reportID m d \<Longrightarrow> protected_media reportID m d'"
  by (induction rule: evidence_step.induct)
    (blast intro: protected_mono SendMessage_keeps EditMessage_keeps DeleteMessage_keeps CreateReport_keeps ResolveReport_keeps
      DeleteReport_keeps RunEntityCleanup_keeps RunPrivateChatCleanup_keeps RunMediaCleanup_keeps)+

lemma evidence_run_keeps: "(evidence_step reportID)\<^sup>*\<^sup>* d d' \<Longrightarrow> protected_media reportID m d \<Longrightarrow> protected_media reportID m d'"
  by (induction rule: rtranclp_induct) (blast intro: evidence_step_keeps)+

lemma report_message_media:
  assumes "report_message svc e d reporterID mid = Inr sj" and "m \<in> set (medias d)" and "md_message_id m = Some mid"
  shows "md_id m \<in> set (sj_media sj)"
proof -
  let ?atts = "filter (\<lambda>m. md_message_id m = Some mid) (medias d)"
  have "\<not> length (take (MaxMessageAttachments + 1) ?atts) > MaxMessageAttachments" and "sj_media sj = map md_id (take (MaxMessageAttachments + 1) ?atts)"
    using assms(1) by (auto simp: report_message_def Let_def result_simps)
  moreover from this have "take (MaxMessageAttachments + 1) ?atts = ?atts" by simp
  ultimately show ?thesis using assms(2,3) by auto
qed

text \<open>
  C20. Once a message is reported, every attachment it had keeps its link to the report and its row, whatever messages are sent,
  edited or deleted (also this one), reports created, resolved or deleted, and cleanup jobs run, until this report itself is deleted.
\<close>

theorem evidence_survives:
  assumes "CreateReport svc e valid d reporterID req = Inr d1" and "cr_target_type req = ''message''" and "cr_message_id req = Some mid"
    and "m \<in> set (medias d)" and "md_message_id m = Some mid" and "(evidence_step (newid e 0))\<^sup>*\<^sup>* d1 d2"
  shows "(newid e 0, md_id m) \<in> set (report_evidence d2) \<and> md_id m \<in> md_id ` set (medias d2)"
proof -
  have "protected_media (newid e 0) (md_id m) d1"
  proof (rule CreateReport_Inr [OF assms(1)])
    fix target sj r
    assume b: "report_branch svc e d reporterID req = Inr (target, sj)"
      and d1: "d1 = d\<lparr>reports := reports d @ [r], report_evidence := report_evidence d @ map (\<lambda>m. (newid e 0, m)) (sj_media sj)\<rparr>"
    have "report_message svc e d reporterID mid = Inr sj" using b assms(2,3) by (auto simp: report_branch_def result_simps)
    then have "md_id m \<in> set (sj_media sj)" by (rule report_message_media) (rule assms(4,5))+
    then show ?thesis using assms(4) by (auto simp: protected_media_def d1)
  qed
  from evidence_run_keeps [OF assms(6) this] show ?thesis by (simp add: protected_media_def)
qed

definition sample_report_request :: report_request where
  "sample_report_request = \<lparr>cr_target_type = ''message'', cr_reason = ''spam'', cr_description = [], cr_message_id = Some 20, cr_chat_id = None, cr_target_user_id = None\<rparr>"

definition sample_report_db :: db where
  "sample_report_db = sample_db\<lparr>medias := [sample_media 2 UploadStatusCompleted (Some 20)]\<rparr>"

definition sample_report_service :: report_service where
  "sample_report_service = \<lparr>rs_urls = \<lparr>GetPresignedURL = id, GetPublicURL = id\<rparr>\<rparr>"

abbreviation (input) sample_reported :: db where
  "sample_reported \<equiv> projr (CreateReport sample_report_service (sample_env 200 50) (\<lambda>_. True) sample_report_db 2 sample_report_request)"

theorem evidence_survives_witness:
  "\<exists>d2. DeleteMessage (sample_env 300 60) sample_reported 1 20 = Inr d2 \<and> (50, 2) \<in> set (report_evidence d2) \<and> 2 \<in> md_id ` set (medias d2)"
proof -
  have plain: "TrimSpace ''spam'' = ''spam''" by (rule TrimSpace_id) (simp_all add: clean_start_def space_runes_def char_of_def)
  have "case CreateReport sample_report_service (sample_env 200 50) (\<lambda>_. True) sample_report_db 2 sample_report_request of Inl _ \<Rightarrow> False
      | Inr d \<Rightarrow> case DeleteMessage (sample_env 300 60) d 1 20 of Inl _ \<Rightarrow> False | Inr _ \<Rightarrow> True"
    unfolding CreateReport_def sample_report_request_def report_request.simps plain by code_simp
  then obtain d1 d2 where c: "CreateReport sample_report_service (sample_env 200 50) (\<lambda>_. True) sample_report_db 2 sample_report_request = Inr d1"
    and d: "DeleteMessage (sample_env 300 60) d1 1 20 = Inr d2" by (auto split: sum.splits)
  have "(newid (sample_env 200 50) 0, md_id (sample_media 2 UploadStatusCompleted (Some 20))) \<in> set (report_evidence d2) \<and>
      md_id (sample_media 2 UploadStatusCompleted (Some 20)) \<in> md_id ` set (medias d2)"
    by (rule evidence_survives [OF c, of 20]) (auto simp: sample_report_request_def sample_report_db_def sample_media_def intro: evidence_step.delete [OF d])
  with c d show ?thesis by (simp add: sample_media_def)
qed

section \<open>A resolved report takes the message away\<close>

text \<open>Resolving a report of a message clears content, attachments and visibility of this message and of no other, and announces the
  deletion with exactly one outbox row when the message was visible, with none when it had been deleted before.
\<close>

theorem resolve_removes_message:
  assumes "ResolveReport e valid d adminID reportID req = Inr d'" and "find_report e d reportID [] = Inr r"
    and "rt_target_type r = TargetTypeMessage" and "rt_message_id r = Some (m_id msg)" and "rq_status req = StatusResolved" and "rt_status r \<noteq> StatusResolved"
    and "msg \<in> set (messages d)" and "distinct (map m_id (messages d))"
  shows "(\<forall>m\<in>set (messages d'). m_id m = m_id msg \<longrightarrow> m_content m = None \<and> m_deleted_at m = (if m_deleted_at msg = None then Some (now e) else m_deleted_at msg)) \<and>
    (\<forall>m\<in>set (medias d'). md_message_id m \<noteq> Some (m_id msg)) \<and>
    filter (\<lambda>m. m_id m \<noteq> m_id msg) (messages d') = filter (\<lambda>m. m_id m \<noteq> m_id msg) (messages d) \<and>
    outbox d' = outbox d @ (if m_deleted_at msg = None
      then [new_outbox e 0 msg EventMessageDelete adminID (Some (outbox_row_payload e msg EventMessageDelete))] else [])"
  using assms(1)
proof (cases rule: ResolveReport_Inr)
  case (1 r')
  with assms(2,5,6) show ?thesis by simp
next
  case (2 r' d1)
  have rr: "remove_reported e d1 adminID (m_id msg) = Inr d'" using 2(1,4) assms(2-6) by simp
  have d1: "messages d1 = messages d" "medias d1 = medias d" "outbox d1 = outbox d" by (simp_all add: 2(3))
  obtain msg' where m': "msg' \<in> set (messages d)" "m_id msg' = m_id msg"
    and d': "d' = (censor_message e msg' d1)\<lparr>outbox := outbox d1 @ (if m_deleted_at msg' = None
         then [new_outbox e 0 msg' EventMessageDelete adminID (Some (outbox_row_payload e msg' EventMessageDelete))] else [])\<rparr>"
    using remove_reported_Inr [OF rr] assms(7) unfolding d1 by blast
  have "msg' = msg" using distinct_key_eq [OF assms(8)] m' assms(7) by blast
  have one: "m_deleted_at m = m_deleted_at msg" if "m \<in> set (messages d)" "m_id m = m_id msg" for m using distinct_key_eq [OF assms(8)] that assms(7) by blast
  then show ?thesis
    by (intro conjI) (auto simp: d' \<open>msg' = msg\<close> censor_message_def d1 one update_where_def filter_map comp_def cong: filter_cong intro!: map_idI)
qed

definition sample_report :: report where
  "sample_report = \<lparr>rt_id = 50, rt_target_type = TargetTypeMessage, rt_reason = ''spam'', rt_description = None, rt_evidence_snapshot = None,
     rt_status = StatusPending, rt_reporter_id = Some 2, rt_message_id = Some 20, rt_group_id = None, rt_target_user_id = None, rt_resolution_notes = None,
     rt_resolved_at = None, rt_resolved_by_id = None, rt_created_at = 200, rt_updated_at = 200\<rparr>"

theorem resolve_removes_message_witness:
  "\<exists>d'. ResolveReport (sample_env 300 60) (\<lambda>_. True) (sample_db\<lparr>reports := [sample_report]\<rparr>) 1 50 \<lparr>rq_status = StatusResolved, rq_notes = []\<rparr> = Inr d' \<and>
     length (outbox d') = 4 \<and> (\<forall>m\<in>set (messages d'). m_id m = 20 \<longrightarrow> m_content m = None \<and> m_deleted_at m = Some 300)"
proof -
  let ?d = "sample_db\<lparr>reports := [sample_report]\<rparr>" and ?q = "\<lparr>rq_status = StatusResolved, rq_notes = []\<rparr>"
  have "case ResolveReport (sample_env 300 60) (\<lambda>_. True) ?d 1 50 ?q of Inl _ \<Rightarrow> False | Inr _ \<Rightarrow> True" by code_simp
  then obtain d' where d': "ResolveReport (sample_env 300 60) (\<lambda>_. True) ?d 1 50 ?q = Inr d'" by (auto split: sum.splits)
  have "find_report (sample_env 300 60) ?d 50 [] = Inr sample_report"
    by (simp add: find_report_def ent_only_def sample_report_def)
  note out = resolve_removes_message [OF d' this, of "sample_message 20 10 1 100"]
  have "m_id (sample_message 20 10 1 100) = 20" "m_deleted_at (sample_message 20 10 1 100) = None" by (simp_all add: sample_message_def)
  moreover have "distinct (map m_id (messages ?d))" "sample_message 20 10 1 100 \<in> set (messages ?d)" by (simp_all add: sample_db_def sample_message_def)
  moreover have "length (outbox ?d) = 3" by (simp add: sample_db_def)
  ultimately show ?thesis using out d' by (simp add: sample_report_def)
qed

end
