(* ===== verification/Media_Service.thy ===== *)
theory Media_Service
  imports Message_Pages Cleanup
begin

text \<open>
  \<^verbatim>\<open>src/internal/api/application/media/media_service.go\<close> with the file names of \<^verbatim>\<open>src/internal/domain/helper/file.go\<close>: an upload is
  announced, the client puts the object into the store by itself, and the upload is completed when the store reports an object of
  the announced size and type. The object store and the captcha are arguments: \<open>me_head\<close> answers size and content type of an object,
  \<open>me_put\<close> signs an upload, \<open>me_presign\<close> a download; each may fail.
\<close>

section \<open>File names (file.go)\<close>

text \<open>\<open>filepath.Ext\<close>: from the last dot of the last element of the path.\<close>

definition last_element :: "string \<Rightarrow> string" where
  "last_element p = rev (takeWhile (\<lambda>c. c \<noteq> CHR ''/'') (rev p))"

definition Ext :: "string \<Rightarrow> string" where
  "Ext p = (let f = last_element p in
     if CHR ''.'' \<in> set f then CHR ''.'' # rev (takeWhile (\<lambda>c. c \<noteq> CHR ''.'') (rev f)) else [])"

definition GenerateUniqueFileName :: "(string \<Rightarrow> string) \<Rightarrow> uuid_codec \<Rightarrow> time \<Rightarrow> uuid \<Rightarrow> string \<Rightarrow> string" where
  "GenerateUniqueFileName lower codec t u originalName =
     FormatInt t @ ''-'' @ UuidString codec u @ lower (if Ext originalName = [] then ''.jpg'' else Ext originalName)"

text \<open>\<open>path.Clean\<close>: the elements between slashes, without empty ones and dots, each \<open>..\<close> taking back the element before it.\<close>

fun split_slash :: "string \<Rightarrow> string list" where
  "split_slash [] = [[]]"
| "split_slash (c # s) = (if c = CHR ''/'' then [] # split_slash s else (c # hd (split_slash s)) # tl (split_slash s))"

fun clean_elements :: "bool \<Rightarrow> string list \<Rightarrow> string list \<Rightarrow> string list" where
  "clean_elements rooted acc [] = acc"
| "clean_elements rooted acc (x # xs) =
     clean_elements rooted
       (if x = [] \<or> x = ''.'' then acc
        else if x = ''..'' then (if acc \<noteq> [] \<and> last acc \<noteq> ''..'' then butlast acc else if rooted then acc else acc @ [x])
        else acc @ [x]) xs"

fun join_slash :: "string list \<Rightarrow> string" where
  "join_slash [] = []"
| "join_slash [x] = x"
| "join_slash (x # y # xs) = x @ CHR ''/'' # join_slash (y # xs)"

definition path_Clean :: "string \<Rightarrow> string" where
  "path_Clean p =
     (let rooted = (p \<noteq> [] \<and> hd p = CHR ''/''); s = join_slash (clean_elements rooted [] (split_slash p)) in
      if rooted then CHR ''/'' # s else if s = [] then ''.'' else s)"

definition NormalizeStoragePath :: "string \<Rightarrow> string" where
  "NormalizeStoragePath p = path_Clean (map (\<lambda>c. if c = CHR 0x5C then CHR ''/'' else c) p)"

section \<open>The service\<close>

record media_service =
  me_urls :: urlgen
  me_presign :: "string \<Rightarrow> string option"
  me_put :: "string \<Rightarrow> string \<Rightarrow> int \<Rightarrow> bool \<Rightarrow> (string \<times> (string \<times> string) list) option"
  me_head :: "string \<Rightarrow> bool \<Rightarrow> (int \<times> string) option"
  me_captcha :: "string \<Rightarrow> bool"
  me_lower :: "string \<Rightarrow> string"
  me_codec :: uuid_codec

definition presignedUploadExpiry :: duration where
  "presignedUploadExpiry = 900000000000"

definition avatarMIMETypes :: "string list" where
  "avatarMIMETypes = [''image/jpeg'', ''image/png'', ''image/webp'']"

record upload_request =
  uq_usage :: media_category
  uq_original_name :: string
  uq_file_size :: int
  uq_mime_type :: string
  uq_captcha_token :: string

record upload_dto = media_dto +
  mdto_category :: media_category
  mdto_upload_status :: upload_status

record upload_response =
  up_media :: upload_dto
  up_upload_url :: string
  up_upload_method :: string
  up_upload_headers :: "(string \<times> string) list"
  up_expires_at :: time

definition upload_to_dto :: "media \<Rightarrow> string \<Rightarrow> string \<Rightarrow> upload_dto" where
  "upload_to_dto m fileName url = \<lparr>mdto_id = md_id m, mdto_file_name = fileName, mdto_original_name = md_original_name m, mdto_file_size = md_file_size m,
     mdto_mime_type = md_mime_type m, mdto_url = url, mdto_category = md_category m, mdto_upload_status = md_upload_status m\<rparr>"

definition allowed_upload :: "media_category \<Rightarrow> int \<Rightarrow> string \<Rightarrow> bool" where
  "allowed_upload category fileSize mime =
     (if public_category category then fileSize \<le> 2 * 1024 * 1024 \<and> mime \<in> set avatarMIMETypes else fileSize \<le> 20 * 1024 * 1024)"

text \<open>The validators and the unique index of the table, and the uploader must exist.\<close>

definition insert_media :: "env \<Rightarrow> db \<Rightarrow> media \<Rightarrow> app_error + db" where
  "insert_media e d m =
     (if fault e ''create media'' \<or> md_file_name m = [] \<or> length (md_file_name m) > 255 \<or> md_original_name m = [] \<or> length (md_original_name m) > 255 \<or>
         md_file_size m \<le> 0 \<or> md_mime_type m = [] \<or> length (md_mime_type m) > 100 \<or>
         (\<exists>x\<in>set (medias d). md_file_name x = md_file_name m) \<or> \<not> (\<exists>u\<in>set (users d). md_uploaded_by_id m = Some (u_id u))
      then Inl internal_error else Inr (d\<lparr>medias := medias d @ [m]\<rparr>))"

text \<open>A row whose upload cannot be signed stays behind as pending.\<close>

definition UploadMedia :: "media_service \<Rightarrow> env \<Rightarrow> (upload_request \<Rightarrow> bool) \<Rightarrow> db \<Rightarrow> uuid \<Rightarrow> upload_request \<Rightarrow> (app_error + upload_response) \<times> db" where
  "UploadMedia svc e valid d userID req0 =
     (let req = req0\<lparr>uq_original_name := TrimSpace (uq_original_name req0), uq_mime_type := me_lower svc (TrimSpace (uq_mime_type req0))\<rparr>;
          isPublic = public_category (uq_usage req);
          finalFileName = GenerateUniqueFileName (me_lower svc) (me_codec svc) (now e) (newid e 1) (uq_original_name req);
          expiresAt = now e + presignedUploadExpiry;
          m = \<lparr>md_id = newid e 0, md_file_name = finalFileName, md_original_name = uq_original_name req, md_file_size = uq_file_size req,
               md_mime_type = uq_mime_type req, md_category = uq_usage req, md_upload_status = UploadStatusPending, md_upload_expires_at = Some expiresAt,
               md_completed_at = None, md_message_id = None, md_uploaded_by_id = Some userID, md_created_at = now e\<rparr> in
      if \<not> valid req0 then (Inl (NewBadRequestError []), d)
      else if uq_original_name req = [] then (Inl (NewBadRequestError []), d)
      else if \<not> me_captcha svc (uq_captcha_token req) then (Inl (NewBadRequestError []), d)
      else if \<not> allowed_upload (uq_usage req) (uq_file_size req) (uq_mime_type req) then (Inl (NewBadRequestError ''Unsupported file metadata''), d)
      else case insert_media e d m of
             Inl er \<Rightarrow> (Inl er, d)
           | Inr d' \<Rightarrow>
               (case me_put svc finalFileName (uq_mime_type req) (uq_file_size req) isPublic of
                  None \<Rightarrow> (Inl internal_error, d')
                | Some (url, headers) \<Rightarrow>
                    (Inr \<lparr>up_media = upload_to_dto m finalFileName (if isPublic then GetPublicURL (me_urls svc) finalFileName else []),
                          up_upload_url = url, up_upload_method = ''PUT'', up_upload_headers = headers, up_expires_at = expiresAt\<rparr>, d')))"

section \<open>Completing an upload\<close>

definition before_semicolon :: "string \<Rightarrow> string" where
  "before_semicolon s = takeWhile (\<lambda>c. c \<noteq> CHR '';'') s"

definition content_type_matches :: "(string \<Rightarrow> string) \<Rightarrow> string \<Rightarrow> string \<Rightarrow> bool" where
  "content_type_matches lower mime contentType =
     (let expected = lower (TrimSpace mime); actual = lower (TrimSpace (before_semicolon contentType)) in
      contentType = [] \<or> expected = actual \<or> (expected = ''application/zip'' \<and> actual = ''application/octet-stream''))"

definition completed :: "time \<Rightarrow> media \<Rightarrow> media" where
  "completed t m = m\<lparr>md_upload_status := UploadStatusCompleted, md_completed_at := Some t, md_upload_expires_at := None\<rparr>"

definition complete_checks :: "media_service \<Rightarrow> time \<Rightarrow> uuid \<Rightarrow> media \<Rightarrow> app_error + unit" where
  "complete_checks svc t userID m =
     and_then (fail_if (md_uploaded_by_id m \<noteq> Some userID) (NewForbiddenError ''You do not own this media'')) (\<lambda>_.
     and_then (fail_if (md_upload_status m \<noteq> UploadStatusPending) (NewBadRequestError ''Media upload is not pending'')) (\<lambda>_.
     and_then (fail_if (case md_upload_expires_at m of None \<Rightarrow> False | Some ex \<Rightarrow> t > ex) (NewBadRequestError ''Media upload has expired'')) (\<lambda>_.
     case me_head svc (md_file_name m) (public_category (md_category m)) of
       None \<Rightarrow> Inl (NewBadRequestError ''Uploaded object not found'')
     | Some (objectSize, contentType) \<Rightarrow>
         and_then (fail_if (objectSize \<noteq> md_file_size m) (NewBadRequestError ''Uploaded object size mismatch'')) (\<lambda>_.
           fail_if (\<not> content_type_matches (me_lower svc) (md_mime_type m) contentType) (NewBadRequestError ''Uploaded object content type mismatch'')))))"

definition CompleteUpload :: "media_service \<Rightarrow> env \<Rightarrow> db \<Rightarrow> uuid \<Rightarrow> uuid \<Rightarrow> app_error + (upload_dto \<times> db)" where
  "CompleteUpload svc e d userID mediaID =
     and_then (on_err (ent_only (fault e ''query media'') (filter (\<lambda>m. md_id m = mediaID) (medias d)))
                (\<lambda>er. if er = NotFoundError then NewNotFoundError ''Media not found'' else internal_error)) (\<lambda>m.
     and_then (complete_checks svc (now e) userID m) (\<lambda>_.
     and_then (fail_if (fault e ''complete media'') internal_error) (\<lambda>_.
     let updated = completed (now e) m;
         url = (if public_category (md_category m) then GetPublicURL (me_urls svc) (md_file_name m)
                else case me_presign svc (md_file_name m) of Some u \<Rightarrow> u | None \<Rightarrow> []) in
       Inr (upload_to_dto updated (NormalizeStoragePath (md_file_name updated)) url,
            d\<lparr>medias := update_where (\<lambda>m. md_id m = mediaID) (completed (now e)) (medias d)\<rparr>))))"

section \<open>Reading\<close>

definition media_access :: "env \<Rightarrow> db \<Rightarrow> uuid \<Rightarrow> chat \<Rightarrow> message \<Rightarrow> app_error + bool" where
  "media_access e d userID c msg =
     (case c_type c of
        TypePrivate \<Rightarrow>
          (case private_of d (c_id c) of
             None \<Rightarrow> Inr False
           | Some pc \<Rightarrow>
               let isMember = (pc_user1_id pc = Some userID \<or> pc_user2_id pc = Some userID);
                   hiddenAt = (if pc_user1_id pc = Some userID then pc_user1_hidden_at pc else if pc_user2_id pc = Some userID then pc_user2_hidden_at pc else None) in
               if (case hiddenAt of None \<Rightarrow> False | Some h \<Rightarrow> \<not> m_created_at msg > h) then Inl (NewForbiddenError ''Media is no longer available'') else Inr isMember)
      | TypeGroup \<Rightarrow>
          (case group_of d (c_id c) of
             None \<Rightarrow> Inr False
           | Some g \<Rightarrow> on_err (ent_exist (fault e ''check media membership'')
                 (filter (\<lambda>m. gm_group_chat_id m = gc_id g \<and> gm_user_id m = userID) (group_members d))) (\<lambda>_. internal_error)))"

definition GetMediaURL :: "media_service \<Rightarrow> env \<Rightarrow> db \<Rightarrow> uuid \<Rightarrow> uuid \<Rightarrow> app_error + string" where
  "GetMediaURL svc e d userID mediaID =
     and_then (on_err (ent_only (fault e ''query media'') (filter (\<lambda>m. md_id m = mediaID) (medias d)))
                (\<lambda>er. if er = NotFoundError then NewNotFoundError ''Media not found'' else internal_error)) (\<lambda>m.
     case Option.bind (md_message_id m) (\<lambda>i. find (\<lambda>x. m_id x = i) (messages d)) of
       None \<Rightarrow> Inl (NewForbiddenError ''Media is not associated with a chat'')
     | Some msg \<Rightarrow>
       (case chat_of d (m_chat_id msg) of
          None \<Rightarrow> Inl (NewForbiddenError ''Media is not associated with a chat'')
        | Some c \<Rightarrow>
            and_then (fail_if (c_deleted_at c \<noteq> None) (NewForbiddenError ''Chat is no longer available'')) (\<lambda>_.
            and_then (fail_if (md_upload_status m \<noteq> UploadStatusCompleted) (NewBadRequestError ''Media upload is not completed'')) (\<lambda>_.
            and_then (fail_if (m_deleted_at msg \<noteq> None) (NewForbiddenError ''Media is no longer available'')) (\<lambda>_.
            and_then (media_access e d userID c msg) (\<lambda>isMember.
            and_then (fail_if (\<not> isMember) (NewForbiddenError ''You do not have access to this media'')) (\<lambda>_.
            case me_presign svc (md_file_name m) of None \<Rightarrow> Inl internal_error | Some url \<Rightarrow> Inr url)))))))"

end
