(* ===== verification/Google_Sign_In.thy ===== *)
theory Google_Sign_In
  imports Auth_Service Media_Service
begin

text \<open>
  Signing in with Google: \<open>BeginGoogleAuth\<close> and \<open>GoogleExchange\<close> of
  \<^verbatim>\<open>src/internal/api/application/auth/auth_service.go\<close>. A random state is kept for ten minutes together with the secret of the
  code exchange and, when the client is known, the digest of its fingerprint; the exchange takes it out of the store, so that it is used
  once. The provider is a pair of arguments (the exchange of the code and the profile), and so are the download of the picture, the
  object store, the digest and the encoding of the state, of which \<open>state_text\<close> states that it can be read back. Errors inside
  the transaction of a new account are those of Postgres: after a statement of the database failed, the following ones fail too.
\<close>

section \<open>The state of a sign-in\<close>

record oauth_state =
  CodeVerifier :: string
  FingerprintHash :: string

record google_user =
  gu_email :: string
  gu_verified :: "bool option"
  gu_name :: string
  gu_picture :: string
  gu_id :: string

record 's google_service =
  gs_auth :: "'s auth_service"
  gs_codec :: uuid_codec
  gs_marshal :: "oauth_state \<Rightarrow> string"
  gs_unmarshal :: "string \<Rightarrow> oauth_state option"
  gs_digest :: "string \<Rightarrow> string"
  gs_auth_url :: "string \<Rightarrow> string \<Rightarrow> string"
  gs_exchange :: "string \<Rightarrow> string \<Rightarrow> string option"
  gs_userinfo :: "string \<Rightarrow> google_user option"
  gs_download :: "string \<Rightarrow> (string \<times> string) option"
  gs_store :: "string \<Rightarrow> string \<Rightarrow> string \<Rightarrow> bool"

definition state_text :: "'s google_service \<Rightarrow> bool" where
  "state_text svc \<longleftrightarrow> (\<forall>p. gs_unmarshal svc (gs_marshal svc p) = Some p)"

abbreviation (input) gs_redis :: "'s google_service \<Rightarrow> 's redis_client" where
  "gs_redis svc \<equiv> sr_redis (au_sessions (gs_auth svc))"

definition googleOAuthStateKeyPrefix :: string where
  "googleOAuthStateKeyPrefix = ''oauth:google:state:''"

definition googleOAuthStateTTL :: duration where
  "googleOAuthStateTTL = 10 * 60 * second"

text \<open>\<open>RawURLEncoding\<close> is the encoding of the cursors without its padding.\<close>

definition codeChallengeS256 :: "'s google_service \<Rightarrow> string \<Rightarrow> string" where
  "codeChallengeS256 svc verifier = filter (\<lambda>c. c \<noteq> CHR ''='') (b64_encode (gs_digest svc verifier))"

definition fingerprint_hash :: "'s google_service \<Rightarrow> string \<Rightarrow> string" where
  "fingerprint_hash svc fingerprint = HashOTP (as_otp (au_account (gs_auth svc))) fingerprint (OTPSecret (au_cfg (gs_auth svc)))"

record google_init =
  gi_auth_url :: string
  gi_state :: string
  gi_expires_in_seconds :: int

text \<open>The random strings are the draws \<open>rnd 0\<close> and \<open>rnd 1\<close>. A struct of two strings can always be marshalled.\<close>

definition BeginGoogleAuth :: "'s google_service \<Rightarrow> env \<Rightarrow> (nat \<Rightarrow> string option) \<Rightarrow> string option \<Rightarrow> 's \<Rightarrow> (app_error + google_init) \<times> 's" where
  "BeginGoogleAuth svc e rnd ctx s =
     (case (rnd 0, rnd 1) of
        (Some state, Some codeVerifier) \<Rightarrow>
          (let fingerprint = ClientFingerprintFromContext ctx;
               payload = \<lparr>CodeVerifier = codeVerifier, FingerprintHash = (if fingerprint = [] then [] else fingerprint_hash svc fingerprint)\<rparr> in
           if fault e ''persist state'' then (Inl (NewServiceUnavailableError ''Session service unavailable''), s)
           else (Inr \<lparr>gi_auth_url = gs_auth_url svc state (codeChallengeS256 svc codeVerifier), gi_state = state,
                      gi_expires_in_seconds = googleOAuthStateTTL div second\<rparr>,
                 rc_set (gs_redis svc) s (now e) (googleOAuthStateKeyPrefix @ state) (gs_marshal svc payload) googleOAuthStateTTL))
      | _ \<Rightarrow> (Inl internal_error, s))"

section \<open>What the provider vouches for\<close>

record google_request =
  gq_code :: string
  gq_state :: string

definition take_state :: "'s google_service \<Rightarrow> env \<Rightarrow> string option \<Rightarrow> 's \<Rightarrow> string \<Rightarrow> (app_error + oauth_state) \<times> 's" where
  "take_state svc e ctx s state =
     (case GetDel (fault e ''load state'') (gs_redis svc) s (now e) (googleOAuthStateKeyPrefix @ state) of
        Inl _ \<Rightarrow> (Inl (NewServiceUnavailableError ''Session service unavailable''), s)
      | Inr (None, s1) \<Rightarrow> (Inl (NewUnauthorizedError ''Invalid or expired Google auth state''), s1)
      | Inr (Some raw, s1) \<Rightarrow>
          (case gs_unmarshal svc raw of
             None \<Rightarrow> (Inl (NewUnauthorizedError ''Invalid or expired Google auth state''), s1)
           | Some p \<Rightarrow>
               if CodeVerifier p = [] then (Inl (NewUnauthorizedError ''Invalid or expired Google auth state''), s1)
               else if FingerprintHash p \<noteq> [] \<and> (ClientFingerprintFromContext ctx = [] \<or>
                       fingerprint_hash svc (ClientFingerprintFromContext ctx) \<noteq> FingerprintHash p)
               then (Inl (NewUnauthorizedError ''Invalid Google auth state''), s1)
               else (Inr p, s1)))"

definition local_part :: "string \<Rightarrow> string" where
  "local_part email = takeWhile (\<lambda>c. c \<noteq> CHR ''@'') email"

text \<open>The profile with the normalized address and the name to show.\<close>

definition google_profile :: "'s google_service \<Rightarrow> string \<Rightarrow> string \<Rightarrow> app_error + google_user" where
  "google_profile svc code verifier =
     (case gs_exchange svc code verifier of
        None \<Rightarrow> Inl (NewUnauthorizedError ''Invalid authorization code'')
      | Some token \<Rightarrow>
          (case gs_userinfo svc token of
             None \<Rightarrow> Inl internal_error
           | Some info \<Rightarrow>
               if gu_email info = [] then Inl (NewBadRequestError ''Email not found'')
               else if gu_verified info \<noteq> Some True then Inl (NewBadRequestError ''Email from Google is not verified.'')
               else (let email = NormalizeEmail (au_lower (gs_auth svc)) (gu_email info);
                         name = TrimSpace (if gu_name info = [] then local_part email else gu_name info) in
                     if gu_id info = [] then Inl (NewBadRequestError ''Invalid Google ID'')
                     else Inr (info\<lparr>gu_email := email, gu_name := name\<rparr>))))"

section \<open>A new account\<close>

text \<open>\<open>%04d\<close> of a number below ten thousand.\<close>

definition four_digits :: "nat \<Rightarrow> string" where
  "four_digits n = replicate (4 - length (digits_nat n)) CHR ''0'' @ digits_nat n"

definition base_username :: "'s google_service \<Rightarrow> string \<Rightarrow> string" where
  "base_username svc email =
     (let b = take 40 (NormalizeUsername (au_lower (gs_auth svc)) (local_part email)) in if length b < 3 then ''user'' @ b else b)"

text \<open>Up to three candidates, one for each draw of the random numbers.\<close>

fun final_username :: "env \<Rightarrow> db \<Rightarrow> string \<Rightarrow> (nat \<Rightarrow> nat option) \<Rightarrow> nat list \<Rightarrow> app_error + string" where
  "final_username e d base rand [] = Inl (NewConflictError ''Failed to generate unique username'')"
| "final_username e d base rand (i # is) =
     (case rand i of
        None \<Rightarrow> Inl internal_error
      | Some n \<Rightarrow>
          (let candidate = base @ four_digits n in
           case ent_exist (fault e ''check generated username'') (filter (\<lambda>u. u_username u = Some candidate) (users d)) of
             Inl _ \<Rightarrow> Inl internal_error
           | Inr taken \<Rightarrow> if taken then final_username e d base rand is else Inr candidate))"

text \<open>\<open>filepath.Base\<close>\<close>

definition filepath_Base :: "string \<Rightarrow> string" where
  "filepath_Base p =
     (let trimmed = rev (dropWhile (\<lambda>c. c = CHR ''/'') (rev p)) in
      if p = [] then ''.'' else if trimmed = [] then ''/'' else last_element trimmed)"

record picture_file =
  pf_name :: string
  pf_mime :: string
  pf_data :: string

definition fetch_picture :: "'s google_service \<Rightarrow> env \<Rightarrow> string \<Rightarrow> picture_file option" where
  "fetch_picture svc e picture =
     (if picture = [] then None
      else map_option (\<lambda>(data, contentType). \<lparr>pf_name = GenerateUniqueFileName (au_lower (gs_auth svc)) (gs_codec svc) (now e) (newid e 3) picture,
             pf_mime = (if contentType = [] then ''image/jpeg'' else contentType), pf_data = data\<rparr>) (gs_download svc picture))"

definition picture_row :: "env \<Rightarrow> string \<Rightarrow> picture_file \<Rightarrow> media" where
  "picture_row e picture p = \<lparr>md_id = newid e 1, md_file_name = pf_name p, md_original_name = filepath_Base picture,
     md_file_size = int (length (pf_data p)), md_mime_type = pf_mime p, md_category = CategoryUserAvatar, md_upload_status = UploadStatusCompleted,
     md_upload_expires_at = None, md_completed_at = None, md_message_id = None, md_uploaded_by_id = Some (newid e 0), md_created_at = now e\<rparr>"

definition media_fields_ok :: "media \<Rightarrow> bool" where
  "media_fields_ok m \<longleftrightarrow> md_file_name m \<noteq> [] \<and> length (md_file_name m) \<le> 255 \<and> md_original_name m \<noteq> [] \<and> length (md_original_name m) \<le> 255 \<and>
     0 < md_file_size m \<and> md_mime_type m \<noteq> [] \<and> length (md_mime_type m) \<le> 100"

text \<open>
  The row of the picture: one the validators refuse is left out, one the database refuses ends the transaction. With the row goes the
  link from the user.
\<close>

definition add_picture :: "env \<Rightarrow> string \<Rightarrow> picture_file option \<Rightarrow> db \<Rightarrow> app_error + (picture_file option \<times> db)" where
  "add_picture e picture pic d =
     (case pic of
        None \<Rightarrow> Inr (None, d)
      | Some p \<Rightarrow>
          (let m = picture_row e picture p in
           if \<not> media_fields_ok m then Inr (None, d)
           else and_then (insert_media e d m) (\<lambda>d.
                and_then (fail_if (fault e ''link avatar'') internal_error) (\<lambda>_.
                  Inr (Some p, set_user (newid e 0) (\<lambda>u. u\<lparr>u_avatar_id := Some (newid e 1)\<rparr>) d)))))"

definition google_identity :: "env \<Rightarrow> uuid \<Rightarrow> google_user \<Rightarrow> user_identity" where
  "google_identity e userID info = \<lparr>ui_id = newid e 2, ui_user_id = userID, ui_provider = ProviderGoogle, ui_provider_id = gu_id info,
     ui_provider_email = Some (gu_email info)\<rparr>"

text \<open>The two unique indexes, the validators and the user the row refers to.\<close>

definition insert_identity :: "bool \<Rightarrow> db \<Rightarrow> user_identity \<Rightarrow> ent_error + db" where
  "insert_identity broken d i =
     (if broken \<or> ui_provider_id i = [] \<or> length (ui_provider_id i) > 255 \<or> length (text_or_empty (ui_provider_email i)) > 255 then Inl DriverError
      else if (\<exists>x\<in>set (user_identities d). ui_provider x = ui_provider i \<and> (ui_provider_id x = ui_provider_id i \<or> ui_user_id x = ui_user_id i)) \<or>
              ui_user_id i \<notin> u_id ` set (users d)
      then Inl ConstraintError
      else Inr (d\<lparr>user_identities := user_identities d @ [i]\<rparr>))"

definition create_google_rows :: "'s google_service \<Rightarrow> env \<Rightarrow> (nat \<Rightarrow> nat option) \<Rightarrow> db \<Rightarrow> google_user \<Rightarrow> picture_file option \<Rightarrow>
    app_error + (user \<times> picture_file option \<times> db)" where
  "create_google_rows svc e rand d info pic =
     and_then (begin_tx e) (\<lambda>_.
     and_then (final_username e d (base_username svc (gu_email info)) rand [0, 1, 2]) (\<lambda>finalUsername.
     let u = new_user e (gu_email info) finalUsername (gu_name info) None in
     and_then (on_err (insert_user (fault e ''create user'') d u) (\<lambda>_. internal_error)) (\<lambda>d1.
     and_then (add_picture e (gu_picture info) pic d1) (\<lambda>(pic', d2).
     and_then (on_err (insert_identity (fault e ''create identity'') d2 (google_identity e (newid e 0) info)) (\<lambda>_. internal_error)) (\<lambda>d3.
     and_then (commit e) (\<lambda>_. Inr (u, pic', d3)))))))"

text \<open>
  After the commit the picture is stored; when that fails, its row is taken back. The file name of the avatar to show is empty then. The
  objects written to the public bucket are part of the outcome.
\<close>

type_synonym stored_objects = "(string \<times> string \<times> string) list"

definition store_picture :: "'s google_service \<Rightarrow> env \<Rightarrow> picture_file option \<Rightarrow> db \<Rightarrow> string \<times> db \<times> stored_objects" where
  "store_picture svc e pic d =
     (case pic of
        None \<Rightarrow> ([], d, [])
      | Some p \<Rightarrow>
          if gs_store svc (pf_data p) (pf_mime p) (pf_name p) then (pf_name p, d, [(pf_name p, pf_mime p, pf_data p)])
          else ([], if fault e ''delete orphan media'' then d else delete_media (newid e 1) d, []))"

section \<open>The exchange\<close>

definition link_identity :: "env \<Rightarrow> db \<Rightarrow> user \<Rightarrow> google_user \<Rightarrow> db" where
  "link_identity e d u info =
     (case ent_exist (fault e ''check identity'') (filter (\<lambda>i. ui_user_id i = u_id u \<and> ui_provider i = ProviderGoogle \<and>
             ui_provider_id i = gu_id info) (user_identities d)) of
        Inl _ \<Rightarrow> d
      | Inr exists \<Rightarrow>
          if exists then d
          else (case insert_identity (fault e ''link identity'') d (google_identity e (u_id u) info) of Inl _ \<Rightarrow> d | Inr d' \<Rightarrow> d'))"

definition public_link :: "'s google_service \<Rightarrow> string \<Rightarrow> string" where
  "public_link svc avatarFileName = (if avatarFileName = [] then [] else GetPublicURL (au_urls (gs_auth svc)) avatarFileName)"

text \<open>
  For an account that exists there is no transaction: the account is read with its avatar in \<open>d0\<close>, and what others commit before the ban is
  lifted and the identity is linked is there in \<open>d\<close>.
\<close>

definition known_account :: "'s google_service \<Rightarrow> env \<Rightarrow> (time \<Rightarrow> string) \<Rightarrow> db \<Rightarrow> db \<Rightarrow> user \<Rightarrow> google_user \<Rightarrow> (app_error + auth_response) \<times> db" where
  "known_account svc e show_time d0 d u info =
     (case check_ban e d u (\<lambda>b. ''Account suspended until '' @ show_time b) of
        Inl er \<Rightarrow> (Inl er, d)
      | Inr d1 \<Rightarrow>
          (give_token (gs_auth svc) e u (public_link svc (case Option.bind (u_avatar_id u) (media_of d0) of None \<Rightarrow> [] | Some m \<Rightarrow> md_file_name m)),
           link_identity e d1 u info))"

definition new_account :: "'s google_service \<Rightarrow> env \<Rightarrow> (nat \<Rightarrow> nat option) \<Rightarrow> db \<Rightarrow> google_user \<Rightarrow>
    (app_error + auth_response) \<times> db \<times> stored_objects" where
  "new_account svc e rand d info =
     (case create_google_rows svc e rand d info (fetch_picture svc e (gu_picture info)) of
        Inl er \<Rightarrow> (Inl er, d, [])
      | Inr (u, pic, d1) \<Rightarrow>
          (case store_picture svc e pic d1 of
             (avatarFileName, d2, objs) \<Rightarrow> (give_token (gs_auth svc) e u (public_link svc avatarFileName), d2, objs)))"

definition google_sign_in :: "'s google_service \<Rightarrow> env \<Rightarrow> (nat \<Rightarrow> nat option) \<Rightarrow> (time \<Rightarrow> string) \<Rightarrow> db \<Rightarrow> db \<Rightarrow> google_user \<Rightarrow>
    (app_error + auth_response) \<times> db \<times> stored_objects" where
  "google_sign_in svc e rand show_time d0 d info =
     (case find_by_email e d0 (gu_email info) of
        Inr u \<Rightarrow> (case known_account svc e show_time d0 d u info of (r, d') \<Rightarrow> (r, d', []))
      | Inl er \<Rightarrow> if er = NotFoundError then new_account svc e rand d info else (Inl internal_error, d, []))"

definition GoogleExchangeFrom :: "'s google_service \<Rightarrow> env \<Rightarrow> (google_request \<Rightarrow> bool) \<Rightarrow> (nat \<Rightarrow> nat option) \<Rightarrow> (time \<Rightarrow> string) \<Rightarrow>
    string option \<Rightarrow> db \<Rightarrow> db \<Rightarrow> 's \<Rightarrow> google_request \<Rightarrow> (app_error + auth_response) \<times> db \<times> 's \<times> stored_objects" where
  "GoogleExchangeFrom svc e valid rand show_time ctx d0 d s req =
     (if \<not> valid req then (Inl (NewBadRequestError []), d, s, [])
      else case take_state svc e ctx s (gq_state req) of
             (Inl er, s1) \<Rightarrow> (Inl er, d, s1, [])
           | (Inr p, s1) \<Rightarrow>
               (case google_profile svc (gq_code req) (CodeVerifier p) of
                  Inl er \<Rightarrow> (Inl er, d, s1, [])
                | Inr info \<Rightarrow>
                    (case google_sign_in svc e rand show_time d0 d info of (r, d', objs) \<Rightarrow> (r, d', s1, objs))))"

text \<open>The exchange that nobody overtakes.\<close>

definition GoogleExchange :: "'s google_service \<Rightarrow> env \<Rightarrow> (google_request \<Rightarrow> bool) \<Rightarrow> (nat \<Rightarrow> nat option) \<Rightarrow> (time \<Rightarrow> string) \<Rightarrow>
    string option \<Rightarrow> db \<Rightarrow> 's \<Rightarrow> google_request \<Rightarrow> (app_error + auth_response) \<times> db \<times> 's \<times> stored_objects" where
  "GoogleExchange svc e valid rand show_time ctx d s req = GoogleExchangeFrom svc e valid rand show_time ctx d d s req"

end
