(* ===== verification/Google_Laws.thy ===== *)
theory Google_Laws
  imports Google_Sign_In Account_Laws
begin

text \<open>
  What the sign-in with Google guarantees: a state opens one exchange at most, an account is entered only by its verified address,
  no other account is touched, and the identities stay unique and bound to accounts that exist.
\<close>

section \<open>States\<close>

abbreviation (input) state_key :: "string \<Rightarrow> string" where
  "state_key st \<equiv> googleOAuthStateKeyPrefix @ st"

lemma take_state_store:
  "snd (take_state svc e ctx s st) = s \<or> snd (take_state svc e ctx s st) = rc_del (gs_redis svc) s (now e) (state_key st)"
  by (auto simp: take_state_def GetDel_def split: option.splits sum.splits)

lemma take_state_gone:
  assumes "redis_laws entry (gs_redis svc)" and "\<not> fault e ''load state''"
  shows "entry (snd (take_state svc e ctx s st)) (now e) (state_key st) = None"
  using assms by (auto simp: take_state_def GetDel_def redis_get redis_del split: option.splits)

lemma take_state_missing:
  assumes "redis_laws entry (gs_redis svc)" and "\<not> fault e ''load state''" and "entry s (now e) (state_key st) = None"
  shows "take_state svc e ctx s st = (Inl (NewUnauthorizedError ''Invalid or expired Google auth state''), s)"
  using assms by (simp add: take_state_def GetDel_def redis_get)

lemma GoogleExchange_store:
  "fst (snd (snd (GoogleExchange svc e valid rand show_time ctx d s req))) = (if valid req then snd (take_state svc e ctx s (gq_state req)) else s)"
  by (auto simp: GoogleExchange_def GoogleExchangeFrom_def split: prod.splits sum.splits)

text \<open>What others do with the store meanwhile: they start sign-ins, whose states are others, and exchange any state.\<close>

inductive sign_ins :: "'s google_service \<Rightarrow> string \<Rightarrow> time \<Rightarrow> 's \<Rightarrow> time \<Rightarrow> 's \<Rightarrow> bool" for svc st t s where
  sign_ins_none: "sign_ins svc st t s t s"
| sign_ins_begin: "sign_ins svc st t s t' s' \<Longrightarrow> t' \<le> now e \<Longrightarrow> rnd 0 \<noteq> Some st \<Longrightarrow>
    sign_ins svc st t s (now e) (snd (BeginGoogleAuth svc e rnd ctx s'))"
| sign_ins_exchange: "sign_ins svc st t s t' s' \<Longrightarrow> t' \<le> now e \<Longrightarrow>
    sign_ins svc st t s (now e) (fst (snd (snd (GoogleExchange svc e valid rand show_time ctx d s' req))))"

lemma gone_later:
  assumes "redis_laws entry R" and "entry s t k = None" and "t \<le> t'"
  shows "entry s t' k = None"
  using redis_later [OF assms(1,3), of s k] assms(2) by simp

lemma begin_keeps_gone:
  assumes "redis_laws entry (gs_redis svc)" and "entry s (now e) (state_key st) = None" and "rnd 0 \<noteq> Some st"
  shows "entry (snd (BeginGoogleAuth svc e rnd ctx s)) (now e) (state_key st) = None"
  using assms by (auto simp: BeginGoogleAuth_def Let_def redis_set googleOAuthStateTTL_def split: option.splits)

lemma exchange_keeps_gone:
  assumes "redis_laws entry (gs_redis svc)" and "entry s (now e) (state_key st) = None"
  shows "entry (fst (snd (snd (GoogleExchange svc e valid rand show_time ctx d s req)))) (now e) (state_key st) = None"
  using take_state_store [of svc e ctx s "gq_state req"] assms by (auto simp: GoogleExchange_store redis_del)

lemma sign_ins_gone:
  assumes "sign_ins svc st t s t' s'" and "redis_laws entry (gs_redis svc)" and "entry s t (state_key st) = None"
  shows "entry s' t' (state_key st) = None"
  using assms(1)
proof induction
  case (sign_ins_begin t' s' e rnd ctx)
  have "entry s' (now e) (state_key st) = None"
    by (rule gone_later [where R = "gs_redis svc" and t = t']) (fact assms(2) sign_ins_begin.IH sign_ins_begin.hyps(2))+
  with assms(2) show ?case by (rule begin_keeps_gone) (fact sign_ins_begin.hyps(3))
next
  case (sign_ins_exchange t' s' e valid rand show_time ctx d req)
  have "entry s' (now e) (state_key st) = None"
    by (rule gone_later [where R = "gs_redis svc" and t = t']) (fact assms(2) sign_ins_exchange.IH sign_ins_exchange.hyps(2))+
  with assms(2) show ?case by (rule exchange_keeps_gone)
qed (use assms(3) in simp)

text \<open>The state of a sign-in is good for one exchange: after an exchange reached the store, whatever became of it, and whatever
  sign-ins others begin or finish meanwhile, a second exchange of the same state is refused and changes nothing.
\<close>

theorem google_state_single_use:
  assumes "redis_laws entry (gs_redis svc)"
    and "valid req" and "\<not> fault e ''load state''" and "GoogleExchange svc e valid rand show_time ctx d s req = (r, d', s1, objs)"
    and "sign_ins svc (gq_state req) (now e) s1 t s2" and "t \<le> now e2"
    and "valid2 req2" and "gq_state req2 = gq_state req" and "\<not> fault e2 ''load state''"
  shows "GoogleExchange svc e2 valid2 rand2 show_time2 ctx2 d2 s2 req2 =
    (Inl (NewUnauthorizedError ''Invalid or expired Google auth state''), d2, s2, [])"
proof -
  have "s1 = snd (take_state svc e ctx s (gq_state req))"
    using GoogleExchange_store [of svc e valid rand show_time ctx d s req] assms(2,4) by simp
  then have "entry s1 (now e) (state_key (gq_state req)) = None" using take_state_gone [OF assms(1,3)] by simp
  from sign_ins_gone [OF assms(5,1) this] have "entry s2 (now e2) (state_key (gq_state req2)) = None"
    using gone_later [where R = "gs_redis svc" and t = t] assms(1,6,8) by simp
  from take_state_missing [OF assms(1,9) this] show ?thesis using assms(7) by (simp add: GoogleExchange_def GoogleExchangeFrom_def)
qed

definition sample_google :: "kv google_service" where
  "sample_google = \<lparr>gs_auth = sample_auth, gs_codec = unary_codec, gs_marshal = (\<lambda>p. CodeVerifier p @ ''.'' @ FingerprintHash p),
     gs_unmarshal = (\<lambda>s. if CHR ''.'' \<in> set s then Some \<lparr>CodeVerifier = takeWhile (\<lambda>c. c \<noteq> CHR ''.'') s, FingerprintHash = tl (dropWhile (\<lambda>c. c \<noteq> CHR ''.'') s)\<rparr> else None),
     gs_digest = id, gs_auth_url = (@), gs_exchange = (\<lambda>code v. if v = ''v'' then Some code else None),
     gs_userinfo = (\<lambda>_. Some \<lparr>gu_email = ''A@b.c'', gu_verified = Some True, gu_name = ''Ann'', gu_picture = [], gu_id = ''g''\<rparr>),
     gs_download = (\<lambda>_. None), gs_store = (\<lambda>_ _ _. True)\<rparr>"

definition sample_google_request :: google_request where
  "sample_google_request = \<lparr>gq_code = ''c'', gq_state = ''s''\<rparr>"

definition sample_google_db :: db where
  "sample_google_db = sample_db\<lparr>users := [(sample_user 1 ''Ann'')\<lparr>u_email := Some ''a@b.c''\<rparr>, sample_user 2 ''Bob'']\<rparr>"

abbreviation (input) sample_exchange :: "(app_error + auth_response) \<times> db \<times> kv \<times> stored_objects" where
  "sample_exchange \<equiv> GoogleExchange sample_google (quiet_env 0) (\<lambda>_. True) (\<lambda>_. Some 7) (\<lambda>_. []) None sample_google_db
     [''oauth:google:state:s'' \<mapsto> (''v.'', None)] sample_google_request"

theorem google_state_single_use_witness:
  "GoogleExchange sample_google (quiet_env 5) (\<lambda>_. True) (\<lambda>_. Some 7) (\<lambda>_. []) None sample_google_db (fst (snd (snd sample_exchange))) sample_google_request =
     (Inl (NewUnauthorizedError ''Invalid or expired Google auth state''), sample_google_db, fst (snd (snd sample_exchange)), [])"
proof -
  have laws: "redis_laws kv_entry_at (gs_redis sample_google)"
    by (simp add: sample_google_def sample_auth_def sample_account_def sample_sessions_def kv_redis_laws)
  have run: "sample_exchange = (fst sample_exchange, fst (snd sample_exchange), fst (snd (snd sample_exchange)), snd (snd (snd sample_exchange)))"
    by simp
  have none: "sign_ins sample_google (gq_state sample_google_request) (now (quiet_env 0)) (fst (snd (snd sample_exchange))) 0 (fst (snd (snd sample_exchange)))"
    using sign_ins_none [of sample_google "gq_state sample_google_request" 0] by (simp add: quiet_env_def)
  show ?thesis
    by (rule google_state_single_use [OF laws _ _ run none]) (simp_all add: quiet_env_def)
qed

section \<open>Accounts\<close>

lemma google_profile_Inr:
  assumes "google_profile svc code v = Inr info"
  obtains token i where "gs_exchange svc code v = Some token" and "gs_userinfo svc token = Some i" and "gu_verified i = Some True"
    and "gu_email info = NormalizeEmail (au_lower (gs_auth svc)) (gu_email i)" and "gu_id info = gu_id i" and "gu_id i \<noteq> []"
  using assms by (auto simp: google_profile_def Let_def split: option.splits if_splits)

lemma give_token_Inr:
  "give_token svc e u a = Inr resp \<Longrightarrow> GenerateJWT (au_jwt svc) (JWTSecret (au_cfg svc)) (JWTExp (au_cfg svc)) (now e) (u_id u) = Some (ar_token resp)"
  by (auto simp: give_token_def split: option.splits)

lemma check_ban_Inr:
  assumes "check_ban e d u f = Inr d'"
  shows "d' = d \<and> \<not> u_is_banned u \<or> d' = lift_ban e (u_id u) d \<and> (\<exists>b. u_banned_until u = Some b \<and> b \<le> now e)"
  using assms by (auto simp: check_ban_def split: if_splits option.splits)

text \<open>An account that may be entered: live, with the address, and not banned at the time.\<close>

definition open_account :: "time \<Rightarrow> string \<Rightarrow> user \<Rightarrow> bool" where
  "open_account t email u \<longleftrightarrow> u_email u = Some email \<and> u_deleted_at u = None \<and> (u_is_banned u \<longrightarrow> (\<exists>b. u_banned_until u = Some b \<and> b \<le> t))"

definition only_touches :: "uuid \<Rightarrow> db \<Rightarrow> db \<Rightarrow> bool" where
  "only_touches i d d' \<longleftrightarrow> (\<forall>v\<in>set (users d). u_id v \<noteq> i \<longrightarrow> v \<in> set (users d'))"

lemma users_link_identity [simp]: "users (link_identity e d u info) = users d"
  by (auto simp: link_identity_def insert_identity_def split: sum.splits)

lemma lift_ban_account:
  assumes "u \<in> set (users d)" and "open_account t email u"
  shows "\<exists>w\<in>set (users (lift_ban e (u_id u) d)). u_id w = u_id u \<and> open_account t email w"
  using assms by (auto simp: lift_ban_def set_user_def bex_update_where open_account_def)

lemma lift_ban_touches: "only_touches i d (lift_ban e i d)"
  by (auto simp: only_touches_def lift_ban_def set_user_def in_update_where)

lemma check_ban_account:
  assumes "check_ban e d u f = Inr d1" and "u \<in> set (users d)" and "u_email u = Some email" and "u_deleted_at u = None"
  shows "\<exists>w\<in>set (users d1). u_id w = u_id u \<and> open_account (now e) email w"
proof -
  have acc: "open_account (now e) email u" using check_ban_Inr [OF assms(1)] assms(3,4) by (auto simp: open_account_def)
  from check_ban_Inr [OF assms(1)] show ?thesis using lift_ban_account [OF assms(2) acc] assms(2) acc by auto
qed

lemma known_account_Inr:
  assumes "known_account svc e show_time d0 d u info = (Inr resp, d')" and "find_by_email e d (gu_email info) = Inr u"
  shows "\<exists>w\<in>set (users d'). u_id w = u_id u \<and> open_account (now e) (gu_email info) w" and "only_touches (u_id u) d d'"
    and "give_token (gs_auth svc) e u (public_link svc (case Option.bind (u_avatar_id u) (media_of d0) of None \<Rightarrow> [] | Some m \<Rightarrow> md_file_name m)) = Inr resp"
proof -
  have u: "u \<in> set (users d)" "u_email u = Some (gu_email info)" "u_deleted_at u = None"
    using assms(2) by (auto simp: find_by_email_def result_simps dest: filter_eq_ConsD)
  obtain d1 where d1: "check_ban e d u (\<lambda>b. ''Account suspended until '' @ show_time b) = Inr d1" "d' = link_identity e d1 u info"
    and "give_token (gs_auth svc) e u (public_link svc (case Option.bind (u_avatar_id u) (media_of d0) of None \<Rightarrow> [] | Some m \<Rightarrow> md_file_name m)) = Inr resp"
    using assms(1) by (auto simp: known_account_def split: sum.splits)
  then show "give_token (gs_auth svc) e u (public_link svc (case Option.bind (u_avatar_id u) (media_of d0) of None \<Rightarrow> [] | Some m \<Rightarrow> md_file_name m)) = Inr resp" by simp
  from check_ban_account [OF d1(1) u] show "\<exists>w\<in>set (users d'). u_id w = u_id u \<and> open_account (now e) (gu_email info) w" by (simp add: d1(2))
  from check_ban_Inr [OF d1(1)] show "only_touches (u_id u) d d'"
    using lift_ban_touches [of "u_id u" d e] by (auto simp: d1(2) only_touches_def)
qed

lemma add_picture_Inr:
  assumes "add_picture e picture pic d = Inr (pic', d')"
  shows "user_identities d' = user_identities d"
    and "\<exists>av. users d' = update_where (\<lambda>u. u_id u = newid e 0) (\<lambda>u. u\<lparr>u_avatar_id := (if av then Some (newid e 1) else u_avatar_id u)\<rparr>) (users d)"
    and "medias d' = medias d \<or> (\<exists>p. medias d' = medias d @ [picture_row e picture p])"
proof -
  consider (none) "d' = d" | (row) p where "users d' = update_where (\<lambda>u. u_id u = newid e 0) (\<lambda>u. u\<lparr>u_avatar_id := Some (newid e 1)\<rparr>) (users d)"
      "user_identities d' = user_identities d" "medias d' = medias d @ [picture_row e picture p]"
    using assms by (auto simp: add_picture_def insert_media_def set_user_def Let_def result_simps split: option.splits if_splits)
  note rows = this
  show "user_identities d' = user_identities d" using rows by cases simp_all
  show "medias d' = medias d \<or> (\<exists>p. medias d' = medias d @ [picture_row e picture p])" using rows by cases blast+
  show "\<exists>av. users d' = update_where (\<lambda>u. u_id u = newid e 0) (\<lambda>u. u\<lparr>u_avatar_id := (if av then Some (newid e 1) else u_avatar_id u)\<rparr>) (users d)"
    using rows
  proof cases
    case none
    then show ?thesis by (intro exI [of _ False]) (simp add: update_where_def map_idI)
  next
    case row
    then show ?thesis by (intro exI [of _ True]) simp
  qed
qed

lemma insert_identity_Inr:
  assumes "insert_identity broken d i = Inr d'"
  shows "d' = d\<lparr>user_identities := user_identities d @ [i]\<rparr>" and "ui_user_id i \<in> u_id ` set (users d)"
    and "\<forall>x\<in>set (user_identities d). ui_provider x = ui_provider i \<longrightarrow> ui_provider_id x \<noteq> ui_provider_id i \<and> ui_user_id x \<noteq> ui_user_id i"
  using assms by (auto simp: insert_identity_def split: if_splits)

lemma create_google_rows_Inr:
  assumes "create_google_rows svc e rand d info pic = Inr (u, pic', d')" and "newid e 0 \<notin> u_id ` set (users d)"
  obtains name av where "u = new_user e (gu_email info) name (gu_name info) None" and "user_unique (users d) u"
    and "users d' = users d @ [u\<lparr>u_avatar_id := av\<rparr>]" and "av \<in> {None, Some (newid e 1)}"
    and "user_identities d' = user_identities d @ [google_identity e (newid e 0) info]"
    and "\<forall>x\<in>set (user_identities d). ui_provider_id x \<noteq> gu_id info \<and> ui_user_id x \<noteq> newid e 0"
    and "medias d' = medias d \<or> (\<exists>p. medias d' = medias d @ [picture_row e (gu_picture info) p])"
proof -
  obtain name d1 d2 where u: "u = new_user e (gu_email info) name (gu_name info) None"
    and ins: "insert_user (fault e ''create user'') d u = Inr d1" and pic: "add_picture e (gu_picture info) pic d1 = Inr (pic', d2)"
    and idn: "insert_identity (fault e ''create identity'') d2 (google_identity e (newid e 0) info) = Inr d'"
    using assms(1) by (auto simp: create_google_rows_def result_simps Let_def)
  have d1: "d1 = d\<lparr>users := users d @ [u]\<rparr>" "user_unique (users d) u" using ins by (auto simp: insert_user_def split: if_splits)
  obtain av where av: "users d2 = update_where (\<lambda>u. u_id u = newid e 0) (\<lambda>u. u\<lparr>u_avatar_id := (if av then Some (newid e 1) else u_avatar_id u)\<rparr>) (users d @ [u])"
    using add_picture_Inr(2) [OF pic] by (auto simp: d1(1))
  have "update_where (\<lambda>u. u_id u = newid e 0) f (users d) = users d" for f
    by (rule update_where_none) (use assms(2) in \<open>metis imageI\<close>)
  then have us: "users d2 = users d @ [u\<lparr>u_avatar_id := (if av then Some (newid e 1) else None)\<rparr>]"
    using av by (simp add: u new_user_def update_where_def)
  have i: "user_identities d2 = user_identities d" using add_picture_Inr(1) [OF pic] by (simp add: d1(1))
  have prov: "ui_provider x = ProviderGoogle" for x by (cases "ui_provider x") simp
  show ?thesis
  proof (rule that [OF u d1(2)])
    show "users d' = users d @ [u\<lparr>u_avatar_id := (if av then Some (newid e 1) else None)\<rparr>]" using insert_identity_Inr(1) [OF idn] us by simp
    show "user_identities d' = user_identities d @ [google_identity e (newid e 0) info]" using insert_identity_Inr(1) [OF idn] i by simp
    show "\<forall>x\<in>set (user_identities d). ui_provider_id x \<noteq> gu_id info \<and> ui_user_id x \<noteq> newid e 0"
      using insert_identity_Inr(3) [OF idn] i by (simp add: google_identity_def prov)
    show "medias d' = medias d \<or> (\<exists>p. medias d' = medias d @ [picture_row e (gu_picture info) p])"
      using add_picture_Inr(3) [OF pic] insert_identity_Inr(1) [OF idn] by (simp add: d1(1))
  qed simp
qed

lemma store_picture_rows:
  assumes "store_picture svc e pic d = (f, d', objs)"
  shows "d' = d \<or> d' = delete_media (newid e 1) d"
  using assms by (auto simp: store_picture_def split: option.splits if_splits)

lemma new_account_Inr:
  assumes "new_account svc e rand d info = (Inr resp, d', objs)" and "newid e 0 \<notin> u_id ` set (users d)"
    and "\<forall>v\<in>set (users d). u_avatar_id v \<noteq> Some (newid e 1)"
  obtains u a where "u \<in> set (users d')" and "u_id u = newid e 0" and "open_account (now e) (gu_email info) u" and "only_touches (newid e 0) d d'"
    and "give_token (gs_auth svc) e u a = Inr resp"
proof -
  obtain u0 pic d1 f where rows: "create_google_rows svc e rand d info (fetch_picture svc e (gu_picture info)) = Inr (u0, pic, d1)"
    and store: "store_picture svc e pic d1 = (f, d', objs)" and tok: "give_token (gs_auth svc) e u0 (public_link svc f) = Inr resp"
    using assms(1) by (auto simp: new_account_def split: sum.splits prod.splits)
  obtain name av where u0: "u0 = new_user e (gu_email info) name (gu_name info) None" and us: "users d1 = users d @ [u0\<lparr>u_avatar_id := av\<rparr>]"
    by (rule create_google_rows_Inr [OF rows assms(2)])
  have keep: "v\<lparr>u_avatar_id := cleared (\<lambda>j. j = newid e 1) (u_avatar_id v)\<rparr> = v" if "v \<in> set (users d)" for v
    using assms(3) that by (auto simp: cleared_def split: option.splits)
  obtain av' where us': "users d' = users d @ [u0\<lparr>u_avatar_id := av'\<rparr>]"
    using store_picture_rows [OF store] us keep by (auto simp: delete_media_def map_idI)
  let ?u = "u0\<lparr>u_avatar_id := av'\<rparr>"
  obtain a where "give_token (gs_auth svc) e ?u a = Inr resp"
    using tok by (auto simp: give_token_def auth_user_dto_def split: option.splits)
  moreover have "open_account (now e) (gu_email info) ?u" "u_id ?u = newid e 0" by (simp_all add: u0 new_user_def open_account_def)
  moreover have "only_touches (newid e 0) d d'" by (simp add: only_touches_def us')
  ultimately show ?thesis using us' by (intro that) simp_all
qed

lemma GoogleExchange_Inr:
  assumes "GoogleExchange svc e valid rand show_time ctx d s req = (Inr resp, d', s', objs)"
  obtains p info where "take_state svc e ctx s (gq_state req) = (Inr p, s')" and "google_profile svc (gq_code req) (CodeVerifier p) = Inr info"
    and "google_sign_in svc e rand show_time d d info = (Inr resp, d', objs)"
  using assms by (auto simp: GoogleExchange_def GoogleExchangeFrom_def split: if_splits prod.splits sum.splits)

text \<open>C30. Whoever signs in with Google took a stored state, and the provider vouched for an address in exchange for the code and the secret
  of that state; the token is one of the account with the normalized address, which is live and not banned, and no other account
  changes. When there was an account with the address already, it is that one.
\<close>

theorem google_enters_verified_account:
  assumes "GoogleExchange svc e valid rand show_time ctx d s req = (Inr resp, d', s', objs)"
    and "newid e 0 \<notin> u_id ` set (users d)" and "\<forall>v\<in>set (users d). u_avatar_id v \<noteq> Some (newid e 1)"
  shows "\<exists>p token info u. take_state svc e ctx s (gq_state req) = (Inr p, s') \<and>
     gs_exchange svc (gq_code req) (CodeVerifier p) = Some token \<and> gs_userinfo svc token = Some info \<and> gu_verified info = Some True \<and>
     u \<in> set (users d') \<and> open_account (now e) (NormalizeEmail (au_lower (gs_auth svc)) (gu_email info)) u \<and>
     GenerateJWT (au_jwt (gs_auth svc)) (JWTSecret (au_cfg (gs_auth svc))) (JWTExp (au_cfg (gs_auth svc))) (now e) (u_id u) = Some (ar_token resp) \<and>
     only_touches (u_id u) d d' \<and> (\<forall>v\<in>set (users d). u_email v = u_email u \<and> u_deleted_at v = None \<longrightarrow> u_id v = u_id u)"
proof -
  obtain p info where st: "take_state svc e ctx s (gq_state req) = (Inr p, s')" and prof: "google_profile svc (gq_code req) (CodeVerifier p) = Inr info"
    and sign: "google_sign_in svc e rand show_time d d info = (Inr resp, d', objs)" by (rule GoogleExchange_Inr [OF assms(1)])
  obtain token i where i: "gs_exchange svc (gq_code req) (CodeVerifier p) = Some token" "gs_userinfo svc token = Some i" "gu_verified i = Some True"
    "gu_email info = NormalizeEmail (au_lower (gs_auth svc)) (gu_email i)" by (rule google_profile_Inr [OF prof])
  let ?jwt = "\<lambda>i. GenerateJWT (au_jwt (gs_auth svc)) (JWTSecret (au_cfg (gs_auth svc))) (JWTExp (au_cfg (gs_auth svc))) (now e) i"
  have "\<exists>u. u \<in> set (users d') \<and> open_account (now e) (gu_email info) u \<and> ?jwt (u_id u) = Some (ar_token resp) \<and> only_touches (u_id u) d d' \<and>
      (\<forall>v\<in>set (users d). u_email v = Some (gu_email info) \<and> u_deleted_at v = None \<longrightarrow> u_id v = u_id u)"
  proof (cases "find_by_email e d (gu_email info)")
    case (Inr w)
    then have known: "known_account svc e show_time d d w info = (Inr resp, d')" using sign by (auto simp: google_sign_in_def split: prod.splits)
    obtain u where u: "u \<in> set (users d')" "u_id u = u_id w" "open_account (now e) (gu_email info) u" using known_account_Inr(1) [OF known Inr] by blast
    have "set (filter (\<lambda>u. u_email u = Some (gu_email info) \<and> u_deleted_at u = None) (users d)) = {w}"
      using Inr by (simp add: find_by_email_def result_simps del: set_filter)
    then have one: "\<forall>v\<in>set (users d). u_email v = Some (gu_email info) \<and> u_deleted_at v = None \<longrightarrow> v = w" by auto
    have "?jwt (u_id u) = Some (ar_token resp)" using give_token_Inr [OF known_account_Inr(3) [OF known Inr]] u(2) by simp
    then show ?thesis using u known_account_Inr(2) [OF known Inr] one by auto
  next
    case (Inl er)
    then have er: "er = NotFoundError" and new: "new_account svc e rand d info = (Inr resp, d', objs)"
      using sign by (auto simp: google_sign_in_def split: if_splits)
    have "\<forall>v\<in>set (users d). \<not> (u_email v = Some (gu_email info) \<and> u_deleted_at v = None)"
      using Inl er by (auto simp: find_by_email_def result_simps filter_empty_conv)
    moreover obtain u a where "u \<in> set (users d')" "u_id u = newid e 0" "open_account (now e) (gu_email info) u" "only_touches (newid e 0) d d'"
        "give_token (gs_auth svc) e u a = Inr resp" by (rule new_account_Inr [OF new assms(2,3)])
    moreover from this have "?jwt (newid e 0) = Some (ar_token resp)" using give_token_Inr [of "gs_auth svc" e u a resp] by simp
    ultimately show ?thesis by (intro exI [of _ u]) auto
  qed
  then obtain u where u: "u \<in> set (users d')" "open_account (now e) (gu_email info) u" "?jwt (u_id u) = Some (ar_token resp)" "only_touches (u_id u) d d'"
      "\<forall>v\<in>set (users d). u_email v = Some (gu_email info) \<and> u_deleted_at v = None \<longrightarrow> u_id v = u_id u" by blast
  then have "u_email u = Some (gu_email info)" by (simp add: open_account_def)
  with u(5) have one: "\<forall>v\<in>set (users d). u_email v = u_email u \<and> u_deleted_at v = None \<longrightarrow> u_id v = u_id u" by simp
  show ?thesis
    by (intro exI conjI) (fact st i u(1) u(2) [unfolded i(4)] u(3,4) one)+
qed

definition sample_info :: google_user where
  "sample_info = \<lparr>gu_email = ''a@b.c'', gu_verified = Some True, gu_name = ''Ann'', gu_picture = [], gu_id = ''g''\<rparr>"

lemma sample_profile: "google_profile sample_google ''c'' ''v'' = Inr sample_info"
proof -
  have "no_space ''Ann''" by code_simp
  then have "TrimSpace ''Ann'' = ''Ann''" by (rule TrimSpace_no_space)
  then show ?thesis using sample_email(2)
    by (simp add: google_profile_def sample_google_def sample_auth_def sample_account_def sample_otp_def sample_info_def Let_def)
qed

lemma sample_exchange_Inr: "\<exists>resp s. sample_exchange = (Inr resp, fst (snd sample_exchange), s, snd (snd (snd sample_exchange)))"
proof -
  have "fst (take_state sample_google (quiet_env 0) None [''oauth:google:state:s'' \<mapsto> (''v.'', None)] ''s'') = Inr \<lparr>CodeVerifier = ''v'', FingerprintHash = []\<rparr>"
    by code_simp
  moreover have "case fst (google_sign_in sample_google (quiet_env 0) (\<lambda>_. Some 7) (\<lambda>_. []) sample_google_db sample_google_db sample_info) of Inl _ \<Rightarrow> False | Inr _ \<Rightarrow> True"
    by code_simp
  ultimately show ?thesis
    using sample_profile by (auto simp: GoogleExchange_def GoogleExchangeFrom_def sample_google_request_def split: prod.splits sum.splits)
qed

theorem google_enters_verified_account_witness:
  "\<exists>(p :: oauth_state) token info u resp. gs_exchange sample_google (gq_code sample_google_request) (CodeVerifier p) = Some token \<and>
     gs_userinfo sample_google token = Some info \<and> gu_verified info = Some True \<and>
     fst sample_exchange = Inr resp \<and> u \<in> set (users (fst (snd sample_exchange))) \<and> open_account 0 (NormalizeEmail id (gu_email info)) u \<and>
     GenerateJWT sample_jwt ''s'' 3600 0 (u_id u) = Some (ar_token resp)"
proof -
  obtain resp s' where run: "sample_exchange = (Inr resp, fst (snd sample_exchange), s', snd (snd (snd sample_exchange)))"
    using sample_exchange_Inr by blast
  have fresh: "newid (quiet_env 0) 0 \<notin> u_id ` set (users sample_google_db)" "\<forall>v\<in>set (users sample_google_db). u_avatar_id v \<noteq> Some (newid (quiet_env 0) 1)"
    by (simp_all add: sample_google_db_def quiet_env_def sample_user_def)
  have cfg: "au_jwt (gs_auth sample_google) = sample_jwt" "JWTSecret (au_cfg (gs_auth sample_google)) = ''s''" "JWTExp (au_cfg (gs_auth sample_google)) = 3600"
    "au_lower (gs_auth sample_google) = id" "now (quiet_env 0) = 0"
    by (simp_all add: sample_google_def sample_auth_def sample_account_def sample_sessions_def sample_otp_def quiet_env_def)
  have "fst sample_exchange = Inr resp" using run by (metis fst_conv)
  then show ?thesis using google_enters_verified_account [OF run fresh, unfolded cfg] by blast
qed

section \<open>Identities\<close>












subsection \<open>The other handlers of an account\<close>

lemma commit_with_revoke_db: "fst (snd (commit_with_revoke r e nonce i d d' s)) \<in> {d, d'}"
  by (auto simp: commit_with_revoke_def split: sum.splits)















section \<open>A changed address\<close>

text \<open>The account is looked up by the address alone: a user whose Google account has got another address is not signed in to the linked
  account. When no account has the new address, the sign-in fails and leaves the database as it is, although the identity is known.
\<close>

theorem google_changed_address_locked_out:
  assumes "valid req" and "take_state svc e ctx s (gq_state req) = (Inr p, s1)" and "google_profile svc (gq_code req) (CodeVerifier p) = Inr info"
    and "i \<in> set (user_identities d)" and "ui_provider_id i = gu_id info"
    and "\<forall>u\<in>set (users d). u_email u = Some (gu_email info) \<longrightarrow> u_deleted_at u \<noteq> None" and "newid e 0 \<notin> u_id ` set (users d)"
  shows "\<exists>er. GoogleExchange svc e valid rand show_time ctx d s req = (Inl er, d, s1, [])"
proof -
  have none: "filter (\<lambda>u. u_email u = Some (gu_email info) \<and> u_deleted_at u = None) (users d) = []"
    using assms(6) by (auto simp: filter_empty_conv)
  have "\<exists>er. create_google_rows svc e rand d info (fetch_picture svc e (gu_picture info)) = Inl er"
  proof (rule ccontr)
    assume "\<not> ?thesis"
    then obtain u pic d1 where "create_google_rows svc e rand d info (fetch_picture svc e (gu_picture info)) = Inr (u, pic, d1)"
      by (cases "create_google_rows svc e rand d info (fetch_picture svc e (gu_picture info))") auto
    then show False using assms(4,5,7) by (auto elim: create_google_rows_Inr)
  qed
  then obtain er where "new_account svc e rand d info = (Inl er, d, [])" by (auto simp: new_account_def)
  then show ?thesis using assms(1-3) none by (cases "fault e ''query user by email''") (auto simp: GoogleExchange_def GoogleExchangeFrom_def google_sign_in_def find_by_email_def ent_only_def)
qed

definition sample_moved_db :: db where
  "sample_moved_db = sample_db\<lparr>users := [(sample_user 1 ''Ann'')\<lparr>u_email := Some ''x@y.z''\<rparr>],
     user_identities := [\<lparr>ui_id = 3, ui_user_id = 1, ui_provider = ProviderGoogle, ui_provider_id = ''g'', ui_provider_email = Some ''x@y.z''\<rparr>]\<rparr>"

theorem google_changed_address_locked_out_witness:
  "\<exists>er s1. GoogleExchange sample_google (quiet_env 0) (\<lambda>_. True) (\<lambda>_. Some 7) (\<lambda>_. []) None sample_moved_db
     [''oauth:google:state:s'' \<mapsto> (''v.'', None)] sample_google_request = (Inl er, sample_moved_db, s1, [])"
proof -
  have "fst (take_state sample_google (quiet_env 0) None [''oauth:google:state:s'' \<mapsto> (''v.'', None)] (gq_state sample_google_request)) =
      Inr \<lparr>CodeVerifier = ''v'', FingerprintHash = []\<rparr>" by code_simp
  then obtain s1 where taken: "take_state sample_google (quiet_env 0) None [''oauth:google:state:s'' \<mapsto> (''v.'', None)] (gq_state sample_google_request) =
      (Inr \<lparr>CodeVerifier = ''v'', FingerprintHash = []\<rparr>, s1)" by (metis prod.collapse)
  have prof: "google_profile sample_google (gq_code sample_google_request) (CodeVerifier \<lparr>CodeVerifier = ''v'', FingerprintHash = []\<rparr>) = Inr sample_info"
    using sample_profile by (simp add: sample_google_request_def)
  have "\<exists>er. GoogleExchange sample_google (quiet_env 0) (\<lambda>_. True) (\<lambda>_. Some 7) (\<lambda>_. []) None sample_moved_db
     [''oauth:google:state:s'' \<mapsto> (''v.'', None)] sample_google_request = (Inl er, sample_moved_db, s1, [])"
    by (rule google_changed_address_locked_out [OF _ taken prof, where i = "hd (user_identities sample_moved_db)"])
      (simp_all add: sample_moved_db_def sample_info_def quiet_env_def)
  then show ?thesis by blast
qed

end
