(* ===== verification/Media_Laws.thy ===== *)
theory Media_Laws
  imports Media_Service Evidence_Laws Google_Laws
begin

text \<open>
  What uploads guarantee to the rest of the program: a row is well formed at every stage of its life, only a verified object is ever
  attached to a message, and the link of an attachment is given out to exactly the users who may read the message.
\<close>

section \<open>Rows\<close>

definition media_row_ok :: "media \<Rightarrow> bool" where
  "media_row_ok m \<longleftrightarrow> (md_upload_status m = UploadStatusPending \<longleftrightarrow> md_upload_expires_at m \<noteq> None) \<and>
     (md_completed_at m \<noteq> None \<longrightarrow> md_upload_status m = UploadStatusCompleted) \<and>
     (md_message_id m \<noteq> None \<longrightarrow> md_upload_status m = UploadStatusCompleted \<and> md_category m = CategoryMessageAttachment)"

definition media_ok :: "db \<Rightarrow> bool" where
  "media_ok d \<longleftrightarrow> distinct (map md_id (medias d)) \<and> (\<forall>m\<in>set (medias d). media_row_ok m)"

lemma media_row_ok_unlinked [simp]: "media_row_ok m \<Longrightarrow> media_row_ok (m\<lparr>md_message_id := None\<rparr>)"
  by (simp add: media_row_ok_def)

lemma media_ok_update:
  assumes "media_ok d" and "medias d' = update_where P f (medias d)" and "\<And>m. md_id (f m) = md_id m"
    and "\<And>m. m \<in> set (medias d) \<Longrightarrow> P m \<Longrightarrow> media_row_ok m \<Longrightarrow> media_row_ok (f m)"
  shows "media_ok d'"
  using assms by (auto simp: media_ok_def update_where_key in_update_where)

lemma media_ok_cong: "medias d' = medias d \<Longrightarrow> media_ok d' = media_ok d"
  by (simp add: media_ok_def)

lemma UploadMedia_ok:
  assumes "UploadMedia svc e valid d userID req = (r, d')" and "media_ok d" and "newid e 0 \<notin> md_id ` set (medias d)"
  shows "media_ok d'"
proof -
  have "d' = d \<or> (\<exists>m. medias d' = medias d @ [m] \<and> md_id m = newid e 0 \<and> media_row_ok m)"
    using assms(1)
    by (auto simp: UploadMedia_def insert_media_def media_row_ok_def Let_def split: if_splits sum.splits option.splits)
  then show ?thesis using assms(2,3) by (auto simp: media_ok_def)
qed

lemma CompleteUpload_Inr:
  assumes "CompleteUpload svc e d userID mediaID = Inr (dto, d')"
  obtains m where "m \<in> set (medias d)" and "md_id m = mediaID" and "complete_checks svc (now e) userID m = Inr ()"
    and "d' = d\<lparr>medias := update_where (\<lambda>m. md_id m = mediaID) (completed (now e)) (medias d)\<rparr>"
proof -
  obtain m where f: "filter (\<lambda>m. md_id m = mediaID) (medias d) = [m]" and c: "complete_checks svc (now e) userID m = Inr ()"
    and d': "d' = d\<lparr>medias := update_where (\<lambda>m. md_id m = mediaID) (completed (now e)) (medias d)\<rparr>"
    using assms by (auto simp: CompleteUpload_def Let_def result_simps)
  have "m \<in> set (filter (\<lambda>m. md_id m = mediaID) (medias d))" using f by simp
  then show thesis using c d' by (intro that) auto
qed

lemma CompleteUpload_ok:
  assumes "CompleteUpload svc e d userID mediaID = Inr (dto, d')" and "media_ok d"
  shows "media_ok d'"
proof (rule CompleteUpload_Inr [OF assms(1)])
  assume "d' = d\<lparr>medias := update_where (\<lambda>m. md_id m = mediaID) (completed (now e)) (medias d)\<rparr>"
  then have "medias d' = update_where (\<lambda>m. md_id m = mediaID) (completed (now e)) (medias d)" by simp
  then show ?thesis by (rule media_ok_update [OF assms(2)]) (auto simp: completed_def media_row_ok_def)
qed

lemma linked_ok:
  assumes "media_ok d" and "\<forall>i\<in>set ids. \<exists>m\<in>set (medias d). md_id m = i \<and> attachable d0 uid ids m"
    and "m \<in> set (medias d)" and "md_id m \<in> set ids" and "media_row_ok m"
  shows "media_row_ok (m\<lparr>md_message_id := Some i\<rparr>)"
proof -
  obtain m' where m': "m' \<in> set (medias d)" "md_id m' = md_id m" "attachable d0 uid ids m'" using assms(2,4) by blast
  then have "m' = m" using assms(1,3) distinct_key_eq [of md_id "medias d" m' m] by (simp add: media_ok_def)
  with m' assms(5) show ?thesis by (simp add: attachable_def media_row_ok_def)
qed

lemma SendMessage_ok:
  assumes "SendMessage svc e valid d uid req = Inr (resp, d')" and "media_ok d"
  shows "media_ok d'"
proof (rule SendMessage_Inr [OF assms(1)])
  fix row
  assume dist: "distinct (sr_attachment_ids req)" and ck: "check_attachments e d uid (sr_attachment_ids req) = Inr ()"
    and d': "d' = d\<lparr>messages := messages d @ [sent_message e uid (req\<lparr>sr_content := TrimSpace (sr_content req)\<rparr>)], outbox := outbox d @ [row],
       medias := update_where (\<lambda>m. md_id m \<in> set (sr_attachment_ids req) \<and> md_message_id m = None)
         (\<lambda>m. m\<lparr>md_message_id := Some (newid e 0)\<rparr>) (medias d)\<rparr>"
  have "\<forall>i\<in>set (sr_attachment_ids req). \<exists>m\<in>set (medias d). md_id m = i \<and> attachable d uid (sr_attachment_ids req) m"
    using assms(2) by (intro check_attachments_all [OF ck dist]) (simp add: media_ok_def)
  note all = this
  have "medias d' = update_where (\<lambda>m. md_id m \<in> set (sr_attachment_ids req) \<and> md_message_id m = None)
      (\<lambda>m. m\<lparr>md_message_id := Some (newid e 0)\<rparr>) (medias d)" by (simp add: d')
  then show ?thesis by (rule media_ok_update [OF assms(2)]) (auto intro: linked_ok [OF assms(2) all])
qed

lemma apply_edit_ok:
  assumes "apply_edit svc e d uid msg content un lk role = Inr (resp, d')" and "distinct lk" and "media_ok d"
  shows "media_ok d'"
proof -
  have "\<exists>d1 row. (lk = [] \<or> length (filter (edit_attachable d uid lk) (medias d)) = length lk) \<and> link_attachments (m_id msg) lk (unlink_attachments (m_id msg) un
        (d\<lparr>messages := update_where (\<lambda>m. m_id m = m_id msg) (edited e content) (messages d)\<rparr>)) = Inr d1 \<and> d' = d1\<lparr>outbox := outbox d1 @ [row]\<rparr>"
    using assms(1) unfolding apply_edit_def by (simp only: handler_simps if_split_eq1 not_not) metis
  then obtain d1 row where count: "lk = [] \<or> length (filter (edit_attachable d uid lk) (medias d)) = length lk"
    and link: "link_attachments (m_id msg) lk (unlink_attachments (m_id msg) un
        (d\<lparr>messages := update_where (\<lambda>m. m_id m = m_id msg) (edited e content) (messages d)\<rparr>)) = Inr d1"
    and d': "d' = d1\<lparr>outbox := outbox d1 @ [row]\<rparr>" by blast
  let ?u = "unlink_attachments (m_id msg) un d"
  have "medias ?u = update_where (\<lambda>m. md_id m \<in> set un \<and> md_message_id m = Some (m_id msg)) (\<lambda>m. m\<lparr>md_message_id := None\<rparr>) (medias d)"
    by (simp add: unlink_attachments_def)
  then have u: "media_ok ?u" by (rule media_ok_update [OF assms(3)]) auto
  have "\<forall>i\<in>set lk. \<exists>m\<in>set (medias d). md_id m = i \<and> edit_attachable d uid lk m"
    using count assms(2,3) counted_all [of "edit_attachable d uid lk" "medias d" lk] by (auto simp: media_ok_def edit_attachable_def attachable_def)
  then have all: "\<forall>i\<in>set lk. \<exists>m\<in>set (medias ?u). md_id m = i \<and> attachable d uid lk m"
    by (force simp: unlink_attachments_def in_update_where edit_attachable_def attachable_def)
  have "medias d' = update_where (\<lambda>m. md_id m \<in> set lk \<and> md_message_id m = None) (\<lambda>m. m\<lparr>md_message_id := Some (m_id msg)\<rparr>) (medias ?u)"
    using link_attachments_Inr [OF link] by (simp add: d' unlink_attachments_def)
  then show ?thesis by (rule media_ok_update [OF u]) (auto intro: linked_ok [OF u all])
qed

lemma EditMessage_ok: "EditMessage svc e valid d uid mid req = Inr (resp, d') \<Longrightarrow> media_ok d \<Longrightarrow> media_ok d'"
  by (drule EditMessage_Inr) (auto dest: apply_edit_ok)

lemma DeleteMessage_ok: "DeleteMessage e d uid mid = Inr d' \<Longrightarrow> media_ok d \<Longrightarrow> media_ok d'"
  by (drule DeleteMessage_Inr) (auto simp: erase_message_def elim!: media_ok_update)

lemma remove_reported_ok: "remove_reported e d adminID i = Inr d' \<Longrightarrow> media_ok d \<Longrightarrow> media_ok d'"
  by (drule remove_reported_Inr) (auto simp: censor_message_def elim!: media_ok_update)

lemma ResolveReport_ok:
  assumes "ResolveReport e valid d adminID reportID req = Inr d'" and "media_ok d"
  shows "media_ok d'"
  using assms(1)
proof (cases rule: ResolveReport_Inr)
  case (2 r d1)
  have "media_ok d1" using assms(2) by (simp add: 2(3) media_ok_def)
  with 2(4) show ?thesis by (auto dest: remove_reported_ok split: option.splits if_splits)
qed (use assms(2) in simp)

subsection \<open>Cleanup\<close>

lemma delete_user_ok: "media_ok d \<Longrightarrow> media_ok (delete_user i d)"
  by (auto simp: media_ok_def delete_user_def media_row_ok_def comp_def)

lemma delete_chat_ok: "media_ok d \<Longrightarrow> media_ok (delete_chat i d)"
  by (auto simp: media_ok_def delete_chat_def media_row_ok_def comp_def Let_def cleared_def split: option.splits if_splits)

lemma delete_media_ok: "media_ok d \<Longrightarrow> media_ok (delete_media i d)"
  by (auto simp: media_ok_def delete_media_def distinct_map_filter)

lemma drop_ok:
  "drop_user f k i d = (ok, d') \<Longrightarrow> media_ok d \<Longrightarrow> media_ok d'"
  "drop_chat f k i d = (ok, d') \<Longrightarrow> media_ok d \<Longrightarrow> media_ok d'"
  by (auto simp: drop_user_def drop_chat_def delete_one_def intro: delete_user_ok delete_chat_ok split: if_splits)

lemma drop_media_ok: "drop_media f storage k i s = (ok, s') \<Longrightarrow> media_ok (fst s) \<Longrightarrow> media_ok (fst s')"
  by (cases s) (auto simp: drop_media_def Let_def intro: delete_media_ok split: option.splits if_splits)

lemma user_loop_ok: "sweep (due_users cutoff) b (each_row (drop_user f)) k d = Some (er, d') \<Longrightarrow> media_ok d \<Longrightarrow> media_ok d'"
  by (erule user_sweep.rows_invariant) (auto intro: drop_ok)

lemma chat_loop_ok: "sweep (due_chats cutoff) b (each_row (drop_chat f)) k d = Some (er, d') \<Longrightarrow> media_ok d \<Longrightarrow> media_ok d'"
  by (erule chat_sweep.rows_invariant) (auto intro: drop_ok)

lemma outbox_loop_ok: "sweep (due_outbox cutoff) b (drop_outbox f) k d = Some (er, d') \<Longrightarrow> media_ok d \<Longrightarrow> media_ok d'"
  by (erule outbox_sweep.invariant) (auto simp: drop_outbox_def media_ok_def split: if_splits)

lemma RunEntityCleanup_ok: "RunEntityCleanup cfg t fu fc fo d = Some (er, d') \<Longrightarrow> media_ok d \<Longrightarrow> media_ok d'"
  unfolding RunEntityCleanup_def by (elim next_loop_cases) (blast intro: user_loop_ok chat_loop_ok outbox_loop_ok)+

lemma RunPrivateChatCleanup_ok: "RunPrivateChatCleanup f d = Some (er, d') \<Longrightarrow> media_ok d \<Longrightarrow> media_ok d'"
  unfolding RunPrivateChatCleanup_def by (erule private_sweep.rows_invariant) (auto intro: drop_ok)

lemma RunMediaCleanup_ok:
  assumes "RunMediaCleanup cfg t f storage s = Some (er, s')" and "media_ok (fst s)"
  shows "media_ok (fst s')"
  using assms(1) [unfolded RunMediaCleanup_def] assms(2)
  by (rule media_sweep.rows_invariant [where P = "\<lambda>s. media_ok (fst s)"]) (rule drop_media_ok)

subsection \<open>Pictures of Google accounts\<close>

lemma picture_row_ok: "media_row_ok (picture_row e picture p)"
  by (simp add: media_row_ok_def picture_row_def)

lemma new_account_ok:
  assumes "new_account svc e rand d info = (r, d', objs)" and "newid e 0 \<notin> u_id ` set (users d)" and "newid e 1 \<notin> md_id ` set (medias d)" and "media_ok d"
  shows "media_ok d'"
proof (cases "create_google_rows svc e rand d info (fetch_picture svc e (gu_picture info))")
  case (Inr x)
  then obtain u pic d1 where rows: "create_google_rows svc e rand d info (fetch_picture svc e (gu_picture info)) = Inr (u, pic, d1)" by (cases x) auto
  have "medias d1 = medias d \<or> (\<exists>p. medias d1 = medias d @ [picture_row e (gu_picture info) p])"
    by (rule create_google_rows_Inr [OF rows assms(2)])
  then have "media_ok d1" using assms(3,4) picture_row_ok by (auto simp: media_ok_def picture_row_def)
  moreover obtain f where "store_picture svc e pic d1 = (f, d', objs)" using assms(1) by (auto simp: new_account_def rows split: prod.splits)
  ultimately show ?thesis using store_picture_rows delete_media_ok by blast
qed (use assms(1,4) in \<open>simp add: new_account_def\<close>)

lemma known_account_medias: "known_account svc e show_time d0 d u info = (r, d') \<Longrightarrow> medias d' = medias d"
  by (auto simp: known_account_def check_ban_def lift_ban_def set_user_def link_identity_def insert_identity_def split: sum.splits if_splits option.splits)

lemma GoogleExchange_ok:
  assumes "GoogleExchangeFrom svc e valid rand show_time ctx d0 d s req = (r, d', s', objs)" and "newid e 0 \<notin> u_id ` set (users d)"
    and "newid e 1 \<notin> md_id ` set (medias d)" and "media_ok d"
  shows "media_ok d'"
proof -
  have "d' = d \<or> medias d' = medias d \<or> (\<exists>info. new_account svc e rand d info = (r, d', objs))"
    using assms(1) by (auto simp: GoogleExchangeFrom_def google_sign_in_def dest: known_account_medias split: if_splits prod.splits sum.splits)
  then show ?thesis using new_account_ok [OF _ assms(2-4)] assms(4) media_ok_cong by blast
qed

section \<open>Only verified objects are attached\<close>

inductive media_step :: "'s google_service \<Rightarrow> db \<Rightarrow> db \<Rightarrow> bool" for gsvc where
  upload: "UploadMedia msvc e mvalid d uid mreq = (r, d') \<Longrightarrow> newid e 0 \<notin> md_id ` set (medias d) \<Longrightarrow> media_step gsvc d d'"
| complete: "CompleteUpload msvc e d uid i = Inr (dto, d') \<Longrightarrow> media_step gsvc d d'"
| send: "SendMessage svc e valid d uid req = Inr (resp, d') \<Longrightarrow> media_step gsvc d d'"
| edit: "EditMessage svc e evalid d uid mid ereq = Inr (resp, d') \<Longrightarrow> media_step gsvc d d'"
| delete: "DeleteMessage e d uid mid = Inr d' \<Longrightarrow> media_step gsvc d d'"
| resolve: "ResolveReport e rvalid d uid i rreq = Inr d' \<Longrightarrow> media_step gsvc d d'"
| entities: "RunEntityCleanup cfg t fu fc fo d = Some (er, d') \<Longrightarrow> media_step gsvc d d'"
| privates: "RunPrivateChatCleanup f d = Some (er, d') \<Longrightarrow> media_step gsvc d d'"
| media: "RunMediaCleanup cfg t f storage (d, objs) = Some (er, d', objs') \<Longrightarrow> media_step gsvc d d'"
| google: "GoogleExchangeFrom gsvc e gvalid rand show_time ctx d0 d s greq = (r', d', s', stored) \<Longrightarrow> newid e 0 \<notin> u_id ` set (users d) \<Longrightarrow>
    newid e 1 \<notin> md_id ` set (medias d) \<Longrightarrow> media_step gsvc d d'"

lemma media_step_ok: "media_step gsvc d d' \<Longrightarrow> media_ok d \<Longrightarrow> media_ok d'"
proof (induction rule: media_step.induct)
  case (media cfg t f storage d objs er d' objs')
  then show ?case using RunMediaCleanup_ok [OF media(1)] by simp
qed (blast intro: UploadMedia_ok CompleteUpload_ok SendMessage_ok EditMessage_ok DeleteMessage_ok ResolveReport_ok RunEntityCleanup_ok RunPrivateChatCleanup_ok GoogleExchange_ok)+

text \<open>
  C22. From a database of well-formed media rows every run of uploads, completions, sign-ins with Google, messages, edits, deletions, resolved reports and cleanup jobs
  leads to one: identifiers are unique, exactly the pending rows have an expiry, only completed ones an instant of completion, and a
  row that is attached to a message is completed and was uploaded as an attachment.
\<close>

theorem media_rows_well_formed:
  assumes "(media_step gsvc)\<^sup>*\<^sup>* d d'" and "media_ok d"
  shows "media_ok d'"
  using assms by (induction rule: rtranclp_induct) (blast intro: media_step_ok)+

definition sample_media_service :: media_service where
  "sample_media_service = \<lparr>me_urls = \<lparr>GetPresignedURL = id, GetPublicURL = id\<rparr>, me_presign = (\<lambda>n. Some n), me_put = (\<lambda>n m z p. Some (n, [])),
     me_head = (\<lambda>n p. Some (1, [])), me_captcha = (\<lambda>_. True), me_lower = id, me_codec = \<lparr>UuidString = (\<lambda>i. []), UuidParse = (\<lambda>s. None)\<rparr>\<rparr>"

theorem media_rows_well_formed_witness:
  "\<exists>dto d'. CompleteUpload sample_media_service (sample_env 40 90) (sample_db\<lparr>medias := [sample_media 2 UploadStatusPending None]\<rparr>) 1 2 = Inr (dto, d') \<and> media_ok d'"
proof -
  let ?d = "sample_db\<lparr>medias := [sample_media 2 UploadStatusPending None]\<rparr>"
  have "\<exists>dto d'. CompleteUpload sample_media_service (sample_env 40 90) ?d 1 2 = Inr (dto, d')"
    by (simp add: CompleteUpload_def complete_checks_def ent_only_def sample_media_def sample_media_service_def content_type_matches_def Let_def)
  then obtain dto d' where c: "CompleteUpload sample_media_service (sample_env 40 90) ?d 1 2 = Inr (dto, d')" by (elim exE)
  have ok: "media_ok ?d" by (simp add: media_ok_def media_row_ok_def sample_media_def)
  have run: "(media_step sample_google)\<^sup>*\<^sup>* ?d d'" by (rule r_into_rtranclp) (rule complete [OF c])
  show ?thesis by (intro exI conjI) (rule c, rule media_rows_well_formed [OF run ok])
qed

section \<open>Who gets the link of an attachment\<close>

lemma single_group:
  assumes "distinct (map gc_chat_id (group_chats d))"
  shows "ent_only False (filter (\<lambda>g. gc_chat_id g = i) (group_chats d)) = (case group_of d i of None \<Rightarrow> Inl NotFoundError | Some g \<Rightarrow> Inr g)"
proof -
  have "length (filter (\<lambda>g. gc_chat_id g = i) (group_chats d)) \<le> 1" using filter_key_unique [OF assms, of i "\<lambda>_. True"] by simp
  then show ?thesis by (auto simp: group_of_def find_filter ent_only_def split: list.splits)
qed

text \<open>
  C21. When no query fails, the link of a media is given out exactly when it is a completed attachment of a message that is not deleted, the user passes
  the check that opens the pages of messages of this chat, the message is younger than the instant since which he hides
  the chat, and the store signs the link.
\<close>

theorem media_link_access:
  assumes "\<And>site. \<not> fault e site" and "distinct (map gc_chat_id (group_chats d))"
  shows "GetMediaURL svc e d userID mediaID = Inr url \<longleftrightarrow>
    (\<exists>m msg c hidden g. filter (\<lambda>m. md_id m = mediaID) (medias d) = [m] \<and> md_upload_status m = UploadStatusCompleted \<and>
       md_message_id m = Some (m_id msg) \<and> find (\<lambda>x. m_id x = m_id msg) (messages d) = Some msg \<and> m_deleted_at msg = None \<and>
       chat_of d (m_chat_id msg) = Some c \<and> c_deleted_at c = None \<and> read_access e d userID c = Inr (hidden, g) \<and>
       (\<forall>h. hidden = Some h \<longrightarrow> h < m_created_at msg) \<and> me_presign svc (md_file_name m) = Some url)"
proof -
  have acc: "media_access e d userID c msg = Inr True \<longleftrightarrow>
      (\<exists>hidden g. read_access e d userID c = Inr (hidden, g) \<and> (\<forall>h. hidden = Some h \<longrightarrow> h < m_created_at msg))" for c msg
  proof (cases "c_type c")
    case TypePrivate
    then show ?thesis by (auto simp: media_access_def read_access_def Let_def split: option.splits if_splits)
  next
    case TypeGroup
    then show ?thesis
      by (simp add: media_access_def read_access_def assms(1) single_group [OF assms(2)] ent_exist_def result_simps filter_empty_conv split: option.splits)
  qed
  have msg: "Option.bind (md_message_id m) (\<lambda>i. find (\<lambda>x. m_id x = i) (messages d)) = Some msg \<longleftrightarrow>
      md_message_id m = Some (m_id msg) \<and> find (\<lambda>x. m_id x = m_id msg) (messages d) = Some msg" for m msg
    by (auto simp: bind_eq_Some_conv find_Some_iff)
  show ?thesis
  proof (cases "\<exists>m msg c. filter (\<lambda>m. md_id m = mediaID) (medias d) = [m] \<and>
      Option.bind (md_message_id m) (\<lambda>i. find (\<lambda>x. m_id x = i) (messages d)) = Some msg \<and> chat_of d (m_chat_id msg) = Some c")
    case True
    then obtain m msg c where m: "filter (\<lambda>m. md_id m = mediaID) (medias d) = [m]" and c: "chat_of d (m_chat_id msg) = Some c"
      and b: "Option.bind (md_message_id m) (\<lambda>i. find (\<lambda>x. m_id x = i) (messages d)) = Some msg" by (elim exE conjE)
    have "GetMediaURL svc e d userID mediaID = Inr url \<longleftrightarrow> c_deleted_at c = None \<and> md_upload_status m = UploadStatusCompleted \<and> m_deleted_at msg = None \<and>
        media_access e d userID c msg = Inr True \<and> me_presign svc (md_file_name m) = Some url"
      by (simp add: GetMediaURL_def m b c ent_only_def assms(1) result_simps split: option.splits) auto
    moreover have "md_message_id m = Some (m_id msg)" "find (\<lambda>x. m_id x = m_id msg) (messages d) = Some msg" using b [unfolded msg] by simp_all
    ultimately show ?thesis unfolding acc m list.inject using c by auto
  next
    case False
    then have "GetMediaURL svc e d userID mediaID \<noteq> Inr url"
      by (auto simp: GetMediaURL_def and_then_Inr on_err_Inr ent_only_Inr split: option.splits)
    moreover note False [unfolded msg]
    ultimately show ?thesis by blast
  qed
qed

theorem media_link_access_witness:
  "GetMediaURL sample_media_service (sample_env 40 90) sample_report_db 2 2 = Inr ''f11'' \<and> md_message_id (sample_media 2 UploadStatusCompleted (Some 20)) \<noteq> None"
proof -
  have acc: "read_access (sample_env 40 90) sample_report_db 2 (sample_chat 10 TypePrivate) = Inr (None, None)" by code_simp
  have chat: "chat_of sample_report_db 10 = Some (sample_chat 10 TypePrivate)"
    by (simp add: chat_of_def sample_report_db_def sample_db_def sample_chat_def)
  have "GetMediaURL sample_media_service (sample_env 40 90) sample_report_db 2 2 = Inr ''f11''"
    by (rule media_link_access [THEN iffD2])
      (use acc chat in \<open>auto simp: sample_report_db_def sample_db_def sample_media_def sample_message_def sample_chat_def sample_media_service_def
        numeral_2_eq_2 intro!: exI [of _ "sample_media 2 UploadStatusCompleted (Some 20)"] exI [of _ "sample_message 20 10 1 100"] exI [of _ "sample_chat 10 TypePrivate"]\<close>)
  then show ?thesis by (simp add: sample_media_def)
qed

end
