(* ===== verification/Push_Registration.thy ===== *)
theory Push_Registration
  imports Auth_Service Push_Worker Search_Pages
begin

text \<open>
  \<^verbatim>\<open>src/internal/api/application/push\<close>: registration of devices (\<^verbatim>\<open>push_service.go\<close>) and the notification preferences of a user
  (\<^verbatim>\<open>preferences.go\<close>). A registration reads the row of the installation and updates it later under its binding, so \<open>Upsert\<close>
  takes the database it reads and the one it writes. The hash of the fingerprints is an argument of the service.
\<close>

record push_service =
  ps_enabled :: bool
  ps_secret :: string
  ps_jwt :: jwt_library
  ps_sha256 :: "string \<Rightarrow> string"
  ps_codec :: uuid_codec

record push_device_request =
  dr_token :: string
  dr_platform :: string
  dr_device_secret :: string

definition Fingerprint :: "push_service \<Rightarrow> string \<Rightarrow> string" where
  "Fingerprint svc value = ps_sha256 svc value"

section \<open>Devices\<close>

definition platform_of :: "string \<Rightarrow> platform option" where
  "platform_of p = (if p = ''android'' then Some Android else if p = ''ios'' then Some Ios else if p = ''web'' then Some Web else None)"

definition device_request_ok :: "uuid \<Rightarrow> push_device_request \<Rightarrow> bool" where
  "device_request_ok installation req \<longleftrightarrow> installation \<noteq> uuid_Nil \<and> dr_token req \<noteq> [] \<and> length (dr_token req) \<le> 4096 \<and>
     TrimSpace (dr_token req) = dr_token req \<and> 32 \<le> length (dr_device_secret req) \<and> length (dr_device_secret req) \<le> 256"

text \<open>Instant of issue and of expiry of a session of this user.\<close>

definition session_claims :: "push_service \<Rightarrow> time \<Rightarrow> uuid \<Rightarrow> string \<Rightarrow> (int \<times> time) option" where
  "session_claims svc t userID session =
     (case ParseWithClaims (ps_jwt svc) (ps_secret svc) t session of
        None \<Rightarrow> None
      | Some claims \<Rightarrow>
          if jc_user_id claims \<noteq> userID then None
          else case (jc_issued_at claims, jc_expires_at claims) of
                 (Some issuedAt, Some expiresAt) \<Rightarrow> Some (token_issued_at claims issuedAt, expiresAt)
               | _ \<Rightarrow> None)"

definition rebind :: "env \<Rightarrow> push_device \<Rightarrow> uuid \<Rightarrow> string \<Rightarrow> string \<Rightarrow> uuid" where
  "rebind e existing userID token sessionHash =
     (if pd_user_id existing \<noteq> userID \<or> pd_token existing \<noteq> token \<or> pd_session_hash existing \<noteq> sessionHash \<or> pd_disabled_at existing \<noteq> None
      then newid e 0 else pd_binding_id existing)"

text \<open>The unique index on tokens; installations are unique as well.\<close>

definition update_device :: "env \<Rightarrow> db \<Rightarrow> push_device \<Rightarrow> (push_device \<Rightarrow> push_device) \<Rightarrow> string \<Rightarrow> app_error + db" where
  "update_device e d existing f token =
     (let P = (\<lambda>v. pd_id v = pd_id existing \<and> pd_binding_id v = pd_binding_id existing \<and> pd_secret_hash v = pd_secret_hash existing) in
      if fault e ''update device'' then Inl internal_error
      else if affected P (push_devices d) = 0 \<or> (\<exists>v\<in>set (push_devices d). pd_token v = token \<and> \<not> P v)
           then Inl (NewConflictError ''Registration changed; retry'')
      else Inr (d\<lparr>push_devices := update_where P f (push_devices d)\<rparr>))"

definition insert_device :: "env \<Rightarrow> db \<Rightarrow> push_device \<Rightarrow> app_error + db" where
  "insert_device e d v =
     (if fault e ''create device'' then Inl internal_error
      else if \<exists>x\<in>set (push_devices d). pd_installation_id x = pd_installation_id v \<or> pd_token x = pd_token v
           then Inl (NewConflictError ''Device or token already registered'')
      else Inr (d\<lparr>push_devices := push_devices d @ [v]\<rparr>))"

definition Upsert :: "push_service \<Rightarrow> env \<Rightarrow> db \<Rightarrow> db \<Rightarrow> uuid \<Rightarrow> string \<Rightarrow> uuid \<Rightarrow> push_device_request \<Rightarrow> app_error + db" where
  "Upsert svc e d0 d userID session installation req =
     (if \<not> ps_enabled svc then Inl (NewServiceUnavailableError ''Push notifications are disabled'')
      else if \<not> device_request_ok installation req then Inl (NewBadRequestError ''Invalid device registration'')
      else case platform_of (dr_platform req) of
        None \<Rightarrow> Inl (NewBadRequestError ''Invalid device registration'')
      | Some platform \<Rightarrow>
        (case session_claims svc (now e) userID session of
           None \<Rightarrow> Inl (NewUnauthorizedError [])
         | Some (issued, expiresAt) \<Rightarrow>
             let sessionHash = Fingerprint svc session; secretHash = Fingerprint svc (dr_device_secret req) in
             case ent_only (fault e ''query device'') (filter (\<lambda>v. pd_installation_id v = installation) (push_devices d0)) of
               Inr existing \<Rightarrow>
                 if pd_secret_hash existing \<noteq> secretHash then Inl (NewForbiddenError ''Installation proof does not match'')
                 else update_device e d existing
                        (\<lambda>v. v\<lparr>pd_user_id := userID, pd_token := dr_token req, pd_platform := platform, pd_session_hash := sessionHash, pd_issued_at := issued,
                               pd_expires_at := expiresAt, pd_binding_id := rebind e existing userID (dr_token req) sessionHash, pd_disabled_at := None\<rparr>)
                        (dr_token req)
             | Inl er \<Rightarrow>
                 if er \<noteq> NotFoundError then Inl internal_error
                 else insert_device e d
                        \<lparr>pd_id = newid e 0, pd_installation_id = installation, pd_user_id = userID, pd_token = dr_token req, pd_platform = platform,
                         pd_session_hash = sessionHash, pd_secret_hash = secretHash, pd_issued_at = issued, pd_expires_at = expiresAt,
                         pd_binding_id = newid e 1, pd_disabled_at = None\<rparr>))"

definition Unregister :: "push_service \<Rightarrow> env \<Rightarrow> db \<Rightarrow> uuid \<Rightarrow> string \<Rightarrow> uuid \<Rightarrow> app_error + db" where
  "Unregister svc e d userID session installation =
     (let P = (\<lambda>v. pd_installation_id v = installation \<and> pd_user_id v = userID \<and> pd_session_hash v = Fingerprint svc session) in
      if fault e ''unregister device'' then Inl internal_error
      else if affected P (push_devices d) = 0 then Inl (NewNotFoundError ''Device not found'')
      else Inr (d\<lparr>push_devices := update_where P (\<lambda>v. v\<lparr>pd_disabled_at := Some (now e), pd_binding_id := newid e 0\<rparr>) (push_devices d)\<rparr>))"

section \<open>Preferences\<close>

record chat_preference =
  cp_chat_id :: uuid
  cp_name :: string
  cp_muted_forever :: bool
  cp_muted_until :: "time option"

record mute_request =
  mr_muted_forever :: bool
  mr_muted_until :: "time option"

definition Preferences :: "env \<Rightarrow> db \<Rightarrow> uuid \<Rightarrow> app_error + bool" where
  "Preferences e d userID =
     and_then (on_err (ent_get (fault e ''get user'') u_id userID (users d)) (\<lambda>_. internal_error)) (\<lambda>u. Inr (u_message_notifications_enabled u))"

definition in_chat :: "db \<Rightarrow> uuid \<Rightarrow> uuid \<Rightarrow> bool" where
  "in_chat d userID chatID \<longleftrightarrow>
     (\<exists>p\<in>set (private_chats d). pc_chat_id p = chatID \<and> (pc_user1_id p = Some userID \<or> pc_user2_id p = Some userID)) \<or>
     (\<exists>g\<in>set (group_chats d). gc_chat_id g = chatID \<and> (\<exists>m\<in>set (group_members d). gm_group_chat_id m = gc_id g \<and> gm_user_id m = userID))"

text \<open>The name of a chat for this user; a private chat whose other side was removed has none.\<close>

definition group_display :: "db \<Rightarrow> uuid \<Rightarrow> uuid \<Rightarrow> string option" where
  "group_display d userID chatID =
     (case group_of d chatID of
        None \<Rightarrow> None
      | Some g \<Rightarrow> if \<exists>m\<in>set (group_members d). gm_group_chat_id m = gc_id g \<and> gm_user_id m = userID then Some (gc_name g) else None)"

definition private_display :: "db \<Rightarrow> uuid \<Rightarrow> uuid \<Rightarrow> string option" where
  "private_display d userID chatID =
     (case private_of d chatID of
        None \<Rightarrow> None
      | Some p \<Rightarrow>
          let other = (if pc_user1_id p = Some userID then pc_user2_id p else if pc_user2_id p = Some userID then pc_user1_id p else None) in
          map_option (\<lambda>u. if u_deleted_at u \<noteq> None then ''Deleted Account'' else case u_full_name u of Some n \<Rightarrow> n | None \<Rightarrow> ''Conversation'')
            (Option.bind other (user_of d)))"

definition chat_display :: "db \<Rightarrow> uuid \<Rightarrow> uuid \<Rightarrow> string option" where
  "chat_display d userID chatID =
     (if \<not> chat_live d chatID then None
      else case private_display d userID chatID of Some n \<Rightarrow> Some n | None \<Rightarrow> group_display d userID chatID)"

definition muted_chat_rows :: "time \<Rightarrow> db \<Rightarrow> uuid \<Rightarrow> chat_notification_preference list" where
  "muted_chat_rows t d userID =
     filter (\<lambda>p. np_user_id p = userID \<and> muted t p \<and> chat_live d (np_chat_id p) \<and> in_chat d userID (np_chat_id p)) (notification_preferences d)"

definition MutedChats :: "push_service \<Rightarrow> env \<Rightarrow> db \<Rightarrow> uuid \<Rightarrow> string \<Rightarrow> int \<Rightarrow> app_error + (chat_preference list \<times> string \<times> bool)" where
  "MutedChats svc e d userID cursor limit =
     and_then (fail_if (limit < 1 \<or> limit > 50) (NewBadRequestError ''Invalid limit'')) (\<lambda>_.
     and_then (if cursor = [] then Inr None
               else case UuidParse (ps_codec svc) cursor of None \<Rightarrow> Inl (NewBadRequestError ''Invalid cursor'') | Some i \<Rightarrow> Inr (Some i)) (\<lambda>after.
     and_then (on_err (ent_all (fault e ''query preferences'') (take (nat limit + 1) (keyset_above np_id after (muted_chat_rows (now e) d userID)))) (\<lambda>_. internal_error)) (\<lambda>rows.
     case page_of (nat limit) (\<lambda>p. UuidString (ps_codec svc) (np_id p)) rows of (page, next, hasNext) \<Rightarrow>
       if page \<noteq> [] \<and> fault e ''query chats'' then Inl internal_error
       else Inr (concat (map (\<lambda>p. case chat_display d userID (np_chat_id p) of
                   None \<Rightarrow> []
                 | Some name \<Rightarrow> [\<lparr>cp_chat_id = np_chat_id p, cp_name = name, cp_muted_forever = np_muted_forever p, cp_muted_until = np_muted_until p\<rparr>]) page),
                 next, hasNext))))"

definition SetGlobal :: "env \<Rightarrow> db \<Rightarrow> uuid \<Rightarrow> bool \<Rightarrow> app_error + db" where
  "SetGlobal e d userID enabled =
     (if fault e ''set global'' then Inl internal_error
      else Inr (d\<lparr>users := update_where (\<lambda>u. u_id u = userID \<and> u_deleted_at u = None) (\<lambda>u. u\<lparr>u_message_notifications_enabled := enabled\<rparr>) (users d)\<rparr>))"

definition year :: duration where
  "year = 31536000000000000"

definition mute_request_ok :: "time \<Rightarrow> mute_request \<Rightarrow> app_error + unit" where
  "mute_request_ok t req =
     and_then (fail_if (mr_muted_forever req \<and> mr_muted_until req \<noteq> None) (NewBadRequestError ''Choose a duration or indefinite mute'')) (\<lambda>_.
       fail_if (case mr_muted_until req of None \<Rightarrow> False | Some u \<Rightarrow> \<not> u > t \<or> u > t + year) (NewBadRequestError ''Invalid mute expiry''))"

text \<open>Insert or, on the unique pair of user and chat, update; the key of the row stays.\<close>

definition upsert_preference :: "env \<Rightarrow> uuid \<Rightarrow> uuid \<Rightarrow> mute_request \<Rightarrow> chat_notification_preference list \<Rightarrow> chat_notification_preference list" where
  "upsert_preference e userID chatID req rows =
     (let P = (\<lambda>p. np_user_id p = userID \<and> np_chat_id p = chatID) in
      if affected P rows = 0
      then rows @ [\<lparr>np_id = newid e 0, np_user_id = userID, np_chat_id = chatID, np_muted_forever = mr_muted_forever req, np_muted_until = mr_muted_until req\<rparr>]
      else update_where P (\<lambda>p. p\<lparr>np_muted_forever := mr_muted_forever req, np_muted_until := mr_muted_until req\<rparr>) rows)"

definition SetChatMute :: "env \<Rightarrow> db \<Rightarrow> uuid \<Rightarrow> uuid \<Rightarrow> mute_request \<Rightarrow> app_error + db" where
  "SetChatMute e d userID chatID req =
     and_then (on_err (ChatMembers (fault e) d chatID) (\<lambda>er. if er = NotFoundError then NewNotFoundError ''Chat not found'' else internal_error)) (\<lambda>members.
     and_then (fail_if (userID \<notin> set members) (NewForbiddenError ''You are not a member of this chat'')) (\<lambda>_.
     and_then (mute_request_ok (now e) req) (\<lambda>_.
     and_then (fail_if (fault e ''write preference'') internal_error) (\<lambda>_.
       Inr (if \<not> mr_muted_forever req \<and> mr_muted_until req = None
            then d\<lparr>notification_preferences := filter (\<lambda>p. \<not> (np_user_id p = userID \<and> np_chat_id p = chatID)) (notification_preferences d)\<rparr>
            else d\<lparr>notification_preferences := upsert_preference e userID chatID req (notification_preferences d)\<rparr>)))))"

end
