(* ===== verification/Push_Registration_Laws.thy ===== *)
theory Push_Registration_Laws
  imports Push_Registration
begin

text \<open>
  What registration and preferences mean for the push worker: a delivery that was enqueued for an earlier binding of a device is
  never handed to the provider, a muted chat is silent for as long as the mute lasts, and devices stay unique.
\<close>

section \<open>Registrations\<close>

lemma update_device_Inr:
  assumes "update_device e d existing f token = Inr d'"
  defines "P \<equiv> \<lambda>v. pd_id v = pd_id existing \<and> pd_binding_id v = pd_binding_id existing \<and> pd_secret_hash v = pd_secret_hash existing"
  shows "d' = d\<lparr>push_devices := update_where P f (push_devices d)\<rparr> \<and> (\<exists>v\<in>set (push_devices d). P v) \<and>
    (\<forall>v\<in>set (push_devices d). pd_token v = token \<longrightarrow> P v)"
  using assms by (auto simp: update_device_def Let_def affected_0 split: if_splits)

lemma insert_device_Inr:
  assumes "insert_device e d v = Inr d'"
  shows "d' = d\<lparr>push_devices := push_devices d @ [v]\<rparr> \<and>
    (\<forall>x\<in>set (push_devices d). pd_installation_id x \<noteq> pd_installation_id v \<and> pd_token x \<noteq> pd_token v)"
  using assms by (auto simp: insert_device_def split: if_splits)

text \<open>The row that a successful registration writes, and the one it replaces.\<close>

definition registered :: "push_service \<Rightarrow> env \<Rightarrow> uuid \<Rightarrow> string \<Rightarrow> push_device_request \<Rightarrow> push_device \<Rightarrow> push_device \<Rightarrow> bool" where
  "registered svc e userID session req old new \<longleftrightarrow>
     pd_id new = pd_id old \<and> pd_installation_id new = pd_installation_id old \<and> pd_secret_hash new = pd_secret_hash old \<and>
     pd_user_id new = userID \<and> pd_token new = dr_token req \<and> pd_session_hash new = Fingerprint svc session \<and> pd_disabled_at new = None"

lemma Upsert_Inr:
  assumes "Upsert svc e d0 d userID session installation req = Inr d'"
  obtains existing f where "existing \<in> set (push_devices d0)" and "pd_installation_id existing = installation"
      and "pd_secret_hash existing = Fingerprint svc (dr_device_secret req)"
      and "update_device e d existing f (dr_token req) = Inr d'"
      and "\<And>v. registered svc e userID session req v (f v)"
      and "\<And>v. pd_binding_id (f v) = rebind e existing userID (dr_token req) (Fingerprint svc session)"
  | new where "\<forall>v\<in>set (push_devices d0). pd_installation_id v \<noteq> installation" and "insert_device e d new = Inr d'"
      and "pd_installation_id new = installation" and "pd_token new = dr_token req" and "pd_user_id new = userID"
      and "pd_id new = newid e 0" and "pd_binding_id new = newid e 1"
proof -
  obtain pl issued expiresAt where pre: "platform_of (dr_platform req) = Some pl" "session_claims svc (now e) userID session = Some (issued, expiresAt)"
    "ps_enabled svc" "device_request_ok installation req"
    using assms by (auto simp: Upsert_def split: if_splits option.splits)
  show thesis
  proof (cases "ent_only (fault e ''query device'') (filter (\<lambda>v. pd_installation_id v = installation) (push_devices d0))")
    case (Inr existing)
    then have "existing \<in> set (filter (\<lambda>v. pd_installation_id v = installation) (push_devices d0))" by (simp add: ent_only_Inr)
    with assms pre Inr show ?thesis
      by (intro that(1)) (auto simp: Upsert_def Let_def registered_def split: if_splits)
  next
    case (Inl er)
    with assms pre have er: "er = NotFoundError" by (auto simp: Upsert_def Let_def split: if_splits)
    with Inl have "\<forall>v\<in>set (push_devices d0). pd_installation_id v \<noteq> installation" by (simp add: ent_only_NotFound filter_empty_conv)
    with assms pre Inl er show ?thesis by (intro that(2)) (auto simp: Upsert_def Let_def)
  qed
qed

section \<open>Devices stay unique\<close>

definition devices_ok :: "db \<Rightarrow> bool" where
  "devices_ok d \<longleftrightarrow> distinct (map pd_id (push_devices d)) \<and> distinct (map pd_installation_id (push_devices d)) \<and> distinct (map pd_token (push_devices d))"

lemma distinct_map_replace:
  assumes "distinct (map k rows)" and "\<And>r s. r \<in> set rows \<Longrightarrow> s \<in> set rows \<Longrightarrow> P r \<Longrightarrow> P s \<Longrightarrow> r = s"
    and "\<And>r. k (f r) = v" and "\<And>r. r \<in> set rows \<Longrightarrow> k r = v \<Longrightarrow> P r"
  shows "distinct (map k (update_where P f rows))"
proof -
  let ?g = "\<lambda>r. k (if P r then f r else r)"
  have "inj_on ?g (set rows)"
  proof (rule inj_onI)
    fix r s
    assume rs: "r \<in> set rows" "s \<in> set rows" "?g r = ?g s"
    consider "P r" "P s" | "P r" "\<not> P s" | "\<not> P r" "P s" | "\<not> P r" "\<not> P s" by blast
    then show "r = s"
      using rs assms(2-4) distinct_key_eq [OF assms(1) rs(1,2)] by cases (simp, simp, simp, simp)
  qed
  moreover have "distinct rows" using assms(1) by (simp add: distinct_map)
  ultimately show ?thesis by (simp add: update_where_def distinct_map comp_def)
qed

lemma devices_ok_Upsert:
  assumes "Upsert svc e d0 d userID session installation req = Inr d'" and "devices_ok d" and "newid e 0 \<notin> pd_id ` set (push_devices d)"
  shows "devices_ok d'"
  using assms(1)
proof (cases rule: Upsert_Inr)
  case (1 existing f)
  let ?P = "\<lambda>v. pd_id v = pd_id existing \<and> pd_binding_id v = pd_binding_id existing \<and> pd_secret_hash v = pd_secret_hash existing"
  have d': "push_devices d' = update_where ?P f (push_devices d)" and tok: "\<And>v. v \<in> set (push_devices d) \<Longrightarrow> pd_token v = dr_token req \<Longrightarrow> ?P v"
    using update_device_Inr [OF 1(4)] by auto
  have one: "r = s" if "r \<in> set (push_devices d)" "s \<in> set (push_devices d)" "?P r" "?P s" for r s
    using that assms(2) distinct_key_eq [of pd_id "push_devices d" r s] by (simp add: devices_ok_def)
  have "distinct (map pd_token (update_where ?P f (push_devices d)))"
    using assms(2) one tok 1(5) by (intro distinct_map_replace [where v = "dr_token req"]) (auto simp: devices_ok_def registered_def)
  then show ?thesis using assms(2) 1(5) by (simp add: devices_ok_def d' update_where_key registered_def)
next
  case (2 new)
  then show ?thesis using insert_device_Inr [OF 2(2)] assms(2,3) by (auto simp: devices_ok_def)
qed

lemma devices_ok_Unregister: "Unregister svc e d userID session installation = Inr d' \<Longrightarrow> devices_ok d \<Longrightarrow> devices_ok d'"
  by (auto simp: Unregister_def Let_def devices_ok_def update_where_key split: if_splits)

lemma finish_push_devices: "finish_push causeText broken t d row oc cause delay = (err, d') \<Longrightarrow> push_devices d' = push_devices d"
  by (auto simp: finish_push_def Finish_def split: option.splits sum.splits if_splits)

lemma retry_push_devices: "retry_push causeText broken t d row cause = (err, d') \<Longrightarrow> push_devices d' = push_devices d"
  by (auto simp: retry_push_def dest: finish_push_devices split: if_splits)

lemma after_send_devices:
  "after_send causeText flt t d row device result = (err, d') \<Longrightarrow> push_devices d' = push_devices d \<or> push_devices d' = disable_device t device (push_devices d)"
  by (auto simp: after_send_def dest: finish_push_devices retry_push_devices split: option.splits push_cause.splits if_splits)

lemma ProcessOne_devices:
  assumes "ProcessOne causeText flt redis send skip t tok d = (worked, err, d', n)"
  shows "\<exists>device. push_devices d' = push_devices d \<or> push_devices d' = disable_device t device (push_devices d)"
proof (cases "Claim flt skip t tok d")
  case (Inr r)
  obtain o1 d1 where r: "r = (o1, d1)" by (cases r)
  have same: "push_devices d1 = push_devices d" using Inr r by (auto simp: Claim_def Let_def split: sum.splits ent_error.splits if_splits)
  show ?thesis
    using assms Inr r same
    by (auto simp: ProcessOne_def Let_def dest!: finish_push_devices retry_push_devices after_send_devices split: option.splits sum.splits early.splits prod.splits)
qed (use assms in \<open>auto simp: ProcessOne_def\<close>)

lemma devices_ok_ProcessOne: "ProcessOne causeText flt redis send skip t tok d = (worked, err, d', n) \<Longrightarrow> devices_ok d \<Longrightarrow> devices_ok d'"
  by (drule ProcessOne_devices) (auto simp: devices_ok_def disable_device_def update_where_key)

text \<open>The registrations of any users and the worker in any order; a registration may read an older state than the one it writes.\<close>

inductive device_step :: "db \<Rightarrow> db \<Rightarrow> bool" where
  upsert: "Upsert svc e d0 d userID session installation req = Inr d' \<Longrightarrow> newid e 0 \<notin> pd_id ` set (push_devices d) \<Longrightarrow> device_step d d'"
| unregister: "Unregister svc e d userID session installation = Inr d' \<Longrightarrow> device_step d d'"
| deliver: "ProcessOne causeText flt redis send skip t tok d = (worked, err, d', n) \<Longrightarrow> device_step d d'"

text \<open>However registrations race with each other and with the push worker, no two device rows ever have the same installation, the same
  token or the same key.
\<close>

theorem devices_stay_unique:
  assumes "device_step\<^sup>*\<^sup>* d d'" and "devices_ok d"
  shows "devices_ok d'"
  using assms
proof (induction rule: rtranclp_induct)
  case (step d1 d2)
  from step.hyps(2) step.IH [OF step.prems] show ?case
    by (cases rule: device_step.cases) (blast intro: devices_ok_Upsert devices_ok_Unregister devices_ok_ProcessOne)+
qed

definition sample_push_service :: push_service where
  "sample_push_service = \<lparr>ps_enabled = True, ps_secret = ''key'', ps_jwt = \<lparr>SignedString = (\<lambda>secret c. None),
     ParseWithClaims = (\<lambda>secret t tok. Some (jwt_claims_at 3600 0 2))\<rparr>, ps_sha256 = id, ps_codec = \<lparr>UuidString = (\<lambda>i. []), UuidParse = (\<lambda>s. None)\<rparr>\<rparr>"

definition sample_device_request :: push_device_request where
  "sample_device_request = \<lparr>dr_token = ''tok2'', dr_platform = ''ios'', dr_device_secret = replicate 32 CHR ''s''\<rparr>"

lemma sample_token_clean: "TrimSpace ''tok2'' = ''tok2''"
  by (rule TrimSpace_id) (simp_all add: clean_start_def space_runes_def char_of_def)

lemma sample_upsert:
  "\<exists>d'. Upsert sample_push_service (sample_env 7 90) sample_push_db sample_push_db 2 ''session'' 77 sample_device_request = Inr d' \<and>
     map pd_token (push_devices d') = [''tok'', ''tok2''] \<and> push_deliveries d' = push_deliveries sample_push_db"
proof -
  have "session_claims sample_push_service 7 2 ''session'' \<noteq> None" by code_simp
  then obtain i ex where c: "session_claims sample_push_service 7 2 ''session'' = Some (i, ex)" by auto
  have dev: "push_devices sample_push_db = [sample_device 50 2]" by (simp add: sample_push_db_def)
  have ok: "device_request_ok 77 sample_device_request" by (simp add: device_request_ok_def sample_device_request_def sample_token_clean)
  show ?thesis using c ok
    by (simp add: Upsert_def sample_push_service_def sample_device_request_def platform_of_def dev ent_only_def insert_device_def sample_device_def)
qed

theorem devices_stay_unique_witness:
  "\<exists>d'. device_step\<^sup>*\<^sup>* sample_push_db d' \<and> map pd_token (push_devices d') = [''tok'', ''tok2''] \<and> devices_ok d'"
proof -
  obtain d' where u: "Upsert sample_push_service (sample_env 7 90) sample_push_db sample_push_db 2 ''session'' 77 sample_device_request = Inr d'"
    and t: "map pd_token (push_devices d') = [''tok'', ''tok2'']"
    using sample_upsert by (elim exE conjE)
  have dev: "push_devices sample_push_db = [sample_device 50 2]" by (simp add: sample_push_db_def)
  have "device_step sample_push_db d'" by (rule upsert [OF u]) (simp add: dev sample_device_def)
  then have run: "device_step\<^sup>*\<^sup>* sample_push_db d'" by (rule r_into_rtranclp)
  have "devices_ok sample_push_db" by (simp add: devices_ok_def dev)
  then have "devices_ok d'" by (rule devices_stay_unique [OF run])
  with run t show ?thesis by (intro exI [of _ d'] conjI)
qed

section \<open>A token belongs to who registered it last\<close>

lemma ProcessOne_claimed:
  assumes "ProcessOne causeText flt redis send skip t tok d = (worked, err, d', Some n)" and "Claim flt skip t tok d = Inr (Some row, d1)"
    and "distinct (map dl_id (push_deliveries d))"
  obtains device where "device \<in> set (push_devices d)" and "pd_binding_id device = dl_binding_id row" and "pd_disabled_at device = None"
    and "nt_token n = pd_token device" and "pd_user_id device = dl_user_id row" and "nt_event_id n = dl_event_id row" and "nt_message_id n = dl_message_id row"
proof -
  obtain device msg title body where ck: "check_delivery flt redis t d1 row = Inr (device, msg, title, body)"
    and n: "n = notification_of row device title body"
    using assms(1,2) by (auto simp: ProcessOne_def Let_def split: sum.splits early.splits prod.splits)
  have same: "push_devices d1 = push_devices d" by (subst Claim_row(3) [OF assms(2,3)]) simp
  have "device \<in> set (filter (\<lambda>v. pd_id v = dl_device_id row) (push_devices d))" using check_delivery_Inr(1) [OF ck] same by simp
  with check_delivery_Inr [OF ck] show thesis by (intro that [of device]) (auto simp: n notification_of_def)
qed

text \<open>What may happen after a registration: further registrations, where the token \<open>T\<close> is registered by users in \<open>U\<close> only and the identifier
  \<open>B\<close> of an earlier binding is not drawn again; devices that are unregistered; runs of the worker; and everything that leaves the devices alone.\<close>

inductive token_step :: "string \<Rightarrow> uuid set \<Rightarrow> uuid \<Rightarrow> db \<Rightarrow> db \<Rightarrow> bool" for T U B where
  again: "Upsert svc e d0 d u session installation req = Inr d' \<Longrightarrow> (dr_token req = T \<Longrightarrow> u \<in> U) \<Longrightarrow> B \<noteq> newid e 0 \<Longrightarrow> B \<noteq> newid e 1 \<Longrightarrow> token_step T U B d d'"
| gone: "Unregister svc e d u session installation = Inr d' \<Longrightarrow> B \<noteq> newid e 0 \<Longrightarrow> token_step T U B d d'"
| work: "ProcessOne causeText flt redis send skip t tok d = (worked, err, d', n) \<Longrightarrow> token_step T U B d d'"
| other: "push_devices d' = push_devices d \<Longrightarrow> token_step T U B d d'"

text \<open>Three things last: the token belongs to the users in \<open>U\<close>, a disabled token stays disabled, and a binding that no device has is gone.\<close>

definition owned_token :: "string \<Rightarrow> uuid set \<Rightarrow> db \<Rightarrow> bool" where
  "owned_token T U d \<longleftrightarrow> (\<forall>v\<in>set (push_devices d). pd_token v = T \<longrightarrow> pd_disabled_at v = None \<longrightarrow> pd_user_id v \<in> U)"

definition retired :: "uuid \<Rightarrow> db \<Rightarrow> bool" where
  "retired B d \<longleftrightarrow> B \<notin> pd_binding_id ` set (push_devices d)"

lemma Upsert_devices:
  assumes "Upsert svc e d0 d u session installation req = Inr d'" and "v \<in> set (push_devices d')"
  shows "v \<in> set (push_devices d) \<or> pd_token v = dr_token req \<and> pd_user_id v = u \<and>
    (pd_binding_id v \<in> {newid e 0, newid e 1} \<or> pd_binding_id v \<in> pd_binding_id ` set (push_devices d))"
  using assms(1)
proof (cases rule: Upsert_Inr)
  case (1 existing f)
  let ?P = "\<lambda>v. pd_id v = pd_id existing \<and> pd_binding_id v = pd_binding_id existing \<and> pd_secret_hash v = pd_secret_hash existing"
  have "push_devices d' = update_where ?P f (push_devices d)" and hit: "\<exists>v\<in>set (push_devices d). ?P v" using update_device_Inr [OF 1(4)] by auto
  with assms(2) obtain w where w: "w \<in> set (push_devices d)" "v = (if ?P w then f w else w)" by (auto simp: in_update_where)
  show ?thesis
  proof (cases "?P w")
    case True
    have "pd_binding_id (f w) = newid e 0 \<or> pd_binding_id (f w) = pd_binding_id w" using 1(6) [of w] True by (simp add: rebind_def)
    then show ?thesis using w True 1(5) [of w] imageI [OF w(1), of pd_binding_id] by (auto simp: registered_def)
  next
    case False
    with w have "v = w" by auto
    with w(1) show ?thesis by simp
  qed
next
  case (2 new)
  then show ?thesis using insert_device_Inr [OF 2(2)] assms(2) by auto
qed

lemma Unregister_devices:
  assumes "Unregister svc e d u session installation = Inr d'" and "v \<in> set (push_devices d')"
  obtains w where "w \<in> set (push_devices d)" and "v = w \<or> v = w\<lparr>pd_disabled_at := Some (now e), pd_binding_id := newid e 0\<rparr>"
  using assms by (auto simp: Unregister_def Let_def in_update_where split: if_splits)

lemma token_step_keeps:
  assumes "token_step T U B d d'"
  shows "(owned_token T U d \<longrightarrow> owned_token T U d') \<and> (retired B d \<longrightarrow> retired B d')"
  using assms
proof cases
  case (again svc e d0 u session installation req)
  then show ?thesis using Upsert_devices [OF again(1)] unfolding owned_token_def retired_def by (auto 0 4 dest!: Upsert_devices [OF again(1)])
next
  case (gone svc e u session installation)
  then show ?thesis unfolding owned_token_def retired_def by (auto elim!: Unregister_devices [OF gone(1)])
next
  case (work causeText flt redis send skip t tok worked err n)
  from ProcessOne_devices [OF work(1)] obtain v where "push_devices d' = push_devices d \<or> push_devices d' = disable_device t v (push_devices d)" by blast
  then show ?thesis
  proof
    assume d': "push_devices d' = disable_device t v (push_devices d)"
    have row: "\<exists>w\<in>set (push_devices d). x = w \<or> x = w\<lparr>pd_disabled_at := Some t\<rparr>" if "x \<in> set (push_devices d')" for x
      using that unfolding d' disable_device_def in_update_where by metis
    have "owned_token T U d'" if o: "owned_token T U d"
      unfolding owned_token_def
    proof (intro ballI impI)
      fix x
      assume x: "x \<in> set (push_devices d')" "pd_token x = T" "pd_disabled_at x = None"
      from row [OF x(1)] obtain w where "w \<in> set (push_devices d)" "x = w" using x(3) by auto
      with o x(2,3) show "pd_user_id x \<in> U" by (simp add: owned_token_def)
    qed
    moreover have "retired B d'" if "retired B d" using that row unfolding retired_def image_iff by fastforce
    ultimately show ?thesis by blast
  qed (simp add: owned_token_def retired_def)
next
  case other
  then show ?thesis by (simp add: owned_token_def retired_def)
qed

lemma token_run_keeps:
  "(token_step T U B)\<^sup>*\<^sup>* d d' \<Longrightarrow> (owned_token T U d \<longrightarrow> owned_token T U d') \<and> (retired B d \<longrightarrow> retired B d')"
  by (induction rule: rtranclp_induct) (use token_step_keeps in blast)+

lemma Upsert_owns:
  assumes "Upsert svc e d0 d u session installation req = Inr d'" and "devices_ok d" and "newid e 0 \<notin> pd_id ` set (push_devices d)"
  shows "owned_token (dr_token req) {u} d'"
proof -
  have "\<exists>new\<in>set (push_devices d'). pd_token new = dr_token req \<and> pd_user_id new = u"
    using assms(1)
  proof (cases rule: Upsert_Inr)
    case (1 existing f)
    let ?P = "\<lambda>v. pd_id v = pd_id existing \<and> pd_binding_id v = pd_binding_id existing \<and> pd_secret_hash v = pd_secret_hash existing"
    have d': "push_devices d' = update_where ?P f (push_devices d)" and "\<exists>v\<in>set (push_devices d). ?P v" using update_device_Inr [OF 1(4)] by auto
    then obtain v where "v \<in> set (push_devices d)" "?P v" by blast
    then have "f v \<in> set (push_devices d')" by (auto simp: d' in_update_where)
    with 1(5) [of v] show ?thesis by (auto simp: registered_def)
  next
    case (2 new)
    then show ?thesis using insert_device_Inr [OF 2(2)] by auto
  qed
  then obtain new where new: "new \<in> set (push_devices d')" "pd_token new = dr_token req" "pd_user_id new = u" by blast
  have "devices_ok d'" by (rule devices_ok_Upsert [OF assms])
  then have "x = new" if "x \<in> set (push_devices d')" "pd_token x = dr_token req" for x
    using that new distinct_key_eq [of pd_token "push_devices d'" x new] by (simp add: devices_ok_def)
  then show ?thesis using new(3) by (auto simp: owned_token_def)
qed

text \<open>The row a registration read was bound to another user, token or session, or disabled.\<close>

definition bound_otherwise :: "push_service \<Rightarrow> uuid \<Rightarrow> string \<Rightarrow> push_device_request \<Rightarrow> push_device \<Rightarrow> bool" where
  "bound_otherwise svc u session req x \<longleftrightarrow> pd_user_id x \<noteq> u \<or> pd_token x \<noteq> dr_token req \<or> pd_session_hash x \<noteq> Fingerprint svc session \<or> pd_disabled_at x \<noteq> None"

lemma Upsert_retires:
  assumes "Upsert svc e d0 d u session installation req = Inr d'" and "distinct (map pd_binding_id (push_devices d))"
    and "distinct (map pd_installation_id (push_devices d0))" and "x \<in> set (push_devices d0)" and "pd_installation_id x = installation"
    and "bound_otherwise svc u session req x" and "pd_binding_id x \<noteq> newid e 0"
  shows "retired (pd_binding_id x) d'"
  using assms(1)
proof (cases rule: Upsert_Inr)
  case (1 existing f)
  have "existing = x" using distinct_key_eq [OF assms(3) 1(1) assms(4)] 1(2) assms(5) by simp
  with 1(6) assms(6) have new: "pd_binding_id (f v) = newid e 0" for v by (auto simp: rebind_def bound_otherwise_def)
  let ?P = "\<lambda>v. pd_id v = pd_id existing \<and> pd_binding_id v = pd_binding_id existing \<and> pd_secret_hash v = pd_secret_hash existing"
  have d': "push_devices d' = update_where ?P f (push_devices d)" and "\<exists>v\<in>set (push_devices d). ?P v" using update_device_Inr [OF 1(4)] by auto
  then obtain v where v: "v \<in> set (push_devices d)" "?P v" by blast
  have "?P w" if "w \<in> set (push_devices d)" "pd_binding_id w = pd_binding_id x" for w
    using distinct_key_eq [OF assms(2) that(1) v(1)] that(2) v(2) \<open>existing = x\<close> by simp
  note hit = this
  show ?thesis unfolding retired_def
  proof
    assume "pd_binding_id x \<in> pd_binding_id ` set (push_devices d')"
    then obtain w where w: "w \<in> set (push_devices d)" "pd_binding_id x = pd_binding_id (if ?P w then f w else w)" by (auto simp: d' in_update_where)
    show False
    proof (cases "?P w")
      case True
      then have "pd_binding_id x = pd_binding_id (f w)" using w(2) by simp
      then show False using new assms(7) by simp
    next
      case False
      then have "pd_binding_id w = pd_binding_id x" using w(2) by (simp only: if_False)
      then show False using hit [OF w(1)] False by blast
    qed
  qed
next
  case (2 new)
  then show ?thesis using assms(4,5) by blast
qed

lemma Unregister_ends:
  assumes "Unregister svc e d u session installation = Inr d'" and "devices_ok d" and "distinct (map pd_binding_id (push_devices d))"
    and "v \<in> set (push_devices d)" and "pd_installation_id v = installation" and "pd_binding_id v \<noteq> newid e 0"
  shows "owned_token (pd_token v) {} d' \<and> retired (pd_binding_id v) d'"
proof -
  let ?P = "\<lambda>v. pd_installation_id v = installation \<and> pd_user_id v = u \<and> pd_session_hash v = Fingerprint svc session"
  let ?f = "\<lambda>v. v\<lparr>pd_disabled_at := Some (now e), pd_binding_id := newid e 0\<rparr>"
  have d': "push_devices d' = update_where ?P ?f (push_devices d)" and hit: "\<exists>x\<in>set (push_devices d). ?P x"
    using assms(1) by (auto simp: Unregister_def Let_def affected_0 split: if_splits)
  obtain x where x: "x \<in> set (push_devices d)" "?P x" using hit by blast
  have "x = v" using distinct_key_eq [of pd_installation_id "push_devices d" x v] assms(2,4,5) x by (simp add: devices_ok_def)
  with x(2) have P: "?P v" by simp
  have tok: "y = v" if "y \<in> set (push_devices d)" "pd_token y = pd_token v" for y
    using distinct_key_eq [of pd_token "push_devices d" y v] assms(2,4) that by (simp add: devices_ok_def)
  have bind: "y = v" if "y \<in> set (push_devices d)" "pd_binding_id y = pd_binding_id v" for y
    using distinct_key_eq [OF assms(3)] assms(4) that by blast
  have "owned_token (pd_token v) {} d'" unfolding owned_token_def
  proof (intro ballI impI)
    fix z
    assume "z \<in> set (push_devices d')" and z: "pd_token z = pd_token v" "pd_disabled_at z = None"
    then obtain y where y: "y \<in> set (push_devices d)" "z = (if ?P y then ?f y else y)" by (auto simp: d' in_update_where)
    with z(1) have "y = v" using tok [OF y(1)] by (auto split: if_splits)
    with y(2) P z(2) show "pd_user_id z \<in> {}" by simp
  qed
  moreover have "retired (pd_binding_id v) d'" unfolding retired_def
  proof
    assume "pd_binding_id v \<in> pd_binding_id ` set (push_devices d')"
    then obtain y where y: "y \<in> set (push_devices d)" "pd_binding_id v = pd_binding_id (if ?P y then ?f y else y)" by (auto simp: d' in_update_where)
    with assms(6) have "\<not> ?P y" "pd_binding_id y = pd_binding_id v" by (auto split: if_splits)
    with bind [OF y(1)] P show False by blast
  qed
  ultimately show ?thesis by blast
qed

text \<open>
  C23. After a registration succeeded, and for every run of the worker that starts afterwards until somebody else registers the token: what is
  handed to the provider for this token was enqueued for the user who registered it. If the row that the registration read was bound to
  another user, token or session, or disabled, then the deliveries that were enqueued for that earlier binding are not sent, by any later run. After
  a device was unregistered nothing is handed out for its token until it is registered again, and nothing at all of what was enqueued for the binding it had.
  Identifiers of bindings are assumed not to be drawn twice.
\<close>

theorem registration_owns_token:
  assumes "devices_ok d" and "devices_ok d0" and "distinct (map pd_binding_id (push_devices d))" and "newid e 0 \<notin> pd_id ` set (push_devices d)"
    and "(token_step T U B)\<^sup>*\<^sup>* d1 d2" and "B \<noteq> newid e 0" and "distinct (map dl_id (push_deliveries d2))"
    and "Claim flt skip t tok d2 = Inr (Some row, d3)" and "ProcessOne causeText flt redis send skip t tok d2 = (worked, err, d4, sent)"
  shows "(Upsert svc e d0 d u session installation req = Inr d1 \<and> T = dr_token req \<and> U = {u} \<longrightarrow>
       (\<forall>n. sent = Some n \<and> nt_token n = T \<longrightarrow> dl_user_id row = u \<and> nt_event_id n = dl_event_id row \<and> nt_message_id n = dl_message_id row)) \<and>
    (Upsert svc e d0 d u session installation req = Inr d1 \<and> x \<in> set (push_devices d0) \<and> pd_installation_id x = installation \<and>
       bound_otherwise svc u session req x \<and> B = pd_binding_id x \<and> dl_binding_id row = B \<longrightarrow> sent = None) \<and>
    (Unregister svc e d u session installation = Inr d1 \<and> v \<in> set (push_devices d) \<and> pd_installation_id v = installation \<and>
       T = pd_token v \<and> U = {} \<and> B = pd_binding_id v \<longrightarrow> (\<forall>n. sent = Some n \<longrightarrow> nt_token n \<noteq> T \<and> dl_binding_id row \<noteq> B))"
proof -
  note keeps = token_run_keeps [OF assms(5)]
  have sent: "(owned_token T U d2 \<longrightarrow> nt_token n = T \<longrightarrow> dl_user_id row \<in> U) \<and> (retired B d2 \<longrightarrow> dl_binding_id row \<noteq> B) \<and>
      nt_event_id n = dl_event_id row \<and> nt_message_id n = dl_message_id row" if "sent = Some n" for n
    by (rule ProcessOne_claimed [OF assms(9) [unfolded that] assms(8,7)]) (auto simp: owned_token_def retired_def image_iff)
  have "retired B d1" if "Upsert svc e d0 d u session installation req = Inr d1" "x \<in> set (push_devices d0)" "pd_installation_id x = installation"
      "bound_otherwise svc u session req x" "B = pd_binding_id x"
    using Upsert_retires [OF that(1) assms(3) _ that(2-4)] assms(2,6) that(5) by (simp add: devices_ok_def)
  moreover have "owned_token T {u} d1" if "Upsert svc e d0 d u session installation req = Inr d1" "T = dr_token req"
    using Upsert_owns [OF that(1) assms(1,4)] that(2) by simp
  moreover have "owned_token T {} d1 \<and> retired B d1" if "Unregister svc e d u session installation = Inr d1" "v \<in> set (push_devices d)"
      "pd_installation_id v = installation" "T = pd_token v" "B = pd_binding_id v"
    using Unregister_ends [OF that(1) assms(1,3) that(2,3)] assms(6) that(4,5) by simp
  ultimately show ?thesis using keeps sent by (cases sent) auto
qed

text \<open>Device 50 registers again, with the session, the token and the secret it had.\<close>

definition sample_again_service :: push_service where
  "sample_again_service = sample_push_service\<lparr>ps_sha256 := (\<lambda>x. if length x = 32 then ''s'' else ''h''), ps_jwt := \<lparr>SignedString = (\<lambda>secret c. None),
     ParseWithClaims = (\<lambda>secret t tok. Some \<lparr>jc_user_id = 2, jc_issued_at_millis = 5, jc_expires_at = Some 5000, jc_issued_at = Some 0, jc_issuer = []\<rparr>)\<rparr>\<rparr>"

definition sample_again_request :: push_device_request where
  "sample_again_request = \<lparr>dr_token = ''tok'', dr_platform = ''android'', dr_device_secret = replicate 32 CHR ''s''\<rparr>"

lemma sample_again: "Upsert sample_again_service (sample_env 7 90) sample_push_db sample_push_db 2 ''session'' 1 sample_again_request = Inr sample_push_db"
proof -
  have "TrimSpace ''tok'' = ''tok''" by (rule TrimSpace_id) (simp_all add: clean_start_def space_runes_def char_of_def)
  moreover have "push_devices sample_push_db = [sample_device 50 2]" by (simp add: sample_push_db_def)
  moreover from this have "sample_push_db\<lparr>push_devices := [sample_device 50 2]\<rparr> = sample_push_db" by (simp add: sample_push_db_def)
  ultimately show ?thesis
    by (simp add: Upsert_def sample_again_service_def sample_push_service_def sample_again_request_def device_request_ok_def platform_of_def session_claims_def
        token_issued_at_def ent_only_def Fingerprint_def update_device_def affected_def rebind_def sample_device_def update_where_simps)
qed

text \<open>The same registration under another session renews the binding.\<close>

definition sample_renew_service :: push_service where
  "sample_renew_service = sample_again_service\<lparr>ps_sha256 := (\<lambda>x. if length x = 32 then ''s'' else ''h2'')\<rparr>"

definition sample_renewed :: db where
  "sample_renewed = sample_push_db\<lparr>push_devices := [(sample_device 50 2)\<lparr>pd_session_hash := ''h2'', pd_binding_id := 90\<rparr>]\<rparr>"

lemma sample_renew: "Upsert sample_renew_service (sample_env 7 90) sample_push_db sample_push_db 2 ''session'' 1 sample_again_request = Inr sample_renewed"
proof -
  have "TrimSpace ''tok'' = ''tok''" by (rule TrimSpace_id) (simp_all add: clean_start_def space_runes_def char_of_def)
  moreover have "push_devices sample_push_db = [sample_device 50 2]" by (simp add: sample_push_db_def)
  ultimately show ?thesis
    by (simp add: Upsert_def sample_renew_service_def sample_again_service_def sample_push_service_def sample_again_request_def device_request_ok_def platform_of_def session_claims_def
        token_issued_at_def ent_only_def Fingerprint_def update_device_def affected_def rebind_def sample_device_def update_where_simps sample_renewed_def)
qed

lemma sample_renew_claim:
  "Claim no_fault no_skip 200 99 sample_renewed = Inr (Some (lease_delivery 200 99 (sample_delivery 60 50)),
     sample_renewed\<lparr>push_deliveries := [lease_delivery 200 99 (sample_delivery 60 50)]\<rparr>)"
  by code_simp

text \<open>Delivery 60 is sent after the device has registered again as it was, and not when it has come back with another session.\<close>

theorem registration_owns_token_witness:
  "\<exists>d4 n. sample_push = (True, None, d4, Some n) \<and> nt_token n = dr_token sample_again_request \<and> dl_user_id (sample_delivery 60 50) = 2 \<and>
     nt_event_id n = dl_event_id (sample_delivery 60 50) \<and>
     snd (snd (snd (ProcessOne (\<lambda>_. ''down'') no_fault (Some sample_redis) (\<lambda>_. None) no_skip 200 99 sample_renewed))) = None"
proof -
  obtain d4 n where run: "sample_push = (True, None, d4, Some n)" and tok: "nt_token n = ''tok''" using sample_push_run by blast
  obtain worked err d5 sent where late: "ProcessOne (\<lambda>_. ''down'') no_fault (Some sample_redis) (\<lambda>_. None) no_skip 200 99 sample_renewed = (worked, err, d5, sent)"
    by (metis prod.exhaust)
  have dev: "push_devices sample_push_db = [sample_device 50 2]" by (simp add: sample_push_db_def)
  have ok: "devices_ok sample_push_db" "distinct (map pd_binding_id (push_devices sample_push_db))" by (simp_all add: devices_ok_def dev)
  have fresh: "newid (sample_env 7 90) 0 \<notin> pd_id ` set (push_devices sample_push_db)" "(3 :: uuid) \<noteq> newid (sample_env 7 90) 0"
    by (simp_all add: dev sample_device_def sample_env_def)
  have t: "dr_token sample_again_request = ''tok''" by (simp add: sample_again_request_def)
  have ids: "distinct (map dl_id (push_deliveries sample_renewed))" by code_simp
  have "dl_user_id (lease_delivery 200 99 (sample_delivery 60 50)) = 2 \<and> nt_event_id n = dl_event_id (lease_delivery 200 99 (sample_delivery 60 50))"
    using registration_owns_token [OF ok(1,1,2) fresh(1) rtranclp.rtrancl_refl [of "token_step ''tok'' {2} 3" sample_push_db] fresh(2) sample_push_ids sample_push_claim run [unfolded sample_push_def],
        where svc = sample_again_service and u = 2 and session = "''session''" and installation = 1 and req = sample_again_request] sample_again tok t by metis
  moreover have "sent = None"
    using registration_owns_token [OF ok(1,1,2) fresh(1) rtranclp.rtrancl_refl [of "token_step ''tok'' {2} 3" sample_renewed] fresh(2) ids sample_renew_claim late,
        where svc = sample_renew_service and u = 2 and session = "''session''" and installation = 1 and req = sample_again_request and x = "sample_device 50 2"] sample_renew
    by (simp add: dev bound_otherwise_def sample_device_def sample_delivery_def lease_delivery_def Fingerprint_def sample_renew_service_def)
  ultimately show ?thesis using run tok t late by (auto simp: lease_delivery_def)
qed

section \<open>Muted chats\<close>

lemma upsert_preference_muted:
  assumes "mr_muted_forever req \<or> (\<exists>b. mr_muted_until req = Some b \<and> t < b)"
  shows "\<exists>p\<in>set (upsert_preference e userID chatID req rows). np_user_id p = userID \<and> np_chat_id p = chatID \<and> muted t p"
proof (cases "\<exists>p\<in>set rows. np_user_id p = userID \<and> np_chat_id p = chatID")
  case True
  then obtain p where "p \<in> set rows" "np_user_id p = userID" "np_chat_id p = chatID" by blast
  then have "p\<lparr>np_muted_forever := mr_muted_forever req, np_muted_until := mr_muted_until req\<rparr> \<in> set (upsert_preference e userID chatID req rows)"
    by (auto simp: upsert_preference_def Let_def affected_0 update_where_def)
  then show ?thesis using \<open>np_user_id p = userID\<close> \<open>np_chat_id p = chatID\<close> assms by (intro bexI) (auto simp: muted_def split: option.splits)
next
  case False
  then show ?thesis using assms by (auto simp: upsert_preference_def Let_def affected_0 muted_def split: option.splits)
qed

lemma SetChatMute_muted:
  assumes "SetChatMute e d userID chatID req = Inr d'" and "mr_muted_forever req \<or> (\<exists>b. mr_muted_until req = Some b \<and> t < b)"
  shows "\<exists>p\<in>set (notification_preferences d'). np_user_id p = userID \<and> np_chat_id p = chatID \<and> muted t p"
proof -
  have "notification_preferences d' = upsert_preference e userID chatID req (notification_preferences d)"
    using assms by (auto simp: SetChatMute_def result_simps)
  with upsert_preference_muted [OF assms(2)] show ?thesis by simp
qed

lemma NotificationRecipients_muted:
  assumes "NotificationRecipients flt t d chatID ids = Inr ps" and "p \<in> set (notification_preferences d)" and "np_user_id p = userID" and "np_chat_id p = chatID" and "muted t p"
  shows "userID \<notin> set ps"
  using assms by (auto simp: NotificationRecipients_def result_simps split: if_splits) metis

lemma enqueue_recipients_allowed:
  assumes "enqueue_recipients flt t d msg s = Inr rs"
  shows "\<exists>members ps. NotificationRecipients flt t d (m_chat_id msg) members = Inr ps \<and> set rs \<subseteq> set ps"
proof -
  obtain members ps active blocked where nr: "NotificationRecipients flt t d (m_chat_id msg) members = Inr ps"
    and rest: "(case ent_only (flt ''enqueue.private'') (filter (\<lambda>p. pc_chat_id p = m_chat_id msg) (private_chats d)) of
          Inr pc \<Rightarrow> Inr (filter (enqueue_recipient msg s ps blocked (Some pc) []) active)
        | Inl NotFoundError \<Rightarrow>
            and_then (ent_all (flt ''enqueue.joined'') (filter (\<lambda>m. gm_user_id m \<in> set members \<and> joined_before d msg m) (group_members d)))
              (\<lambda>rows. Inr (filter (enqueue_recipient msg s ps blocked None (map gm_user_id rows)) active))
        | Inl e \<Rightarrow> Inl e) = Inr rs"
    using assms unfolding enqueue_recipients_def by (auto simp only: and_then_Inr)
  have "set rs \<subseteq> set ps"
    using rest by (cases "ent_only (flt ''enqueue.private'') (filter (\<lambda>p. pc_chat_id p = m_chat_id msg) (private_chats d))")
      (auto simp: enqueue_recipient_def and_then_Inr ent_all_Inr split: ent_error.splits)
  with nr show ?thesis by blast
qed

text \<open>Once a user has muted a chat, for good or until an instant, and as long as the mute lasts and the preference is not changed, no message
  of this chat is enqueued for him, and no delivery that was enqueued before passes the checks of the worker.
\<close>

theorem mute_silences:
  assumes "SetChatMute e d userID chatID req = Inr d'" and "mr_muted_forever req \<or> (\<exists>b. mr_muted_until req = Some b \<and> t < b)"
    and "notification_preferences d1 = notification_preferences d'"
  shows "(enqueue_recipients flt t d1 msg s = Inr rs \<and> m_chat_id msg = chatID \<longrightarrow> userID \<notin> set rs) \<and>
    (dl_user_id row = userID \<and> dl_chat_id row = chatID \<longrightarrow> check_delivery flt redis t d1 row \<noteq> Inr sent)"
proof -
  obtain p where p: "p \<in> set (notification_preferences d1)" "np_user_id p = userID" "np_chat_id p = chatID" "muted t p"
    using SetChatMute_muted [OF assms(1,2)] assms(3) by auto
  show ?thesis
  proof (intro conjI impI; elim conjE)
    assume e: "enqueue_recipients flt t d1 msg s = Inr rs" and c: "m_chat_id msg = chatID"
    then show "userID \<notin> set rs" using NotificationRecipients_muted [OF _ p] by (blast dest: enqueue_recipients_allowed)
  next
    assume r: "dl_user_id row = userID" "dl_chat_id row = chatID"
    show "check_delivery flt redis t d1 row \<noteq> Inr sent"
    proof
      assume k: "check_delivery flt redis t d1 row = Inr sent"
      obtain device m title body where "sent = (device, m, title, body)" by (cases sent)
      with check_delivery_Inr(9) [OF k [unfolded this]] NotificationRecipients_muted [OF _ p] r show False by blast
    qed
  qed
qed

theorem mute_silences_witness:
  "\<exists>d'. SetChatMute (sample_env 7 90) sample_push_db 2 10 \<lparr>mr_muted_forever = True, mr_muted_until = None\<rparr> = Inr d' \<and>
     check_delivery no_fault (Some sample_redis) 200 d' (sample_delivery 60 50) \<noteq> Inr (sample_device 50 2, sample_message 20 10 1 100, [], [])"
proof -
  let ?req = "\<lparr>mr_muted_forever = True, mr_muted_until = None\<rparr>"
  have "case SetChatMute (sample_env 7 90) sample_push_db 2 10 ?req of Inl _ \<Rightarrow> False | Inr _ \<Rightarrow> True" by code_simp
  then obtain d' where d': "SetChatMute (sample_env 7 90) sample_push_db 2 10 ?req = Inr d'" by (auto split: sum.splits)
  have "check_delivery no_fault (Some sample_redis) 200 d' (sample_delivery 60 50) \<noteq> Inr (sample_device 50 2, sample_message 20 10 1 100, [], [])"
    using mute_silences [OF d', of 200 d' _ _ _ _ "sample_delivery 60 50"] by (simp add: sample_delivery_def)
  with d' show ?thesis by blast
qed

end
