(* ===== verification/Group_Search.thy ===== *)
theory Group_Search
  imports Chat_Repository Search_Pages Auth_Service
begin

text \<open>
  Searching groups and their members: \<open>SearchGroupMembers\<close> (\<^verbatim>\<open>group_member_service.go\<close>), \<open>SearchPublicGroups\<close>
  (\<^verbatim>\<open>group_public_service.go\<close>), the repositories \<^verbatim>\<open>group_member_repository.go\<close> and \<^verbatim>\<open>group_chat_repository.go\<close> and the entry of
  a member in \<^verbatim>\<open>mapper/group.go\<close>. The text of an instant in a cursor is the argument \<open>time_codec\<close>.
\<close>

record time_codec =
  TimeFormat :: "time \<Rightarrow> string"
  TimeParse :: "string \<Rightarrow> time option"

record group_search =
  gx_urls :: urlgen
  gx_codec :: uuid_codec
  gx_times :: time_codec
  gx_lower :: "string \<Rightarrow> string"
  gx_collation :: collation

abbreviation (input) begins_with :: "group_search \<Rightarrow> string \<Rightarrow> string option \<Rightarrow> bool" where
  "begins_with svc \<equiv> has_lower_prefix (gx_collation svc) (gx_lower svc)"

section \<open>Members\<close>

definition member_matches :: "group_search \<Rightarrow> db \<Rightarrow> uuid \<Rightarrow> string \<Rightarrow> group_member \<Rightarrow> bool" where
  "member_matches svc d groupID q m \<longleftrightarrow> gm_group_chat_id m = groupID \<and> member_user_live d m \<and>
     (q = [] \<or> (\<exists>u\<in>set (users d). u_id u = gm_user_id m \<and> (begins_with svc q (u_username u) \<or> begins_with svc q (u_full_name u))))"

definition member_cursor :: "group_search \<Rightarrow> string \<Rightarrow> search_error + (time \<times> uuid) option" where
  "member_cursor svc cursor =
     (if cursor = [] then Inr None
      else case DecodeCursor cursor ''|'' of
             Inl er \<Rightarrow> Inl (CursorFormat er)
           | Inr (joinedAtText, idText) \<Rightarrow>
               (case UuidParse (gx_codec svc) idText of
                  None \<Rightarrow> Inl CursorIdFormat
                | Some i \<Rightarrow> (case TimeParse (gx_times svc) joinedAtText of None \<Rightarrow> Inl CursorKeyFormat | Some joinedAt \<Rightarrow> Inr (Some (joinedAt, i)))))"

definition after_member :: "(time \<times> uuid) option \<Rightarrow> group_member \<Rightarrow> bool" where
  "after_member cur m = (case cur of None \<Rightarrow> True | Some (joinedAt, i) \<Rightarrow> gm_joined_at m > joinedAt \<or> gm_joined_at m = joinedAt \<and> gm_id m > i)"

definition joined_key :: "group_member \<Rightarrow> time \<times> uuid" where
  "joined_key m = (gm_joined_at m, gm_id m)"

definition member_next_cursor :: "group_search \<Rightarrow> group_member \<Rightarrow> string" where
  "member_next_cursor svc m = EncodeCursor (TimeFormat (gx_times svc) (gm_joined_at m)) (UuidString (gx_codec svc) (gm_id m)) ''|''"

definition RepoSearchGroupMembers :: "group_search \<Rightarrow> env \<Rightarrow> db \<Rightarrow> uuid \<Rightarrow> string \<Rightarrow> string \<Rightarrow> nat \<Rightarrow> search_error + (group_member list \<times> string \<times> bool)" where
  "RepoSearchGroupMembers svc e d groupID queryStr cursor limit =
     (let q = TrimSpace queryStr in
      and_then (member_cursor svc cursor) (\<lambda>cur.
      and_then (on_err (ent_all (fault e ''search members'') (take (limit + 1) (sort_key joined_key
            (filter (\<lambda>m. member_matches svc d groupID q m \<and> after_member cur m) (group_members d))))) SearchQuery) (\<lambda>rows.
        Inr (page_of limit (member_next_cursor svc) rows))))"

record group_member_dto =
  gmd_id :: uuid
  gmd_user_id :: uuid
  gmd_username :: string
  gmd_full_name :: string
  gmd_avatar :: string
  gmd_role :: string
  gmd_joined_at :: "time option"
  gmd_is_banned :: bool

text \<open>The instant of joining is shown as it is; the entry of a member whose user is not loaded is empty.\<close>

definition ToGroupMemberDTO :: "urlgen \<Rightarrow> time \<Rightarrow> group_member \<Rightarrow> loaded_user option \<Rightarrow> group_member_dto" where
  "ToGroupMemberDTO urls t m loaded =
     (case loaded of
        None \<Rightarrow> \<lparr>gmd_id = uuid_Nil, gmd_user_id = uuid_Nil, gmd_username = [], gmd_full_name = [], gmd_avatar = [], gmd_role = [], gmd_joined_at = None, gmd_is_banned = False\<rparr>
      | Some (u, avatar) \<Rightarrow>
          \<lparr>gmd_id = gm_id m, gmd_user_id = u_id u, gmd_username = text_or_empty (u_username u), gmd_full_name = text_or_empty (u_full_name u),
           gmd_avatar = avatar_link urls avatar, gmd_role = role_text (gm_role m), gmd_joined_at = Some (gm_joined_at m),
           gmd_is_banned = (u_is_banned u \<and> \<not> (case u_banned_until u of None \<Rightarrow> False | Some b \<Rightarrow> b < t))\<rparr>)"

record member_search_request =
  ms_group_id :: uuid
  ms_query :: string
  ms_cursor :: string
  ms_limit :: nat

definition SearchGroupMembers :: "group_search \<Rightarrow> env \<Rightarrow> (member_search_request \<Rightarrow> bool) \<Rightarrow> db \<Rightarrow> uuid \<Rightarrow> member_search_request \<Rightarrow> bool \<Rightarrow>
    app_error + (group_member_dto list \<times> string \<times> bool)" where
  "SearchGroupMembers svc e valid d userID req isAdmin =
     and_then (fail_if (\<not> valid req) (NewBadRequestError [])) (\<lambda>_.
     let limit = (if ms_limit req = 0 then 20 else ms_limit req) in
     and_then (find_group e d (\<lambda>g. gc_chat_id g = ms_group_id req) ''Group chat not found'') (\<lambda>gc.
     and_then (if isAdmin then Inr ()
               else and_then (on_err (ent_exist (fault e ''check group membership'')
                        (filter (\<lambda>m. gm_group_chat_id m = gc_id gc \<and> gm_user_id m = userID) (group_members d))) (\<lambda>_. internal_error)) (\<lambda>isMember.
                    fail_if (\<not> isMember) (NewForbiddenError ''You are not a member of this group''))) (\<lambda>_.
     and_then (on_err (RepoSearchGroupMembers svc e d (gc_id gc) (ms_query req) (ms_cursor req) limit) (\<lambda>_. internal_error)) (\<lambda>(members, nextCursor, hasNext).
       Inr (map (\<lambda>m. ToGroupMemberDTO (gx_urls svc) (now e) m (load_user d (Some (gm_user_id m))))
              (filter (\<lambda>m. case load_user d (Some (gm_user_id m)) of None \<Rightarrow> True | Some (u, _) \<Rightarrow> u_deleted_at u = None) members),
            nextCursor, hasNext)))))"

section \<open>Public groups\<close>

definition group_matches :: "group_search \<Rightarrow> db \<Rightarrow> string \<Rightarrow> group_chat \<Rightarrow> bool" where
  "group_matches svc d q g \<longleftrightarrow> gc_is_public g \<and> chat_live d (gc_chat_id g) \<and>
     (q = [] \<or> begins_with svc q (Some (gc_name g)) \<or> begins_with svc q (gc_description g))"

text \<open>The columns that are read: identifier, chat, name, description and avatar; the others are empty.\<close>

definition selected_group :: "group_chat \<Rightarrow> group_chat" where
  "selected_group g = g\<lparr>gc_created_by := None, gc_is_public := False, gc_invite_code := [], gc_invite_expires_at := None\<rparr>"

subsection \<open>By name\<close>

definition group_name_cursor :: "group_search \<Rightarrow> string \<Rightarrow> search_error + (string \<times> uuid) option" where
  "group_name_cursor svc cursor =
     (if cursor = [] then Inr None
      else case DecodeCursor cursor ''|||'' of
             Inl er \<Rightarrow> Inl (CursorFormat er)
           | Inr (cursorName, idText) \<Rightarrow>
               (case UuidParse (gx_codec svc) idText of None \<Rightarrow> Inl CursorIdFormat | Some cursorID \<Rightarrow> Inr (Some (cursorName, cursorID))))"

definition after_group_name :: "group_search \<Rightarrow> (string \<times> uuid) option \<Rightarrow> group_chat \<Rightarrow> bool" where
  "after_group_name svc cur g =
     (case cur of
        None \<Rightarrow> True
      | Some (cursorName, cursorID) \<Rightarrow>
          name_rank (gx_collation svc) cursorName < name_rank (gx_collation svc) (gc_name g) \<or> gc_name g = cursorName \<and> cursorID < gc_id g)"

definition searchPublicGroupsByName :: "group_search \<Rightarrow> env \<Rightarrow> db \<Rightarrow> string \<Rightarrow> string \<Rightarrow> nat \<Rightarrow> search_error + (group_chat list \<times> string \<times> bool)" where
  "searchPublicGroupsByName svc e d q cursor limit =
     and_then (group_name_cursor svc cursor) (\<lambda>cur.
     and_then (on_err (ent_all (fault e ''search groups'') (take (limit + 1) (sort_key (\<lambda>g. (name_rank (gx_collation svc) (gc_name g), gc_id g))
           (filter (\<lambda>g. group_matches svc d q g \<and> after_group_name svc cur g) (group_chats d))))) SearchQuery) (\<lambda>rows.
       Inr (page_of limit (\<lambda>g. EncodeCursor (gc_name g) (UuidString (gx_codec svc) (gc_id g)) ''|||'') (map selected_group rows))))"

subsection \<open>By the number of members\<close>

text \<open>The sub-select counts the memberships of live users.\<close>

definition member_count :: "db \<Rightarrow> group_chat \<Rightarrow> int" where
  "member_count d g = int (length (live_members d (gc_id g)))"

definition group_count_cursor :: "group_search \<Rightarrow> string \<Rightarrow> search_error + (int \<times> uuid) option" where
  "group_count_cursor svc cursor =
     (if cursor = [] then Inr None
      else case DecodeCursor cursor ''|||'' of
             Inl er \<Rightarrow> Inl (CursorFormat er)
           | Inr (countText, idText) \<Rightarrow>
               (case ParseInt countText of
                  None \<Rightarrow> Inl CursorKeyFormat
                | Some cursorCount \<Rightarrow> (case UuidParse (gx_codec svc) idText of None \<Rightarrow> Inl CursorIdFormat | Some cursorID \<Rightarrow> Inr (Some (cursorCount, cursorID)))))"

definition after_group_count :: "db \<Rightarrow> (int \<times> uuid) option \<Rightarrow> group_chat \<Rightarrow> bool" where
  "after_group_count d cur g =
     (case cur of None \<Rightarrow> True | Some (cursorCount, cursorID) \<Rightarrow> member_count d g < cursorCount \<or> member_count d g = cursorCount \<and> cursorID < gc_id g)"

definition count_key :: "db \<Rightarrow> group_chat \<Rightarrow> int \<times> uuid" where
  "count_key d g = (- member_count d g, gc_id g)"

definition count_next_cursor :: "group_search \<Rightarrow> db \<Rightarrow> group_chat \<Rightarrow> string" where
  "count_next_cursor svc d g = EncodeCursor (FormatInt (member_count d g)) (UuidString (gx_codec svc) (gc_id g)) ''|||''"

definition searchPublicGroupsByMemberCount :: "group_search \<Rightarrow> env \<Rightarrow> db \<Rightarrow> string \<Rightarrow> string \<Rightarrow> nat \<Rightarrow> search_error + (group_chat list \<times> string \<times> bool)" where
  "searchPublicGroupsByMemberCount svc e d q cursor limit =
     and_then (group_count_cursor svc cursor) (\<lambda>cur.
     and_then (on_err (ent_all (fault e ''search groups'') (take (limit + 1) (sort_key (count_key d)
           (filter (\<lambda>g. group_matches svc d q g \<and> after_group_count d cur g) (group_chats d))))) SearchQuery) (\<lambda>rows.
     case page_of limit (count_next_cursor svc d) (map selected_group rows) of
       (page, nextCursor, hasNext) \<Rightarrow>
         if hasNext \<and> page \<noteq> [] \<and> fault e ''count members for cursor'' then Inl (SearchQuery DriverError) else Inr (page, nextCursor, hasNext)))"

definition RepoSearchPublicGroups :: "group_search \<Rightarrow> env \<Rightarrow> db \<Rightarrow> string \<Rightarrow> string \<Rightarrow> nat \<Rightarrow> string \<Rightarrow> search_error + (group_chat list \<times> string \<times> bool)" where
  "RepoSearchPublicGroups svc e d queryStr cursor limit sortBy =
     (let q = TrimSpace queryStr in
      if sortBy = ''member_count'' then searchPublicGroupsByMemberCount svc e d q cursor limit
      else searchPublicGroupsByName svc e d q cursor limit)"

subsection \<open>The handler\<close>

record public_search_request =
  ps_query :: string
  ps_cursor :: string
  ps_limit :: nat
  ps_sort_by :: string

record public_group_dto =
  pgd_id :: uuid
  pgd_chat_id :: uuid
  pgd_name :: string
  pgd_description :: string
  pgd_avatar :: string
  pgd_member_count :: nat
  pgd_is_member :: bool

definition joinedGroups :: "env \<Rightarrow> db \<Rightarrow> uuid \<Rightarrow> uuid list \<Rightarrow> uuid \<Rightarrow> bool" where
  "joinedGroups e d userID groupIDs i \<longleftrightarrow> i \<in> set groupIDs \<and> \<not> fault e ''batch check memberships'' \<and>
     (\<exists>m\<in>set (group_members d). gm_user_id m = userID \<and> gm_group_chat_id m = i)"

definition public_group_entry :: "group_search \<Rightarrow> db \<Rightarrow> (uuid \<Rightarrow> nat option) \<Rightarrow> (uuid \<Rightarrow> bool) \<Rightarrow> group_chat \<Rightarrow> public_group_dto" where
  "public_group_entry svc d memberCounts joined g =
     \<lparr>pgd_id = gc_id g, pgd_chat_id = gc_chat_id g, pgd_name = gc_name g, pgd_description = text_or_empty (gc_description g),
      pgd_avatar = avatar_link (gx_urls svc) (Option.bind (gc_avatar_id g) (media_of d)),
      pgd_member_count = (case memberCounts (gc_id g) of None \<Rightarrow> 0 | Some n \<Rightarrow> n), pgd_is_member = joined (gc_id g)\<rparr>"

definition SearchPublicGroups :: "group_search \<Rightarrow> env \<Rightarrow> (public_search_request \<Rightarrow> bool) \<Rightarrow> count_cache \<Rightarrow> db \<Rightarrow> uuid \<Rightarrow> public_search_request \<Rightarrow>
    (app_error + (public_group_dto list \<times> string \<times> bool)) \<times> count_cache" where
  "SearchPublicGroups svc e valid cache d userID req =
     (if \<not> valid req then (Inl (NewBadRequestError []), cache)
      else let limit = (if ps_limit req = 0 then 20 else ps_limit req);
               sortBy = (if ps_sort_by req = [] then ''name'' else ps_sort_by req) in
        case RepoSearchPublicGroups svc e d (ps_query req) (ps_cursor req) limit sortBy of
          Inl er \<Rightarrow> (Inl (search_failed er), cache)
        | Inr (groups, nextCursor, hasNext) \<Rightarrow>
            let groupIDs = map gc_id groups in
            case (if groupIDs = [] then (Inr (\<lambda>_. None), cache) else CountActiveMembersByGroupIDs e cache d groupIDs) of
              (counts, cache') \<Rightarrow>
                (Inr (map (public_group_entry svc d (case counts of Inl _ \<Rightarrow> (\<lambda>_. None) | Inr f \<Rightarrow> f) (joinedGroups e d userID groupIDs)) groups,
                      nextCursor, hasNext), cache'))"

end
