(* ===== verification/Group_Search_Laws.thy ===== *)
theory Group_Search_Laws
  imports Group_Search Chat_List_Laws User_Laws Group_Properties
begin

text \<open>
  The searches of groups and members as readers of pages: both are instances of \<open>keyset_search\<close>, so that following the cursors lists every
  match once and in order, whatever is in the cache of member counts.
\<close>

section \<open>Members\<close>

definition member_text :: "group_search \<Rightarrow> bool" where
  "member_text svc \<longleftrightarrow> uuid_text (gx_codec svc) \<and> (\<forall>i. CHR ''|'' \<notin> set (UuidString (gx_codec svc) i)) \<and>
     (\<forall>t. TimeParse (gx_times svc) (TimeFormat (gx_times svc) t) = Some t \<and> CHR ''|'' \<notin> set (TimeFormat (gx_times svc) t))"

definition member_mark :: "group_search \<Rightarrow> string \<Rightarrow> (time \<times> uuid) option option" where
  "member_mark svc cursor = (case member_cursor svc cursor of Inl _ \<Rightarrow> None | Inr cur \<Rightarrow> Some cur)"

lemma member_mark_next:
  assumes "member_text svc"
  shows "member_mark svc (member_next_cursor svc m) = Some (Some (joined_key m))"
proof -
  have "DecodeCursor (member_next_cursor svc m) ''|'' = Inr (TimeFormat (gx_times svc) (gm_joined_at m), UuidString (gx_codec svc) (gm_id m))"
    "member_next_cursor svc m \<noteq> []"
    using assms unfolding member_next_cursor_def by (intro own_cursor; simp add: member_text_def sublist_single)+
  then show ?thesis using assms by (simp add: member_mark_def member_cursor_def member_text_def uuid_text_def joined_key_def)
qed

lemma after_member_key: "after_member cur m \<longleftrightarrow> (case cur of None \<Rightarrow> True | Some k \<Rightarrow> k < joined_key m)"
  by (auto simp: after_member_def joined_key_def split: option.splits)

lemma RepoSearchGroupMembers_rows:
  assumes "member_mark svc cursor = Some cur" and "\<not> fault e ''search members''"
  shows "RepoSearchGroupMembers svc e d gid q cursor n = Inr (page_of n (member_next_cursor svc)
     (take (n + 1) (keyset_above joined_key cur (filter (member_matches svc d gid (TrimSpace q)) (group_members d)))))"
  using assms by (simp add: RepoSearchGroupMembers_def member_mark_def ent_all_def keyset_above_def after_member_key conj_commute split: sum.splits)

type_synonym member_reader = "group_search \<times> env \<times> (member_search_request \<Rightarrow> bool) \<times> db \<times> uuid \<times> member_search_request \<times> bool \<times> group_chat"

definition member_ids :: "member_reader \<Rightarrow> string \<Rightarrow> app_error + (uuid list \<times> string \<times> bool)" where
  "member_ids = (\<lambda>(svc, e, valid, d, uid, req, isAdmin, gc) cursor.
     and_then (SearchGroupMembers svc e valid d uid (req\<lparr>ms_cursor := cursor\<rparr>) isAdmin) (\<lambda>(ms, c, h). Inr (map gmd_id ms, c, h)))"

definition found_members :: "member_reader \<Rightarrow> group_member list" where
  "found_members = (\<lambda>(svc, e, valid, d, uid, req, isAdmin, gc). filter (member_matches svc d (gc_id gc) (TrimSpace (ms_query req))) (group_members d))"

definition members_good :: "member_reader \<Rightarrow> bool" where
  "members_good = (\<lambda>(svc, e, valid, d, uid, req, isAdmin, gc).
     (\<forall>site. \<not> fault e site) \<and> (\<forall>cs. valid (req\<lparr>ms_cursor := cs\<rparr>)) \<and> 0 < ms_limit req \<and>
     filter (\<lambda>g. gc_chat_id g = ms_group_id req \<and> chat_live d (gc_chat_id g)) (group_chats d) = [gc] \<and>
     (isAdmin \<or> (\<exists>m\<in>set (group_members d). gm_group_chat_id m = gc_id gc \<and> gm_user_id m = uid)) \<and>
     distinct (map u_id (users d)) \<and> distinct (map gm_id (group_members d)) \<and> member_text svc)"

lemma loaded_member:
  assumes "distinct (map u_id (users d))" and "member_user_live d m"
  shows "\<exists>u av. load_user d (Some (gm_user_id m)) = Some (u, av) \<and> u_deleted_at u = None"
proof -
  obtain u where u: "u \<in> set (users d)" "u_id u = gm_user_id m" "u_deleted_at u = None" using assms(2) by (auto simp: member_user_live_def)
  obtain w where w: "user_of d (gm_user_id m) = Some w" using u(1,2) by (cases "user_of d (gm_user_id m)") (auto simp: user_of_def find_None_iff)
  then have "w \<in> set (users d)" "u_id w = u_id u" using u(2) by (auto simp: user_of_def find_Some_iff)
  then have "w = u" using distinct_key_eq [OF assms(1)] u(1) by blast
  then show ?thesis using u w by (simp add: load_user_def)
qed

lemma member_ids_page:
  assumes "members_good (svc, e, valid, d, uid, req, isAdmin, gc)" and "member_mark svc cursor = Some cur"
  shows "member_ids (svc, e, valid, d, uid, req, isAdmin, gc) cursor = Inr (case page_of (ms_limit req) (member_next_cursor svc)
     (take (ms_limit req + 1) (keyset_above joined_key cur (found_members (svc, e, valid, d, uid, req, isAdmin, gc)))) of (p, nc, h) \<Rightarrow> (map gm_id p, nc, h))"
proof -
  note g = assms(1) [unfolded members_good_def prod.case]
  let ?F = "filter (member_matches svc d (gc_id gc) (TrimSpace (ms_query req))) (group_members d)"
  obtain p nc h where page: "page_of (ms_limit req) (member_next_cursor svc) (take (ms_limit req + 1) (keyset_above joined_key cur ?F)) = (p, nc, h)"
    by (metis prod.exhaust)
  have rows: "RepoSearchGroupMembers svc e d (gc_id gc) (ms_query req) cursor (ms_limit req) = Inr (p, nc, h)"
    using RepoSearchGroupMembers_rows [OF assms(2)] g page by simp
  have "set p \<subseteq> set (keyset_above joined_key cur ?F)"
    using page set_take_subset by (fastforce simp: page_of_def split: if_splits dest: in_set_takeD)
  then have live: "\<exists>u av. load_user d (Some (gm_user_id m)) = Some (u, av) \<and> u_deleted_at u = None" if "m \<in> set p" for m
    using that g loaded_member by (auto simp: keyset_above_mem member_matches_def)
  then have all: "filter (\<lambda>m. case load_user d (Some (gm_user_id m)) of None \<Rightarrow> True | Some (u, _) \<Rightarrow> u_deleted_at u = None) p = p"
    by (fastforce simp: filter_id_conv)
  have ids: "gmd_id (ToGroupMemberDTO (gx_urls svc) (now e) m (load_user d (Some (gm_user_id m)))) = gm_id m" if "m \<in> set p" for m
    using live [OF that] by (auto simp: ToGroupMemberDTO_def)
  have "find_group e d (\<lambda>g. gc_chat_id g = ms_group_id req) ''Group chat not found'' = Inr gc"
    using g by (simp add: find_group_def ent_only_def)
  moreover have "isAdmin \<or> filter (\<lambda>m. gm_group_chat_id m = gc_id gc \<and> gm_user_id m = uid) (group_members d) \<noteq> []"
    using g by (auto simp: filter_empty_conv)
  ultimately have "SearchGroupMembers svc e valid d uid (req\<lparr>ms_cursor := cursor\<rparr>) isAdmin =
      Inr (map (\<lambda>m. ToGroupMemberDTO (gx_urls svc) (now e) m (load_user d (Some (gm_user_id m)))) p, nc, h)"
    using g rows all by (auto simp: SearchGroupMembers_def Let_def ent_exist_def)
  then show ?thesis using page ids by (simp add: member_ids_def found_members_def del: take_Suc_Cons)
qed

interpretation member_search: keyset_search member_ids found_members "\<lambda>_. joined_key" "\<lambda>cfg. member_next_cursor (fst cfg)" "\<lambda>cfg. member_mark (fst cfg)"
  "\<lambda>(svc, e, valid, d, uid, req, isAdmin, gc). ms_limit req" gm_id members_good
proof
  fix cfg :: member_reader and cursor cur m
  show "member_mark (fst cfg) [] = Some None" by (simp add: member_mark_def member_cursor_def)
  assume good: "members_good cfg"
  obtain svc e valid d uid req isAdmin gc where cfg: "cfg = (svc, e, valid, d, uid, req, isAdmin, gc)" by (metis prod.exhaust)
  note g = good [unfolded cfg members_good_def prod.case]
  have "distinct (map gm_id (found_members cfg))" using g by (simp add: cfg found_members_def distinct_map_filter)
  then show "distinct (map joined_key (found_members cfg))" by (auto simp: distinct_map inj_on_def joined_key_def)
  show "0 < (case cfg of (svc, e, valid, d, uid, req, isAdmin, gc) \<Rightarrow> ms_limit req)" using g by (simp add: cfg)
  show "member_mark (fst cfg) (member_next_cursor (fst cfg) m) = Some (Some (joined_key m))" using g member_mark_next by (simp add: cfg)
  show "member_ids cfg cursor = Inr (case page_of (case cfg of (svc, e, valid, d, uid, req, isAdmin, gc) \<Rightarrow> ms_limit req) (member_next_cursor (fst cfg))
      (take ((case cfg of (svc, e, valid, d, uid, req, isAdmin, gc) \<Rightarrow> ms_limit req) + 1) (keyset_above joined_key cur (found_members cfg))) of
      (p, nc, h) \<Rightarrow> (map gm_id p, nc, h))" if "member_mark (fst cfg) cursor = Some cur"
    using member_ids_page good that by (simp add: cfg del: take_Suc_Cons)
qed

text \<open>Following the cursors of \<open>SearchGroupMembers\<close>, a member of the group or an administrator sees every live member that matches, once and in the
  order of joining.
\<close>

theorem member_search_visits_all:
  assumes "members_good (svc, e, valid, d, uid, req, isAdmin, gc)" and "length (group_members d) < fuel"
  shows "walk fuel (member_ids (svc, e, valid, d, uid, req, isAdmin, gc)) [] =
     Some (map gm_id (sort_key joined_key (filter (member_matches svc d (gc_id gc) (TrimSpace (ms_query req))) (group_members d))))"
proof -
  have "length (found_members (svc, e, valid, d, uid, req, isAdmin, gc)) < fuel"
    using assms(2) le_less_trans [OF length_filter_le] by (simp add: found_members_def)
  then show ?thesis using member_search.visits_all [OF assms(1)] by (simp add: found_members_def)
qed

text \<open>Nobody else sees any.\<close>

theorem member_search_members_only:
  assumes "SearchGroupMembers svc e valid d uid req False = Inr out"
  shows "\<exists>m\<in>set (group_members d). \<exists>g\<in>set (group_chats d). gm_group_chat_id m = gc_id g \<and> gc_chat_id g = ms_group_id req \<and> gm_user_id m = uid"
proof -
  obtain gc where gc: "find_group e d (\<lambda>g. gc_chat_id g = ms_group_id req) ''Group chat not found'' = Inr gc"
    and m: "filter (\<lambda>m. gm_group_chat_id m = gc_id gc \<and> gm_user_id m = uid) (group_members d) \<noteq> []"
    using assms by (auto simp: SearchGroupMembers_def result_simps Let_def)
  have "gc \<in> set (group_chats d)" "gc_chat_id gc = ms_group_id req"
    using gc by (auto simp: find_group_def result_simps dest: filter_eq_ConsD)
  then show ?thesis using m by (auto simp: filter_empty_conv)
qed

section \<open>Public groups by the number of members\<close>

definition count_mark :: "group_search \<Rightarrow> string \<Rightarrow> (int \<times> uuid) option option" where
  "count_mark svc cursor = (case group_count_cursor svc cursor of Inl _ \<Rightarrow> None | Inr cur \<Rightarrow> Some (map_option (\<lambda>(n, i). (- n, i)) cur))"

definition bars_free :: "group_search \<Rightarrow> bool" where
  "bars_free svc \<longleftrightarrow> uuid_text (gx_codec svc) \<and> (\<forall>i. \<not> sublist ''|||'' (UuidString (gx_codec svc) i))"

lemma number_no_bars: "0 \<le> n \<Longrightarrow> \<not> sublist ''|||'' (FormatInt n @ ''||'')"
proof
  assume n: "0 \<le> n" and "sublist ''|||'' (FormatInt n @ ''||'')"
  then obtain ps ss where "FormatInt n @ ''||'' = ps @ ''|||'' @ ss" by (auto simp: sublist_def)
  then have "count_list (FormatInt n @ ''||'') CHR ''|'' = count_list (ps @ ''|||'' @ ss) CHR ''|''" by simp
  moreover have "CHR ''|'' \<notin> set (FormatInt n)" using digits_nat_digits [of "nat n"] n by (auto simp: FormatInt_def)
  ultimately show False by (simp add: count_list_0_iff)
qed

lemma count_mark_next:
  assumes "bars_free svc" and "member_count d g \<le> max_int64"
  shows "count_mark svc (count_next_cursor svc d g) = Some (Some (count_key d g))"
proof -
  have pos: "0 \<le> member_count d g" by (simp add: member_count_def)
  have "DecodeCursor (count_next_cursor svc d g) ''|||'' = Inr (FormatInt (member_count d g), UuidString (gx_codec svc) (gc_id g))"
    "count_next_cursor svc d g \<noteq> []"
    using assms(1) number_no_bars [OF pos] unfolding count_next_cursor_def by (intro own_cursor; simp add: bars_free_def)+
  then show ?thesis using assms ParseInt_FormatInt [OF pos]
    by (simp add: count_mark_def group_count_cursor_def bars_free_def uuid_text_def count_key_def)
qed

lemma after_group_count_key:
  assumes "group_count_cursor svc cursor = Inr cur"
  shows "after_group_count d cur g \<longleftrightarrow> (case map_option (\<lambda>(n, i). (- n, i)) cur of None \<Rightarrow> True | Some k \<Rightarrow> k < count_key d g)"
  by (auto simp: after_group_count_def count_key_def split: option.splits)

lemma selected_group_key [simp]: "count_next_cursor svc d (selected_group g) = count_next_cursor svc d g" "gc_id (selected_group g) = gc_id g"
  by (simp_all add: count_next_cursor_def member_count_def selected_group_def)

type_synonym public_reader = "group_search \<times> env \<times> (public_search_request \<Rightarrow> bool) \<times> count_cache \<times> db \<times> uuid \<times> public_search_request"

definition public_ids :: "public_reader \<Rightarrow> string \<Rightarrow> app_error + (uuid list \<times> string \<times> bool)" where
  "public_ids = (\<lambda>(svc, e, valid, cache, d, uid, req) cursor.
     and_then (fst (SearchPublicGroups svc e valid cache d uid (req\<lparr>ps_cursor := cursor\<rparr>))) (\<lambda>(gs, c, h). Inr (map pgd_id gs, c, h)))"

definition public_groups :: "public_reader \<Rightarrow> group_chat list" where
  "public_groups = (\<lambda>(svc, e, valid, cache, d, uid, req). filter (group_matches svc d (TrimSpace (ps_query req))) (group_chats d))"

definition public_good :: "public_reader \<Rightarrow> bool" where
  "public_good = (\<lambda>(svc, e, valid, cache, d, uid, req).
     \<not> fault e ''search groups'' \<and> \<not> fault e ''count members for cursor'' \<and> (\<forall>cs. valid (req\<lparr>ps_cursor := cs\<rparr>)) \<and> 0 < ps_limit req \<and>
     ps_sort_by req = ''member_count'' \<and> distinct (map gc_id (group_chats d)) \<and> int (length (group_members d)) \<le> max_int64 \<and> bars_free svc)"

lemma public_ids_page:
  assumes "public_good (svc, e, valid, cache, d, uid, req)" and "count_mark svc cursor = Some cur"
  shows "public_ids (svc, e, valid, cache, d, uid, req) cursor = Inr (case page_of (ps_limit req) (count_next_cursor svc d)
     (take (ps_limit req + 1) (keyset_above (count_key d) cur (public_groups (svc, e, valid, cache, d, uid, req)))) of (p, nc, h) \<Rightarrow> (map gc_id p, nc, h))"
proof -
  note g = assms(1) [unfolded public_good_def prod.case]
  let ?F = "filter (group_matches svc d (TrimSpace (ps_query req))) (group_chats d)"
  obtain p nc h where page: "page_of (ps_limit req) (count_next_cursor svc d) (take (ps_limit req + 1) (keyset_above (count_key d) cur ?F)) = (p, nc, h)"
    by (metis prod.exhaust)
  obtain cur0 where cur0: "group_count_cursor svc cursor = Inr cur0" "cur = map_option (\<lambda>(n, i). (- n, i)) cur0"
    using assms(2) by (auto simp: count_mark_def split: sum.splits)
  have "filter (\<lambda>g. group_matches svc d (TrimSpace (ps_query req)) g \<and> after_group_count d cur0 g) (group_chats d) =
      filter (\<lambda>r. case cur of None \<Rightarrow> True | Some k \<Rightarrow> k < count_key d r) ?F"
    unfolding filter_filter using after_group_count_key [OF cur0(1)] cur0(2) by (intro filter_cong refl) auto
  then have rows: "RepoSearchPublicGroups svc e d (ps_query req) cursor (ps_limit req) ''member_count'' = Inr (map selected_group p, nc, h)"
    using g cur0(1) page
    by (simp add: RepoSearchPublicGroups_def searchPublicGroupsByMemberCount_def ent_all_def Let_def keyset_above_def
        page_of_map [where mk' = "count_next_cursor svc d"] del: take_Suc_Cons)
  then have "\<exists>f j cache'. SearchPublicGroups svc e valid cache d uid (req\<lparr>ps_cursor := cursor\<rparr>) =
      (Inr (map (public_group_entry svc d f j) (map selected_group p), nc, h), cache')"
    using g by (auto simp: SearchPublicGroups_def Let_def split: prod.splits)
  then show ?thesis using page by (auto simp: public_ids_def public_groups_def public_group_entry_def comp_def simp del: take_Suc_Cons)
qed

interpretation public_search: keyset_search public_ids public_groups "\<lambda>(svc, e, valid, cache, d, uid, req). count_key d"
  "\<lambda>(svc, e, valid, cache, d, uid, req). count_next_cursor svc d" "\<lambda>cfg. count_mark (fst cfg)"
  "\<lambda>(svc, e, valid, cache, d, uid, req). ps_limit req" gc_id public_good
proof
  fix cfg :: public_reader and cursor cur and g :: group_chat
  show "count_mark (fst cfg) [] = Some None" by (simp add: count_mark_def group_count_cursor_def)
  assume good: "public_good cfg"
  obtain svc e valid cache d uid req where cfg: "cfg = (svc, e, valid, cache, d, uid, req)" by (metis prod.exhaust)
  note gd = good [unfolded cfg public_good_def prod.case]
  have "distinct (map gc_id (public_groups cfg))" using gd by (simp add: cfg public_groups_def distinct_map_filter)
  then show "distinct (map ((\<lambda>(svc, e, valid, cache, d, uid, req). count_key d) cfg) (public_groups cfg))"
    by (auto simp: cfg distinct_map inj_on_def count_key_def)
  show "0 < (case cfg of (svc, e, valid, cache, d, uid, req) \<Rightarrow> ps_limit req)" using gd by (simp add: cfg)
  have "length (live_members d (gc_id g)) \<le> length (group_members d)" by (simp add: live_members_def)
  then have "member_count d g \<le> int (length (group_members d))" by (simp add: member_count_def)
  then have "member_count d g \<le> max_int64" using gd by linarith
  then show "count_mark (fst cfg) ((\<lambda>(svc, e, valid, cache, d, uid, req). count_next_cursor svc d) cfg g) =
      Some (Some ((\<lambda>(svc, e, valid, cache, d, uid, req). count_key d) cfg g))" using gd count_mark_next by (simp add: cfg)
  show "public_ids cfg cursor = Inr (case page_of (case cfg of (svc, e, valid, cache, d, uid, req) \<Rightarrow> ps_limit req)
      ((\<lambda>(svc, e, valid, cache, d, uid, req). count_next_cursor svc d) cfg)
      (take ((case cfg of (svc, e, valid, cache, d, uid, req) \<Rightarrow> ps_limit req) + 1)
        (keyset_above ((\<lambda>(svc, e, valid, cache, d, uid, req). count_key d) cfg) cur (public_groups cfg))) of
      (p, nc, h) \<Rightarrow> (map gc_id p, nc, h))" if "count_mark (fst cfg) cursor = Some cur"
    using public_ids_page good that by (simp add: cfg del: take_Suc_Cons)
qed

text \<open>Following the cursors of the search by the number of members lists every public group that matches, once, those with more
  members first, whatever the cached counts are.
\<close>

theorem public_search_visits_all:
  assumes "public_good (svc, e, valid, cache, d, uid, req)" and "length (group_chats d) < fuel"
  shows "walk fuel (public_ids (svc, e, valid, cache, d, uid, req)) [] =
     Some (map gc_id (sort_key (count_key d) (filter (group_matches svc d (TrimSpace (ps_query req))) (group_chats d))))"
proof -
  have "length (public_groups (svc, e, valid, cache, d, uid, req)) < fuel"
    using assms(2) le_less_trans [OF length_filter_le] by (simp add: public_groups_def)
  then show ?thesis using public_search.visits_all [OF assms(1)] by (simp add: public_groups_def)
qed

section \<open>What the search shows of a group\<close>

lemma page_of_subset: "page_of n mk rows = (p, nc, h) \<Longrightarrow> set p \<subseteq> set rows"
  by (auto simp: page_of_def split: if_splits dest: in_set_takeD)

lemma selected_sound:
  assumes "page_of n mk (map selected_group (take k (sort_key key (filter P gs)))) = (p, nc, h)" and "x \<in> set p"
  shows "\<exists>g\<in>set gs. P g \<and> x = selected_group g"
proof -
  obtain g where "g \<in> set (take k (sort_key key (filter P gs)))" "x = selected_group g" using page_of_subset [OF assms(1)] assms(2) by auto
  then have "g \<in> set (filter P gs)" by (metis in_set_takeD set_sort)
  with \<open>x = selected_group g\<close> show ?thesis by auto
qed

lemma by_count_page:
  assumes "searchPublicGroupsByMemberCount svc e d q cursor n = Inr (groups, nc, h)"
  shows "\<exists>cur. page_of n (count_next_cursor svc d) (map selected_group (take (n + 1) (sort_key (count_key d)
      (filter (\<lambda>g. group_matches svc d q g \<and> after_group_count d cur g) (group_chats d))))) = (groups, nc, h)"
proof -
  have page: "(case page of (p, a, b) \<Rightarrow> if b \<and> p \<noteq> [] \<and> broken then Inl er else Inr (p, a, b)) = Inr out \<Longrightarrow> page = out" for page broken er out
    by (cases page) (simp split: if_splits)
  show ?thesis using assms unfolding searchPublicGroupsByMemberCount_def and_then_Inr on_err_Inr ent_all_Inr
    by (elim exE conjE) (blast dest: page)
qed

lemma by_name_page:
  "searchPublicGroupsByName svc e d q cursor n = Inr (groups, nc, h) \<Longrightarrow>
    \<exists>mk cur key. page_of n mk (map selected_group (take (n + 1) (sort_key (key :: group_chat \<Rightarrow> nat \<times> uuid)
      (filter (\<lambda>g. group_matches svc d q g \<and> after_group_name svc cur g) (group_chats d))))) = (groups, nc, h)"
  by (auto simp: searchPublicGroupsByName_def result_simps simp del: take_Suc_Cons)

lemma RepoSearchPublicGroups_sound:
  assumes "RepoSearchPublicGroups svc e d q cursor n sortBy = Inr (groups, nc, h)" and "x \<in> set groups"
  shows "\<exists>g\<in>set (group_chats d). gc_is_public g \<and> chat_live d (gc_chat_id g) \<and> x = selected_group g"
proof (cases "sortBy = ''member_count''")
  case True
  then obtain cur where "page_of n (count_next_cursor svc d) (map selected_group (take (n + 1) (sort_key (count_key d)
      (filter (\<lambda>g. group_matches svc d (TrimSpace q) g \<and> after_group_count d cur g) (group_chats d))))) = (groups, nc, h)"
    using assms(1) by_count_page by (fastforce simp: RepoSearchPublicGroups_def)
  from selected_sound [OF this assms(2)] show ?thesis by (auto simp: group_matches_def)
next
  case False
  then obtain mk cur and key :: "group_chat \<Rightarrow> nat \<times> uuid" where "page_of n mk (map selected_group (take (n + 1) (sort_key key
      (filter (\<lambda>g. group_matches svc d (TrimSpace q) g \<and> after_group_name svc cur g) (group_chats d))))) = (groups, nc, h)"
    using assms(1) by_name_page by (fastforce simp: RepoSearchPublicGroups_def)
  from selected_sound [OF this assms(2)] show ?thesis by (auto simp: group_matches_def)
qed

lemma joined_pair_new:
  assumes "distinct (map member_key (group_members d))" and "\<forall>m\<in>set (group_members d). \<not> (gm_group_chat_id m = gid \<and> gm_user_id m = uid)" and "\<not> fault e ''create members''"
  shows "create_members e d [new_member e 0 gid uid RoleMember] =
    Inr (d\<lparr>group_members := group_members d @ [new_member e 0 gid uid RoleMember]\<rparr>)"
  using assms by (auto simp: create_members_def member_key_def new_member_def)

lemma join_group_iff:
  assumes "fault e = no_fault" and "distinct (map member_key (group_members d))"
  shows "(\<exists>out. join_group svc e d uid gc = Inr out) \<longleftrightarrow>
    \<not> (\<exists>m\<in>set (group_members d). gm_group_chat_id m = gc_id gc \<and> gm_user_id m = uid) \<and> length (live_members d (gc_id gc)) < MaxGroupMembers"
proof (cases "\<exists>m\<in>set (group_members d). gm_group_chat_id m = gc_id gc \<and> gm_user_id m = uid")
  case True
  then show ?thesis by (auto simp: join_group_def result_simps filter_empty_conv)
next
  case False
  obtain msgs d' where post: "post_system e 1 (d\<lparr>group_members := group_members d @ [new_member e 0 (gc_id gc) uid RoleMember]\<rparr>) (gc_chat_id gc) uid
      [(TypeSystemJoin, None)] = Inr (msgs, d')" using post_system_ok [OF assms(1)] by blast
  have "filter (\<lambda>m. gm_group_chat_id m = gc_id gc \<and> gm_user_id m = uid) (group_members d) = []" using False by (auto simp: filter_empty_conv)
  then show ?thesis
    using False joined_pair_new [OF assms(2), of "gc_id gc" uid e] post assms(1)
    by (auto simp: join_group_def lockGroupMembership_def ent_exist_def checkMemberCapacity_def ent_count_def commit_def Let_def fail_if_def)
qed

text \<open>C32. What the search shows of a group tells whether it can be joined: when the counts are fresh and no call fails, joining a listed group
  succeeds exactly if the user is shown as no member and fewer than a hundred members are shown.
\<close>

theorem public_search_shows_joinable:
  assumes "fault e = no_fault" and "SearchPublicGroups svc e valid (\<lambda>_. None) d uid req = (Inr (gs, nc, h), cache')" and "dto \<in> set gs"
    and "distinct (map gc_chat_id (group_chats d))" and "distinct (map member_key (group_members d))"
  shows "(\<exists>out. JoinPublicGroup gsvc e d uid (pgd_chat_id dto) = Inr out) \<longleftrightarrow> \<not> pgd_is_member dto \<and> pgd_member_count dto < MaxGroupMembers"
proof -
  let ?n = "if ps_limit req = 0 then 20 else ps_limit req" and ?sort = "if ps_sort_by req = [] then ''name'' else ps_sort_by req"
  obtain groups where repo: "RepoSearchPublicGroups svc e d (ps_query req) (ps_cursor req) ?n ?sort = Inr (groups, nc, h)"
    using assms(2) by (auto simp: SearchPublicGroups_def Let_def split: if_splits sum.splits prod.splits)
  have ne: "groups \<noteq> []" using assms(2,3) repo by (auto simp: SearchPublicGroups_def Let_def split: if_splits)
  define counts where "counts = (\<lambda>i. if i \<in> set (map gc_id groups) then Some (length (live_members d i)) else None)"
  have "fst (CountActiveMembersByGroupIDs e (\<lambda>_. None) d (map gc_id groups)) = Inr counts"
    using assms(1) ne by (simp add: CountActiveMembersByGroupIDs_def cache_hit_def Let_def counts_def fun_eq_iff)
  then obtain c' where counts: "CountActiveMembersByGroupIDs e (\<lambda>_. None) d (map gc_id groups) = (Inr counts, c')" by (metis prod.collapse)
  have "gs = map (public_group_entry svc d counts (joinedGroups e d uid (map gc_id groups))) groups"
    using assms(2) repo counts ne by (auto simp: SearchPublicGroups_def Let_def split: if_splits)
  then obtain x where x: "x \<in> set groups" "dto = public_group_entry svc d counts (joinedGroups e d uid (map gc_id groups)) x" using assms(3) by auto
  obtain g where g: "g \<in> set (group_chats d)" "gc_is_public g" "chat_live d (gc_chat_id g)" "x = selected_group g"
    using RepoSearchPublicGroups_sound [OF repo x(1)] by blast
  have listed: "gc_id g \<in> set (map gc_id groups)" using x(1) g(4) by (metis image_eqI list.set_map selected_group_key(2))
  have dto: "pgd_chat_id dto = gc_chat_id g" "pgd_member_count dto = length (live_members d (gc_id g))"
      "pgd_is_member dto \<longleftrightarrow> (\<exists>m\<in>set (group_members d). gm_group_chat_id m = gc_id g \<and> gm_user_id m = uid)"
    using x(2) g(4) listed assms(1) by (auto simp: public_group_entry_def selected_group_def joinedGroups_def counts_def)
  let ?fs = "filter (\<lambda>v. gc_chat_id v = gc_chat_id g \<and> chat_live d (gc_chat_id v)) (group_chats d)"
  have "length ?fs \<le> 1" "g \<in> set ?fs" using filter_key_unique [OF assms(4), of "gc_chat_id g" "\<lambda>v. chat_live d (gc_chat_id v)"] g by simp_all
  then have "?fs = [g]" by (cases ?fs) (auto simp del: set_filter)
  then have "find_group e d (\<lambda>v. gc_chat_id v = pgd_chat_id dto) ''Group chat not found'' = Inr g"
    using assms(1) by (simp add: find_group_def ent_only_def dto(1))
  then have "(\<exists>out. JoinPublicGroup gsvc e d uid (pgd_chat_id dto) = Inr out) \<longleftrightarrow> (\<exists>out. join_group gsvc e d uid g = Inr out)"
    using assms(1) g(2) by (auto simp: JoinPublicGroup_def begin_tx_def fail_if_def and_then_Inr)
  then show ?thesis using join_group_iff [OF assms(1,5)] dto by simp
qed

definition sample_groups :: group_search where
  "sample_groups = \<lparr>gx_urls = \<lparr>GetPresignedURL = id, GetPublicURL = id\<rparr>, gx_codec = unary_codec, gx_times = \<lparr>TimeFormat = FormatInt, TimeParse = ParseInt\<rparr>,
     gx_lower = id, gx_collation = \<lparr>db_lower = map lower_byte, equal_fold = (=), name_rank = byte_rank\<rparr>\<rparr>"

definition sample_public_db :: db where
  "sample_public_db = sample_db\<lparr>users := [sample_user 1 ''Ann'', sample_user 2 ''Bob'', sample_user 3 ''Cy''],
     group_chats := [(sample_group 6 11)\<lparr>gc_is_public := True\<rparr>]\<rparr>"

definition sample_public_request :: public_search_request where
  "sample_public_request = \<lparr>ps_query = [], ps_cursor = [], ps_limit = 5, ps_sort_by = ''member_count''\<rparr>"

lemma sample_public_search:
  "\<exists>cache'. SearchPublicGroups sample_groups (sample_env 9 95) (\<lambda>_. True) (\<lambda>_. None) sample_public_db 3 sample_public_request =
     (Inr ([\<lparr>pgd_id = 6, pgd_chat_id = 11, pgd_name = ''Team'', pgd_description = [], pgd_avatar = [], pgd_member_count = 2, pgd_is_member = False\<rparr>], [], False), cache')"
proof -
  have trim: "TrimSpace [] = []" by (simp add: TrimSpace_no_space no_space_def is_ascii_def)
  have "RepoSearchPublicGroups sample_groups (sample_env 9 95) sample_public_db [] [] 5 ''member_count'' =
      Inr ([selected_group ((sample_group 6 11)\<lparr>gc_is_public := True\<rparr>)], [], False)"
    by (simp add: RepoSearchPublicGroups_def trim searchPublicGroupsByMemberCount_def group_count_cursor_def after_group_count_def group_matches_def
        sample_public_db_def sample_db_def empty_db_def chat_live_def sample_chat_def sample_group_def page_of_def ent_all_def)
  then show ?thesis
    by (simp add: SearchPublicGroups_def sample_public_request_def CountActiveMembersByGroupIDs_def cache_hit_def live_members_def member_user_live_def
        public_group_entry_def selected_group_def joinedGroups_def text_or_empty_def avatar_link_def
        sample_public_db_def sample_db_def empty_db_def sample_group_def sample_member_def Let_def)
qed

theorem public_search_shows_joinable_witness:
  "\<exists>gs nc h cache' dto out. SearchPublicGroups sample_groups (sample_env 9 95) (\<lambda>_. True) (\<lambda>_. None) sample_public_db 3 sample_public_request =
     (Inr (gs, nc, h), cache') \<and> dto \<in> set gs \<and> JoinPublicGroup sample_service (sample_env 9 95) sample_public_db 3 (pgd_chat_id dto) = Inr out"
proof -
  let ?dto = "\<lparr>pgd_id = 6, pgd_chat_id = 11, pgd_name = ''Team'', pgd_description = [], pgd_avatar = [], pgd_member_count = 2, pgd_is_member = False\<rparr>"
  obtain cache' where run: "SearchPublicGroups sample_groups (sample_env 9 95) (\<lambda>_. True) (\<lambda>_. None) sample_public_db 3 sample_public_request =
      (Inr ([?dto], [], False), cache')" using sample_public_search by blast
  have "(\<exists>out. JoinPublicGroup sample_service (sample_env 9 95) sample_public_db 3 (pgd_chat_id ?dto) = Inr out) \<longleftrightarrow>
      \<not> pgd_is_member ?dto \<and> pgd_member_count ?dto < MaxGroupMembers"
    by (rule public_search_shows_joinable [OF _ run])
      (simp_all add: sample_public_db_def sample_db_def empty_db_def member_key_def sample_member_def)
  then obtain out where "JoinPublicGroup sample_service (sample_env 9 95) sample_public_db 3 (pgd_chat_id ?dto) = Inr out" by (auto simp: MaxGroupMembers_def)
  with run show ?thesis by (metis list.set_intros(1))
qed

end
