(* ===== verification/Gateway_Presence.thy ===== *)
theory Gateway_Presence
  imports Realtime_Publisher Account_Service
begin

text \<open>
  Who is online: \<^verbatim>\<open>src/internal/websocket_gateway/presence/presence.go\<close>. For every user Redis keeps the leases of the gateway instances the
  user is connected to, a sorted set from instance to the instant (in milliseconds) at which its lease ends, and a key whose existence
  means that the user is online. The scripts run atomically; a user's part of the store is the record \<open>presence\<close>, and a script is a function on
  it at the instant of the server. A script that does not reach the server is the fault at its call site.
\<close>

section \<open>The scripts\<close>

type_synonym lease = "string \<times> int"

text \<open>The sorted set with the instant at which its key expires, and the instant at which the key of the online state expires.\<close>

record presence =
  pr_leases :: "lease list"
  pr_leases_until :: int
  pr_online :: "int option"

definition no_presence :: presence where
  "no_presence = \<lparr>pr_leases = [], pr_leases_until = 0, pr_online = None\<rparr>"

definition presenceOnlineTTL :: int where "presenceOnlineTTL = 70 * 1000"
definition presenceLeaseRetention :: int where "presenceLeaseRetention = 2 * presenceOnlineTTL"

text \<open>The key of a sorted set exists while it has members and is not expired. A key that expires at an instant still exists in this very
  millisecond, in which a lease that ends then is already removed.\<close>

definition leases_exist :: "int \<Rightarrow> presence \<Rightarrow> bool" where
  "leases_exist t p \<longleftrightarrow> pr_leases p \<noteq> [] \<and> t \<le> pr_leases_until p"

definition is_online :: "int \<Rightarrow> presence \<Rightarrow> bool" where
  "is_online t p \<longleftrightarrow> (case pr_online p of None \<Rightarrow> False | Some u \<Rightarrow> t \<le> u)"

text \<open>\<open>ZREMRANGEBYSCORE key -inf now\<close>\<close>

definition live_leases :: "int \<Rightarrow> presence \<Rightarrow> lease list" where
  "live_leases t p = (if leases_exist t p then filter (\<lambda>(i, x). t < x) (pr_leases p) else [])"

definition latest_lease :: "lease list \<Rightarrow> int" where
  "latest_lease ls = Max (snd ` set ls)"

text \<open>The keys after the scripts set them: both expire with the latest lease.\<close>

definition with_leases :: "lease list \<Rightarrow> presence" where
  "with_leases ls = \<lparr>pr_leases = ls, pr_leases_until = latest_lease ls + presenceLeaseRetention, pr_online = Some (latest_lease ls)\<rparr>"

definition connectScript :: "int \<Rightarrow> string \<Rightarrow> presence \<Rightarrow> bool \<times> presence" where
  "connectScript t instanceID p =
     (\<not> is_online t p, with_leases ((instanceID, t + presenceOnlineTTL) # filter (\<lambda>(i, x). i \<noteq> instanceID) (live_leases t p)))"

definition disconnectScript :: "int \<Rightarrow> string \<Rightarrow> presence \<Rightarrow> bool \<times> presence" where
  "disconnectScript t instanceID p =
     (let left = filter (\<lambda>(i, x). i \<noteq> instanceID) (live_leases t p) in
      if left = [] then (is_online t p, no_presence) else (False, with_leases left))"

definition reconcileScript :: "int \<Rightarrow> presence \<Rightarrow> bool \<times> presence" where
  "reconcileScript t p =
     (let kept = live_leases t p in
      if kept \<noteq> [] \<or> is_online t p then (False, p\<lparr>pr_leases := kept\<rparr>)
      else (leases_exist t p, p\<lparr>pr_leases := []\<rparr>))"

section \<open>The manager\<close>

type_synonym presence_store = "uuid \<Rightarrow> presence"

text \<open>What a call leaves: the store, the database (the instant a user was last seen) and what it published.\<close>

type_synonym presence_out = "presence_store \<times> db \<times> (uuid \<times> bool \<times> int) publication list"

record presence_manager =
  pm_instance :: string

definition milli :: "env \<Rightarrow> int" where
  "milli e = now e div 1000000"

fun presence_targets :: "(string \<Rightarrow> bool) \<Rightarrow> db \<Rightarrow> uuid \<Rightarrow> uuid list \<Rightarrow> uuid list" where
  "presence_targets flt d userID [] = []"
| "presence_targets flt d userID (c # cs) =
     (if c = uuid_Nil \<or> c = userID \<or> IsBlocked flt d userID c \<noteq> Inr False then [] else [c]) @ presence_targets flt d userID cs"

definition publish_presence :: "env \<Rightarrow> db \<Rightarrow> uuid \<Rightarrow> string \<Rightarrow> bool \<Rightarrow> (uuid \<times> bool \<times> int) publication list" where
  "publish_presence e d userID eventType online =
     (case Contacts (fault e) d userID of
        Inl _ \<Rightarrow> []
      | Inr contactIDs \<Rightarrow> map (\<lambda>c. (BroadcastChannel, c, \<lparr>le_type = eventType, le_payload = (userID, online, milli e)\<rparr>))
                           (presence_targets (fault e) d userID contactIDs))"

definition Connected :: "presence_manager \<Rightarrow> env \<Rightarrow> presence_store \<Rightarrow> db \<Rightarrow> uuid \<Rightarrow> presence_out" where
  "Connected pm e s d userID =
     (if pm_instance pm = [] \<or> userID = uuid_Nil \<or> fault e ''connect script'' then (s, d, [])
      else case connectScript (milli e) (pm_instance pm) (s userID) of
             (becameOnline, p) \<Rightarrow>
               (s(userID := p), d, if becameOnline then publish_presence e d userID EventUserOnline True else []))"

definition Refresh :: "presence_manager \<Rightarrow> env \<Rightarrow> presence_store \<Rightarrow> db \<Rightarrow> uuid \<Rightarrow> presence_out" where
  "Refresh pm e s d userID =
     (if pm_instance pm = [] \<or> userID = uuid_Nil \<or> fault e ''connect script'' then (s, d, [])
      else case connectScript (milli e) (pm_instance pm) (s userID) of
             (becameOnline, p) \<Rightarrow>
               (s(userID := p), d, if becameOnline then publish_presence e d userID EventUserOnline True else []))"

text \<open>\<open>lastSeen\<close> updates the user; its error is logged.\<close>

definition last_seen :: "env \<Rightarrow> db \<Rightarrow> uuid \<Rightarrow> db" where
  "last_seen e d userID = (if fault e ''last seen'' then d else set_user userID (\<lambda>u. u\<lparr>u_last_seen_at := Some (now e)\<rparr>) d)"

definition Disconnected :: "presence_manager \<Rightarrow> env \<Rightarrow> presence_store \<Rightarrow> db \<Rightarrow> uuid \<Rightarrow> presence_out" where
  "Disconnected pm e s d userID =
     (if pm_instance pm = [] \<or> userID = uuid_Nil \<or> fault e ''disconnect script'' then (s, d, [])
      else case disconnectScript (milli e) (pm_instance pm) (s userID) of
             (becameOffline, p) \<Rightarrow>
               if becameOffline
               then let d' = last_seen e d userID in (s(userID := p), d', publish_presence e d' userID EventUserOffline False)
               else (s(userID := p), d, []))"

text \<open>
  One pass over the keys the scan finds, given as the users they name; the pass runs under a lock, so that another pass does nothing
  (\<open>locked\<close> is false for it), and ends at the first script that fails.
\<close>

fun reconcile_users :: "env \<Rightarrow> presence_store \<Rightarrow> db \<Rightarrow> uuid list \<Rightarrow> presence_out" where
  "reconcile_users e s d [] = (s, d, [])"
| "reconcile_users e s d (userID # us) =
     (if fault e ''reconcile script'' then (s, d, [])
      else case reconcileScript (milli e) (s userID) of
             (claimed, p) \<Rightarrow>
               (let d1 = (if claimed then last_seen e d userID else d);
                    evs = (if claimed then publish_presence e d1 userID EventUserOffline False else []) in
                case reconcile_users e (s(userID := p)) d1 us of (s', d', rest) \<Rightarrow> (s', d', evs @ rest)))"

definition ReconcileExpired :: "env \<Rightarrow> bool \<Rightarrow> presence_store \<Rightarrow> db \<Rightarrow> uuid list \<Rightarrow> presence_out" where
  "ReconcileExpired e locked s d us = (if fault e ''reconcile lock'' \<or> \<not> locked then (s, d, []) else reconcile_users e s d us)"

end
