(* ===== verification/Gateway_Presence_Laws.thy ===== *)
theory Gateway_Presence_Laws
  imports Gateway_Presence
begin

text \<open>
  Presence against its specification: the set of gateway instances a user is connected to. The key that the API reads says that a
  user is online while the set is not empty, and in the millisecond in which the last lease ends; an event is published exactly when that changes.
\<close>

section \<open>The specification\<close>

definition instances :: "int \<Rightarrow> presence \<Rightarrow> string set" where
  "instances t p = {i. \<exists>x. (i, x) \<in> set (pr_leases p) \<and> t < x}"

text \<open>The last lease ends in this very millisecond: the online key is still there, the lease is not.\<close>

definition ending :: "int \<Rightarrow> presence \<Rightarrow> bool" where
  "ending t p \<longleftrightarrow> pr_online p = Some t"

text \<open>From an instant on, the online key agrees with the leases, and the set outlives its leases.\<close>

definition presence_ok :: "int \<Rightarrow> presence \<Rightarrow> bool" where
  "presence_ok t0 p \<longleftrightarrow> (\<forall>t\<ge>t0. is_online t p \<longleftrightarrow> instances t p \<noteq> {} \<or> ending t p) \<and> (\<forall>(i, x)\<in>set (pr_leases p). x < pr_leases_until p)"

lemma no_presence_ok: "presence_ok t no_presence"
  by (simp add: presence_ok_def no_presence_def is_online_def instances_def ending_def)

lemma presence_ok_later: "presence_ok t p \<Longrightarrow> t \<le> t' \<Longrightarrow> presence_ok t' p"
  by (auto simp: presence_ok_def)

lemma less_latest: "ls \<noteq> [] \<Longrightarrow> t < latest_lease ls \<longleftrightarrow> (\<exists>(i, x)\<in>set ls. t < x)"
  by (force simp: latest_lease_def Max_gr_iff)

lemma lease_le_latest: "(i, x) \<in> set ls \<Longrightarrow> x \<le> latest_lease ls"
  by (auto simp: latest_lease_def intro!: Max_ge image_eqI [of _ _ "(i, x)"])

lemma with_leases_ok:
  assumes "ls \<noteq> []"
  shows "presence_ok t (with_leases ls)"
proof -
  have "instances t' (with_leases ls) \<noteq> {} \<longleftrightarrow> t' < latest_lease ls" for t'
    using less_latest [OF assms, of t'] by (auto simp: instances_def with_leases_def)
  moreover have "x < pr_leases_until (with_leases ls)" if "(i, x) \<in> set ls" for i x
    using lease_le_latest [OF that] by (simp add: with_leases_def presenceLeaseRetention_def presenceOnlineTTL_def)
  ultimately show ?thesis by (auto simp: presence_ok_def is_online_def ending_def with_leases_def)
qed

lemma pr_leases_with_leases [simp]: "pr_leases (with_leases ls) = ls"
  by (simp add: with_leases_def)

lemma instances_with_leases: "instances t (with_leases ls) = {i. \<exists>x. (i, x) \<in> set ls \<and> t < x}"
  by (simp add: instances_def)

lemma live_leases_mem:
  assumes "presence_ok t p"
  shows "(i, x) \<in> set (live_leases t p) \<longleftrightarrow> (i, x) \<in> set (pr_leases p) \<and> t < x"
proof -
  have "leases_exist t p" if "(i, x) \<in> set (pr_leases p)" "t < x"
    using that assms by (fastforce simp: leases_exist_def presence_ok_def)
  then show ?thesis by (auto simp: live_leases_def)
qed

lemma online_iff: "presence_ok t p \<Longrightarrow> is_online t p \<longleftrightarrow> instances t p \<noteq> {} \<or> ending t p"
  by (simp add: presence_ok_def)

section \<open>The scripts keep it\<close>

lemma connect_spec:
  assumes "presence_ok t p"
  shows "presence_ok t (snd (connectScript t i p))" and "instances t (snd (connectScript t i p)) = insert i (instances t p)"
    and "fst (connectScript t i p) \<longleftrightarrow> instances t p = {} \<and> \<not> ending t p"
proof -
  show "presence_ok t (snd (connectScript t i p))" by (simp add: connectScript_def with_leases_ok)
  have "j \<in> instances t (snd (connectScript t i p)) \<longleftrightarrow> j = i \<or> j \<in> instances t p" for j
  proof (cases "j = i")
    case True
    then show ?thesis by (auto simp: connectScript_def instances_def presenceOnlineTTL_def intro!: exI [of _ "t + 70000"])
  next
    case False
    then show ?thesis using live_leases_mem [OF assms, of j] by (simp add: connectScript_def instances_def)
  qed
  then show "instances t (snd (connectScript t i p)) = insert i (instances t p)" by blast
  show "fst (connectScript t i p) \<longleftrightarrow> instances t p = {} \<and> \<not> ending t p" by (simp add: connectScript_def online_iff [OF assms])
qed

lemma disconnect_spec:
  assumes "presence_ok t p"
  shows "presence_ok t (snd (disconnectScript t i p))" and "instances t (snd (disconnectScript t i p)) = instances t p - {i}"
    and "fst (disconnectScript t i p) \<longleftrightarrow> instances t p = {i} \<or> instances t p = {} \<and> ending t p"
proof -
  let ?left = "filter (\<lambda>(j, x). j \<noteq> i) (live_leases t p)"
  have left: "{j. \<exists>x. (j, x) \<in> set ?left \<and> t < x} = instances t p - {i}"
    by (auto simp: live_leases_mem [OF assms] instances_def)
  have none: "?left = [] \<longleftrightarrow> instances t p - {i} = {}"
  proof
    assume "?left = []" then show "instances t p - {i} = {}" using left by simp
  next
    assume h: "instances t p - {i} = {}"
    have False if "(j, x) \<in> set ?left" for j x
    proof -
      have "j \<in> instances t p - {i}" using that by (auto simp: live_leases_mem [OF assms] instances_def)
      with h show False by blast
    qed
    then show "?left = []" by (metis ex_in_conv set_empty surj_pair)
  qed
  show "presence_ok t (snd (disconnectScript t i p))" by (auto simp: disconnectScript_def Let_def with_leases_ok no_presence_ok)
  show "instances t (snd (disconnectScript t i p)) = instances t p - {i}"
  proof (cases "?left = []")
    case True
    then have "instances t (snd (disconnectScript t i p)) = {}" by (simp add: disconnectScript_def no_presence_def instances_def)
    then show ?thesis using none True by simp
  next
    case False
    then show ?thesis using left by (simp add: disconnectScript_def instances_with_leases)
  qed
  show "fst (disconnectScript t i p) \<longleftrightarrow> instances t p = {i} \<or> instances t p = {} \<and> ending t p"
    using none online_iff [OF assms] by (auto simp: disconnectScript_def Let_def)
qed

lemma disconnect_last:
  assumes "presence_ok t p" and "instances t p \<subseteq> {i}"
  shows "snd (disconnectScript t i p) = no_presence"
proof -
  have "filter (\<lambda>(j, x). j \<noteq> i) (live_leases t p) = []"
    using assms(2) unfolding filter_empty_conv by (fastforce simp: live_leases_mem [OF assms(1)] instances_def)
  then show ?thesis by (simp add: disconnectScript_def)
qed

lemma reconcile_spec:
  assumes "presence_ok t p"
  shows "presence_ok t (snd (reconcileScript t p))" and "instances t (snd (reconcileScript t p)) = instances t p"
    and "fst (reconcileScript t p) \<longleftrightarrow> leases_exist t p \<and> instances t p = {} \<and> \<not> ending t p"
proof -
  let ?q = "snd (reconcileScript t p)"
  have leases: "(i, x) \<in> set (pr_leases ?q) \<longleftrightarrow> (i, x) \<in> set (live_leases t p)" for i x
    by (auto simp: reconcileScript_def Let_def)
  have same: "instances t' ?q = instances t' p" if "t \<le> t'" for t'
    using that by (auto simp: instances_def leases live_leases_mem [OF assms])
  then show "instances t ?q = instances t p" by simp
  have keys: "pr_online ?q = pr_online p" "pr_leases_until ?q = pr_leases_until p" by (simp_all add: reconcileScript_def Let_def)
  have "x < pr_leases_until p" if "(i, x) \<in> set (pr_leases ?q)" for i x
    using that assms by (auto simp: leases live_leases_mem [OF assms] presence_ok_def)
  moreover have "is_online t' ?q \<longleftrightarrow> instances t' ?q \<noteq> {} \<or> ending t' ?q" if "t \<le> t'" for t'
    using that assms same by (simp add: presence_ok_def is_online_def ending_def keys)
  ultimately show "presence_ok t ?q" by (auto simp: presence_ok_def keys)
  have "live_leases t p \<noteq> [] \<longleftrightarrow> instances t p \<noteq> {}"
  proof -
    have "live_leases t p \<noteq> [] \<longleftrightarrow> (\<exists>i x. (i, x) \<in> set (live_leases t p))" by (metis ex_in_conv set_empty surj_pair)
    then show ?thesis by (auto simp: live_leases_mem [OF assms] instances_def)
  qed
  then show "fst (reconcileScript t p) \<longleftrightarrow> leases_exist t p \<and> instances t p = {} \<and> \<not> ending t p"
    using online_iff [OF assms] by (auto simp: reconcileScript_def Let_def)
qed

text \<open>A pass that reports a user takes the ended leases away, and the next one does not report him again.\<close>

lemma reconcile_once: "fst (reconcileScript t p) \<Longrightarrow> \<not> fst (reconcileScript t' (snd (reconcileScript t p)))"
  by (auto simp: reconcileScript_def Let_def leases_exist_def live_leases_def split: if_splits)

section \<open>Runs\<close>

inductive presence_run :: "int \<Rightarrow> presence \<Rightarrow> bool" where
  run_start: "presence_run t no_presence"
| run_wait: "presence_run t p \<Longrightarrow> t \<le> t' \<Longrightarrow> presence_run t' p"
| run_connect: "presence_run t p \<Longrightarrow> presence_run t (snd (connectScript t i p))"
| run_disconnect: "presence_run t p \<Longrightarrow> presence_run t (snd (disconnectScript t i p))"
| run_reconcile: "presence_run t p \<Longrightarrow> presence_run t (snd (reconcileScript t p))"

lemma presence_run_ok: "presence_run t p \<Longrightarrow> presence_ok t p"
  by (induction rule: presence_run.induct)
    (auto intro: no_presence_ok presence_ok_later connect_spec(1) disconnect_spec(1) reconcile_spec(1))

text \<open>C26. After any run of connections, disconnections, refreshes and reconciliations by any gateway instances, presence is the set of the instances
  whose lease has not ended. A user is online exactly if the set is not empty or the last lease ends in this very millisecond. A connection adds the instance and reports a
  change exactly when the user was not online; a disconnection takes it out and reports a change exactly when the user was online and no other
  instance is left. A reconciliation changes nothing of the set and reports the user exactly if nobody holds a lease, the online key has expired, and leases that ended
  are still in the store, so none was swept since and the retention of the set is not over; a user who was reported is not reported again by the next pass.
\<close>

theorem presence_refines_instances:
  assumes "presence_run t p"
  shows "(is_online t p \<longleftrightarrow> instances t p \<noteq> {} \<or> pr_online p = Some t) \<and>
    instances t (snd (connectScript t i p)) = insert i (instances t p) \<and>
    (fst (connectScript t i p) \<longleftrightarrow> instances t p = {} \<and> pr_online p \<noteq> Some t) \<and>
    instances t (snd (disconnectScript t i p)) = instances t p - {i} \<and>
    (fst (disconnectScript t i p) \<longleftrightarrow> instances t p = {i} \<or> instances t p = {} \<and> pr_online p = Some t) \<and>
    instances t (snd (reconcileScript t p)) = instances t p \<and>
    (fst (reconcileScript t p) \<longleftrightarrow> instances t p = {} \<and> pr_online p \<noteq> Some t \<and> pr_leases p \<noteq> [] \<and> t \<le> pr_leases_until p) \<and>
    (fst (reconcileScript t p) \<longrightarrow> \<not> fst (reconcileScript t' (snd (reconcileScript t p))))"
proof -
  note ok = presence_run_ok [OF assms]
  show ?thesis
    using online_iff [OF ok] connect_spec(2,3) [OF ok] disconnect_spec(2,3) [OF ok] reconcile_spec(2,3) [OF ok] reconcile_once
    by (auto simp: ending_def leases_exist_def)
qed

text \<open>Two instances hold leases from instant 5 on: a disconnection of one is not reported, the end of both leases is, once their last millisecond is over.\<close>

definition sample_presence :: presence where
  "sample_presence = snd (connectScript 5 ''b'' (snd (connectScript 5 ''a'' no_presence)))"

theorem presence_refines_instances_witness:
  "fst (disconnectScript 5 ''a'' sample_presence) = False \<and> is_online 70005 sample_presence = True \<and>
   fst (reconcileScript 70005 sample_presence) = False \<and> fst (reconcileScript 70006 sample_presence) = True"
proof -
  have start: "presence_run 5 no_presence" "presence_run 5 (snd (connectScript 5 ''a'' no_presence))" by (intro run_connect run_start)+
  have run: "presence_run 5 sample_presence" unfolding sample_presence_def by (rule run_connect [OF start(2)])
  have later: "presence_run 70005 sample_presence" "presence_run 70006 sample_presence" by (rule run_wait [OF run], simp)+
  have "instances 5 sample_presence = {''b'', ''a''}"
    using presence_refines_instances [OF start(1), of "''a''"] presence_refines_instances [OF start(2), of "''b''"]
    by (simp add: instances_def no_presence_def sample_presence_def)
  moreover have p: "pr_leases sample_presence = [(''b'', 70005), (''a'', 70005)]" "pr_leases_until sample_presence = 210005" "pr_online sample_presence = Some 70005"
    by code_simp+
  moreover have "instances 70005 sample_presence = {}" "instances 70006 sample_presence = {}" by (auto simp: instances_def p(1))
  ultimately show ?thesis
    using presence_refines_instances [OF run, of "''a''"] presence_refines_instances [OF later(1), of "''a''"] presence_refines_instances [OF later(2), of "''a''"]
    by (auto simp: p)
qed

section \<open>Events\<close>

lemma presence_targets_mem:
  assumes "\<not> flt ''is_blocked''"
  shows "v \<in> set (presence_targets flt d u cs) \<longleftrightarrow> v \<in> set cs \<and> v \<noteq> uuid_Nil \<and> v \<noteq> u \<and> \<not> blocked_between d u v"
proof (induction cs)
  case (Cons c cs)
  have "IsBlocked flt d u c \<noteq> Inr False \<longleftrightarrow> blocked_between d u c" if "c \<noteq> u"
    using IsBlocked_iff [of u c flt d False] IsBlocked_iff [of u c flt d True] that assms by auto
  with Cons show ?case by auto
qed simp

text \<open>A user who leaves the last instance is announced as offline to exactly the contacts with whom there is no block, and the instant is kept.\<close>

theorem last_disconnect_announced:
  assumes "Disconnected pm e s d u = (s', d', evs)" and "presence_run (milli e) (s u)" and "instances (milli e) (s u) = {pm_instance pm}"
    and "pm_instance pm \<noteq> []" and "u \<noteq> uuid_Nil" and "fault e = no_fault" and "v \<noteq> uuid_Nil" and "v \<noteq> u"
  shows "(\<exists>ev. (BroadcastChannel, v, ev) \<in> set evs \<and> le_type ev = EventUserOffline) \<longleftrightarrow>
     (\<exists>p\<in>set (private_chats d). pc_user1_id p = Some u \<and> pc_user2_id p = Some v \<or> pc_user2_id p = Some u \<and> pc_user1_id p = Some v) \<and>
     \<not> blocked_between d u v"
proof -
  let ?d = "last_seen e d u"
  have "fst (disconnectScript (milli e) (pm_instance pm) (s u))" using disconnect_spec(3) [OF presence_run_ok [OF assms(2)]] assms(3) by simp
  then have evs: "evs = publish_presence e ?d u EventUserOffline False"
    using assms(1,4-6) by (auto simp: Disconnected_def Let_def split: prod.splits)
  have "Contacts (fault e) ?d u = Contacts (fault e) d u" "blocked_between ?d u v = blocked_between d u v" "private_chats ?d = private_chats d"
    by (simp_all add: last_seen_def set_user_def Contacts_def blocked_between_def)
  moreover obtain cs where cs: "Contacts (fault e) d u = Inr cs" using assms(6) by (simp add: Contacts_def ent_all_def)
  moreover have "\<not> fault e ''is_blocked''" using assms(6) by simp
  ultimately show ?thesis using Contacts_mem [OF cs, of v] presence_targets_mem [of "fault e" v ?d u cs] assms(7,8)
    by (auto simp: evs publish_presence_def)
qed

end
