(* ===== verification/Gateway_Connections.thy ===== *)
theory Gateway_Connections
  imports Gateway_Presence_Laws Redis_Store
begin

text \<open>
  The connections of one gateway instance: \<^verbatim>\<open>src/internal/websocket_gateway/connection/gateway.go\<close>. A client is named by a number and holds the
  payloads in its channel. What runs under the mutex is one step; the calls of the presence manager run outside of it, so that they are
  steps of their own, and a disconnection waits until the connection of the same client was reported (\<open>ready\<close>).
\<close>

section \<open>Under the mutex\<close>

record gw_client =
  wc_id :: nat
  wc_user :: uuid
  wc_buffer :: nat
  wc_queue :: "string list"

record gateway =
  gw_clients :: "gw_client list"
  gw_unregister :: "nat list"
  gw_closing :: bool

definition defaultClientBuffer :: nat where "defaultClientBuffer = 256"

definition NewGateway :: gateway where
  "NewGateway = \<lparr>gw_clients = [], gw_unregister = [], gw_closing = False\<rparr>"

definition new_client :: "nat \<Rightarrow> uuid \<Rightarrow> nat \<Rightarrow> gw_client" where
  "new_client k userID buffer = \<lparr>wc_id = k, wc_user = userID, wc_buffer = (if buffer = 0 then defaultClientBuffer else buffer), wc_queue = []\<rparr>"

definition clients_of :: "gateway \<Rightarrow> uuid \<Rightarrow> gw_client list" where
  "clients_of g userID = filter (\<lambda>c. wc_user c = userID) (gw_clients g)"

text \<open>The second component tells whether this is the first connection of the user. A closing gateway closes the client at once.\<close>

definition RegisterWithClose :: "gateway \<Rightarrow> nat \<Rightarrow> uuid \<Rightarrow> nat \<Rightarrow> gateway \<times> bool" where
  "RegisterWithClose g k userID buffer =
     (if gw_closing g then (g, False)
      else (g\<lparr>gw_clients := gw_clients g @ [new_client k userID buffer]\<rparr>, clients_of g userID = []))"

text \<open>A client whose channel is full is left to the loop that unregisters clients, or, when that has no room either, dropped by the caller.\<close>

fun deliver_to :: "uuid \<Rightarrow> string \<Rightarrow> nat list \<Rightarrow> gw_client list \<Rightarrow> gw_client list \<times> nat list \<times> nat list" where
  "deliver_to userID payload pending [] = ([], pending, [])"
| "deliver_to userID payload pending (c # cs) =
     (if wc_user c \<noteq> userID
      then (case deliver_to userID payload pending cs of (cs', pending', dropped) \<Rightarrow> (c # cs', pending', dropped))
      else if length (wc_queue c) < wc_buffer c
      then (case deliver_to userID payload pending cs of (cs', pending', dropped) \<Rightarrow> (c\<lparr>wc_queue := wc_queue c @ [payload]\<rparr> # cs', pending', dropped))
      else if length pending < defaultClientBuffer
      then (case deliver_to userID payload (pending @ [wc_id c]) cs of (cs', pending', dropped) \<Rightarrow> (c # cs', pending', dropped))
      else (case deliver_to userID payload pending cs of (cs', pending', dropped) \<Rightarrow> (c # cs', pending', wc_id c # dropped)))"

definition Deliver :: "bool \<Rightarrow> gateway \<Rightarrow> uuid \<Rightarrow> string \<Rightarrow> (unit + nat list) \<times> gateway" where
  "Deliver cancelled g userID payload =
     (if cancelled then (Inl (), g)
      else case deliver_to userID payload (gw_unregister g) (gw_clients g) of
             (cs, pending, dropped) \<Rightarrow> (Inr dropped, g\<lparr>gw_clients := cs, gw_unregister := pending\<rparr>))"

text \<open>The user of the removed client, and whether it was the last connection; nothing for a client that is not registered.\<close>

definition unregister_client :: "gateway \<Rightarrow> nat \<Rightarrow> gateway \<times> (uuid \<times> bool) option" where
  "unregister_client g k =
     (case find (\<lambda>c. wc_id c = k) (gw_clients g) of
        None \<Rightarrow> (g, None)
      | Some c \<Rightarrow>
          (let g' = g\<lparr>gw_clients := filter (\<lambda>c. wc_id c \<noteq> k) (gw_clients g)\<rparr>
           in (g', Some (wc_user c, clients_of g' (wc_user c) = []))))"

definition CloseAll :: "gateway \<Rightarrow> gateway \<times> nat list" where
  "CloseAll g = (g\<lparr>gw_closing := True\<rparr>, map wc_id (gw_clients g))"

section \<open>Delivery\<close>

definition given :: "uuid \<Rightarrow> string \<Rightarrow> gw_client \<Rightarrow> gw_client" where
  "given u payload c = (if wc_user c = u \<and> length (wc_queue c) < wc_buffer c then c\<lparr>wc_queue := wc_queue c @ [payload]\<rparr> else c)"

lemma deliver_to_cases:
  assumes "deliver_to u payload pending cs = (cs', pending', dropped)"
  shows "cs' = map (given u payload) cs"
    and "set pending' \<union> set dropped = set pending \<union> {wc_id c |c. c \<in> set cs \<and> wc_user c = u \<and> wc_buffer c \<le> length (wc_queue c)}"
  using assms by (induction u payload pending cs arbitrary: cs' pending' dropped rule: deliver_to.induct) (auto simp: given_def split: if_splits prod.splits)

definition queues_ok :: "gateway \<Rightarrow> bool" where
  "queues_ok g \<longleftrightarrow> distinct (map wc_id (gw_clients g)) \<and> (\<forall>c\<in>set (gw_clients g). length (wc_queue c) \<le> wc_buffer c)"

text \<open>A delivery puts the payload at the end of every connection of the user that has room and marks each of the others for removal; the connections
  of other users keep their queues, and no queue outgrows its buffer.
\<close>

theorem delivery_reaches_all:
  assumes "Deliver False g u payload = (r, g')" and "queues_ok g"
  shows "\<exists>dropped. r = Inr dropped \<and> queues_ok g' \<and> gw_clients g' = map (given u payload) (gw_clients g) \<and>
    (\<forall>c\<in>set (gw_clients g). wc_user c = u \<and> wc_buffer c \<le> length (wc_queue c) \<longrightarrow> wc_id c \<in> set (gw_unregister g') \<union> set dropped)"
proof -
  obtain cs pending dropped where run: "deliver_to u payload (gw_unregister g) (gw_clients g) = (cs, pending, dropped)" by (metis prod.exhaust)
  then have g': "r = Inr dropped" "gw_clients g' = map (given u payload) (gw_clients g)" "gw_unregister g' = pending"
    using assms(1) deliver_to_cases(1) [OF run] by (auto simp: Deliver_def)
  have "wc_id (given u payload c) = wc_id c" for c by (simp add: given_def)
  then have "queues_ok g'" using assms(2) by (auto simp: queues_ok_def g'(2) given_def comp_def)
  then show ?thesis using g' deliver_to_cases(2) [OF run] by blast
qed

section \<open>Connections and presence\<close>

datatype presence_call = CallConnected uuid nat | CallDisconnected uuid nat

text \<open>A gateway, the calls of the presence manager that are still to be made, the store of the presence and the database.\<close>

type_synonym gw_state = "gateway \<times> presence_call list \<times> presence_store \<times> db"

inductive gw_step :: "presence_manager \<Rightarrow> gw_state \<Rightarrow> gw_state \<Rightarrow> bool" for pm where
  gws_register: "k \<notin> wc_id ` set (gw_clients g) \<Longrightarrow> RegisterWithClose g k u n = (g', first) \<Longrightarrow>
    gw_step pm (g, calls, s, d) (g', if first then calls @ [CallConnected u k] else calls, s, d)"
| gws_connected: "CallConnected u k \<in> set calls \<Longrightarrow> Connected pm e s d u = (s', d', evs) \<Longrightarrow>
    gw_step pm (g, calls, s, d) (g, remove1 (CallConnected u k) calls, s', d')"
| gws_refresh: "c \<in> set (gw_clients g) \<Longrightarrow> Refresh pm e s d (wc_user c) = (s', d', evs) \<Longrightarrow> gw_step pm (g, calls, s, d) (g, calls, s', d')"
| gws_deliver: "Deliver cancelled g u payload = (r, g') \<Longrightarrow> gw_step pm (g, calls, s, d) (g', calls, s, d)"
| gws_unregister: "unregister_client g k = (g', Some (u, wasLast)) \<Longrightarrow>
    gw_step pm (g, calls, s, d) (g', if wasLast then calls @ [CallDisconnected u k] else calls, s, d)"
| gws_disconnected: "CallDisconnected u k \<in> set calls \<Longrightarrow> CallConnected u k \<notin> set calls \<Longrightarrow> Disconnected pm e s d u = (s', d', evs) \<Longrightarrow>
    gw_step pm (g, calls, s, d) (g, remove1 (CallDisconnected u k) calls, s', d')"
| gws_close: "CloseAll g = (g', ks) \<Longrightarrow> gw_step pm (g, calls, s, d) (g', calls, s, d)"

lemma queues_ok_new: "queues_ok NewGateway"
  by (simp add: queues_ok_def NewGateway_def)

lemma gw_step_queues:
  assumes "gw_step pm x y" and "queues_ok (fst x)"
  shows "queues_ok (fst y)"
  using assms
proof (induction rule: gw_step.induct)
  case (gws_register k g u n g' first calls s d)
  then show ?case by (auto simp: RegisterWithClose_def queues_ok_def new_client_def split: if_splits)
next
  case (gws_deliver cancelled g u payload r g' calls s d)
  then show ?case using delivery_reaches_all [of g u payload r g'] by (cases cancelled) (auto simp: Deliver_def)
next
  case (gws_unregister g k g' u wasLast calls s d)
  then show ?case by (auto simp: unregister_client_def queues_ok_def Let_def distinct_map_filter split: option.splits)
qed (auto simp: CloseAll_def queues_ok_def)

text \<open>Along every run of connections, deliveries and disconnections, clients stay distinct and no queue outgrows its buffer: a slow client never
  makes the gateway hold more than the size of its channel.
\<close>

theorem queues_stay_bounded:
  assumes "(gw_step pm)\<^sup>*\<^sup>* (NewGateway, [], s0, d0) (g, calls, s, d)"
  shows "queues_ok g"
proof -
  have "queues_ok (fst (g, calls, s, d))" using assms
    by (induction rule: rtranclp_induct) (auto intro: gw_step_queues queues_ok_new)
  then show ?thesis by simp
qed

section \<open>A reconnection can end offline\<close>

lemma Connected_quiet:
  "pm_instance pm \<noteq> [] \<Longrightarrow> u \<noteq> uuid_Nil \<Longrightarrow> \<exists>evs. Connected pm (quiet_env 0) s d u = (s(u := snd (connectScript 0 (pm_instance pm) (s u))), d, evs)"
  by (auto simp: Connected_def quiet_env_def milli_def split: prod.splits)

lemma Disconnected_quiet:
  "pm_instance pm \<noteq> [] \<Longrightarrow> u \<noteq> uuid_Nil \<Longrightarrow> \<exists>d' evs. Disconnected pm (quiet_env 0) s d u = (s(u := snd (disconnectScript 0 (pm_instance pm) (s u))), d', evs)"
  by (auto simp: Disconnected_def quiet_env_def milli_def Let_def split: prod.splits)

text \<open>C33. The calls of the presence manager run outside of the mutex: a user whose last connection closes while another one opens can
  be left with a registered connection, no call outstanding and the state offline. The connection is the first one again, since the
  old one is gone, so it is reported at once, and the disconnection that is reported after it takes the lease of the instance away.
\<close>

theorem reconnect_can_end_offline:
  assumes "pm_instance pm \<noteq> []" and "u \<noteq> uuid_Nil"
  shows "\<exists>g s d'. (gw_step pm)\<^sup>*\<^sup>* (NewGateway, [], (\<lambda>_. no_presence), d) (g, [], s, d') \<and> clients_of g u \<noteq> [] \<and> \<not> is_online 0 (s u)"
proof -
  let ?c1 = "new_client 1 u 1" and ?c2 = "new_client 2 u 1"
  define g1 g2 g3 where "g1 = NewGateway\<lparr>gw_clients := [?c1]\<rparr>" and "g2 = NewGateway" and "g3 = NewGateway\<lparr>gw_clients := [?c2]\<rparr>"
  define s1 where "s1 = (\<lambda>_. no_presence)(u := snd (connectScript 0 (pm_instance pm) no_presence))"
  define s2 where "s2 = s1(u := snd (connectScript 0 (pm_instance pm) (s1 u)))"
  define s3 where "s3 = s2(u := snd (disconnectScript 0 (pm_instance pm) (s2 u)))"
  have reg1: "RegisterWithClose NewGateway 1 u 1 = (g1, True)" by (simp add: RegisterWithClose_def NewGateway_def g1_def clients_of_def)
  have unr: "unregister_client g1 1 = (g2, Some (u, True))"
    by (simp add: unregister_client_def g1_def g2_def NewGateway_def new_client_def clients_of_def Let_def)
  have reg2: "RegisterWithClose g2 2 u 1 = (g3, True)" by (simp add: RegisterWithClose_def NewGateway_def g2_def g3_def clients_of_def)
  obtain ev1 where con1: "Connected pm (quiet_env 0) (\<lambda>_. no_presence) d u = (s1, d, ev1)" using Connected_quiet [OF assms] unfolding s1_def by blast
  obtain ev2 where con2: "Connected pm (quiet_env 0) s1 d u = (s2, d, ev2)" using Connected_quiet [OF assms] unfolding s2_def by blast
  obtain d' ev3 where dis: "Disconnected pm (quiet_env 0) s2 d u = (s3, d', ev3)" using Disconnected_quiet [OF assms] unfolding s3_def by blast
  let ?start = "(NewGateway, [], (\<lambda>_. no_presence), d)"
  have "(gw_step pm)\<^sup>*\<^sup>* ?start (g1, [CallConnected u 1], (\<lambda>_. no_presence), d)"
    using gws_register [OF _ reg1, of pm "[]" "\<lambda>_. no_presence" d] by (simp add: NewGateway_def r_into_rtranclp)
  also have "gw_step pm \<dots> (g1, [], s1, d)" using gws_connected [OF _ con1, of 1 "[CallConnected u 1]" g1] by simp
  also have "gw_step pm \<dots> (g2, [CallDisconnected u 1], s1, d)" using gws_unregister [OF unr, of pm "[]" s1 d] by simp
  also have "gw_step pm \<dots> (g3, [CallDisconnected u 1, CallConnected u 2], s1, d)"
    using gws_register [OF _ reg2, of pm "[CallDisconnected u 1]" s1 d] by (simp add: g2_def NewGateway_def)
  also have "gw_step pm \<dots> (g3, [CallDisconnected u 1], s2, d)"
    using gws_connected [OF _ con2, of 2 "[CallDisconnected u 1, CallConnected u 2]" g3] by simp
  also have "gw_step pm \<dots> (g3, [], s3, d')" using gws_disconnected [OF _ _ dis, of 1 "[CallDisconnected u 1]" g3] by simp
  finally have run: "(gw_step pm)\<^sup>*\<^sup>* ?start (g3, [], s3, d')" .
  have ok: "presence_run 0 (snd (connectScript 0 (pm_instance pm) (snd (connectScript 0 (pm_instance pm) no_presence))))" by (intro run_connect run_start)
  have p2: "s2 u = snd (connectScript 0 (pm_instance pm) (snd (connectScript 0 (pm_instance pm) no_presence)))" by (simp add: s2_def s1_def)
  note pok = presence_run_ok [OF run_start, of 0] presence_run_ok [OF run_connect [OF run_start], of 0 "pm_instance pm"]
  have "instances 0 (s2 u) = {pm_instance pm}"
    using connect_spec(2) [OF pok(1)] connect_spec(2) [OF pok(2)] by (simp add: p2 instances_def no_presence_def)
  then have "s3 u = no_presence" using disconnect_last [OF presence_run_ok [OF ok]] by (simp add: s3_def p2)
  then have "\<not> is_online 0 (s3 u)" by (simp add: is_online_def no_presence_def)
  moreover have "clients_of g3 u \<noteq> []" by (simp add: g3_def clients_of_def new_client_def)
  ultimately show ?thesis using run by blast
qed

theorem reconnect_can_end_offline_witness:
  "\<exists>g s d'. (gw_step \<lparr>pm_instance = ''a''\<rparr>)\<^sup>*\<^sup>* (NewGateway, [], (\<lambda>_. no_presence), sample_db) (g, [], s, d') \<and> clients_of g 1 \<noteq> [] \<and> \<not> is_online 0 (s 1)"
  by (rule reconnect_can_end_offline) simp_all

end
