(* ===== verification/Gateway_Session.thy ===== *)
theory Gateway_Session
  imports Gateway_Connections Account_Laws Realtime_Publisher
begin

text \<open>
  The sessions of the websocket gateway: the verifier of tokens in \<^verbatim>\<open>src/internal/websocket_gateway/auth/auth.go\<close>, the handshake and the reading of
  client events in \<^verbatim>\<open>src/internal/websocket_gateway/connection/http.go\<close> and \<^verbatim>\<open>handler.go\<close>, and the router of typing events in
  \<^verbatim>\<open>src/internal/websocket_gateway/typing/typing.go\<close>. The library of tokens and the Redis client are those of the API; whether the rest of a
  handshake succeeds and how the JSON text of an event is decoded are arguments.
\<close>

section \<open>Verifying a token (auth.go)\<close>

datatype socket_error = ErrUnauthorized | SocketRedisError | InvalidRevokedTimestamp | SocketEntError ent_error

record 's jwt_verifier =
  jv_client :: bool
  jv_redis :: "'s redis_client option"
  jv_jwtSecret :: string
  jv_jwt :: jwt_library
  jv_codec :: uuid_codec

definition session_checks :: "'s jwt_verifier \<Rightarrow> env \<Rightarrow> 's \<Rightarrow> string \<Rightarrow> jwt_claims \<Rightarrow> time \<Rightarrow> socket_error + unit" where
  "session_checks v e s tokenString claims issued =
     (case jv_redis v of
        None \<Rightarrow> Inr ()
      | Some R \<Rightarrow>
          if fault e ''blacklist lookup'' then Inl SocketRedisError
          else if text_or_empty (rc_get R s (now e) (''blacklist:'' @ tokenString)) \<noteq> [] then Inl ErrUnauthorized
          else if fault e ''revoked user lookup'' then Inl SocketRedisError
          else (case rc_get R s (now e) (''revoked_user:'' @ UuidString (jv_codec v) (jc_user_id claims)) of
                  None \<Rightarrow> Inr ()
                | Some revokedAtStr \<Rightarrow>
                    if revokedAtStr = [] then Inr ()
                    else (case IsSessionRevoked revokedAtStr (token_issued_at claims issued) of
                            Inl _ \<Rightarrow> Inl InvalidRevokedTimestamp
                          | Inr revoked \<Rightarrow> fail_if revoked ErrUnauthorized)))"

definition Verify :: "'s jwt_verifier \<Rightarrow> env \<Rightarrow> db \<Rightarrow> 's \<Rightarrow> string \<Rightarrow> socket_error + uuid" where
  "Verify v e d s tokenString =
     (case ParseWithClaims (jv_jwt v) (jv_jwtSecret v) (now e) tokenString of
        None \<Rightarrow> Inl ErrUnauthorized
      | Some claims \<Rightarrow>
          (case jc_issued_at claims of
             None \<Rightarrow> Inl ErrUnauthorized
           | Some issued \<Rightarrow>
               if jc_user_id claims = uuid_Nil then Inl ErrUnauthorized
               else
                 and_then (session_checks v e s tokenString claims issued) (\<lambda>_.
                 and_then (fail_if (\<not> jv_client v) ErrUnauthorized) (\<lambda>_.
                 and_then (on_err (ent_only (fault e ''user lookup'') (filter (\<lambda>u. u_id u = jc_user_id claims \<and> u_deleted_at u = None) (users d))) SocketEntError) (\<lambda>u.
                 and_then (fail_if (u_is_banned u \<and> (case u_banned_until u of None \<Rightarrow> True | Some b \<Rightarrow> now e < b)) ErrUnauthorized) (\<lambda>_.
                   Inr (u_id u)))))))"

text \<open>The gateway is started with the secret and the stores of the API.\<close>

definition gateway_verifier :: "'s auth_service \<Rightarrow> 's jwt_verifier" where
  "gateway_verifier svc = \<lparr>jv_client = True, jv_redis = Some (sr_redis (au_sessions svc)), jv_jwtSecret = JWTSecret (au_cfg svc),
     jv_jwt = au_jwt svc, jv_codec = sr_codec (au_sessions svc)\<rparr>"

section \<open>The handshake (http.go, handler.go)\<close>

record socket_request =
  wq_path :: string
  wq_token :: string
  wq_authorization :: string
  wq_origin :: string

text \<open>\<open>strings.Fields\<close>: the words between runs of space.\<close>

fun first_word :: "string \<Rightarrow> string \<times> string" where
  "first_word [] = ([], [])"
| "first_word (c # cs) =
     (if \<exists>w\<in>set space_runes. prefix w (c # cs) then ([], c # cs)
      else case first_word cs of (w, rest) \<Rightarrow> (c # w, rest))"

lemma first_word_shorter: "length (snd (first_word s)) \<le> length s"
  by (induction s) (auto split: prod.splits)

lemma strip_words_shorter: "length (strip_words ws s) \<le> length s"
  using strip_words_suffix [of ws s] by (auto dest: suffix_length_le)

lemma first_word_progress: "strip_words space_runes s = c # cs \<Longrightarrow> length (snd (first_word (c # cs))) < length s"
proof -
  assume st: "strip_words space_runes s = c # cs"
  have nonempty: "w \<noteq> []" if "w \<in> set space_runes" for w using that by (auto simp: space_runes_def)
  have "\<not> (\<exists>w\<in>set space_runes. prefix w (c # cs))"
    using strip_words_clean [of space_runes s] nonempty unfolding st clean_start_def by blast
  then have "length (snd (first_word (c # cs))) \<le> length cs"
    using first_word_shorter [of cs] by (auto split: prod.split)
  then show ?thesis using strip_words_shorter [of space_runes s] st by simp
qed

function Fields :: "string \<Rightarrow> string list" where
  "Fields s = (case strip_words space_runes s of [] \<Rightarrow> [] | c # cs \<Rightarrow> fst (first_word (c # cs)) # Fields (snd (first_word (c # cs))))"
  by pat_completeness auto
termination by (relation "measure length") (simp_all only: wf_measure in_measure first_word_progress)

declare Fields.simps [simp del]

definition ExtractWebSocketToken :: "socket_request \<Rightarrow> string" where
  "ExtractWebSocketToken r =
     (if TrimSpace (wq_token r) \<noteq> [] then TrimSpace (wq_token r)
      else case Fields (wq_authorization r) of [scheme, token] \<Rightarrow> if scheme = ''Bearer'' then token else [] | _ \<Rightarrow> [])"

record socket_origins =
  so_all :: bool
  so_allowed :: "string list"

definition NewHTTPHandler :: "(string \<Rightarrow> string) \<Rightarrow> string list \<Rightarrow> socket_origins" where
  "NewHTTPHandler lower origins =
     \<lparr>so_all = list_ex (\<lambda>origin. TrimSpace origin = ''*'') origins,
      so_allowed = map lower (filter (\<lambda>origin. origin \<noteq> ''*'' \<and> origin \<noteq> []) (map TrimSpace origins))\<rparr>"

definition checkOrigin :: "(string \<Rightarrow> string) \<Rightarrow> socket_origins \<Rightarrow> socket_request \<Rightarrow> bool" where
  "checkOrigin lower h r \<longleftrightarrow> so_all h \<or> TrimSpace (wq_origin r) = [] \<or> lower (TrimSpace (wq_origin r)) \<in> set (so_allowed h)"

datatype socket_answer = Healthy | Unauthorized | NoUpgrade | Connected_as uuid string

text \<open>A connection is registered under the number \<open>k\<close>; the flag tells whether it is the first of its user.\<close>

definition ServeHTTP :: "(string \<Rightarrow> string) \<Rightarrow> socket_origins \<Rightarrow> 's jwt_verifier option \<Rightarrow> (socket_request \<Rightarrow> bool) \<Rightarrow> env \<Rightarrow> db \<Rightarrow> 's \<Rightarrow>
    gateway \<Rightarrow> nat \<Rightarrow> socket_request \<Rightarrow> socket_answer \<times> gateway \<times> bool" where
  "ServeHTTP lower h verifier handshake e d s g k r =
     (if wq_path r = ''/healthz'' then (Healthy, g, False)
      else let token = ExtractWebSocketToken r in
        (case verifier of
           None \<Rightarrow> (Unauthorized, g, False)
         | Some v \<Rightarrow>
             if token = [] then (Unauthorized, g, False)
             else (case Verify v e d s token of
                     Inl _ \<Rightarrow> (Unauthorized, g, False)
                   | Inr userID \<Rightarrow>
                       if \<not> handshake r \<or> \<not> checkOrigin lower h r then (NoUpgrade, g, False)
                       else (Connected_as userID token, RegisterWithClose g k userID defaultClientBuffer))))"

section \<open>Typing events (typing.go)\<close>

definition EventTyping :: string where "EventTyping = ''chat.typing''"
definition typingThrottle :: duration where "typingThrottle = 2 * second"
definition typingUserThrottle :: duration where "typingUserThrottle = 300 * millisecond"

record 'p client_event =
  ce_type :: string
  ce_payload :: 'p
  ce_meta :: "event_meta option"

datatype typing_error = TypingNotConfigured | TypingMembersError ent_error | TypingRedisError | TypingBlockError ent_error | TypingPublishError

record 's typing_router =
  tr_client :: "'s redis_client option"
  tr_members :: "(uuid \<Rightarrow> ent_error + uuid list) option"
  tr_blocked :: "(uuid \<Rightarrow> uuid \<Rightarrow> ent_error + bool) option"
  tr_codec :: uuid_codec

definition SetNX :: "'s redis_client \<Rightarrow> 's \<Rightarrow> time \<Rightarrow> string \<Rightarrow> string \<Rightarrow> duration \<Rightarrow> bool \<times> 's" where
  "SetNX R s t k v ttl = (case rc_get R s t k of None \<Rightarrow> (True, rc_set R s t k v ttl) | Some _ \<Rightarrow> (False, s))"

definition typing_user_key :: "uuid_codec \<Rightarrow> uuid \<Rightarrow> string" where
  "typing_user_key codec u = ''typing_user:'' @ UuidString codec u"

definition typing_chat_key :: "uuid_codec \<Rightarrow> uuid \<Rightarrow> uuid \<Rightarrow> string" where
  "typing_chat_key codec u c = ''typing:'' @ UuidString codec u @ '':'' @ UuidString codec c"

fun typing_targets :: "(uuid \<Rightarrow> uuid \<Rightarrow> ent_error + bool) option \<Rightarrow> (uuid \<Rightarrow> bool) \<Rightarrow> uuid \<Rightarrow> uuid list \<Rightarrow> typing_error option \<times> uuid list" where
  "typing_targets blocked unreachable sender [] = (None, [])"
| "typing_targets blocked unreachable sender (t # ts) =
     (if t = uuid_Nil \<or> t = sender then typing_targets blocked unreachable sender ts
      else case (case blocked of None \<Rightarrow> Inr False | Some f \<Rightarrow> f sender t) of
             Inl er \<Rightarrow> (Some (TypingBlockError er), [])
           | Inr True \<Rightarrow> typing_targets blocked unreachable sender ts
           | Inr False \<Rightarrow>
               if unreachable t then (Some TypingPublishError, [])
               else (case typing_targets blocked unreachable sender ts of (er, sent) \<Rightarrow> (er, t # sent)))"

definition typing_copy :: "time \<Rightarrow> uuid \<Rightarrow> 'p client_event \<Rightarrow> 'p client_event" where
  "typing_copy t sender ev = ev\<lparr>ce_meta := map_option (\<lambda>m. m\<lparr>em_sender_id := sender, em_timestamp := UnixMilli t\<rparr>) (ce_meta ev)\<rparr>"

text \<open>The result is the error, the publications and the store. The publications made before an error stay made.\<close>

definition PublishTyping :: "'s typing_router \<Rightarrow> env \<Rightarrow> (uuid \<Rightarrow> bool) \<Rightarrow> 's \<Rightarrow> uuid \<Rightarrow> 'p client_event \<Rightarrow>
    typing_error option \<times> (string \<times> uuid \<times> 'p client_event) list \<times> 's" where
  "PublishTyping r e unreachable s senderID ev =
     (case (tr_client r, tr_members r) of
        (Some R, Some members) \<Rightarrow>
          if senderID = uuid_Nil then (Some TypingNotConfigured, [], s)
          else (case ce_meta ev of
             None \<Rightarrow> (None, [], s)
           | Some meta \<Rightarrow>
               if ce_type ev \<noteq> EventTyping \<or> em_chat_id meta = uuid_Nil then (None, [], s)
               else (case members (em_chat_id meta) of
                       Inl er \<Rightarrow> (Some (TypingMembersError er), [], s)
                     | Inr memberIDs \<Rightarrow>
                         if senderID \<notin> set memberIDs then (None, [], s)
                         else if fault e ''typing user throttle'' then (Some TypingRedisError, [], s)
                         else (case SetNX R s (now e) (typing_user_key (tr_codec r) senderID) ''1'' typingUserThrottle of
                                 (False, s1) \<Rightarrow> (None, [], s1)
                               | (True, s1) \<Rightarrow>
                                   if fault e ''typing chat throttle'' then (Some TypingRedisError, [], s1)
                                   else (case SetNX R s1 (now e) (typing_chat_key (tr_codec r) senderID (em_chat_id meta)) ''1'' typingThrottle of
                                           (False, s2) \<Rightarrow> (None, [], s2)
                                         | (True, s2) \<Rightarrow>
                                             (case typing_targets (tr_blocked r) unreachable senderID memberIDs of
                                                (er, sent) \<Rightarrow> (er, map (\<lambda>t. (BroadcastChannel, t, typing_copy (now e) senderID ev)) sent, s2))))))
      | _ \<Rightarrow> (Some TypingNotConfigured, [], s))"

section \<open>Reading from a socket (http.go)\<close>

datatype read_result = Closed_session | Bad_event | Handled "typing_error option"

definition verifyClient :: "'s jwt_verifier \<Rightarrow> env \<Rightarrow> db \<Rightarrow> 's \<Rightarrow> uuid \<Rightarrow> string \<Rightarrow> bool" where
  "verifyClient v e d s userID token \<longleftrightarrow> Verify v e d s token = Inr userID"

definition handleIncomingMessage :: "'s typing_router option \<Rightarrow> (string \<Rightarrow> 'p client_event option) \<Rightarrow> env \<Rightarrow> (uuid \<Rightarrow> bool) \<Rightarrow> 's \<Rightarrow> uuid \<Rightarrow> string \<Rightarrow>
    read_result \<times> (string \<times> uuid \<times> 'p client_event) list \<times> 's" where
  "handleIncomingMessage router decode e unreachable s userID data =
     (case router of
        None \<Rightarrow> (Handled None, [], s)
      | Some r \<Rightarrow>
          (case decode data of
             None \<Rightarrow> (Bad_event, [], s)
           | Some ev \<Rightarrow> (case PublishTyping r e unreachable s userID ev of (er, out, s') \<Rightarrow> (Handled er, out, s'))))"

text \<open>One message of the read loop: the session is verified again before the message is looked at.\<close>

definition read_message :: "'s jwt_verifier \<Rightarrow> 's typing_router option \<Rightarrow> (string \<Rightarrow> 'p client_event option) \<Rightarrow> env \<Rightarrow> (uuid \<Rightarrow> bool) \<Rightarrow> db \<Rightarrow> 's \<Rightarrow>
    uuid \<Rightarrow> string \<Rightarrow> string \<Rightarrow> read_result \<times> (string \<times> uuid \<times> 'p client_event) list \<times> 's" where
  "read_message v router decode e unreachable d s userID token data =
     (if \<not> verifyClient v e d s userID token then (Closed_session, [], s)
      else handleIncomingMessage router decode e unreachable s userID data)"

end
