(* ===== verification/Gateway_Session_Laws.thy ===== *)
theory Gateway_Session_Laws
  imports Gateway_Session
begin

text \<open>
  What the sessions of the gateway promise: a socket is opened for the tokens the API accepts, it is closed once its session was ended, and typing events are
  throttled and reach the members of the chat only.
\<close>

section \<open>Two verifiers\<close>

definition live_user :: "env \<Rightarrow> db \<Rightarrow> uuid \<Rightarrow> user \<Rightarrow> bool" where
  "live_user e d i u \<longleftrightarrow> ent_only (fault e ''user lookup'') (filter (\<lambda>u. u_id u = i \<and> u_deleted_at u = None) (users d)) = Inr u \<and>
     \<not> (u_is_banned u \<and> (case u_banned_until u of None \<Rightarrow> True | Some b \<Rightarrow> now e < b))"

lemma live_user_id: "live_user e d i u \<Longrightarrow> u_id u = i \<and> u \<in> set (users d)"
  unfolding live_user_def by (auto simp: ent_only_def filter_eq_Cons_iff split: if_splits list.splits)

text \<open>Both accept a token that parses, is not in the blacklist, was not revoked, and whose user is live.\<close>

definition accepted :: "'s auth_service \<Rightarrow> env \<Rightarrow> db \<Rightarrow> 's \<Rightarrow> string \<Rightarrow> user \<Rightarrow> bool" where
  "accepted svc e d s tok u \<longleftrightarrow> (\<exists>claims issued.
     ParseWithClaims (au_jwt svc) (JWTSecret (au_cfg svc)) (now e) tok = Some claims \<and> jc_issued_at claims = Some issued \<and>
     IsTokenBlacklisted (au_sessions svc) e s tok = Inr False \<and>
     IsUserRevoked (au_sessions svc) e s (jc_user_id claims) (token_issued_at claims issued) = Inr False \<and> live_user e d (jc_user_id claims) u)"

lemma accepted_parsed:
  assumes "ParseWithClaims (au_jwt svc) (JWTSecret (au_cfg svc)) (now e) tok = Some c" and "jc_issued_at c = Some issued"
  shows "accepted svc e d s tok u \<longleftrightarrow> IsTokenBlacklisted (au_sessions svc) e s tok = Inr False \<and>
     IsUserRevoked (au_sessions svc) e s (jc_user_id c) (token_issued_at c issued) = Inr False \<and> live_user e d (jc_user_id c) u"
  using assms by (simp add: accepted_def)

lemma session_checks_iff:
  "session_checks (gateway_verifier svc) e s tok claims issued = Inr x \<longleftrightarrow>
     IsTokenBlacklisted (au_sessions svc) e s tok = Inr False \<and>
     IsUserRevoked (au_sessions svc) e s (jc_user_id claims) (token_issued_at claims issued) = Inr False"
  by (auto simp: session_checks_def gateway_verifier_def IsTokenBlacklisted_def IsUserRevoked_def revoke_key_def fail_if_def on_err_def
      IsSessionRevoked_def text_or_empty_def split: option.splits if_splits sum.splits)

lemma Verify_iff:
  assumes "\<forall>u\<in>set (users d). u_id u \<noteq> uuid_Nil"
  shows "Verify (gateway_verifier svc) e d s tok = Inr i \<longleftrightarrow> (\<exists>u. accepted svc e d s tok u \<and> u_id u = i)"
proof -
  have lib: "jv_jwt (gateway_verifier svc) = au_jwt svc" "jv_jwtSecret (gateway_verifier svc) = JWTSecret (au_cfg svc)" "jv_client (gateway_verifier svc)"
    by (simp_all add: gateway_verifier_def)
  show ?thesis
  proof (cases "\<exists>c issued. ParseWithClaims (au_jwt svc) (JWTSecret (au_cfg svc)) (now e) tok = Some c \<and> jc_issued_at c = Some issued")
    case True
    then obtain c issued where c: "ParseWithClaims (au_jwt svc) (JWTSecret (au_cfg svc)) (now e) tok = Some c" "jc_issued_at c = Some issued" by blast
    have nil: "jc_user_id c \<noteq> uuid_Nil" if "live_user e d (jc_user_id c) u" for u
      using live_user_id [OF that] assms by metis
    have "Verify (gateway_verifier svc) e d s tok = Inr i \<longleftrightarrow> jc_user_id c \<noteq> uuid_Nil \<and>
        session_checks (gateway_verifier svc) e s tok c issued = Inr () \<and> (\<exists>u. live_user e d (jc_user_id c) u \<and> u_id u = i)"
      unfolding Verify_def lib c option.case live_user_def by (simp add: result_simps lib)
    then show ?thesis unfolding accepted_parsed [OF c] session_checks_iff using nil by blast
  next
    case False
    then show ?thesis unfolding Verify_def accepted_def lib by (auto split: option.split)
  qed
qed

lemma VerifyToken_iff:
  assumes "CHR '' '' \<notin> set tok" and "\<forall>i role t. cache i = Some (role, t) \<longrightarrow> t \<le> now e"
  shows "(\<exists>dto. fst (VerifyToken svc e cache d s (''Bearer '' @ tok)) = Inr (dto, tok) \<and> ud_id dto = i) \<longleftrightarrow>
    (\<exists>u. accepted svc e d s tok u \<and> u_id u = i)"
proof (cases "\<exists>c issued. ParseWithClaims (au_jwt svc) (JWTSecret (au_cfg svc)) (now e) tok = Some c \<and> jc_issued_at c = Some issued")
  case True
  then obtain c issued where c: "ParseWithClaims (au_jwt svc) (JWTSecret (au_cfg svc)) (now e) tok = Some c" "jc_issued_at c = Some issued" by blast
  have lookup: "(\<exists>dto. fst (verify_lookup e ch d j) = Inr dto \<and> ud_id dto = i) \<longleftrightarrow> (\<exists>u. live_user e d j u \<and> u_id u = i)" for ch j
  proof (cases "ent_only (fault e ''user lookup'') (filter (\<lambda>u. u_id u = j \<and> u_deleted_at u = None) (users d))")
    case (Inl er)
    then show ?thesis by (cases er) (auto simp: verify_lookup_def live_user_def)
  next
    case (Inr u)
    then have "u_id u = j" by (auto simp: result_simps filter_eq_Cons_iff)
    with Inr show ?thesis
      by (cases "u_banned_until u") (auto simp: verify_lookup_def live_user_def check_ban_def Let_def zero_user_dto_def)
  qed
  have stale: "\<not> now e < t" if "cache j = Some (role, t)" for j role t using assms(2) that by force
  have user: "(\<exists>dto. fst (VerifyUser svc e cache d s tok) = Inr dto \<and> ud_id dto = i) \<longleftrightarrow>
      IsUserRevoked (au_sessions svc) e s (jc_user_id c) (token_issued_at c issued) = Inr False \<and> (\<exists>u. live_user e d (jc_user_id c) u \<and> u_id u = i)"
    unfolding VerifyUser_def c option.case Let_def
    using lookup [where ch = cache and j = "jc_user_id c"] lookup [where ch = "cache(jc_user_id c := None)" and j = "jc_user_id c"]
    by (auto split: sum.splits bool.splits option.splits if_splits dest: stale)
  show ?thesis unfolding accepted_parsed [OF c]
    using user by (auto simp: VerifyToken_def split_bearer [OF assms(1), simplified] split: sum.splits bool.splits prod.splits)
next
  case False
  then show ?thesis
    by (auto simp: accepted_def VerifyToken_def VerifyUser_def split_bearer [OF assms(1), simplified] split: option.split sum.splits bool.splits prod.splits)
qed

text \<open>
  C27. The websocket gateway and the API agree on who is let in: when no identity in the cache of the API is fresh, a token opens a socket
  for a user exactly if the middleware of the API accepts the header with this token for the same user.
\<close>

theorem socket_admits_as_api:
  assumes "CHR '' '' \<notin> set tok" and "\<forall>i role t. cache i = Some (role, t) \<longrightarrow> t \<le> now e" and "\<forall>u\<in>set (users d). u_id u \<noteq> uuid_Nil"
  shows "Verify (gateway_verifier svc) e d s tok = Inr i \<longleftrightarrow>
    (\<exists>dto. fst (VerifyToken svc e cache d s (''Bearer '' @ tok)) = Inr (dto, tok) \<and> ud_id dto = i)"
  unfolding Verify_iff [OF assms(3)] VerifyToken_iff [OF assms(1,2)] ..

theorem socket_admits_as_api_witness:
  "Verify (gateway_verifier sample_auth) (quiet_env 9) sample_db (\<lambda>_. None) ''token'' = Inr 1 \<and>
   (\<exists>dto. fst (VerifyToken sample_auth (quiet_env 9) (\<lambda>_. None) sample_db (\<lambda>_. None) (''Bearer '' @ ''token'')) = Inr (dto, ''token'') \<and> ud_id dto = 1)"
proof -
  have ids: "\<forall>u\<in>set (users sample_db). u_id u \<noteq> uuid_Nil" by code_simp
  have "Verify (gateway_verifier sample_auth) (quiet_env 9) sample_db (\<lambda>_. None) ''token'' = Inr 1" by code_simp
  then show ?thesis
    using socket_admits_as_api [of "''token''" "\<lambda>_. None" "quiet_env 9" sample_db sample_auth "\<lambda>_. None" 1] ids by simp
qed

section \<open>Ending a session closes its sockets\<close>

text \<open>A socket does not outlive the logout of its session: whatever the client sends on a socket that was opened with a logged-out token is answered by closing
  the socket, and nothing is published for it; but for the last millisecond of the token.
\<close>

theorem logged_out_socket_closes:
  assumes "redis_laws entry (sr_redis (as_sessions (au_account svc)))" and "session_config (sr_cfg (as_sessions (au_account svc)))" and "jwt_laws (au_jwt svc)"
    and "SignedString (au_jwt svc) (JWTSecret (sr_cfg (as_sessions (au_account svc)))) claims = Some tok" and "jc_expires_at claims = Some ex"
    and "Logout svc e s tok = (Inr cs, s')" and "now e < ex" and "now e \<le> now e'"
    and "now e' + millisecond \<le> ex \<or> ex \<le> now e'" and "\<not> fault e' ''blacklist lookup''"
    and "\<forall>u\<in>set (users d). u_id u \<noteq> uuid_Nil"
  shows "read_message (gateway_verifier svc) router decode e' unreachable d s' i tok data = (Closed_session, [], s')"
proof -
  have "\<not> accepted svc e' d s' tok u" for u
    using Logout_lasts [OF assms(1-10)] by (elim disjE) (simp_all add: accepted_def)
  then have "Verify (gateway_verifier svc) e' d s' tok \<noteq> Inr i" using Verify_iff [OF assms(11), of svc e' s' tok i] by blast
  then show ?thesis by (simp add: read_message_def verifyClient_def)
qed

theorem logged_out_socket_closes_witness:
  "read_message (gateway_verifier sample_auth) None (\<lambda>_. None :: unit client_event option) (quiet_env 9) (\<lambda>_. False) sample_db
     (snd (Logout sample_auth (quiet_env 7) (\<lambda>_. None) ''token'')) 1 ''token'' [] =
   (Closed_session, [], snd (Logout sample_auth (quiet_env 7) (\<lambda>_. None) ''token''))"
proof (rule logged_out_socket_closes)
  show "redis_laws kv_entry_at (sr_redis (as_sessions (au_account sample_auth)))"
    by (simp add: sample_auth_def sample_account_def sample_sessions_def kv_redis_laws)
  show "session_config (sr_cfg (as_sessions (au_account sample_auth)))"
    by (simp add: sample_auth_def sample_account_def sample_sessions_def session_config_def)
  show "jwt_laws (au_jwt sample_auth)" by (simp add: sample_auth_def sample_jwt_laws)
  show "SignedString (au_jwt sample_auth) (JWTSecret (sr_cfg (as_sessions (au_account sample_auth)))) (jwt_claims_at 3600 0 1) = Some ''token''"
    by (simp add: sample_auth_def sample_jwt_def)
  show "jc_expires_at (jwt_claims_at 3600 0 1) = Some (3600 * second)" by code_simp
  have "case fst (Logout sample_auth (quiet_env 7) (\<lambda>_. None) ''token'') of Inl _ \<Rightarrow> False | Inr _ \<Rightarrow> True" by code_simp
  then show "Logout sample_auth (quiet_env 7) (\<lambda>_. None) ''token'' =
      (Inr (projr (fst (Logout sample_auth (quiet_env 7) (\<lambda>_. None) ''token''))), snd (Logout sample_auth (quiet_env 7) (\<lambda>_. None) ''token''))"
    by (auto simp: prod_eq_iff split: sum.splits)
  show "\<forall>u\<in>set (users sample_db). u_id u \<noteq> uuid_Nil" by code_simp
qed (simp_all add: quiet_env_def)

section \<open>Typing events\<close>

lemma typing_targets_sent:
  assumes "typing_targets blocked unreachable sender ts = (None, sent)"
  shows "t \<in> set sent \<longleftrightarrow> t \<in> set ts \<and> t \<noteq> uuid_Nil \<and> t \<noteq> sender \<and> (case blocked of None \<Rightarrow> True | Some f \<Rightarrow> f sender t = Inr False)"
  using assms
proof (induction ts arbitrary: sent)
  case (Cons x ts)
  then show ?case
    by (cases blocked) (auto split: if_splits sum.splits bool.splits prod.splits)
qed simp

text \<open>What a publication went through: the sender is a member, both throttles were open, and the event carries the sender the socket belongs to.\<close>

lemma PublishTyping_sends:
  assumes "PublishTyping r e unreachable s sender ev = (er, out, s')" and "out \<noteq> []"
  shows "\<exists>R members meta ms s1 sent. tr_client r = Some R \<and> tr_members r = Some members \<and> ce_meta ev = Some meta \<and> ce_type ev = EventTyping \<and>
    members (em_chat_id meta) = Inr ms \<and> sender \<in> set ms \<and>
    SetNX R s (now e) (typing_user_key (tr_codec r) sender) ''1'' typingUserThrottle = (True, s1) \<and>
    SetNX R s1 (now e) (typing_chat_key (tr_codec r) sender (em_chat_id meta)) ''1'' typingThrottle = (True, s') \<and>
    typing_targets (tr_blocked r) unreachable sender ms = (er, sent) \<and> out = map (\<lambda>t. (BroadcastChannel, t, typing_copy (now e) sender ev)) sent"
  using assms unfolding PublishTyping_def
  by (auto split: option.splits if_splits sum.splits prod.splits bool.splits)

text \<open>A typing event that was handled without an error and published at all is published exactly to the other members of the chat that neither blocked the
  sender nor were blocked by him, only when the sender is a member himself, and under his own identifier whatever the event he sent says.
\<close>

theorem typing_reaches_members:
  assumes "PublishTyping r e unreachable s sender ev = (None, out, s')" and "out \<noteq> []" and "ce_meta ev = Some meta"
    and "tr_members r = Some (ChatMembers flt d)" and "tr_blocked r = Some (IsBlocked flt d)" and "ChatMembers flt d (em_chat_id meta) = Inr ms"
  shows "sender \<in> set ms \<and> fst ` snd ` set out = {t \<in> set ms. t \<noteq> sender \<and> t \<noteq> uuid_Nil \<and> IsBlocked flt d sender t = Inr False} \<and>
    (\<forall>x\<in>set out. map_option em_sender_id (ce_meta (snd (snd x))) = Some sender)"
proof -
  obtain sent where "sender \<in> set ms" and sent: "typing_targets (tr_blocked r) unreachable sender ms = (None, sent)"
      and out: "out = map (\<lambda>t. (BroadcastChannel, t, typing_copy (now e) sender ev)) sent"
    using PublishTyping_sends [OF assms(1,2)] assms(3,4,6) by auto
  moreover have "fst ` snd ` set out = set sent" unfolding out by force
  ultimately show ?thesis
    using typing_targets_sent [OF sent] assms(3,5) by (auto simp: typing_copy_def out)
qed

definition sample_typing :: "unit client_event" where
  "sample_typing = \<lparr>ce_type = EventTyping, ce_payload = (), ce_meta = Some \<lparr>em_timestamp = 0, em_chat_id = 10, em_sender_id = 7, em_unread_count = 0\<rparr>\<rparr>"

definition sample_router :: "kv typing_router" where
  "sample_router = \<lparr>tr_client = Some kv_redis, tr_members = Some (ChatMembers no_fault sample_db), tr_blocked = Some (IsBlocked no_fault sample_db), tr_codec = unary_codec\<rparr>"

abbreviation sample_typed :: "time \<Rightarrow> kv \<Rightarrow> typing_error option \<times> (string \<times> uuid \<times> unit client_event) list \<times> kv" where
  "sample_typed t s \<equiv> PublishTyping sample_router (quiet_env t) (\<lambda>_. False) s 1 sample_typing"

theorem typing_reaches_members_witness:
  "1 \<in> set (projr (ChatMembers no_fault sample_db 10)) \<and> fst ` snd ` set (fst (snd (sample_typed 0 (\<lambda>_. None)))) =
     {t \<in> set (projr (ChatMembers no_fault sample_db 10)). t \<noteq> 1 \<and> t \<noteq> uuid_Nil \<and> IsBlocked no_fault sample_db 1 t = Inr False} \<and>
   (\<forall>x\<in>set (fst (snd (sample_typed 0 (\<lambda>_. None)))). map_option em_sender_id (ce_meta (snd (snd x))) = Some 1)"
proof (rule typing_reaches_members)
  have "fst (sample_typed 0 (\<lambda>_. None)) = None" by code_simp
  then show "sample_typed 0 (\<lambda>_. None) = (None, fst (snd (sample_typed 0 (\<lambda>_. None))), snd (snd (sample_typed 0 (\<lambda>_. None))))"
    by (simp add: prod_eq_iff)
  show "fst (snd (sample_typed 0 (\<lambda>_. None))) \<noteq> []" by code_simp
  show "ce_meta sample_typing = Some (the (ce_meta sample_typing))" by (simp add: sample_typing_def)
  show "ChatMembers no_fault sample_db (em_chat_id (the (ce_meta sample_typing))) = Inr (projr (ChatMembers no_fault sample_db 10))"
    by code_simp
qed (simp_all add: sample_router_def)

section \<open>The throttle of typing events\<close>

lemma typing_throttles: "whole millisecond typingUserThrottle = typingUserThrottle" "whole millisecond typingThrottle = typingThrottle"
  "0 < typingUserThrottle" "0 < typingThrottle"
  by (simp_all add: whole_def typingUserThrottle_def typingThrottle_def)

text \<open>A key that is held until an instant is there until then.\<close>

definition held :: "'s observer \<Rightarrow> 's \<Rightarrow> time \<Rightarrow> string \<Rightarrow> time \<Rightarrow> bool" where
  "held entry s t k ex \<longleftrightarrow> t < ex \<longrightarrow> (\<exists>v x. entry s t k = Some (v, x) \<and> (case x of None \<Rightarrow> True | Some y \<Rightarrow> ex \<le> y))"

lemma held_free: "held entry s t k ex \<Longrightarrow> entry s t k = None \<Longrightarrow> ex \<le> t"
  by (auto simp: held_def)

lemma held_later:
  assumes "redis_laws entry R" and "t \<le> t'" and "held entry s t k ex"
  shows "held entry s t' k ex"
  unfolding held_def
proof
  assume "t' < ex"
  then obtain v x where "entry s t k = Some (v, x)" "case x of None \<Rightarrow> True | Some y \<Rightarrow> ex \<le> y"
    using assms(2,3) unfolding held_def by force
  then show "\<exists>v x. entry s t' k = Some (v, x) \<and> (case x of None \<Rightarrow> True | Some y \<Rightarrow> ex \<le> y)"
    using redis_later [OF assms(1,2), of s k] \<open>t' < ex\<close> by (cases x) simp_all
qed

lemma held_kept: "held entry s t k ex \<Longrightarrow> (\<And>x. entry s t k = Some x \<Longrightarrow> entry s' t k = Some x) \<Longrightarrow> held entry s' t k ex"
  unfolding held_def by blast

lemma SetNX_keeps:
  assumes "redis_laws entry R" and "SetNX R s t k v ttl = (b, s')" and "0 \<le> ttl" and "entry s t k' = Some x"
  shows "entry s' t k' = Some x"
  using assms by (auto simp: SetNX_def redis_get [OF assms(1)] redis_set [OF assms(1)] split: option.splits)

lemma SetNX_takes:
  assumes "redis_laws entry R" and "SetNX R s t k v ttl = (True, s')" and "0 < ttl"
  shows "entry s t k = None" and "entry s' t k = Some (v, Some (t + whole millisecond ttl))"
  using assms by (auto simp: SetNX_def redis_get [OF assms(1)] redis_set [OF assms(1)] split: option.splits)

lemma PublishTyping_store:
  assumes "PublishTyping r e unreachable s u ev = (er, out, s')" and "tr_client r = Some R" and "ce_meta ev = Some meta"
  defines "s1 \<equiv> snd (SetNX R s (now e) (typing_user_key (tr_codec r) u) ''1'' typingUserThrottle)"
  shows "s' = s \<or> s' = s1 \<or> s' = snd (SetNX R s1 (now e) (typing_chat_key (tr_codec r) u (em_chat_id meta)) ''1'' typingThrottle)"
  using assms(1-3) unfolding PublishTyping_def s1_def
  by (auto split: option.splits if_splits sum.splits prod.splits bool.splits)

lemma PublishTyping_keeps:
  assumes "redis_laws entry R" and "PublishTyping r e unreachable s u ev = (er, out, s')" and "tr_client r = Some R" and "entry s (now e) k = Some x"
  shows "entry s' (now e) k = Some x"
proof (cases "ce_meta ev")
  case None
  then show ?thesis using assms(2,4) by (auto simp: PublishTyping_def split: option.splits if_splits)
next
  case (Some meta)
  have keep: "entry (snd (SetNX R st (now e) k' v ttl)) (now e) k = Some x" if "0 < ttl" "entry st (now e) k = Some x" for st k' v ttl
    using SetNX_keeps [OF assms(1) prod.collapse [symmetric] less_imp_le [OF that(1)] that(2)] .
  show ?thesis
    using PublishTyping_store [OF assms(2,3) Some] assms(4) by (elim disjE) (simp_all add: keep typing_throttles)
qed

text \<open>Runs of the routers of all instances on one store: the instants, senders and events of what was published, newest first. Other clients leave the keys of
  the throttles alone.\<close>

inductive typing_run :: "'s observer \<Rightarrow> 's redis_client \<Rightarrow> uuid_codec \<Rightarrow> (time \<times> uuid \<times> 'p client_event) list \<Rightarrow> time \<Rightarrow> 's \<Rightarrow> bool"
  for entry :: "'s observer" and R :: "'s redis_client" and codec :: uuid_codec where
  tyr_start: "typing_run entry R codec [] t s"
| tyr_later: "typing_run entry R codec sent t s \<Longrightarrow> t \<le> t' \<Longrightarrow> typing_run entry R codec sent t' s"
| tyr_other: "typing_run entry R codec sent t s \<Longrightarrow> (\<And>k. prefix ''typing'' k \<Longrightarrow> entry s' t k = entry s t k) \<Longrightarrow> typing_run entry R codec sent t s'"
| tyr_publish: "typing_run entry R codec sent (now e) s \<Longrightarrow> tr_client r = Some R \<Longrightarrow> tr_codec r = codec \<Longrightarrow>
    PublishTyping r e unreachable s u ev = (er, out, s') \<Longrightarrow>
    typing_run entry R codec (if out = [] then sent else (now e, u, ev) # sent) (now e) s'"

definition event_chat :: "'p client_event \<Rightarrow> uuid" where
  "event_chat ev = (case ce_meta ev of None \<Rightarrow> uuid_Nil | Some m \<Rightarrow> em_chat_id m)"

definition throttled :: "'s observer \<Rightarrow> uuid_codec \<Rightarrow> time \<Rightarrow> 's \<Rightarrow> time \<times> uuid \<times> 'p client_event \<Rightarrow> bool" where
  "throttled entry codec t s x \<longleftrightarrow> (case x of (t0, u, ev) \<Rightarrow>
     held entry s t (typing_user_key codec u) (t0 + typingUserThrottle) \<and> held entry s t (typing_chat_key codec u (event_chat ev)) (t0 + typingThrottle))"

definition spaced :: "time \<times> uuid \<times> 'p client_event \<Rightarrow> time \<times> uuid \<times> 'p client_event \<Rightarrow> bool" where
  "spaced later earlier \<longleftrightarrow> (case (later, earlier) of ((t', u', ev'), (t, u, ev)) \<Rightarrow>
     (u' = u \<longrightarrow> t + typingUserThrottle \<le> t') \<and> (u' = u \<and> event_chat ev' = event_chat ev \<longrightarrow> t + typingThrottle \<le> t'))"

lemma throttled_mono:
  assumes "throttled entry codec t s x" and "\<And>k ex. prefix ''typing'' k \<Longrightarrow> held entry s t k ex \<Longrightarrow> held entry s' t' k ex"
  shows "throttled entry codec t' s' x"
proof -
  have "prefix ''typing'' (typing_user_key codec u)" "prefix ''typing'' (typing_chat_key codec u c)" for u c
    by (simp_all add: typing_user_key_def typing_chat_key_def)
  then show ?thesis using assms unfolding throttled_def by (auto split: prod.splits)
qed

lemma typing_run_spaced:
  assumes "redis_laws entry R" and "typing_run entry R codec sent t s"
  shows "sorted_wrt spaced sent \<and> (\<forall>x\<in>set sent. throttled entry codec t s x)"
  using assms(2)
proof induction
  case (tyr_later sent t s t')
  have "throttled entry codec t' s x" if "x \<in> set sent" for x
    using tyr_later.IH that by (intro throttled_mono [where t = t and s = s and s' = s and t' = t']) (auto intro: held_later [OF assms(1) tyr_later(2)])
  then show ?case using tyr_later.IH by simp
next
  case (tyr_other sent t s s')
  then have "held entry s' t k ex" if "prefix ''typing'' k" "held entry s t k ex" for k ex using that by (simp add: held_def)
  then have "throttled entry codec t s' x" if "x \<in> set sent" for x
    using tyr_other.IH that by (intro throttled_mono [where t = t and s = s and s' = s' and t' = t]) auto
  then show ?case using tyr_other.IH by simp
next
  case (tyr_publish sent e s r unreachable u ev er out s')
  have hold: "held entry s' (now e) k ex" if "held entry s (now e) k ex" for k ex
    using held_kept [OF that] PublishTyping_keeps [OF assms(1) tyr_publish(4,2)] by simp
  have kept: "throttled entry codec (now e) s' x" if "x \<in> set sent" for x
    using tyr_publish.IH that by (intro throttled_mono [where t = "now e" and s = s and s' = s' and t' = "now e"]) (auto intro: hold)
  show ?case
  proof (cases "out = []")
    case True
    then show ?thesis using tyr_publish.IH kept by simp
  next
    case False
    obtain meta s1 where meta: "ce_meta ev = Some meta"
        and first: "SetNX R s (now e) (typing_user_key codec u) ''1'' typingUserThrottle = (True, s1)"
        and second: "SetNX R s1 (now e) (typing_chat_key codec u (event_chat ev)) ''1'' typingThrottle = (True, s')"
      using PublishTyping_sends [OF tyr_publish(4) False] tyr_publish(2,3) by (auto simp: event_chat_def)
    note first = first SetNX_takes [OF assms(1) first typing_throttles(3)]
    note second = second SetNX_takes [OF assms(1) second typing_throttles(4)]
    have free: "entry s (now e) (typing_chat_key codec u (event_chat ev)) = None"
      using SetNX_keeps [OF assms(1) first(1) less_imp_le [OF typing_throttles(3)]] second(2) by (cases "entry s (now e) (typing_chat_key codec u (event_chat ev))") auto
    have "spaced (now e, u, ev) x" if "x \<in> set sent" for x
      using tyr_publish.IH that first(2) free held_free by (cases x) (fastforce simp: throttled_def spaced_def)
    moreover have "throttled entry codec (now e) s' (now e, u, ev)"
      using SetNX_keeps [OF assms(1) second(1) less_imp_le [OF typing_throttles(4)] first(3)] second(3) by (simp add: throttled_def held_def typing_throttles)
    ultimately show ?thesis using False tyr_publish.IH kept by simp
  qed
qed simp

text \<open>
  C28. However clients type and however many gateways run on one Redis, the typing events of one user that are published are 300 milliseconds apart, and those of
  one user in one chat two seconds.
\<close>

theorem typing_is_throttled:
  assumes "redis_laws entry R" and "typing_run entry R codec sent t s" and "i < j" and "j < length sent"
    and "sent ! i = (t', u, ev')" and "sent ! j = (t0, u, ev)"
  shows "t0 + 300 * millisecond \<le> t' \<and> (event_chat ev' \<noteq> event_chat ev \<or> t0 + 2 * second \<le> t')"
proof -
  have "spaced (sent ! i) (sent ! j)"
    using typing_run_spaced [OF assms(1,2)] sorted_wrt_nth_less [of spaced sent i j] assms(3,4) by simp
  then show ?thesis by (simp add: assms(5,6) spaced_def typingUserThrottle_def typingThrottle_def)
qed

theorem typing_is_throttled_witness:
  "typing_run kv_entry_at kv_redis unary_codec [(3 * second, 1, sample_typing), (0, 1, sample_typing)] (3 * second)
     (snd (snd (sample_typed (3 * second) (snd (snd (sample_typed 0 (\<lambda>_. None))))))) \<and>
   0 + 300 * millisecond \<le> 3 * second \<and> 0 + 2 * second \<le> 3 * second"
proof -
  let ?first = "sample_typed 0 (\<lambda>_. None)"
  let ?second = "sample_typed (3 * second) (snd (snd ?first))"
  have router: "tr_client sample_router = Some kv_redis" "tr_codec sample_router = unary_codec" by (simp_all add: sample_router_def)
  have step: "typing_run kv_entry_at kv_redis unary_codec ((t, 1, sample_typing) # sent) t (snd (snd (sample_typed t s)))"
    if "typing_run kv_entry_at kv_redis unary_codec sent t s" "fst (snd (sample_typed t s)) \<noteq> []" for sent t s
  proof -
    have "typing_run kv_entry_at kv_redis unary_codec sent (now (quiet_env t)) s" using that(1) by (simp add: quiet_env_def)
    from tyr_publish [OF this router, of "\<lambda>_. False" 1 sample_typing "fst (sample_typed t s)" "fst (snd (sample_typed t s))" "snd (snd (sample_typed t s))"]
    show ?thesis using that(2) by (simp add: quiet_env_def)
  qed
  have "fst (snd ?first) \<noteq> []" by code_simp
  then have "typing_run kv_entry_at kv_redis unary_codec [(0, 1, sample_typing)] 0 (snd (snd ?first))" by (intro step tyr_start)
  then have "typing_run kv_entry_at kv_redis unary_codec [(0, 1, sample_typing)] (3 * second) (snd (snd ?first))" by (rule tyr_later) simp
  moreover have "fst (snd ?second) \<noteq> []" by code_simp
  ultimately have run: "typing_run kv_entry_at kv_redis unary_codec [(3 * second, 1, sample_typing), (0, 1, sample_typing)] (3 * second) (snd (snd ?second))"
    by (rule step)
  have "0 + 300 * millisecond \<le> 3 * second \<and> (event_chat sample_typing \<noteq> event_chat sample_typing \<or> 0 + 2 * second \<le> 3 * second)"
    by (rule typing_is_throttled [OF kv_redis_laws run, where i = 0 and j = 1]) simp_all
  with run show ?thesis by blast
qed

end
