(* ===== verification/Gateway_Stream.thy ===== *)
theory Gateway_Stream
  imports Message_Outbox
begin

text \<open>
  The stream between the message worker and the gateways: the publisher of \<^verbatim>\<open>src/internal/infrastructure/redis/redis_stream.go\<close>, the consumer of
  \<^verbatim>\<open>src/internal/websocket_gateway/stream/consumer.go\<close> and the leases of consumer groups in
  \<^verbatim>\<open>src/internal/websocket_gateway/stream/group_lifecycle.go\<close>. Instants are the server's, in milliseconds. Scripts run atomically. How many of the oldest
  entries the server trims with an \<open>XADD\<close> (\<open>MAXLEN ~\<close>) is the argument \<open>trim\<close>; an entry holds the event itself, not its JSON text.
\<close>

section \<open>Publishing\<close>

text \<open>What is remembered of published events: one entry, or a hash from events to entries for the events of one outbox row.\<close>

datatype dedupe = SingleEntry nat | FieldEntries "uuid \<Rightarrow> nat option"

record event_stream =
  es_entries :: "(nat \<times> message_event) list"
  es_next :: nat
  es_dedupe :: "uuid \<Rightarrow> (dedupe \<times> int) option"

datatype publish_error = PublishUnavailable | WrongType

definition xadd :: "(nat \<Rightarrow> nat) \<Rightarrow> message_event \<Rightarrow> event_stream \<Rightarrow> event_stream" where
  "xadd trim ev es = es\<lparr>es_entries := drop (trim (length (es_entries es))) (es_entries es) @ [(es_next es, ev)], es_next := Suc (es_next es)\<rparr>"

definition dedupe_at :: "int \<Rightarrow> event_stream \<Rightarrow> uuid \<Rightarrow> dedupe option" where
  "dedupe_at t es key = (case es_dedupe es key of Some (x, ex) \<Rightarrow> if t \<le> ex then Some x else None | None \<Rightarrow> None)"

text \<open>\<open>HGET\<close> and \<open>GET\<close> of a key of the other type are errors.\<close>

definition existing_entry :: "int \<Rightarrow> event_stream \<Rightarrow> uuid \<Rightarrow> uuid option \<Rightarrow> publish_error + nat option" where
  "existing_entry t es key field =
     (case (field, dedupe_at t es key) of
        (_, None) \<Rightarrow> Inr None
      | (Some f, Some (FieldEntries m)) \<Rightarrow> Inr (m f)
      | (None, Some (SingleEntry i)) \<Rightarrow> Inr (Some i)
      | _ \<Rightarrow> Inl WrongType)"

definition remember_entry :: "int \<Rightarrow> int \<Rightarrow> uuid \<Rightarrow> uuid option \<Rightarrow> nat \<Rightarrow> event_stream \<Rightarrow> event_stream" where
  "remember_entry t ttl key field i es =
     es\<lparr>es_dedupe := (es_dedupe es)(key :=
        Some (case field of
                None \<Rightarrow> SingleEntry i
              | Some f \<Rightarrow> FieldEntries ((case dedupe_at t es key of Some (FieldEntries m) \<Rightarrow> m | _ \<Rightarrow> (\<lambda>_. None))(f := Some i)), t + ttl))\<rparr>"

definition publishMessageEventScript :: "(nat \<Rightarrow> nat) \<Rightarrow> int \<Rightarrow> int \<Rightarrow> uuid \<Rightarrow> uuid option \<Rightarrow> message_event \<Rightarrow> event_stream \<Rightarrow> (publish_error + nat) \<times> event_stream" where
  "publishMessageEventScript trim t ttl key field ev es =
     (case existing_entry t es key field of
        Inl er \<Rightarrow> (Inl er, es)
      | Inr (Some i) \<Rightarrow> (Inr i, es)
      | Inr None \<Rightarrow> (Inr (es_next es), remember_entry t ttl key field (es_next es) (xadd trim ev es)))"

definition dedupe_key :: "message_event \<Rightarrow> uuid \<times> uuid option" where
  "dedupe_key ev = (if me_outbox_id ev \<noteq> uuid_Nil then (me_outbox_id ev, Some (me_id ev)) else (me_id ev, None))"

definition Publish :: "bool \<Rightarrow> (nat \<Rightarrow> nat) \<Rightarrow> int \<Rightarrow> int \<Rightarrow> event_stream \<Rightarrow> message_event \<Rightarrow> (publish_error + nat) \<times> event_stream" where
  "Publish broken trim t dedupeTTL es ev =
     (if broken then (Inl PublishUnavailable, es)
      else if me_id ev \<noteq> uuid_Nil
      then publishMessageEventScript trim t (dedupeTTL div 1000 * 1000) (fst (dedupe_key ev)) (snd (dedupe_key ev)) ev es
      else (Inr (es_next es), xadd trim ev es))"

section \<open>Consuming\<close>

definition maxRememberedRealtimeEvents :: nat where "maxRememberedRealtimeEvents = 10000"

record consumer =
  co_delivered :: "uuid set"
  co_order :: "uuid list"

definition NewConsumer :: consumer where
  "NewConsumer = \<lparr>co_delivered = {}, co_order = []\<rparr>"

definition wasDelivered :: "consumer \<Rightarrow> uuid \<Rightarrow> bool" where
  "wasDelivered c i \<longleftrightarrow> i \<in> co_delivered c"

definition rememberDelivered :: "consumer \<Rightarrow> uuid \<Rightarrow> consumer" where
  "rememberDelivered c i =
     (if i \<in> co_delivered c then c
      else let order = co_order c @ [i] in
           if length order > maxRememberedRealtimeEvents
           then \<lparr>co_delivered = insert i (co_delivered c) - {hd order}, co_order = tl order\<rparr>
           else \<lparr>co_delivered = insert i (co_delivered c), co_order = order\<rparr>)"

text \<open>
  What one call of \<open>Process\<close> meets: a message that cannot be decoded has no event; the delivery and the acknowledgement succeed or fail.
\<close>

datatype incoming = ReceiveFailed | Nothing | Incoming string "message_event option"

datatype process_result = ProcessError | ProcessOk

record processed =
  pc_result :: process_result
  pc_delivered :: "message_event option"
  pc_acked :: "string option"
  pc_consumer :: consumer

definition ack :: "bool \<Rightarrow> string \<Rightarrow> message_event option \<Rightarrow> consumer \<Rightarrow> processed" where
  "ack ackOk sid delivered c = \<lparr>pc_result = (if ackOk then ProcessOk else ProcessError), pc_delivered = delivered,
     pc_acked = (if ackOk then Some sid else None), pc_consumer = c\<rparr>"

definition stay :: "process_result \<Rightarrow> consumer \<Rightarrow> processed" where
  "stay r c = \<lparr>pc_result = r, pc_delivered = None, pc_acked = None, pc_consumer = c\<rparr>"

definition Process :: "consumer \<Rightarrow> incoming \<Rightarrow> (uuid \<Rightarrow> event \<Rightarrow> bool) \<Rightarrow> bool \<Rightarrow> processed" where
  "Process c inc deliver ackOk =
     (case inc of
        ReceiveFailed \<Rightarrow> stay ProcessError c
      | Nothing \<Rightarrow> stay ProcessOk c
      | Incoming sid None \<Rightarrow> ack ackOk sid None c
      | Incoming sid (Some ev) \<Rightarrow>
          if me_id ev \<noteq> uuid_Nil \<and> wasDelivered c (me_id ev) then ack ackOk sid None c
          else if \<not> deliver (me_target_user_id ev) (me_payload ev) then stay ProcessError c
          else ack ackOk sid (Some ev) (if me_id ev \<noteq> uuid_Nil then rememberDelivered c (me_id ev) else c))"

section \<open>Consumer groups\<close>

text \<open>The lease of a group is a key with the token of its owner; the groups are those of the stream.\<close>

record stream_groups =
  sg_lease :: "string \<Rightarrow> (string \<times> int) option"
  sg_groups :: "string list"
  sg_lock :: "(string \<times> int) option"

datatype lease_error = GroupUnavailable | ErrGroupLeaseOwned

definition groupLeaseTTL :: int where "groupLeaseTTL = 5 * 60 * 1000"
definition groupCleanupLockTTL :: int where "groupCleanupLockTTL = 30 * 1000"

definition live_key :: "int \<Rightarrow> (string \<times> int) option \<Rightarrow> string option" where
  "live_key t k = (case k of Some (v, ex) \<Rightarrow> if t \<le> ex then Some v else None | None \<Rightarrow> None)"

abbreviation (input) lease_owner :: "int \<Rightarrow> stream_groups \<Rightarrow> string \<Rightarrow> string option" where
  "lease_owner t sg g \<equiv> live_key t (sg_lease sg g)"

definition RefreshLease :: "bool \<Rightarrow> int \<Rightarrow> string \<Rightarrow> string \<Rightarrow> stream_groups \<Rightarrow> (lease_error + unit) \<times> stream_groups" where
  "RefreshLease broken t token grp sg =
     (if broken then (Inl GroupUnavailable, sg)
      else if lease_owner t sg grp \<notin> {None, Some token} then (Inl ErrGroupLeaseOwned, sg)
      else (Inr (), sg\<lparr>sg_lease := (sg_lease sg)(grp := Some (token, t + groupLeaseTTL))\<rparr>))"

definition ResetGroup :: "bool \<Rightarrow> int \<Rightarrow> string \<Rightarrow> string \<Rightarrow> stream_groups \<Rightarrow> (lease_error + unit) \<times> stream_groups" where
  "ResetGroup broken t token grp sg =
     (if broken then (Inl GroupUnavailable, sg)
      else if lease_owner t sg grp \<noteq> Some token then (Inl ErrGroupLeaseOwned, sg)
      else (Inr (), sg\<lparr>sg_groups := filter (\<lambda>g. g \<noteq> grp) (sg_groups sg)\<rparr>))"

definition CloseGroup :: "bool \<Rightarrow> int \<Rightarrow> string \<Rightarrow> string \<Rightarrow> stream_groups \<Rightarrow> (lease_error + unit) \<times> stream_groups" where
  "CloseGroup broken t token grp sg =
     (if broken then (Inl GroupUnavailable, sg)
      else if lease_owner t sg grp \<noteq> Some token then (Inr (), sg)
      else (Inr (), sg\<lparr>sg_groups := filter (\<lambda>g. g \<noteq> grp) (sg_groups sg), sg_lease := (sg_lease sg)(grp := None)\<rparr>))"

definition EnsureGroup :: "bool \<Rightarrow> string \<Rightarrow> stream_groups \<Rightarrow> (lease_error + unit) \<times> stream_groups" where
  "EnsureGroup broken grp sg =
     (if broken then (Inl GroupUnavailable, sg)
      else (Inr (), if grp \<in> set (sg_groups sg) then sg else sg\<lparr>sg_groups := sg_groups sg @ [grp]\<rparr>))"

definition destroyStaleGroupScript :: "int \<Rightarrow> string \<Rightarrow> stream_groups \<Rightarrow> stream_groups" where
  "destroyStaleGroupScript t grp sg =
     (if lease_owner t sg grp \<noteq> None then sg else sg\<lparr>sg_groups := filter (\<lambda>g. g \<noteq> grp) (sg_groups sg)\<rparr>)"

text \<open>
  The pass over the groups that were listed, each at its instant: it goes on only while the lock is still held, and a group of
  another prefix is skipped. The calls that fail are named by \<open>broken\<close> with the position in the list.
\<close>

fun cleanup_groups :: "(nat \<Rightarrow> int) \<Rightarrow> (nat \<Rightarrow> string \<Rightarrow> bool) \<Rightarrow> nat \<Rightarrow> string \<Rightarrow> string \<Rightarrow> string list \<Rightarrow> stream_groups \<Rightarrow> (lease_error + unit) \<times> stream_groups" where
  "cleanup_groups clock broken k token pre [] sg = (Inr (), sg)"
| "cleanup_groups clock broken k token pre (g # gs) sg =
     (if broken k ''refresh lock'' then (Inl GroupUnavailable, sg)
      else if live_key (clock k) (sg_lock sg) \<noteq> Some token then (Inr (), sg)
      else let sg = sg\<lparr>sg_lock := Some (token, clock k + groupCleanupLockTTL)\<rparr> in
        if \<not> prefix (pre @ ''-'') g then cleanup_groups clock broken (Suc k) token pre gs sg
        else if broken k ''destroy group'' then (Inl GroupUnavailable, sg)
        else cleanup_groups clock broken (Suc k) token pre gs (destroyStaleGroupScript (clock k) g sg))"

definition release_lock :: "int \<Rightarrow> string \<Rightarrow> stream_groups \<Rightarrow> stream_groups" where
  "release_lock t token sg = (if live_key t (sg_lock sg) = Some token then sg\<lparr>sg_lock := None\<rparr> else sg)"

definition CleanupStale :: "(nat \<Rightarrow> int) \<Rightarrow> (nat \<Rightarrow> string \<Rightarrow> bool) \<Rightarrow> string \<Rightarrow> string \<Rightarrow> stream_groups \<Rightarrow> (lease_error + unit) \<times> stream_groups" where
  "CleanupStale clock broken lockToken pre sg =
     (if broken 0 ''acquire lock'' then (Inl GroupUnavailable, sg)
      else if live_key (clock 0) (sg_lock sg) \<noteq> None then (Inr (), sg)
      else let sg = sg\<lparr>sg_lock := Some (lockToken, clock 0 + groupCleanupLockTTL)\<rparr>;
               n = length (sg_groups sg);
               (r, sg') = (if broken 0 ''list groups'' then (Inl GroupUnavailable, sg)
                           else cleanup_groups clock broken 1 lockToken pre (sg_groups sg) sg) in
        (r, if broken (Suc n) ''release lock'' then sg' else release_lock (clock (Suc n)) lockToken sg'))"

end
