(* ===== verification/Gateway_Stream_Laws.thy ===== *)
theory Gateway_Stream_Laws
  imports Gateway_Stream Samples
begin

text \<open>
  Publishing is idempotent while an event is remembered, a consumer does not deliver an event again until ten thousand others followed it and
  acknowledges nothing it did not deal with, and a consumer group with a lease is only removed by its owner.
\<close>

section \<open>Publishing\<close>

text \<open>The entry under which an event is remembered at an instant.\<close>

definition published_as :: "int \<Rightarrow> event_stream \<Rightarrow> message_event \<Rightarrow> nat \<Rightarrow> bool" where
  "published_as t es ev i \<longleftrightarrow> existing_entry t es (fst (dedupe_key ev)) (snd (dedupe_key ev)) = Inr (Some i)"

text \<open>Like \<open>published_as\<close>, with the instant at which it is forgotten.\<close>

definition remembered :: "int \<Rightarrow> event_stream \<Rightarrow> message_event \<Rightarrow> nat \<Rightarrow> bool" where
  "remembered till es ev i \<longleftrightarrow> (\<exists>x ex. es_dedupe es (fst (dedupe_key ev)) = Some (x, ex) \<and> till \<le> ex \<and>
     (case (snd (dedupe_key ev), x) of (Some f, FieldEntries m) \<Rightarrow> m f = Some i | (None, SingleEntry j) \<Rightarrow> j = i | _ \<Rightarrow> False))"

lemma remembered_published: "remembered till es ev i \<Longrightarrow> t < till \<Longrightarrow> published_as t es ev i"
  by (auto simp: remembered_def published_as_def existing_entry_def dedupe_at_def split: option.splits dedupe.splits)

lemma publish_known:
  "published_as t es ev i \<Longrightarrow> me_id ev \<noteq> uuid_Nil \<Longrightarrow> Publish False trim t ttl es ev = (Inr i, es)"
  by (simp add: Publish_def publishMessageEventScript_def published_as_def)

lemma publish_new:
  assumes "Publish False trim t ttl es ev = (Inr i, es')" and "me_id ev \<noteq> uuid_Nil"
  shows "published_as t es ev i \<and> es' = es \<or> remembered (t + ttl div 1000 * 1000) es' ev i"
  using assms
  by (auto simp: Publish_def publishMessageEventScript_def published_as_def remembered_def remember_entry_def xadd_def
      split: sum.splits option.splits)

lemma remembered_publish:
  assumes "remembered till es ev i" and "Publish broken trim t ttl es ev' = (r, es')" and "t < till" and "till \<le> t + ttl div 1000 * 1000"
  shows "remembered till es' ev i"
proof -
  let ?k = "fst (dedupe_key ev)" and ?k' = "fst (dedupe_key ev')" and ?f' = "snd (dedupe_key ev')"
  have "es_dedupe (xadd trim ev' es) = es_dedupe es" by (simp add: xadd_def)
  then have "es_dedupe es' = es_dedupe es \<or> existing_entry t es ?k' ?f' = Inr None \<and> es' = remember_entry t (ttl div 1000 * 1000) ?k' ?f' (es_next es) (xadd trim ev' es)"
    using assms(2) by (cases "existing_entry t es ?k' ?f'") (auto simp: Publish_def publishMessageEventScript_def split: if_splits option.splits)
  then consider "es_dedupe es' = es_dedupe es" | "existing_entry t es ?k' ?f' = Inr None" "es' = remember_entry t (ttl div 1000 * 1000) ?k' ?f' (es_next es) (xadd trim ev' es)"
    by blast
  then show ?thesis
  proof cases
    case 1
    then show ?thesis using assms(1) by (simp add: remembered_def)
  next
    case 2
    obtain x ex where x: "es_dedupe es ?k = Some (x, ex)" "till \<le> ex"
      "case (snd (dedupe_key ev), x) of (Some f, FieldEntries m) \<Rightarrow> m f = Some i | (None, SingleEntry j) \<Rightarrow> j = i | _ \<Rightarrow> False"
      using assms(1) by (auto simp: remembered_def)
    show ?thesis
    proof (cases "?k' = ?k")
      case False
      then show ?thesis using x by (auto simp: 2(2) remembered_def remember_entry_def xadd_def)
    next
      case True
      have at: "dedupe_at t es ?k = Some x" using x(1,2) assms(3) by (simp add: dedupe_at_def)
      then obtain m f' where m: "x = FieldEntries m" "?f' = Some f'" "m f' = None"
        using 2(1) by (auto simp: existing_entry_def True split: option.splits dedupe.splits)
      have "dedupe_at t (xadd trim ev' es) ?k = Some (FieldEntries m)" using at by (simp add: dedupe_at_def xadd_def m(1))
      then show ?thesis using x(3) m assms(4) by (auto simp: 2(2) remembered_def remember_entry_def True split: option.splits)
    qed
  qed
qed

inductive publishes :: "int \<Rightarrow> int \<Rightarrow> int \<Rightarrow> event_stream \<Rightarrow> int \<Rightarrow> event_stream \<Rightarrow> bool" for ttl till t es where
  publishes_none: "publishes ttl till t es t es"
| publishes_next: "publishes ttl till t es t1 es1 \<Longrightarrow> t1 \<le> t2 \<Longrightarrow> t2 < till \<Longrightarrow> Publish broken trim t2 ttl es1 ev = (r, es2) \<Longrightarrow> publishes ttl till t es t2 es2"

lemma remembered_publishes:
  assumes "publishes ttl till t es t' es'" and "remembered till es ev i" and "till \<le> t + ttl div 1000 * 1000"
  shows "t \<le> t' \<and> remembered till es' ev i"
  using assms
proof induction
  case (publishes_next t1 es1 t2 broken trim ev' r es2)
  then have "remembered till es1 ev i" "t \<le> t1" by simp_all
  then show ?case using remembered_publish [OF _ publishes_next.hyps(4,3)] publishes_next.hyps(2) publishes_next.prems(2) by auto
qed simp

text \<open>C24. A retried event is on the stream once: when an event with an identifier was added to the stream, then, whatever else is published meanwhile,
  publishing it again before its time to live has passed returns the same entry and leaves the stream as it is.
\<close>

theorem retried_publish_adds_nothing:
  assumes "Publish False trim t ttl es ev = (Inr i, es1)" and "me_id ev \<noteq> uuid_Nil" and "es1 \<noteq> es"
    and "publishes ttl (t + ttl div 1000 * 1000) t es1 t2 es2" and "t2 \<le> t3" and "t3 < t + ttl div 1000 * 1000"
  shows "Publish False trim2 t3 ttl es2 ev = (Inr i, es2)"
proof -
  have "remembered (t + ttl div 1000 * 1000) es1 ev i" using publish_new [OF assms(1,2)] assms(3) by blast
  then have "remembered (t + ttl div 1000 * 1000) es2 ev i" using remembered_publishes [OF assms(4)] by blast
  then show ?thesis using publish_known [OF remembered_published [OF _ assms(6)] assms(2)] by blast
qed

definition sample_stream_event :: "uuid \<Rightarrow> message_event" where
  "sample_stream_event k = \<lparr>me_trace_parent = [], me_id = k, me_outbox_id = 30, me_type = EventMessageDelete, me_message_id = 20, me_chat_id = 10, me_sender_id = 1,
     me_target_user_id = 2, me_payload = \<lparr>ev_type = EventMessageDelete, ev_payload = DeletedPayload 20, ev_meta = None\<rparr>\<rparr>"

definition sample_stream :: event_stream where
  "sample_stream = \<lparr>es_entries = [], es_next = 0, es_dedupe = (\<lambda>_. None)\<rparr>"

abbreviation (input) sample_published :: event_stream where
  "sample_published \<equiv> snd (Publish False (\<lambda>_. 0) 5 60000 sample_stream (sample_stream_event 7))"

abbreviation (input) sample_two_published :: event_stream where
  "sample_two_published \<equiv> snd (Publish False (\<lambda>_. 0) 6 60000 sample_published (sample_stream_event 8))"

theorem retried_publish_adds_nothing_witness:
  "Publish False (\<lambda>_. 0) 900 60000 sample_two_published (sample_stream_event 7) = (Inr 0, sample_two_published)"
proof (rule retried_publish_adds_nothing [where t = 5 and es = sample_stream and ?es1.0 = sample_published and trim = "\<lambda>_. 0" and ?t2.0 = 6])
  show "Publish False (\<lambda>_. 0) 5 60000 sample_stream (sample_stream_event 7) = (Inr 0, sample_published)"
    by (simp add: Publish_def publishMessageEventScript_def existing_entry_def dedupe_at_def dedupe_key_def sample_stream_def sample_stream_event_def)
  show "sample_published \<noteq> sample_stream"
    by (simp add: Publish_def publishMessageEventScript_def existing_entry_def dedupe_at_def dedupe_key_def sample_stream_def sample_stream_event_def
        remember_entry_def xadd_def)
  show "publishes 60000 (5 + 60000 div 1000 * 1000) 5 sample_published 6 sample_two_published"
    by (rule publishes_next [OF publishes_none, where broken = False and trim = "\<lambda>_. 0" and ev = "sample_stream_event 8"
        and r = "fst (Publish False (\<lambda>_. 0) 6 60000 sample_published (sample_stream_event 8))"]) simp_all
qed (simp_all add: sample_stream_event_def)

section \<open>Consuming\<close>

definition consumer_ok :: "uuid list \<Rightarrow> consumer \<Rightarrow> bool" where
  "consumer_ok ids c \<longleftrightarrow> co_order c = drop (length ids - maxRememberedRealtimeEvents) ids \<and> co_delivered c = set (co_order c) \<and> distinct (co_order c)"

lemma remember_ok:
  assumes "consumer_ok ids c" and "i \<notin> co_delivered c"
  shows "consumer_ok (ids @ [i]) (rememberDelivered c i)"
proof -
  let ?M = maxRememberedRealtimeEvents
  note ok = assms(1) [unfolded consumer_ok_def]
  have new: "i \<notin> set (co_order c)" using assms ok by simp
  show ?thesis
  proof (cases "length (co_order c @ [i]) > ?M")
    case True
    then have len: "length ids \<ge> ?M" "length (co_order c) = ?M" using ok by auto
    have pos: "0 < ?M" by (simp add: maxRememberedRealtimeEvents_def)
    obtain x xs where xs: "co_order c = x # xs" using len(2) pos by (cases "co_order c") auto
    have "drop (length (ids @ [i]) - ?M) (ids @ [i]) = tl (drop (length ids - ?M) ids) @ [i]"
      using len(1) pos by (simp add: Suc_diff_le drop_Suc drop_tl)
    moreover have "distinct (x # xs)" "i \<notin> set (x # xs)" "co_delivered c = set (x # xs)" "tl (drop (length ids - ?M) ids) = xs"
      using ok new xs by (metis, metis, metis, metis list.sel(3))
    ultimately show ?thesis using assms(2) xs True by (auto simp: consumer_ok_def rememberDelivered_def)
  next
    case False
    then have "length ids < ?M" using ok by auto
    then show ?thesis using ok new assms(2) False by (auto simp: consumer_ok_def rememberDelivered_def Let_def)
  qed
qed

text \<open>The identifiers of the events that were delivered, oldest first.\<close>

inductive consumed :: "consumer \<Rightarrow> uuid list \<Rightarrow> bool" where
  consumed_none: "consumed NewConsumer []"
| consumed_next: "consumed c ids \<Longrightarrow> out = Process c inc deliver ackOk \<Longrightarrow>
    consumed (pc_consumer out) (case pc_delivered out of None \<Rightarrow> ids | Some ev \<Rightarrow> if me_id ev = uuid_Nil then ids else ids @ [me_id ev])"

lemma Process_delivered:
  assumes "pc_delivered (Process c inc deliver ackOk) = Some ev"
  shows "me_id ev \<noteq> uuid_Nil \<Longrightarrow> me_id ev \<notin> co_delivered c"
    and "pc_consumer (Process c inc deliver ackOk) = (if me_id ev \<noteq> uuid_Nil then rememberDelivered c (me_id ev) else c)"
  using assms by (auto simp: Process_def ack_def stay_def wasDelivered_def split: incoming.splits option.splits if_splits)

lemma Process_undelivered: "pc_delivered (Process c inc deliver ackOk) = None \<Longrightarrow> pc_consumer (Process c inc deliver ackOk) = c"
  by (auto simp: Process_def ack_def stay_def split: incoming.splits option.splits if_splits)

lemma consumed_ok: "consumed c ids \<Longrightarrow> consumer_ok ids c"
proof (induction rule: consumed.induct)
  case (consumed_next c ids out inc deliver ackOk)
  show ?case
  proof (cases "pc_delivered out")
    case None
    then show ?thesis using consumed_next Process_undelivered by simp
  next
    case (Some ev)
    then have "pc_delivered (Process c inc deliver ackOk) = Some ev" using consumed_next.hyps(2) by simp
    from Process_delivered [OF this] show ?thesis using Some consumed_next remember_ok by simp
  qed
qed (simp add: consumer_ok_def NewConsumer_def)

lemma spread_append:
  assumes "\<forall>i j. i < j \<and> j < length ids \<and> ids ! i = ids ! j \<longrightarrow> M < j - i" and "x \<notin> set (drop (length ids - M) ids)"
  shows "\<forall>i j. i < j \<and> j < length (ids @ [x]) \<and> (ids @ [x]) ! i = (ids @ [x]) ! j \<longrightarrow> M < j - i"
proof (intro allI impI)
  fix i j
  assume h: "i < j \<and> j < length (ids @ [x]) \<and> (ids @ [x]) ! i = (ids @ [x]) ! j"
  show "M < j - i"
  proof (cases "j < length ids")
    case True
    then show ?thesis using h assms(1) by (auto simp: nth_append)
  next
    case False
    then have j: "j = length ids" "ids ! i = x" "i < length ids" using h by (auto simp: nth_append)
    show ?thesis
    proof (rule ccontr)
      assume "\<not> M < j - i"
      then have "length ids - M \<le> i" using j(1) by linarith
      then have "ids ! i \<in> set (drop (length ids - M) ids)" using j(3) nth_mem [of "i - (length ids - M)" "drop (length ids - M) ids"] by simp
      then show False using assms(2) j(2) by simp
    qed
  qed
qed

lemma consumed_spread:
  assumes "consumed c ids"
  shows "\<forall>i j. i < j \<and> j < length ids \<and> ids ! i = ids ! j \<longrightarrow> maxRememberedRealtimeEvents < j - i"
  using assms
proof (induction rule: consumed.induct)
  case (consumed_next c ids out inc deliver ackOk)
  show ?case
  proof (cases "\<exists>ev. pc_delivered out = Some ev \<and> me_id ev \<noteq> uuid_Nil")
    case True
    then obtain ev where ev: "pc_delivered out = Some ev" "me_id ev \<noteq> uuid_Nil" by blast
    then have "me_id ev \<notin> co_delivered c" using consumed_next.hyps(2) Process_delivered(1) by blast
    then have "me_id ev \<notin> set (drop (length ids - maxRememberedRealtimeEvents) ids)"
      using consumed_ok [OF consumed_next.hyps(1)] by (simp add: consumer_ok_def)
    from spread_append [OF consumed_next.IH this] show ?thesis using ev by simp
  next
    case False
    then show ?thesis using consumed_next.IH by (auto split: option.splits)
  qed
qed simp

text \<open>Where equal elements are far apart, there are many different ones between two of them.\<close>

lemma spread_between:
  assumes "\<forall>i j. i < j \<and> j < length ids \<and> ids ! i = ids ! j \<longrightarrow> M < j - i" and "i < j" and "j < length ids" and "ids ! i = ids ! j"
  shows "M \<le> card (set (drop (Suc i) (take j ids)) - {ids ! i})"
proof -
  let ?w = "take M (drop (Suc i) ids)"
  have far: "M < j - i" using assms by blast
  have len: "length ?w = M" using far assms(3) by simp
  have nth: "?w ! k = ids ! (Suc i + k)" if "k < M" for k using that far assms(3) by simp
  have dist: "distinct ?w" unfolding distinct_conv_nth len
  proof (intro allI impI)
    fix k l
    assume kl: "k < M" "l < M" "k \<noteq> l"
    have far': "i + M < j" using far by linarith
    have "ids ! (Suc i + k) \<noteq> ids ! (Suc i + l)"
    proof
      assume eq: "ids ! (Suc i + k) = ids ! (Suc i + l)"
      have "M < (Suc i + max k l) - (Suc i + min k l)"
        using assms(1) [rule_format, of "Suc i + min k l" "Suc i + max k l"] kl eq far' assms(3) by (auto simp: min_def max_def split: if_splits)
      then show False using kl by (simp add: min_def max_def split: if_splits)
    qed
    then show "?w ! k \<noteq> ?w ! l" using kl nth by simp
  qed
  have "ids ! i \<notin> set ?w"
  proof
    assume "ids ! i \<in> set ?w"
    then obtain k where k: "k < M" "ids ! i = ids ! (Suc i + k)" using nth len by (metis in_set_conv_nth)
    moreover have "Suc i + k < length ids" using k(1) far assms(3) by linarith
    ultimately have "M < Suc i + k - i" using assms(1) [rule_format, of i "Suc i + k"] by simp
    then show False using k(1) by simp
  qed
  moreover have "set ?w \<subseteq> set (drop (Suc i) (take j ids))"
    using far set_take_subset_set_take [of M "j - Suc i" "drop (Suc i) ids"] by (simp add: drop_take)
  ultimately have "set ?w \<subseteq> set (drop (Suc i) (take j ids)) - {ids ! i}" by blast
  then have "card (set ?w) \<le> card (set (drop (Suc i) (take j ids)) - {ids ! i})" by (intro card_mono) auto
  then show ?thesis using distinct_card [OF dist] len by simp
qed

text \<open>C25. For events that have an identifier (the nil one is not remembered): however often the stream hands out a message again, and whichever deliveries
  and acknowledgements fail, the consumer of a gateway delivers an event a second time, while it lives, only after it has delivered at least ten thousand different other ones in between; an event among the
  last ten thousand delivered is only acknowledged, not delivered, and changes nothing.
\<close>

theorem redelivery_is_suppressed:
  assumes "consumed c ids"
  shows "(\<forall>i j. i < j \<and> j < length ids \<and> ids ! i = ids ! j \<longrightarrow> 10000 \<le> card (set (drop (Suc i) (take j ids)) - {ids ! i})) \<and>
    (\<forall>sid ev deliver. me_id ev \<noteq> uuid_Nil \<and> me_id ev \<in> set (drop (length ids - 10000) ids) \<longrightarrow>
       Process c (Incoming sid (Some ev)) deliver True = \<lparr>pc_result = ProcessOk, pc_delivered = None, pc_acked = Some sid, pc_consumer = c\<rparr> \<and>
       Process c (Incoming sid (Some ev)) deliver False = \<lparr>pc_result = ProcessError, pc_delivered = None, pc_acked = None, pc_consumer = c\<rparr>)"
proof (intro conjI allI impI; elim conjE)
  fix i j
  assume "i < j" "j < length ids" "ids ! i = ids ! j"
  from spread_between [OF consumed_spread [OF assms] this] show "10000 \<le> card (set (drop (Suc i) (take j ids)) - {ids ! i})"
    by (simp add: maxRememberedRealtimeEvents_def)
next
  fix sid :: string and ev :: message_event and deliver
  assume ev: "me_id ev \<noteq> uuid_Nil" "me_id ev \<in> set (drop (length ids - 10000) ids)"
  then have "wasDelivered c (me_id ev)"
    using consumed_ok [OF assms] by (simp add: consumer_ok_def wasDelivered_def maxRememberedRealtimeEvents_def)
  with ev(1) show "Process c (Incoming sid (Some ev)) deliver True = \<lparr>pc_result = ProcessOk, pc_delivered = None, pc_acked = Some sid, pc_consumer = c\<rparr>"
    and "Process c (Incoming sid (Some ev)) deliver False = \<lparr>pc_result = ProcessError, pc_delivered = None, pc_acked = None, pc_consumer = c\<rparr>"
    by (simp_all add: Process_def ack_def)
qed

text \<open>Event 7 is delivered and its acknowledgement fails; event 8 is delivered; then the stream hands out event 7 again.\<close>

theorem redelivery_is_suppressed_witness:
  "\<exists>c. consumed c [7, 8] \<and> Process c (Incoming ''x'' (Some (sample_stream_event 7))) (\<lambda>_ _. True) True =
     \<lparr>pc_result = ProcessOk, pc_delivered = None, pc_acked = Some ''x'', pc_consumer = c\<rparr>"
proof -
  let ?go = "\<lambda>c k. Process c (Incoming ''x'' (Some (sample_stream_event k))) (\<lambda>_ _. True) False"
  have "consumed (pc_consumer (?go NewConsumer 7)) [7]"
    using consumed_next [OF consumed_none refl, of "Incoming ''x'' (Some (sample_stream_event 7))" "\<lambda>_ _. True" False]
    by (simp add: Process_def ack_def wasDelivered_def NewConsumer_def sample_stream_event_def)
  from consumed_next [OF this refl, of "Incoming ''x'' (Some (sample_stream_event 8))" "\<lambda>_ _. True" False]
  have run: "consumed (pc_consumer (?go (pc_consumer (?go NewConsumer 7)) 8)) [7, 8]"
    by (simp add: Process_def ack_def wasDelivered_def NewConsumer_def sample_stream_event_def rememberDelivered_def maxRememberedRealtimeEvents_def)
  have "me_id (sample_stream_event 7) \<noteq> uuid_Nil \<and> me_id (sample_stream_event 7) \<in> set (drop (length [7, 8 :: uuid] - 10000) [7, 8])"
    by (simp add: sample_stream_event_def)
  with redelivery_is_suppressed [OF run] run show ?thesis by blast
qed

text \<open>A message is acknowledged only when it cannot be decoded, was delivered by this call or was delivered before.\<close>

theorem acknowledged_is_settled:
  assumes "pc_acked (Process c inc deliver ackOk) = Some sid"
  shows "\<exists>x. inc = Incoming sid x \<and> (case x of None \<Rightarrow> True | Some ev \<Rightarrow> pc_delivered (Process c inc deliver ackOk) = Some ev \<or> me_id ev \<in> co_delivered c)"
  using assms by (auto simp: Process_def ack_def stay_def wasDelivered_def split: incoming.splits option.splits if_splits)

section \<open>Consumer groups\<close>

lemma destroy_keeps:
  "lease_owner t sg g \<noteq> None \<Longrightarrow> g \<in> set (sg_groups sg) \<Longrightarrow> g \<in> set (sg_groups (destroyStaleGroupScript t h sg))"
  by (auto simp: destroyStaleGroupScript_def)

lemma destroy_lease [simp]: "sg_lease (destroyStaleGroupScript t h sg) = sg_lease sg"
  by (simp add: destroyStaleGroupScript_def)

lemma cleanup_groups_keeps:
  assumes "cleanup_groups clock broken k token pre gs sg = (r, sg')" and "g \<in> set (sg_groups sg)" and "\<And>n. lease_owner (clock n) sg g \<noteq> None"
  shows "g \<in> set (sg_groups sg') \<and> sg_lease sg' = sg_lease sg"
  using assms
proof (induction clock broken k token pre gs sg arbitrary: r sg' rule: cleanup_groups.induct)
  case (2 clock broken k token pre h gs sg)
  let ?sg = "sg\<lparr>sg_lock := Some (token, clock k + groupCleanupLockTTL)\<rparr>"
  have kept: "g \<in> set (sg_groups (destroyStaleGroupScript (clock k) h ?sg))" using 2(4,5) by (intro destroy_keeps) simp_all
  show ?case
  proof (cases "broken k ''refresh lock'' \<or> live_key (clock k) (sg_lock sg) \<noteq> Some token")
    case True
    then show ?thesis using 2(3,4) by (auto split: if_splits)
  next
    case held: False
    show ?thesis
    proof (cases "prefix (pre @ ''-'') h")
      case False
      then show ?thesis using held 2(3-5) 2(1) [of ?sg r sg'] by simp
    next
      case True
      then show ?thesis using held 2(3-5) 2(2) [of ?sg r sg'] kept by (auto simp: Let_def split: if_splits)
    qed
  qed
qed simp

lemma CleanupStale_keeps:
  assumes "CleanupStale clock broken token pre sg = (r, sg')" and "g \<in> set (sg_groups sg)" and "\<And>n. lease_owner (clock n) sg g \<noteq> None"
  shows "g \<in> set (sg_groups sg') \<and> sg_lease sg' = sg_lease sg"
proof -
  let ?sg = "sg\<lparr>sg_lock := Some (token, clock 0 + groupCleanupLockTTL)\<rparr>"
  have release: "sg_groups (release_lock t token x) = sg_groups x" "sg_lease (release_lock t token x) = sg_lease x" for t x
    by (simp_all add: release_lock_def)
  obtain r1 sg1 where pass: "cleanup_groups clock broken 1 token pre (sg_groups sg) ?sg = (r1, sg1)" by (metis prod.exhaust)
  have "g \<in> set (sg_groups sg1) \<and> sg_lease sg1 = sg_lease sg" using cleanup_groups_keeps [OF pass] assms(2,3) by simp
  then show ?thesis using assms(1,2) pass by (auto simp: CleanupStale_def Let_def release split: if_splits)
qed

text \<open>What the processes do with their own groups and with stale ones.\<close>

inductive group_step :: "string \<Rightarrow> string \<Rightarrow> int \<Rightarrow> stream_groups \<Rightarrow> stream_groups \<Rightarrow> bool" for token g t where
  step_refresh: "tok \<noteq> token \<Longrightarrow> RefreshLease broken t tok h sg = (r, sg') \<Longrightarrow> group_step token g t sg sg'"
| step_reset: "tok \<noteq> token \<Longrightarrow> ResetGroup broken t tok h sg = (r, sg') \<Longrightarrow> group_step token g t sg sg'"
| step_close: "tok \<noteq> token \<Longrightarrow> CloseGroup broken t tok h sg = (r, sg') \<Longrightarrow> group_step token g t sg sg'"
| step_ensure: "EnsureGroup broken h sg = (r, sg') \<Longrightarrow> group_step token g t sg sg'"
| step_cleanup: "(\<And>n. clock n \<le> t) \<Longrightarrow> CleanupStale clock fails lockToken pre sg = (r, sg') \<Longrightarrow> group_step token g t sg sg'"

text \<open>A lease that lives at an instant lived before, since it was not renewed meanwhile.\<close>

lemma live_before: "live_key t k \<noteq> None \<Longrightarrow> t' \<le> t \<Longrightarrow> live_key t' k = live_key t k"
  by (auto simp: live_key_def split: option.splits if_splits)

text \<open>C29. A consumer group whose lease lives is not taken away: no process with another token resets, closes or takes over the group, and no
  cleanup destroys it, as long as the lease is alive when the step ends.
\<close>

theorem leased_group_is_safe:
  assumes "group_step token g t sg sg'" and "lease_owner t sg g = Some token" and "g \<in> set (sg_groups sg)"
  shows "g \<in> set (sg_groups sg') \<and> lease_owner t sg' g = Some token"
  using assms(1)
proof cases
  case (step_cleanup clock fails lockToken pre r)
  have "lease_owner (clock n) sg g \<noteq> None" for n
    using live_before [of t "sg_lease sg g" "clock n"] assms(2) step_cleanup(1) by simp
  then show ?thesis using CleanupStale_keeps [OF step_cleanup(2) assms(3)] assms(2) by simp
qed (use assms(2,3) in \<open>auto simp: RefreshLease_def ResetGroup_def CloseGroup_def EnsureGroup_def split: if_splits\<close>)

definition sample_stream_groups :: stream_groups where
  "sample_stream_groups = \<lparr>sg_lease = [''realtime-a'' \<mapsto> (''x'', 900)], sg_groups = [''realtime-a'', ''realtime-b''], sg_lock = None\<rparr>"

abbreviation (input) sample_cleaned :: "(lease_error + unit) \<times> stream_groups" where
  "sample_cleaned \<equiv> CleanupStale (\<lambda>_. 5) (\<lambda>_ _. False) ''l'' ''realtime'' sample_stream_groups"

theorem leased_group_is_safe_witness:
  "''realtime-a'' \<in> set (sg_groups (snd sample_cleaned)) \<and> lease_owner 5 (snd sample_cleaned) ''realtime-a'' = Some ''x''"
proof (rule leased_group_is_safe)
  show "group_step ''x'' ''realtime-a'' 5 sample_stream_groups (snd sample_cleaned)"
    by (rule step_cleanup [where clock = "\<lambda>_. 5" and r = "fst sample_cleaned"]) simp_all
  show "lease_owner 5 sample_stream_groups ''realtime-a'' = Some ''x''" by (simp add: sample_stream_groups_def live_key_def)
  show "''realtime-a'' \<in> set (sg_groups sample_stream_groups)" by (simp add: sample_stream_groups_def)
qed

end
