(* ===== verification/Spec2Isabelle.thy ===== *)
theory Spec2Isabelle
  imports Helper_Laws Push_Worker Message_Worker Group_Properties Message_Properties Page_Laws Private_Chat_Laws Chat_Views Chat_List_Laws
    Otp_Laws Account_Laws User_Laws Cleanup_Properties Admin_Laws Evidence_Laws
    Media_Laws Push_Registration_Laws Group_Search_Laws Gateway_Session_Laws Gateway_Stream_Laws
begin

text \<open>
  A verification library for the chat backend under \<^verbatim>\<open>src/\<close> (package AtoiTalkAPI).

  \<^bold>\<open>The program.\<close> An HTTP API changes a Postgres database through services
  (\<^verbatim>\<open>src/internal/api/application\<close>) and keeps sessions, one-time codes, sign-in states and rate limits in Redis.
  Every message, also the system messages of groups, is written in one transaction with a row of the message
  outbox. The message worker (\<^verbatim>\<open>src/internal/message_worker\<close>) claims outbox rows under a lease, projects them
  (last message of the chat, unread counters, push deliveries), builds one event per recipient, publishes the
  events on a Redis stream and settles the row. The push worker (\<^verbatim>\<open>src/internal/push_worker\<close>) claims push
  deliveries in the same way and hands notifications to the provider. The websocket gateways
  (\<^verbatim>\<open>src/internal/websocket_gateway\<close>) read the stream and a live channel, deliver to the connections of a user, keep
  presence in Redis and route typing events. Scheduled jobs (\<^verbatim>\<open>src/internal/scheduler/job\<close>) remove what is no longer
  needed.

  \<^bold>\<open>How it is modelled.\<close> Identifiers are natural numbers, instants and durations integers in
  nanoseconds, Go strings lists of bytes. A table is the list of its rows, the database the record \<open>db\<close> of
  the tables (\<open>Schema\<close>, one record per file of \<^verbatim>\<open>src/ent/schema\<close>). A handler is a function from an
  environment (one clock reading, the identifiers it draws, the call sites at which the driver fails) and a
  database to a sum: \<open>Inl\<close> the error it returns, the transaction being rolled back, or \<open>Inr\<close> the response,
  the events it broadcasts and the new database; handlers that write to Redis also return its state.

  \<^bold>\<open>Interleaving.\<close> A handler is one step of the database. Where the code reads outside of a transaction or without
  a lock what it later relies on, and a theorem is about runs, the reads get a database of their own: \<open>ProjectFrom\<close> (the outbox row),
  \<open>GoogleExchangeFrom\<close> (the account of a sign-in), \<open>CreatePrivateChat\<close> (its checks), \<open>DeleteAccount\<close> (the owned groups) and \<open>Upsert\<close> (the
  registered device) take the state that was read beside the state that is written, and the step relations allow any state
  for it. \<open>Project\<close> and \<open>GoogleExchange\<close> are these functions when nothing happens in between.

  \<^bold>\<open>Parameters.\<close> What is not under \<^verbatim>\<open>src/\<close>, or random, is an argument, with what the program relies on as a
  named hypothesis: the Redis client (\<open>redis_client\<close>, \<open>redis_laws\<close>), signing and parsing of tokens (\<open>jwt_library\<close>, \<open>jwt_laws\<close>),
  the digests, bcrypt, the request validator, lower case and the collation of the database, the texts of identifiers
  and instants (\<open>uuid_codec\<close>, \<open>time_codec\<close>), the object store and its links, the captcha, mail and the endpoints of
  Google, the push provider, the random strings, the name-based UUIDs of events, and how many entries of a
  stream the server trims.

  \<^bold>\<open>The theories.\<close>
  \<^item> \<open>Prelude\<close>: results (\<open>and_then\<close>, \<open>fail_if\<close>, \<open>on_err\<close>), the query terminals of the entity client, tables
    as lists, shared lemmas.
  \<^item> \<open>Helpers\<close>, \<open>Cursor\<close>, \<open>Text_Helpers\<close>: \<^verbatim>\<open>src/internal/domain/helper\<close> (errors, UUID lists, retry and
    backoff, cursors with their base64, user names, addresses, revocation markers). \<open>Helper_Laws\<close>: their
    round trips, normal forms and bounds.
  \<^item> \<open>Schema\<close>, \<open>Message_Mapper\<close>, \<open>Realtime_Query\<close>: the tables, \<open>ToMessageResponse\<close>, and the member and block
    lookups of \<^verbatim>\<open>src/internal/infrastructure/database\<close>. \<open>Realtime_Publisher\<close>: to whom live events go.
  \<^item> \<open>Message_Outbox\<close>: \<^verbatim>\<open>src/internal/messaging\<close>, writing outbox rows. \<open>Samples\<close>: concrete rows.
  \<^item> \<open>Lease\<close>: the contract of tables processed under a lease as the locale \<open>lease_table\<close>; \<open>Push_Store\<close> and
    \<open>Outbox_Store\<close> interpret it on the push deliveries and on the outbox.
  \<^item> \<open>Outbox_Store\<close>: \<^verbatim>\<open>src/internal/message_worker/ent_store.go\<close>. \<open>Outbox_Laws\<close>: claims are in chat order,
    exclusive and make progress, stale workers are fenced, rows settle and project once, and runs of the
    store, with projections that are overtaken, keep the table well formed. \<open>Projection_Laws\<close>: projection refines the delivery of a message to an
    abstract unread state, targets and contents of events, and what an overtaken projection does to the counters.
  \<^item> \<open>Message_Worker\<close>: \<^verbatim>\<open>src/internal/message_worker/worker.go\<close>, over the locale \<open>outbox_store\<close>, which is
    interpreted on the store of \<open>Outbox_Store\<close>.
  \<^item> \<open>Push_Store\<close>, \<open>Push_Preview\<close>, \<open>Push_Worker\<close>: \<^verbatim>\<open>src/internal/push_worker\<close>; recipients, idempotence,
    settlement, and that nothing is sent which is no longer allowed. \<open>Push_Registration\<close>: the registration of
    devices and the preferences; \<open>Push_Registration_Laws\<close>: what they mean for the push worker.
  \<^item> \<open>Message_Service\<close>, \<open>Message_Pages\<close>: sending, editing, deleting and reading messages. \<open>Message_Laws\<close> and
    \<open>Message_Properties\<close>: who may do so and what changes. \<open>Paging\<close>: the locale \<open>paged_reader\<close> of everything that is
    read page by page, with the client that follows the cursors (\<open>walk\<close>); \<open>Page_Laws\<close> interprets it on \<open>GetMessages\<close>.
  \<^item> \<open>Chat_Mapper\<close>, \<open>Chat_Repository\<close>, \<open>Chat_Service\<close>, \<open>Private_Chat\<close>: the handlers of
    \<^verbatim>\<open>src/internal/api/application/chat\<close>. \<open>Chat_Laws\<close>, \<open>Private_Chat_Laws\<close>: reading and hiding against the abstract
    unread state, also when projections come late, and one private chat per pair. \<open>Chat_Views\<close>, \<open>Chat_List_Laws\<close>: what
    a user sees of chats, and that the chat list is a \<open>paged_reader\<close>.
  \<^item> \<open>Group_Common\<close>, \<open>Group_Members\<close>, \<open>Group_Chats\<close>: the handlers of
    \<^verbatim>\<open>src/internal/api/application/group\<close>. \<open>Group_Laws\<close>: what each successful handler did, and the invariant
    of the memberships. \<open>Group_Properties\<close>: the theorems. \<open>Search_Pages\<close>: the locale \<open>keyset_search\<close> of the searches that
    continue after the key of the last row, a \<open>paged_reader\<close>; \<open>Group_Search\<close> and \<open>Group_Search_Laws\<close>: the searches of members
    and public groups as instances of it, and which listed groups can be joined.
  \<^item> \<open>Redis_Store\<close>, \<open>Session_Store\<close>, \<open>Rate_Limit\<close>: what Redis documents, the revocation of sessions and the
    fixed-window limiter with its middleware.
  \<^item> \<open>Otp_Service\<close>, \<open>Account_Service\<close>, \<open>Auth_Service\<close>, \<open>Google_Sign_In\<close>: \<^verbatim>\<open>src/internal/api/application/auth\<close> and
    \<^verbatim>\<open>account\<close>. \<open>Otp_Laws\<close>, \<open>Auth_Laws\<close>, \<open>Account_Laws\<close>, \<open>Google_Laws\<close>: codes and states are used once, changes of
    credentials, logout and deletion end sessions, what the cache of identities may still answer, and which account a
    sign-in enters.
  \<^item> \<open>User_Service\<close>, \<open>User_Laws\<close>: profiles, searches and blocks; blocking refines a set of pairs and silences both sides until it is lifted.
  \<^item> \<open>Report_Service\<close>, \<open>Admin_Service\<close>, \<open>Admin_Views\<close>: reports and the handlers of administrators. \<open>Admin_Laws\<close>,
    \<open>Evidence_Laws\<close>: bans end access, and the evidence of a report survives.
  \<^item> \<open>Media_Service\<close>, \<open>Media_Laws\<close>: uploads and their links; rows stay well formed, and links go to readers only.
  \<^item> \<open>Cleanup\<close>, \<open>Cleanup_Laws\<close>, \<open>Cleanup_Properties\<close>: the scheduled jobs over the locales \<open>sweep_loop\<close> and \<open>row_sweep\<close>; they
    end, and remove exactly what is due.
  \<^item> \<open>Gateway_Presence\<close>, \<open>Gateway_Presence_Laws\<close>: presence refines the set of the instances with a live lease.
    \<open>Gateway_Connections\<close>: the connections of an instance and their interleaving with presence. \<open>Gateway_Stream\<close>,
    \<open>Gateway_Stream_Laws\<close>: publishing and consuming events once, and the leases of consumer groups. \<open>Gateway_Session\<close>,
    \<open>Gateway_Session_Laws\<close>: the handshake agrees with the API on tokens, logout closes sockets, typing is throttled.

  \<^bold>\<open>Bounds.\<close> Loops over lists recurse over them. The loop of the cleanup jobs (\<open>sweep\<close>) is a partial function, and that it
  returns is a theorem. The client \<open>walk\<close> has fuel; more fuel than the table has rows always suffices, and the
  theorems say that the walk then returns. \<open>MaxGroupMembers\<close>, the lifetimes and the throttles are the constants of the program. Durations
  wrap at 64 bits where they are computed.

  \<^bold>\<open>Not modelled.\<close> The generated entity client (its effect on the tables is; foreign keys are where rows are deleted), the JSON
  text of events, logging, metrics and tracing spans; the goroutines, timers and tickers of the workers' and
  gateways' outer loops and the pumps of a socket, which repeat the modelled steps; the reading side of the Redis
  stream; HTTP controllers and routes beside the middleware, configuration, and the adapters of external services,
  which only call them. Groups of a batch the message worker runs concurrently are run in an arbitrary order.
  A handler reads the clock once.
\<close>

end
